(* ===== verification/Rzb_Prelude.thy ===== *)
theory Rzb_Prelude
  imports Main "HOL-Library.Monad_Syntax" "HOL-Library.Word"
begin

unbundle bit_operations_syntax

text \<open>
  Shared vocabulary of the development: the machine types of the C sources, the C library
  functions the sources call (\<open>memcmp\<close>, \<open>strcmp\<close>, size arithmetic), the treatment of undefined
  behaviour, and the generic list and map lemmas the component theories use.

  An operation that follows pointers returns an \<open>option\<close>: \<^term>\<open>None\<close> stands for a run without a
  defined outcome (a null or dangling pointer is followed, freed memory is read, memory is freed
  twice, a loop does not end). A theorem that an operation returns \<^term>\<open>Some\<close> therefore is a
  memory-safety and termination theorem.
\<close>

named_theorems rep_intros \<open>introduction rules for representation relations\<close>
named_theorems rep_simps \<open>simplification rules for representation relations\<close>

section \<open>Machine types\<close>

type_synonym addr = nat
type_synonym byte = "8 word"
type_synonym bytes = "byte list"
type_synonym u32 = "32 word"
type_synonym u64 = "64 word"

text \<open>
  A \<open>uuid_t\<close> is an array of sixteen bytes. The functions of libuuid (\<open>uuid_compare\<close>,
  \<open>uuid_parse\<close>, \<open>uuid_unparse\<close>, \<open>uuid_is_null\<close>) are parameters of the definitions that call them.
\<close>
type_synonym uuid = "bytes"

text \<open>
  What the sources rely on of \<open>uuid_compare\<close>: it returns 0 for equal identifiers only
  (uuid\_compare(3)).
\<close>
definition uuid_compare_ok :: "(uuid \<Rightarrow> uuid \<Rightarrow> int) \<Rightarrow> bool" where
  "uuid_compare_ok uc \<longleftrightarrow> (\<forall>a b. uc a b = 0 \<longleftrightarrow> a = b)"

lemma uuid_compare_okD [simp]: "uuid_compare_ok uc \<Longrightarrow> uc a b = 0 \<longleftrightarrow> a = b"
  by (simp add: uuid_compare_ok_def)

text \<open>A comparison of the documented kind, used to instantiate the parameter in examples.\<close>
definition uuid_compare_ref :: "uuid \<Rightarrow> uuid \<Rightarrow> int" where
  "uuid_compare_ref a b = (if a = b then 0 else 1)"

lemma uuid_compare_ref_ok: "uuid_compare_ok uuid_compare_ref"
  by (simp add: uuid_compare_ok_def uuid_compare_ref_def)

section \<open>C arithmetic\<close>

text \<open>Decrement of a \<open>size_t\<close>: 0 wraps to the largest value.\<close>
definition dec_size :: "nat \<Rightarrow> nat" where
  "dec_size n = (if n = 0 then 2 ^ 64 - 1 else n - 1)"

lemma dec_size_Suc [simp]: "dec_size (Suc n) = n"
  by (simp add: dec_size_def)

text \<open>An \<open>unsigned\<close> of 32 bits kept as \<open>nat\<close>: increment, decrement, sum and product wrap.\<close>
definition inc32 :: "nat \<Rightarrow> nat" where
  "inc32 n = (n + 1) mod 2 ^ 32"

definition dec32 :: "nat \<Rightarrow> nat" where
  "dec32 n = (n + 2 ^ 32 - 1) mod 2 ^ 32"

definition add32 :: "nat \<Rightarrow> nat \<Rightarrow> nat" where
  "add32 m n = (m + n) mod 2 ^ 32"

definition mul32 :: "nat \<Rightarrow> nat \<Rightarrow> nat" where
  "mul32 m n = (m * n) mod 2 ^ 32"

lemma inc32_no_wrap: "n + 1 < 2 ^ 32 \<Longrightarrow> inc32 n = n + 1"
  by (simp add: inc32_def)

lemma dec32_no_wrap:
  assumes "0 < n" and "n < 2 ^ 32"
  shows "dec32 n = n - 1"
proof -
  from assms(1) obtain m where m: "n = Suc m" by (cases n) auto
  have "(m + 2 ^ 32) mod 2 ^ 32 = m mod (2 ^ 32 :: nat)" by simp
  also have "\<dots> = m" using assms(2) m by simp
  finally show ?thesis using m by (simp add: dec32_def)
qed

lemma dec32_zero: "dec32 0 = 2 ^ 32 - 1"
  by (simp add: dec32_def)

lemma add32_no_wrap: "m + n < 2 ^ 32 \<Longrightarrow> add32 m n = m + n"
  by (simp add: add32_def)

lemma mul32_no_wrap: "m * n < 2 ^ 32 \<Longrightarrow> mul32 m n = m * n"
  by (simp add: mul32_def)

text \<open>The range of a machine word.\<close>
lemma unat_less_8: "unat (v :: byte) < 2 ^ 8"
proof -
  have "unat v < 2 ^ LENGTH(8)" by (rule unsigned_less)
  then show ?thesis by simp
qed

lemma unat_less_16: "unat (v :: 16 word) < 2 ^ 16"
proof -
  have "unat v < 2 ^ LENGTH(16)" by (rule unsigned_less)
  then show ?thesis by simp
qed

lemma unat_less_32: "unat (v :: u32) < 2 ^ 32"
proof -
  have "unat v < 2 ^ LENGTH(32)" by (rule unsigned_less)
  then show ?thesis by simp
qed

lemma unat_less_64: "unat (v :: u64) < 2 ^ 64"
proof -
  have "unat v < 2 ^ LENGTH(64)" by (rule unsigned_less)
  then show ?thesis by simp
qed

text \<open>Widening to 64 bits keeps the value.\<close>
lemma unat_ucast_up [simp]:
  "unat (ucast (a :: byte) :: u64) = unat a"
  "unat (ucast (b :: 16 word) :: u64) = unat b"
  "unat (ucast (c :: u32) :: u64) = unat c"
  using unat_less_8 [of a] unat_less_16 [of b] unat_less_32 [of c]
  by (simp_all add: unsigned_ucast_eq take_bit_nat_eq_self)

text \<open>The comparison of two buffers of the same length byte by byte, as \<open>memcmp\<close> makes it.\<close>
fun bytes_cmp :: "bytes \<Rightarrow> bytes \<Rightarrow> int" where
  "bytes_cmp (a # as) (b # bs) = (if a = b then bytes_cmp as bs else if a < b then - 1 else 1)"
| "bytes_cmp _ _ = 0"

lemma bytes_cmp_eq_0: "length a = length b \<Longrightarrow> bytes_cmp a b = 0 \<longleftrightarrow> a = b"
  by (induction a b rule: bytes_cmp.induct) auto

section \<open>The option monad\<close>

lemma bind_Some_eq: "(Option.bind m f = Some y) \<longleftrightarrow> (\<exists>x. m = Some x \<and> f x = Some y)"
  by (cases m) auto

lemma bind_defined: "m \<noteq> None \<Longrightarrow> (\<And>x. m = Some x \<Longrightarrow> f x \<noteq> None) \<Longrightarrow> Option.bind m f \<noteq> None"
  by (cases m) auto

text \<open>Calling an optional callback that acts on the state.\<close>
definition call_opt :: "('i \<Rightarrow> 's \<Rightarrow> 's) option \<Rightarrow> 'i \<Rightarrow> 's \<Rightarrow> 's" where
  "call_opt f x s = (case f of None \<Rightarrow> s | Some g \<Rightarrow> g x s)"

lemma call_opt_simps [simp]:
  "call_opt None x s = s"
  "call_opt (Some g) x s = g x s"
  by (simp_all add: call_opt_def)

section \<open>Lists\<close>

text \<open>The first element that satisfies a predicate, as \<open>List_Find\<close> and array scans return it.\<close>
lemma find_append:
  "find P (xs @ ys) = (case find P xs of None \<Rightarrow> find P ys | Some x \<Rightarrow> Some x)"
  by (induction xs) auto

lemma find_None_iff_filter: "find P xs = None \<longleftrightarrow> filter P xs = []"
  by (induction xs) auto

lemma find_conj_first: "find P xs = Some x \<Longrightarrow> x \<in> set xs \<and> P x"
  by (induction xs) (auto split: if_splits)

lemma find_cong_set: "(\<And>x. x \<in> set xs \<Longrightarrow> P x = Q x) \<Longrightarrow> find P xs = find Q xs"
  by (induction xs) auto

end
