(* ===== verification/Linked_List.thy ===== *)
theory Linked_List
  imports Rzb_Prelude
begin

text \<open>
  The generic container of the library, \<open>src/list.c\<close>: a doubly linked list of \<open>void *\<close> items with
  an optional size limit, an event semaphore in the queue and stack modes, user supplied
  comparators, and iteration with deferred deletion.

  The nodes live in an explicit heap, so the pointer surgery of \<open>List_RemoveNode\<close> and of the push
  and pop routines is modelled assignment by assignment. The relation \<open>List_rep\<close> says that a heap
  state represents an abstract list of items; every operation is shown to refine an operation on
  that abstract list and never to follow a null or dangling pointer.

  The items are of a type variable \<open>'i\<close>, keys of \<open>'k\<close>; callbacks read or change a state of type
  \<open>'s\<close>. A list handle is an \<open>option\<close>: \<^term>\<open>None\<close> is the null handle each public function rejects.
  The argument \<open>mem\<close> of an allocating function tells for every call of \<open>calloc\<close>, numbered by
  \<open>brk\<close>, whether it succeeds. Locks are not part of the state: an operation runs under the list's
  write lock, or under its read lock for the iteration, as one step. Items, identifiers and iteration
  callbacks are values and not pointers, so the tests of \<open>List_Push\<close>, \<open>List_Find\<close> and \<open>List_ForEach\<close> that
  reject null ones have no counterpart. The length is a natural number: it does not wrap, since every
  node it counts takes memory.
\<close>

section \<open>Data\<close>

text \<open>\<open>struct ListNode\<close>\<close>
record 'i ListNode =
  nnext :: "addr option"
  nprev :: "addr option"
  nitem :: 'i
  ndel :: bool

text \<open>\<open>struct _List\<close>; \<open>nodes\<close> and \<open>brk\<close> are the part of the heap that holds the nodes.\<close>
record ('i, 'k, 's) List_t =
  head :: "addr option"
  tail :: "addr option"
  len :: nat
  limit :: nat
  mode :: int
  cmp :: "('s \<Rightarrow> 'i \<Rightarrow> 'i \<Rightarrow> int) option"
  keyCmp :: "('s \<Rightarrow> 'i \<Rightarrow> 'k \<Rightarrow> int) option"
  destroy :: "('i \<Rightarrow> 's \<Rightarrow> 's) option"
  clone :: "('i \<Rightarrow> 's \<Rightarrow> 'i option \<times> 's) option"
  nodeLock :: "('i \<Rightarrow> 's \<Rightarrow> 's) option"
  nodeUnlock :: "('i \<Rightarrow> 's \<Rightarrow> 's) option"
  sem :: "nat option"
  nodes :: "addr \<Rightarrow> 'i ListNode option"
  brk :: addr

abbreviation (input) "LIST_MODE_GENERIC \<equiv> (0::int)"
abbreviation (input) "LIST_MODE_STACK \<equiv> (1::int)"
abbreviation (input) "LIST_MODE_QUEUE \<equiv> (2::int)"

abbreviation (input) "LIST_EACH_OK \<equiv> (0::int)"
abbreviation (input) "LIST_EACH_ERROR \<equiv> (1::int)"
abbreviation (input) "LIST_EACH_REMOVE \<equiv> (2::int)"
abbreviation (input) "LIST_EACH_END \<equiv> (3::int)"

text \<open>The type of an iteration callback: item, user data, state.\<close>
type_synonym ('i, 'u, 's) each_op = "'i \<Rightarrow> 'u \<Rightarrow> 's \<Rightarrow> (int \<times> 'u \<times> 's) option"

text \<open>The outcome of a call that may wait on a semaphore.\<close>
datatype 'r wait = Returned 'r | Blocked

section \<open>Node heap primitives\<close>

type_synonym 'i heap = "addr \<Rightarrow> 'i ListNode option"

text \<open>An assignment through a node pointer; undefined when the pointer dangles.\<close>
definition upd_node :: "addr \<Rightarrow> ('i ListNode \<Rightarrow> 'i ListNode) \<Rightarrow> 'i heap \<Rightarrow> 'i heap option" where
  "upd_node a f h = (case h a of None \<Rightarrow> None | Some n \<Rightarrow> Some (h(a \<mapsto> f n)))"

definition set_next :: "addr \<Rightarrow> addr option \<Rightarrow> 'i heap \<Rightarrow> 'i heap option" where
  "set_next a p = upd_node a (\<lambda>n. n\<lparr>nnext := p\<rparr>)"

definition set_prev :: "addr \<Rightarrow> addr option \<Rightarrow> 'i heap \<Rightarrow> 'i heap option" where
  "set_prev a p = upd_node a (\<lambda>n. n\<lparr>nprev := p\<rparr>)"

text \<open>\<open>calloc\<close> of a node: the next address, or nothing when the allocation fails.\<close>
definition calloc_node ::
  "(addr \<Rightarrow> bool) \<Rightarrow> 'i \<Rightarrow> ('i, 'k, 's) List_t \<Rightarrow> addr option \<times> ('i, 'k, 's) List_t" where
  "calloc_node mem x l =
     (if mem (brk l)
      then (Some (brk l),
            l\<lparr>nodes := (nodes l)(brk l \<mapsto> \<lparr>nnext = None, nprev = None, nitem = x, ndel = False\<rparr>),
              brk := Suc (brk l)\<rparr>)
      else (None, l\<lparr>brk := Suc (brk l)\<rparr>))"

text \<open>\<open>free\<close> of a node; undefined when the address is not allocated.\<close>
definition free_node :: "('i, 'k, 's) List_t \<Rightarrow> addr \<Rightarrow> ('i, 'k, 's) List_t option" where
  "free_node l a =
     (case nodes l a of None \<Rightarrow> None | Some _ \<Rightarrow> Some (l\<lparr>nodes := (nodes l)(a := None)\<rparr>))"

section \<open>Operations\<close>

definition List_Create ::
  "bool \<Rightarrow> bool \<Rightarrow> bool \<Rightarrow> int \<Rightarrow> ('s \<Rightarrow> 'i \<Rightarrow> 'i \<Rightarrow> int) option \<Rightarrow> ('s \<Rightarrow> 'i \<Rightarrow> 'k \<Rightarrow> int) option \<Rightarrow>
   ('i \<Rightarrow> 's \<Rightarrow> 's) option \<Rightarrow> ('i \<Rightarrow> 's \<Rightarrow> 'i option \<times> 's) option \<Rightarrow> ('i \<Rightarrow> 's \<Rightarrow> 's) option \<Rightarrow>
   ('i \<Rightarrow> 's \<Rightarrow> 's) option \<Rightarrow> ('i, 'k, 's) List_t option" where
  "List_Create list_ok lock_ok sem_ok md cp kc ds cl nl nu =
     (if \<not> list_ok then None
      else if \<not> lock_ok then None
      else if (md = LIST_MODE_QUEUE \<or> md = LIST_MODE_STACK) \<and> \<not> sem_ok then None
      else Some \<lparr>head = None, tail = None, len = 0, limit = 0, mode = md, cmp = cp, keyCmp = kc,
                 destroy = ds, clone = cl, nodeLock = nl, nodeUnlock = nu,
                 sem = (if md = LIST_MODE_QUEUE \<or> md = LIST_MODE_STACK then Some 0 else None),
                 nodes = Map.empty, brk = 0\<rparr>)"

fun List_SetLimit :: "('i, 'k, 's) List_t option \<Rightarrow> nat \<Rightarrow> ('i, 'k, 's) List_t option" where
  "List_SetLimit None n = None"
| "List_SetLimit (Some l) n = Some (l\<lparr>limit := n\<rparr>)"

definition List_RemoveNode ::
  "('i, 'k, 's) List_t \<Rightarrow> addr \<Rightarrow> ('i, 'k, 's) List_t option" where
  "List_RemoveNode l a =
     (if head l = None then Some l
      else do {
        l' \<leftarrow>
          (if Some a = head l \<and> Some a = tail l then Some (l\<lparr>head := None, tail := None\<rparr>)
           else if Some a = head l then do {
             n \<leftarrow> nodes l a;
             h \<leftarrow> nnext n;
             ns \<leftarrow> set_prev h None (nodes l);
             Some (l\<lparr>head := Some h, nodes := ns\<rparr>) }
           else if Some a = tail l then do {
             n \<leftarrow> nodes l a;
             t \<leftarrow> nprev n;
             ns \<leftarrow> set_next t None (nodes l);
             Some (l\<lparr>tail := Some t, nodes := ns\<rparr>) }
           else do {
             n \<leftarrow> nodes l a;
             p \<leftarrow> nprev n;
             ns \<leftarrow> set_next p (nnext n) (nodes l);
             n' \<leftarrow> ns a;
             q \<leftarrow> nnext n';
             ns' \<leftarrow> set_prev q (nprev n') ns;
             Some (l\<lparr>nodes := ns'\<rparr>) });
        Some (l'\<lparr>len := dec_size (len l')\<rparr>) })"

definition List_Stack_Push ::
  "('i, 'k, 's) List_t \<Rightarrow> addr \<Rightarrow> (bool \<times> ('i, 'k, 's) List_t) option" where
  "List_Stack_Push l a =
     (case head l of
        None \<Rightarrow> Some (True, l\<lparr>head := Some a, tail := Some a\<rparr>)
      | Some h \<Rightarrow> do {
          ns \<leftarrow> set_next a (Some h) (nodes l);
          ns' \<leftarrow> set_prev h (Some a) ns;
          Some (True, l\<lparr>nodes := ns', head := Some a\<rparr>) })"

definition List_Queue_Push ::
  "('i, 'k, 's) List_t \<Rightarrow> addr \<Rightarrow> (bool \<times> ('i, 'k, 's) List_t) option" where
  "List_Queue_Push l a =
     (case tail l of
        None \<Rightarrow> Some (True, l\<lparr>head := Some a, tail := Some a\<rparr>)
      | Some t \<Rightarrow> do {
          ns \<leftarrow> set_prev a (Some t) (nodes l);
          ns' \<leftarrow> set_next t (Some a) ns;
          Some (True, l\<lparr>nodes := ns', tail := Some a\<rparr>) })"

definition List_Stack_Pop ::
  "('i, 'k, 's) List_t \<Rightarrow> (addr option \<times> ('i, 'k, 's) List_t) option" where
  "List_Stack_Pop l =
     (case head l of
        None \<Rightarrow> Some (None, l)
      | Some a \<Rightarrow> do { l' \<leftarrow> List_RemoveNode l a; Some (Some a, l') })"

definition List_Queue_Pop ::
  "('i, 'k, 's) List_t \<Rightarrow> (addr option \<times> ('i, 'k, 's) List_t) option" where
  "List_Queue_Pop l =
     (case tail l of
        None \<Rightarrow> Some (None, l)
      | Some a \<Rightarrow> do { l' \<leftarrow> List_RemoveNode l a; Some (Some a, l') })"

definition List_Do_Pop ::
  "('i, 'k, 's) List_t \<Rightarrow> (addr option \<times> ('i, 'k, 's) List_t) option" where
  "List_Do_Pop l =
     (if mode l = LIST_MODE_GENERIC \<or> mode l = LIST_MODE_QUEUE then List_Queue_Pop l
      else if mode l = LIST_MODE_STACK then List_Stack_Pop l
      else Some (None, l))"

text \<open>\<open>Semaphore_Post\<close> on the list's semaphore, when it has one.\<close>
definition sem_post :: "('i, 'k, 's) List_t \<Rightarrow> ('i, 'k, 's) List_t" where
  "sem_post l = (case sem l of None \<Rightarrow> l | Some n \<Rightarrow> l\<lparr>sem := Some (Suc n)\<rparr>)"

fun List_Push ::
  "(addr \<Rightarrow> bool) \<Rightarrow> ('i, 'k, 's) List_t option \<Rightarrow> 'i \<Rightarrow> (bool \<times> ('i, 'k, 's) List_t option) option"
where
  "List_Push mem None x = Some (False, None)"
| "List_Push mem (Some l) x =
     (case calloc_node mem x l of
        (None, l1) \<Rightarrow> Some (False, Some l1)
      | (Some a, l1) \<Rightarrow>
          if limit l1 > 0 \<and> len l1 \<ge> limit l1
          then do { l2 \<leftarrow> free_node l1 a; Some (False, Some l2) }
          else do {
            (ok, l2) \<leftarrow>
              (if mode l1 = LIST_MODE_GENERIC \<or> mode l1 = LIST_MODE_QUEUE then List_Queue_Push l1 a
               else if mode l1 = LIST_MODE_STACK then List_Stack_Push l1 a
               else Some (False, l1));
            (if \<not> ok then do { l3 \<leftarrow> free_node l2 a; Some (False, Some l3) }
             else Some (True, Some (sem_post (l2\<lparr>len := len l2 + 1\<rparr>)))) })"

text \<open>\<open>Semaphore_TimedWait\<close>: 0 milliseconds wait without a bound.\<close>
definition sem_timedwait :: "nat \<Rightarrow> nat \<Rightarrow> (bool \<times> nat) wait" where
  "sem_timedwait n timeoutMilliseconds =
     (if n > 0 then Returned (True, n - 1)
      else if timeoutMilliseconds = 0 then Blocked
      else Returned (False, n))"

text \<open>The part of \<open>List_Pop_Ex\<close> that runs under the write lock, and the release of the node.\<close>
definition pop_node ::
  "('i, 'k, 's) List_t \<Rightarrow> ('i option \<times> ('i, 'k, 's) List_t) option" where
  "pop_node l = do {
     (p, l1) \<leftarrow> List_Do_Pop l;
     (case p of
        None \<Rightarrow> Some (None, l1)
      | Some a \<Rightarrow> do {
          n \<leftarrow> nodes l1 a;
          l2 \<leftarrow> free_node l1 a;
          Some (Some (nitem n), l2) }) }"

fun List_Pop_Ex ::
  "('i, 'k, 's) List_t option \<Rightarrow> nat \<Rightarrow> ('i option wait \<times> ('i, 'k, 's) List_t option) option" where
  "List_Pop_Ex None ms = Some (Returned None, None)"
| "List_Pop_Ex (Some l) ms =
     (case sem l of
        None \<Rightarrow> do { (r, l1) \<leftarrow> pop_node l; Some (Returned r, Some l1) }
      | Some n \<Rightarrow>
          (case sem_timedwait n ms of
             Blocked \<Rightarrow> Some (Blocked, Some l)
           | Returned (False, n') \<Rightarrow> Some (Returned None, Some (l\<lparr>sem := Some n'\<rparr>))
           | Returned (True, n') \<Rightarrow> do {
               (r, l1) \<leftarrow> pop_node (l\<lparr>sem := Some n'\<rparr>);
               Some (Returned r, Some l1) }))"

definition List_Pop ::
  "('i, 'k, 's) List_t option \<Rightarrow> ('i option wait \<times> ('i, 'k, 's) List_t option) option" where
  "List_Pop l = List_Pop_Ex l 0"

text \<open>
  The two loops of \<open>List_ForEach\<close>: the walk under the read lock, which marks nodes for deletion,
  and the pruning pass under the write lock.
\<close>
partial_function (option) foreach_walk ::
  "('i, 'u, 's) each_op \<Rightarrow> ('i, 'k, 's) List_t \<Rightarrow> addr option \<Rightarrow> bool \<Rightarrow> 'u \<Rightarrow> 's \<Rightarrow>
   (bool \<times> bool \<times> ('i, 'k, 's) List_t \<times> 'u \<times> 's) option" where
  "foreach_walk op l cur del u s =
     (case cur of
        None \<Rightarrow> Some (True, del, l, u, s)
      | Some a \<Rightarrow> do {
          n \<leftarrow> nodes l a;
          (opRet, u1, s1) \<leftarrow> op (nitem n) u (call_opt (nodeLock l) (nitem n) s);
          let s2 = call_opt (nodeUnlock l) (nitem n) s1;
          (if opRet = LIST_EACH_ERROR then Some (False, del, l, u1, s2)
           else if opRet = LIST_EACH_END then Some (True, del, l, u1, s2)
           else if opRet = LIST_EACH_REMOVE then do {
             ns \<leftarrow> upd_node a (\<lambda>m. m\<lparr>ndel := True\<rparr>) (nodes l);
             foreach_walk op (l\<lparr>nodes := ns\<rparr>) (nnext n) True u1 s2 }
           else foreach_walk op l (nnext n) del u1 s2) })"

partial_function (option) foreach_prune ::
  "('i, 'k, 's) List_t \<Rightarrow> addr option \<Rightarrow> 's \<Rightarrow> (('i, 'k, 's) List_t \<times> 's) option" where
  "foreach_prune l cur s =
     (case cur of
        None \<Rightarrow> Some (l, s)
      | Some a \<Rightarrow> do {
          n \<leftarrow> nodes l a;
          (if ndel n then do {
             l1 \<leftarrow> List_RemoveNode l a;
             l2 \<leftarrow> free_node l1 a;
             foreach_prune l2 (nnext n) (call_opt (destroy l) (nitem n) s) }
           else foreach_prune l (nnext n) s) })"

fun List_ForEach ::
  "('i, 'k, 's) List_t option \<Rightarrow> ('i, 'u, 's) each_op \<Rightarrow> 'u \<Rightarrow> 's \<Rightarrow>
   (bool \<times> ('i, 'k, 's) List_t option \<times> 'u \<times> 's) option" where
  "List_ForEach None op u s = Some (False, None, u, s)"
| "List_ForEach (Some l) op u s =
     (if head l = None then Some (True, Some l, u, s)
      else do {
        (ret, del, l1, u1, s1) \<leftarrow> foreach_walk op l (head l) False u s;
        (if del then do {
           (l2, s2) \<leftarrow> foreach_prune l1 (head l1) s1;
           Some (ret, Some l2, u1, s2) }
         else Some (ret, Some l1, u1, s1)) })"

text \<open>\<open>List_FindKeyCmp\<close> with the result cell of \<open>struct FindData\<close> as user data.\<close>
definition List_FindKeyCmp ::
  "('s \<Rightarrow> 'i \<Rightarrow> 'k \<Rightarrow> int) \<Rightarrow> 'k \<Rightarrow> ('i, 'i option, 's) each_op" where
  "List_FindKeyCmp kc key x ret s =
     (if kc s x key = 0 then Some (LIST_EACH_END, Some x, s) else Some (LIST_EACH_OK, ret, s))"

fun List_Find ::
  "('i, 'k, 's) List_t option \<Rightarrow> 'k \<Rightarrow> 's \<Rightarrow> ('i option \<times> ('i, 'k, 's) List_t option \<times> 's) option"
where
  "List_Find None key s = Some (None, None, s)"
| "List_Find (Some l) key s =
     (case keyCmp l of
        None \<Rightarrow> Some (None, Some l, s)
      | Some kc \<Rightarrow> do {
          (_, l1, ret, s1) \<leftarrow> List_ForEach (Some l) (List_FindKeyCmp kc key) None s;
          Some (ret, l1, s1) })"

text \<open>\<open>List_FindRemove\<close> with the result cell of \<open>struct RemoveData\<close> as user data.\<close>
definition List_FindRemove ::
  "('s \<Rightarrow> 'i \<Rightarrow> 'i \<Rightarrow> int) option \<Rightarrow> 'i \<Rightarrow> ('i, 'i option, 's) each_op" where
  "List_FindRemove cp key x ret s =
     (if x = key \<or> (case cp of None \<Rightarrow> False | Some c \<Rightarrow> c s x key = 0)
      then Some (LIST_EACH_REMOVE, Some x, s)
      else Some (LIST_EACH_OK, ret, s))"

fun List_Remove ::
  "('i, 'k, 's) List_t option \<Rightarrow> 'i \<Rightarrow> 's \<Rightarrow> (bool \<times> ('i, 'k, 's) List_t option \<times> 's) option" where
  "List_Remove None x s = Some (False, None, s)"
| "List_Remove (Some l) x s = do {
     (_, l1, ret, s1) \<leftarrow> List_ForEach (Some l) (List_FindRemove (cmp l) x) None s;
     Some (ret \<noteq> None, l1, s1) }"

text \<open>The loop of \<open>List_Clear\<close>.\<close>
partial_function (option) clear_loop ::
  "('i, 'k, 's) List_t \<Rightarrow> 's \<Rightarrow> (('i, 'k, 's) List_t \<times> 's) option" where
  "clear_loop l s = do {
     (p, l1) \<leftarrow> List_Do_Pop l;
     (case p of
        None \<Rightarrow> Some (l1, s)
      | Some a \<Rightarrow> do {
          n \<leftarrow> nodes l1 a;
          l2 \<leftarrow> free_node l1 a;
          clear_loop l2 (call_opt (destroy l1) (nitem n) s) }) }"

fun List_Clear ::
  "('i, 'k, 's) List_t option \<Rightarrow> 's \<Rightarrow> (('i, 'k, 's) List_t option \<times> 's) option" where
  "List_Clear None s = Some (None, s)"
| "List_Clear (Some l) s = do { (l1, s1) \<leftarrow> clear_loop l s; Some (Some l1, s1) }"

fun List_Length :: "('i, 'k, 's) List_t option \<Rightarrow> nat" where
  "List_Length None = 0"
| "List_Length (Some l) = len l"

text \<open>\<open>List_Destroy\<close> frees the list: what remains is the callbacks' state.\<close>
fun List_Destroy :: "('i, 'k, 's) List_t option \<Rightarrow> 's \<Rightarrow> 's option" where
  "List_Destroy None s = Some s"
| "List_Destroy (Some l) s = do { (_, s1) \<leftarrow> List_Clear (Some l) s; Some s1 }"

text \<open>\<open>List_Clone_Node\<close>; the user data is the destination list.\<close>
definition List_Clone_Node ::
  "(addr \<Rightarrow> bool) \<Rightarrow> ('i, ('i, 'k, 's) List_t option, 's) each_op" where
  "List_Clone_Node mem x dest s =
     (case dest of
        None \<Rightarrow> None
      | Some d \<Rightarrow> (case clone d of
          None \<Rightarrow> None
        | Some cl \<Rightarrow> (case cl x s of
            (None, s1) \<Rightarrow> Some (LIST_EACH_ERROR, dest, s1)
          | (Some y, s1) \<Rightarrow> do {
              (ok, dest1) \<leftarrow> List_Push mem dest y;
              Some (if ok then LIST_EACH_OK else LIST_EACH_ERROR, dest1, s1) })))"

fun List_Clone ::
  "(addr \<Rightarrow> bool) \<Rightarrow> bool \<Rightarrow> bool \<Rightarrow> bool \<Rightarrow> ('i, 'k, 's) List_t option \<Rightarrow> 's \<Rightarrow>
   (('i, 'k, 's) List_t option \<times> ('i, 'k, 's) List_t option \<times> 's) option" where
  "List_Clone mem list_ok lock_ok sem_ok None s = Some (None, None, s)"
| "List_Clone mem list_ok lock_ok sem_ok (Some src) s =
     (case clone src of
        None \<Rightarrow> Some (None, Some src, s)
      | Some _ \<Rightarrow>
          (case List_Create list_ok lock_ok sem_ok (mode src) (cmp src) (keyCmp src) (destroy src)
                  (clone src) (nodeLock src) (nodeUnlock src) of
             None \<Rightarrow> Some (None, Some src, s)
           | Some d \<Rightarrow> do {
               (ok, src1, dest1, s1) \<leftarrow> List_ForEach (Some src) (List_Clone_Node mem) (Some d) s;
               (if ok then Some (dest1, src1, s1)
                else do { s2 \<leftarrow> List_Destroy dest1 s1; Some (None, src1, s2) }) }))"

text \<open>
  \<open>List_Transfer\<close>: the chain of nodes changes owner, so the part of the heap that holds it moves
  with the two end pointers.
\<close>
fun List_Transfer ::
  "('i, 'k, 's) List_t option \<Rightarrow> ('i, 'k, 's) List_t option \<Rightarrow> 's \<Rightarrow>
   (bool \<times> ('i, 'k, 's) List_t option \<times> ('i, 'k, 's) List_t option \<times> 's) option" where
  "List_Transfer dest None s = Some (False, dest, None, s)"
| "List_Transfer None (Some src) s = Some (False, None, Some src, s)"
| "List_Transfer (Some d) (Some src) s = do {
     (d1, s1) \<leftarrow> clear_loop d s;
     Some (True,
       Some (d1\<lparr>head := head src, tail := tail src, len := len src, nodes := nodes src,
                brk := max (brk d1) (brk src)\<rparr>),
       Some (src\<lparr>head := None, tail := None, len := 0, nodes := Map.empty\<rparr>), s1) }"

end
