(* ===== verification/Linked_List_Refine.thy ===== *)
theory Linked_List_Refine
  imports Linked_List
begin

text \<open>
  Correctness of \<open>src/list.c\<close>. \<open>dls\<close> describes a doubly linked segment of the node heap,
  \<open>List_rep l xs\<close> says that the list structure \<open>l\<close> represents the items \<open>xs\<close>, and every
  operation of the theory of the model is shown to be defined on a represented list and to act on
  \<open>xs\<close> as its specification says. The last sections hold the two contracts clients use: the order
  of removal (\<open>lifo\<close>) and the lookup by key (\<open>keyed\<close>).
\<close>

section \<open>Chains in the node heap\<close>

text \<open>
  \<open>dls h p f as t n\<close>: from \<open>f\<close> the heap holds the nodes \<open>as\<close>, linked in both directions; \<open>p\<close> is
  the predecessor of the first node, \<open>t\<close> the last node (or \<open>p\<close>), \<open>n\<close> its successor.
\<close>
fun dls ::
  "'i heap \<Rightarrow> addr option \<Rightarrow> addr option \<Rightarrow> addr list \<Rightarrow> addr option \<Rightarrow> addr option \<Rightarrow> bool" where
  "dls h p f [] t n = (f = n \<and> t = p)"
| "dls h p f (a # as) t n =
     (f = Some a \<and> (\<exists>nd. h a = Some nd \<and> nprev nd = p \<and> dls h (Some a) (nnext nd) as t n))"

lemma dls_append:
  "dls h p f (as @ bs) t n \<longleftrightarrow> (\<exists>k m. dls h p f as k m \<and> dls h k m bs t n)"
  by (induction as arbitrary: p f) auto

lemma dls_frame: "a \<notin> set as \<Longrightarrow> dls (h(a := x)) p f as t n = dls h p f as t n"
  by (induction as arbitrary: p f) auto

lemma dls_in_heap: "dls h p f as t n \<Longrightarrow> set as \<subseteq> dom h"
  by (induction as arbitrary: p f) auto

lemma dls_first: "dls h p f (a # as) t n \<Longrightarrow> f = Some a"
  by simp

lemma dls_last: "dls h p f (as @ [z]) t n \<Longrightarrow> t = Some z"
  by (auto simp: dls_append)

lemma dls_lastD: "dls h p f as t n \<Longrightarrow> as \<noteq> [] \<Longrightarrow> t = Some (last as)"
  by (cases as rule: rev_cases) (auto simp: dls_append)

text \<open>What the pointer surgery does not touch: the items and the deletion marks.\<close>
definition payload :: "'i heap \<Rightarrow> addr \<Rightarrow> ('i \<times> bool) option" where
  "payload h a = map_option (\<lambda>n. (nitem n, ndel n)) (h a)"

lemma payload_upd_links [simp]:
  "h a = Some n \<Longrightarrow> payload (h(a \<mapsto> n\<lparr>nnext := p\<rparr>)) = payload h"
  "h a = Some n \<Longrightarrow> payload (h(a \<mapsto> n\<lparr>nprev := p\<rparr>)) = payload h"
  by (auto simp: payload_def fun_eq_iff)

lemma payload_dom: "dom (payload h) = dom h"
  by (auto simp: payload_def)

lemma payload_eq_dom: "payload h = payload h' \<Longrightarrow> dom h = dom h'"
  by (metis payload_dom)

text \<open>Unlinking a node: the two neighbours are joined.\<close>

lemma dls_unlink_first:
  assumes "dls h None f (a # b # bs) t None" and "distinct (a # b # bs)"
  shows "\<exists>n m. h a = Some n \<and> nnext n = Some b \<and> h b = Some m \<and>
     dls (h(b \<mapsto> m\<lparr>nprev := None\<rparr>)) None (Some b) (b # bs) t None"
  using assms by (auto simp: dls_frame)

lemma dls_set_next_last:
  assumes "dls h p f (as @ [z]) t n" and "distinct (as @ [z])"
  shows "\<exists>m. h z = Some m \<and> dls (h(z \<mapsto> m\<lparr>nnext := n'\<rparr>)) p f (as @ [z]) t n'"
  using assms by (auto simp: dls_append dls_frame)

lemma dls_set_prev_first:
  assumes "dls h p f (a # as) t n" and "distinct (a # as)"
  shows "\<exists>m. h a = Some m \<and> dls (h(a \<mapsto> m\<lparr>nprev := p'\<rparr>)) p' f (a # as) t n"
  using assms by (auto simp: dls_frame)

section \<open>Representation\<close>

text \<open>The fields no operation but \<open>List_SetLimit\<close> writes.\<close>
definition cfg where
  "cfg l = (limit l, mode l, cmp l, keyCmp l, destroy l, clone l, nodeLock l, nodeUnlock l)"

lemma cfg_update [simp]:
  "cfg (l\<lparr>head := x1\<rparr>) = cfg l" "cfg (l\<lparr>tail := x1\<rparr>) = cfg l" "cfg (l\<lparr>len := x2\<rparr>) = cfg l"
  "cfg (l\<lparr>sem := x3\<rparr>) = cfg l" "cfg (l\<lparr>nodes := x4\<rparr>) = cfg l" "cfg (l\<lparr>brk := x5\<rparr>) = cfg l"
  by (simp_all add: cfg_def)

lemma cfgD:
  assumes "cfg l' = cfg l"
  shows "limit l' = limit l" "mode l' = mode l" "cmp l' = cmp l" "keyCmp l' = keyCmp l"
    "destroy l' = destroy l" "clone l' = clone l" "nodeLock l' = nodeLock l"
    "nodeUnlock l' = nodeUnlock l"
  using assms by (simp_all add: cfg_def)

text \<open>
  The invariant of a list whose nodes are, in order, at the addresses \<open>as\<close>. The node heap of the
  list holds these nodes and no others: nothing leaks.
\<close>
definition List_inv :: "('i, 'k, 's) List_t \<Rightarrow> addr list \<Rightarrow> bool" where
  "List_inv l as \<longleftrightarrow> dls (nodes l) None (head l) as (tail l) None \<and> distinct as \<and>
     dom (nodes l) = set as \<and> len l = length as \<and> (\<forall>a \<in> set as. a < brk l)"

definition items :: "'i heap \<Rightarrow> addr list \<Rightarrow> 'i list" where
  "items h as = map (\<lambda>a. fst (the (payload h a))) as"

definition List_rep :: "('i, 'k, 's) List_t \<Rightarrow> 'i list \<Rightarrow> bool" where
  "List_rep l xs \<longleftrightarrow> (\<exists>as. List_inv l as \<and> items (nodes l) as = xs \<and>
     (\<forall>a \<in> set as. \<not> snd (the (payload (nodes l) a))))"

lemma List_inv_head: "List_inv l as \<Longrightarrow> head l = None \<longleftrightarrow> as = []"
  by (cases as) (auto simp: List_inv_def)

lemma List_inv_tail: "List_inv l as \<Longrightarrow> tail l = None \<longleftrightarrow> as = []"
  using dls_lastD by (cases as) (fastforce simp: List_inv_def)+

lemma List_inv_sem [simp]: "List_inv (l\<lparr>sem := x\<rparr>) as = List_inv l as"
  by (simp add: List_inv_def)

lemma List_rep_sem [simp]: "List_rep (l\<lparr>sem := x\<rparr>) xs = List_rep l xs"
  by (simp add: List_rep_def)

lemma List_rep_len: "List_rep l xs \<Longrightarrow> len l = length xs"
  by (auto simp: List_rep_def List_inv_def items_def)

lemma List_rep_unique: "List_rep l xs \<Longrightarrow> List_rep l ys \<Longrightarrow> xs = ys"
proof -
  have u: "dls h p f as t None \<Longrightarrow> dls h p f bs t' None \<Longrightarrow> as = bs"
    for h :: "'a heap" and p f t t' as bs
  proof (induction as arbitrary: p f bs)
    case Nil
    then show ?case by (cases bs) auto
  next
    case (Cons a as)
    then show ?case by (cases bs) auto
  qed
  show "List_rep l xs \<Longrightarrow> List_rep l ys \<Longrightarrow> xs = ys"
    unfolding List_rep_def List_inv_def using u by blast
qed

subsection \<open>Unlinking a node\<close>

lemma unlink_only:
  assumes "List_inv l [a]"
  shows "List_RemoveNode l a = Some (l\<lparr>head := None, tail := None, len := 0\<rparr>)"
  using assms by (auto simp: List_RemoveNode_def List_inv_def)

lemma List_RemoveNode_dls:
  assumes inv: "List_inv l (as @ a # bs)"
  shows "\<exists>l'. List_RemoveNode l a = Some l' \<and> cfg l' = cfg l \<and> sem l' = sem l \<and> brk l' = brk l \<and>
     payload (nodes l') = payload (nodes l) \<and> len l' = length (as @ bs) \<and>
     dls (nodes l') None (head l') (as @ bs) (tail l') None"
proof -
  let ?h = "nodes l"
  have d: "dls ?h None (head l) (as @ a # bs) (tail l) None" and dist: "distinct (as @ a # bs)"
    and ln: "len l = Suc (length (as @ bs))"
    using inv by (auto simp: List_inv_def)
  consider (only) "as = []" "bs = []" | (first) b bs' where "as = []" "bs = b # bs'"
    | (final) as' z where "as = as' @ [z]" "bs = []"
    | (mid) as' z b bs' where "as = as' @ [z]" "bs = b # bs'"
    by (cases as rule: rev_cases; cases bs) auto
  then show ?thesis
  proof cases
    case only
    then show ?thesis using unlink_only [of l a] inv by simp
  next
    case first
    have tl: "tail l \<noteq> Some a"
      using dls_lastD [OF d] dist first by auto
    obtain n m where n: "?h a = Some n" "nnext n = Some b" "?h b = Some m"
      and d': "dls (?h(b \<mapsto> m\<lparr>nprev := None\<rparr>)) None (Some b) (b # bs') (tail l) None"
      using dls_unlink_first [of ?h "head l" a b bs' "tail l"] d dist first by auto
    have hd: "head l = Some a" using d first by simp
    show ?thesis
      using n d' hd tl ln first
      by (simp add: List_RemoveNode_def set_prev_def upd_node_def)
  next
    case final
    have hd: "head l \<noteq> Some a" "head l \<noteq> None" and tl: "tail l = Some a"
      using dls_lastD [OF d] d dist final by (cases as'; auto)+
    obtain k n where k: "dls ?h None (head l) (as' @ [z]) k (Some a)"
      and n: "?h a = Some n" "nprev n = k" "nnext n = None"
      using d final by (auto simp: dls_append)
    have kz: "k = Some z" using dls_last [OF k] .
    obtain m where m: "?h z = Some m"
      and d': "dls (?h(z \<mapsto> m\<lparr>nnext := None\<rparr>)) None (head l) (as' @ [z]) k None"
      using dls_set_next_last [OF k] dist final by auto
    show ?thesis
      using n m d' hd tl ln final kz
      by (simp add: List_RemoveNode_def set_next_def upd_node_def)
  next
    case mid
    have hd: "head l \<noteq> Some a" "head l \<noteq> None" and tl: "tail l \<noteq> Some a"
      using dls_lastD [OF d] d dist mid by (cases as'; auto)+
    obtain k n where k: "dls ?h None (head l) (as' @ [z]) k (Some a)"
      and n: "?h a = Some n" "nprev n = k" and r: "dls ?h (Some a) (nnext n) (b # bs') (tail l) None"
      using d mid by (auto simp: dls_append)
    have kz: "k = Some z" using dls_last [OF k] .
    have nn: "nnext n = Some b" using r by simp
    obtain m where m: "?h z = Some m"
      and d1: "dls (?h(z \<mapsto> m\<lparr>nnext := Some b\<rparr>)) None (head l) (as' @ [z]) k (Some b)"
      using dls_set_next_last [OF k] dist mid by auto
    let ?h1 = "?h(z \<mapsto> m\<lparr>nnext := Some b\<rparr>)"
    have "dls ?h1 (Some a) (Some b) (b # bs') (tail l) None"
      using r nn dist mid by (subst dls_frame) auto
    then obtain q where q: "?h1 b = Some q"
      and d2: "dls (?h1(b \<mapsto> q\<lparr>nprev := k\<rparr>)) k (Some b) (b # bs') (tail l) None"
      using dls_set_prev_first [of ?h1 "Some a" "Some b" b bs' "tail l" None k] dist mid by auto
    have d3: "dls (?h1(b \<mapsto> q\<lparr>nprev := k\<rparr>)) None (head l) (as' @ [z]) k (Some b)"
      using d1 dist mid by (subst dls_frame) auto
    have ne: "a \<noteq> z" using dist mid by auto
    have "payload (?h1(b \<mapsto> q\<lparr>nprev := k\<rparr>)) = payload ?h"
      using payload_upd_links(2) [where h = ?h1 and a = b, OF q] m by simp
    moreover have "dls (?h1(b \<mapsto> q\<lparr>nprev := k\<rparr>)) None (head l) ((as' @ [z]) @ b # bs') (tail l) None"
      unfolding dls_append [of _ _ _ "as' @ [z]" "b # bs'"] using d2 d3 by blast
    ultimately show ?thesis
      using n nn m q hd tl ln mid kz ne
      by (simp add: List_RemoveNode_def set_next_def set_prev_def upd_node_def)
  qed
qed

lemma payload_delete: "payload (h(a := None)) = (payload h)(a := None)"
  by (auto simp: payload_def fun_eq_iff)

lemma payload_SomeD: "payload h a = Some (x, d) \<Longrightarrow> \<exists>n. h a = Some n \<and> nitem n = x \<and> ndel n = d"
  by (auto simp: payload_def)

lemma items_fun_upd: "a \<notin> set as \<Longrightarrow> payload h' = (payload h)(a := x) \<Longrightarrow> items h' as = items h as"
  by (auto simp: items_def)

lemma unlink_free:
  assumes "List_inv l (as @ a # bs)"
  shows "\<exists>l1 l2. List_RemoveNode l a = Some l1 \<and> payload (nodes l1) = payload (nodes l) \<and>
     destroy l1 = destroy l \<and>
     free_node l1 a = Some l2 \<and> List_inv l2 (as @ bs) \<and> cfg l2 = cfg l \<and> sem l2 = sem l \<and>
     brk l2 = brk l \<and> payload (nodes l2) = (payload (nodes l))(a := None)"
proof -
  obtain l1 where l1: "List_RemoveNode l a = Some l1" "cfg l1 = cfg l" "sem l1 = sem l"
      "brk l1 = brk l" "payload (nodes l1) = payload (nodes l)" "len l1 = length (as @ bs)"
      "dls (nodes l1) None (head l1) (as @ bs) (tail l1) None"
    using List_RemoveNode_dls [OF assms] by blast
  have da: "dom (nodes l1) = set (as @ a # bs)"
    using payload_eq_dom [OF l1(5)] assms by (simp add: List_inv_def)
  then obtain n where n: "nodes l1 a = Some n" by auto
  have dist: "distinct (as @ a # bs)" and lt: "\<forall>b \<in> set (as @ bs). b < brk l1"
    using assms l1(4) by (auto simp: List_inv_def)
  have "List_inv (l1\<lparr>nodes := (nodes l1)(a := None)\<rparr>) (as @ bs)"
    using l1 da dist lt by (auto simp: List_inv_def dls_frame)
  then show ?thesis
    using l1 n cfgD(5) [OF l1(2)] by (auto simp: free_node_def payload_delete)
qed

subsection \<open>Creation and insertion\<close>

lemma List_Create_rep:
  "List_Create lo ko so md cp kc ds cl nl nu = Some l \<Longrightarrow> List_rep l [] \<and> limit l = 0 \<and> mode l = md"
  by (auto simp: List_Create_def List_rep_def List_inv_def items_def split: if_splits)

lemma dls_snoc_node:
  assumes "dls h None f as t None" and "a \<notin> set as" and "h a = Some n" and "distinct as"
    and "nnext n = None" and "as \<noteq> []"
  shows "\<exists>z m. t = Some z \<and> z \<noteq> a \<and> h z = Some m \<and>
     dls (h(a \<mapsto> n\<lparr>nprev := t\<rparr>, z \<mapsto> m\<lparr>nnext := Some a\<rparr>)) None f (as @ [a]) (Some a) None"
proof -
  obtain bs z where as: "as = bs @ [z]" using assms(6) by (cases as rule: rev_cases) auto
  let ?h = "h(a \<mapsto> n\<lparr>nprev := t\<rparr>)"
  have t: "t = Some z" using assms(1) as dls_last by blast
  have za: "z \<noteq> a" using assms(2) as by auto
  have "dls ?h None f (bs @ [z]) t None"
    using assms(1,2) as by (subst dls_frame) auto
  then obtain m where m: "?h z = Some m"
    and d: "dls (?h(z \<mapsto> m\<lparr>nnext := Some a\<rparr>)) None f (bs @ [z]) t (Some a)"
    using dls_set_next_last assms(4) as by blast
  have "dls (?h(z \<mapsto> m\<lparr>nnext := Some a\<rparr>)) t (Some a) [a] (Some a) None"
    using za assms(5) by simp
  then have "dls (?h(z \<mapsto> m\<lparr>nnext := Some a\<rparr>)) None f (as @ [a]) (Some a) None"
    using d as unfolding dls_append [of _ _ _ as "[a]"] by blast
  then show ?thesis using t za m by auto
qed

lemma dls_cons_node:
  assumes "dls h None f as t None" and "a \<notin> set as" and "h a = Some n" and "distinct as"
    and "nprev n = None" and "as \<noteq> []"
  shows "\<exists>z m. f = Some z \<and> z \<noteq> a \<and> h z = Some m \<and>
     dls (h(a \<mapsto> n\<lparr>nnext := f\<rparr>, z \<mapsto> m\<lparr>nprev := Some a\<rparr>)) None (Some a) (a # as) t None"
proof -
  obtain z bs where as: "as = z # bs" using assms(6) by (cases as) auto
  let ?h = "h(a \<mapsto> n\<lparr>nnext := f\<rparr>)"
  have f: "f = Some z" using assms(1) as by simp
  have za: "z \<noteq> a" using assms(2) as by auto
  have "dls ?h None f (z # bs) t None"
    using assms(1,2) as by (subst dls_frame) auto
  then obtain m where m: "?h z = Some m"
    and d: "dls (?h(z \<mapsto> m\<lparr>nprev := Some a\<rparr>)) (Some a) f (z # bs) t None"
    using dls_set_prev_first assms(4) as by blast
  have "dls (?h(z \<mapsto> m\<lparr>nprev := Some a\<rparr>)) None (Some a) (a # z # bs) t None"
    using za assms(5) d f by auto
  then show ?thesis using f za m as by auto
qed

text \<open>A node that has been allocated and not yet linked.\<close>
definition fresh_node :: "('i, 'k, 's) List_t \<Rightarrow> addr list \<Rightarrow> addr \<Rightarrow> 'i \<Rightarrow> bool" where
  "fresh_node l as a x \<longleftrightarrow> dls (nodes l) None (head l) as (tail l) None \<and> distinct as \<and>
     dom (nodes l) = insert a (set as) \<and> a \<notin> set as \<and> len l = length as \<and>
     (\<forall>b \<in> insert a (set as). b < brk l) \<and>
     nodes l a = Some \<lparr>nnext = None, nprev = None, nitem = x, ndel = False\<rparr>"

lemma calloc_node_fresh:
  assumes "List_inv l as" and "mem (brk l)"
  shows "\<exists>l1. calloc_node mem x l = (Some (brk l), l1) \<and> fresh_node l1 as (brk l) x \<and>
     cfg l1 = cfg l \<and> sem l1 = sem l \<and> payload (nodes l1) = (payload (nodes l))(brk l := Some (x, False))"
proof -
  have nb: "brk l \<notin> set as" using assms(1) by (auto simp: List_inv_def)
  then show ?thesis
    using assms
    by (auto simp: calloc_node_def fresh_node_def List_inv_def dls_frame payload_def)
qed

lemma free_fresh_node:
  assumes "fresh_node l as a x"
  shows "\<exists>l1. free_node l a = Some l1 \<and> List_inv l1 as \<and> cfg l1 = cfg l \<and> sem l1 = sem l \<and>
     payload (nodes l1) = (payload (nodes l))(a := None)"
  using assms by (auto simp: fresh_node_def free_node_def List_inv_def dls_frame payload_delete)

lemma Queue_Push_inv:
  assumes "fresh_node l as a x"
  shows "\<exists>l1. List_Queue_Push l a = Some (True, l1) \<and> List_inv (l1\<lparr>len := len l1 + 1\<rparr>) (as @ [a]) \<and>
     cfg l1 = cfg l \<and> sem l1 = sem l \<and> payload (nodes l1) = payload (nodes l)"
proof (cases "as = []")
  case True
  then show ?thesis
    using assms by (auto simp: fresh_node_def List_Queue_Push_def List_inv_def)
next
  case False
  let ?n = "\<lparr>nnext = None, nprev = None, nitem = x, ndel = False\<rparr>"
  have d: "dls (nodes l) None (head l) as (tail l) None" and a: "a \<notin> set as"
    and n: "nodes l a = Some ?n" and dist: "distinct as"
    using assms by (auto simp: fresh_node_def)
  obtain z m where z: "tail l = Some z" "z \<noteq> a" "nodes l z = Some m"
    and d': "dls ((nodes l)(a \<mapsto> ?n\<lparr>nprev := tail l\<rparr>, z \<mapsto> m\<lparr>nnext := Some a\<rparr>)) None (head l)
        (as @ [a]) (Some a) None"
    using dls_snoc_node [OF d a n dist] False by auto
  have p: "payload ((nodes l)(a \<mapsto> ?n\<lparr>nprev := tail l\<rparr>, z \<mapsto> m\<lparr>nnext := Some a\<rparr>)) = payload (nodes l)"
    using z(2,3) n by (auto simp: payload_def fun_eq_iff)
  have dm: "dom (nodes l) = insert a (set as)" using assms by (simp add: fresh_node_def)
  show ?thesis
    using z d' n p dm dist a assms
    by (auto simp: List_Queue_Push_def set_next_def set_prev_def upd_node_def List_inv_def
        fresh_node_def)
qed

lemma Stack_Push_inv:
  assumes "fresh_node l as a x"
  shows "\<exists>l1. List_Stack_Push l a = Some (True, l1) \<and> List_inv (l1\<lparr>len := len l1 + 1\<rparr>) (a # as) \<and>
     cfg l1 = cfg l \<and> sem l1 = sem l \<and> payload (nodes l1) = payload (nodes l)"
proof (cases "as = []")
  case True
  then show ?thesis
    using assms by (auto simp: fresh_node_def List_Stack_Push_def List_inv_def)
next
  case False
  let ?n = "\<lparr>nnext = None, nprev = None, nitem = x, ndel = False\<rparr>"
  have d: "dls (nodes l) None (head l) as (tail l) None" and a: "a \<notin> set as"
    and n: "nodes l a = Some ?n" and dist: "distinct as"
    using assms by (auto simp: fresh_node_def)
  obtain z m where z: "head l = Some z" "z \<noteq> a" "nodes l z = Some m"
    and d': "dls ((nodes l)(a \<mapsto> ?n\<lparr>nnext := head l\<rparr>, z \<mapsto> m\<lparr>nprev := Some a\<rparr>)) None (Some a)
        (a # as) (tail l) None"
    using dls_cons_node [OF d a n dist] False by auto
  have p: "payload ((nodes l)(a \<mapsto> ?n\<lparr>nnext := head l\<rparr>, z \<mapsto> m\<lparr>nprev := Some a\<rparr>)) = payload (nodes l)"
    using z(2,3) n by (auto simp: payload_def fun_eq_iff)
  have dm: "dom (nodes l) = insert a (set as)" using assms by (simp add: fresh_node_def)
  show ?thesis
    using z d' n p dm dist a assms
    by (auto simp: List_Stack_Push_def set_next_def set_prev_def upd_node_def List_inv_def
        fresh_node_def)
qed

section \<open>The abstract list\<close>

text \<open>
  What the operations promise, on a plain list of items: where a push puts the item, which item a
  pop takes, and what an iteration visits, keeps and removes.
\<close>

definition valid_mode :: "int \<Rightarrow> bool" where
  "valid_mode m \<longleftrightarrow> m = LIST_MODE_GENERIC \<or> m = LIST_MODE_STACK \<or> m = LIST_MODE_QUEUE"

definition push_spec :: "int \<Rightarrow> 'i \<Rightarrow> 'i list \<Rightarrow> 'i list" where
  "push_spec m x xs = (if m = LIST_MODE_STACK then x # xs else xs @ [x])"

definition accepts :: "(addr \<Rightarrow> bool) \<Rightarrow> ('i, 'k, 's) List_t \<Rightarrow> bool" where
  "accepts mem l \<longleftrightarrow> mem (brk l) \<and> \<not> (limit l > 0 \<and> len l \<ge> limit l) \<and> valid_mode (mode l)"

fun pop_spec :: "int \<Rightarrow> 'i list \<Rightarrow> ('i option \<times> 'i list)" where
  "pop_spec m [] = (None, [])"
| "pop_spec m (x # xs) =
     (if m = LIST_MODE_STACK then (Some x, xs) else (Some (last (x # xs)), butlast (x # xs)))"

lemma pop_spec_snoc: "m \<noteq> LIST_MODE_STACK \<Longrightarrow> pop_spec m (xs @ [x]) = (Some x, xs)"
  by (cases xs) auto

lemma valid_mode_cases: "valid_mode m \<Longrightarrow> m \<noteq> LIST_MODE_STACK \<Longrightarrow> m = LIST_MODE_GENERIC \<or> m = LIST_MODE_QUEUE"
  by (auto simp: valid_mode_def)

lemma List_repI:
  "List_inv l as \<Longrightarrow> items (nodes l) as = xs \<Longrightarrow>
   (\<And>a. a \<in> set as \<Longrightarrow> \<not> snd (the (payload (nodes l) a))) \<Longrightarrow> List_rep l xs"
  by (auto simp: List_rep_def)

lemma sem_post_simps [simp]:
  "List_rep (sem_post l) xs = List_rep l xs" "cfg (sem_post l) = cfg l"
  "sem (sem_post l) = map_option Suc (sem l)"
  by (auto simp: sem_post_def split: option.splits)

lemma linked_rep:
  assumes "fresh_node l as a x" and "items (nodes l) as = xs"
    and "\<forall>b \<in> set as. \<not> snd (the (payload (nodes l) b))"
    and "List_inv l1 bs" and "payload (nodes l1) = payload (nodes l)"
  shows "bs = as @ [a] \<Longrightarrow> List_rep l1 (xs @ [x])" and "bs = a # as \<Longrightarrow> List_rep l1 (x # xs)"
proof -
  have a: "payload (nodes l) a = Some (x, False)"
    using assms(1) by (simp add: fresh_node_def payload_def)
  show "bs = as @ [a] \<Longrightarrow> List_rep l1 (xs @ [x])"
    using a assms(2-5) by (intro List_repI [of l1 bs]) (auto simp: items_def)
  show "bs = a # as \<Longrightarrow> List_rep l1 (x # xs)"
    using a assms(2-5) by (intro List_repI [of l1 bs]) (auto simp: items_def)
qed

lemma List_Push_accepted:
  assumes rep: "List_rep l xs" and ok: "accepts mem l"
  shows "\<exists>l'. List_Push mem (Some l) x = Some (True, Some l') \<and>
     List_rep l' (push_spec (mode l) x xs) \<and> cfg l' = cfg l \<and> sem l' = map_option Suc (sem l)"
proof -
  obtain as where as: "List_inv l as" "items (nodes l) as = xs"
    "\<forall>b \<in> set as. \<not> snd (the (payload (nodes l) b))"
    using rep by (auto simp: List_rep_def)
  have mem: "mem (brk l)" and lim: "\<not> (limit l > 0 \<and> len l \<ge> limit l)" and vm: "valid_mode (mode l)"
    using ok by (auto simp: accepts_def)
  obtain l1 where l1: "calloc_node mem x l = (Some (brk l), l1)" "fresh_node l1 as (brk l) x"
    "cfg l1 = cfg l" "sem l1 = sem l" "payload (nodes l1) = (payload (nodes l))(brk l := Some (x, False))"
    using calloc_node_fresh [where mem = mem and x = x, OF as(1)] mem by blast
  have nb: "brk l \<notin> set as" using l1(2) by (simp add: fresh_node_def)
  have it: "items (nodes l1) as = xs" "\<forall>b \<in> set as. \<not> snd (the (payload (nodes l1) b))"
    using as(2,3) l1(5) nb by (auto simp: items_def)
  have ln: "len l1 = len l" using l1(2) as(1) by (simp add: fresh_node_def List_inv_def)
  note c = cfgD [OF l1(3)]
  show ?thesis
  proof (cases "mode l = LIST_MODE_STACK")
    case True
    obtain l2 where l2: "List_Stack_Push l1 (brk l) = Some (True, l2)"
      "List_inv (l2\<lparr>len := len l2 + 1\<rparr>) (brk l # as)" "cfg l2 = cfg l1" "sem l2 = sem l1"
      "payload (nodes l2) = payload (nodes l1)"
      using Stack_Push_inv [OF l1(2)] by blast
    have "List_rep (l2\<lparr>len := len l2 + 1\<rparr>) (x # xs)"
      using linked_rep(2) [OF l1(2) it l2(2)] l2(5) by simp
    then show ?thesis
      using True l1 l2 c lim ln by (auto simp: push_spec_def)
  next
    case False
    obtain l2 where l2: "List_Queue_Push l1 (brk l) = Some (True, l2)"
      "List_inv (l2\<lparr>len := len l2 + 1\<rparr>) (as @ [brk l])" "cfg l2 = cfg l1" "sem l2 = sem l1"
      "payload (nodes l2) = payload (nodes l1)"
      using Queue_Push_inv [OF l1(2)] by blast
    have "List_rep (l2\<lparr>len := len l2 + 1\<rparr>) (xs @ [x])"
      using linked_rep(1) [OF l1(2) it l2(2)] l2(5) by simp
    then show ?thesis
      using False valid_mode_cases [OF vm False] l1 l2 c lim ln by (auto simp: push_spec_def)
  qed
qed

lemma List_Push_refused:
  assumes rep: "List_rep l xs" and no: "\<not> accepts mem l"
  shows "\<exists>l'. List_Push mem (Some l) x = Some (False, Some l') \<and> List_rep l' xs \<and> cfg l' = cfg l \<and>
     sem l' = sem l"
proof -
  obtain as where as: "List_inv l as" "items (nodes l) as = xs"
    "\<forall>b \<in> set as. \<not> snd (the (payload (nodes l) b))"
    using rep by (auto simp: List_rep_def)
  show ?thesis
  proof (cases "mem (brk l)")
    case False
    have "List_rep (l\<lparr>brk := Suc (brk l)\<rparr>) xs"
      using as by (intro List_repI [of _ as]) (auto simp: List_inv_def less_Suc_eq)
    then show ?thesis using False by (simp add: calloc_node_def)
  next
    case True
    obtain l1 where l1: "calloc_node mem x l = (Some (brk l), l1)" "fresh_node l1 as (brk l) x"
      "cfg l1 = cfg l" "sem l1 = sem l" "payload (nodes l1) = (payload (nodes l))(brk l := Some (x, False))"
      using calloc_node_fresh [where mem = mem and x = x, OF as(1)] True by blast
    obtain l2 where l2: "free_node l1 (brk l) = Some l2" "List_inv l2 as" "cfg l2 = cfg l1"
      "sem l2 = sem l1" "payload (nodes l2) = (payload (nodes l1))(brk l := None)"
      using free_fresh_node [OF l1(2)] by blast
    have nb: "brk l \<notin> set as" and ln: "len l1 = len l"
      using l1(2) as(1) by (auto simp: fresh_node_def List_inv_def)
    have "List_rep l2 xs"
      using as l1(5) l2 nb by (intro List_repI [of _ as]) (auto simp: items_def)
    moreover have "limit l1 > 0 \<and> len l1 \<ge> limit l1 \<or> \<not> valid_mode (mode l1)"
      using no True cfgD [OF l1(3)] ln by (auto simp: accepts_def)
    ultimately show ?thesis
      using l1 l2 by (auto simp: valid_mode_def)
  qed
qed

subsection \<open>Removal of the next item\<close>

lemma List_Do_Pop_free:
  assumes inv: "List_inv l (as @ a # bs)" and m: "valid_mode (mode l)"
    and pos: "if mode l = LIST_MODE_STACK then as = [] else bs = []"
  shows "\<exists>l1 n l2. List_Do_Pop l = Some (Some a, l1) \<and> nodes l1 a = Some n \<and> free_node l1 a = Some l2 \<and>
     (nitem n, ndel n) = the (payload (nodes l) a) \<and> destroy l1 = destroy l \<and>
     List_inv l2 (as @ bs) \<and> cfg l2 = cfg l \<and> sem l2 = sem l \<and>
     payload (nodes l2) = (payload (nodes l))(a := None)"
proof -
  obtain l1 l2 where u: "List_RemoveNode l a = Some l1" "payload (nodes l1) = payload (nodes l)"
     "destroy l1 = destroy l" "free_node l1 a = Some l2" "List_inv l2 (as @ bs)" "cfg l2 = cfg l"
     "sem l2 = sem l" "payload (nodes l2) = (payload (nodes l))(a := None)"
    using unlink_free [OF inv] by blast
  obtain n where n: "nodes l1 a = Some n" using u(4) by (auto simp: free_node_def split: option.splits)
  have hd: "as = [] \<Longrightarrow> head l = Some a" and tl: "bs = [] \<Longrightarrow> tail l = Some a"
    using inv by (auto simp: List_inv_def dls_append)
  have "List_Do_Pop l = Some (Some a, l1)"
    using m pos hd tl u(1)
    by (auto simp: List_Do_Pop_def List_Stack_Pop_def List_Queue_Pop_def valid_mode_def split: if_splits)
  moreover have "(nitem n, ndel n) = the (payload (nodes l) a)"
    using n unfolding u(2) [symmetric] by (simp add: payload_def)
  ultimately show ?thesis using u n by blast
qed

lemma List_Do_Pop_empty: "List_inv l [] \<Longrightarrow> List_Do_Pop l = Some (None, l)"
  by (auto simp: List_Do_Pop_def List_Stack_Pop_def List_Queue_Pop_def List_inv_def)

lemma pop_node_refines:
  assumes rep: "List_rep l xs" and m: "valid_mode (mode l)"
  shows "\<exists>l'. pop_node l = Some (fst (pop_spec (mode l) xs), l') \<and>
     List_rep l' (snd (pop_spec (mode l) xs)) \<and> cfg l' = cfg l \<and> sem l' = sem l"
proof -
  obtain cs where cs: "List_inv l cs" "items (nodes l) cs = xs"
    "\<forall>b \<in> set cs. \<not> snd (the (payload (nodes l) b))"
    using rep by (auto simp: List_rep_def)
  show ?thesis
  proof (cases "cs = []")
    case True
    then show ?thesis
      using cs rep List_Do_Pop_empty [of l] by (auto simp: pop_node_def items_def)
  next
    case False
    obtain as a bs where sp: "cs = as @ a # bs"
      and pos: "if mode l = LIST_MODE_STACK then as = [] else bs = []"
    proof (cases "mode l = LIST_MODE_STACK")
      case True
      then show ?thesis using that [of "[]" "hd cs" "tl cs"] False by simp
    next
      case md: False
      then show ?thesis using that [of "butlast cs" "last cs" "[]"] False by simp
    qed
    obtain l1 n l2 where p: "List_Do_Pop l = Some (Some a, l1)" "nodes l1 a = Some n"
      "free_node l1 a = Some l2" "(nitem n, ndel n) = the (payload (nodes l) a)"
      "List_inv l2 (as @ bs)" "cfg l2 = cfg l" "sem l2 = sem l"
      "payload (nodes l2) = (payload (nodes l))(a := None)"
      using List_Do_Pop_free [OF cs(1) [unfolded sp] m pos] by blast
    have na: "a \<notin> set (as @ bs)" using cs(1) sp by (auto simp: List_inv_def)
    have it: "items (nodes l2) (as @ bs) = items (nodes l) (as @ bs)"
      using na p(8) by (rule items_fun_upd)
    have x: "nitem n = fst (the (payload (nodes l) a))"
      using p(4) by (metis fst_conv)
    have ps: "pop_spec (mode l) xs = (Some (nitem n), items (nodes l) (as @ bs))"
    proof (cases "mode l = LIST_MODE_STACK")
      case True
      then show ?thesis using pos sp cs(2) x by (auto simp: items_def)
    next
      case False
      then have "xs = items (nodes l) as @ [nitem n]" using pos sp cs(2) x by (auto simp: items_def)
      then show ?thesis using False pos by (simp add: pop_spec_snoc)
    qed
    have "List_rep l2 (items (nodes l) (as @ bs))"
      using p(5) it cs(3) sp p(8) na by (intro List_repI [of _ "as @ bs"]) auto
    then show ?thesis using p ps by (simp add: pop_node_def)
  qed
qed

section \<open>Iteration\<close>

text \<open>
  The iteration on a plain list: the callback runs on each item in order until it asks to stop; the
  result records for each item whether its removal was requested.
\<close>
fun each_walk ::
  "('i \<Rightarrow> 's \<Rightarrow> 's) option \<Rightarrow> ('i \<Rightarrow> 's \<Rightarrow> 's) option \<Rightarrow> ('i, 'u, 's) each_op \<Rightarrow> 'i list \<Rightarrow> 'u \<Rightarrow> 's \<Rightarrow>
   (bool \<times> bool list \<times> 'u \<times> 's) option" where
  "each_walk lk ul op [] u s = Some (True, [], u, s)"
| "each_walk lk ul op (x # xs) u s = do {
     (r, u1, s1) \<leftarrow> op x u (call_opt lk x s);
     let s2 = call_opt ul x s1;
     (if r = LIST_EACH_ERROR \<or> r = LIST_EACH_END
      then Some (r = LIST_EACH_END, replicate (Suc (length xs)) False, u1, s2)
      else do {
        (ret, ms, u', s') \<leftarrow> each_walk lk ul op xs u1 s2;
        Some (ret, (r = LIST_EACH_REMOVE) # ms, u', s') }) }"

definition removed :: "bool list \<Rightarrow> 'i list \<Rightarrow> 'i list" where
  "removed ms xs = map fst (filter snd (zip xs ms))"

definition kept :: "bool list \<Rightarrow> 'i list \<Rightarrow> 'i list" where
  "kept ms xs = map fst (filter (\<lambda>p. \<not> snd p) (zip xs ms))"

lemma kept_removed_simps [simp]:
  "removed ms [] = []" "kept ms [] = []" "removed [] xs = []" "kept [] xs = []"
  "removed (m # ms) (x # xs) = (if m then x # removed ms xs else removed ms xs)"
  "kept (m # ms) (x # xs) = (if m then kept ms xs else x # kept ms xs)"
  by (simp_all add: removed_def kept_def)

definition each_spec ::
  "('i, 'k, 's) List_t \<Rightarrow> ('i, 'u, 's) each_op \<Rightarrow> 'i list \<Rightarrow> 'u \<Rightarrow> 's \<Rightarrow> (bool \<times> 'i list \<times> 'u \<times> 's) option"
where
  "each_spec l op xs u s = do {
     (ret, ms, u', s') \<leftarrow> each_walk (nodeLock l) (nodeUnlock l) op xs u s;
     Some (ret, kept ms xs, u', fold (call_opt (destroy l)) (removed ms xs) s') }"

lemma each_walk_length:
  "each_walk lk ul op xs u s = Some (ret, ms, u', s') \<Longrightarrow> length ms = length xs"
  by (induction xs arbitrary: u s ret ms u' s')
     (auto simp: bind_Some_eq Let_def split: if_splits prod.splits)

lemma no_marks: "True \<notin> set ms \<Longrightarrow> length ms = length xs \<Longrightarrow> removed ms xs = [] \<and> kept ms xs = xs"
proof (induction ms xs rule: list_induct2')
  case (4 m ms x xs)
  then show ?case by (cases m) auto
qed auto

subsection \<open>The walk\<close>

text \<open>Marking nodes for deletion leaves the links alone.\<close>
definition mark_set :: "addr set \<Rightarrow> 'i heap \<Rightarrow> 'i heap" where
  "mark_set S h = (\<lambda>a. if a \<in> S then map_option (\<lambda>n. n\<lparr>ndel := True\<rparr>) (h a) else h a)"

definition links :: "'i heap \<Rightarrow> addr \<Rightarrow> (addr option \<times> addr option) option" where
  "links h a = map_option (\<lambda>n. (nnext n, nprev n)) (h a)"

lemma links_mark_set [simp]: "links (mark_set S h) = links h"
  by (auto simp: links_def mark_set_def fun_eq_iff option.map_comp comp_def)

lemma links_eqD: "links h a = links h' a \<Longrightarrow> h a = Some n \<Longrightarrow>
    \<exists>m. h' a = Some m \<and> nnext m = nnext n \<and> nprev m = nprev n"
  by (cases "h' a") (auto simp: links_def)

lemma dls_links_mono: "links h = links h' \<Longrightarrow> dls h p f as t n \<Longrightarrow> dls h' p f as t n"
proof (induction as arbitrary: p f)
  case Nil
  then show ?case by simp
next
  case (Cons a as)
  then obtain nd where nd: "f = Some a" "h a = Some nd" "nprev nd = p" "dls h (Some a) (nnext nd) as t n"
    by auto
  obtain m where "h' a = Some m" "nnext m = nnext nd" "nprev m = nprev nd"
    using links_eqD [of h a h' nd] Cons.prems(1) nd(2) by auto
  then show ?case using Cons.IH [OF Cons.prems(1) nd(4)] nd by auto
qed

lemma dls_mark_set [simp]: "dls (mark_set S h) p f as t n = dls h p f as t n"
  using dls_links_mono links_mark_set by metis

lemma payload_mark_set:
  "payload (mark_set S h) a = map_option (\<lambda>(x, d). (x, d \<or> a \<in> S)) (payload h a)"
  by (cases "h a") (auto simp: payload_def mark_set_def)

lemma dom_mark_set [simp]: "dom (mark_set S h) = dom h"
  by (auto simp: mark_set_def split: if_splits)

lemma mark_set_insert:
  "h a = Some n \<Longrightarrow> mark_set S (h(a \<mapsto> n\<lparr>ndel := True\<rparr>)) = mark_set (insert a S) h"
  by (auto simp: mark_set_def fun_eq_iff)

lemma mark_set_empty [simp]: "mark_set {} h = h"
  by (auto simp: mark_set_def)

definition marked :: "bool list \<Rightarrow> addr list \<Rightarrow> addr set" where
  "marked ms as = set (removed ms as)"

lemma marked_replicate [simp]: "marked (replicate n False) as = {}"
proof (induction as arbitrary: n)
  case (Cons a as)
  then show ?case by (cases n) (auto simp: marked_def)
qed (simp add: marked_def)

lemma foreach_walk_refines:
  assumes "dls (nodes l) p cur as t None" and "distinct as"
  shows "foreach_walk op l cur del u s =
     (case each_walk (nodeLock l) (nodeUnlock l) op (items (nodes l) as) u s of
        None \<Rightarrow> None
      | Some (ret, ms, u', s') \<Rightarrow>
          Some (ret, del \<or> True \<in> set ms, l\<lparr>nodes := mark_set (marked ms as) (nodes l)\<rparr>, u', s'))"
  using assms
proof (induction as arbitrary: p cur l del u s)
  case Nil
  then show ?case by (simp add: foreach_walk.simps items_def marked_def)
next
  case (Cons a as)
  let ?h = "nodes l"
  obtain n where n: "cur = Some a" "?h a = Some n" "dls ?h (Some a) (nnext n) as t None"
    using Cons.prems by auto
  have na: "a \<notin> set as" and dist: "distinct as" using Cons.prems by auto
  have it: "items ?h (a # as) = nitem n # items ?h as"
    using n by (simp add: items_def payload_def)
  let ?s = "call_opt (nodeLock l) (nitem n) s"
  show ?case
  proof (cases "op (nitem n) u ?s")
    case None
    then show ?thesis using n it by (simp add: foreach_walk.simps [of op l "Some a"])
  next
    case (Some r)
    obtain r0 u1 s1 where r: "op (nitem n) u ?s = Some (r0, u1, s1)" using Some by (cases r) auto
    let ?s2 = "call_opt (nodeUnlock l) (nitem n) s1"
    let ?l2 = "l\<lparr>nodes := ?h(a \<mapsto> n\<lparr>ndel := True\<rparr>)\<rparr>"
    have d2: "dls (nodes ?l2) (Some a) (nnext n) as t None"
      using n(3) na by (simp add: dls_frame)
    have it2: "items (nodes ?l2) as = items ?h as"
      using na by (auto simp: items_def payload_def)
    have mk: "mark_set (marked ms as) (nodes ?l2) = mark_set (marked (True # ms) (a # as)) ?h" for ms
      using mark_set_insert [where h = ?h and a = a, OF n(2)] by (simp add: marked_def)
    note IH1 = Cons.IH [OF n(3) dist] and IH2 = Cons.IH [OF d2 dist]
    consider (stop) "r0 = LIST_EACH_ERROR \<or> r0 = LIST_EACH_END" | (rem) "r0 = LIST_EACH_REMOVE"
      | (go) "r0 \<noteq> LIST_EACH_ERROR" "r0 \<noteq> LIST_EACH_END" "r0 \<noteq> LIST_EACH_REMOVE" by auto
    then show ?thesis
    proof cases
      case stop
      have "marked (False # replicate (length as) False) (a # as) = {}"
        using marked_replicate [of "Suc (length as)" "a # as"] by simp
      then show ?thesis using stop n r it
        by (auto simp: foreach_walk.simps [of op l "Some a"] items_def)
    next
      case rem
      then have "foreach_walk op l cur del u s = foreach_walk op ?l2 (nnext n) True u1 ?s2"
        using n r by (simp add: foreach_walk.simps [of op l "Some a"] upd_node_def)
      moreover have "foreach_walk op ?l2 (nnext n) True u1 ?s2 =
         (case each_walk (nodeLock l) (nodeUnlock l) op (items ?h as) u1 ?s2 of
            None \<Rightarrow> None
          | Some (ret, ms, u', s') \<Rightarrow>
              Some (ret, True, l\<lparr>nodes := mark_set (marked (True # ms) (a # as)) ?h\<rparr>, u', s'))"
        unfolding IH2 it2 mk by (simp split: option.split)
      ultimately show ?thesis using rem r it
        by (cases "each_walk (nodeLock l) (nodeUnlock l) op (items ?h as) u1 ?s2") auto
    next
      case go
      then have "foreach_walk op l cur del u s = foreach_walk op l (nnext n) del u1 ?s2"
        using n r by (simp add: foreach_walk.simps [of op l "Some a"])
      then show ?thesis using go r it
        by (cases "each_walk (nodeLock l) (nodeUnlock l) op (items ?h as) u1 ?s2")
           (auto simp: IH1 marked_def)
    qed
  qed
qed

subsection \<open>The pruning pass\<close>

definition mk :: "'i heap \<Rightarrow> addr \<Rightarrow> bool" where
  "mk h a = snd (the (payload h a))"

lemma foreach_prune_ok:
  assumes "List_inv l (as @ bs)"
  shows "\<exists>l'. foreach_prune l (case bs of [] \<Rightarrow> None | b # _ \<Rightarrow> Some b) s =
       Some (l', fold (call_opt (destroy l)) (items (nodes l) (filter (mk (nodes l)) bs)) s) \<and>
     List_inv l' (as @ filter (\<lambda>a. \<not> mk (nodes l) a) bs) \<and> cfg l' = cfg l \<and> sem l' = sem l \<and>
     (\<forall>a \<in> set as \<union> set (filter (\<lambda>a. \<not> mk (nodes l) a) bs). payload (nodes l') a = payload (nodes l) a)"
  using assms
proof (induction bs arbitrary: l as s)
  case Nil
  then show ?case by (auto simp: foreach_prune.simps [of _ None] items_def)
next
  case (Cons b bs)
  let ?h = "nodes l"
  have dist: "distinct (as @ b # bs)" using Cons.prems by (simp add: List_inv_def)
  obtain k m where "dls ?h k m (b # bs) (tail l) None"
    using Cons.prems by (auto simp: List_inv_def dls_append)
  then obtain n where n: "?h b = Some n" and nx: "nnext n = (case bs of [] \<Rightarrow> None | c # _ \<Rightarrow> Some c)"
    by (cases bs) auto
  have mb: "mk ?h b = ndel n" and ib: "items ?h [b] = [nitem n]"
    using n by (simp_all add: mk_def payload_def items_def)
  show ?case
  proof (cases "ndel n")
    case False
    have step: "foreach_prune l (Some b) s = foreach_prune l (nnext n) s"
      using n False by (simp add: foreach_prune.simps [of l "Some b"])
    have inv: "List_inv l ((as @ [b]) @ bs)" using Cons.prems by simp
    show ?thesis using Cons.IH [OF inv, of s] False mb step nx by auto
  next
    case True
    obtain l1 l2 where u: "List_RemoveNode l b = Some l1" "free_node l1 b = Some l2"
      "List_inv l2 (as @ bs)" "cfg l2 = cfg l" "sem l2 = sem l"
      "payload (nodes l2) = (payload ?h)(b := None)"
      using unlink_free [OF Cons.prems] by blast
    have step: "foreach_prune l (Some b) s =
        foreach_prune l2 (nnext n) (call_opt (destroy l) (nitem n) s)"
      using n True u by (simp add: foreach_prune.simps [of l "Some b"])
    have same: "payload (nodes l2) a = payload ?h a" if "a \<in> set as \<union> set bs" for a
      using that u(6) dist by auto
    have mks: "filter (mk (nodes l2)) bs = filter (mk ?h) bs"
      "filter (\<lambda>a. \<not> mk (nodes l2) a) bs = filter (\<lambda>a. \<not> mk ?h a) bs"
      "items (nodes l2) (filter (mk ?h) bs) = items ?h (filter (mk ?h) bs)"
      using same by (auto simp: mk_def items_def intro!: filter_cong)
    have it: "items ?h (b # filter (mk ?h) bs) = nitem n # items ?h (filter (mk ?h) bs)"
      using ib by (simp add: items_def)
    let ?s1 = "call_opt (destroy l) (nitem n) s"
    obtain l' where l': "foreach_prune l2 (nnext n) ?s1 =
         Some (l', fold (call_opt (destroy l)) (items ?h (filter (mk ?h) bs)) ?s1)"
       "List_inv l' (as @ filter (\<lambda>a. \<not> mk ?h a) bs)" "cfg l' = cfg l" "sem l' = sem l"
       "\<forall>a \<in> set as \<union> set (filter (\<lambda>a. \<not> mk ?h a) bs). payload (nodes l') a = payload (nodes l2) a"
      using Cons.IH [OF u(3), of ?s1] unfolding mks nx [symmetric] u(4,5) cfgD(5) [OF u(4)] by blast
    have "\<forall>a \<in> set as \<union> set (filter (\<lambda>a. \<not> mk ?h a) bs). payload (nodes l') a = payload ?h a"
      using l'(5) same by auto
    then show ?thesis using l'(1-4) True mb step it by (intro exI [of _ l']) simp
  qed
qed

subsection \<open>\<open>List_ForEach\<close>\<close>

lemma filter_marked:
  assumes "distinct as" and "length ms = length as"
  shows "filter (\<lambda>a. a \<in> marked ms as) as = removed ms as"
    and "filter (\<lambda>a. a \<notin> marked ms as) as = kept ms as"
proof -
  have "filter (\<lambda>a. a \<in> marked ms as) as = removed ms as \<and>
        filter (\<lambda>a. a \<notin> marked ms as) as = kept ms as"
    using assms(2,1)
  proof (induction ms as rule: list_induct2)
    case Nil
    then show ?case by simp
  next
    case (Cons m ms a as)
    have "set (removed ms as) \<subseteq> set as"
      by (auto simp: removed_def dest: set_zip_leftD)
    then have "a \<notin> marked ms as" using Cons.prems by (auto simp: marked_def)
    moreover have "filter (\<lambda>b. b \<in> insert a (marked ms as)) as = filter (\<lambda>b. b \<in> marked ms as) as"
      "filter (\<lambda>b. b \<notin> insert a (marked ms as)) as = filter (\<lambda>b. b \<notin> marked ms as) as"
      using Cons.prems by (auto intro!: filter_cong)
    ultimately show ?case
      using Cons.IH Cons.prems by (cases m) (auto simp: marked_def)
  qed
  then show "filter (\<lambda>a. a \<in> marked ms as) as = removed ms as"
    and "filter (\<lambda>a. a \<notin> marked ms as) as = kept ms as" by auto
qed

lemma items_removed: "items h (removed ms as) = removed ms (items h as)"
  by (induction ms as rule: list_induct2') (auto simp: items_def)

lemma items_kept: "items h (kept ms as) = kept ms (items h as)"
  by (induction ms as rule: list_induct2') (auto simp: items_def)

lemma List_inv_payload:
  assumes "List_inv l as" and "a \<in> set as"
  shows "\<exists>x d. payload (nodes l) a = Some (x, d)"
proof -
  have "a \<in> dom (nodes l)" using assms by (simp add: List_inv_def)
  then show ?thesis by (auto simp: payload_def)
qed

lemma List_ForEach_walk:
  assumes "List_rep l xs" and "each_walk (nodeLock l) (nodeUnlock l) op xs u s = Some (ret, ms, u', s')"
  shows "\<exists>l'. List_ForEach (Some l) op u s =
        Some (ret, Some l', u', fold (call_opt (destroy l)) (removed ms xs) s') \<and>
      List_rep l' (kept ms xs) \<and> cfg l' = cfg l \<and> sem l' = sem l \<and> (True \<notin> set ms \<longrightarrow> l' = l)"
proof -
  obtain as where inv: "List_inv l as" and it: "items (nodes l) as = xs"
    and un: "\<forall>a \<in> set as. \<not> snd (the (payload (nodes l) a))"
    using assms(1) by (auto simp: List_rep_def)
  have d: "dls (nodes l) None (head l) as (tail l) None" and dist: "distinct as"
    and dom: "dom (nodes l) = set as"
    using inv by (auto simp: List_inv_def)
  have lms: "length ms = length xs" and las: "length as = length xs"
    using each_walk_length [OF assms(2)] it by (auto simp: items_def)
  show ?thesis
  proof (cases "as = []")
    case True
    then have "xs = []" "head l = None" using it inv by (auto simp: items_def List_inv_def)
    then show ?thesis using assms lms by auto
  next
    case False
    let ?l1 = "l\<lparr>nodes := mark_set (marked ms as) (nodes l)\<rparr>"
    have hd: "head l = (case as of [] \<Rightarrow> None | a # _ \<Rightarrow> Some a)" "head l \<noteq> None"
      using d False by (cases as; auto)+
    have walk: "foreach_walk op l (head l) False u s = Some (ret, True \<in> set ms, ?l1, u', s')"
      using foreach_walk_refines [OF d dist, of op False u s] assms(2) it by simp
    show ?thesis
    proof (cases "True \<in> set ms")
      case nomarks: False
      have "marked ms as = {}" and "kept ms xs = xs" and "removed ms xs = []"
        using no_marks [OF nomarks, of xs] no_marks [OF nomarks, of as] lms las
        by (auto simp: marked_def)
      then show ?thesis using walk hd(2) nomarks assms(1) by auto
    next
      case marks: True
      have inv1: "List_inv ?l1 ([] @ as)" using inv by (simp add: List_inv_def)
      have mkm: "mk (nodes ?l1) a = (a \<in> marked ms as)" if am: "a \<in> set as" for a
      proof -
        obtain x b where "payload (nodes l) a = Some (x, b)" "\<not> b"
          using List_inv_payload [OF inv am] un am by force
        then show ?thesis by (simp add: mk_def payload_mark_set)
      qed
      have fl: "filter (mk (nodes ?l1)) as = removed ms as" "filter (\<lambda>a. \<not> mk (nodes ?l1) a) as = kept ms as"
        using filter_marked [OF dist] lms las mkm by (simp_all cong: filter_cong)
      have it1: "items (nodes ?l1) bs = items (nodes l) bs" if "set bs \<subseteq> set as" for bs
        using that List_inv_payload [OF inv] by (force simp: items_def payload_mark_set)
      have sub: "set (removed ms as) \<subseteq> set as" "set (kept ms as) \<subseteq> set as"
        unfolding fl [symmetric] by auto
      obtain l' where l': "foreach_prune ?l1 (head l) s' =
           Some (l', fold (call_opt (destroy l)) (items (nodes ?l1) (removed ms as)) s')"
         "List_inv l' (kept ms as)" "cfg l' = cfg l" "sem l' = sem l"
         "\<forall>a \<in> set (kept ms as). payload (nodes l') a = payload (nodes ?l1) a"
        using foreach_prune_ok [OF inv1, of s'] unfolding fl hd(1) [symmetric] by auto
      have rm: "items (nodes ?l1) (removed ms as) = removed ms xs"
        using it1 [OF sub(1)] items_removed it by metis
      have "items (nodes l') (kept ms as) = items (nodes ?l1) (kept ms as)"
        using l'(5) by (simp add: items_def)
      then have kp: "items (nodes l') (kept ms as) = kept ms xs"
        using it1 [OF sub(2)] items_kept it by metis
      have "\<not> snd (the (payload (nodes l') a))" if "a \<in> set (kept ms as)" for a
        using that l'(5) unfolding fl(2) [symmetric] by (auto simp: mk_def)
      then have "List_rep l' (kept ms xs)" using l'(2) kp by (intro List_repI)
      then show ?thesis using walk marks hd(2) l' rm by auto
    qed
  qed
qed

lemma List_ForEach_refines:
  assumes "List_rep l xs" and "each_spec l op xs u s = Some (ret, ys, u', s')"
  shows "\<exists>l'. List_ForEach (Some l) op u s = Some (ret, Some l', u', s') \<and> List_rep l' ys \<and>
     cfg l' = cfg l \<and> sem l' = sem l"
proof -
  obtain ms t where w: "each_walk (nodeLock l) (nodeUnlock l) op xs u s = Some (ret, ms, u', t)"
    and y: "ys = kept ms xs" "s' = fold (call_opt (destroy l)) (removed ms xs) t"
    using assms(2) by (auto simp: each_spec_def bind_Some_eq)
  show ?thesis using List_ForEach_walk [OF assms(1) w] y by blast
qed

text \<open>An iteration that asks for no removal leaves the list as it was.\<close>
lemma List_ForEach_readonly:
  assumes "List_rep l xs" and "each_walk (nodeLock l) (nodeUnlock l) op xs u s = Some (ret, ms, u', s')"
    and "True \<notin> set ms"
  shows "List_ForEach (Some l) op u s = Some (ret, Some l, u', s')"
proof -
  have "removed ms xs = []" using no_marks [OF assms(3), of xs] each_walk_length [OF assms(2)] by simp
  then show ?thesis using List_ForEach_walk [OF assms(1,2)] assms(3) by auto
qed

subsection \<open>Search and removal\<close>

lemma each_walk_find:
  "each_walk None None (List_FindKeyCmp kc key) xs r s =
     Some (True, replicate (length xs) False,
           case find (\<lambda>x. kc s x key = 0) xs of None \<Rightarrow> r | Some x \<Rightarrow> Some x, s)"
  by (induction xs arbitrary: r) (auto simp: List_FindKeyCmp_def)

lemma List_Find_refines:
  assumes "List_rep l xs" and "keyCmp l = Some kc" and "nodeLock l = None" and "nodeUnlock l = None"
  shows "List_Find (Some l) key s = Some (find (\<lambda>x. kc s x key = 0) xs, Some l, s)"
proof -
  have "each_walk (nodeLock l) (nodeUnlock l) (List_FindKeyCmp kc key) xs None s =
      Some (True, replicate (length xs) False, find (\<lambda>x. kc s x key = 0) xs, s)"
    unfolding assms(3,4) each_walk_find by (simp split: option.split)
  then have "List_ForEach (Some l) (List_FindKeyCmp kc key) None s =
      Some (True, Some l, find (\<lambda>x. kc s x key = 0) xs, s)"
    by (rule List_ForEach_readonly [OF assms(1)]) simp
  then show ?thesis using assms(2) by (simp del: List_ForEach.simps)
qed

definition remove_match :: "('s \<Rightarrow> 'i \<Rightarrow> 'i \<Rightarrow> int) option \<Rightarrow> 's \<Rightarrow> 'i \<Rightarrow> 'i \<Rightarrow> bool" where
  "remove_match cp s x y \<longleftrightarrow> y = x \<or> (case cp of None \<Rightarrow> False | Some c \<Rightarrow> c s y x = 0)"

lemma each_walk_remove:
  "\<exists>r'. each_walk None None (List_FindRemove cp x) xs r s =
     Some (True, map (remove_match cp s x) xs, r', s) \<and>
     (r' \<noteq> None \<longleftrightarrow> r \<noteq> None \<or> (\<exists>y \<in> set xs. remove_match cp s x y))"
proof (induction xs arbitrary: r)
  case Nil
  then show ?case by simp
next
  case (Cons y ys)
  have op: "List_FindRemove cp x y r s =
      (if remove_match cp s x y then Some (LIST_EACH_REMOVE, Some y, s) else Some (LIST_EACH_OK, r, s))"
    by (simp add: List_FindRemove_def remove_match_def)
  show ?case
  proof (cases "remove_match cp s x y")
    case True
    then show ?thesis using Cons.IH [of "Some y"] op by auto
  next
    case False
    then show ?thesis using Cons.IH [of r] op by auto
  qed
qed

lemma kept_removed_map:
  "kept (map P xs) xs = filter (\<lambda>x. \<not> P x) xs" "removed (map P xs) xs = filter P xs"
  by (induction xs) auto

lemma List_Remove_refines:
  assumes "List_rep l xs" and "nodeLock l = None" and "nodeUnlock l = None"
  shows "\<exists>l'. List_Remove (Some l) x s =
       Some (\<exists>y \<in> set xs. remove_match (cmp l) s x y, Some l',
             fold (call_opt (destroy l)) (filter (remove_match (cmp l) s x) xs) s) \<and>
     List_rep l' (filter (\<lambda>y. \<not> remove_match (cmp l) s x y) xs) \<and> cfg l' = cfg l \<and> sem l' = sem l"
proof -
  obtain r' where w: "each_walk (nodeLock l) (nodeUnlock l) (List_FindRemove (cmp l) x) xs None s =
      Some (True, map (remove_match (cmp l) s x) xs, r', s)"
    and r': "(r' \<noteq> None) = (\<exists>y \<in> set xs. remove_match (cmp l) s x y)"
    using each_walk_remove [of "cmp l" x xs None s] assms(2,3) by auto
  obtain l' where "List_ForEach (Some l) (List_FindRemove (cmp l) x) None s =
       Some (True, Some l', r', fold (call_opt (destroy l)) (filter (remove_match (cmp l) s x) xs) s)"
      "List_rep l' (filter (\<lambda>y. \<not> remove_match (cmp l) s x y) xs)" "cfg l' = cfg l" "sem l' = sem l"
    using List_ForEach_walk [OF assms(1) w] unfolding kept_removed_map by blast
  then show ?thesis using r' by (simp del: List_ForEach.simps)
qed

subsection \<open>Clearing, cloning, transferring\<close>

text \<open>The order in which a pop takes the items.\<close>
definition pop_order :: "int \<Rightarrow> 'i list \<Rightarrow> 'i list" where
  "pop_order m xs = (if m = LIST_MODE_STACK then xs else rev xs)"

lemma clear_loop_inv:
  assumes "List_inv l as" and "valid_mode (mode l)"
  shows "\<exists>l'. clear_loop l s =
       Some (l', fold (call_opt (destroy l)) (pop_order (mode l) (items (nodes l) as)) s) \<and>
     List_inv l' [] \<and> cfg l' = cfg l \<and> sem l' = sem l"
  using assms
proof (induction "length as" arbitrary: l as s)
  case 0
  then show ?case
    by (subst clear_loop.simps) (auto simp: List_Do_Pop_empty pop_order_def items_def)
next
  case (Suc k)
  obtain bs a cs where sp: "as = bs @ a # cs"
    and pos: "if mode l = LIST_MODE_STACK then bs = [] else cs = []"
  proof (cases "mode l = LIST_MODE_STACK")
    case True
    then show ?thesis using that [of "[]" "hd as" "tl as"] Suc.hyps(2) by (cases as) auto
  next
    case False
    have "as \<noteq> []" using Suc.hyps(2) by auto
    with False show ?thesis using that [of "butlast as" "last as" "[]"] by simp
  qed
  obtain l1 n l2 where p: "List_Do_Pop l = Some (Some a, l1)" "nodes l1 a = Some n"
    "free_node l1 a = Some l2" "(nitem n, ndel n) = the (payload (nodes l) a)" "destroy l1 = destroy l"
    "List_inv l2 (bs @ cs)" "cfg l2 = cfg l" "sem l2 = sem l"
    "payload (nodes l2) = (payload (nodes l))(a := None)"
    using List_Do_Pop_free [OF Suc.prems(1) [unfolded sp] Suc.prems(2) pos] by blast
  have na: "a \<notin> set (bs @ cs)" using Suc.prems(1) sp by (auto simp: List_inv_def)
  have it: "items (nodes l2) (bs @ cs) = items (nodes l) (bs @ cs)"
    using na p(9) by (rule items_fun_upd)
  have x: "nitem n = fst (the (payload (nodes l) a))" using p(4) by (metis fst_conv)
  have po: "pop_order (mode l) (items (nodes l) as) = nitem n # pop_order (mode l) (items (nodes l) (bs @ cs))"
    using pos sp x by (auto simp: pop_order_def items_def split: if_splits)
  have k: "k = length (bs @ cs)" using Suc.hyps(2) sp by simp
  note c = cfgD [OF p(7)]
  have vm: "valid_mode (mode l2)" using Suc.prems(2) c by simp
  have step: "clear_loop l s = clear_loop l2 (call_opt (destroy l) (nitem n) s)"
    using p by (subst clear_loop.simps) simp
  show ?case
    using Suc.hyps(1) [OF k p(6) vm, of "call_opt (destroy l) (nitem n) s"] step po it c p(7,8)
    by simp
qed

lemma List_Clear_refines:
  assumes "List_rep l xs" and "valid_mode (mode l)"
  shows "\<exists>l'. clear_loop l s = Some (l', fold (call_opt (destroy l)) (pop_order (mode l) xs) s) \<and>
     List_rep l' [] \<and> cfg l' = cfg l \<and> sem l' = sem l"
proof -
  obtain as where as: "List_inv l as" "items (nodes l) as = xs"
    using assms(1) by (auto simp: List_rep_def)
  then show ?thesis
    using clear_loop_inv [OF as(1) assms(2), of s]
    by (auto simp: List_rep_def items_def intro!: exI [of _ "[]"])
qed

lemma List_Transfer_refines:
  assumes "List_rep d ys" and "List_rep src xs" and "valid_mode (mode d)"
  shows "\<exists>d' src'. List_Transfer (Some d) (Some src) s =
       Some (True, Some d', Some src', fold (call_opt (destroy d)) (pop_order (mode d) ys) s) \<and>
     List_rep d' xs \<and> List_rep src' [] \<and> cfg d' = cfg d \<and> cfg src' = cfg src \<and>
     sem d' = sem d \<and> sem src' = sem src"
proof -
  obtain d1 where d1: "clear_loop d s = Some (d1, fold (call_opt (destroy d)) (pop_order (mode d) ys) s)"
    "cfg d1 = cfg d" "sem d1 = sem d"
    using List_Clear_refines [OF assms(1,3), of s] by blast
  let ?d = "d1\<lparr>head := head src, tail := tail src, len := len src, nodes := nodes src,
                brk := max (brk d1) (brk src)\<rparr>"
  obtain as where as: "List_inv src as" "items (nodes src) as = xs"
    "\<forall>a \<in> set as. \<not> snd (the (payload (nodes src) a))"
    using assms(2) by (auto simp: List_rep_def)
  have "List_inv ?d as" using as(1) by (auto simp: List_inv_def less_max_iff_disj)
  then have "List_rep ?d xs" using as by (intro List_repI [of _ as]) auto
  moreover have "List_rep (src\<lparr>head := None, tail := None, len := 0, nodes := Map.empty\<rparr>) []"
    by (intro List_repI [of _ "[]"]) (auto simp: List_inv_def items_def)
  ultimately show ?thesis using d1 by simp
qed

lemma each_walk_clone:
  assumes "List_rep d ys" and "limit d = 0" and "valid_mode (mode d)" and "clone d = Some cl"
    and "\<And>a. mem a" and "\<And>x. x \<in> set xs \<Longrightarrow> cl x s = (Some (f x), s)"
  shows "\<exists>d'. each_walk None None (List_Clone_Node mem) xs (Some d) s =
       Some (True, replicate (length xs) False, Some d', s) \<and>
     List_rep d' (fold (push_spec (mode d)) (map f xs) ys) \<and> cfg d' = cfg d \<and>
     sem d' = map_option (\<lambda>n. n + length xs) (sem d)"
  using assms(1-4,6)
proof (induction xs arbitrary: d ys)
  case Nil
  then show ?case by (simp add: option.map_ident)
next
  case (Cons x xs)
  have "accepts mem d" using Cons.prems assms(5) by (simp add: accepts_def)
  then obtain d1 where d1: "List_Push mem (Some d) (f x) = Some (True, Some d1)"
    "List_rep d1 (push_spec (mode d) (f x) ys)" "cfg d1 = cfg d" "sem d1 = map_option Suc (sem d)"
    using List_Push_accepted [OF Cons.prems(1)] by blast
  note c = cfgD [OF d1(3)]
  have node: "List_Clone_Node mem x (Some d) s = Some (LIST_EACH_OK, Some d1, s)"
    using Cons.prems(4,5) d1(1) by (simp add: List_Clone_Node_def del: List_Push.simps)
  have "\<exists>d'. each_walk None None (List_Clone_Node mem) xs (Some d1) s =
       Some (True, replicate (length xs) False, Some d', s) \<and>
     List_rep d' (fold (push_spec (mode d1)) (map f xs) (push_spec (mode d) (f x) ys)) \<and>
     cfg d' = cfg d1 \<and> sem d' = map_option (\<lambda>n. n + length xs) (sem d1)"
    using Cons.prems c d1(2) by (intro Cons.IH) auto
  then show ?case using node c d1(3,4)
    by (auto simp: option.map_comp comp_def cong: map_option_cong)
qed

lemma fold_push_spec:
  "fold (push_spec m) xs ys = (if m = LIST_MODE_STACK then rev xs @ ys else ys @ xs)"
  by (induction xs arbitrary: ys) (auto simp: push_spec_def)

lemma List_Clone_refines:
  assumes rep: "List_rep src xs" and md: "valid_mode (mode src)" and cl: "clone src = Some cl"
    and mem: "\<And>a. mem a" and f: "\<And>x. x \<in> set xs \<Longrightarrow> cl x s = (Some (f x), s)"
    and nl: "nodeLock src = None" "nodeUnlock src = None"
  shows "\<exists>d. List_Clone mem True True True (Some src) s = Some (Some d, Some src, s) \<and>
     List_rep d (map f (if mode src = LIST_MODE_STACK then rev xs else xs)) \<and>
     cfg d = cfg (src\<lparr>limit := 0\<rparr>)"
proof -
  obtain d0 where d0: "List_Create True True True (mode src) (cmp src) (keyCmp src) (destroy src)
      (clone src) (nodeLock src) (nodeUnlock src) = Some d0"
    by (auto simp: List_Create_def)
  have p: "List_rep d0 []" "limit d0 = 0" "mode d0 = mode src" "clone d0 = Some cl"
      "cfg d0 = cfg (src\<lparr>limit := 0\<rparr>)"
    using List_Create_rep [OF d0] d0 cl by (auto simp: List_Create_def cfg_def)
  have "valid_mode (mode d0)" using md p(3) by simp
  then obtain d where d: "each_walk None None (List_Clone_Node mem) xs (Some d0) s =
       Some (True, replicate (length xs) False, Some d, s)"
     "List_rep d (fold (push_spec (mode d0)) (map f xs) [])" "cfg d = cfg d0"
    using each_walk_clone [where mem = mem and xs = xs and f = f, OF p(1,2) _ p(4) mem f] by blast
  have "each_walk (nodeLock src) (nodeUnlock src) (List_Clone_Node mem) xs (Some d0) s =
       Some (True, replicate (length xs) False, Some d, s)"
    using d(1) nl by simp
  then have "List_ForEach (Some src) (List_Clone_Node mem) (Some d0) s = Some (True, Some src, Some d, s)"
    by (rule List_ForEach_readonly [OF rep]) simp
  then show ?thesis
    using cl d0 d p(3,5) by (auto simp: fold_push_spec rev_map simp del: List_ForEach.simps)
qed

section \<open>Order of removal\<close>

text \<open>The contract of a container that hands out the last item put in.\<close>
locale lifo =
  fixes rep :: "'l \<Rightarrow> 'i list \<Rightarrow> bool"
    and put :: "'l \<Rightarrow> 'i \<Rightarrow> 'l option"
    and take_out :: "'l \<Rightarrow> ('i option \<times> 'l) option"
  assumes put_rep: "rep l xs \<Longrightarrow> \<exists>l'. put l x = Some l' \<and> rep l' (x # xs)"
    and take_rep: "rep l (x # xs) \<Longrightarrow> \<exists>l'. take_out l = Some (Some x, l') \<and> rep l' xs"

text \<open>Putting a sequence of items in, and taking a number of items out.\<close>
fun put_all :: "('l \<Rightarrow> 'i \<Rightarrow> 'l option) \<Rightarrow> 'i list \<Rightarrow> 'l \<Rightarrow> 'l option" where
  "put_all put [] l = Some l"
| "put_all put (x # xs) l = do { l1 \<leftarrow> put l x; put_all put xs l1 }"

fun take_n :: "('l \<Rightarrow> ('i option \<times> 'l) option) \<Rightarrow> nat \<Rightarrow> 'l \<Rightarrow> ('i option list \<times> 'l) option" where
  "take_n tk 0 l = Some ([], l)"
| "take_n tk (Suc n) l = do { (r, l1) \<leftarrow> tk l; (rs, l2) \<leftarrow> take_n tk n l1; Some (r # rs, l2) }"

context lifo
begin

lemma put_all_rep: "rep l ys \<Longrightarrow> \<exists>l'. put_all put xs l = Some l' \<and> rep l' (rev xs @ ys)"
proof (induction xs arbitrary: l ys)
  case Nil
  then show ?case by simp
next
  case (Cons x xs)
  obtain l1 where "put l x = Some l1" "rep l1 (x # ys)" using put_rep [OF Cons.prems] by blast
  then show ?case using Cons.IH [of l1 "x # ys"] by auto
qed

lemma take_n_rep: "rep l (xs @ ys) \<Longrightarrow> \<exists>l'. take_n take_out (length xs) l = Some (map Some xs, l') \<and> rep l' ys"
proof (induction xs arbitrary: l)
  case Nil
  then show ?case by simp
next
  case (Cons x xs)
  obtain l1 where "take_out l = Some (Some x, l1)" "rep l1 (xs @ ys)"
    using take_rep Cons.prems by fastforce
  then show ?case using Cons.IH [of l1] by auto
qed

text \<open>What went in comes out in the opposite order.\<close>
lemma put_take_reverses:
  assumes "rep l []"
  shows "\<exists>l1 l2. put_all put xs l = Some l1 \<and>
    take_n take_out (length xs) l1 = Some (map Some (rev xs), l2) \<and> rep l2 []"
proof -
  obtain l1 where l1: "put_all put xs l = Some l1" "rep l1 (rev xs @ [])"
    using put_all_rep [OF assms] by blast
  from take_n_rep [OF l1(2)] obtain l2 where "take_n take_out (length (rev xs)) l1 = Some (map Some (rev xs), l2)"
    "rep l2 []" by blast
  with l1(1) show ?thesis by (metis length_rev)
qed

end

text \<open>
  The list as such a container, when allocations succeed. The event semaphore counts the items, so
  a pop of a non-empty list does not wait.
\<close>
definition list_put :: "('i, 'k, 's) List_t \<Rightarrow> 'i \<Rightarrow> ('i, 'k, 's) List_t option" where
  "list_put l x = (case List_Push (\<lambda>_. True) (Some l) x of Some (True, l') \<Rightarrow> l' | _ \<Rightarrow> None)"

definition list_take :: "('i, 'k, 's) List_t \<Rightarrow> ('i option \<times> ('i, 'k, 's) List_t) option" where
  "list_take l =
     (case List_Pop (Some l) of Some (Returned r, Some l') \<Rightarrow> Some (r, l') | _ \<Rightarrow> None)"

definition lifo_rep :: "int \<Rightarrow> ('i, 'k, 's) List_t \<Rightarrow> 'i list \<Rightarrow> bool" where
  "lifo_rep m l xs \<longleftrightarrow> mode l = m \<and> valid_mode m \<and> limit l = 0 \<and>
     sem l = (if m = LIST_MODE_GENERIC then None else Some (length xs)) \<and>
     List_rep l (if m = LIST_MODE_STACK then xs else rev xs)"

lemma lifo_rep_put:
  assumes "lifo_rep m l xs"
  shows "\<exists>l'. list_put l x = Some l' \<and> lifo_rep m l' (x # xs)"
proof -
  have r: "List_rep l (if m = LIST_MODE_STACK then xs else rev xs)"
    and "accepts (\<lambda>_. True) l" using assms by (simp_all add: accepts_def lifo_rep_def)
  then obtain l' where l': "List_Push (\<lambda>_. True) (Some l) x = Some (True, Some l')"
    "List_rep l' (push_spec (mode l) x (if m = LIST_MODE_STACK then xs else rev xs))"
    "cfg l' = cfg l" "sem l' = map_option Suc (sem l)"
    using List_Push_accepted [OF r] by blast
  then show ?thesis
    using assms cfgD [OF l'(3)]
    by (auto simp: list_put_def lifo_rep_def push_spec_def simp del: List_Push.simps)
qed

lemma lifo_rep_take:
  assumes "lifo_rep m l (x # xs)"
  shows "\<exists>l'. list_take l = Some (Some x, l') \<and> lifo_rep m l' xs"
proof -
  let ?l = "l\<lparr>sem := (if m = LIST_MODE_GENERIC then None else Some (length xs))\<rparr>"
  let ?ys = "if m = LIST_MODE_STACK then x # xs else rev xs @ [x]"
  have r: "List_rep ?l ?ys" and m: "valid_mode (mode ?l)" "mode ?l = m" "limit l = 0"
    using assms by (auto simp: lifo_rep_def split: if_splits)
  have ps: "pop_spec m ?ys = (Some x, if m = LIST_MODE_STACK then xs else rev xs)"
    by (auto simp: pop_spec_snoc)
  obtain l' where l': "pop_node ?l = Some (Some x, l')"
    "List_rep l' (if m = LIST_MODE_STACK then xs else rev xs)" "cfg l' = cfg ?l" "sem l' = sem ?l"
    using pop_node_refines [OF r m(1)] ps m(2) by auto
  have "List_Pop (Some l) = Some (Returned (Some x), Some l')"
  proof (cases "sem l")
    case None
    then have "?l = l" using assms by (cases l) (auto simp: lifo_rep_def split: if_splits)
    then show ?thesis using None l'(1) by (simp add: List_Pop_def)
  next
    case (Some n)
    then show ?thesis using assms l'(1)
      by (simp add: List_Pop_def lifo_rep_def sem_timedwait_def split: if_splits)
  qed
  then show ?thesis
    using l' m assms cfgD [OF l'(3)] by (auto simp: list_take_def lifo_rep_def)
qed

interpretation list_lifo: lifo "lifo_rep m" list_put list_take for m
  by unfold_locales (fact lifo_rep_put lifo_rep_take)+

section \<open>Keyed lists\<close>

text \<open>
  The contract between \<open>List_Find\<close> and a client's key comparator: the comparator returns 0 exactly
  for the items with that key. A list with such a comparator is a map from keys to items in which
  the earliest item of a key wins.
\<close>
locale keyed =
  fixes kc :: "'s \<Rightarrow> 'i \<Rightarrow> 'k \<Rightarrow> int"
    and key :: "'s \<Rightarrow> 'i \<Rightarrow> 'k"
  assumes kc_key: "kc s x k = 0 \<longleftrightarrow> key s x = k"
begin

lemma find_map_of: "find (\<lambda>x. kc s x k = 0) xs = map_of (map (\<lambda>x. (key s x, x)) xs) k"
  by (induction xs) (auto simp: kc_key)

lemma Find_map_of:
  assumes "List_rep l xs" and "keyCmp l = Some kc" and "nodeLock l = None" and "nodeUnlock l = None"
  shows "List_Find (Some l) k s = Some (map_of (map (\<lambda>x. (key s x, x)) xs) k, Some l, s)"
  unfolding List_Find_refines [OF assms] find_map_of ..

text \<open>After a push at the end a key finds the new item if and only if it found none before.\<close>
lemma Find_after_push:
  assumes "List_rep l xs" and "keyCmp l = Some kc" and "nodeLock l = None" and "nodeUnlock l = None"
    and "mode l = LIST_MODE_GENERIC" and "accepts mem l"
  shows "\<exists>l'. List_Push mem (Some l) x = Some (True, Some l') \<and> List_rep l' (xs @ [x]) \<and>
     cfg l' = cfg l \<and>
     List_Find (Some l') k s =
       Some (case map_of (map (\<lambda>x. (key s x, x)) xs) k of
           None \<Rightarrow> if key s x = k then Some x else None | Some y \<Rightarrow> Some y, Some l', s)"
proof -
  obtain l' where l': "List_Push mem (Some l) x = Some (True, Some l')" "List_rep l' (xs @ [x])"
    "cfg l' = cfg l"
    using List_Push_accepted [OF assms(1,6)] assms(5) by (auto simp: push_spec_def)
  note c = cfgD [OF l'(3)]
  have "List_Find (Some l') k s = Some (map_of (map (\<lambda>x. (key s x, x)) (xs @ [x])) k, Some l', s)"
    using Find_map_of [OF l'(2)] assms c by auto
  then show ?thesis using l' by (auto simp: map_add_def split: option.split)
qed

end

section \<open>Totality of iteration\<close>

lemma each_walk_total:
  assumes "\<And>x u s. op x u s \<noteq> None"
  shows "each_walk lk ul op xs u s \<noteq> None"
proof (induction xs arbitrary: u s)
  case Nil
  then show ?case by simp
next
  case (Cons x xs)
  obtain r u1 s1 where "op x u (call_opt lk x s) = Some (r, u1, s1)" using assms by fastforce
  then show ?case using Cons.IH [of u1 "call_opt ul x s1"] by (auto simp: Let_def)
qed

text \<open>The lemmas above are the interface of the list; the code equations stay folded.\<close>
declare List_Push.simps(2) [simp del] List_Pop_Ex.simps(2) [simp del] List_ForEach.simps(2) [simp del]
  List_Find.simps(2) [simp del] List_Remove.simps(2) [simp del] List_Clear.simps(2) [simp del]
  List_Clone.simps(2) [simp del] List_Transfer.simps(3) [simp del]

lemmas list_refine = List_Push_accepted List_Push_refused pop_node_refines List_ForEach_refines
  List_Find_refines List_Remove_refines List_Clear_refines List_Clone_refines List_Transfer_refines

end
