(* ===== verification/Linked_List_Properties.thy ===== *)
theory Linked_List_Properties
  imports Linked_List_Refine "HOL-Library.Multiset"
begin

text \<open>
  The properties of \<open>src/list.c\<close>, with the state machine of a list under its public operations and
  a concrete list on which they are shown to apply.
\<close>

section \<open>The life of lists\<close>

text \<open>
  The lists of a program by their handles; \<^term>\<open>None\<close> is a handle that is not in use. One public
  operation on them, together with the user data \<open>'u\<close> of iterations and the state \<open>'s\<close> of the
  callbacks. A list is created in one of the three modes, and is not transferred to itself, which
  would lock its lock twice.
\<close>
type_synonym ('i, 'k, 's) lists = "nat \<Rightarrow> ('i, 'k, 's) List_t option"

inductive list_step ::
  "('i, 'k, 's) lists \<times> 'u \<times> 's \<Rightarrow> ('i, 'k, 's) lists \<times> 'u \<times> 's \<Rightarrow> bool" where
  step_create: "L n = None \<Longrightarrow> valid_mode m \<Longrightarrow> List_Create a b c m cp kc ds cl nl nu = Some l
    \<Longrightarrow> list_step (L, u, s) (L(n \<mapsto> l), u, s)"
| step_push: "L n = Some l \<Longrightarrow> List_Push mem (Some l) x = Some (r, l') \<Longrightarrow> list_step (L, u, s) (L(n := l'), u, s)"
| step_pop: "L n = Some l \<Longrightarrow> List_Pop_Ex (Some l) ms = Some (w, l') \<Longrightarrow> list_step (L, u, s) (L(n := l'), u, s)"
| step_each: "L n = Some l \<Longrightarrow> List_ForEach (Some l) op u s = Some (r, l', u', s') \<Longrightarrow> list_step (L, u, s) (L(n := l'), u', s')"
| step_find: "L n = Some l \<Longrightarrow> List_Find (Some l) k s = Some (f, l', s') \<Longrightarrow> list_step (L, u, s) (L(n := l'), u, s')"
| step_remove: "L n = Some l \<Longrightarrow> List_Remove (Some l) x s = Some (r, l', s') \<Longrightarrow> list_step (L, u, s) (L(n := l'), u, s')"
| step_clear: "L n = Some l \<Longrightarrow> List_Clear (Some l) s = Some (l', s') \<Longrightarrow> list_step (L, u, s) (L(n := l'), u, s')"
| step_limit: "L n = Some l \<Longrightarrow> list_step (L, u, s) (L(n := List_SetLimit (Some l) k), u, s)"
| step_transfer: "L n = Some l \<Longrightarrow> L k = Some j \<Longrightarrow> n \<noteq> k \<Longrightarrow> List_Transfer (Some l) (Some j) s = Some (r, l', j', s')
    \<Longrightarrow> list_step (L, u, s) (L(n := l', k := j'), u, s')"
| step_clone: "L n = Some l \<Longrightarrow> L k = None \<Longrightarrow> List_Clone mem a b c (Some l) s = Some (d, l', s')
    \<Longrightarrow> list_step (L, u, s) (L(n := l', k := d), u, s')"
| step_destroy: "L n = Some l \<Longrightarrow> List_Destroy (Some l) s = Some s' \<Longrightarrow> list_step (L, u, s) (L(n := None), u, s')"

definition well_formed :: "('i, 'k, 's) List_t \<Rightarrow> bool" where
  "well_formed l \<longleftrightarrow> valid_mode (mode l) \<and> (\<exists>xs. List_rep l xs)"

lemma List_rep_limit [simp]: "List_rep (l\<lparr>limit := n\<rparr>) xs = List_rep l xs"
  by (simp add: List_rep_def List_inv_def)

lemma each_result:
  assumes "List_rep l xs" and "List_ForEach (Some l) op u s = Some (r, l1, u', s')"
  shows "\<exists>l' ys. l1 = Some l' \<and> List_rep l' ys \<and> cfg l' = cfg l"
proof -
  obtain as where as: "List_inv l as" "items (nodes l) as = xs" using assms(1) by (auto simp: List_rep_def)
  show ?thesis
  proof (cases "each_walk (nodeLock l) (nodeUnlock l) op xs u s")
    case None
    have d: "dls (nodes l) None (head l) as (tail l) None" and dist: "distinct as"
      using as(1) by (auto simp: List_inv_def)
    have "head l \<noteq> None" using None as List_inv_head [OF as(1)] by (auto simp: items_def)
    moreover have "foreach_walk op l (head l) False u s = None"
      using foreach_walk_refines [OF d dist, of op False u s] None as(2) by simp
    ultimately show ?thesis using assms(2) by (auto simp: List_ForEach.simps)
  next
    case (Some w)
    then obtain ret ms u1 s1 where "each_walk (nodeLock l) (nodeUnlock l) op xs u s = Some (ret, ms, u1, s1)"
      by (cases w) auto
    then show ?thesis using List_ForEach_walk [OF assms(1)] assms(2) by fastforce
  qed
qed

lemma each_result_wf:
  assumes "well_formed l" and "List_ForEach (Some l) op u s = Some (r, Some l', u', s')"
  shows "well_formed l'"
proof -
  obtain xs where "List_rep l xs" using assms(1) by (auto simp: well_formed_def)
  from each_result [OF this assms(2)] show ?thesis
    using assms(1) by (auto simp: well_formed_def dest: cfgD)
qed

lemma List_Pop_Ex_cases:
  "List_Pop_Ex (Some l) ms = Some (w, Some l') \<Longrightarrow> l' = l \<or> (\<exists>n. l' = l\<lparr>sem := n\<rparr>) \<or>
     (\<exists>n r. pop_node (l\<lparr>sem := n\<rparr>) = Some (r, l'))  \<or> (\<exists>r. pop_node l = Some (r, l'))"
  by (auto simp: List_Pop_Ex.simps bind_Some_eq split: option.splits wait.splits prod.splits bool.splits)

lemma pop_wf:
  assumes "well_formed l" and "List_Pop_Ex (Some l) ms = Some (w, Some l')"
  shows "well_formed l'"
proof -
  have pn: "well_formed l2" if wf: "well_formed l1" and p: "pop_node l1 = Some (r, l2)" for l1 l2 :: "('a, 'b, 'c) List_t" and r
  proof -
    obtain xs where xs: "List_rep l1 xs" and m: "valid_mode (mode l1)" using wf by (auto simp: well_formed_def)
    from pop_node_refines [OF xs m] p show ?thesis using m by (auto simp: well_formed_def dest: cfgD)
  qed
  have "well_formed (l\<lparr>sem := n\<rparr>)" for n using assms(1) by (simp add: well_formed_def)
  then show ?thesis using List_Pop_Ex_cases [OF assms(2)] assms(1) pn by blast
qed

lemma push_wf:
  assumes "well_formed l" and "List_Push mem (Some l) x = Some (r, Some l')"
  shows "well_formed l'"
proof -
  obtain xs where xs: "List_rep l xs" and m: "valid_mode (mode l)" using assms(1) by (auto simp: well_formed_def)
  show ?thesis
    using List_Push_accepted [where mem = mem and x = x, OF xs]
      List_Push_refused [where mem = mem and x = x, OF xs] assms(2) m
    by (cases "accepts mem l") (fastforce simp: well_formed_def dest: cfgD)+
qed

lemma clear_wf:
  assumes "well_formed l" and "List_Clear (Some l) s = Some (Some l', s')"
  shows "well_formed l'"
proof -
  obtain xs where xs: "List_rep l xs" and m: "valid_mode (mode l)" using assms(1) by (auto simp: well_formed_def)
  show ?thesis
    using List_Clear_refines [where s = s, OF xs m] assms(2) m
    by (auto simp: well_formed_def List_Clear.simps dest: cfgD)
qed

lemma limit_wf: "well_formed l \<Longrightarrow> well_formed (l\<lparr>limit := n\<rparr>)"
  by (simp add: well_formed_def)

lemma created_wf:
  assumes "List_Create a b c m cp kc ds cl nl nu = Some l" and "valid_mode m"
  shows "well_formed l"
  using List_Create_rep [OF assms(1)] assms by (auto simp: well_formed_def List_Create_def split: if_splits)

text \<open>On a well formed list every operation has an outcome.\<close>
lemma wf_push_defined: "well_formed l \<Longrightarrow> List_Push mem (Some l) x \<noteq> None"
  using List_Push_accepted [where mem = mem and x = x] List_Push_refused [where mem = mem and x = x]
  by (cases "accepts mem l") (fastforce simp: well_formed_def)+

lemma wf_pop_defined:
  assumes "well_formed l"
  shows "List_Pop_Ex (Some l) ms \<noteq> None"
proof -
  have d: "\<exists>r l1. pop_node (l\<lparr>sem := n\<rparr>) = Some (r, l1)" "\<exists>r l1. pop_node l = Some (r, l1)" for n
    using assms pop_node_refines [of l] pop_node_refines [of "l\<lparr>sem := n\<rparr>"]
    by (fastforce simp: well_formed_def)+
  show ?thesis
  proof (cases "sem l")
    case None
    then show ?thesis using d(2) by (auto simp: List_Pop_Ex.simps)
  next
    case (Some n)
    then show ?thesis using d(1) [of "Some (n - 1)"] by (auto simp: List_Pop_Ex.simps sem_timedwait_def)
  qed
qed

lemma wf_each_defined:
  assumes "well_formed l" and "\<And>x u s. op x u s \<noteq> None"
  shows "List_ForEach (Some l) op u s \<noteq> None"
proof -
  obtain xs where xs: "List_rep l xs" using assms(1) by (auto simp: well_formed_def)
  obtain ret ms u1 s1 where "each_walk (nodeLock l) (nodeUnlock l) op xs u s = Some (ret, ms, u1, s1)"
    using each_walk_total [where op = op, OF assms(2)] by (metis not_None_eq prod_cases4)
  then show ?thesis using List_ForEach_walk [OF xs] by fastforce
qed

lemma wf_remove_defined: "well_formed l \<Longrightarrow> List_Remove (Some l) x s \<noteq> None"
  unfolding List_Remove.simps
  by (intro bind_defined wf_each_defined) (auto simp: List_FindRemove_def)

lemma wf_clear_defined: "well_formed l \<Longrightarrow> List_Clear (Some l) s \<noteq> None"
  using List_Clear_refines [where s = s] by (fastforce simp: well_formed_def List_Clear.simps)

lemma wf_find_defined:
  assumes "well_formed l"
  shows "List_Find (Some l) k s \<noteq> None"
proof (cases "keyCmp l")
  case (Some kc)
  have "List_ForEach (Some l) (List_FindKeyCmp kc k) None s \<noteq> None"
    by (rule wf_each_defined [OF assms]) (simp add: List_FindKeyCmp_def)
  then show ?thesis using Some by (auto simp: List_Find.simps)
qed (simp add: List_Find.simps)

lemma wf_destroy_defined: "well_formed l \<Longrightarrow> List_Destroy (Some l) s \<noteq> None"
  unfolding List_Destroy.simps by (intro bind_defined wf_clear_defined) auto

lemma wf_transfer:
  assumes "well_formed d" and "well_formed j"
  shows "\<exists>d' j' s'. List_Transfer (Some d) (Some j) s = Some (True, Some d', Some j', s') \<and> well_formed d' \<and> well_formed j'"
proof -
  obtain ys xs where r: "List_rep d ys" "List_rep j xs" "valid_mode (mode d)" "valid_mode (mode j)"
    using assms by (auto simp: well_formed_def)
  from List_Transfer_refines [OF r(1-3), of s] obtain d' j' where
    "List_Transfer (Some d) (Some j) s = Some (True, Some d', Some j', fold (call_opt (destroy d)) (pop_order (mode d) ys) s)"
    "List_rep d' xs" "List_rep j' []" "cfg d' = cfg d" "cfg j' = cfg j" by blast
  then show ?thesis using r cfgD [of d' d] cfgD [of j' j] by (auto simp: well_formed_def)
qed

section \<open>Cloning\<close>

text \<open>An iteration whose callback keeps a property of the user data and is defined under it.\<close>
lemma each_walk_keeps:
  assumes "\<And>x u s. I u \<Longrightarrow> \<exists>r u' s'. op x u s = Some (r, u', s') \<and> I u'" and "I u"
  shows "\<exists>ret ms u' s'. each_walk lk ul op xs u s = Some (ret, ms, u', s') \<and> I u'"
  using assms(2)
proof (induction xs arbitrary: u s)
  case (Cons x xs)
  obtain r u1 s1 where o: "op x u (call_opt lk x s) = Some (r, u1, s1)" "I u1" using assms(1) [OF Cons.prems] by blast
  show ?case
  proof (cases "r = LIST_EACH_ERROR \<or> r = LIST_EACH_END")
    case False
    from Cons.IH [OF o(2), of "call_opt ul x s1"] show ?thesis using o(1) False by (auto simp: Let_def)
  qed (use o in auto)
qed auto

lemma wf_each_keeps:
  assumes "well_formed l" and "\<And>x u s. I u \<Longrightarrow> \<exists>r u' s'. op x u s = Some (r, u', s') \<and> I u'" and "I u"
  shows "\<exists>r l' u' s'. List_ForEach (Some l) op u s = Some (r, Some l', u', s') \<and> well_formed l' \<and> I u'"
proof -
  obtain xs where xs: "List_rep l xs" using assms(1) by (auto simp: well_formed_def)
  obtain ret ms u' s' where w: "each_walk (nodeLock l) (nodeUnlock l) op xs u s = Some (ret, ms, u', s')" "I u'"
    using each_walk_keeps [of I op, OF assms(2,3)] by blast
  from List_ForEach_walk [OF xs w(1)] obtain l' where
    l': "List_ForEach (Some l) op u s = Some (ret, Some l', u', fold (call_opt (destroy l)) (removed ms xs) s')" by blast
  show ?thesis using l' w(2) each_result_wf [OF assms(1) l'] by blast
qed

text \<open>A destination of a clone.\<close>
definition clone_dest :: "('i, 'k, 's) List_t option \<Rightarrow> bool" where
  "clone_dest dest \<longleftrightarrow> (\<exists>d. dest = Some d \<and> well_formed d \<and> clone d \<noteq> None)"

lemma clone_node_keeps:
  assumes "clone_dest dest"
  shows "\<exists>r dest' s'. List_Clone_Node mem x dest s = Some (r, dest', s') \<and> clone_dest dest'"
proof -
  obtain d cl where d: "dest = Some d" "well_formed d" "clone d = Some cl" using assms by (auto simp: clone_dest_def)
  show ?thesis
  proof (cases "cl x s")
    case (Pair y s1)
    show ?thesis
    proof (cases y)
      case None
      then show ?thesis using d Pair by (auto simp: List_Clone_Node_def clone_dest_def)
    next
      case (Some z)
      obtain xs where xs: "List_rep d xs" using d(2) by (auto simp: well_formed_def)
      obtain ok d' where p: "List_Push mem (Some d) z = Some (ok, Some d')" "cfg d' = cfg d"
        using List_Push_accepted [OF xs, of mem z] List_Push_refused [OF xs, of mem z] by (cases "accepts mem d") blast+
      have "well_formed d'" "clone d' = Some cl" using push_wf [OF d(2) p(1)] cfgD [OF p(2)] d(3) by simp_all
      then show ?thesis using d Pair Some p(1) by (auto simp: List_Clone_Node_def clone_dest_def simp del: List_Push.simps)
    qed
  qed
qed

lemma wf_clone:
  assumes "well_formed l"
  shows "\<exists>d l' s'. List_Clone mem a b c (Some l) s = Some (d, Some l', s') \<and> well_formed l' \<and> (\<forall>e. d = Some e \<longrightarrow> well_formed e)"
proof (cases "clone l = None \<or> List_Create a b c (mode l) (cmp l) (keyCmp l) (destroy l) (clone l) (nodeLock l) (nodeUnlock l) = None")
  case True
  then show ?thesis using assms by (auto simp: List_Clone.simps split: option.split)
next
  case False
  then obtain d0 cl where d0: "List_Create a b c (mode l) (cmp l) (keyCmp l) (destroy l) (clone l) (nodeLock l) (nodeUnlock l) = Some d0"
    and cl: "clone l = Some cl" by auto
  have "clone_dest (Some d0)"
    using created_wf [OF d0] assms d0 cl by (auto simp: clone_dest_def well_formed_def List_Create_def split: if_splits)
  from wf_each_keeps [where I = clone_dest and op = "List_Clone_Node mem" and s = s, OF assms clone_node_keeps this] obtain r l' dest s1 where
    e: "List_ForEach (Some l) (List_Clone_Node mem) (Some d0) s = Some (r, Some l', dest, s1)" "well_formed l'" "clone_dest dest"
    by blast
  obtain d1 where d1: "dest = Some d1" "well_formed d1" using e(3) by (auto simp: clone_dest_def)
  obtain s2 where "List_Destroy (Some d1) s1 = Some s2" using wf_destroy_defined [OF d1(2), of s1] by auto
  then show ?thesis using e d1 d0 cl by (cases r) (simp_all add: List_Clone.simps del: List_Destroy.simps)
qed

section \<open>Reachable lists\<close>

definition all_wf :: "('i, 'k, 's) lists \<Rightarrow> bool" where
  "all_wf L \<longleftrightarrow> (\<forall>n l. L n = Some l \<longrightarrow> well_formed l)"

lemma all_wfD: "all_wf L \<Longrightarrow> L n = Some l \<Longrightarrow> well_formed l"
  by (simp add: all_wf_def)

lemma all_wf_upd: "all_wf L \<Longrightarrow> (\<And>l. l' = Some l \<Longrightarrow> well_formed l) \<Longrightarrow> all_wf (L(n := l'))"
  by (simp add: all_wf_def)

lemma each_wf:
  assumes "well_formed l" and "List_ForEach (Some l) op u s = Some (r, l', u', s')" and "l' = Some k"
  shows "well_formed k"
  using each_result_wf [OF assms(1), of op u s r k u' s'] assms(2,3) by simp

lemma find_wf:
  assumes "well_formed l" and "List_Find (Some l) k s = Some (f, l', s')" and "l' = Some j"
  shows "well_formed j"
  using assms each_wf [OF assms(1)]
  by (auto simp: List_Find.simps bind_Some_eq simp del: List_ForEach.simps split: option.splits)

lemma remove_wf:
  assumes "well_formed l" and "List_Remove (Some l) x s = Some (r, l', s')" and "l' = Some j"
  shows "well_formed j"
  using assms each_wf [OF assms(1)] by (auto simp: List_Remove.simps bind_Some_eq simp del: List_ForEach.simps)

lemmas list_step_induct = list_step.induct [split_format (complete)]

lemma list_step_wf: "list_step (L, u, s) (L', u', s') \<Longrightarrow> all_wf L \<Longrightarrow> all_wf L'"
proof (induction rule: list_step_induct)
  case (step_create L n m a b c cp kc ds cl nl nu l u s)
  then show ?case by (intro all_wf_upd) (auto intro: created_wf)
next
  case (step_push L n l mem x r l' u s)
  then show ?case by (intro all_wf_upd) (auto intro: push_wf dest: all_wfD)
next
  case (step_pop L n l ms w l' u s)
  then show ?case by (intro all_wf_upd) (auto intro: pop_wf dest: all_wfD)
next
  case (step_each L n l op u s r l' u' s')
  then show ?case by (intro all_wf_upd) (auto intro: each_wf dest: all_wfD)
next
  case (step_find L n l k s f l' s' u)
  then show ?case by (intro all_wf_upd) (auto intro: find_wf dest: all_wfD)
next
  case (step_remove L n l x s r l' s' u)
  then show ?case by (intro all_wf_upd) (auto intro: remove_wf dest: all_wfD)
next
  case (step_clear L n l s l' s' u)
  then show ?case by (intro all_wf_upd) (auto intro: clear_wf dest: all_wfD)
next
  case (step_limit L n l k u s)
  then show ?case by (intro all_wf_upd) (auto intro: limit_wf dest: all_wfD)
next
  case (step_transfer L n l k j s r l' j' s' u)
  then show ?case using wf_transfer [of l j s] by (intro all_wf_upd) (auto dest: all_wfD)
next
  case (step_clone L n l k mem a b c s d l' s' u)
  then show ?case using wf_clone [of l mem a b c s] by (intro all_wf_upd) (auto dest: all_wfD)
next
  case (step_destroy L n l s s' u)
  then show ?case by (intro all_wf_upd) auto
qed

lemma list_steps_wf: "list_step\<^sup>*\<^sup>* c c' \<Longrightarrow> all_wf (fst c) \<Longrightarrow> all_wf (fst c')"
  by (induction rule: rtranclp_induct) (auto intro: list_step_wf)

text \<open>A pop returns, unless it waits on a count of zero without a bound.\<close>
lemma wf_pop_returns:
  assumes "well_formed l"
  shows "(\<exists>r l'. List_Pop_Ex (Some l) ms = Some (Returned r, Some l')) \<or> (ms = 0 \<and> sem l = Some 0)"
  using wf_pop_defined [OF assms, of ms]
  by (auto simp: List_Pop_Ex.simps bind_Some_eq sem_timedwait_def split: option.splits if_splits)

section \<open>A concrete list\<close>

text \<open>
  A list of integers with the identity as key; destroying an item appends it to the state, so the
  state records which items were destroyed and in which order.
\<close>
definition ex_new :: "int \<Rightarrow> (int, int, int list) List_t" where
  "ex_new m = \<lparr>head = None, tail = None, len = 0, limit = 0, mode = m,
     cmp = Some (\<lambda>s x y. if x = y then 0 else 1), keyCmp = Some (\<lambda>s x k. if x = k then 0 else 1),
     destroy = Some (\<lambda>x s. s @ [x]), clone = Some (\<lambda>x s. (Some (x + 100), s)), nodeLock = None,
     nodeUnlock = None, sem = (if m = 2 \<or> m = 1 then Some 0 else None), nodes = Map.empty, brk = 0\<rparr>"

definition ex_list :: "int \<Rightarrow> int list \<Rightarrow> (int, int, int list) List_t" where
  "ex_list m xs = the (put_all list_put xs (ex_new m))"

lemma ex_new_rep: "valid_mode m \<Longrightarrow> lifo_rep m (ex_new m) []"
  by (auto simp: lifo_rep_def valid_mode_def ex_new_def List_rep_def List_inv_def items_def intro: exI [of _ "[]"])

lemma list_put_cfg: "lifo_rep m l ys \<Longrightarrow> list_put l x = Some l' \<Longrightarrow> cfg l' = cfg l"
proof -
  assume r: "lifo_rep m l ys" and p: "list_put l x = Some l'"
  have "List_rep l (if m = LIST_MODE_STACK then ys else rev ys)" "accepts (\<lambda>_. True) l"
    using r by (simp_all add: lifo_rep_def accepts_def)
  from List_Push_accepted [OF this, of x] p show ?thesis by (auto simp: list_put_def)
qed

lemma put_all_cfg: "lifo_rep m l ys \<Longrightarrow> put_all list_put xs l = Some l' \<Longrightarrow> cfg l' = cfg l"
proof (induction xs arbitrary: l ys)
  case Nil
  then show ?case by simp
next
  case (Cons x xs)
  obtain l1 where l1: "list_put l x = Some l1" "lifo_rep m l1 (x # ys)"
    using lifo_rep_put [OF Cons.prems(1)] by blast
  then show ?case using Cons list_put_cfg by fastforce
qed

lemma ex_list_lifo:
  assumes "valid_mode m"
  shows "lifo_rep m (ex_list m xs) (rev xs)" and "cfg (ex_list m xs) = cfg (ex_new m)"
proof -
  obtain l where "put_all list_put xs (ex_new m) = Some l" "lifo_rep m l (rev xs @ [])"
    using list_lifo.put_all_rep [OF ex_new_rep [OF assms], of xs] by blast
  then show "lifo_rep m (ex_list m xs) (rev xs)" "cfg (ex_list m xs) = cfg (ex_new m)"
    using put_all_cfg [OF ex_new_rep [OF assms]] by (auto simp: ex_list_def)
qed

lemma ex_list_stack: "List_rep (ex_list 1 xs) (rev xs)" "sem (ex_list 1 xs) = Some (length xs)"
  using ex_list_lifo [of 1 xs] by (simp_all add: lifo_rep_def valid_mode_def)

lemma ex_list_queue: "List_rep (ex_list 2 xs) xs" "sem (ex_list 2 xs) = Some (length xs)"
  using ex_list_lifo [of 2 xs] by (simp_all add: lifo_rep_def valid_mode_def)

lemma ex_list_fields:
  assumes "valid_mode m"
  shows "mode (ex_list m xs) = m" "limit (ex_list m xs) = 0"
    "cmp (ex_list m xs) = Some (\<lambda>s x y. if x = y then 0 else 1)"
    "keyCmp (ex_list m xs) = Some (\<lambda>s x k. if x = k then 0 else 1)"
    "destroy (ex_list m xs) = Some (\<lambda>x s. s @ [x])"
    "clone (ex_list m xs) = Some (\<lambda>x s. (Some (x + 100), s))"
    "nodeLock (ex_list m xs) = None" "nodeUnlock (ex_list m xs) = None"
  using cfgD [OF ex_list_lifo(2) [OF assms, of xs]] by (simp_all add: ex_new_def)

lemma ex_modes [simp]: "valid_mode 0" "valid_mode 1" "valid_mode 2"
  by (simp_all add: valid_mode_def)

section \<open>Properties\<close>

text \<open>C1: lists stay well formed under any sequence of their public operations: creation in one of the
  three modes, pushes, pops, iterations, searches, removals, clearings, limit changes, transfers between
  two different lists, clonings and destructions. The nodes of each list form one doubly linked chain with
  matching forward and backward pointers, the length field counts it, and no node leaks. Every further
  operation is defined: no null or dangling pointer is followed, nothing is freed twice and every loop
  ends; an iteration under the condition that its callback is defined, and a pop unless it waits on a
  semaphore count of zero without a bound.\<close>
theorem List_reachable_safe:
  assumes "list_step\<^sup>*\<^sup>* (\<lambda>n. None, u0, s0) (L, u, s)" and "L n = Some l"
  shows "(\<exists>xs. List_rep l xs \<and> List_Length (Some l) = length xs) \<and>
     List_Push mem (Some l) x \<noteq> None \<and>
     ((\<exists>r l'. List_Pop_Ex (Some l) ms = Some (Returned r, Some l')) \<or> (ms = 0 \<and> sem l = Some 0)) \<and>
     ((\<forall>x u s. op x u s \<noteq> None) \<longrightarrow> List_ForEach (Some l) op v s \<noteq> None) \<and>
     List_Find (Some l) k s \<noteq> None \<and> List_Remove (Some l) x s \<noteq> None \<and> List_Clear (Some l) s \<noteq> None \<and>
     (n' \<noteq> n \<and> L n' = Some j \<longrightarrow> List_Transfer (Some l) (Some j) s \<noteq> None) \<and>
     List_Clone mem a b c (Some l) s \<noteq> None \<and> List_Destroy (Some l) s \<noteq> None"
proof -
  have all: "all_wf L" using list_steps_wf [OF assms(1)] by (simp add: all_wf_def)
  have wf: "well_formed l" by (rule all_wfD [OF all assms(2)])
  have "List_Transfer (Some l) (Some j) s \<noteq> None" if "L n' = Some j"
    using wf_transfer [OF wf all_wfD [OF all that], of s] by auto
  moreover have "List_Clone mem a b c (Some l) s \<noteq> None" using wf_clone [OF wf, of mem a b c s] by auto
  moreover have "\<exists>xs. List_rep l xs \<and> List_Length (Some l) = length xs"
    using wf by (auto simp: well_formed_def List_rep_len)
  moreover have "(\<forall>x u s. op x u s \<noteq> None) \<longrightarrow> List_ForEach (Some l) op v s \<noteq> None" using wf_each_defined [OF wf, of op v s] by (simp del: not_None_eq)
  ultimately show ?thesis
    using wf_push_defined [OF wf] wf_pop_returns [OF wf, of ms] wf_find_defined [OF wf] wf_remove_defined [OF wf]
      wf_clear_defined [OF wf] wf_destroy_defined [OF wf] by simp
qed

lemma ex_new_created:
  "List_Create True True True m (Some (\<lambda>s x y. if x = y then 0 else 1))
     (Some (\<lambda>s x k. if x = k then 0 else 1)) (Some (\<lambda>x s. s @ [x])) (Some (\<lambda>x s. (Some (x + 100), s)))
     None None = Some (ex_new m)"
  by (simp add: List_Create_def ex_new_def disj_commute)

text \<open>Two lists, one of them with an item.\<close>
lemma ex_two_lists:
  obtains l where "list_step\<^sup>*\<^sup>* (\<lambda>n. None, (), [7]) ((\<lambda>n. None)(0 \<mapsto> l, Suc 0 \<mapsto> ex_new 1), (), [7 :: int])" and "List_rep l [5]"
proof -
  let ?L = "[0 \<mapsto> ex_new 2]"
  have r: "List_rep (ex_new 2) []" and a: "accepts (\<lambda>_. True) (ex_new 2)"
    using ex_new_rep [of 2] by (auto simp: lifo_rep_def accepts_def)
  obtain l where l: "List_Push (\<lambda>_. True) (Some (ex_new 2)) 5 = Some (True, Some l)" "List_rep l [5]"
    using List_Push_accepted [OF r a, of 5] by (auto simp: push_spec_def ex_new_def)
  have "list_step\<^sup>*\<^sup>* (\<lambda>n. None, (), [7]) (?L, (), [7])"
    by (intro r_into_rtranclp list_step.step_create [OF _ _ ex_new_created]) simp_all
  also have "list_step (?L, (), [7]) (?L(0 := Some l), (), [7])"
    by (rule list_step.step_push [OF _ l(1)]) simp
  also have "list_step (?L(0 := Some l), (), [7]) (?L(0 := Some l, Suc 0 \<mapsto> ex_new 1), (), [7])"
    by (rule list_step.step_create [OF _ _ ex_new_created]) simp_all
  finally show thesis by (intro that [OF _ l(2)]) simp
qed

theorem List_reachable_safe_witness:
  "\<exists>l. list_step\<^sup>*\<^sup>* (\<lambda>n. None, (), [7]) ((\<lambda>n. None)(0 \<mapsto> l, Suc 0 \<mapsto> ex_new 1), (), [7 :: int]) \<and> List_rep l [5] \<and>
     List_Remove (Some l) 5 [7] \<noteq> None \<and> List_Transfer (Some l) (Some (ex_new 1)) [7] \<noteq> None"
proof -
  obtain l where st: "list_step\<^sup>*\<^sup>* (\<lambda>n. None, (), [7]) ((\<lambda>n. None)(0 \<mapsto> l, Suc 0 \<mapsto> ex_new 1), (), [7 :: int])" and l: "List_rep l [5]"
    by (rule ex_two_lists)
  from List_reachable_safe [OF st, where n = 0 and l = l and n' = "Suc 0" and j = "ex_new 1" and x = 5
    and mem = "\<lambda>_. True" and ms = 0 and op = "\<lambda>x (u :: unit) s. Some (0, u, s)" and v = "()" and k = 0 and a = True and b = True and c = True]
  have "List_Remove (Some l) 5 [7] \<noteq> None \<and> List_Transfer (Some l) (Some (ex_new 1)) [7] \<noteq> None" by (simp del: not_None_eq)
  then show ?thesis using st l by blast
qed

text \<open>C12: \<open>List_Push\<close> on a represented list adds the item, at the front in stack mode and at the
  end otherwise, and posts the semaphore; when the allocation fails, the limit is reached or the
  mode is unknown it returns false and the items and the semaphore are as before.\<close>
theorem List_Push_correct:
  assumes "List_rep l xs"
  shows "\<exists>l'. List_Push mem (Some l) x = Some (accepts mem l, Some l') \<and>
     List_rep l' (if accepts mem l then push_spec (mode l) x xs else xs) \<and> cfg l' = cfg l \<and>
     sem l' = (if accepts mem l then map_option Suc (sem l) else sem l)"
  using List_Push_accepted [OF assms, of mem x] List_Push_refused [OF assms, of mem x]
  by (cases "accepts mem l") auto

theorem List_Push_correct_witness:
  "\<exists>l'. List_Push (\<lambda>_. True) (Some (ex_list 1 [3, 4])) 9 = Some (True, Some l') \<and> List_rep l' [9, 4, 3] \<and>
     sem l' = Some 3"
  using List_Push_correct [OF ex_list_stack(1), of "\<lambda>_. True" "[3, 4]" 9]
  by (auto simp: accepts_def push_spec_def ex_list_fields ex_list_stack)

text \<open>C19: \<open>List_Pop_Ex\<close> on a represented list with a positive semaphore count, or without a
  semaphore, returns the item at the front in stack mode and the item at the end otherwise, or null
  when there is none, and the list holds the others; with a count of zero it waits without a bound
  for a timeout of zero and returns null for any other, and changes nothing.\<close>
theorem List_Pop_Ex_correct:
  assumes "List_rep l xs" and "valid_mode (mode l)"
  shows "\<exists>l'. List_Pop_Ex (Some l) ms =
       (if sem l = Some 0 then Some (if ms = 0 then Blocked else Returned None, Some l)
        else Some (Returned (fst (pop_spec (mode l) xs)), Some l')) \<and>
     (sem l \<noteq> Some 0 \<longrightarrow> List_rep l' (snd (pop_spec (mode l) xs)) \<and> cfg l' = cfg l \<and>
        sem l' = map_option (\<lambda>n. n - 1) (sem l))"
proof (cases "sem l")
  case None
  then show ?thesis using pop_node_refines [OF assms] by (auto simp: List_Pop_Ex.simps)
next
  case (Some n)
  have "List_rep (l\<lparr>sem := Some (n - 1)\<rparr>) xs" "valid_mode (mode (l\<lparr>sem := Some (n - 1)\<rparr>))"
    using assms by simp_all
  from pop_node_refines [OF this] obtain l' where
    l': "pop_node (l\<lparr>sem := Some (n - 1)\<rparr>) = Some (fst (pop_spec (mode l) xs), l')"
    "List_rep l' (snd (pop_spec (mode l) xs))" "cfg l' = cfg l" "sem l' = Some (n - 1)" by auto
  have "l\<lparr>sem := Some 0\<rparr> = l" if "n = 0" using that Some by (cases l) simp
  then show ?thesis using l' Some
    by (intro exI [of _ l']) (auto simp: List_Pop_Ex.simps sem_timedwait_def)
qed

theorem List_Pop_Ex_correct_witness:
  "(\<exists>l'. List_Pop_Ex (Some (ex_list 2 [3, 4])) 5 = Some (Returned (Some 4), Some l') \<and> List_rep l' [3]) \<and>
   List_Pop_Ex (Some (ex_list 2 [])) 0 = Some (Blocked, Some (ex_list 2 []))"
  using List_Pop_Ex_correct [OF ex_list_queue(1), of "[3, 4]" 5]
    List_Pop_Ex_correct [OF ex_list_queue(1), of "[]" 0]
  by (auto simp: ex_list_fields ex_list_queue)

text \<open>C14: \<open>List_ForEach\<close> applies the callback to the items in order, stops at the first answer
  \<open>LIST_EACH_END\<close> or \<open>LIST_EACH_ERROR\<close>, and afterwards exactly the items whose callback answered
  \<open>LIST_EACH_REMOVE\<close> are gone from the list and were destroyed, once each and in list order.\<close>
theorem List_ForEach_correct:
  assumes "List_rep l xs" and "each_walk (nodeLock l) (nodeUnlock l) op xs u s = Some (ret, ms, u', s')"
  shows "\<exists>l'. List_ForEach (Some l) op u s =
        Some (ret, Some l', u', fold (call_opt (destroy l)) (removed ms xs) s') \<and>
      List_rep l' (kept ms xs) \<and> cfg l' = cfg l \<and> sem l' = sem l \<and>
      mset xs = mset (removed ms xs) + mset (kept ms xs)"
proof -
  have "mset xs = mset (removed ms xs) + mset (kept ms xs)"
    using each_walk_length [OF assms(2)] by (induction ms xs rule: list_induct2) auto
  then show ?thesis using List_ForEach_walk [OF assms] by blast
qed

theorem List_ForEach_correct_witness:
  "\<exists>l'. List_ForEach (Some (ex_list 2 [1, 2, 3, 4]))
       (\<lambda>x u s. Some (if x = 3 then 3 else if x = 1 then 2 else 0, u + x, s)) (0::int) [] =
     Some (True, Some l', 6, [1]) \<and> List_rep l' [2, 3, 4]"
  using List_ForEach_correct [OF ex_list_queue(1), where xs = "[1, 2, 3, 4]" and u = "0::int" and s = "[]"
    and op = "\<lambda>x u s. Some (if x = 3 then 3 else if x = 1 then 2 else 0, u + x, s)"]
  by (auto simp: ex_list_fields removed_def kept_def Let_def)

text \<open>\<open>List_Remove\<close> removes and destroys every item that is the argument or compares equal to
  it, not only the first one, keeps the others in order, and returns whether there was one.\<close>
theorem List_Remove_correct:
  assumes "List_rep l xs" and "nodeLock l = None" and "nodeUnlock l = None"
  shows "\<exists>l'. List_Remove (Some l) x s =
       Some (\<exists>y \<in> set xs. remove_match (cmp l) s x y, Some l',
             fold (call_opt (destroy l)) (filter (remove_match (cmp l) s x) xs) s) \<and>
     List_rep l' (filter (\<lambda>y. \<not> remove_match (cmp l) s x y) xs) \<and> cfg l' = cfg l \<and> sem l' = sem l"
  by (rule List_Remove_refines [OF assms])

theorem List_Remove_correct_witness:
  "\<exists>l'. List_Remove (Some (ex_list 2 [1, 2, 1])) 1 [] = Some (True, Some l', [1, 1]) \<and> List_rep l' [2]"
  using List_Remove_correct [OF ex_list_queue(1), of "[1, 2, 1]" 1 "[]"]
  by (auto simp: ex_list_fields remove_match_def)

text \<open>C20: \<open>List_Destroy\<close> ends and destroys every item exactly once, in the order in which pops
  would have returned them.\<close>
theorem List_Destroy_correct:
  assumes "List_rep l xs" and "valid_mode (mode l)"
  shows "List_Destroy (Some l) s =
     Some (fold (call_opt (destroy l)) (if mode l = LIST_MODE_STACK then xs else rev xs) s)"
  using List_Clear_refines [OF assms, of s] by (auto simp: List_Clear.simps pop_order_def)

theorem List_Destroy_correct_witness: "List_Destroy (Some (ex_list 2 [1, 2, 3])) [] = Some [3, 2, 1]"
  using List_Destroy_correct [OF ex_list_queue(1), of "[1, 2, 3]" "[]"] by (simp add: ex_list_fields)

text \<open>\<open>List_Clone\<close> of a list whose items can all be cloned is a list of the clones with the
  same callbacks and no limit, and the source is unchanged. The clones are in the order of the
  items, except in stack mode where pushing them one after the other reverses the order.\<close>
theorem List_Clone_correct:
  assumes "List_rep src xs" and "valid_mode (mode src)" and "clone src = Some cl"
    and "\<And>a. mem a" and "\<And>x. x \<in> set xs \<Longrightarrow> cl x s = (Some (f x), s)"
    and "nodeLock src = None" and "nodeUnlock src = None"
  shows "\<exists>d. List_Clone mem True True True (Some src) s = Some (Some d, Some src, s) \<and>
     List_rep d (map f (if mode src = LIST_MODE_STACK then rev xs else xs)) \<and>
     cfg d = cfg (src\<lparr>limit := 0\<rparr>)"
  by (rule List_Clone_refines [OF assms])

theorem List_Clone_correct_witness:
  "\<exists>d. List_Clone (\<lambda>_. True) True True True (Some (ex_list 1 [1, 2])) [] =
      Some (Some d, Some (ex_list 1 [1, 2]), []) \<and> List_rep d [101, 102]"
  using List_Clone_correct [OF ex_list_stack(1) [of "[1, 2]"], where mem = "\<lambda>_. True"
    and f = "\<lambda>x. x + 100" and cl = "\<lambda>x s. (Some (x + 100), s)" and s = "[]"]
  by (auto simp: ex_list_fields)

text \<open>C21: \<open>List_Transfer\<close> destroys the items of the destination and moves the items of the source
  there; the source is empty afterwards. The semaphores stay with their lists, so a pop from a
  queue that has just received its items by transfer waits although the list is not empty.\<close>
theorem List_Transfer_correct:
  assumes "List_rep d ys" and "List_rep src xs" and "valid_mode (mode d)"
  shows "\<exists>d' src'. List_Transfer (Some d) (Some src) s =
       Some (True, Some d', Some src', fold (call_opt (destroy d)) (pop_order (mode d) ys) s) \<and>
     List_rep d' xs \<and> List_rep src' [] \<and> sem d' = sem d \<and> sem src' = sem src \<and>
     (sem d = Some 0 \<longrightarrow> List_Pop (Some d') = Some (Blocked, Some d'))"
  using List_Transfer_refines [OF assms, of s]
  by (fastforce simp: List_Pop_def List_Pop_Ex.simps sem_timedwait_def)

theorem List_Transfer_correct_witness:
  "\<exists>d' src'. List_Transfer (Some (ex_list 2 [])) (Some (ex_list 2 [1, 2])) [] =
      Some (True, Some d', Some src', []) \<and> List_rep d' [1, 2] \<and>
      List_Pop (Some d') = Some (Blocked, Some d')"
  using List_Transfer_correct [OF ex_list_queue(1) [of "[]"] ex_list_queue(1) [of "[1, 2]"], of "[]"]
  by (auto simp: ex_list_fields ex_list_queue pop_order_def)

text \<open>C22: in every mode, the queue mode included, items come out in the opposite order of their
  pushes: the pops that follow a sequence of pushes on an empty list return the last pushed item
  first.\<close>
theorem List_Pop_reverses_pushes:
  assumes "lifo_rep m l []"
  shows "\<exists>l1 l2. put_all list_put xs l = Some l1 \<and>
     take_n list_take (length xs) l1 = Some (map Some (rev xs), l2) \<and> lifo_rep m l2 []"
  by (rule list_lifo.put_take_reverses [OF assms])

theorem List_Pop_reverses_pushes_witness:
  "\<exists>l1 l2. put_all list_put [1, 2, 3] (ex_new 2) = Some l1 \<and> take_n list_take 3 l1 = Some ([Some 3, Some 2, Some 1], l2)"
  using List_Pop_reverses_pushes [OF ex_new_rep [of 2], of "[1, 2, 3]"] by (simp add: numeral_3_eq_3) blast

text \<open>removing items leaves the semaphore as it was: once every item of a queue has been
  removed, a pop does not wait for the next push but returns null, as many times as items were
  pushed.\<close>
theorem List_Remove_keeps_semaphore:
  assumes "List_rep l [x]" and "valid_mode (mode l)" and "sem l = Some 1" and "nodeLock l = None"
    and "nodeUnlock l = None"
  shows "\<exists>l' l'' s'. List_Remove (Some l) x s = Some (True, Some l', s') \<and> List_rep l' [] \<and>
     List_Pop (Some l') = Some (Returned None, Some l'') \<and> sem l'' = Some 0"
proof -
  obtain l' s' where l': "List_Remove (Some l) x s = Some (True, Some l', s')" "List_rep l' []"
    "cfg l' = cfg l" "sem l' = Some 1"
    using List_Remove_refines [OF assms(1,4,5), of x s] assms(3) by (auto simp: remove_match_def)
  have "List_rep (l'\<lparr>sem := Some 0\<rparr>) []" "valid_mode (mode (l'\<lparr>sem := Some 0\<rparr>))"
    using l' cfgD(2) [OF l'(3)] assms(2) by simp_all
  from pop_node_refines [OF this] obtain l'' where
    "pop_node (l'\<lparr>sem := Some 0\<rparr>) = Some (None, l'')" "sem l'' = Some 0" by auto
  then show ?thesis using l' by (auto simp: List_Pop_def List_Pop_Ex.simps sem_timedwait_def)
qed

theorem List_Remove_keeps_semaphore_witness:
  "\<exists>l' l'' s'. List_Remove (Some (ex_list 2 [5])) 5 [] = Some (True, Some l', s') \<and>
     List_Pop (Some l') = Some (Returned None, Some l'')"
  using List_Remove_keeps_semaphore [OF ex_list_queue(1) [of "[5]"], of "[]"]
  by (auto simp: ex_list_fields ex_list_queue)

end
