(* ===== verification/List_Clients.thy ===== *)
theory List_Clients
  imports Linked_List_Refine
begin

text \<open>
  The typed lists built on the generic list: lists of strings (\<open>src/string_list.c\<close>), of queues
  (\<open>src/queue_list.c\<close>) and of name/type/length/value items (\<open>src/ntvl.c\<close>).

  The state the callbacks act on is the trace of released items: a destructor appends the item it
  frees. A pointer argument that the code tests against null is an \<open>option\<close>; the outcome of an
  allocation of the client itself is an argument.
\<close>

section \<open>Strings\<close>

text \<open>\<open>strcmp\<close> of the C library on the characters before the terminating null, up to the sign.\<close>
fun strcmp :: "string \<Rightarrow> string \<Rightarrow> int" where
  "strcmp [] [] = 0"
| "strcmp [] (d # ds) = - 1"
| "strcmp (c # cs) [] = 1"
| "strcmp (c # cs) (d # ds) =
     (if c = d then strcmp cs ds
      else if (of_char c :: nat) < of_char d then - 1 else 1)"

type_synonym string_list = "(string, string, string list) List_t"

definition StringList_ItemSize :: "(string, 32 word, string list) each_op" where
  "StringList_ItemSize item counter s =
     Some (LIST_EACH_OK, counter + of_nat (length item + 1), s)"

fun StringList_Size :: "string_list option \<Rightarrow> string list \<Rightarrow> 32 word option" where
  "StringList_Size None s = Some 0"
| "StringList_Size (Some l) s = do {
     (_, _, size, _) \<leftarrow> List_ForEach (Some l) StringList_ItemSize 0 s;
     Some (size + 4) }"

definition String_KeyCmp :: "string list \<Rightarrow> string \<Rightarrow> string \<Rightarrow> int" where
  "String_KeyCmp s item key = (if key = item then 0 else strcmp item key)"

definition String_Cmp :: "string list \<Rightarrow> string \<Rightarrow> string \<Rightarrow> int" where
  "String_Cmp s a b = (if a = b then 0 else strcmp a b)"

definition String_Delete :: "string \<Rightarrow> string list \<Rightarrow> string list" where
  "String_Delete item s = s @ [item]"

text \<open>\<open>strdup\<close> returns a copy or, when \<open>dup_ok\<close> is false, null.\<close>
definition String_Clone :: "bool \<Rightarrow> string option \<Rightarrow> string option" where
  "String_Clone dup_ok orig = (case orig of None \<Rightarrow> None | Some t \<Rightarrow> if dup_ok then Some t else None)"

definition StringList_Create :: "bool \<Rightarrow> bool \<Rightarrow> bool \<Rightarrow> string_list option" where
  "StringList_Create list_ok lock_ok dup_ok =
     List_Create list_ok lock_ok True LIST_MODE_GENERIC (Some String_Cmp) (Some String_KeyCmp)
       (Some String_Delete) (Some (\<lambda>x s. (String_Clone dup_ok (Some x), s))) None None"

definition StringList_Add ::
  "(addr \<Rightarrow> bool) \<Rightarrow> bool \<Rightarrow> string_list option \<Rightarrow> string option \<Rightarrow> (bool \<times> string_list option) option" where
  "StringList_Add mem dup_ok l str =
     (if l = None \<or> str = None then Some (False, l)
      else case String_Clone dup_ok str of
        None \<Rightarrow> Some (False, l)
      | Some new \<Rightarrow> do { (_, l1) \<leftarrow> List_Push mem l new; Some (True, l1) })"

section \<open>Queues\<close>

text \<open>
  \<open>struct QueueListEntry\<close>, with the address of the entry: entries are compared by address. The
  field \<open>pNext\<close> is not used by the code.
\<close>
record 'q QueueListEntry =
  qe_at :: addr
  pQueue :: 'q
  uuiKey :: uuid

type_synonym 'q queue_list = "('q QueueListEntry, uuid, 'q QueueListEntry list) List_t"

definition QueueList_KeyCmp ::
  "(uuid \<Rightarrow> uuid \<Rightarrow> int) \<Rightarrow> 'q QueueListEntry list \<Rightarrow> 'q QueueListEntry \<Rightarrow> uuid \<Rightarrow> int" where
  "QueueList_KeyCmp uuid_compare s entry i = uuid_compare i (uuiKey entry)"

definition QueueList_Cmp :: "'q QueueListEntry list \<Rightarrow> 'q QueueListEntry \<Rightarrow> 'q QueueListEntry \<Rightarrow> int" where
  "QueueList_Cmp s a b = (if qe_at a = qe_at b then 0 else - 1)"

definition QueueList_Destroy :: "'q QueueListEntry \<Rightarrow> 'q QueueListEntry list \<Rightarrow> 'q QueueListEntry list" where
  "QueueList_Destroy item s = s @ [item]"

definition QueueList_Create :: "(uuid \<Rightarrow> uuid \<Rightarrow> int) \<Rightarrow> bool \<Rightarrow> bool \<Rightarrow> 'q queue_list option" where
  "QueueList_Create uuid_compare list_ok lock_ok =
     List_Create list_ok lock_ok True LIST_MODE_GENERIC (Some QueueList_Cmp)
       (Some (QueueList_KeyCmp uuid_compare)) (Some QueueList_Destroy) None None None"

text \<open>The search leaves the list as it is, so only the queue is returned.\<close>
definition QueueList_Find ::
  "'q queue_list option \<Rightarrow> uuid option \<Rightarrow> 'q QueueListEntry list \<Rightarrow> 'q option option" where
  "QueueList_Find l p_pId s =
     (case (l, p_pId) of
        (None, _) \<Rightarrow> Some None
      | (Some _, None) \<Rightarrow> Some None
      | (Some _, Some i) \<Rightarrow> do { (entry, _, _) \<leftarrow> List_Find l i s; Some (map_option pQueue entry) })"

text \<open>\<open>at\<close> is the address the allocation of the entry returns, or nothing when it fails.\<close>
definition QueueList_Add ::
  "(addr \<Rightarrow> bool) \<Rightarrow> addr option \<Rightarrow> 'q queue_list option \<Rightarrow> 'q option \<Rightarrow> uuid option \<Rightarrow>
   (bool \<times> 'q queue_list option) option" where
  "QueueList_Add mem at l p_pQ p_pId =
     (case (l, p_pQ, p_pId, at) of
        (Some _, Some q, Some i, Some a) \<Rightarrow> List_Push mem l \<lparr>qe_at = a, pQueue = q, uuiKey = i\<rparr>
      | _ \<Rightarrow> Some (False, l))"

definition QueueList_Remove ::
  "'q queue_list option \<Rightarrow> uuid option \<Rightarrow> 'q QueueListEntry list \<Rightarrow>
   (bool \<times> 'q queue_list option \<times> 'q QueueListEntry list) option" where
  "QueueList_Remove l p_pId s =
     (case (l, p_pId) of
        (Some _, Some i) \<Rightarrow> do {
          (entry, l1, s1) \<leftarrow> List_Find l i s;
          (case entry of
             None \<Rightarrow> Some (False, l1, s1)
           | Some e \<Rightarrow> do { (_, l2, s2) \<leftarrow> List_Remove l1 e s1; Some (True, l2, s2) }) }
      | _ \<Rightarrow> Some (False, l, s))"

section \<open>Name, type, length, value\<close>

record NTLVItem =
  uuidName :: uuid
  uuidType :: uuid
  iLength :: "32 word"
  pData :: bytes

record NTLV_Key =
  name :: uuid
  type :: uuid

type_synonym ntlv_list = "(NTLVItem, NTLV_Key, NTLVItem list) List_t"

definition NTLV_KeyCmp :: "(uuid \<Rightarrow> uuid \<Rightarrow> int) \<Rightarrow> NTLVItem list \<Rightarrow> NTLVItem \<Rightarrow> NTLV_Key \<Rightarrow> int" where
  "NTLV_KeyCmp uuid_compare s item key =
     (if uuid_compare (name key) (uuidName item) = 0 \<or> uuid_compare (type key) (uuidName item) = 0
      then 0 else - 1)"

definition NTLV_Cmp :: "(uuid \<Rightarrow> uuid \<Rightarrow> int) \<Rightarrow> NTLVItem list \<Rightarrow> NTLVItem \<Rightarrow> NTLVItem \<Rightarrow> int" where
  "NTLV_Cmp uuid_compare s iA iB =
     (if iA = iB then 0
      else if uuid_compare (uuidName iA) (uuidName iB) = 0 \<or> uuid_compare (uuidType iA) (uuidType iB) = 0
      then 0 else - 1)"

definition NTLV_Delete :: "NTLVItem \<Rightarrow> NTLVItem list \<Rightarrow> NTLVItem list" where
  "NTLV_Delete item s = s @ [item]"

text \<open>Cloning copies the \<open>iLength\<close> first bytes of the data.\<close>
definition NTLV_Clone :: "bool \<Rightarrow> bool \<Rightarrow> NTLVItem \<Rightarrow> NTLVItem option" where
  "NTLV_Clone item_ok data_ok orig =
     (if \<not> item_ok then None
      else if \<not> data_ok then None
      else Some \<lparr>uuidName = uuidName orig, uuidType = uuidType orig, iLength = iLength orig,
                 pData = take (unat (iLength orig)) (pData orig)\<rparr>)"

definition NTLVList_Create ::
  "(uuid \<Rightarrow> uuid \<Rightarrow> int) \<Rightarrow> bool \<Rightarrow> bool \<Rightarrow> bool \<Rightarrow> bool \<Rightarrow> ntlv_list option" where
  "NTLVList_Create uuid_compare list_ok lock_ok item_ok data_ok =
     List_Create list_ok lock_ok True LIST_MODE_GENERIC (Some (NTLV_Cmp uuid_compare))
       (Some (NTLV_KeyCmp uuid_compare)) (Some NTLV_Delete)
       (Some (\<lambda>x s. (NTLV_Clone item_ok data_ok x, s))) None None"

text \<open>
  The item is pushed first and filled in afterwards; a push does not read the item, so the model
  pushes the filled item. \<open>NTLVList_Add\<close> returns true even when the push fails.
\<close>
definition NTLVList_Add ::
  "(addr \<Rightarrow> bool) \<Rightarrow> bool \<Rightarrow> bool \<Rightarrow> ntlv_list option \<Rightarrow> uuid \<Rightarrow> uuid \<Rightarrow> 32 word \<Rightarrow> bytes option \<Rightarrow>
   (bool \<times> ntlv_list option) option" where
  "NTLVList_Add mem item_ok data_ok l nm ty sz data =
     (if l = None then Some (False, l)
      else case data of
        None \<Rightarrow> Some (False, l)
      | Some d \<Rightarrow>
          if sz = 0 then Some (False, l)
          else if \<not> item_ok then Some (False, l)
          else if \<not> data_ok then Some (False, l)
          else if length d < unat sz then None
          else do {
            (_, l1) \<leftarrow> List_Push mem l
               \<lparr>uuidName = nm, uuidType = ty, iLength = sz, pData = take (unat sz) d\<rparr>;
            Some (True, l1) })"

definition NTLVList_Get ::
  "ntlv_list option \<Rightarrow> uuid \<Rightarrow> uuid \<Rightarrow> NTLVItem list \<Rightarrow> (32 word \<times> bytes) option option" where
  "NTLVList_Get l nm ty s = do {
     (item, _, _) \<leftarrow> List_Find l \<lparr>name = nm, type = ty\<rparr> s;
     Some (map_option (\<lambda>i. (iLength i, pData i)) item) }"

section \<open>Lemmas\<close>

lemma strcmp_eq_0: "strcmp a b = 0 \<longleftrightarrow> a = b"
  by (induction a b rule: strcmp.induct) auto

interpretation string_keyed: keyed String_KeyCmp "\<lambda>s x. x"
  by unfold_locales (auto simp: String_KeyCmp_def strcmp_eq_0)

lemma queue_keyed: "uuid_compare_ok uc \<Longrightarrow> keyed (QueueList_KeyCmp uc) (\<lambda>s. uuiKey)"
  by unfold_locales (auto simp: QueueList_KeyCmp_def)

text \<open>A string list with the given strings, as created and filled by this component.\<close>
definition strings :: "string_list \<Rightarrow> string list \<Rightarrow> bool" where
  "strings l xs \<longleftrightarrow> List_rep l xs \<and> mode l = LIST_MODE_GENERIC \<and> limit l = 0 \<and>
     cmp l = Some String_Cmp \<and> keyCmp l = Some String_KeyCmp \<and> destroy l = Some String_Delete \<and>
     nodeLock l = None \<and> nodeUnlock l = None"

lemma StringList_Create_strings: "StringList_Create True True dup = Some l \<Longrightarrow> strings l []"
  unfolding StringList_Create_def strings_def
  by (frule List_Create_rep) (auto simp: List_Create_def)

lemma StringList_Add_strings:
  assumes "strings l xs" and "mem (brk l)"
  shows "\<exists>l'. StringList_Add mem True (Some l) (Some t) = Some (True, Some l') \<and> strings l' (xs @ [t])"
proof -
  have "List_rep l xs" "accepts mem l"
    using assms by (simp_all add: strings_def accepts_def valid_mode_def)
  from List_Push_accepted [OF this, of t] obtain l' where
    "List_Push mem (Some l) t = Some (True, Some l')" "List_rep l' (xs @ [t])" "cfg l' = cfg l"
    using assms by (auto simp: strings_def push_spec_def)
  then show ?thesis
    using assms(1) cfgD [of l' l] by (auto simp: StringList_Add_def String_Clone_def strings_def)
qed

lemma each_walk_StringList_ItemSize:
  "each_walk None None StringList_ItemSize xs c s =
     Some (True, replicate (length xs) False, c + of_nat (sum_list (map (\<lambda>x. length x + 1) xs)), s)"
  by (induction xs arbitrary: c) (auto simp: StringList_ItemSize_def algebra_simps)

lemma StringList_Size_strings:
  assumes "strings l xs"
  shows "StringList_Size (Some l) s = Some (of_nat (sum_list (map (\<lambda>x. length x + 1) xs) + 4))"
proof -
  have "List_ForEach (Some l) StringList_ItemSize 0 s =
      Some (True, Some l, of_nat (sum_list (map (\<lambda>x. length x + 1) xs)), s)"
    using assms each_walk_StringList_ItemSize [of xs 0 s]
    by (intro List_ForEach_readonly) (auto simp: strings_def)
  then show ?thesis by simp
qed

text \<open>A queue list as this component builds it: distinct entries have distinct addresses.\<close>
definition queues :: "(uuid \<Rightarrow> uuid \<Rightarrow> int) \<Rightarrow> 'q queue_list \<Rightarrow> 'q QueueListEntry list \<Rightarrow> bool" where
  "queues uc l xs \<longleftrightarrow> List_rep l xs \<and> mode l = LIST_MODE_GENERIC \<and> limit l = 0 \<and>
     cmp l = Some QueueList_Cmp \<and> keyCmp l = Some (QueueList_KeyCmp uc) \<and>
     destroy l = Some QueueList_Destroy \<and> nodeLock l = None \<and> nodeUnlock l = None \<and>
     distinct (map qe_at xs)"

lemma queues_find:
  assumes "queues uc l xs" and "uuid_compare_ok uc"
  shows "List_Find (Some l) i s = Some (find (\<lambda>e. uuiKey e = i) xs, Some l, s)"
proof -
  have f: "find (\<lambda>e. uuiKey e = i) xs = map_of (map (\<lambda>x. (uuiKey x, x)) xs) i"
    by (induction xs) auto
  show ?thesis
    unfolding f by (rule keyed.Find_map_of [OF queue_keyed [OF assms(2)]])
      (use assms(1) in \<open>auto simp: queues_def\<close>)
qed

lemma QueueList_Add_queues:
  assumes "queues uc l xs" and "mem (brk l)" and "a \<notin> qe_at ` set xs"
  shows "\<exists>l'. QueueList_Add mem (Some a) (Some l) (Some q) (Some i) = Some (True, Some l') \<and>
     queues uc l' (xs @ [\<lparr>qe_at = a, pQueue = q, uuiKey = i\<rparr>])"
proof -
  have "List_rep l xs" "accepts mem l"
    using assms by (simp_all add: queues_def accepts_def valid_mode_def)
  from List_Push_accepted [OF this, of "\<lparr>qe_at = a, pQueue = q, uuiKey = i\<rparr>"] obtain l' where
    l': "List_Push mem (Some l) \<lparr>qe_at = a, pQueue = q, uuiKey = i\<rparr> = Some (True, Some l')"
    "List_rep l' (xs @ [\<lparr>qe_at = a, pQueue = q, uuiKey = i\<rparr>])" "cfg l' = cfg l"
    using assms by (auto simp: queues_def push_spec_def)
  then show ?thesis
    using assms cfgD [OF l'(3)] by (auto simp: QueueList_Add_def queues_def)
qed

lemma filter_eq_distinct: "distinct xs \<Longrightarrow> e \<in> set xs \<Longrightarrow> filter (\<lambda>y. y = e) xs = [e]"
  by (induction xs) (auto simp: filter_empty_conv)

lemma filter_match_remove1:
  assumes d: "distinct (map qe_at xs)" and e: "e \<in> set xs"
  shows "filter (\<lambda>y. \<not> (y = e \<or> qe_at y = qe_at e)) xs = remove1 e xs"
    and "filter (\<lambda>y. y = e \<or> qe_at y = qe_at e) xs = [e]"
proof -
  have eq: "y = e \<or> qe_at y = qe_at e \<longleftrightarrow> y = e" if "y \<in> set xs" for y
    using d e that by (auto simp: distinct_map dest: inj_onD)
  have dx: "distinct xs" using d by (simp add: distinct_map)
  have "filter (\<lambda>y. \<not> (y = e \<or> qe_at y = qe_at e)) xs = filter (\<lambda>y. e \<noteq> y) xs"
    using eq by (intro filter_cong) auto
  then show "filter (\<lambda>y. \<not> (y = e \<or> qe_at y = qe_at e)) xs = remove1 e xs"
    by (simp add: distinct_remove1_removeAll [OF dx] removeAll_filter_not_eq)
  have "filter (\<lambda>y. y = e \<or> qe_at y = qe_at e) xs = filter (\<lambda>y. y = e) xs"
    using eq by (intro filter_cong) auto
  then show "filter (\<lambda>y. y = e \<or> qe_at y = qe_at e) xs = [e]"
    by (simp add: filter_eq_distinct [OF dx e])
qed

lemma QueueList_Remove_queues:
  assumes q: "queues uc l xs" and ok: "uuid_compare_ok uc"
  shows "\<exists>l'. QueueList_Remove (Some l) (Some i) s =
      Some (case find (\<lambda>e. uuiKey e = i) xs of
          None \<Rightarrow> (False, Some l', s) | Some e \<Rightarrow> (True, Some l', s @ [e])) \<and>
    queues uc l' (case find (\<lambda>e. uuiKey e = i) xs of None \<Rightarrow> xs | Some e \<Rightarrow> remove1 e xs)"
proof (cases "find (\<lambda>e. uuiKey e = i) xs")
  case None
  then show ?thesis using q queues_find [OF q ok, of i s] by (auto simp: QueueList_Remove_def)
next
  case (Some e)
  have e: "e \<in> set xs" using find_conj_first [OF Some] by simp
  have m: "remove_match (cmp l) s e = (\<lambda>y. y = e \<or> qe_at y = qe_at e)"
    using q by (auto simp: remove_match_def queues_def QueueList_Cmp_def)
  have ex: "(\<exists>y \<in> set xs. y = e \<or> qe_at y = qe_at e) = True" using e by blast
  have d: "distinct (map qe_at xs)" using q by (simp add: queues_def)
  have "List_rep l xs" "nodeLock l = None" "nodeUnlock l = None" using q by (simp_all add: queues_def)
  from List_Remove_refines [OF this, of e s] obtain l' where
    l': "List_Remove (Some l) e s = Some (True, Some l', s @ [e])" "List_rep l' (remove1 e xs)" "cfg l' = cfg l"
    using ex q unfolding m filter_match_remove1 [OF d e]
    by (auto simp: queues_def QueueList_Destroy_def)
  have "distinct (map qe_at (remove1 e xs))"
    using d unfolding filter_match_remove1(1) [OF d e, symmetric] by (rule distinct_map_filter)
  then have "queues uc l' (remove1 e xs)" using q l' cfgD [OF l'(3)] by (auto simp: queues_def)
  then show ?thesis
    using l' Some queues_find [OF q ok, of i s] by (auto simp: QueueList_Remove_def)
qed

text \<open>An item list as this component builds it.\<close>
definition ntlvs :: "(uuid \<Rightarrow> uuid \<Rightarrow> int) \<Rightarrow> ntlv_list \<Rightarrow> NTLVItem list \<Rightarrow> bool" where
  "ntlvs uc l xs \<longleftrightarrow> List_rep l xs \<and> mode l = LIST_MODE_GENERIC \<and> limit l = 0 \<and>
     keyCmp l = Some (NTLV_KeyCmp uc) \<and> nodeLock l = None \<and> nodeUnlock l = None"

lemma NTLVList_Create_ntlvs: "NTLVList_Create uc True True i d = Some l \<Longrightarrow> ntlvs uc l []"
  unfolding NTLVList_Create_def ntlvs_def by (frule List_Create_rep) (auto simp: List_Create_def)

lemma NTLVList_Add_ntlvs:
  assumes "ntlvs uc l xs" and "mem (brk l)" and "sz \<noteq> 0" and "unat sz \<le> length d"
  shows "\<exists>l'. NTLVList_Add mem True True (Some l) nm ty sz (Some d) = Some (True, Some l') \<and>
     ntlvs uc l' (xs @ [\<lparr>uuidName = nm, uuidType = ty, iLength = sz, pData = take (unat sz) d\<rparr>])"
proof -
  let ?i = "\<lparr>uuidName = nm, uuidType = ty, iLength = sz, pData = take (unat sz) d\<rparr>"
  have "List_rep l xs" "accepts mem l"
    using assms by (simp_all add: ntlvs_def accepts_def valid_mode_def)
  from List_Push_accepted [OF this, of ?i] obtain l' where
    l': "List_Push mem (Some l) ?i = Some (True, Some l')" "List_rep l' (xs @ [?i])" "cfg l' = cfg l"
    using assms by (auto simp: ntlvs_def push_spec_def)
  then show ?thesis
    using assms cfgD [OF l'(3)] by (auto simp: NTLVList_Add_def ntlvs_def)
qed

lemma NTLVList_Get_ntlvs:
  assumes "ntlvs uc l xs" and "uuid_compare_ok uc"
  shows "NTLVList_Get (Some l) nm ty s =
     Some (map_option (\<lambda>i. (iLength i, pData i)) (find (\<lambda>i. uuidName i = nm \<or> uuidName i = ty) xs))"
proof -
  have "List_Find (Some l) \<lparr>name = nm, type = ty\<rparr> s =
      Some (find (\<lambda>x. NTLV_KeyCmp uc s x \<lparr>name = nm, type = ty\<rparr> = 0) xs, Some l, s)"
    using assms(1) by (intro List_Find_refines) (auto simp: ntlvs_def)
  moreover have "(\<lambda>x. NTLV_KeyCmp uc s x \<lparr>name = nm, type = ty\<rparr> = 0) =
      (\<lambda>i. uuidName i = nm \<or> uuidName i = ty)"
    using assms(2) by (auto simp: NTLV_KeyCmp_def)
  ultimately show ?thesis by (simp add: NTLVList_Get_def)
qed

section \<open>Properties\<close>

text \<open>Adding strings one after the other, all allocations succeeding.\<close>
definition string_put :: "string_list \<Rightarrow> string \<Rightarrow> string_list option" where
  "string_put l t =
     (case StringList_Add (\<lambda>_. True) True (Some l) (Some t) of Some (True, l') \<Rightarrow> l' | _ \<Rightarrow> None)"

lemma string_put_all:
  "strings l xs \<Longrightarrow> \<exists>l'. put_all string_put ts l = Some l' \<and> strings l' (xs @ ts)"
proof (induction ts arbitrary: l xs)
  case Nil
  then show ?case by simp
next
  case (Cons t ts)
  obtain l1 where l1: "string_put l t = Some l1" "strings l1 (xs @ [t])"
    using StringList_Add_strings [OF Cons.prems, of "\<lambda>_. True" t] by (auto simp: string_put_def)
  then show ?case using Cons.IH [OF l1(2)] by simp
qed

text \<open>after adding any strings to a new string list, a search finds exactly the strings that
  were added, and \<open>StringList_Size\<close> is the number of bytes of the strings with their terminators
  plus four, as a 32-bit value that wraps.\<close>
theorem StringList_add_find_size:
  assumes "StringList_Create True True dup = Some l0"
  shows "\<exists>l. put_all string_put ts l0 = Some l \<and>
     List_Find (Some l) t s = Some (if t \<in> set ts then Some t else None, Some l, s) \<and>
     StringList_Size (Some l) s = Some (of_nat (sum_list (map (\<lambda>x. length x + 1) ts) + 4))"
proof -
  obtain l where l: "put_all string_put ts l0 = Some l" "strings l ts"
    using string_put_all [OF StringList_Create_strings [OF assms], of ts] by auto
  have "map_of (map (\<lambda>x. (x, x)) ts) t = (if t \<in> set ts then Some t else None)"
    by (induction ts) auto
  then show ?thesis
    using l string_keyed.Find_map_of [of l ts t s] StringList_Size_strings [OF l(2)]
    by (auto simp: strings_def)
qed

theorem StringList_add_find_size_witness:
  "\<exists>l0 l. StringList_Create True True True = Some l0 \<and> put_all string_put [''ab'', ''c''] l0 = Some l \<and>
     List_Find (Some l) ''c'' [] = Some (Some ''c'', Some l, []) \<and> StringList_Size (Some l) [] = Some 9"
proof -
  obtain l0 where l0: "StringList_Create True True True = Some l0"
    by (auto simp: StringList_Create_def List_Create_def)
  show ?thesis using l0 StringList_add_find_size [OF l0, of "[''ab'', ''c'']" "''c''" "[]"] by auto
qed

text \<open>after adding a queue under an identifier, a search for an identifier returns the queue
  that was first added under it: the earlier one if there was one, else the new queue, and nothing
  for identifiers never added.\<close>
theorem QueueList_Add_Find:
  assumes "queues uc l xs" and "uuid_compare_ok uc" and "mem (brk l)" and "a \<notin> qe_at ` set xs"
  shows "\<exists>l'. QueueList_Add mem (Some a) (Some l) (Some q) (Some i) = Some (True, Some l') \<and>
     QueueList_Find (Some l') (Some j) s =
       Some (case find (\<lambda>e. uuiKey e = j) xs of
           Some e \<Rightarrow> Some (pQueue e) | None \<Rightarrow> if i = j then Some q else None)"
proof -
  obtain l' where l': "QueueList_Add mem (Some a) (Some l) (Some q) (Some i) = Some (True, Some l')"
    "queues uc l' (xs @ [\<lparr>qe_at = a, pQueue = q, uuiKey = i\<rparr>])"
    using QueueList_Add_queues [where mem = mem, OF assms(1,3,4)] by blast
  show ?thesis using l'(1) queues_find [OF l'(2) assms(2), of j s]
    by (auto simp: QueueList_Find_def find_append split: option.split)
qed

lemma queues_created: "\<exists>l. QueueList_Create uc True True = Some l \<and> queues uc l []"
  by (auto simp: QueueList_Create_def List_Create_def queues_def List_rep_def List_inv_def items_def
      intro: exI [of _ "[]"])

theorem QueueList_Add_Find_witness:
  "\<exists>l l'. QueueList_Create uuid_compare_ref True True = Some l \<and>
     QueueList_Add (\<lambda>_. True) (Some 5) (Some l) (Some ''q'') (Some [1]) = Some (True, Some l') \<and>
     QueueList_Find (Some l') (Some [1]) [] = Some (Some ''q'')"
proof -
  obtain l :: "string queue_list" where
    l: "QueueList_Create uuid_compare_ref True True = Some l" "queues uuid_compare_ref l []"
    using queues_created by blast
  show ?thesis
    using l(1) QueueList_Add_Find [OF l(2) uuid_compare_ref_ok, of "\<lambda>_. True" 5 "''q''" "[1]" "[1]" "[]"]
    by auto
qed

lemma find_remove_key:
  assumes "distinct (map uuiKey xs)"
  shows "find (\<lambda>e. uuiKey e = j)
      (case find (\<lambda>e. uuiKey e = i) xs of None \<Rightarrow> xs | Some e \<Rightarrow> remove1 e xs) =
    (if j = i then None else find (\<lambda>e. uuiKey e = j) xs)"
  using assms
proof (induction xs)
  case (Cons x xs)
  then show ?case
  proof (cases "uuiKey x = i")
    case True
    then show ?thesis using Cons.prems by (auto simp: find_None_iff image_iff)
  next
    case False
    then show ?thesis using Cons
      by (cases "find (\<lambda>e. uuiKey e = i) xs") (auto dest: find_conj_first)
  qed
qed simp

text \<open>\<open>QueueList_Remove\<close> releases exactly the entry that a search for the identifier finds, and
  keeps the other entries in order; when the identifiers are distinct the identifier is unknown
  afterwards and every other identifier is found as before.\<close>
theorem QueueList_Remove_Find:
  assumes "queues uc l xs" and "uuid_compare_ok uc"
  shows "\<exists>l' s'. QueueList_Remove (Some l) (Some i) s = Some (i \<in> uuiKey ` set xs, Some l', s') \<and>
     s' = s @ (case find (\<lambda>e. uuiKey e = i) xs of None \<Rightarrow> [] | Some e \<Rightarrow> [e]) \<and>
     (distinct (map uuiKey xs) \<longrightarrow> QueueList_Find (Some l') (Some j) s' =
        Some (if j = i then None else map_option pQueue (find (\<lambda>e. uuiKey e = j) xs)))"
proof -
  let ?f = "find (\<lambda>e. uuiKey e = i) xs"
  let ?ys = "case ?f of None \<Rightarrow> xs | Some e \<Rightarrow> remove1 e xs"
  obtain l' where l': "QueueList_Remove (Some l) (Some i) s =
      Some (case ?f of None \<Rightarrow> (False, Some l', s) | Some e \<Rightarrow> (True, Some l', s @ [e]))"
    "queues uc l' ?ys"
    using QueueList_Remove_queues [OF assms] by blast
  have mem: "i \<in> uuiKey ` set xs \<longleftrightarrow> ?f \<noteq> None" 
    using find_None_iff [of "\<lambda>e. uuiKey e = i" xs] by (cases ?f) auto
  have fnd: "find (\<lambda>e. uuiKey e = j) ?ys = (if j = i then None else find (\<lambda>e. uuiKey e = j) xs)"
    if "distinct (map uuiKey xs)" using find_remove_key [OF that] .
  show ?thesis
  proof (cases ?f)
    case None
    then show ?thesis using l' mem fnd queues_find [OF l'(2) assms(2), of j]
      by (auto simp: QueueList_Find_def)
  next
    case (Some e)
    then show ?thesis using l' mem fnd queues_find [OF l'(2) assms(2), of j]
      by (auto simp: QueueList_Find_def)
  qed
qed

theorem QueueList_Remove_Find_witness:
  "\<exists>l l' l'' s'. QueueList_Create uuid_compare_ref True True = Some l \<and>
     QueueList_Add (\<lambda>_. True) (Some 5) (Some l) (Some ''q'') (Some [1]) = Some (True, Some l') \<and>
     QueueList_Remove (Some l') (Some [1]) [] = Some (True, Some l'', s') \<and> length s' = 1 \<and>
     QueueList_Find (Some l'') (Some [1]) s' = Some None"
proof -
  obtain l :: "string queue_list" where
    l: "QueueList_Create uuid_compare_ref True True = Some l" "queues uuid_compare_ref l []"
    using queues_created by blast
  obtain l' where l': "QueueList_Add (\<lambda>_. True) (Some 5) (Some l) (Some ''q'') (Some [1]) = Some (True, Some l')"
    "queues uuid_compare_ref l' [\<lparr>qe_at = 5, pQueue = ''q'', uuiKey = [1]\<rparr>]"
    using QueueList_Add_queues [OF l(2), of "\<lambda>_. True" 5 "''q''" "[1]"] by auto
  show ?thesis
    using l(1) l'(1) QueueList_Remove_Find [OF l'(2) uuid_compare_ref_ok, of "[1]" "[]" "[1]"] by auto
qed

text \<open>\<open>NTLVList_Get\<close> after \<open>NTLVList_Add\<close> returns length and data of the first item whose name
  is the name asked for, or whose name is the type asked for; the type of an item is never
  compared, so an item of another type is returned.\<close>
theorem NTLVList_Add_Get:
  assumes "ntlvs uc l xs" and "uuid_compare_ok uc" and "mem (brk l)" and "sz \<noteq> 0" and "unat sz \<le> length d"
  shows "\<exists>l'. NTLVList_Add mem True True (Some l) nm ty sz (Some d) = Some (True, Some l') \<and>
     NTLVList_Get (Some l') nm' ty' s =
       Some (case find (\<lambda>i. uuidName i = nm' \<or> uuidName i = ty') xs of
           Some i \<Rightarrow> Some (iLength i, pData i)
         | None \<Rightarrow> if nm = nm' \<or> nm = ty' then Some (sz, take (unat sz) d) else None)"
proof -
  obtain l' where l': "NTLVList_Add mem True True (Some l) nm ty sz (Some d) = Some (True, Some l')"
    "ntlvs uc l' (xs @ [\<lparr>uuidName = nm, uuidType = ty, iLength = sz, pData = take (unat sz) d\<rparr>])"
    using NTLVList_Add_ntlvs [where mem = mem, OF assms(1,3,4,5)] by blast
  show ?thesis using l'(1) NTLVList_Get_ntlvs [OF l'(2) assms(2), of nm' ty' s]
    by (auto simp: find_append split: option.split)
qed

theorem NTLVList_Add_Get_witness:
  "\<exists>l l'. NTLVList_Create uuid_compare_ref True True True True = Some l \<and>
     NTLVList_Add (\<lambda>_. True) True True (Some l) [1] [2] 2 (Some [7, 8]) = Some (True, Some l') \<and>
     NTLVList_Get (Some l') [1] [2] [] = Some (Some (2, [7, 8])) \<and>
     NTLVList_Get (Some l') [1] [3] [] = Some (Some (2, [7, 8]))"
proof -
  obtain l where l: "NTLVList_Create uuid_compare_ref True True True True = Some l"
    by (auto simp: NTLVList_Create_def List_Create_def)
  note w = NTLVList_Add_Get [OF NTLVList_Create_ntlvs [OF l] uuid_compare_ref_ok, of "\<lambda>_. True" 2 "[7, 8]" "[1]"]
  show ?thesis using l w [where ty = "[2]" and nm' = "[1]" and ty' = "[2]" and s = "[]"]
      w [where ty = "[2]" and nm' = "[1]" and ty' = "[3]" and s = "[]"] by auto
qed

end
