(* ===== verification/Uuids.thy ===== *)
theory Uuids
  imports List_Clients
begin

text \<open>
  The registry of named identifiers, \<open>src/uuids.c\<close>: six lists of nodes that relate an identifier,
  a name and a description, searched by name or by identifier. The functions of libuuid are
  arguments: \<open>uuid_compare\<close>, \<open>uuid_parse t u\<close> (what the buffer \<open>u\<close> holds after parsing the text
  \<open>t\<close> into it) and \<open>uuid_unparse\<close>.
\<close>

section \<open>Data\<close>

text \<open>\<open>struct UUIDListNode\<close>; the field \<open>pNext\<close> is not used by the code.\<close>
record UUIDListNode =
  un_uuid :: uuid
  sName :: string
  sDescription :: "string option"

text \<open>\<open>struct UUIDKey\<close>; a search by name leaves \<open>k_uuid\<close> unset, one by identifier \<open>k_name\<close>.\<close>
record UUIDKey =
  k_type :: int
  k_uuid :: uuid
  k_name :: string

abbreviation (input) "UUID_KEY_NAME \<equiv> (0::int)"
abbreviation (input) "UUID_KEY_UUID \<equiv> (1::int)"

abbreviation (input) "UUID_TYPE_DATA_TYPE \<equiv> (1::int)"
abbreviation (input) "UUID_TYPE_INTEL_TYPE \<equiv> (2::int)"
abbreviation (input) "UUID_TYPE_NTLV_TYPE \<equiv> (3::int)"
abbreviation (input) "UUID_TYPE_NUGGET \<equiv> (4::int)"
abbreviation (input) "UUID_TYPE_NUGGET_TYPE \<equiv> (5::int)"
abbreviation (input) "UUID_TYPE_NTLV_NAME \<equiv> (6::int)"

type_synonym uuid_list = "(UUIDListNode, UUIDKey, UUIDListNode list) List_t"

text \<open>The file's static variables.\<close>
record uuid_registry =
  sg_DataTypeList :: "uuid_list option"
  sg_IntelTypeList :: "uuid_list option"
  sg_NtlvTypeList :: "uuid_list option"
  sg_NtlvNameList :: "uuid_list option"
  sg_NuggetList :: "uuid_list option"
  sg_NuggetTypeList :: "uuid_list option"

section \<open>Operations\<close>

definition UUID_Cmp :: "UUIDListNode list \<Rightarrow> UUIDListNode \<Rightarrow> UUIDListNode \<Rightarrow> int" where
  "UUID_Cmp s a b = - 1"

definition UUID_KeyCmp ::
  "(uuid \<Rightarrow> uuid \<Rightarrow> int) \<Rightarrow> UUIDListNode list \<Rightarrow> UUIDListNode \<Rightarrow> UUIDKey \<Rightarrow> int" where
  "UUID_KeyCmp uuid_compare s current key =
     (if k_type key = UUID_KEY_UUID then uuid_compare (k_uuid key) (un_uuid current)
      else if k_type key = UUID_KEY_NAME then strcmp (k_name key) (sName current)
      else - 1)"

definition UUID_Clone :: "bool \<Rightarrow> bool \<Rightarrow> bool \<Rightarrow> UUIDListNode \<Rightarrow> UUIDListNode option" where
  "UUID_Clone node_ok name_ok desc_ok orig =
     (if \<not> node_ok then None
      else if \<not> name_ok then None
      else case sDescription orig of
        None \<Rightarrow> Some \<lparr>un_uuid = un_uuid orig, sName = sName orig, sDescription = None\<rparr>
      | Some d \<Rightarrow>
          if \<not> desc_ok then None
          else Some \<lparr>un_uuid = un_uuid orig, sName = sName orig, sDescription = Some d\<rparr>)"

definition UUID_Destroy :: "UUIDListNode \<Rightarrow> UUIDListNode list \<Rightarrow> UUIDListNode list" where
  "UUID_Destroy current s = s @ [current]"

definition UUID_Create_List :: "(uuid \<Rightarrow> uuid \<Rightarrow> int) \<Rightarrow> bool \<Rightarrow> bool \<Rightarrow> uuid_list option" where
  "UUID_Create_List uuid_compare list_ok clone_ok =
     List_Create list_ok True True LIST_MODE_GENERIC (Some UUID_Cmp) (Some (UUID_KeyCmp uuid_compare))
       (Some UUID_Destroy) (Some (\<lambda>x s. (UUID_Clone clone_ok clone_ok clone_ok x, s))) None None"

definition UUID_Add_List_Entry ::
  "(addr \<Rightarrow> bool) \<Rightarrow> bool \<Rightarrow> bool \<Rightarrow> bool \<Rightarrow> uuid_list option \<Rightarrow> uuid \<Rightarrow> string option \<Rightarrow> string option \<Rightarrow>
   (bool \<times> uuid_list option) option" where
  "UUID_Add_List_Entry mem node_ok name_ok desc_ok l p_uuid p_sName p_sDescr =
     (if l = None \<or> p_sName = None \<or> p_sName = Some [] then Some (False, l)
      else if \<not> node_ok then Some (False, l)
      else if \<not> name_ok then Some (False, l)
      else if p_sDescr \<noteq> None \<and> \<not> desc_ok then Some (False, l)
      else List_Push mem l \<lparr>un_uuid = p_uuid, sName = the p_sName, sDescription = p_sDescr\<rparr>)"

definition UUID_Get_List :: "uuid_registry \<Rightarrow> int \<Rightarrow> uuid_list option" where
  "UUID_Get_List G t =
     (if t = UUID_TYPE_DATA_TYPE then sg_DataTypeList G
      else if t = UUID_TYPE_INTEL_TYPE then sg_IntelTypeList G
      else if t = UUID_TYPE_NTLV_TYPE then sg_NtlvTypeList G
      else if t = UUID_TYPE_NTLV_NAME then sg_NtlvNameList G
      else if t = UUID_TYPE_NUGGET then sg_NuggetList G
      else if t = UUID_TYPE_NUGGET_TYPE then sg_NuggetTypeList G
      else None)"

text \<open>
  The comparison reads the name, so a null name is undefined behaviour as soon as the list has a
  node. The search leaves the list as it is, so only the node is returned.
\<close>
definition UUID_getNodeByName :: "uuid_registry \<Rightarrow> string option \<Rightarrow> int \<Rightarrow> UUIDListNode option option" where
  "UUID_getNodeByName G p_sName p_iType =
     (case p_sName of
        None \<Rightarrow>
          (case UUID_Get_List G p_iType of
             None \<Rightarrow> Some None
           | Some l \<Rightarrow> if head l = None \<or> keyCmp l = None then Some None else None)
      | Some nm \<Rightarrow> do {
          (r, _, _) \<leftarrow> List_Find (UUID_Get_List G p_iType)
             \<lparr>k_type = UUID_KEY_NAME, k_uuid = [], k_name = nm\<rparr> [];
          Some r })"

definition UUID_getNodeByUUID :: "uuid_registry \<Rightarrow> uuid \<Rightarrow> int \<Rightarrow> UUIDListNode option option" where
  "UUID_getNodeByUUID G p_uuid p_iType = do {
     (r, _, _) \<leftarrow> List_Find (UUID_Get_List G p_iType)
        \<lparr>k_type = UUID_KEY_UUID, k_uuid = p_uuid, k_name = []\<rparr> [];
     Some r }"

text \<open>The text of the identifier, the name and the description of each nugget type.\<close>
definition nugget_types :: "(string \<times> string \<times> string) list" where
  "nugget_types =
     [(''1117de3c-6fe8-4291-84ae-36cdf2f91017'', ''DISPATCHER'', ''Message Dispatcher Nugget''),
      (''ca51afd1-41b8-4c6b-b221-9faef0d202a7'', ''MASTER'', ''Master Nugget''),
      (''c38b113a-27fd-417c-b9fa-f3aa0af5cb53'', ''COLLECTION'', ''Data Collector Nugget''),
      (''d95aee72-9186-4236-bf23-8ff77dac630b'', ''INSPECTION'', ''Inspection Nugget''),
      (''a3d0d1f9-c049-474e-bf01-2128ea00a751'', ''OUTPUT'', ''Output Nugget''),
      (''356112d8-f4f1-41dc-b3f7-cace5674c2ec'', ''INTEL'', ''Intel Nugget''),
      (''5e9c1296-ad6a-423f-9eca-9f817c72c444'', ''DEFENSE'', ''Defense Update Nugget'')]"

text \<open>
  The calls of \<open>init_NuggetTypes\<close> in order, over the local buffer \<open>u\<close>. The results of parsing and
  of adding are ignored.
\<close>
fun init_types ::
  "(addr \<Rightarrow> bool) \<Rightarrow> bool \<Rightarrow> (string \<Rightarrow> uuid \<Rightarrow> uuid) \<Rightarrow> (string \<times> string \<times> string) list \<Rightarrow> uuid \<Rightarrow>
   uuid_list option \<Rightarrow> uuid_list option option" where
  "init_types mem ok uuid_parse [] u l = Some l"
| "init_types mem ok uuid_parse ((t, nm, d) # ts) u l = do {
     let u' = uuid_parse t u;
     (_, l1) \<leftarrow> UUID_Add_List_Entry mem ok ok ok l u' (Some nm) (Some d);
     init_types mem ok uuid_parse ts u' l1 }"

definition init_NuggetTypes ::
  "(addr \<Rightarrow> bool) \<Rightarrow> bool \<Rightarrow> (string \<Rightarrow> uuid \<Rightarrow> uuid) \<Rightarrow> uuid_list option \<Rightarrow> uuid_list option option" where
  "init_NuggetTypes mem ok uuid_parse l = init_types mem ok uuid_parse nugget_types [] l"

definition initUuids ::
  "(addr \<Rightarrow> bool) \<Rightarrow> bool \<Rightarrow> (uuid \<Rightarrow> uuid \<Rightarrow> int) \<Rightarrow> (string \<Rightarrow> uuid \<Rightarrow> uuid) \<Rightarrow> uuid_registry option" where
  "initUuids mem ok uuid_compare uuid_parse = do {
     l \<leftarrow> init_NuggetTypes mem ok uuid_parse (UUID_Create_List uuid_compare ok ok);
     Some \<lparr>sg_DataTypeList = UUID_Create_List uuid_compare ok ok,
           sg_IntelTypeList = UUID_Create_List uuid_compare ok ok,
           sg_NtlvTypeList = UUID_Create_List uuid_compare ok ok,
           sg_NtlvNameList = UUID_Create_List uuid_compare ok ok,
           sg_NuggetList = UUID_Create_List uuid_compare ok ok,
           sg_NuggetTypeList = l\<rparr> }"

definition UUID_Get_UUID :: "uuid_registry \<Rightarrow> string option \<Rightarrow> int \<Rightarrow> uuid option option" where
  "UUID_Get_UUID G p_sName p_iType = do {
     r \<leftarrow> UUID_getNodeByName G p_sName p_iType;
     Some (map_option un_uuid r) }"

text \<open>The outer result is the return value; \<open>p_pMatches\<close> is the inner one, unset on failure.\<close>
definition UUID_Is_Named_UUID ::
  "(uuid \<Rightarrow> uuid \<Rightarrow> int) \<Rightarrow> uuid_registry \<Rightarrow> string option \<Rightarrow> int \<Rightarrow> uuid \<Rightarrow> bool option option" where
  "UUID_Is_Named_UUID uuid_compare G p_sName p_iType p_uuid =
     (if p_sName = None \<or> UUID_Get_List G p_iType = None then Some None
      else do {
        r \<leftarrow> UUID_Get_UUID G p_sName p_iType;
        Some (map_option (\<lambda>u. uuid_compare u p_uuid = 0) r) })"

definition UUID_Get_Description :: "bool \<Rightarrow> uuid_registry \<Rightarrow> string option \<Rightarrow> int \<Rightarrow> string option option" where
  "UUID_Get_Description print_ok G p_sName p_iType = do {
     r \<leftarrow> UUID_getNodeByName G p_sName p_iType;
     Some (case r of None \<Rightarrow> None | Some n \<Rightarrow> if print_ok then sDescription n else None) }"

definition UUID_Get_DescriptionByUUID :: "bool \<Rightarrow> uuid_registry \<Rightarrow> uuid \<Rightarrow> int \<Rightarrow> string option option" where
  "UUID_Get_DescriptionByUUID print_ok G p_uuid p_iType = do {
     r \<leftarrow> UUID_getNodeByUUID G p_uuid p_iType;
     Some (case r of None \<Rightarrow> None | Some n \<Rightarrow> if print_ok then sDescription n else None) }"

definition UUID_Get_NameByUUID :: "bool \<Rightarrow> uuid_registry \<Rightarrow> uuid \<Rightarrow> int \<Rightarrow> string option option" where
  "UUID_Get_NameByUUID print_ok G p_uuid p_iType = do {
     r \<leftarrow> UUID_getNodeByUUID G p_uuid p_iType;
     Some (case r of None \<Rightarrow> None | Some n \<Rightarrow> if print_ok then Some (sName n) else None) }"

definition UUID_Get_UUIDAsString ::
  "(uuid \<Rightarrow> string) \<Rightarrow> bool \<Rightarrow> uuid_registry \<Rightarrow> string option \<Rightarrow> int \<Rightarrow> string option option" where
  "UUID_Get_UUIDAsString uuid_unparse calloc_ok G p_sName p_iType = do {
     r \<leftarrow> UUID_getNodeByName G p_sName p_iType;
     Some (case r of None \<Rightarrow> None | Some n \<Rightarrow> if calloc_ok then Some (uuid_unparse (un_uuid n)) else None) }"

definition UUID_MessageAddNameSize :: "(UUIDListNode, 64 word, UUIDListNode list) each_op" where
  "UUID_MessageAddNameSize item count s = Some (LIST_EACH_OK, count + of_nat (length (sName item)) + 1, s)"

definition UUIDList_BinarySize :: "uuid_list option \<Rightarrow> 64 word option" where
  "UUIDList_BinarySize l = do {
     (_, _, size, _) \<leftarrow> List_ForEach l UUID_MessageAddNameSize (of_nat (List_Length l) * 16) [];
     Some size }"

section \<open>Lemmas\<close>

text \<open>A list of the registry with the given nodes.\<close>
definition uuids :: "(uuid \<Rightarrow> uuid \<Rightarrow> int) \<Rightarrow> uuid_list \<Rightarrow> UUIDListNode list \<Rightarrow> bool" where
  "uuids uc l xs \<longleftrightarrow> List_rep l xs \<and> mode l = LIST_MODE_GENERIC \<and> limit l = 0 \<and>
     keyCmp l = Some (UUID_KeyCmp uc) \<and> nodeLock l = None \<and> nodeUnlock l = None"

lemma UUID_Create_List_uuids: "\<exists>l. UUID_Create_List uc True c = Some l \<and> uuids uc l []"
  unfolding UUID_Create_List_def uuids_def
  by (auto simp: List_Create_def List_rep_def List_inv_def items_def intro: exI [of _ "[]"])

lemma UUID_Add_List_Entry_uuids:
  assumes "uuids uc l xs" and "mem (brk l)" and "nm \<noteq> []"
  shows "\<exists>l'. UUID_Add_List_Entry mem True True True (Some l) u (Some nm) d = Some (True, Some l') \<and>
     uuids uc l' (xs @ [\<lparr>un_uuid = u, sName = nm, sDescription = d\<rparr>])"
proof -
  let ?n = "\<lparr>un_uuid = u, sName = nm, sDescription = d\<rparr>"
  have "List_rep l xs" "accepts mem l"
    using assms by (simp_all add: uuids_def accepts_def valid_mode_def)
  from List_Push_accepted [OF this, of ?n] obtain l' where
    l': "List_Push mem (Some l) ?n = Some (True, Some l')" "List_rep l' (xs @ [?n])" "cfg l' = cfg l"
    using assms by (auto simp: uuids_def push_spec_def)
  then show ?thesis
    using assms cfgD [OF l'(3)] by (auto simp: UUID_Add_List_Entry_def uuids_def)
qed

lemma uuids_find:
  assumes "uuids uc l xs"
  shows "List_Find (Some l) k s = Some (find (\<lambda>x. UUID_KeyCmp uc s x k = 0) xs, Some l, s)"
  using assms by (intro List_Find_refines) (auto simp: uuids_def)

lemma UUID_getNodeByName_uuids:
  assumes "uuids uc l xs" and "UUID_Get_List G t = Some l"
  shows "UUID_getNodeByName G (Some nm) t = Some (find (\<lambda>n. sName n = nm) xs)"
proof -
  have "(\<lambda>x. UUID_KeyCmp uc s x \<lparr>k_type = UUID_KEY_NAME, k_uuid = [], k_name = nm\<rparr> = 0) =
     (\<lambda>n. sName n = nm)" for s
    by (auto simp: UUID_KeyCmp_def strcmp_eq_0)
  then show ?thesis using assms(2) by (simp add: UUID_getNodeByName_def uuids_find [OF assms(1)])
qed

lemma UUID_getNodeByUUID_uuids:
  assumes "uuids uc l xs" and "UUID_Get_List G t = Some l" and "uuid_compare_ok uc"
  shows "UUID_getNodeByUUID G u t = Some (find (\<lambda>n. un_uuid n = u) xs)"
proof -
  have "(\<lambda>x. UUID_KeyCmp uc s x \<lparr>k_type = UUID_KEY_UUID, k_uuid = u, k_name = []\<rparr> = 0) =
     (\<lambda>n. un_uuid n = u)" for s
    using assms(3) by (auto simp: UUID_KeyCmp_def)
  then show ?thesis using assms(2) by (simp add: UUID_getNodeByUUID_def uuids_find [OF assms(1)])
qed

lemmas uuid_lookups = UUID_Get_UUID_def UUID_Get_NameByUUID_def UUID_Get_Description_def
  UUID_Get_DescriptionByUUID_def UUID_Is_Named_UUID_def UUID_Get_UUIDAsString_def

lemma find_distinct_map:
  "distinct (map f xs) \<Longrightarrow> find (\<lambda>x. f x = k) xs = Some x \<longleftrightarrow> x \<in> set xs \<and> f x = k"
  by (induction xs) (auto simp: image_iff)

lemma each_walk_name_size:
  "each_walk None None UUID_MessageAddNameSize xs c s =
     Some (True, replicate (length xs) False, c + of_nat (sum_list (map (\<lambda>n. length (sName n) + 1) xs)), s)"
  by (induction xs arbitrary: c) (auto simp: UUID_MessageAddNameSize_def algebra_simps)

lemma UUIDList_BinarySize_uuids:
  assumes "uuids uc l xs"
  shows "UUIDList_BinarySize (Some l) = Some (of_nat (sum_list (map (\<lambda>n. 16 + length (sName n) + 1) xs)))"
proof -
  have "List_ForEach (Some l) UUID_MessageAddNameSize (of_nat (len l) * 16) [] =
      Some (True, Some l, of_nat (len l) * 16 + of_nat (sum_list (map (\<lambda>n. length (sName n) + 1) xs)), [])"
    using assms each_walk_name_size [of xs "of_nat (len l) * 16" "[]"]
    by (intro List_ForEach_readonly) (auto simp: uuids_def)
  moreover have "sum_list (map (\<lambda>n. 16 + length (sName n) + 1) xs) =
      length xs * 16 + sum_list (map (\<lambda>n. length (sName n) + 1) xs)" by (induction xs) auto
  moreover have "len l = length xs" using assms by (auto simp: uuids_def List_rep_len)
  ultimately show ?thesis by (simp add: UUIDList_BinarySize_def)
qed

lemma init_types_uuids:
  assumes "uuids uc l xs" and "\<And>a. mem a" and "\<forall>e \<in> set ts. fst (snd e) \<noteq> [] \<and> (\<forall>u. parse (fst e) u = P (fst e))"
  shows "\<exists>l'. init_types mem True parse ts u (Some l) = Some (Some l') \<and>
     uuids uc l' (xs @ map (\<lambda>(t, nm, d). \<lparr>un_uuid = P t, sName = nm, sDescription = Some d\<rparr>) ts)"
  using assms(1,3)
proof (induction ts arbitrary: l xs u)
  case Nil
  then show ?case by simp
next
  case (Cons e ts)
  obtain t nm d where e: "e = (t, nm, d)" by (cases e)
  have nm: "nm \<noteq> []" and pt: "parse t u = P t" using Cons.prems(2) e by auto
  obtain l1 where l1: "UUID_Add_List_Entry mem True True True (Some l) (P t) (Some nm) (Some d) = Some (True, Some l1)"
    "uuids uc l1 (xs @ [\<lparr>un_uuid = P t, sName = nm, sDescription = Some d\<rparr>])"
    using UUID_Add_List_Entry_uuids [where mem = mem, OF Cons.prems(1) assms(2) nm] by blast
  show ?case using Cons.IH [OF l1(2), of "P t"] Cons.prems(2) l1(1) by (simp add: e pt)
qed

section \<open>Properties\<close>

text \<open>after \<open>UUID_Add_List_Entry\<close> with a name that is not empty, the name resolves to the
  identifier of its first entry, and the identifier to the name of its first entry.\<close>
theorem UUID_Add_Get:
  assumes "uuids uc l xs" and "uuid_compare_ok uc" and "mem (brk l)" and "nm \<noteq> []"
    and "UUID_Get_List G t = Some l"
  shows "\<exists>l'. UUID_Add_List_Entry mem True True True (Some l) u (Some nm) d = Some (True, Some l') \<and>
     (\<forall>G'. UUID_Get_List G' t = Some l' \<longrightarrow>
        UUID_Get_UUID G' (Some nm) t =
          Some (Some (case find (\<lambda>n. sName n = nm) xs of None \<Rightarrow> u | Some n \<Rightarrow> un_uuid n)) \<and>
        UUID_Get_NameByUUID True G' u t =
          Some (Some (case find (\<lambda>n. un_uuid n = u) xs of None \<Rightarrow> nm | Some n \<Rightarrow> sName n)) \<and>
        (\<forall>nm'. nm' \<noteq> nm \<longrightarrow> UUID_Get_UUID G' (Some nm') t = UUID_Get_UUID G (Some nm') t))"
proof -
  obtain l' where l': "UUID_Add_List_Entry mem True True True (Some l) u (Some nm) d = Some (True, Some l')"
    "uuids uc l' (xs @ [\<lparr>un_uuid = u, sName = nm, sDescription = d\<rparr>])"
    using UUID_Add_List_Entry_uuids [where mem = mem, OF assms(1,3,4)] by blast
  note lk = UUID_getNodeByName_uuids [OF l'(2)] UUID_getNodeByUUID_uuids [OF l'(2) _ assms(2)]
    UUID_getNodeByName_uuids [OF assms(1,5)]
  show ?thesis using l'(1)
    by (auto simp: uuid_lookups lk find_append split: option.split)
qed

theorem UUID_Add_Get_witness:
  "\<exists>l l'. UUID_Create_List uuid_compare_ref True True = Some l \<and>
     UUID_Add_List_Entry (\<lambda>_. True) True True True (Some l) [9] (Some ''a'') None = Some (True, Some l') \<and>
     UUID_Get_UUID \<lparr>sg_DataTypeList = Some l', sg_IntelTypeList = None, sg_NtlvTypeList = None,
        sg_NtlvNameList = None, sg_NuggetList = None, sg_NuggetTypeList = None\<rparr> (Some ''a'') 1 = Some (Some [9])"
proof -
  obtain l where l: "UUID_Create_List uuid_compare_ref True True = Some l" "uuids uuid_compare_ref l []"
    using UUID_Create_List_uuids by blast
  let ?G = "\<lambda>l. \<lparr>sg_DataTypeList = Some l, sg_IntelTypeList = None, sg_NtlvTypeList = None,
        sg_NtlvNameList = None, sg_NuggetList = None, sg_NuggetTypeList = None\<rparr>"
  show ?thesis
    using l(1) UUID_Add_Get [OF l(2) uuid_compare_ref_ok, of "\<lambda>_. True" "''a''" "?G l" 1 "[9]" None]
    by (auto simp: UUID_Get_List_def)
qed

text \<open>C23: where the names and the identifiers of a list are distinct, looking up a name and looking
  up an identifier are inverse to each other, and \<open>UUID_Is_Named_UUID\<close> decides the relation.\<close>
theorem UUID_lookup_inverse:
  assumes "uuids uc l xs" and "uuid_compare_ok uc" and "UUID_Get_List G t = Some l"
    and "distinct (map sName xs)" and "distinct (map un_uuid xs)"
  shows "(UUID_Get_UUID G (Some nm) t = Some (Some u) \<longleftrightarrow>
      UUID_Get_NameByUUID True G u t = Some (Some nm)) \<and>
    (UUID_Get_UUID G (Some nm) t = Some (Some u) \<longleftrightarrow>
      UUID_Is_Named_UUID uc G (Some nm) t u = Some (Some True))"
proof -
  note lk = UUID_getNodeByName_uuids [OF assms(1,3)] UUID_getNodeByUUID_uuids [OF assms(1,3,2)]
  have "(\<exists>n. find (\<lambda>n. sName n = nm) xs = Some n \<and> un_uuid n = u) \<longleftrightarrow>
      (\<exists>n. find (\<lambda>n. un_uuid n = u) xs = Some n \<and> sName n = nm)"
    using assms(4,5) by (auto simp: find_distinct_map)
  then show ?thesis
    using assms(2,3) by (auto simp: uuid_lookups lk split: option.splits)
qed

theorem UUID_lookup_inverse_witness:
  "\<exists>l l' G. UUID_Create_List uuid_compare_ref True True = Some l \<and>
     UUID_Add_List_Entry (\<lambda>_. True) True True True (Some l) [9] (Some ''a'') None = Some (True, Some l') \<and>
     UUID_Get_List G 1 = Some l' \<and> UUID_Get_UUID G (Some ''a'') 1 = Some (Some [9]) \<and>
     UUID_Get_NameByUUID True G [9] 1 = Some (Some ''a'')"
proof -
  obtain l where l: "UUID_Create_List uuid_compare_ref True True = Some l" "uuids uuid_compare_ref l []"
    using UUID_Create_List_uuids by blast
  obtain l' where l': "UUID_Add_List_Entry (\<lambda>_. True) True True True (Some l) [9] (Some ''a'') None = Some (True, Some l')"
    "uuids uuid_compare_ref l' [\<lparr>un_uuid = [9], sName = ''a'', sDescription = None\<rparr>]"
    using UUID_Add_List_Entry_uuids [OF l(2), of "\<lambda>_. True" "''a''" "[9]" None] by auto
  define G where "G = \<lparr>sg_DataTypeList = Some l', sg_IntelTypeList = None, sg_NtlvTypeList = None,
        sg_NtlvNameList = None, sg_NuggetList = None, sg_NuggetTypeList = None\<rparr>"
  have G: "UUID_Get_List G 1 = Some l'" by (simp add: G_def UUID_Get_List_def)
  have "UUID_Get_UUID G (Some ''a'') 1 = Some (Some [9])"
    by (simp add: UUID_Get_UUID_def UUID_getNodeByName_uuids [OF l'(2) G])
  then show ?thesis
    using l(1) l'(1) G UUID_lookup_inverse [OF l'(2) uuid_compare_ref_ok G, of "''a''" "[9]"] by auto
qed

text \<open>\<open>initUuids\<close> registers the seven nugget types of its table: each name resolves to the
  identifier parsed from its text and no other name is known; in particular the well known name
  CORRELATION is not.\<close>
theorem initUuids_nugget_types:
  assumes "\<And>a. mem a" and "\<And>e u. e \<in> set nugget_types \<Longrightarrow> uuid_parse (fst e) u = P (fst e)"
  shows "\<exists>G. initUuids mem True uc uuid_parse = Some G \<and>
     (\<forall>nm. UUID_Get_UUID G (Some nm) UUID_TYPE_NUGGET_TYPE =
        Some (map_option P (map_of (map (\<lambda>(t, nm, d). (nm, t)) nugget_types) nm))) \<and>
     UUID_Get_UUID G (Some ''CORRELATION'') UUID_TYPE_NUGGET_TYPE = Some None"
proof -
  obtain l where l: "UUID_Create_List uc True True = Some l" "uuids uc l []"
    using UUID_Create_List_uuids by blast
  let ?ns = "map (\<lambda>(t, nm, d). \<lparr>un_uuid = P t, sName = nm, sDescription = Some d\<rparr>) nugget_types"
  have "\<forall>e \<in> set nugget_types. fst (snd e) \<noteq> []" by (simp add: nugget_types_def)
  then have "\<forall>e \<in> set nugget_types. fst (snd e) \<noteq> [] \<and> (\<forall>u. uuid_parse (fst e) u = P (fst e))"
    using assms(2) by blast
  from init_types_uuids [where mem = mem and parse = uuid_parse and P = P and ts = nugget_types and u = "[]",
      OF l(2) assms(1) this] obtain l' where
    l': "init_types mem True uuid_parse nugget_types [] (Some l) = Some (Some l')" "uuids uc l' ?ns" by auto
  define G where "G = \<lparr>sg_DataTypeList = Some l, sg_IntelTypeList = Some l, sg_NtlvTypeList = Some l,
        sg_NtlvNameList = Some l, sg_NuggetList = Some l, sg_NuggetTypeList = Some l'\<rparr>"
  have i: "initUuids mem True uc uuid_parse = Some G"
    using l(1) l'(1) by (simp add: initUuids_def init_NuggetTypes_def G_def)
  have g: "UUID_Get_List G UUID_TYPE_NUGGET_TYPE = Some l'" by (simp add: G_def UUID_Get_List_def)
  have "map_option un_uuid (find (\<lambda>n. sName n = nm) (map (\<lambda>(t, nm, d). \<lparr>un_uuid = P t, sName = nm, sDescription = Some d\<rparr>) ts)) =
      map_option P (map_of (map (\<lambda>(t, nm, d). (nm, t)) ts) nm)" for nm ts
    by (induction ts) auto
  then have lk: "UUID_Get_UUID G (Some nm) UUID_TYPE_NUGGET_TYPE =
        Some (map_option P (map_of (map (\<lambda>(t, nm, d). (nm, t)) nugget_types) nm))" for nm
    by (simp add: UUID_Get_UUID_def UUID_getNodeByName_uuids [OF l'(2) g])
  moreover have "map_of (map (\<lambda>(t, nm, d). (nm, t)) nugget_types) ''CORRELATION'' = None"
    by (simp add: nugget_types_def)
  ultimately show ?thesis using i by (intro exI [of _ G]) simp
qed

theorem initUuids_nugget_types_witness:
  "\<exists>G. initUuids (\<lambda>_. True) True uuid_compare_ref (\<lambda>t u. map of_char t) = Some G \<and>
     UUID_Get_UUID G (Some ''MASTER'') 5 = Some (Some (map of_char ''ca51afd1-41b8-4c6b-b221-9faef0d202a7''))"
proof -
  obtain G where "initUuids (\<lambda>_. True) True uuid_compare_ref (\<lambda>t u. map of_char t) = Some G"
    "\<forall>nm. UUID_Get_UUID G (Some nm) UUID_TYPE_NUGGET_TYPE =
        Some (map_option (map of_char) (map_of (map (\<lambda>(t, nm, d). (nm, t)) nugget_types) nm))"
    using initUuids_nugget_types [of "\<lambda>_. True" "\<lambda>t u. map of_char t" "map of_char" uuid_compare_ref] by auto
  moreover have "map_of (map (\<lambda>(t, nm, d). (nm, t)) nugget_types) ''MASTER'' =
      Some ''ca51afd1-41b8-4c6b-b221-9faef0d202a7''"
    by (simp add: nugget_types_def)
  ultimately show ?thesis by (intro exI [of _ G]) (simp only: option.map simp_thms)
qed

end
