(* ===== verification/Local_Cache.thy ===== *)
theory Local_Cache
  imports Rzb_Prelude
begin

text \<open>
  The local verdict caches of a nugget, \<open>src/local_cache.c\<close>: for every kind of hash an adaptive
  replacement cache. The entries of a cache live in an array; four doubly linked lists thread
  through the array: T1 (seen once), T2 (seen again) and the ghost lists B1 and B2 of entries
  recently dropped from them. Pointers to entries are array indices.

  The field \<open>target\<close> is a \<open>double\<close> in the code. It only ever holds sums and differences of integers
  between 0 and the cache size, which is exact, so the model uses an integer. Mutexes are not
  modelled: each operation is one step. The outcome \<^term>\<open>None\<close> of an operation is undefined
  behaviour: a null pointer is followed, a released or too short key is compared, or an array is
  accessed outside its bounds.
\<close>

section \<open>Data\<close>

datatype LISTTYPE = LT_T1 | LT_T2 | LT_B1 | LT_B2 | LT_NONE

text \<open>\<open>CT_ALL\<close> is the enumerator \<open>ALL\<close>.\<close>
datatype CacheType = GOODHASH | BADHASH | URL | CT_ALL

datatype ClearMethod = FULL

datatype Lookup_Result = R_SUCCESS | R_ERROR | R_FOUND | R_NOT_FOUND

text \<open>What a key pointer points to.\<close>
datatype key_ptr = KNull | KFreed | KBytes bytes

record ENTRY =
  e_next :: "nat option"
  e_prev :: "nat option"
  listtype :: LISTTYPE
  e_size :: nat
  e_key :: key_ptr
  e_sfflags :: u32
  e_entflags :: u32

record CACHE =
  c_size :: nat
  entries :: nat
  listSize :: "LISTTYPE \<Rightarrow> nat"
  target :: int
  LRU :: "LISTTYPE \<Rightarrow> nat option"
  MRU :: "LISTTYPE \<Rightarrow> nat option"
  entrylist :: "nat \<Rightarrow> ENTRY"

text \<open>The static array \<open>Cache\<close>, indexed by the cache type.\<close>
type_synonym caches = "CacheType \<Rightarrow> CACHE"

definition upd_entry :: "nat \<Rightarrow> (ENTRY \<Rightarrow> ENTRY) \<Rightarrow> CACHE \<Rightarrow> CACHE" where
  "upd_entry i f c = c\<lparr>entrylist := (entrylist c)(i := f (entrylist c i))\<rparr>"

definition set_size :: "LISTTYPE \<Rightarrow> nat \<Rightarrow> CACHE \<Rightarrow> CACHE" where
  "set_size t n c = c\<lparr>listSize := (listSize c)(t := n)\<rparr>"

definition inc_size :: "LISTTYPE \<Rightarrow> CACHE \<Rightarrow> CACHE" where
  "inc_size t c = set_size t (inc32 (listSize c t)) c"

definition dec_size_of :: "LISTTYPE \<Rightarrow> CACHE \<Rightarrow> CACHE" where
  "dec_size_of t c = set_size t (dec32 (listSize c t)) c"

definition set_LRU :: "LISTTYPE \<Rightarrow> nat option \<Rightarrow> CACHE \<Rightarrow> CACHE" where
  "set_LRU t p c = c\<lparr>LRU := (LRU c)(t := p)\<rparr>"

definition set_MRU :: "LISTTYPE \<Rightarrow> nat option \<Rightarrow> CACHE \<Rightarrow> CACHE" where
  "set_MRU t p c = c\<lparr>MRU := (MRU c)(t := p)\<rparr>"

section \<open>Operations on the lists\<close>

definition getNewEntry :: "CACHE \<Rightarrow> nat option \<times> CACHE" where
  "getNewEntry c =
     (if entries c < mul32 (c_size c) 2
      then (Some (entries c),
            c\<lparr>entrylist := (entrylist c)(entries c :=
                 \<lparr>e_next = None, e_prev = None, listtype = LT_NONE, e_size = 0, e_key = KNull,
                  e_sfflags = 0, e_entflags = 0\<rparr>),
              entries := inc32 (entries c)\<rparr>)
      else (None, c))"

text \<open>\<open>memcmp\<close> of \<open>n\<close> bytes at a key pointer and at a buffer, up to the sign.\<close>
fun memcmp :: "key_ptr \<Rightarrow> bytes \<Rightarrow> nat \<Rightarrow> int option" where
  "memcmp KNull b n = None"
| "memcmp KFreed b n = None"
| "memcmp (KBytes a) b n =
     (if length a < n \<or> length b < n then None
      else Some (bytes_cmp (take n a) (take n b)))"

text \<open>The scan of \<open>FindEntry\<close> over the given indices.\<close>
fun find_loop :: "CACHE \<Rightarrow> bytes \<Rightarrow> nat \<Rightarrow> nat list \<Rightarrow> nat option option" where
  "find_loop c k n [] = Some None"
| "find_loop c k n (i # is) = do {
     r \<leftarrow> memcmp (e_key (entrylist c i)) k n;
     (if r = 0 then Some (Some i) else find_loop c k n is) }"

definition FindEntry :: "bytes \<Rightarrow> nat \<Rightarrow> CACHE \<Rightarrow> nat option option" where
  "FindEntry k n c = find_loop c k n [0..<entries c]"

definition FindMRU :: "LISTTYPE \<Rightarrow> CACHE \<Rightarrow> nat option \<times> CACHE" where
  "FindMRU t c =
     (let c' = (if MRU c t = None
                then fold (\<lambda>i c. if e_next (entrylist c i) = None \<and> listtype (entrylist c i) = t
                                 then set_MRU t (Some i) c else c) [0..<entries c] c
                else c)
      in (MRU c' t, c'))"

definition FindLRU :: "LISTTYPE \<Rightarrow> CACHE \<Rightarrow> nat option \<times> CACHE" where
  "FindLRU t c =
     (let c' = (if LRU c t = None
                then fold (\<lambda>i c. if e_prev (entrylist c i) = None \<and> listtype (entrylist c i) = t
                                 then set_LRU t (Some i) c else c) [0..<entries c] c
                else c)
      in (LRU c' t, c'))"

definition unlink :: "nat \<Rightarrow> CACHE \<Rightarrow> CACHE" where
  "unlink i = upd_entry i (\<lambda>e. e\<lparr>e_prev := None, e_next := None, listtype := LT_NONE\<rparr>)"

definition PurgeLRU :: "LISTTYPE \<Rightarrow> CACHE \<Rightarrow> nat option \<times> CACHE" where
  "PurgeLRU t c =
     (case FindLRU t c of
        (None, c1) \<Rightarrow> (None, c1)
      | (Some i, c1) \<Rightarrow>
          (Some i,
           unlink i
             (case e_next (entrylist c1 i) of
                Some j \<Rightarrow> set_LRU t (Some j) (upd_entry j (\<lambda>e. e\<lparr>e_prev := None\<rparr>) c1)
              | None \<Rightarrow> set_MRU t None (set_LRU t None c1))))"

definition AddMRU :: "nat option \<Rightarrow> LISTTYPE \<Rightarrow> CACHE \<Rightarrow> CACHE option" where
  "AddMRU p t c =
     (case p of
        None \<Rightarrow> None
      | Some i \<Rightarrow>
          let (m, c1) = FindMRU t c;
              c2 = (case m of
                      Some j \<Rightarrow> upd_entry i (\<lambda>e. e\<lparr>e_prev := Some j, e_next := None\<rparr>)
                                 (upd_entry j (\<lambda>e. e\<lparr>e_next := Some i\<rparr>) c1)
                    | None \<Rightarrow> upd_entry i (\<lambda>e. e\<lparr>e_prev := None, e_next := None\<rparr>) (set_LRU t (Some i) c1))
          in Some (upd_entry i (\<lambda>e. e\<lparr>listtype := t\<rparr>) (set_MRU t (Some i) c2)))"

definition removeEntry :: "nat \<Rightarrow> CACHE \<Rightarrow> CACHE option" where
  "removeEntry i c =
     (let e = entrylist c i; t = listtype e
      in map_option (unlink i)
           (case (e_next e, e_prev e) of
              (Some j, Some k) \<Rightarrow>
                Some (upd_entry k (\<lambda>e. e\<lparr>e_next := Some j\<rparr>) (upd_entry j (\<lambda>e. e\<lparr>e_prev := Some k\<rparr>) c))
            | (Some j, None) \<Rightarrow> if t = LT_NONE then None else Some (snd (PurgeLRU t c))
            | (None, Some k) \<Rightarrow>
                if t = LT_NONE then None
                else Some (set_MRU t (Some k) (upd_entry k (\<lambda>e. e\<lparr>e_next := None\<rparr>) c))
            | (None, None) \<Rightarrow>
                if t = LT_NONE then None else Some (set_LRU t None (set_MRU t None c))))"

definition replace :: "CACHE \<Rightarrow> CACHE option" where
  "replace c =
     (if int (listSize c LT_T1) \<ge> max (target c) 1
      then do {
        let (m, c1) = PurgeLRU LT_T1 c;
        c2 \<leftarrow> AddMRU m LT_B1 c1;
        Some (inc_size LT_B1 (dec_size_of LT_T1 c2)) }
      else do {
        let (m, c1) = PurgeLRU LT_T2 c;
        c2 \<leftarrow> AddMRU m LT_B2 c1;
        Some (inc_size LT_B2 (dec_size_of LT_T2 c2)) })"

text \<open>\<open>free\<close> of a key: undefined when the key was already released.\<close>
definition destroyEntry :: "nat \<Rightarrow> CACHE \<Rightarrow> CACHE option" where
  "destroyEntry i c =
     (case e_key (entrylist c i) of
        KNull \<Rightarrow> Some c
      | KFreed \<Rightarrow> None
      | KBytes b \<Rightarrow> Some (upd_entry i (\<lambda>e. e\<lparr>e_key := KFreed\<rparr>) c))"

section \<open>The interface\<close>

text \<open>\<open>checkLocalEntry\<close> on one cache; the result carries the two flag words.\<close>
definition check_entry ::
  "bytes \<Rightarrow> nat \<Rightarrow> u32 \<Rightarrow> u32 \<Rightarrow> CACHE \<Rightarrow> (Lookup_Result \<times> u32 \<times> u32 \<times> CACHE) option" where
  "check_entry key n sf ent c = do {
     hit \<leftarrow> FindEntry key n c;
     (case hit of
        None \<Rightarrow> Some (R_NOT_FOUND, sf, ent, c)
      | Some i \<Rightarrow> do {
          r \<leftarrow> (case listtype (entrylist c i) of
             LT_T1 \<Rightarrow> do {
               c1 \<leftarrow> removeEntry i (inc_size LT_T2 (dec_size_of LT_T1 c));
               c2 \<leftarrow> AddMRU (Some i) LT_T2 c1;
               Some (Some c2) }
           | LT_T2 \<Rightarrow> do {
               c1 \<leftarrow> removeEntry i c;
               c2 \<leftarrow> AddMRU (Some i) LT_T2 c1;
               Some (Some c2) }
           | LT_B1 \<Rightarrow>
               if listSize c LT_B1 = 0 then None
               else do {
                 let c0 = dec_size_of LT_B1 (c\<lparr>target :=
                   min (target c + max (int (listSize c LT_B2 div listSize c LT_B1)) 1) (int (c_size c))\<rparr>);
                 c1 \<leftarrow> removeEntry i c0;
                 c2 \<leftarrow> replace c1;
                 c3 \<leftarrow> AddMRU (Some i) LT_T2 (inc_size LT_T2 c2);
                 Some (Some c3) }
           | LT_B2 \<Rightarrow>
               if listSize c LT_B2 = 0 then None
               else do {
                 let c0 = dec_size_of LT_B2 (c\<lparr>target :=
                   max (target c - max (int (listSize c LT_B1 div listSize c LT_B2)) 1) 0\<rparr>);
                 c1 \<leftarrow> removeEntry i c0;
                 c2 \<leftarrow> replace c1;
                 c3 \<leftarrow> AddMRU (Some i) LT_T2 (inc_size LT_T2 c2);
                 Some (Some c3) }
           | LT_NONE \<Rightarrow> Some None);
          (case r of
             None \<Rightarrow> Some (R_ERROR, sf, ent, c)
           | Some c' \<Rightarrow>
               Some (R_FOUND, e_sfflags (entrylist c' i), e_entflags (entrylist c' i), c')) }) }"

definition checkLocalEntry ::
  "bytes option \<Rightarrow> nat \<Rightarrow> u32 option \<Rightarrow> u32 option \<Rightarrow> CacheType \<Rightarrow> caches \<Rightarrow>
   (Lookup_Result \<times> u32 option \<times> u32 option \<times> caches) option" where
  "checkLocalEntry key n sfflags entflags ty C =
     (if ty = CT_ALL then Some (R_ERROR, sfflags, entflags, C)
      else case (key, sfflags, entflags) of
        (Some k, Some sf, Some ent) \<Rightarrow> do {
          (r, sf', ent', c) \<leftarrow> check_entry k n sf ent (C ty);
          Some (r, Some sf', Some ent', C(ty := c)) }
      | _ \<Rightarrow> Some (R_ERROR, sfflags, entflags, C))"

text \<open>
  The part of \<open>addLocalEntry\<close> that finds a place for the new entry: the slot and the cache after
  the lists have been adjusted.
\<close>
definition new_slot :: "CACHE \<Rightarrow> (nat option \<times> CACHE) option" where
  "new_slot c =
     (if add32 (listSize c LT_T1) (listSize c LT_B1) = c_size c
      then if listSize c LT_T1 < c_size c
        then do {
          let (p, c1) = PurgeLRU LT_B1 c;
          c2 \<leftarrow> replace (dec_size_of LT_B1 c1);
          Some (p, c2) }
        else do {
          let (p, c1) = PurgeLRU LT_T1 c;
          Some (p, dec_size_of LT_T1 c1) }
      else if entries c \<ge> c_size c
        then do {
          let (p, c1) = (if entries c \<ge> mul32 2 (c_size c)
                         then let (q, d) = PurgeLRU LT_B2 c in (q, dec_size_of LT_B2 d)
                         else getNewEntry c);
          c2 \<leftarrow> replace c1;
          Some (p, c2) }
        else Some (getNewEntry c))"

text \<open>
  \<open>addLocalEntry\<close> on one cache. The old key of a recycled entry is released first; \<open>malloc_ok\<close> says
  whether the buffer for the new key could be allocated.
\<close>
definition add_entry ::
  "bool \<Rightarrow> bytes \<Rightarrow> nat \<Rightarrow> u32 \<Rightarrow> u32 \<Rightarrow> CACHE \<Rightarrow> (Lookup_Result \<times> CACHE) option" where
  "add_entry malloc_ok key n sf ent c = do {
     (p, c1) \<leftarrow> new_slot c;
     c2 \<leftarrow> AddMRU p LT_T1 c1;
     let i = the p;
     let c3 = upd_entry i (\<lambda>e. e\<lparr>e_size := n, e_sfflags := sf, e_entflags := ent\<rparr>) (inc_size LT_T1 c2);
     c4 \<leftarrow> (if e_key (entrylist c3 i) = KNull then Some c3 else destroyEntry i c3);
     (if \<not> malloc_ok then Some (R_ERROR, upd_entry i (\<lambda>e. e\<lparr>e_key := KNull\<rparr>) c4)
      else if length key < n then None
      else Some (R_SUCCESS, upd_entry i (\<lambda>e. e\<lparr>e_key := KBytes (take n key)\<rparr>) c4)) }"

definition addLocalEntry ::
  "bool \<Rightarrow> bytes \<Rightarrow> nat \<Rightarrow> u32 \<Rightarrow> u32 \<Rightarrow> CacheType \<Rightarrow> caches \<Rightarrow> (Lookup_Result \<times> caches) option" where
  "addLocalEntry malloc_ok key n sfflags entflags ty C =
     (if ty = CT_ALL then Some (R_ERROR, C)
      else do {
        (r, c) \<leftarrow> add_entry malloc_ok key n sfflags entflags (C ty);
        Some (r, C(ty := c)) })"

definition updateLocalEntry ::
  "bytes option \<Rightarrow> nat \<Rightarrow> u32 \<Rightarrow> u32 \<Rightarrow> CacheType \<Rightarrow> caches \<Rightarrow> (Lookup_Result \<times> caches) option" where
  "updateLocalEntry key n sfflags entflags ty C =
     (if ty = CT_ALL then Some (R_ERROR, C)
      else case key of
        None \<Rightarrow> Some (R_ERROR, C)
      | Some k \<Rightarrow> do {
          hit \<leftarrow> FindEntry k n (C ty);
          (case hit of
             None \<Rightarrow> Some (R_NOT_FOUND, C)
           | Some i \<Rightarrow>
               Some (R_SUCCESS, C(ty := upd_entry i (\<lambda>e. e\<lparr>e_sfflags := sfflags, e_entflags := entflags\<rparr>) (C ty)))) })"

definition removeLocalEntry ::
  "bytes option \<Rightarrow> nat \<Rightarrow> CacheType \<Rightarrow> caches \<Rightarrow> (Lookup_Result \<times> caches) option" where
  "removeLocalEntry key n ty C =
     (if ty = CT_ALL then Some (R_ERROR, C)
      else case key of
        None \<Rightarrow> Some (R_ERROR, C)
      | Some k \<Rightarrow> do {
          hit \<leftarrow> FindEntry k n (C ty);
          (case hit of
             None \<Rightarrow> Some (R_NOT_FOUND, C)
           | Some i \<Rightarrow> do {
               c1 \<leftarrow> removeEntry i (C ty);
               c2 \<leftarrow> destroyEntry i c1;
               Some (R_SUCCESS, C(ty := upd_entry i (\<lambda>e. e\<lparr>e_size := 0\<rparr>) c2)) }) })"

text \<open>The loop that releases the keys of the given entries.\<close>
fun destroy_entries :: "nat list \<Rightarrow> CACHE \<Rightarrow> CACHE option" where
  "destroy_entries [] c = Some c"
| "destroy_entries (i # is) c = do { c1 \<leftarrow> destroyEntry i c; destroy_entries is c1 }"

text \<open>
  The body of \<open>clearLocalEntry\<close> for one cache. The loop that empties the lists goes through
  \<open>Cache->\<close>, the first element of the array, whatever the cache that is cleared.
\<close>
definition clear_cache :: "CacheType \<Rightarrow> caches \<Rightarrow> caches option" where
  "clear_cache ty C = do {
     c \<leftarrow> destroy_entries [0..<entries (C ty)] (C ty);
     let C1 = C(ty := c\<lparr>entries := 0, target := int (c_size c)\<rparr>);
     Some (C1(GOODHASH := (C1 GOODHASH)\<lparr>listSize := (\<lambda>_. 0), LRU := (\<lambda>_. None), MRU := (\<lambda>_. None)\<rparr>)) }"

fun clearLocalEntry :: "CacheType \<Rightarrow> ClearMethod \<Rightarrow> caches \<Rightarrow> (Lookup_Result \<times> caches) option" where
  "clearLocalEntry ty FULL C =
     (if ty = CT_ALL
      then do {
        C0 \<leftarrow> clear_cache GOODHASH C;
        C1 \<leftarrow> clear_cache BADHASH C0;
        C2 \<leftarrow> clear_cache URL C1;
        Some (R_SUCCESS, C2) }
      else do { C1 \<leftarrow> clear_cache ty C; Some (R_SUCCESS, C1) })"

text \<open>
  \<open>initcache\<close>, the array allocations and the mutex creation succeeding; \<open>junk\<close> is what the fresh
  arrays contain. The sizes come from the configuration (\<open>bad\<close> and \<open>good\<close> limit).
\<close>
definition init_cache :: "nat \<Rightarrow> (nat \<Rightarrow> ENTRY) \<Rightarrow> CACHE" where
  "init_cache n junk =
     \<lparr>c_size = n, entries = 0, listSize = (\<lambda>_. 0), target = int n, LRU = (\<lambda>_. None),
      MRU = (\<lambda>_. None), entrylist = junk\<rparr>"

definition initcache :: "nat \<Rightarrow> nat \<Rightarrow> (CacheType \<Rightarrow> nat \<Rightarrow> ENTRY) \<Rightarrow> caches" where
  "initcache bad good junk ty =
     init_cache (case ty of GOODHASH \<Rightarrow> bad | BADHASH \<Rightarrow> good | _ \<Rightarrow> 256) (junk ty)"

end
