(* ===== verification/Local_Cache_Arc.thy ===== *)
theory Local_Cache_Arc
  imports Local_Cache
begin

text \<open>
  The adaptive replacement policy on abstract lists of slots, its invariant, and the proof that the
  operations of \<open>src/local_cache.c\<close> implement it: \<open>chain\<close> and \<open>lists_ok\<close> relate the pointers in
  the entry array to four lists, \<open>arc_hit\<close> and \<open>arc_miss\<close> are the policy, \<open>arc_inv\<close> its
  invariant, and \<open>check_entry_hit\<close> and \<open>add_entry_ok\<close> the refinement.
\<close>

section \<open>Chains in the entry array\<close>

definition first_of :: "nat list \<Rightarrow> nat option \<Rightarrow> nat option" where
  "first_of as n = (case as of [] \<Rightarrow> n | a # _ \<Rightarrow> Some a)"

definition last_of :: "nat list \<Rightarrow> nat option \<Rightarrow> nat option" where
  "last_of as p = (if as = [] then p else Some (last as))"

lemma first_last_of [simp]:
  "first_of [] n = n" "first_of (a # as) n = Some a"
  "first_of (as @ bs) n = first_of as (first_of bs n)"
  "last_of [] p = p" "last_of (a # as) p = last_of as (Some a)"
  "last_of (as @ bs) p = last_of bs (last_of as p)"
  by (auto simp: first_of_def last_of_def split: list.split)

lemma last_of_None: "last_of as None = None \<longleftrightarrow> as = []" "last_of as (Some a) \<noteq> None"
  by (simp_all add: last_of_def)

lemma first_of_None: "first_of as None = None \<longleftrightarrow> as = []"
  by (cases as) auto

text \<open>A doubly linked segment of the array, from the least to the most recently used entry.\<close>
fun chain :: "(nat \<Rightarrow> ENTRY) \<Rightarrow> nat option \<Rightarrow> nat list \<Rightarrow> nat option \<Rightarrow> bool" where
  "chain E p [] n = True"
| "chain E p (a # as) n \<longleftrightarrow> e_prev (E a) = p \<and> e_next (E a) = first_of as n \<and> chain E (Some a) as n"

lemma chain_cong:
  "(\<And>a. a \<in> set as \<Longrightarrow> e_prev (E' a) = e_prev (E a) \<and> e_next (E' a) = e_next (E a)) \<Longrightarrow>
   chain E' p as n = chain E p as n"
  by (induction as arbitrary: p) auto

lemma chain_frame [simp]: "a \<notin> set as \<Longrightarrow> chain (E(a := e)) p as n = chain E p as n"
  by (intro chain_cong) auto

lemma chain_append:
  "chain E p (as @ bs) n \<longleftrightarrow> chain E p as (first_of bs n) \<and> chain E (last_of as p) bs n"
  by (induction as arbitrary: p) auto

lemma chain_set_prev:
  "distinct as \<Longrightarrow> chain E p as n \<Longrightarrow> as = a # bs \<Longrightarrow> e = (E a)\<lparr>e_prev := q\<rparr> \<Longrightarrow> chain (E(a := e)) q as n"
  by auto

lemma chain_set_next:
  "distinct as \<Longrightarrow> chain E p as n \<Longrightarrow> as = bs @ [a] \<Longrightarrow> e = (E a)\<lparr>e_next := m\<rparr> \<Longrightarrow> chain (E(a := e)) p as m"
  by (auto simp: chain_append)

section \<open>The four lists\<close>

text \<open>
  The cache represents the lists \<open>ls\<close>: each list type but \<open>LT_NONE\<close> has its entries chained in
  order, the end pointers are right, and the entries that carry the list type are those of the list.
\<close>
definition lists_ok :: "CACHE \<Rightarrow> (LISTTYPE \<Rightarrow> nat list) \<Rightarrow> bool" where
  "lists_ok c ls \<longleftrightarrow> (\<forall>t. t \<noteq> LT_NONE \<longrightarrow>
     chain (entrylist c) None (ls t) None \<and> LRU c t = first_of (ls t) None \<and>
     MRU c t = last_of (ls t) None \<and> distinct (ls t) \<and>
     (\<forall>i. i \<in> set (ls t) \<longleftrightarrow> i < entries c \<and> listtype (entrylist c i) = t))"

lemma lists_okD:
  assumes "lists_ok c ls" and "t \<noteq> LT_NONE"
  shows "chain (entrylist c) None (ls t) None" "LRU c t = first_of (ls t) None"
    "MRU c t = last_of (ls t) None" "distinct (ls t)"
    "i \<in> set (ls t) \<longleftrightarrow> i < entries c \<and> listtype (entrylist c i) = t"
  using assms by (auto simp: lists_ok_def)

text \<open>What the list operations leave alone: the sizes, the target and the contents of the entries.\<close>
definition data :: "ENTRY \<Rightarrow> nat \<times> key_ptr \<times> u32 \<times> u32" where
  "data e = (e_size e, e_key e, e_sfflags e, e_entflags e)"

definition same :: "CACHE \<Rightarrow> CACHE \<Rightarrow> bool" where
  "same c c' \<longleftrightarrow> c_size c' = c_size c \<and> entries c' = entries c \<and> listSize c' = listSize c \<and>
     target c' = target c \<and> (\<forall>i. data (entrylist c' i) = data (entrylist c i))"

lemma same_refl [simp]: "same c c"
  by (simp add: same_def)

lemma same_trans: "same a b \<Longrightarrow> same b c \<Longrightarrow> same a c"
  by (simp add: same_def)

lemma sameD:
  assumes "same c c'"
  shows "c_size c' = c_size c" "entries c' = entries c" "listSize c' = listSize c" "target c' = target c"
    "data (entrylist c' i) = data (entrylist c i)"
  using assms by (simp_all add: same_def)

lemmas cache_upd_defs = upd_entry_def set_LRU_def set_MRU_def unlink_def

lemma fold_unchanged: "(\<And>x. x \<in> set xs \<Longrightarrow> f x c = c) \<Longrightarrow> fold f xs c = c"
  by (induction xs) auto

lemma FindLRU_ok: "lists_ok c ls \<Longrightarrow> t \<noteq> LT_NONE \<Longrightarrow> FindLRU t c = (first_of (ls t) None, c)"
proof -
  assume l: "lists_ok c ls" and t: "t \<noteq> LT_NONE"
  have "fold (\<lambda>i c. if e_prev (entrylist c i) = None \<and> listtype (entrylist c i) = t
          then set_LRU t (Some i) c else c) [0..<entries c] c = c" if "LRU c t = None"
  proof (intro fold_unchanged)
    fix i assume "i \<in> set [0..<entries c]"
    moreover have "ls t = []" using that lists_okD(2) [OF l t] by (cases "ls t") auto
    ultimately show "(if e_prev (entrylist c i) = None \<and> listtype (entrylist c i) = t
        then set_LRU t (Some i) c else c) = c" using lists_okD(5) [OF l t, of i] by auto
  qed
  then show ?thesis using lists_okD(2) [OF l t] by (simp add: FindLRU_def Let_def)
qed

lemma FindMRU_ok: "lists_ok c ls \<Longrightarrow> t \<noteq> LT_NONE \<Longrightarrow> FindMRU t c = (last_of (ls t) None, c)"
proof -
  assume l: "lists_ok c ls" and t: "t \<noteq> LT_NONE"
  have "fold (\<lambda>i c. if e_next (entrylist c i) = None \<and> listtype (entrylist c i) = t
          then set_MRU t (Some i) c else c) [0..<entries c] c = c" if "MRU c t = None"
  proof (intro fold_unchanged)
    fix i assume "i \<in> set [0..<entries c]"
    moreover have "ls t = []" using that lists_okD(3) [OF l t] by (simp add: last_of_None)
    ultimately show "(if e_next (entrylist c i) = None \<and> listtype (entrylist c i) = t
        then set_MRU t (Some i) c else c) = c" using lists_okD(5) [OF l t, of i] by auto
  qed
  then show ?thesis using lists_okD(3) [OF l t] by (simp add: FindMRU_def Let_def)
qed

text \<open>
  A change of the lists of one type: it is enough to check that list, when the entries of the
  other lists and the end pointers of the other types are untouched.
\<close>
lemma lists_ok_change:
  assumes l: "lists_ok c ls"
    and other: "\<And>u a. u \<noteq> LT_NONE \<Longrightarrow> u \<noteq> t \<Longrightarrow> a \<in> set (ls u) \<Longrightarrow> entrylist c' a = entrylist c a"
    and ends: "\<And>u. u \<noteq> t \<Longrightarrow> LRU c' u = LRU c u \<and> MRU c' u = MRU c u"
    and n: "entries c' = entries c"
    and lt: "\<And>a. a < entries c \<Longrightarrow> listtype (entrylist c' a) \<noteq> listtype (entrylist c a) \<Longrightarrow>
       listtype (entrylist c' a) \<in> {t, LT_NONE} \<and> listtype (entrylist c a) \<in> {t, LT_NONE}"
    and this_list: "chain (entrylist c') None as None" "LRU c' t = first_of as None" "MRU c' t = last_of as None"
       "distinct as" "\<And>i. i \<in> set as \<longleftrightarrow> i < entries c \<and> listtype (entrylist c' i) = t"
  shows "lists_ok c' (ls(t := as))"
  unfolding lists_ok_def
proof (intro allI impI)
  fix u assume u: "u \<noteq> LT_NONE"
  show "chain (entrylist c') None ((ls(t := as)) u) None \<and> LRU c' u = first_of ((ls(t := as)) u) None \<and>
     MRU c' u = last_of ((ls(t := as)) u) None \<and> distinct ((ls(t := as)) u) \<and>
     (\<forall>i. i \<in> set ((ls(t := as)) u) \<longleftrightarrow> i < entries c' \<and> listtype (entrylist c' i) = u)"
  proof (cases "u = t")
    case True
    then show ?thesis using this_list n by auto
  next
    case False
    have "chain (entrylist c') None (ls u) None"
      using lists_okD(1) [OF l u] other [OF u False] chain_cong [of "ls u" "entrylist c'" "entrylist c"] by auto
    moreover have "i \<in> set (ls u) \<longleftrightarrow> i < entries c \<and> listtype (entrylist c' i) = u" for i
      using lists_okD(5) [OF l u, of i] lt [of i] u False by auto
    ultimately show ?thesis using lists_okD(2-4) [OF l u] ends [OF False] False n by auto
  qed
qed

lemma lists_disj:
  "lists_ok c ls \<Longrightarrow> t \<noteq> LT_NONE \<Longrightarrow> a \<in> set (ls t) \<Longrightarrow> u \<noteq> LT_NONE \<Longrightarrow> u \<noteq> t \<Longrightarrow> a \<notin> set (ls u)"
  by (auto simp: lists_okD(5))

lemma PurgeLRU_ok:
  assumes l: "lists_ok c ls" and t: "t \<noteq> LT_NONE" and ls: "ls t = i # is"
  shows "\<exists>c'. PurgeLRU t c = (Some i, c') \<and> lists_ok c' (ls(t := is)) \<and> same c c' \<and>
     listtype (entrylist c' i) = LT_NONE"
proof -
  note d = lists_okD [OF l t, unfolded ls]
  have f: "FindLRU t c = (Some i, c)" using FindLRU_ok [OF l t] ls by simp
  have ni: "i \<notin> set (ls u)" if "u \<noteq> LT_NONE" "u \<noteq> t" for u using lists_disj [OF l t _ that] ls by simp
  show ?thesis
  proof (cases "is")
    case Nil
    let ?c = "unlink i (set_MRU t None (set_LRU t None c))"
    have "lists_ok ?c (ls(t := []))"
    proof (rule lists_ok_change [OF l])
      fix a show "a \<in> set [] \<longleftrightarrow> a < entries c \<and> listtype (entrylist ?c a) = t"
        using d(5) [of a] t Nil by (auto simp: cache_upd_defs)
    next
      fix a assume "listtype (entrylist ?c a) \<noteq> listtype (entrylist c a)"
      then show "listtype (entrylist ?c a) \<in> {t, LT_NONE} \<and> listtype (entrylist c a) \<in> {t, LT_NONE}"
        using d(5) [of i] by (auto simp: cache_upd_defs split: if_splits)
    qed (use d(1-4) ni Nil in \<open>auto simp: cache_upd_defs\<close>)
    then show ?thesis using f d(1) Nil
      by (intro exI [of _ ?c]) (auto simp: PurgeLRU_def same_def data_def cache_upd_defs)
  next
    case (Cons j js)
    let ?c = "unlink i (set_LRU t (Some j) (upd_entry j (\<lambda>e. e\<lparr>e_prev := None\<rparr>) c))"
    have nj: "j \<notin> set (ls u)" if "u \<noteq> LT_NONE" "u \<noteq> t" for u
      using lists_disj [OF l t _ that, of j] ls Cons by simp
    have ch: "chain (entrylist ?c) None (j # js) None"
      using d(1,4) Cons by (auto simp: cache_upd_defs)
    have "lists_ok ?c (ls(t := j # js))"
    proof (rule lists_ok_change [OF l])
      fix a show "a \<in> set (j # js) \<longleftrightarrow> a < entries c \<and> listtype (entrylist ?c a) = t"
        using d(4) d(5) [of a] t Cons by (auto simp: cache_upd_defs)
    next
      fix a assume "listtype (entrylist ?c a) \<noteq> listtype (entrylist c a)"
      then show "listtype (entrylist ?c a) \<in> {t, LT_NONE} \<and> listtype (entrylist c a) \<in> {t, LT_NONE}"
        using d(5) [of i] by (auto simp: cache_upd_defs split: if_splits)
    qed (use ch d(1-4) ni nj Cons in \<open>auto simp: cache_upd_defs\<close>)
    then show ?thesis using f d(1) Cons
      by (intro exI [of _ ?c]) (auto simp: PurgeLRU_def same_def data_def cache_upd_defs)
  qed
qed

lemma AddMRU_ok:
  assumes l: "lists_ok c ls" and t: "t \<noteq> LT_NONE" and i: "i < entries c" "listtype (entrylist c i) = LT_NONE"
  shows "\<exists>c'. AddMRU (Some i) t c = Some c' \<and> lists_ok c' (ls(t := ls t @ [i])) \<and> same c c'"
proof -
  note d = lists_okD [OF l t]
  have f: "FindMRU t c = (last_of (ls t) None, c)" using FindMRU_ok [OF l t] .
  have ni: "i \<notin> set (ls u)" if "u \<noteq> LT_NONE" for u using lists_okD(5) [OF l that, of i] i that by auto
  show ?thesis
  proof (cases "ls t" rule: rev_cases)
    case Nil
    let ?c = "upd_entry i (\<lambda>e. e\<lparr>listtype := t\<rparr>) (set_MRU t (Some i)
      (upd_entry i (\<lambda>e. e\<lparr>e_prev := None, e_next := None\<rparr>) (set_LRU t (Some i) c)))"
    have "lists_ok ?c (ls(t := [i]))"
    proof (rule lists_ok_change [OF l])
      fix a show "a \<in> set [i] \<longleftrightarrow> a < entries c \<and> listtype (entrylist ?c a) = t"
        using d(5) [of a] i Nil by (auto simp: cache_upd_defs)
    next
      fix a assume "listtype (entrylist ?c a) \<noteq> listtype (entrylist c a)"
      then show "listtype (entrylist ?c a) \<in> {t, LT_NONE} \<and> listtype (entrylist c a) \<in> {t, LT_NONE}"
        using i by (auto simp: cache_upd_defs split: if_splits)
    qed (use d(1-4) ni Nil in \<open>auto simp: cache_upd_defs\<close>)
    then show ?thesis using f Nil
      by (intro exI [of _ ?c]) (auto simp: AddMRU_def same_def data_def cache_upd_defs)
  next
    case (snoc js j)
    let ?c = "upd_entry i (\<lambda>e. e\<lparr>listtype := t\<rparr>) (set_MRU t (Some i)
      (upd_entry i (\<lambda>e. e\<lparr>e_prev := Some j, e_next := None\<rparr>) (upd_entry j (\<lambda>e. e\<lparr>e_next := Some i\<rparr>) c)))"
    have nj: "j \<notin> set (ls u)" if "u \<noteq> LT_NONE" "u \<noteq> t" for u
      using lists_disj [OF l t _ that, of j] snoc by simp
    have ch: "chain (entrylist ?c) None (js @ [j] @ [i]) None"
      using d(1,4) snoc ni [OF t] by (auto simp: cache_upd_defs chain_append)
    have "lists_ok ?c (ls(t := js @ [j] @ [i]))"
    proof (rule lists_ok_change [OF l])
      fix a show "a \<in> set (js @ [j] @ [i]) \<longleftrightarrow> a < entries c \<and> listtype (entrylist ?c a) = t"
        using d(5) [of a] i snoc by (auto simp: cache_upd_defs)
    next
      fix a assume "listtype (entrylist ?c a) \<noteq> listtype (entrylist c a)"
      then show "listtype (entrylist ?c a) \<in> {t, LT_NONE} \<and> listtype (entrylist c a) \<in> {t, LT_NONE}"
        using i by (auto simp: cache_upd_defs split: if_splits)
    qed (use ch d(1-4) ni nj ni [OF t] snoc in \<open>auto simp: cache_upd_defs\<close>)
    then show ?thesis using f snoc
      by (intro exI [of _ ?c]) (auto simp: AddMRU_def same_def data_def cache_upd_defs)
  qed
qed

lemma unlink_ok:
  assumes l: "lists_ok c ls" and i: "listtype (entrylist c i) = LT_NONE"
  shows "lists_ok (unlink i c) ls" "same c (unlink i c)" "listtype (entrylist (unlink i c) i) = LT_NONE"
proof -
  have ni: "i \<notin> set (ls u)" if "u \<noteq> LT_NONE" for u using lists_okD(5) [OF l that, of i] i that by auto
  show "lists_ok (unlink i c) ls"
    unfolding lists_ok_def
  proof (intro allI impI)
    fix u assume u: "u \<noteq> LT_NONE"
    note d = lists_okD [OF l u]
    have "j \<in> set (ls u) \<longleftrightarrow> j < entries (unlink i c) \<and> listtype (entrylist (unlink i c) j) = u" for j
      using d(5) [of j] ni [OF u] i u by (auto simp: cache_upd_defs)
    then show "chain (entrylist (unlink i c)) None (ls u) None \<and> LRU (unlink i c) u = first_of (ls u) None \<and>
       MRU (unlink i c) u = last_of (ls u) None \<and> distinct (ls u) \<and>
       (\<forall>j. j \<in> set (ls u) \<longleftrightarrow> j < entries (unlink i c) \<and> listtype (entrylist (unlink i c) j) = u)"
      using d(1-4) ni [OF u] by (auto simp: cache_upd_defs)
  qed
qed (auto simp: cache_upd_defs same_def data_def)

lemma unlink_list:
  assumes l: "lists_ok c ls" and t: "t \<noteq> LT_NONE" and ls: "ls t = as @ i # bs"
    and c1: "entries c1 = entries c" "\<And>u. u \<noteq> t \<Longrightarrow> LRU c1 u = LRU c u \<and> MRU c1 u = MRU c u"
      "LRU c1 t = first_of (as @ bs) None" "MRU c1 t = last_of (as @ bs) None"
      "\<And>a. listtype (entrylist c1 a) = listtype (entrylist c a)"
      "\<And>a. a \<notin> set (ls t) \<Longrightarrow> entrylist c1 a = entrylist c a"
      "chain (entrylist c1) None as (first_of bs None)" "chain (entrylist c1) (last_of as None) bs None"
  shows "lists_ok (unlink i c1) (ls(t := as @ bs))" "listtype (entrylist (unlink i c1) i) = LT_NONE"
proof -
  note d = lists_okD [OF l t, unfolded ls]
  have ni: "i \<notin> set (as @ bs)" "distinct (as @ bs)" using d(4) by auto
  show "lists_ok (unlink i c1) (ls(t := as @ bs))"
  proof (rule lists_ok_change [OF l])
    fix u a assume u: "u \<noteq> LT_NONE" "u \<noteq> t" "a \<in> set (ls u)"
    have "a \<notin> set (ls t)" using lists_disj [OF l u(1,3) t] u(2) by auto
    then show "entrylist (unlink i c1) a = entrylist c a" using c1(6) [of a] ls by (auto simp: cache_upd_defs)
  next
    fix a assume "listtype (entrylist (unlink i c1) a) \<noteq> listtype (entrylist c a)"
    then show "listtype (entrylist (unlink i c1) a) \<in> {t, LT_NONE} \<and> listtype (entrylist c a) \<in> {t, LT_NONE}"
      using d(5) [of i] c1(5) by (auto simp: cache_upd_defs split: if_splits)
  next
    fix a show "a \<in> set (as @ bs) \<longleftrightarrow> a < entries c \<and> listtype (entrylist (unlink i c1) a) = t"
      using d(5) [of a] ni(1) t c1(5) by (auto simp: cache_upd_defs)
  next
    show "chain (entrylist (unlink i c1)) None (as @ bs) None"
      using c1(7,8) ni(1) by (simp add: chain_append cache_upd_defs)
  qed (use c1 ni in \<open>auto simp: cache_upd_defs\<close>)
qed (simp add: cache_upd_defs)

lemma removeEntry_ok:
  assumes l: "lists_ok c ls" and t: "t \<noteq> LT_NONE" and i: "i \<in> set (ls t)"
  shows "\<exists>c'. removeEntry i c = Some c' \<and> lists_ok c' (ls(t := remove1 i (ls t))) \<and> same c c' \<and>
     listtype (entrylist c' i) = LT_NONE"
proof -
  obtain as bs where ls: "ls t = as @ i # bs" using split_list [OF i] by blast
  note d = lists_okD [OF l t, unfolded ls]
  have rm: "remove1 i (ls t) = as @ bs" using d(4) ls by (auto simp: remove1_append)
  have ti: "listtype (entrylist c i) = t" using d(5) [of i] by simp
  have nx: "e_next (entrylist c i) = first_of bs None" and pv: "e_prev (entrylist c i) = last_of as None"
    using d(1) by (auto simp: chain_append)
  have ca: "chain (entrylist c) None as (Some i)" and cb: "chain (entrylist c) (Some i) bs None"
    using d(1) by (auto simp: chain_append)
  consider (first) j js where "as = []" "bs = j # js" | (only) "as = []" "bs = []"
    | (last) ks k where "as = ks @ [k]" "bs = []" | (mid) ks k j js where "as = ks @ [k]" "bs = j # js"
    by (cases as rule: rev_cases; cases bs) auto
  then show ?thesis
  proof cases
    case first
    obtain c1 where c1: "PurgeLRU t c = (Some i, c1)" "lists_ok c1 (ls(t := bs))" "same c c1"
      "listtype (entrylist c1 i) = LT_NONE"
      using PurgeLRU_ok [OF l t, of i bs] ls first by auto
    then show ?thesis
      using unlink_ok [OF c1(2,4)] nx pv first ti t rm same_trans [OF c1(3)]
      by (auto simp: removeEntry_def Let_def)
  next
    case only
    let ?c = "set_LRU t None (set_MRU t None c)"
    have "lists_ok (unlink i ?c) (ls(t := as @ bs))" "listtype (entrylist (unlink i ?c) i) = LT_NONE"
      by (rule unlink_list [OF l t ls]; use only in \<open>auto simp: cache_upd_defs\<close>)+
    then show ?thesis using nx pv only ti t rm
      by (auto simp: removeEntry_def Let_def same_def data_def cache_upd_defs)
  next
    case last
    let ?c = "set_MRU t (Some k) (upd_entry k (\<lambda>e. e\<lparr>e_next := None\<rparr>) c)"
    have "chain (entrylist ?c) None as None"
      using chain_set_next [OF _ ca last(1), where m = None] d(4) by (simp add: cache_upd_defs)
    then have "lists_ok (unlink i ?c) (ls(t := as @ bs))" "listtype (entrylist (unlink i ?c) i) = LT_NONE"
      by (rule_tac [!] unlink_list [OF l t ls]) (use last d(2) ls in \<open>auto simp: cache_upd_defs\<close>)
    then show ?thesis using nx pv last ti t rm
      by (auto simp: removeEntry_def Let_def same_def data_def cache_upd_defs)
  next
    case mid
    let ?c = "upd_entry k (\<lambda>e. e\<lparr>e_next := Some j\<rparr>) (upd_entry j (\<lambda>e. e\<lparr>e_prev := Some k\<rparr>) c)"
    have dist: "distinct as" "distinct bs" "k \<notin> set bs" "j \<notin> set as" using d(4) mid by auto
    have "chain ((entrylist c)(j := (entrylist c j)\<lparr>e_prev := Some k\<rparr>)) None as (Some i)" using ca dist(4) by simp
    from chain_set_next [OF dist(1) this mid(1), where m = "Some j"]
    have "chain (entrylist ?c) None as (Some j)" by (simp add: cache_upd_defs)
    moreover have "chain (entrylist ?c) (Some k) bs None"
      using chain_set_prev [OF _ cb mid(2), where q = "Some k"] dist mid by (simp add: cache_upd_defs fun_upd_twist)
    ultimately have "lists_ok (unlink i ?c) (ls(t := as @ bs))" "listtype (entrylist (unlink i ?c) i) = LT_NONE"
      by (rule_tac [!] unlink_list [OF l t ls]) (use mid d(2,3) ls in \<open>auto simp: cache_upd_defs\<close>)
    then show ?thesis using nx pv mid ti t rm
      by (auto simp: removeEntry_def Let_def same_def data_def cache_upd_defs)
  qed
qed

section \<open>The replacement policy\<close>

text \<open>
  The adaptive replacement policy on the four lists, least recently used entry first. \<open>p\<close> is the
  target size of T1, \<open>n\<close> the size of the cache, \<open>m\<close> the number of slots in use.
\<close>
type_synonym lists = "LISTTYPE \<Rightarrow> nat list"

definition arc_replace :: "int \<Rightarrow> lists \<Rightarrow> lists" where
  "arc_replace p ls =
     (if int (length (ls LT_T1)) \<ge> max p 1
      then ls(LT_T1 := tl (ls LT_T1), LT_B1 := ls LT_B1 @ [hd (ls LT_T1)])
      else ls(LT_T2 := tl (ls LT_T2), LT_B2 := ls LT_B2 @ [hd (ls LT_T2)]))"

definition arc_target :: "nat \<Rightarrow> LISTTYPE \<Rightarrow> lists \<Rightarrow> int \<Rightarrow> int" where
  "arc_target n t ls p =
     (if t = LT_B1
      then min (p + max (int (length (ls LT_B2) div length (ls LT_B1))) 1) (int n)
      else if t = LT_B2
      then max (p - max (int (length (ls LT_B1) div length (ls LT_B2))) 1) 0
      else p)"

text \<open>A hit of slot \<open>i\<close> on the list \<open>t\<close>: the slot becomes the most recent one of T2.\<close>
definition arc_hit :: "nat \<Rightarrow> LISTTYPE \<Rightarrow> nat \<Rightarrow> lists \<Rightarrow> int \<Rightarrow> lists" where
  "arc_hit n t i ls p =
     (let ls1 = ls(t := remove1 i (ls t));
          ls2 = (if t = LT_B1 \<or> t = LT_B2 then arc_replace (arc_target n t ls p) ls1 else ls1)
      in ls2(LT_T2 := ls2 LT_T2 @ [i]))"

text \<open>A miss: the slot for the new entry, the lists without it, and the slots in use.\<close>
definition arc_slot :: "nat \<Rightarrow> nat \<Rightarrow> lists \<Rightarrow> int \<Rightarrow> nat \<times> lists \<times> nat" where
  "arc_slot n m ls p =
     (if length (ls LT_T1) + length (ls LT_B1) = n
      then if length (ls LT_T1) < n
        then (hd (ls LT_B1), arc_replace p (ls(LT_B1 := tl (ls LT_B1))), m)
        else (hd (ls LT_T1), ls(LT_T1 := tl (ls LT_T1)), m)
      else if n \<le> m
        then if 2 * n \<le> m
          then (hd (ls LT_B2), arc_replace p (ls(LT_B2 := tl (ls LT_B2))), m)
          else (m, arc_replace p ls, m + 1)
        else (m, ls, m + 1))"

definition arc_miss :: "nat \<Rightarrow> nat \<Rightarrow> lists \<Rightarrow> int \<Rightarrow> lists" where
  "arc_miss n m ls p =
     (let (i, ls', _) = arc_slot n m ls p in ls'(LT_T1 := ls' LT_T1 @ [i]))"

text \<open>
  The invariant of the policy: T1 with its ghosts and T1 with T2 fit the cache, all four lists fit
  twice the cache, the lists hold exactly the slots in use, there are no ghosts before the cache is
  full, and it stays full afterwards.
\<close>
definition arc_inv :: "nat \<Rightarrow> nat \<Rightarrow> int \<Rightarrow> lists \<Rightarrow> bool" where
  "arc_inv n m p ls \<longleftrightarrow> 0 < n \<and> 2 * n + 1 < 2 ^ 32 \<and> 0 \<le> p \<and> p \<le> int n \<and> m \<le> 2 * n \<and>
     length (ls LT_T1) + length (ls LT_B1) \<le> n \<and> length (ls LT_T1) + length (ls LT_T2) \<le> n \<and>
     length (ls LT_T1) + length (ls LT_T2) + length (ls LT_B1) + length (ls LT_B2) = m \<and>
     (m < n \<longrightarrow> ls LT_B1 = [] \<and> ls LT_B2 = []) \<and> (n \<le> m \<longrightarrow> length (ls LT_T1) + length (ls LT_T2) = n)"

text \<open>When T1 and T2 fill the cache, the list the replacement takes from is not empty.\<close>
lemma arc_replace_takes:
  assumes "length (ls LT_T1) + length (ls LT_T2) = n" and "0 < n" and "p \<le> int n"
  shows "max p 1 \<le> int (length (ls LT_T1)) \<Longrightarrow> 0 < length (ls LT_T1)"
    and "\<not> max p 1 \<le> int (length (ls LT_T1)) \<Longrightarrow> 0 < length (ls LT_T2)"
  using assms by arith+

lemma arc_replace_lengths:
  assumes "length (ls LT_T1) + length (ls LT_T2) = n" and "0 < n" and "p \<le> int n"
  shows "(length (arc_replace p ls LT_T1) = length (ls LT_T1) - 1 \<and> 0 < length (ls LT_T1) \<and>
       length (arc_replace p ls LT_B1) = length (ls LT_B1) + 1 \<and>
       arc_replace p ls LT_T2 = ls LT_T2 \<and> arc_replace p ls LT_B2 = ls LT_B2) \<or>
     (length (arc_replace p ls LT_T2) = length (ls LT_T2) - 1 \<and> 0 < length (ls LT_T2) \<and>
       length (arc_replace p ls LT_B2) = length (ls LT_B2) + 1 \<and>
       arc_replace p ls LT_T1 = ls LT_T1 \<and> arc_replace p ls LT_B1 = ls LT_B1)"
proof (cases "max p 1 \<le> int (length (ls LT_T1))")
  case True
  have "arc_replace p ls = ls(LT_T1 := tl (ls LT_T1), LT_B1 := ls LT_B1 @ [hd (ls LT_T1)])"
    unfolding arc_replace_def using True by (simp only: if_True)
  then show ?thesis using arc_replace_takes(1) [OF assms True] by simp
next
  case False
  have "arc_replace p ls = ls(LT_T2 := tl (ls LT_T2), LT_B2 := ls LT_B2 @ [hd (ls LT_T2)])"
    unfolding arc_replace_def using False by (simp only: if_False)
  then show ?thesis using arc_replace_takes(2) [OF assms False] by simp
qed

lemma arc_target_bounds: "0 \<le> p \<Longrightarrow> p \<le> int n \<Longrightarrow> 0 \<le> arc_target n t ls p \<and> arc_target n t ls p \<le> int n"
  by (auto simp: arc_target_def)

lemma arc_ghost_full:
  assumes "arc_inv n m p ls" and "t = LT_B1 \<or> t = LT_B2" and "ls t \<noteq> []"
  shows "n \<le> m" "length (ls LT_T1) + length (ls LT_T2) = n"
proof -
  have "0 < length (ls LT_B1) \<or> 0 < length (ls LT_B2)" using assms by auto
  then show "n \<le> m" using assms(1) unfolding arc_inv_def by (cases "n \<le> m") auto
  then show "length (ls LT_T1) + length (ls LT_T2) = n" using assms(1) by (simp add: arc_inv_def)
qed

text \<open>One slot has left a list while T1 and T2 were full: replacing and adding restores the invariant.\<close>
lemma arc_replace_add_T1:
  assumes full: "length (ls LT_T1) + length (ls LT_T2) = n" and n: "0 < n" "2 * n + 1 < 2 ^ 32" "0 \<le> p" "p \<le> int n"
    and m: "n + length (ls LT_B1) + length (ls LT_B2) + 1 = m" "m \<le> 2 * n"
      "length (ls LT_T1) + length (ls LT_B1) < n"
  shows "arc_inv n m p ((arc_replace p ls)(LT_T1 := arc_replace p ls LT_T1 @ [i]))"
proof -
  define r where "r = arc_replace p ls"
  show ?thesis using arc_replace_lengths [OF full n(1,4)] full n m
    unfolding r_def [symmetric] arc_inv_def by (elim disjE conjE) (simp_all del: length_greater_0_conv)
qed

lemma arc_replace_add_T2:
  assumes full: "length (ls LT_T1) + length (ls LT_T2) = n" and n: "0 < n" "2 * n + 1 < 2 ^ 32" "0 \<le> p" "p \<le> int n"
    and m: "n + length (ls LT_B1) + length (ls LT_B2) + 1 = m" "m \<le> 2 * n"
      "length (ls LT_T1) + length (ls LT_B1) \<le> n"
  shows "arc_inv n m p ((arc_replace p ls)(LT_T2 := arc_replace p ls LT_T2 @ [i]))"
proof -
  define r where "r = arc_replace p ls"
  show ?thesis using arc_replace_lengths [OF full n(1,4)] full n m
    unfolding r_def [symmetric] arc_inv_def by (elim disjE conjE) (simp_all del: length_greater_0_conv)
qed

lemma arc_hit_inv:
  assumes inv: "arc_inv n m p ls" and t: "t \<noteq> LT_NONE" and i: "i \<in> set (ls t)"
  shows "arc_inv n m (arc_target n t ls p) (arc_hit n t i ls p)"
proof -
  have ne: "ls t \<noteq> []" and ln: "length (remove1 i (ls t)) = length (ls t) - 1" "0 < length (ls t)"
    using i by (auto simp: length_remove1)
  have tb: "0 \<le> arc_target n t ls p" "arc_target n t ls p \<le> int n"
    using arc_target_bounds inv by (auto simp: arc_inv_def)
  show ?thesis
  proof (cases "t = LT_B1 \<or> t = LT_B2")
    case True
    note f = arc_ghost_full [OF inv True ne]
    have "arc_inv n m (arc_target n t ls p) ((arc_replace (arc_target n t ls p) (ls(t := remove1 i (ls t))))
      (LT_T2 := arc_replace (arc_target n t ls p) (ls(t := remove1 i (ls t))) LT_T2 @ [i]))"
      by (rule arc_replace_add_T2) (use inv f ln True tb in \<open>auto simp: arc_inv_def\<close>)
    then show ?thesis using True by (simp add: arc_hit_def Let_def)
  next
    case False
    then show ?thesis using inv ln t
      by (cases t) (auto simp: arc_inv_def arc_hit_def arc_target_def)
  qed
qed

lemma arc_miss_inv:
  assumes inv: "arc_inv n m p ls"
  shows "arc_inv n (snd (snd (arc_slot n m ls p))) p (arc_miss n m ls p)"
proof -
  consider (b1) "length (ls LT_T1) + length (ls LT_B1) = n" "length (ls LT_T1) < n"
    | (t1) "length (ls LT_T1) + length (ls LT_B1) = n" "\<not> length (ls LT_T1) < n"
    | (b2) "length (ls LT_T1) + length (ls LT_B1) \<noteq> n" "n \<le> m" "2 * n \<le> m"
    | (new) "length (ls LT_T1) + length (ls LT_B1) \<noteq> n" "n \<le> m" "\<not> 2 * n \<le> m"
    | (fill) "length (ls LT_T1) + length (ls LT_B1) \<noteq> n" "\<not> n \<le> m" by blast
  then show ?thesis
  proof cases
    case b1
    have "ls LT_B1 \<noteq> []" using b1 by auto
    note f = arc_ghost_full [OF inv _ this]
    have "arc_inv n m p ((arc_replace p (ls(LT_B1 := tl (ls LT_B1))))
      (LT_T1 := arc_replace p (ls(LT_B1 := tl (ls LT_B1))) LT_T1 @ [hd (ls LT_B1)]))"
      by (rule arc_replace_add_T1) (use inv f b1 in \<open>auto simp: arc_inv_def\<close>)
    then show ?thesis using b1 by (simp add: arc_miss_def arc_slot_def)
  next
    case t1
    then show ?thesis using inv by (auto simp: arc_inv_def arc_miss_def arc_slot_def Let_def)
  next
    case b2
    have "arc_inv n m p ((arc_replace p (ls(LT_B2 := tl (ls LT_B2))))
      (LT_T1 := arc_replace p (ls(LT_B2 := tl (ls LT_B2))) LT_T1 @ [hd (ls LT_B2)]))"
      by (rule arc_replace_add_T1) (use inv b2 in \<open>auto simp: arc_inv_def\<close>)
    then show ?thesis using b2 by (simp add: arc_miss_def arc_slot_def)
  next
    case new
    have "arc_inv n (m + 1) p ((arc_replace p ls)(LT_T1 := arc_replace p ls LT_T1 @ [m]))"
      by (rule arc_replace_add_T1) (use inv new in \<open>auto simp: arc_inv_def\<close>)
    then show ?thesis using new by (simp add: arc_miss_def arc_slot_def)
  next
    case fill
    then show ?thesis using inv by (auto simp: arc_inv_def arc_miss_def arc_slot_def Let_def)
  qed
qed

section \<open>Refinement\<close>

text \<open>The size counters agree with the lists, and none of them is close to wrapping.\<close>
definition sizes_ok :: "CACHE \<Rightarrow> lists \<Rightarrow> bool" where
  "sizes_ok c ls \<longleftrightarrow> (\<forall>t. t \<noteq> LT_NONE \<longrightarrow> listSize c t = length (ls t) \<and> length (ls t) + 1 < 2 ^ 32)"

lemma sizes_okD: "sizes_ok c ls \<Longrightarrow> t \<noteq> LT_NONE \<Longrightarrow> listSize c t = length (ls t)"
  "sizes_ok c ls \<Longrightarrow> t \<noteq> LT_NONE \<Longrightarrow> length (ls t) + 1 < 2 ^ 32"
  by (simp_all add: sizes_ok_def)

lemma inc_size_simps [simp]:
  "entrylist (inc_size t c) = entrylist c" "entries (inc_size t c) = entries c" "c_size (inc_size t c) = c_size c"
  "target (inc_size t c) = target c" "LRU (inc_size t c) = LRU c" "MRU (inc_size t c) = MRU c"
  "listSize (inc_size t c) = (listSize c)(t := inc32 (listSize c t))"
  by (simp_all add: inc_size_def set_size_def)

lemma dec_size_of_simps [simp]:
  "entrylist (dec_size_of t c) = entrylist c" "entries (dec_size_of t c) = entries c" "c_size (dec_size_of t c) = c_size c"
  "target (dec_size_of t c) = target c" "LRU (dec_size_of t c) = LRU c" "MRU (dec_size_of t c) = MRU c"
  "listSize (dec_size_of t c) = (listSize c)(t := dec32 (listSize c t))"
  by (simp_all add: dec_size_of_def set_size_def)

lemma lists_ok_counters [simp]:
  "lists_ok (inc_size t c) ls = lists_ok c ls" "lists_ok (dec_size_of t c) ls = lists_ok c ls"
  "lists_ok (c\<lparr>target := p\<rparr>) ls = lists_ok c ls"
  by (simp_all add: lists_ok_def)

lemma slot_free:
  "lists_ok c ls \<Longrightarrow> i < entries c \<Longrightarrow> listtype (entrylist c i) = LT_NONE \<longleftrightarrow> (\<forall>u. u \<noteq> LT_NONE \<longrightarrow> i \<notin> set (ls u))"
  using lists_okD(5) [of c ls "listtype (entrylist c i)" i] by (auto simp: lists_okD(5))

text \<open>Moving the first entry of one list to the end of another, counters included.\<close>
lemma move_ok:
  assumes l: "lists_ok c ls" and z: "sizes_ok c ls" and t: "t \<noteq> LT_NONE" "u \<noteq> LT_NONE" "t \<noteq> u" and ne: "ls t \<noteq> []"
  shows "\<exists>c1 c2. PurgeLRU t c = (Some (hd (ls t)), c1) \<and> AddMRU (Some (hd (ls t))) u c1 = Some c2 \<and>
     lists_ok c2 (ls(t := tl (ls t), u := ls u @ [hd (ls t)])) \<and> same c c2 \<and>
     listSize (inc_size u (dec_size_of t c2)) = (listSize c)(t := length (tl (ls t)), u := length (ls u) + 1)"
proof -
  obtain i "is" where i: "ls t = i # is" using ne by (cases "ls t") auto
  obtain c1 where c1: "PurgeLRU t c = (Some i, c1)" "lists_ok c1 (ls(t := is))" "same c c1"
    "listtype (entrylist c1 i) = LT_NONE"
    using PurgeLRU_ok [OF l t(1) i] by blast
  have "i < entries c1" using lists_okD(5) [OF l t(1), of i] i sameD(2) [OF c1(3)] by simp
  then obtain c2 where c2: "AddMRU (Some i) u c1 = Some c2" "lists_ok c2 ((ls(t := is))(u := (ls(t := is)) u @ [i]))"
    "same c1 c2"
    using AddMRU_ok [OF c1(2) t(2) _ c1(4)] by blast
  have s: "listSize c2 = listSize c" using sameD(3) [OF c1(3)] sameD(3) [OF c2(3)] by simp
  have "dec32 (length (i # is)) = length is" "inc32 (length (ls u)) = length (ls u) + 1"
    using sizes_okD(2) [OF z t(1)] sizes_okD(2) [OF z t(2)] i by (auto simp: dec32_no_wrap inc32_no_wrap)
  then show ?thesis
    using c1 c2 i t s sizes_okD(1) [OF z t(1)] sizes_okD(1) [OF z t(2)] same_trans [OF c1(3) c2(3)] by simp
qed

lemma replace_ok:
  assumes l: "lists_ok c ls" and z: "sizes_ok c ls"
    and full: "length (ls LT_T1) + length (ls LT_T2) = n" "0 < n" "target c \<le> int n"
  shows "\<exists>c'. replace c = Some c' \<and> lists_ok c' (arc_replace (target c) ls) \<and>
     (\<forall>t. t \<noteq> LT_NONE \<longrightarrow> listSize c' t = length (arc_replace (target c) ls t)) \<and>
     same c (c'\<lparr>listSize := listSize c\<rparr>)"
proof (cases "max (target c) 1 \<le> int (length (ls LT_T1))")
  case True
  have ne: "ls LT_T1 \<noteq> []" using arc_replace_takes(1) [OF full True] by simp
  have ar: "arc_replace (target c) ls = ls(LT_T1 := tl (ls LT_T1), LT_B1 := ls LT_B1 @ [hd (ls LT_T1)])"
    unfolding arc_replace_def using True by (simp only: if_True)
  have rc: "replace c = (do { let (m, c1) = PurgeLRU LT_T1 c; c2 \<leftarrow> AddMRU m LT_B1 c1;
        Some (inc_size LT_B1 (dec_size_of LT_T1 c2)) })"
    unfolding replace_def using True sizes_okD(1) [OF z, of LT_T1] by (simp only: LISTTYPE.distinct simp_thms if_True)
  obtain c1 c2 where m: "PurgeLRU LT_T1 c = (Some (hd (ls LT_T1)), c1)" "AddMRU (Some (hd (ls LT_T1))) LT_B1 c1 = Some c2"
    "lists_ok c2 (ls(LT_T1 := tl (ls LT_T1), LT_B1 := ls LT_B1 @ [hd (ls LT_T1)]))" "same c c2"
    "listSize (inc_size LT_B1 (dec_size_of LT_T1 c2)) = (listSize c)(LT_T1 := length (tl (ls LT_T1)), LT_B1 := length (ls LT_B1) + 1)"
    using move_ok [OF l z, of LT_T1 LT_B1] ne by auto
  show ?thesis unfolding ar
    by (rule exI [of _ "inc_size LT_B1 (dec_size_of LT_T1 c2)"])
       (use m sizes_okD(1) [OF z] in \<open>auto simp: rc same_def simp del: inc_size_simps(7) dec_size_of_simps(7)\<close>)
next
  case False
  have ne: "ls LT_T2 \<noteq> []" using arc_replace_takes(2) [OF full False] by simp
  have ar: "arc_replace (target c) ls = ls(LT_T2 := tl (ls LT_T2), LT_B2 := ls LT_B2 @ [hd (ls LT_T2)])"
    unfolding arc_replace_def using False by (simp only: if_False)
  have rc: "replace c = (do { let (m, c1) = PurgeLRU LT_T2 c; c2 \<leftarrow> AddMRU m LT_B2 c1;
        Some (inc_size LT_B2 (dec_size_of LT_T2 c2)) })"
    unfolding replace_def using False sizes_okD(1) [OF z, of LT_T1] by (simp only: LISTTYPE.distinct simp_thms if_False)
  obtain c1 c2 where m: "PurgeLRU LT_T2 c = (Some (hd (ls LT_T2)), c1)" "AddMRU (Some (hd (ls LT_T2))) LT_B2 c1 = Some c2"
    "lists_ok c2 (ls(LT_T2 := tl (ls LT_T2), LT_B2 := ls LT_B2 @ [hd (ls LT_T2)]))" "same c c2"
    "listSize (inc_size LT_B2 (dec_size_of LT_T2 c2)) = (listSize c)(LT_T2 := length (tl (ls LT_T2)), LT_B2 := length (ls LT_B2) + 1)"
    using move_ok [OF l z, of LT_T2 LT_B2] ne by auto
  show ?thesis unfolding ar
    by (rule exI [of _ "inc_size LT_B2 (dec_size_of LT_T2 c2)"])
       (use m sizes_okD(1) [OF z] in \<open>auto simp: rc same_def simp del: inc_size_simps(7) dec_size_of_simps(7)\<close>)
qed

definition slots :: "lists \<Rightarrow> nat set" where
  "slots ls = set (ls LT_T1) \<union> set (ls LT_T2) \<union> set (ls LT_B1) \<union> set (ls LT_B2)"

lemma slots_iff: "i \<in> slots ls \<longleftrightarrow> (\<exists>t. t \<noteq> LT_NONE \<and> i \<in> set (ls t))"
proof
  assume "\<exists>t. t \<noteq> LT_NONE \<and> i \<in> set (ls t)"
  then obtain t where "t \<noteq> LT_NONE" "i \<in> set (ls t)" by blast
  then show "i \<in> slots ls" by (cases t) (auto simp: slots_def)
qed (auto simp: slots_def)

text \<open>
  The invariant of a cache whose keys all have length \<open>klen\<close>: the lists are well formed and hold
  every slot in use, the counters are right, the policy's invariant holds, and every slot in use has
  its key.
\<close>
definition cache_ok :: "nat \<Rightarrow> CACHE \<Rightarrow> lists \<Rightarrow> bool" where
  "cache_ok klen c ls \<longleftrightarrow> lists_ok c ls \<and> (\<forall>t. t \<noteq> LT_NONE \<longrightarrow> listSize c t = length (ls t)) \<and>
     arc_inv (c_size c) (entries c) (target c) ls \<and> slots ls = {..<entries c} \<and>
     (\<forall>i < entries c. \<exists>k. e_key (entrylist c i) = KBytes k \<and> length k = klen)"

lemma cache_okD:
  assumes "cache_ok klen c ls"
  shows "lists_ok c ls" "sizes_ok c ls" "arc_inv (c_size c) (entries c) (target c) ls"
    "slots ls = {..<entries c}" "i < entries c \<Longrightarrow> \<exists>k. e_key (entrylist c i) = KBytes k \<and> length k = klen"
proof -
  have "length (ls t) + 1 < 2 ^ 32" if "t \<noteq> LT_NONE" for t
    using assms that unfolding cache_ok_def arc_inv_def by (cases t) auto
  then show "sizes_ok c ls" using assms by (simp add: cache_ok_def sizes_ok_def)
qed (use assms in \<open>auto simp: cache_ok_def\<close>)

lemma find_loop_ok:
  assumes "\<And>i. i \<in> set is \<Longrightarrow> \<exists>k. e_key (entrylist c i) = KBytes k \<and> length k = length key"
  shows "find_loop c key (length key) is = Some (find (\<lambda>i. e_key (entrylist c i) = KBytes key) is)"
  using assms
proof (induction "is")
  case (Cons i "is")
  obtain k where "e_key (entrylist c i) = KBytes k" "length k = length key" using Cons.prems [of i] by auto
  then show ?case using Cons by (auto simp: bytes_cmp_eq_0)
qed simp

text \<open>The slot a key is found in: the first slot in use that holds it.\<close>
definition slot_of :: "CACHE \<Rightarrow> bytes \<Rightarrow> nat option" where
  "slot_of c key = find (\<lambda>i. e_key (entrylist c i) = KBytes key) [0..<entries c]"

lemma FindEntry_ok: "cache_ok (length key) c ls \<Longrightarrow> FindEntry key (length key) c = Some (slot_of c key)"
  unfolding FindEntry_def slot_of_def by (intro find_loop_ok) (auto simp: cache_okD(5))

lemma slot_of_Some:
  "slot_of c key = Some i \<Longrightarrow> i < entries c \<and> e_key (entrylist c i) = KBytes key"
  by (auto simp: slot_of_def dest!: find_conj_first)

lemma hit_list:
  assumes l: "lists_ok c ls" and t: "t \<noteq> LT_NONE" and i: "i \<in> set (ls t)"
  shows "\<exists>c1 c2. removeEntry i c = Some c1 \<and> AddMRU (Some i) LT_T2 c1 = Some c2 \<and>
     lists_ok c2 ((ls(t := remove1 i (ls t)))(LT_T2 := (ls(t := remove1 i (ls t))) LT_T2 @ [i])) \<and> same c c2"
proof -
  obtain c1 where c1: "removeEntry i c = Some c1" "lists_ok c1 (ls(t := remove1 i (ls t)))" "same c c1"
    "listtype (entrylist c1 i) = LT_NONE"
    using removeEntry_ok [OF l t i] by blast
  have "i < entries c1" using lists_okD(5) [OF l t, of i] i sameD(2) [OF c1(3)] by simp
  from AddMRU_ok [OF c1(2) _ this c1(4), of LT_T2] show ?thesis using c1 same_trans by auto
qed

lemma slots_replace:
  assumes "length (ls LT_T1) + length (ls LT_T2) = n" and "0 < n" and "p \<le> int n"
  shows "slots (arc_replace p ls) = slots ls"
proof (cases "max p 1 \<le> int (length (ls LT_T1))")
  case True
  have "arc_replace p ls = ls(LT_T1 := tl (ls LT_T1), LT_B1 := ls LT_B1 @ [hd (ls LT_T1)])"
    unfolding arc_replace_def using True by (simp only: if_True)
  moreover obtain a as where "ls LT_T1 = a # as"
    using arc_replace_takes(1) [OF assms True] by (cases "ls LT_T1") auto
  ultimately show ?thesis by (auto simp: slots_def)
next
  case False
  have "arc_replace p ls = ls(LT_T2 := tl (ls LT_T2), LT_B2 := ls LT_B2 @ [hd (ls LT_T2)])"
    unfolding arc_replace_def using False by (simp only: if_False)
  moreover obtain a as where "ls LT_T2 = a # as"
    using arc_replace_takes(2) [OF assms False] by (cases "ls LT_T2") auto
  ultimately show ?thesis by (auto simp: slots_def)
qed

lemma slots_remove:
  assumes l: "lists_ok c ls" and t: "t \<noteq> LT_NONE" and i: "i \<in> set (ls t)"
  shows "slots (ls(t := remove1 i (ls t))) = slots ls - {i}"
proof -
  have ni: "i \<notin> set (ls u)" if "u \<noteq> LT_NONE" "u \<noteq> t" for u using lists_disj [OF l t i that] .
  have "set (remove1 i (ls t)) = set (ls t) - {i}" using lists_okD(4) [OF l t] by (rule set_remove1_eq)
  then show ?thesis using ni [of LT_T1] ni [of LT_T2] ni [of LT_B1] ni [of LT_B2] t
    by (cases t) (auto simp: slots_def)
qed

lemma slots_add: "t \<noteq> LT_NONE \<Longrightarrow> slots (ls(t := ls t @ [i])) = insert i (slots ls)"
  by (cases t) (auto simp: slots_def)

lemma cache_okI:
  assumes "cache_ok klen c ls" and "lists_ok c' ls'" and "\<And>t. t \<noteq> LT_NONE \<Longrightarrow> listSize c' t = length (ls' t)"
    and "arc_inv (c_size c) (entries c) (target c') ls'" and "slots ls' = slots ls"
    and "c_size c' = c_size c" and "entries c' = entries c" and "\<And>i. data (entrylist c' i) = data (entrylist c i)"
  shows "cache_ok klen c' ls'"
proof -
  have "e_key (entrylist c' i) = e_key (entrylist c i)" for i using assms(8) [of i] by (simp add: data_def)
  then show ?thesis using assms by (auto simp: cache_ok_def)
qed

lemma hit_slots:
  assumes "cache_ok klen c ls" and "t \<noteq> LT_NONE" and i: "i \<in> set (ls t)"
  shows "slots (arc_hit (c_size c) t i ls (target c)) = slots ls"
proof -
  note l = cache_okD(1) [OF assms(1)] and inv = cache_okD(3) [OF assms(1)]
  let ?ls1 = "ls(t := remove1 i (ls t))"
  let ?p = "arc_target (c_size c) t ls (target c)"
  have r: "slots ?ls1 = slots ls - {i}" using slots_remove [OF l assms(2) i] .
  have "slots (arc_replace ?p ?ls1) = slots ?ls1" if "t = LT_B1 \<or> t = LT_B2"
  proof (rule slots_replace)
    show "length (?ls1 LT_T1) + length (?ls1 LT_T2) = c_size c"
      using arc_ghost_full(2) [OF inv that] i that by (cases "ls t") auto
    show "0 < c_size c" using inv by (simp add: arc_inv_def)
    show "?p \<le> int (c_size c)" using arc_target_bounds inv by (auto simp: arc_inv_def)
  qed
  moreover have "i \<in> slots ls" using i assms(2) by (auto simp: slots_iff)
  ultimately show ?thesis using r by (auto simp: arc_hit_def Let_def slots_add)
qed

lemma ghost_list:
  assumes ok: "cache_ok klen c ls" and t: "t = LT_B1 \<or> t = LT_B2" and i: "i \<in> set (ls t)"
    and c0: "c0 = dec_size_of t (c\<lparr>target := arc_target (c_size c) t ls (target c)\<rparr>)"
  shows "\<exists>c1 c2 c3. removeEntry i c0 = Some c1 \<and> replace c1 = Some c2 \<and>
     AddMRU (Some i) LT_T2 (inc_size LT_T2 c2) = Some c3 \<and>
     cache_ok klen c3 (arc_hit (c_size c) t i ls (target c)) \<and> c_size c3 = c_size c \<and> entries c3 = entries c \<and>
     target c3 = arc_target (c_size c) t ls (target c) \<and> (\<forall>j. data (entrylist c3 j) = data (entrylist c j))"
proof -
  note l = cache_okD(1) [OF ok] and z = cache_okD(2) [OF ok] and inv = cache_okD(3) [OF ok]
  define p where "p = arc_target (c_size c) t ls (target c)"
  define ls1 where "ls1 = ls(t := remove1 i (ls t))"
  have tn: "t \<noteq> LT_NONE" "t \<noteq> LT_T1" "t \<noteq> LT_T2" using t by auto
  have ne: "ls t \<noteq> []" using i by auto
  have l0: "lists_ok c0 ls" using l by (simp add: c0)
  obtain c1 where c1: "removeEntry i c0 = Some c1" "lists_ok c1 ls1" "same c0 c1" "listtype (entrylist c1 i) = LT_NONE"
    using removeEntry_ok [OF l0 tn(1) i] ls1_def by blast
  note s1 = sameD [OF c1(3), unfolded c0]
  have ln: "length (remove1 i (ls t)) = length (ls t) - 1" "0 < length (ls t)" using i by (auto simp: length_remove1)
  have dt: "dec32 (length (ls t)) = length (ls t) - 1" "length (ls t) - 1 + 1 < 2 ^ 32"
    using dec32_no_wrap [of "length (ls t)"] ln sizes_okD(2) [OF z tn(1)] by simp_all
  have z1: "sizes_ok c1 ls1"
    using s1(3) sizes_okD [OF z] ln dt tn by (auto simp: sizes_ok_def ls1_def)
  have full: "length (ls1 LT_T1) + length (ls1 LT_T2) = c_size c" "0 < c_size c"
    using arc_ghost_full(2) [OF inv t ne] tn inv by (auto simp: ls1_def arc_inv_def)
  have p: "target c1 = p" "p \<le> int (c_size c)"
    using s1(4) arc_target_bounds inv by (auto simp: p_def arc_inv_def)
  obtain c2 where c2: "replace c1 = Some c2" "lists_ok c2 (arc_replace p ls1)"
    "\<forall>u. u \<noteq> LT_NONE \<longrightarrow> listSize c2 u = length (arc_replace p ls1 u)" "same c1 (c2\<lparr>listSize := listSize c1\<rparr>)"
    using replace_ok [OF c1(2) z1 full] p by auto
  note s2 = sameD [OF c2(4), simplified]
  have sl: "slots (arc_replace p ls1) = slots ls - {i}"
  proof -
    have "slots (arc_replace p ls1) = slots ls1" by (rule slots_replace [OF full p(2)])
    also have "\<dots> = slots ls - {i}" unfolding ls1_def by (rule slots_remove [OF l tn(1) i])
    finally show ?thesis .
  qed
  have "i \<in> slots ls" using i tn(1) slots_iff by blast
  then have ie2: "i < entries c2" using cache_okD(4) [OF ok] s1(2) s2(2) by simp
  have "\<forall>u. u \<noteq> LT_NONE \<longrightarrow> i \<notin> set (arc_replace p ls1 u)" using sl slots_iff by blast
  then have fr: "listtype (entrylist c2 i) = LT_NONE" using slot_free [OF c2(2) ie2] by blast
  have l2: "lists_ok (inc_size LT_T2 c2) (arc_replace p ls1)" using c2(2) by simp
  obtain c3 where c3: "AddMRU (Some i) LT_T2 (inc_size LT_T2 c2) = Some c3"
    "lists_ok c3 ((arc_replace p ls1)(LT_T2 := arc_replace p ls1 LT_T2 @ [i]))" "same (inc_size LT_T2 c2) c3"
    using AddMRU_ok [OF l2, of LT_T2 i] fr ie2 by auto
  note s3 = sameD [OF c3(3), simplified]
  have ah: "arc_hit (c_size c) t i ls (target c) = (arc_replace p ls1)(LT_T2 := arc_replace p ls1 LT_T2 @ [i])"
    using t by (simp add: arc_hit_def Let_def p_def ls1_def)
  have b: "length (arc_replace p ls1 LT_T2) + 1 < 2 ^ 32"
    using arc_hit_inv [OF inv tn(1) i] unfolding ah p_def [symmetric] by (auto simp: arc_inv_def)
  have "cache_ok klen c3 (arc_hit (c_size c) t i ls (target c))"
  proof (rule cache_okI [OF ok])
    show "lists_ok c3 (arc_hit (c_size c) t i ls (target c))" unfolding ah by (rule c3(2))
    show "listSize c3 u = length (arc_hit (c_size c) t i ls (target c) u)" if "u \<noteq> LT_NONE" for u
      using c2(3) that s3(3) b unfolding ah by (auto simp: inc32_no_wrap)
    show "arc_inv (c_size c) (entries c) (target c3) (arc_hit (c_size c) t i ls (target c))"
      using arc_hit_inv [OF inv tn(1) i] s3(4) s2(4) p(1) by (simp add: p_def)
    show "slots (arc_hit (c_size c) t i ls (target c)) = slots ls" using hit_slots [OF ok tn(1) i] .
  qed (use s1 s2 s3 in auto)
  then show ?thesis using c1(1) c2(1) c3(1) s1 s2 s3 p(1) by (auto simp: p_def)
qed

lemma slot_list:
  assumes ok: "cache_ok klen c ls" and i: "i < entries c"
  shows "listtype (entrylist c i) \<noteq> LT_NONE" "i \<in> set (ls (listtype (entrylist c i)))"
proof -
  show t: "listtype (entrylist c i) \<noteq> LT_NONE"
  proof -
    have "i \<in> slots ls" using cache_okD(4) [OF ok] i by simp
    then show ?thesis using slot_free [OF cache_okD(1) [OF ok] i] slots_iff by blast
  qed
  show "i \<in> set (ls (listtype (entrylist c i)))" using lists_okD(5) [OF cache_okD(1) [OF ok] t] i by simp
qed

text \<open>A hit in T1 or T2.\<close>
lemma recent_hit:
  assumes ok: "cache_ok klen c ls" and t: "t = LT_T1 \<or> t = LT_T2" and i: "i \<in> set (ls t)"
    and c0: "c0 = (if t = LT_T1 then inc_size LT_T2 (dec_size_of LT_T1 c) else c)"
  shows "\<exists>c1 c2. removeEntry i c0 = Some c1 \<and> AddMRU (Some i) LT_T2 c1 = Some c2 \<and>
     cache_ok klen c2 (arc_hit (c_size c) t i ls (target c)) \<and> c_size c2 = c_size c \<and> entries c2 = entries c \<and>
     target c2 = arc_target (c_size c) t ls (target c) \<and> (\<forall>j. data (entrylist c2 j) = data (entrylist c j))"
proof -
  note l = cache_okD(1) [OF ok] and z = cache_okD(2) [OF ok] and inv = cache_okD(3) [OF ok]
  have tn: "t \<noteq> LT_NONE" "t \<noteq> LT_B1" "t \<noteq> LT_B2" using t by auto
  have ls: "arc_hit (c_size c) t i ls (target c) =
      (ls(t := remove1 i (ls t)))(LT_T2 := (ls(t := remove1 i (ls t))) LT_T2 @ [i])"
    using tn by (simp add: arc_hit_def)
  have l0: "lists_ok c0 ls" using l by (simp add: c0)
  obtain c1 c2 where c: "removeEntry i c0 = Some c1" "AddMRU (Some i) LT_T2 c1 = Some c2"
    "lists_ok c2 (arc_hit (c_size c) t i ls (target c))" "same c0 c2"
    using hit_list [OF l0 tn(1) i] unfolding ls by blast
  note s = sameD [OF c(4), unfolded c0]
  have ln: "length (remove1 i (ls t)) = length (ls t) - 1" "0 < length (ls t)" using i by (auto simp: length_remove1)
  have sz: "dec32 (length (ls t)) = length (ls t) - 1" "inc32 (length (ls LT_T2)) = length (ls LT_T2) + 1"
    using dec32_no_wrap [of "length (ls t)"] inc32_no_wrap [of "length (ls LT_T2)"] ln
      sizes_okD(2) [OF z tn(1)] sizes_okD(2) [OF z, of LT_T2] by simp_all
  have p: "arc_target (c_size c) t ls (target c) = target c" using tn by (simp add: arc_target_def)
  have "cache_ok klen c2 (arc_hit (c_size c) t i ls (target c))"
  proof (rule cache_okI [OF ok c(3)])
    show "listSize c2 u = length (arc_hit (c_size c) t i ls (target c) u)" if "u \<noteq> LT_NONE" for u
      using s(3) sz ln t that sizes_okD(1) [OF z] unfolding ls by (auto split: if_splits)
    show "arc_inv (c_size c) (entries c) (target c2) (arc_hit (c_size c) t i ls (target c))"
      using arc_hit_inv [OF inv tn(1) i] s(4) p by (simp split: if_splits)
    show "slots (arc_hit (c_size c) t i ls (target c)) = slots ls" using hit_slots [OF ok tn(1) i] .
  qed (use s in \<open>auto split: if_splits\<close>)
  then show ?thesis using c(1,2) s p by (auto split: if_splits)
qed

lemma check_entry_hit:
  assumes ok: "cache_ok (length key) c ls" and hit: "slot_of c key = Some i"
  shows "\<exists>c'. check_entry key (length key) sf ent c =
       Some (R_FOUND, e_sfflags (entrylist c i), e_entflags (entrylist c i), c') \<and>
     cache_ok (length key) c' (arc_hit (c_size c) (listtype (entrylist c i)) i ls (target c)) \<and>
     c_size c' = c_size c \<and> entries c' = entries c \<and>
     target c' = arc_target (c_size c) (listtype (entrylist c i)) ls (target c) \<and>
     (\<forall>j. data (entrylist c' j) = data (entrylist c j))"
proof -
  define t where "t = listtype (entrylist c i)"
  have i: "i < entries c" using slot_of_Some [OF hit] by simp
  have t: "t \<noteq> LT_NONE" "i \<in> set (ls t)" using slot_list [OF ok i] by (simp_all add: t_def)
  have fe: "FindEntry key (length key) c = Some (Some i)" using FindEntry_ok [OF ok] hit by simp
  have out: "e_sfflags (entrylist c' i) = e_sfflags (entrylist c i) \<and> e_entflags (entrylist c' i) = e_entflags (entrylist c i)"
    if "\<forall>j. data (entrylist c' j) = data (entrylist c j)" for c'
    using that [rule_format, of i] by (simp add: data_def)
  note z = sizes_okD(1) [OF cache_okD(2) [OF ok]]
  show ?thesis unfolding t_def [symmetric]
  proof (cases "t = LT_B1 \<or> t = LT_B2")
    case True
    have tg: "arc_target (c_size c) LT_B1 ls (target c) =
        min (target c + max (int (listSize c LT_B2 div listSize c LT_B1)) 1) (int (c_size c))"
      "arc_target (c_size c) LT_B2 ls (target c) =
        max (target c - max (int (listSize c LT_B1 div listSize c LT_B2)) 1) 0"
      by (simp_all add: arc_target_def z)
    have nz: "listSize c t \<noteq> 0" using t z [OF t(1)] by auto
    obtain c1 c2 c3 where g: "removeEntry i (dec_size_of t (c\<lparr>target := arc_target (c_size c) t ls (target c)\<rparr>)) = Some c1"
      "replace c1 = Some c2" "AddMRU (Some i) LT_T2 (inc_size LT_T2 c2) = Some c3"
      "cache_ok (length key) c3 (arc_hit (c_size c) t i ls (target c))" "c_size c3 = c_size c" "entries c3 = entries c"
      "target c3 = arc_target (c_size c) t ls (target c)" "\<forall>j. data (entrylist c3 j) = data (entrylist c j)"
      using ghost_list [OF ok True t(2) refl] by blast
    show "\<exists>c'. check_entry key (length key) sf ent c =
       Some (R_FOUND, e_sfflags (entrylist c i), e_entflags (entrylist c i), c') \<and>
     cache_ok (length key) c' (arc_hit (c_size c) t i ls (target c)) \<and>
     c_size c' = c_size c \<and> entries c' = entries c \<and>
     target c' = arc_target (c_size c) t ls (target c) \<and>
     (\<forall>j. data (entrylist c' j) = data (entrylist c j))"
      by (rule exI [of _ c3]) (use True g nz out [OF g(8)] in
        \<open>auto simp: check_entry_def fe t_def [symmetric] tg Let_def\<close>)
  next
    case False
    then have T: "t = LT_T1 \<or> t = LT_T2" using t(1) by (cases t) auto
    obtain c1 c2 where g: "removeEntry i (if t = LT_T1 then inc_size LT_T2 (dec_size_of LT_T1 c) else c) = Some c1"
      "AddMRU (Some i) LT_T2 c1 = Some c2"
      "cache_ok (length key) c2 (arc_hit (c_size c) t i ls (target c))" "c_size c2 = c_size c" "entries c2 = entries c"
      "target c2 = arc_target (c_size c) t ls (target c)" "\<forall>j. data (entrylist c2 j) = data (entrylist c j)"
      using recent_hit [OF ok T t(2) refl] by blast
    show "\<exists>c'. check_entry key (length key) sf ent c =
       Some (R_FOUND, e_sfflags (entrylist c i), e_entflags (entrylist c i), c') \<and>
     cache_ok (length key) c' (arc_hit (c_size c) t i ls (target c)) \<and>
     c_size c' = c_size c \<and> entries c' = entries c \<and>
     target c' = arc_target (c_size c) t ls (target c) \<and>
     (\<forall>j. data (entrylist c' j) = data (entrylist c j))"
      by (rule exI [of _ c2]) (use T g out [OF g(7)] in
        \<open>auto simp: check_entry_def fe t_def [symmetric] Let_def\<close>)
  qed
qed

lemma check_entry_miss:
  "cache_ok (length key) c ls \<Longrightarrow> slot_of c key = None \<Longrightarrow>
   check_entry key (length key) sf ent c = Some (R_NOT_FOUND, sf, ent, c)"
  using FindEntry_ok [of key c ls] by (simp add: check_entry_def)

lemma getNewEntry_ok:
  assumes l: "lists_ok c ls" and n: "entries c < 2 * c_size c" "2 * c_size c + 1 < 2 ^ 32"
  shows "\<exists>c'. getNewEntry c = (Some (entries c), c') \<and> lists_ok c' ls \<and> entries c' = entries c + 1 \<and>
     c_size c' = c_size c \<and> target c' = target c \<and> listSize c' = listSize c \<and>
     listtype (entrylist c' (entries c)) = LT_NONE \<and> e_key (entrylist c' (entries c)) = KNull \<and>
     (\<forall>j. j \<noteq> entries c \<longrightarrow> entrylist c' j = entrylist c j)"
proof -
  let ?e = "\<lparr>e_next = None, e_prev = None, listtype = LT_NONE, e_size = 0, e_key = KNull, e_sfflags = 0, e_entflags = 0\<rparr>"
  let ?c = "c\<lparr>entrylist := (entrylist c)(entries c := ?e), entries := entries c + 1\<rparr>"
  have g: "getNewEntry c = (Some (entries c), ?c)"
    using n by (simp add: getNewEntry_def mul32_no_wrap inc32_no_wrap)
  have "lists_ok ?c ls"
    unfolding lists_ok_def
  proof (intro allI impI)
    fix u assume u: "u \<noteq> LT_NONE"
    note d = lists_okD [OF l u]
    have m: "entries c \<notin> set (ls u)" using d(5) [of "entries c"] by simp
    have "j \<in> set (ls u) \<longleftrightarrow> j < entries ?c \<and> listtype (entrylist ?c j) = u" for j
      using d(5) [of j] m u by (auto simp: less_Suc_eq)
    then show "chain (entrylist ?c) None (ls u) None \<and> LRU ?c u = first_of (ls u) None \<and>
       MRU ?c u = last_of (ls u) None \<and> distinct (ls u) \<and>
       (\<forall>j. j \<in> set (ls u) \<longleftrightarrow> j < entries ?c \<and> listtype (entrylist ?c j) = u)"
      using d(1-4) m by auto
  qed
  then show ?thesis using g by auto
qed

text \<open>Taking the least recently used entry out of a list, counter included.\<close>
lemma purge_ok:
  assumes l: "lists_ok c ls" and z: "sizes_ok c ls" and t: "t \<noteq> LT_NONE" and ne: "ls t \<noteq> []"
  shows "\<exists>c1. PurgeLRU t c = (Some (hd (ls t)), c1) \<and> lists_ok (dec_size_of t c1) (ls(t := tl (ls t))) \<and>
     sizes_ok (dec_size_of t c1) (ls(t := tl (ls t))) \<and> same c c1 \<and>
     listtype (entrylist c1 (hd (ls t))) = LT_NONE \<and> slots (ls(t := tl (ls t))) = slots ls - {hd (ls t)}"
proof -
  obtain i "is" where i: "ls t = i # is" using ne by (cases "ls t") auto
  obtain c1 where c1: "PurgeLRU t c = (Some i, c1)" "lists_ok c1 (ls(t := is))" "same c c1"
    "listtype (entrylist c1 i) = LT_NONE"
    using PurgeLRU_ok [OF l t i] by blast
  have "dec32 (length (ls t)) = length is"
    using dec32_no_wrap [of "length (ls t)"] sizes_okD(2) [OF z t] i by simp
  then have "sizes_ok (dec_size_of t c1) (ls(t := is))"
    using sameD(3) [OF c1(3)] sizes_okD [OF z] sizes_okD(2) [OF z t] i by (auto simp: sizes_ok_def)
  moreover have "slots (ls(t := is)) = slots ls - {i}" using slots_remove [OF l t, of i] i by simp
  ultimately show ?thesis using c1 i by simp
qed

text \<open>What \<open>new_slot\<close> establishes about the slot \<open>i\<close> it returns.\<close>
definition slot_ready :: "CACHE \<Rightarrow> nat \<times> lists \<times> nat \<Rightarrow> CACHE \<Rightarrow> bool" where
  "slot_ready c r c' \<longleftrightarrow> (case r of (i, ls', m') \<Rightarrow>
     lists_ok c' ls' \<and> (\<forall>t. t \<noteq> LT_NONE \<longrightarrow> listSize c' t = length (ls' t)) \<and> c_size c' = c_size c \<and>
     target c' = target c \<and> entries c' = m' \<and> i < m' \<and> slots ls' = {..<m'} - {i} \<and>
     (m' = entries c \<and> data (entrylist c' i) = data (entrylist c i) \<or>
      m' = entries c + 1 \<and> i = entries c \<and> e_key (entrylist c' i) = KNull) \<and>
     (\<forall>j. j \<noteq> i \<longrightarrow> data (entrylist c' j) = data (entrylist c j)))"

lemma replace_ready:
  assumes l: "lists_ok c ls" and z: "sizes_ok c ls" and full: "length (ls LT_T1) + length (ls LT_T2) = c_size c" "0 < c_size c"
    "target c \<le> int (c_size c)"
  shows "\<exists>c'. replace c = Some c' \<and> lists_ok c' (arc_replace (target c) ls) \<and>
     (\<forall>t. t \<noteq> LT_NONE \<longrightarrow> listSize c' t = length (arc_replace (target c) ls t)) \<and>
     c_size c' = c_size c \<and> target c' = target c \<and> entries c' = entries c \<and>
     (\<forall>j. data (entrylist c' j) = data (entrylist c j)) \<and> slots (arc_replace (target c) ls) = slots ls"
proof -
  obtain c' where c': "replace c = Some c'" "lists_ok c' (arc_replace (target c) ls)"
    "\<forall>t. t \<noteq> LT_NONE \<longrightarrow> listSize c' t = length (arc_replace (target c) ls t)" "same c (c'\<lparr>listSize := listSize c\<rparr>)"
    using replace_ok [OF l z full] by blast
  have "slots (arc_replace (target c) ls) = slots ls" by (rule slots_replace [OF full])
  then show ?thesis using c' sameD [OF c'(4)] by auto
qed

text \<open>Recycling the oldest entry of a ghost list and replacing.\<close>
lemma recycle_ghost:
  assumes ok: "cache_ok klen c ls" and t: "t = LT_B1 \<or> t = LT_B2" and ne: "ls t \<noteq> []"
  shows "\<exists>c1 c'. PurgeLRU t c = (Some (hd (ls t)), c1) \<and> replace (dec_size_of t c1) = Some c' \<and>
     slot_ready c (hd (ls t), arc_replace (target c) (ls(t := tl (ls t))), entries c) c'"
proof -
  note l = cache_okD(1) [OF ok] and z = cache_okD(2) [OF ok] and inv = cache_okD(3) [OF ok] and sl = cache_okD(4) [OF ok]
  define i where "i = hd (ls t)"
  define ls1 where "ls1 = ls(t := tl (ls t))"
  have tn: "t \<noteq> LT_NONE" using t by auto
  obtain c1 where c1: "PurgeLRU t c = (Some i, c1)" "lists_ok (dec_size_of t c1) ls1"
    "sizes_ok (dec_size_of t c1) ls1" "same c c1" "slots ls1 = slots ls - {i}"
    using purge_ok [OF l z tn ne] unfolding i_def ls1_def by blast
  note s1 = sameD [OF c1(4)]
  have f: "length (ls1 LT_T1) + length (ls1 LT_T2) = c_size (dec_size_of t c1)"
    using arc_ghost_full(2) [OF inv t ne] s1(1) t by (auto simp: ls1_def)
  have g: "0 < c_size (dec_size_of t c1)" "target (dec_size_of t c1) \<le> int (c_size (dec_size_of t c1))"
    using inv s1 by (simp_all add: arc_inv_def)
  obtain c' where c': "replace (dec_size_of t c1) = Some c'" "lists_ok c' (arc_replace (target c) ls1)"
   "\<forall>t. t \<noteq> LT_NONE \<longrightarrow> listSize c' t = length (arc_replace (target c) ls1 t)"
   "c_size c' = c_size c" "target c' = target c" "entries c' = entries c"
   "\<forall>j. data (entrylist c' j) = data (entrylist c j)" "slots (arc_replace (target c) ls1) = slots ls1"
    using replace_ready [OF c1(2,3) f g] s1 by auto
  have "i \<in> slots ls" using ne tn slots_iff unfolding i_def by fastforce
  then have "slot_ready c (i, arc_replace (target c) ls1, entries c) c'"
    using c' c1(5) sl by (auto simp: slot_ready_def)
  then show ?thesis using c1(1) c'(1) unfolding i_def ls1_def by blast
qed

lemma fresh_slot:
  assumes ok: "cache_ok klen c ls" and n: "entries c < 2 * c_size c"
  shows "\<exists>c1. getNewEntry c = (Some (entries c), c1) \<and> slot_ready c (entries c, ls, entries c + 1) c1 \<and>
     (c_size c \<le> entries c \<longrightarrow> (\<exists>c'. replace c1 = Some c' \<and>
        slot_ready c (entries c, arc_replace (target c) ls, entries c + 1) c'))"
proof -
  note l = cache_okD(1) [OF ok] and z = cache_okD(2) [OF ok] and inv = cache_okD(3) [OF ok] and sl = cache_okD(4) [OF ok]
  have b: "2 * c_size c + 1 < 2 ^ 32" using inv by (simp add: arc_inv_def)
  obtain c1 where c1: "getNewEntry c = (Some (entries c), c1)" "lists_ok c1 ls" "entries c1 = entries c + 1"
    "c_size c1 = c_size c" "target c1 = target c" "listSize c1 = listSize c" "e_key (entrylist c1 (entries c)) = KNull"
    "\<forall>j. j \<noteq> entries c \<longrightarrow> entrylist c1 j = entrylist c j"
    using getNewEntry_ok [OF l n b] by blast
  have z1: "sizes_ok c1 ls" using z c1(6) by (simp add: sizes_ok_def)
  have "slot_ready c (entries c, ls, entries c + 1) c1"
    using c1 sl sizes_okD(1) [OF z] by (auto simp: slot_ready_def)
  moreover have "\<exists>c'. replace c1 = Some c' \<and> slot_ready c (entries c, arc_replace (target c) ls, entries c + 1) c'"
    if "c_size c \<le> entries c"
  proof -
    have f: "length (ls LT_T1) + length (ls LT_T2) = c_size c1" "0 < c_size c1" "target c1 \<le> int (c_size c1)"
      using that inv c1(4,5) by (simp_all add: arc_inv_def)
    obtain c' where c': "replace c1 = Some c'" "lists_ok c' (arc_replace (target c) ls)"
     "\<forall>t. t \<noteq> LT_NONE \<longrightarrow> listSize c' t = length (arc_replace (target c) ls t)"
     "c_size c' = c_size c" "target c' = target c" "entries c' = entries c + 1"
     "\<forall>j. data (entrylist c' j) = data (entrylist c1 j)" "slots (arc_replace (target c) ls) = slots ls"
      using replace_ready [OF c1(2) z1 f] c1 by auto
    have k: "e_key (entrylist c' (entries c)) = KNull"
      using c'(7) [rule_format, of "entries c"] c1(7) by (simp add: data_def)
    have "data (entrylist c' j) = data (entrylist c j)" if "j \<noteq> entries c" for j using c'(7) c1(8) that by simp
    then have "slot_ready c (entries c, arc_replace (target c) ls, entries c + 1) c'"
      using c' sl k by (auto simp: slot_ready_def)
    then show ?thesis using c'(1) by blast
  qed
  ultimately show ?thesis using c1(1) by blast
qed

lemma new_slot_ok:
  assumes ok: "cache_ok klen c ls" and r: "r = arc_slot (c_size c) (entries c) ls (target c)"
  shows "\<exists>c'. new_slot c = Some (Some (fst r), c') \<and> slot_ready c r c'"
proof -
  note l = cache_okD(1) [OF ok] and z = cache_okD(2) [OF ok] and inv = cache_okD(3) [OF ok] and sl = cache_okD(4) [OF ok]
  define n where "n = c_size c"
  have i: "0 < n" "2 * n + 1 < 2 ^ 32" "entries c \<le> 2 * n" "length (ls LT_T1) + length (ls LT_B1) \<le> n"
    using inv by (auto simp: arc_inv_def n_def)
  have s: "listSize c LT_T1 = length (ls LT_T1)" "listSize c LT_B1 = length (ls LT_B1)" using sizes_okD(1) [OF z] by auto
  have a: "add32 (listSize c LT_T1) (listSize c LT_B1) = length (ls LT_T1) + length (ls LT_B1)" "mul32 2 (c_size c) = 2 * n"
    using i s by (simp_all add: add32_no_wrap mul32_no_wrap n_def)
  consider (b1) "length (ls LT_T1) + length (ls LT_B1) = n" "length (ls LT_T1) < n"
    | (t1) "length (ls LT_T1) + length (ls LT_B1) = n" "\<not> length (ls LT_T1) < n"
    | (b2) "length (ls LT_T1) + length (ls LT_B1) \<noteq> n" "n \<le> entries c" "2 * n \<le> entries c"
    | (new) "length (ls LT_T1) + length (ls LT_B1) \<noteq> n" "entries c < 2 * n" by linarith
  then show ?thesis
  proof cases
    case b1
    then have ne: "ls LT_B1 \<noteq> []" by auto
    then show ?thesis using recycle_ghost [OF ok _ ne] b1 a s n_def by (auto simp: r new_slot_def arc_slot_def)
  next
    case t1
    then have ne: "ls LT_T1 \<noteq> []" using i by auto
    obtain c1 where c1: "PurgeLRU LT_T1 c = (Some (hd (ls LT_T1)), c1)" "lists_ok (dec_size_of LT_T1 c1) (ls(LT_T1 := tl (ls LT_T1)))"
      "sizes_ok (dec_size_of LT_T1 c1) (ls(LT_T1 := tl (ls LT_T1)))" "same c c1"
      "slots (ls(LT_T1 := tl (ls LT_T1))) = slots ls - {hd (ls LT_T1)}"
      using purge_ok [OF l z _ ne] by auto
    have "hd (ls LT_T1) \<in> slots ls" using ne by (auto simp: slots_def)
    then have "slot_ready c r (dec_size_of LT_T1 c1)"
      using t1 c1 sl sameD [OF c1(4)] sizes_okD(1) [OF c1(3)] n_def
      by (auto simp: r slot_ready_def arc_slot_def simp del: dec_size_of_simps(7))
    then show ?thesis using t1 a s c1(1) n_def by (simp add: r new_slot_def arc_slot_def)
  next
    case b2
    then have ne: "ls LT_B2 \<noteq> []" using i inv by (auto simp: arc_inv_def n_def)
    then show ?thesis using recycle_ghost [OF ok _ ne] b2 a s n_def by (auto simp: r new_slot_def arc_slot_def)
  next
    case new
    then show ?thesis using fresh_slot [OF ok] a s n_def by (auto simp: r new_slot_def arc_slot_def)
  qed
qed

text \<open>Changing the contents of an entry does not touch the lists.\<close>
lemma lists_ok_upd:
  assumes "\<And>e. e_next (f e) = e_next e \<and> e_prev (f e) = e_prev e \<and> listtype (f e) = listtype e"
  shows "lists_ok (upd_entry i f c) ls = lists_ok c ls"
proof -
  have "chain (entrylist (upd_entry i f c)) p as q = chain (entrylist c) p as q" for p as q
    using assms by (intro chain_cong) (auto simp: upd_entry_def)
  moreover have "listtype (entrylist (upd_entry i f c) j) = listtype (entrylist c j)" for j
    using assms by (auto simp: upd_entry_def)
  ultimately show ?thesis by (simp add: lists_ok_def) (simp add: upd_entry_def)
qed

lemma add_entry_ok:
  assumes ok: "cache_ok (length key) c ls" and r: "arc_slot (c_size c) (entries c) ls (target c) = (i, ls', m')"
  shows "\<exists>c'. add_entry True key (length key) sf ent c = Some (R_SUCCESS, c') \<and>
     cache_ok (length key) c' (arc_miss (c_size c) (entries c) ls (target c)) \<and> c_size c' = c_size c \<and>
     target c' = target c \<and> entries c' = m' \<and> data (entrylist c' i) = (length key, KBytes key, sf, ent) \<and>
     (\<forall>j. j \<noteq> i \<longrightarrow> data (entrylist c' j) = data (entrylist c j))"
proof -
  obtain c1 where c1: "new_slot c = Some (Some i, c1)" "slot_ready c (i, ls', m') c1"
    using new_slot_ok [OF ok r [symmetric]] by auto
  note rd = c1(2) [unfolded slot_ready_def, simplified]
  have "i < entries c1" and ni: "\<forall>u. u \<noteq> LT_NONE \<longrightarrow> i \<notin> set (ls' u)" using rd slots_iff by blast+
  moreover then have "listtype (entrylist c1 i) = LT_NONE" using slot_free [of c1 ls' i] rd by blast
  ultimately obtain c2 where c2: "AddMRU (Some i) LT_T1 c1 = Some c2" "lists_ok c2 (ls'(LT_T1 := ls' LT_T1 @ [i]))" "same c1 c2"
    using AddMRU_ok [of c1 ls' LT_T1 i] rd by auto
  note s2 = sameD [OF c2(3)]
  have miss: "arc_miss (c_size c) (entries c) ls (target c) = ls'(LT_T1 := ls' LT_T1 @ [i])" by (simp add: arc_miss_def r)
  have inv: "arc_inv (c_size c) m' (target c) (ls'(LT_T1 := ls' LT_T1 @ [i]))"
    using arc_miss_inv [OF cache_okD(3) [OF ok]] by (simp add: r miss)
  have key: "e_key (entrylist c2 i) \<noteq> KFreed"
    using rd cache_okD(5) [OF ok, of i] s2(5) [of i] by (auto simp: data_def)
  let ?c = "upd_entry i (\<lambda>e. e\<lparr>e_size := length key, e_sfflags := sf, e_entflags := ent, e_key := KBytes key\<rparr>) (inc_size LT_T1 c2)"
  have add: "add_entry True key (length key) sf ent c = Some (R_SUCCESS, ?c)"
    using c1(1) c2(1) key by (cases "e_key (entrylist c2 i)") (auto simp: add_entry_def destroyEntry_def upd_entry_def Let_def)
  have d: "data (entrylist ?c j) = (if j = i then (length key, KBytes key, sf, ent) else data (entrylist c j))" for j
    using rd s2(5) [of j] by (auto simp: data_def upd_entry_def)
  have "lists_ok ?c (ls'(LT_T1 := ls' LT_T1 @ [i]))"
    using c2(2) by (subst lists_ok_upd) simp_all
  moreover have "length (ls' LT_T1) + 1 < 2 ^ 32" using inv by (auto simp: arc_inv_def)
  moreover have "slots (ls'(LT_T1 := ls' LT_T1 @ [i])) = {..<m'}" using rd by (auto simp: slots_add)
  moreover have "\<exists>k. e_key (entrylist ?c j) = KBytes k \<and> length k = length key" if "j < m'" for j
    using d [of j] cache_okD(5) [OF ok, of j] rd that by (cases "j = i") (auto simp: data_def)
  ultimately have "cache_ok (length key) ?c (ls'(LT_T1 := ls' LT_T1 @ [i]))"
    using inv rd s2 by (auto simp: cache_ok_def upd_entry_def inc32_no_wrap)
  moreover have "c_size ?c = c_size c" "target ?c = target c" "entries ?c = m'"
    using rd s2 by (simp_all add: upd_entry_def)
  ultimately show ?thesis unfolding miss using add d by (intro exI [of _ ?c] conjI) simp_all
qed

end
