(* ===== verification/Local_Cache_Properties.thy ===== *)
theory Local_Cache_Properties
  imports Local_Cache_Arc
begin

text \<open>
  The properties of \<open>src/local_cache.c\<close>: the life of the caches under lookups, insertions and
  updates, what a lookup returns after an insertion, and what goes wrong after a failed allocation,
  a removal or a clearing.
\<close>

section \<open>Lookup after insertion\<close>

text \<open>
  The contract a submitter relies on: a lookup returns what is remembered and forgets nothing; an
  insertion of a new key remembers it and may forget others, but never changes what is remembered.
\<close>
locale verdict_cache =
  fixes ok :: "'c \<Rightarrow> bool"
    and valid :: "'k \<Rightarrow> bool"
    and look :: "'c \<Rightarrow> 'k \<Rightarrow> 'v option"
    and check :: "'k \<Rightarrow> 'c \<Rightarrow> ('v option \<times> 'c) option"
    and add :: "'k \<Rightarrow> 'v \<Rightarrow> 'c \<Rightarrow> 'c option"
  assumes check_law: "ok c \<Longrightarrow> valid k \<Longrightarrow> \<exists>c'. check k c = Some (look c k, c') \<and> ok c' \<and> (\<forall>k'. look c' k' = look c k')"
    and add_law: "ok c \<Longrightarrow> valid k \<Longrightarrow> look c k = None \<Longrightarrow> \<exists>c'. add k v c = Some c' \<and> ok c' \<and> look c' k = Some v \<and>
       (\<forall>k' w. k' \<noteq> k \<longrightarrow> look c' k' = Some w \<longrightarrow> look c k' = Some w)"

text \<open>Look a key up, and insert it with a verdict when it is not there.\<close>
definition remember ::
  "('k \<Rightarrow> 'c \<Rightarrow> ('v option \<times> 'c) option) \<Rightarrow> ('k \<Rightarrow> 'v \<Rightarrow> 'c \<Rightarrow> 'c option) \<Rightarrow> 'k \<Rightarrow> 'v \<Rightarrow> 'c \<Rightarrow> ('v \<times> 'c) option" where
  "remember check add k v c = do {
     (r, c1) \<leftarrow> check k c;
     (case r of
        Some w \<Rightarrow> Some (w, c1)
      | None \<Rightarrow> do { c2 \<leftarrow> add k v c1; Some (v, c2) }) }"

context verdict_cache
begin

lemma remember_check:
  assumes "ok c" and "valid k"
  shows "\<exists>w c1 c2. remember check add k v c = Some (w, c1) \<and> ok c1 \<and> check k c1 = Some (Some w, c2) \<and> ok c2 \<and>
    w = (case look c k of Some u \<Rightarrow> u | None \<Rightarrow> v)"
proof -
  obtain c1 where c1: "check k c = Some (look c k, c1)" "ok c1" "\<forall>k'. look c1 k' = look c k'"
    using check_law [OF assms] by blast
  show ?thesis
  proof (cases "look c k")
    case (Some u)
    then show ?thesis using c1 check_law [OF c1(2) assms(2)] by (auto simp: remember_def)
  next
    case None
    then obtain c2 where c2: "add k v c1 = Some c2" "ok c2" "look c2 k = Some v"
      using add_law [OF c1(2) assms(2), of v] c1(3) by auto
    then show ?thesis using None c1 check_law [OF c2(2) assms(2)] by (auto simp: remember_def)
  qed
qed

end

text \<open>The caches of this component: the two flag words of a key, when the key has a slot.\<close>
definition distinct_keys :: "CACHE \<Rightarrow> bool" where
  "distinct_keys c \<longleftrightarrow> (\<forall>i < entries c. \<forall>j < entries c. e_key (entrylist c i) = e_key (entrylist c j) \<longrightarrow> i = j)"

definition good_cache :: "nat \<Rightarrow> CACHE \<Rightarrow> bool" where
  "good_cache klen c \<longleftrightarrow> (\<exists>ls. cache_ok klen c ls) \<and> distinct_keys c"

definition flags_of :: "CACHE \<Rightarrow> bytes \<Rightarrow> (u32 \<times> u32) option" where
  "flags_of c key = map_option (\<lambda>i. (e_sfflags (entrylist c i), e_entflags (entrylist c i))) (slot_of c key)"

definition cache_check :: "bytes \<Rightarrow> CACHE \<Rightarrow> ((u32 \<times> u32) option \<times> CACHE) option" where
  "cache_check key c =
     (case check_entry key (length key) 0 0 c of
        Some (R_FOUND, sf, ent, c') \<Rightarrow> Some (Some (sf, ent), c')
      | Some (R_NOT_FOUND, _, _, c') \<Rightarrow> Some (None, c')
      | _ \<Rightarrow> None)"

definition cache_add :: "bytes \<Rightarrow> u32 \<times> u32 \<Rightarrow> CACHE \<Rightarrow> CACHE option" where
  "cache_add key v c =
     (case add_entry True key (length key) (fst v) (snd v) c of Some (R_SUCCESS, c') \<Rightarrow> Some c' | _ \<Rightarrow> None)"

lemma data_eqD:
  "data e = data e' \<Longrightarrow> e_size e = e_size e' \<and> e_key e = e_key e' \<and> e_sfflags e = e_sfflags e' \<and> e_entflags e = e_entflags e'"
  by (simp add: data_def)

lemma same_data_lookup:
  assumes "\<forall>j. data (entrylist c' j) = data (entrylist c j)" and "entries c' = entries c"
  shows "flags_of c' key = flags_of c key" "distinct_keys c' = distinct_keys c"
proof -
  have d: "e_key (entrylist c' j) = e_key (entrylist c j)" "e_sfflags (entrylist c' j) = e_sfflags (entrylist c j)"
    "e_entflags (entrylist c' j) = e_entflags (entrylist c j)" for j
    using data_eqD [OF assms(1) [rule_format, of j]] by simp_all
  show "flags_of c' key = flags_of c key" "distinct_keys c' = distinct_keys c"
    by (simp_all add: d assms(2) flags_of_def slot_of_def distinct_keys_def)
qed

lemma slot_of_distinct:
  assumes "distinct_keys c"
  shows "slot_of c key = Some i \<longleftrightarrow> i < entries c \<and> e_key (entrylist c i) = KBytes key"
proof
  assume i: "i < entries c \<and> e_key (entrylist c i) = KBytes key"
  then have "slot_of c key \<noteq> None" by (auto simp: slot_of_def find_None_iff)
  then obtain j where "slot_of c key = Some j" by auto
  moreover from this have "j = i" using slot_of_Some i assms unfolding distinct_keys_def by fastforce
  ultimately show "slot_of c key = Some i" by simp
qed (rule slot_of_Some)

lemma cache_check_law:
  assumes "good_cache klen c" and "length key = klen"
  shows "\<exists>c'. cache_check key c = Some (flags_of c key, c') \<and> good_cache klen c' \<and> (\<forall>k'. flags_of c' k' = flags_of c k')"
proof -
  obtain ls where ok: "cache_ok (length key) c ls" using assms by (auto simp: good_cache_def)
  show ?thesis
  proof (cases "slot_of c key")
    case None
    then show ?thesis using check_entry_miss [OF ok None] assms by (simp add: cache_check_def flags_of_def)
  next
    case (Some i)
    from check_entry_hit [OF ok Some, of 0 0] obtain c' where
      c': "check_entry key (length key) 0 0 c = Some (R_FOUND, e_sfflags (entrylist c i), e_entflags (entrylist c i), c')"
      "cache_ok (length key) c' (arc_hit (c_size c) (listtype (entrylist c i)) i ls (target c))"
      "entries c' = entries c" "\<forall>j. data (entrylist c' j) = data (entrylist c j)" by blast
    note s = same_data_lookup [OF c'(4,3)]
    have "good_cache klen c'" using c'(2) s(2) assms by (auto simp: good_cache_def)
    then show ?thesis using c'(1) s(1) Some by (simp add: cache_check_def flags_of_def)
  qed
qed

lemma cache_add_law:
  assumes "good_cache klen c" and "length key = klen" and "flags_of c key = None"
  shows "\<exists>c'. cache_add key v c = Some c' \<and> good_cache klen c' \<and> flags_of c' key = Some v \<and>
     (\<forall>k' w. k' \<noteq> key \<longrightarrow> flags_of c' k' = Some w \<longrightarrow> flags_of c k' = Some w)"
proof -
  obtain ls where ok: "cache_ok (length key) c ls" and dk: "distinct_keys c" using assms by (auto simp: good_cache_def)
  obtain i ls' m' where r: "arc_slot (c_size c) (entries c) ls (target c) = (i, ls', m')" by (metis prod_cases3)
  obtain c' where c': "add_entry True key (length key) (fst v) (snd v) c = Some (R_SUCCESS, c')"
    "cache_ok (length key) c' (arc_miss (c_size c) (entries c) ls (target c))" "entries c' = m'"
    "data (entrylist c' i) = (length key, KBytes key, fst v, snd v)"
    "\<forall>j. j \<noteq> i \<longrightarrow> data (entrylist c' j) = data (entrylist c j)"
    using add_entry_ok [OF ok r, of "fst v" "snd v"] by blast
  obtain c1 where "slot_ready c (i, ls', m') c1" using new_slot_ok [OF ok r [symmetric]] by auto
  then have m: "i < m'" "m' = entries c \<or> m' = entries c + 1 \<and> i = entries c" by (auto simp: slot_ready_def)
  have absent: "e_key (entrylist c j) \<noteq> KBytes key" if "j < entries c" for j
    using assms(3) that by (auto simp: flags_of_def slot_of_def find_None_iff)
  have ki: "e_key (entrylist c' i) = KBytes key" using c'(4) by (simp add: data_def)
  have kj: "e_key (entrylist c' j) = e_key (entrylist c j)" "j < entries c" if "j \<noteq> i" "j < m'" for j
    using data_eqD [OF c'(5) [rule_format, OF that(1)]] that m by auto
  have dk': "distinct_keys c'"
    unfolding distinct_keys_def
  proof (intro allI impI)
    fix a b assume ab: "a < entries c'" "b < entries c'" "e_key (entrylist c' a) = e_key (entrylist c' b)"
    show "a = b"
      using ab kj [of a] kj [of b] ki absent [of a] absent [of b] dk c'(3)
      unfolding distinct_keys_def by (cases "a = i"; cases "b = i") auto
  qed
  have "slot_of c' key = Some i" using slot_of_distinct [OF dk'] ki m c'(3) by simp
  then have "flags_of c' key = Some v" using c'(4) by (simp add: flags_of_def data_def)
  moreover have "flags_of c k' = Some w" if ne: "k' \<noteq> key" and fl: "flags_of c' k' = Some w" for k' w
  proof -
    obtain j where j: "slot_of c' k' = Some j" "w = (e_sfflags (entrylist c' j), e_entflags (entrylist c' j))"
      using fl by (auto simp: flags_of_def)
    have "j < m'" "e_key (entrylist c' j) = KBytes k'" using slot_of_Some [OF j(1)] c'(3) by simp_all
    moreover from this have "j \<noteq> i" using ki ne by auto
    ultimately have "slot_of c k' = Some j" using slot_of_distinct [OF dk] kj [of j] by simp
    then show ?thesis using j(2) data_eqD [OF c'(5) [rule_format, OF \<open>j \<noteq> i\<close>]] by (simp add: flags_of_def)
  qed
  moreover have "good_cache klen c'" using c'(2) dk' assms(2) by (auto simp: good_cache_def)
  ultimately show ?thesis using c'(1) by (auto simp: cache_add_def)
qed

interpretation local_cache: verdict_cache "good_cache klen" "\<lambda>k. length k = klen" flags_of cache_check cache_add
  for klen
  by unfold_locales (fact cache_check_law, fact cache_add_law)

section \<open>The life of the caches\<close>

text \<open>
  One operation on the caches with keys of \<open>klen\<close> bytes, the key allocations succeeding. The
  predicate relates the caches before and after.
\<close>
inductive cache_step :: "nat \<Rightarrow> caches \<Rightarrow> caches \<Rightarrow> bool" for klen where
  step_check: "length key = klen \<Longrightarrow>
     checkLocalEntry (Some key) klen (Some sf) (Some ent) ty C = Some (r, sf', ent', C') \<Longrightarrow> cache_step klen C C'"
| step_add: "length key = klen \<Longrightarrow> addLocalEntry True key klen sf ent ty C = Some (r, C') \<Longrightarrow> cache_step klen C C'"
| step_update: "length key = klen \<Longrightarrow>
     updateLocalEntry (Some key) klen sf ent ty C = Some (r, C') \<Longrightarrow> cache_step klen C C'"

definition caches_ok :: "nat \<Rightarrow> caches \<Rightarrow> bool" where
  "caches_ok klen C \<longleftrightarrow> (\<forall>ty. \<exists>ls. cache_ok klen (C ty) ls)"

lemma init_cache_ok:
  assumes "0 < n" and "2 * n + 1 < 2 ^ 32"
  shows "cache_ok klen (init_cache n junk) (\<lambda>_. [])"
  using assms by (auto simp: cache_ok_def lists_ok_def arc_inv_def slots_def init_cache_def)

lemma check_entry_cases:
  assumes "cache_ok (length key) c ls"
  shows "\<exists>r sf' ent' c' ls'. check_entry key (length key) sf ent c = Some (r, sf', ent', c') \<and>
    (r = R_FOUND \<or> r = R_NOT_FOUND) \<and> cache_ok (length key) c' ls'"
proof (cases "slot_of c key")
  case None
  then show ?thesis using check_entry_miss [OF assms] assms by blast
next
  case (Some i)
  then show ?thesis using check_entry_hit [OF assms, of i sf ent] by blast
qed

lemma update_ok:
  assumes "cache_ok klen c ls"
  shows "cache_ok klen (upd_entry i (\<lambda>e. e\<lparr>e_sfflags := sf, e_entflags := ent\<rparr>) c) ls"
proof -
  have "lists_ok (upd_entry i (\<lambda>e. e\<lparr>e_sfflags := sf, e_entflags := ent\<rparr>) c) ls"
    using cache_okD(1) [OF assms] by (subst lists_ok_upd) simp_all
  then show ?thesis using assms by (auto simp: cache_ok_def upd_entry_def)
qed

lemma check_step_ok:
  assumes "caches_ok klen C" and "length key = klen"
  shows "\<exists>r sf' ent' C'. checkLocalEntry (Some key) klen (Some sf) (Some ent) ty C = Some (r, sf', ent', C') \<and>
    (ty \<noteq> CT_ALL \<longrightarrow> r \<noteq> R_ERROR) \<and> caches_ok klen C'"
proof -
  obtain ls where ls: "cache_ok (length key) (C ty) ls" using assms by (auto simp: caches_ok_def)
  from check_entry_cases [OF ls, of sf ent] show ?thesis
    using assms unfolding caches_ok_def checkLocalEntry_def by (cases "ty = CT_ALL") fastforce+
qed

lemma add_step_ok:
  assumes "caches_ok klen C" and "length key = klen"
  shows "\<exists>r C'. addLocalEntry True key klen sf ent ty C = Some (r, C') \<and>
    (ty \<noteq> CT_ALL \<longrightarrow> r = R_SUCCESS) \<and> caches_ok klen C'"
proof -
  obtain ls where ls: "cache_ok (length key) (C ty) ls" using assms by (auto simp: caches_ok_def)
  obtain i ls' m' where r: "arc_slot (c_size (C ty)) (entries (C ty)) ls (target (C ty)) = (i, ls', m')" by (metis prod_cases3)
  from add_entry_ok [OF ls r, of sf ent] show ?thesis
    using assms unfolding caches_ok_def addLocalEntry_def by (cases "ty = CT_ALL") fastforce+
qed

lemma update_step_ok:
  assumes "caches_ok klen C" and "length key = klen"
  shows "\<exists>r C'. updateLocalEntry (Some key) klen sf ent ty C = Some (r, C') \<and> (ty \<noteq> CT_ALL \<longrightarrow> r \<noteq> R_ERROR) \<and> caches_ok klen C'"
proof -
  obtain ls where ls: "cache_ok (length key) (C ty) ls" using assms by (auto simp: caches_ok_def)
  have "FindEntry key klen (C ty) = Some (slot_of (C ty) key)" using FindEntry_ok [OF ls] assms(2) by simp
  moreover have "caches_ok klen (C(ty := upd_entry i (\<lambda>e. e\<lparr>e_sfflags := sf, e_entflags := ent\<rparr>) (C ty)))" for i
    using assms update_ok [OF ls, of i ent sf] by (auto simp: caches_ok_def)
  ultimately show ?thesis using assms by (auto simp: updateLocalEntry_def split: option.split)
qed

lemma cache_step_ok: "cache_step klen C C' \<Longrightarrow> caches_ok klen C \<Longrightarrow> caches_ok klen C'"
proof (induction rule: cache_step.induct)
  case (step_check key sf ent ty C r sf' ent' C')
  then show ?case using check_step_ok [of klen C key sf ent ty] by auto
next
  case (step_add key sf ent ty C r C')
  then show ?case using add_step_ok [of klen C key sf ent ty] by auto
next
  case (step_update key sf ent ty C r C')
  then show ?case using update_step_ok [of klen C key sf ent ty] by auto
qed

lemma cache_steps_ok: "(cache_step klen)\<^sup>*\<^sup>* C C' \<Longrightarrow> caches_ok klen C \<Longrightarrow> caches_ok klen C'"
  by (induction rule: rtranclp_induct) (auto intro: cache_step_ok)

lemma initcache_ok:
  assumes "0 < bad" "2 * bad + 1 < 2 ^ 32" "0 < good" "2 * good + 1 < 2 ^ 32"
  shows "caches_ok klen (initcache bad good junk)"
  unfolding caches_ok_def initcache_def
proof
  fix ty show "\<exists>ls. cache_ok klen (init_cache (case ty of GOODHASH \<Rightarrow> bad | BADHASH \<Rightarrow> good | _ \<Rightarrow> 256) (junk ty)) ls"
    using init_cache_ok assms by (cases ty) (auto intro!: exI [of _ "\<lambda>_. []"])
qed

section \<open>Clearing\<close>









section \<open>Entries without a key\<close>

text \<open>The scan for a key is undefined as soon as it reaches an entry whose key is null or released.\<close>
lemma find_loop_undef:
  assumes "i < m" and "e_key (entrylist c i) = KNull \<or> e_key (entrylist c i) = KFreed"
    and "\<And>j. j < i \<Longrightarrow> \<exists>k. e_key (entrylist c j) = KBytes k \<and> length k = length key \<and> k \<noteq> key"
  shows "find_loop c key (length key) [0..<m] = None"
proof -
  have s: "[0..<m] = [0..<i] @ i # [Suc i..<m]"
    using assms(1) upt_add_eq_append [of 0 i "m - i"] by (simp add: upt_conv_Cons)
  have u: "find_loop c key (length key) (xs @ i # ys) = None" if "set xs \<subseteq> {..<i}" for xs ys
    using that
  proof (induction xs)
    case (Cons j xs)
    then obtain k where "e_key (entrylist c j) = KBytes k" "length k = length key" "k \<noteq> key" using assms(3) [of j] by auto
    then show ?case using Cons by (simp add: bytes_cmp_eq_0)
  qed (use assms(2) in auto)
  show ?thesis unfolding s by (rule u) auto
qed

lemma slot_of_first:
  assumes "slot_of c key = Some i" and "j < i"
  shows "e_key (entrylist c j) \<noteq> KBytes key"
  using assms unfolding slot_of_def by (auto simp: find_Some_iff)

lemma add_entry_failed:
  assumes "add_entry True key (length key) sf ent c = Some (R_SUCCESS, c')" and "new_slot c = Some (Some i, c1)"
  shows "add_entry False key (length key) sf ent c = Some (R_ERROR, upd_entry i (\<lambda>e. e\<lparr>e_key := KNull\<rparr>) c')"
  using assms by (auto simp: add_entry_def bind_Some_eq Let_def upd_entry_def destroyEntry_def split: key_ptr.splits if_splits)

section \<open>Properties\<close>

text \<open>C2: the caches are safe for keys of one length while key memory is there. Start from \<open>initcache\<close>
  with positive configured limits below \<open>2\<^sup>31\<close>, and let any sequence of lookups, insertions and updates
  follow, all with keys of one length and with allocations of keys that succeed; no entry is removed and no
  cache is cleared. Then every cache keeps its invariant: at most as many entries in T1 and T2 as its size, at
  most twice as many entries in all, a target between 0 and the size, and four well formed lists over the
  entries in use. A further lookup, insertion or update with a key of that length neither follows a null
  pointer nor reads a released key, and does not report an error.\<close>
theorem cache_reachable_safe:
  assumes "0 < bad" and "2 * bad + 1 < 2 ^ 32" and "0 < good" and "2 * good + 1 < 2 ^ 32"
    and "(cache_step klen)\<^sup>*\<^sup>* (initcache bad good junk) C" and "length key = klen" and "ty \<noteq> CT_ALL"
  shows "(\<exists>ls. lists_ok (C ty) ls \<and> slots ls = {..<entries (C ty)} \<and>
       listSize (C ty) LT_T1 + listSize (C ty) LT_T2 \<le> c_size (C ty) \<and> entries (C ty) \<le> 2 * c_size (C ty) \<and>
       0 \<le> target (C ty) \<and> target (C ty) \<le> int (c_size (C ty))) \<and>
    (\<exists>r sf' ent' C'. checkLocalEntry (Some key) klen (Some sf) (Some ent) ty C = Some (r, sf', ent', C') \<and> r \<noteq> R_ERROR) \<and>
    (\<exists>C'. addLocalEntry True key klen sf ent ty C = Some (R_SUCCESS, C')) \<and>
    (\<exists>r C'. updateLocalEntry (Some key) klen sf ent ty C = Some (r, C') \<and> r \<noteq> R_ERROR)"
proof (intro conjI)
  have ok: "caches_ok klen C" using cache_steps_ok [OF assms(5) initcache_ok [OF assms(1-4)]] .
  then obtain ls where ls: "cache_ok klen (C ty) ls" by (auto simp: caches_ok_def)
  show "\<exists>ls. lists_ok (C ty) ls \<and> slots ls = {..<entries (C ty)} \<and>
       listSize (C ty) LT_T1 + listSize (C ty) LT_T2 \<le> c_size (C ty) \<and> entries (C ty) \<le> 2 * c_size (C ty) \<and>
       0 \<le> target (C ty) \<and> target (C ty) \<le> int (c_size (C ty))"
    using ls by (intro exI [of _ ls]) (simp add: cache_ok_def arc_inv_def)
  show "\<exists>r sf' ent' C'. checkLocalEntry (Some key) klen (Some sf) (Some ent) ty C = Some (r, sf', ent', C') \<and> r \<noteq> R_ERROR"
    using check_step_ok [OF ok assms(6), of sf ent ty] assms(7) by blast
  show "\<exists>C'. addLocalEntry True key klen sf ent ty C = Some (R_SUCCESS, C')"
    using add_step_ok [OF ok assms(6), of sf ent ty] assms(7) by blast
  show "\<exists>r C'. updateLocalEntry (Some key) klen sf ent ty C = Some (r, C') \<and> r \<noteq> R_ERROR"
    using update_step_ok [OF ok assms(6), of sf ent ty] assms(7) by blast
qed

definition no_entry :: ENTRY where
  "no_entry = \<lparr>e_next = None, e_prev = None, listtype = LT_NONE, e_size = 0, e_key = KNull, e_sfflags = 0, e_entflags = 0\<rparr>"

theorem cache_reachable_safe_witness:
  "\<exists>C. addLocalEntry True [1, 2] 2 7 8 BADHASH (initcache 4 3 (\<lambda>_ _. no_entry)) = Some (R_SUCCESS, C) \<and>
     (\<exists>C'. addLocalEntry True [3, 4] 2 0 0 BADHASH C = Some (R_SUCCESS, C'))"
proof -
  note w = cache_reachable_safe [of 4 3 2 "\<lambda>_ _. no_entry" _ _ BADHASH, THEN conjunct2, THEN conjunct2, THEN conjunct1, simplified]
  obtain C where C: "addLocalEntry True [1, 2] 2 7 8 BADHASH (initcache 4 3 (\<lambda>_ _. no_entry)) = Some (R_SUCCESS, C)"
    using w [OF rtranclp.rtrancl_refl, of "[1, 2]"] by auto
  then have "(cache_step 2)\<^sup>*\<^sup>* (initcache 4 3 (\<lambda>_ _. no_entry)) C"
    by (intro r_into_rtranclp cache_step.step_add [of "[1, 2]"]) simp_all
  from w [OF this, of "[3, 4]"] C show ?thesis by auto
qed

text \<open>C3: a lookup of a key that has an entry returns found with the entry's flag words and acts on
  the lists as the adaptive replacement policy: the entry becomes the most recently used one of T2,
  a hit in a ghost list first moves the target and replaces. No entry loses its contents. A lookup
  of any other key returns not found and changes nothing.\<close>
theorem checkLocalEntry_refines_arc:
  assumes "cache_ok (length key) (C ty) ls" and "ty \<noteq> CT_ALL"
  shows "\<exists>C'. checkLocalEntry (Some key) (length key) (Some sf) (Some ent) ty C =
      Some (case slot_of (C ty) key of
          None \<Rightarrow> (R_NOT_FOUND, Some sf, Some ent, C)
        | Some i \<Rightarrow> (R_FOUND, Some (e_sfflags (entrylist (C ty) i)), Some (e_entflags (entrylist (C ty) i)), C')) \<and>
    (\<forall>i. slot_of (C ty) key = Some i \<longrightarrow>
       cache_ok (length key) (C' ty) (arc_hit (c_size (C ty)) (listtype (entrylist (C ty) i)) i ls (target (C ty))) \<and>
       target (C' ty) = arc_target (c_size (C ty)) (listtype (entrylist (C ty) i)) ls (target (C ty)) \<and>
       entries (C' ty) = entries (C ty) \<and> (\<forall>j. data (entrylist (C' ty) j) = data (entrylist (C ty) j)) \<and>
       (\<forall>u. u \<noteq> ty \<longrightarrow> C' u = C u))"
proof (cases "slot_of (C ty) key")
  case None
  have "C(ty := C ty) = C" by simp
  then show ?thesis using check_entry_miss [OF assms(1) None, of sf ent] None assms(2) by (simp add: checkLocalEntry_def)
next
  case (Some i)
  from check_entry_hit [OF assms(1) Some, of sf ent] obtain c' where
    c': "check_entry key (length key) sf ent (C ty) =
       Some (R_FOUND, e_sfflags (entrylist (C ty) i), e_entflags (entrylist (C ty) i), c')"
    "cache_ok (length key) c' (arc_hit (c_size (C ty)) (listtype (entrylist (C ty) i)) i ls (target (C ty)))"
    "entries c' = entries (C ty)" "target c' = arc_target (c_size (C ty)) (listtype (entrylist (C ty) i)) ls (target (C ty))"
    "\<forall>j. data (entrylist c' j) = data (entrylist (C ty) j)" by blast
  show ?thesis using c' Some assms(2) by (intro exI [of _ "C(ty := c')"]) (simp add: checkLocalEntry_def)
qed

lemma ex_added:
  "\<exists>C c. addLocalEntry True [1, 2] 2 7 8 BADHASH (initcache 4 3 (\<lambda>_ _. no_entry)) = Some (R_SUCCESS, C) \<and>
     C = (initcache 4 3 (\<lambda>_ _. no_entry))(BADHASH := c) \<and> cache_ok 2 c ((\<lambda>_. [])(LT_T1 := [0])) \<and>
     slot_of c [1, 2] = Some 0 \<and> data (entrylist c 0) = (2, KBytes [1, 2], 7, 8) \<and> listtype (entrylist c 0) = LT_T1 \<and>
     entries c = 1 \<and> c_size c = 3 \<and> target c = 3"
proof -
  let ?c = "init_cache 3 (\<lambda>_. no_entry)"
  have l2: "length [1, 2 :: byte] = 2" by simp
  have ok: "cache_ok (length [1, 2 :: byte]) ?c (\<lambda>_. [])" by (rule init_cache_ok) simp_all
  have f: "c_size ?c = 3" "entries ?c = 0" "target ?c = 3" by (simp_all add: init_cache_def)
  have sl: "arc_slot (c_size ?c) (entries ?c) (\<lambda>_. []) (target ?c) = (0, \<lambda>_. [], 1)" by (simp add: f arc_slot_def)
  have ms: "arc_miss (c_size ?c) (entries ?c) (\<lambda>_. []) (target ?c) = (\<lambda>_. [])(LT_T1 := [0])"
    by (simp add: arc_miss_def sl)
  from add_entry_ok [OF ok sl, of 7 8, unfolded ms l2] obtain c where c: "add_entry True [1, 2] 2 7 8 ?c = Some (R_SUCCESS, c)"
    "cache_ok 2 c ((\<lambda>_. [])(LT_T1 := [0]))" "data (entrylist c 0) = (2, KBytes [1, 2], 7, 8)" "entries c = 1"
    "c_size c = 3" "target c = 3" unfolding f by blast
  have "listtype (entrylist c 0) = LT_T1" using lists_okD(5) [OF cache_okD(1) [OF c(2)], of LT_T1 0] by simp
  moreover have "slot_of c [1, 2] = Some 0" using c(3,4) by (simp add: slot_of_def data_def)
  moreover have "initcache 4 3 (\<lambda>_ _. no_entry) BADHASH = ?c" by (simp add: initcache_def)
  ultimately show ?thesis using c by (auto simp: addLocalEntry_def)
qed

theorem checkLocalEntry_refines_arc_witness:
  "\<exists>C C'. addLocalEntry True [1, 2] 2 7 8 BADHASH (initcache 4 3 (\<lambda>_ _. no_entry)) = Some (R_SUCCESS, C) \<and>
     checkLocalEntry (Some [1, 2]) 2 (Some 0) (Some 0) BADHASH C = Some (R_FOUND, Some 7, Some 8, C') \<and>
     cache_ok 2 (C' BADHASH) ((\<lambda>_. [])(LT_T2 := [0]))"
proof -
  obtain C c where C: "addLocalEntry True [1, 2] 2 7 8 BADHASH (initcache 4 3 (\<lambda>_ _. no_entry)) = Some (R_SUCCESS, C)"
    "C BADHASH = c" "cache_ok 2 c ((\<lambda>_. [])(LT_T1 := [0]))" "slot_of c [1, 2] = Some 0"
    "e_sfflags (entrylist c 0) = 7" "e_entflags (entrylist c 0) = 8" "listtype (entrylist c 0) = LT_T1"
    using ex_added by (auto simp: data_def)
  have l2: "length [1, 2 :: byte] = 2" by simp
  have ok: "cache_ok (length [1, 2 :: byte]) (C BADHASH) ((\<lambda>_. [])(LT_T1 := [0]))" using C(2,3) unfolding l2 by simp
  have h: "arc_hit (c_size c) LT_T1 0 ((\<lambda>_. [])(LT_T1 := [0])) (target c) = (\<lambda>_. [])(LT_T2 := [0])"
    by (auto simp: arc_hit_def)
  show ?thesis using checkLocalEntry_refines_arc [where C = C and ty = BADHASH, OF ok, of 0 0, unfolded l2] C h by auto
qed

text \<open>C13: an insertion returns success, gives the new entry the slot the policy chooses (a fresh one
  while there is room, else the least recently used ghost of B1 or B2, or the oldest entry of T1),
  puts it at the recent end of T1, and changes the contents of no other slot and of no other
  cache.\<close>
theorem addLocalEntry_refines_arc:
  assumes "cache_ok (length key) (C ty) ls" and "ty \<noteq> CT_ALL"
    and "arc_slot (c_size (C ty)) (entries (C ty)) ls (target (C ty)) = (i, ls', m')"
  shows "\<exists>C'. addLocalEntry True key (length key) sf ent ty C = Some (R_SUCCESS, C') \<and>
     cache_ok (length key) (C' ty) (ls'(LT_T1 := ls' LT_T1 @ [i])) \<and> entries (C' ty) = m' \<and>
     target (C' ty) = target (C ty) \<and> data (entrylist (C' ty) i) = (length key, KBytes key, sf, ent) \<and>
     (\<forall>j. j \<noteq> i \<longrightarrow> data (entrylist (C' ty) j) = data (entrylist (C ty) j)) \<and> (\<forall>u. u \<noteq> ty \<longrightarrow> C' u = C u)"
proof -
  have "arc_miss (c_size (C ty)) (entries (C ty)) ls (target (C ty)) = ls'(LT_T1 := ls' LT_T1 @ [i])"
    by (simp add: arc_miss_def assms(3))
  with add_entry_ok [OF assms(1,3), of sf ent] obtain c' where
    c': "add_entry True key (length key) sf ent (C ty) = Some (R_SUCCESS, c')"
    "cache_ok (length key) c' (ls'(LT_T1 := ls' LT_T1 @ [i]))" "target c' = target (C ty)" "entries c' = m'"
    "data (entrylist c' i) = (length key, KBytes key, sf, ent)"
    "\<forall>j. j \<noteq> i \<longrightarrow> data (entrylist c' j) = data (entrylist (C ty) j)" by auto
  then show ?thesis using assms(2) by (intro exI [of _ "C(ty := c')"]) (simp add: addLocalEntry_def)
qed

theorem addLocalEntry_refines_arc_witness:
  "\<exists>C C'. addLocalEntry True [1, 2] 2 7 8 BADHASH (initcache 4 3 (\<lambda>_ _. no_entry)) = Some (R_SUCCESS, C) \<and>
     addLocalEntry True [3, 4] 2 5 6 BADHASH C = Some (R_SUCCESS, C') \<and>
     cache_ok 2 (C' BADHASH) ((\<lambda>_. [])(LT_T1 := [0, 1]))"
proof -
  obtain C c where C: "addLocalEntry True [1, 2] 2 7 8 BADHASH (initcache 4 3 (\<lambda>_ _. no_entry)) = Some (R_SUCCESS, C)"
    "C BADHASH = c" "cache_ok 2 c ((\<lambda>_. [])(LT_T1 := [0]))" "entries c = 1" "c_size c = 3" "target c = 3"
    using ex_added by auto
  have l2: "length [3, 4 :: byte] = 2" by simp
  have ok: "cache_ok (length [3, 4 :: byte]) (C BADHASH) ((\<lambda>_. [])(LT_T1 := [0]))" using C(2,3) unfolding l2 by simp
  have sl: "arc_slot (c_size (C BADHASH)) (entries (C BADHASH)) ((\<lambda>_. [])(LT_T1 := [0])) (target (C BADHASH)) =
      (1, (\<lambda>_. [])(LT_T1 := [0]), 2)"
    by (simp add: C(2,4,5,6) arc_slot_def)
  show ?thesis
    using C(1) addLocalEntry_refines_arc [where C = C and ty = BADHASH, OF ok _ sl, of 5 6, unfolded l2] by auto
qed

text \<open>C24: after a lookup that inserts the key with given flag words when it is not there, a further
  lookup finds the key, with the flag words that were stored first.\<close>
theorem cache_remembers:
  assumes "good_cache klen c" and "length key = klen"
  shows "\<exists>w c1 c2. remember cache_check cache_add key v c = Some (w, c1) \<and> good_cache klen c1 \<and>
     cache_check key c1 = Some (Some w, c2) \<and> w = (case flags_of c key of Some u \<Rightarrow> u | None \<Rightarrow> v)"
  using local_cache.remember_check [OF assms] by blast

theorem cache_remembers_witness:
  "\<exists>c1 c2. remember cache_check cache_add [1, 2] (7, 8) (init_cache 3 (\<lambda>_. no_entry)) = Some ((7, 8), c1) \<and>
     cache_check [1, 2] c1 = Some (Some (7, 8), c2)"
proof -
  have "good_cache 2 (init_cache 3 (\<lambda>_. no_entry))"
    using init_cache_ok [of 3 2 "\<lambda>_. no_entry"] by (auto simp: good_cache_def distinct_keys_def init_cache_def)
  moreover have "flags_of (init_cache 3 (\<lambda>_. no_entry)) [1, 2] = None"
    by (simp add: flags_of_def slot_of_def init_cache_def)
  ultimately show ?thesis using cache_remembers [of 2 "init_cache 3 (\<lambda>_. no_entry)" "[1, 2]" "(7, 8)"] by auto
qed



text \<open>when the key buffer of an insertion cannot be allocated, the insertion reports an error but
  leaves the entry without a key in T1; a lookup of a key that is not in the cache then compares with
  a null pointer.\<close>
theorem addLocalEntry_failed_allocation:
  assumes ok: "cache_ok (length key) (C ty) ls" and "ty \<noteq> CT_ALL" and "length key' = length key"
    and absent: "slot_of (C ty) key' = None"
  shows "\<exists>C'. addLocalEntry False key (length key) sf ent ty C = Some (R_ERROR, C') \<and>
     checkLocalEntry (Some key') (length key) (Some a) (Some b) ty C' = None"
proof -
  let ?c = "C ty"
  obtain i ls' m' where r: "arc_slot (c_size ?c) (entries ?c) ls (target ?c) = (i, ls', m')" by (metis prod_cases3)
  obtain c' where c': "add_entry True key (length key) sf ent ?c = Some (R_SUCCESS, c')" "entries c' = m'"
    "\<forall>j. j \<noteq> i \<longrightarrow> data (entrylist c' j) = data (entrylist ?c j)"
    using add_entry_ok [OF ok r, of sf ent] by blast
  obtain c1 where c1: "new_slot ?c = Some (Some i, c1)" "slot_ready ?c (i, ls', m') c1"
    using new_slot_ok [OF ok r [symmetric]] by auto
  have m: "i < m'" "i \<le> entries ?c" using c1(2) by (auto simp: slot_ready_def)
  let ?d = "upd_entry i (\<lambda>e. e\<lparr>e_key := KNull\<rparr>) c'"
  have "\<exists>k. e_key (entrylist ?d j) = KBytes k \<and> length k = length key' \<and> k \<noteq> key'" if "j < i" for j
  proof -
    have "e_key (entrylist ?d j) = e_key (entrylist ?c j)" "j < entries ?c"
      using data_eqD [OF c'(3) [rule_format, of j]] that m by (auto simp: upd_entry_def)
    then show ?thesis using cache_okD(5) [OF ok, of j] absent assms(3)
      by (auto simp: slot_of_def find_None_iff)
  qed
  then have "FindEntry key' (length key) ?d = None"
    using find_loop_undef [of i m' ?d key'] m(1) c'(2) assms(3) by (simp add: FindEntry_def upd_entry_def)
  then show ?thesis using add_entry_failed [OF c'(1) c1(1)] assms(2)
    by (intro exI [of _ "C(ty := ?d)"]) (simp add: addLocalEntry_def checkLocalEntry_def check_entry_def)
qed

theorem addLocalEntry_failed_allocation_witness:
  "\<exists>C. addLocalEntry False [1, 2] 2 7 8 URL (initcache 4 3 (\<lambda>_ _. no_entry)) = Some (R_ERROR, C) \<and>
     checkLocalEntry (Some [1, 2]) 2 (Some 0) (Some 0) URL C = None"
proof -
  have l2: "length [1, 2 :: byte] = 2" by simp
  have ok: "cache_ok (length [1, 2 :: byte]) (initcache 4 3 (\<lambda>_ _. no_entry) URL) (\<lambda>_. [])"
    unfolding initcache_def by (simp add: init_cache_ok)
  have "slot_of (initcache 4 3 (\<lambda>_ _. no_entry) URL) [1, 2] = None" by (simp add: slot_of_def initcache_def init_cache_def)
  then show ?thesis
    using addLocalEntry_failed_allocation [where C = "initcache 4 3 (\<lambda>_ _. no_entry)" and ty = URL, OF ok, of "[1, 2]" 7 8 0 0,
      unfolded l2] by simp
qed

text \<open>C26: \<open>removeLocalEntry\<close> takes the entry out of its list and releases its key but leaves the slot in
  use and the list sizes as they were; looking the removed key up again compares with the released
  key.\<close>
theorem removeLocalEntry_keeps_slot:
  assumes ok: "cache_ok (length key) (C ty) ls" and ty: "ty \<noteq> CT_ALL" and hit: "slot_of (C ty) key = Some i"
  shows "\<exists>C'. removeLocalEntry (Some key) (length key) ty C = Some (R_SUCCESS, C') \<and>
     entries (C' ty) = entries (C ty) \<and> listSize (C' ty) = listSize (C ty) \<and>
     e_key (entrylist (C' ty) i) = KFreed \<and>
     checkLocalEntry (Some key) (length key) (Some sf) (Some ent) ty C' = None"
proof -
  let ?c = "C ty"
  have i: "i < entries ?c" "e_key (entrylist ?c i) = KBytes key" using slot_of_Some [OF hit] by simp_all
  note sl = slot_list [OF ok i(1)]
  obtain c1 where c1: "removeEntry i ?c = Some c1" "same ?c c1"
    using removeEntry_ok [OF cache_okD(1) [OF ok] sl] by blast
  note s = sameD [OF c1(2)]
  have k: "e_key (entrylist c1 j) = e_key (entrylist ?c j)" for j using data_eqD [OF s(5)] by simp
  let ?d = "upd_entry i (\<lambda>e. e\<lparr>e_key := KFreed, e_size := 0\<rparr>) c1"
  have rm: "removeLocalEntry (Some key) (length key) ty C = Some (R_SUCCESS, C(ty := ?d))"
    using ty FindEntry_ok [OF ok] hit c1(1) k i(2) by (simp add: removeLocalEntry_def destroyEntry_def upd_entry_def)
  have "\<exists>k. e_key (entrylist ?d j) = KBytes k \<and> length k = length key \<and> k \<noteq> key" if "j < i" for j
    using that k [of j] cache_okD(5) [OF ok, of j] slot_of_first [OF hit that] i(1) by (auto simp: upd_entry_def)
  then have "FindEntry key (length key) ?d = None"
    using find_loop_undef [of i "entries ?c" ?d key] i(1) s(2) by (simp add: FindEntry_def upd_entry_def)
  then show ?thesis using rm ty s by (intro exI [of _ "C(ty := ?d)"]) (simp add: checkLocalEntry_def check_entry_def upd_entry_def)
qed

theorem removeLocalEntry_keeps_slot_witness:
  "\<exists>C C'. addLocalEntry True [1, 2] 2 7 8 BADHASH (initcache 4 3 (\<lambda>_ _. no_entry)) = Some (R_SUCCESS, C) \<and>
     removeLocalEntry (Some [1, 2]) 2 BADHASH C = Some (R_SUCCESS, C') \<and> listSize (C' BADHASH) LT_T1 = 1 \<and>
     checkLocalEntry (Some [1, 2]) 2 (Some 0) (Some 0) BADHASH C' = None"
proof -
  obtain C c where C: "addLocalEntry True [1, 2] 2 7 8 BADHASH (initcache 4 3 (\<lambda>_ _. no_entry)) = Some (R_SUCCESS, C)"
    "C BADHASH = c" "cache_ok 2 c ((\<lambda>_. [])(LT_T1 := [0]))" "slot_of c [1, 2] = Some 0"
    using ex_added by auto
  have l2: "length [1, 2 :: byte] = 2" by simp
  have ok: "cache_ok (length [1, 2 :: byte]) (C BADHASH) ((\<lambda>_. [])(LT_T1 := [0]))" using C(2,3) unfolding l2 by simp
  have "listSize (C BADHASH) LT_T1 = 1" using C(2,3) by (simp add: cache_ok_def)
  then show ?thesis
    using C removeLocalEntry_keeps_slot [where C = C and ty = BADHASH, OF ok, of 0 0 0, unfolded l2] by auto
qed

end
