(* ===== verification/Hash_Ids.thy ===== *)
theory Hash_Ids
  imports Rzb_Prelude
begin

text \<open>
  Hashes and block identifiers, \<open>src/hash.c\<close> and \<open>src/block_id.c\<close>. The digest functions of OpenSSL
  are a parameter, the record \<open>evp\<close> of the five functions the code calls; \<open>uuid_compare\<close> and
  \<open>uuid_unparse\<close> of libuuid are arguments. The operations work on values, so that releasing a hash that
  could not be completed leaves no trace; the two destructors return the sequence of what they release.

  A pointer argument is an \<open>option\<close>. The outcome \<^term>\<open>None\<close> of an operation is undefined behaviour:
  a buffer is read or written outside its bounds.
\<close>

section \<open>Hexadecimal text\<close>

text \<open>\<open>isxdigit\<close> of the C library, the digit a character stands for, and the digit of a number.\<close>
definition isxdigit :: "char \<Rightarrow> bool" where
  "isxdigit c \<longleftrightarrow> c \<in> set ''0123456789abcdefABCDEF''"

definition hex_value :: "char \<Rightarrow> nat" where
  "hex_value c =
     (let n = of_char c :: nat
      in if n \<le> 57 then n - 48 else if n \<le> 70 then n - 55 else n - 87)"

definition hex_digit :: "nat \<Rightarrow> char" where
  "hex_digit n = ''0123456789abcdef'' ! n"

text \<open>\<open>tolower\<close> on hexadecimal digits.\<close>
definition hex_lower :: "char \<Rightarrow> char" where
  "hex_lower c = hex_digit (hex_value c)"

text \<open>The format \<open>%02x\<close> of a byte.\<close>
definition byte_hex :: "byte \<Rightarrow> string" where
  "byte_hex b = [hex_digit (unat b div 16), hex_digit (unat b mod 16)]"

text \<open>The conversion \<open>%2hhx\<close> at a position that holds two hexadecimal digits.\<close>
fun scan_bytes :: "string \<Rightarrow> bytes" where
  "scan_bytes (a # b # cs) = of_nat (16 * hex_value a + hex_value b) # scan_bytes cs"
| "scan_bytes _ = []"

section \<open>Data\<close>

abbreviation (input) "HASH_TYPE_MD5 \<equiv> (1::u32)"
abbreviation (input) "HASH_TYPE_SHA1 \<equiv> (2::u32)"
abbreviation (input) "HASH_TYPE_SHA224 \<equiv> (3::u32)"
abbreviation (input) "HASH_TYPE_SHA256 \<equiv> (4::u32)"
abbreviation (input) "HASH_TYPE_SHA512 \<equiv> (5::u32)"
abbreviation (input) "HASH_FLAG_FINAL \<equiv> (1::u32)"

record ('ctx, 'md) Hash =
  iType :: u32
  iSize :: u32
  pData :: "bytes option"
  CTX :: "'ctx option"
  md :: "'md option"
  iFlags :: u32

record ('ctx, 'md) BlockId =
  pHash :: "('ctx, 'md) Hash option"
  uuidDataType :: uuid
  iLength :: u64

text \<open>The functions of OpenSSL: a result of \<^term>\<open>None\<close> is their failure.\<close>
record ('ctx, 'md) evp =
  EVP_MD_fetch :: "string \<Rightarrow> 'md option"
  EVP_MD_CTX_new :: "'ctx option"
  EVP_DigestInit_ex2 :: "'ctx \<Rightarrow> 'md \<Rightarrow> 'ctx option"
  EVP_DigestUpdate :: "'ctx \<Rightarrow> bytes \<Rightarrow> 'ctx option"
  EVP_DigestFinal_ex :: "'ctx \<Rightarrow> bytes option"

text \<open>\<open>EVP_MAX_MD_SIZE\<close>\<close>
abbreviation (input) "EVP_MAX_MD_SIZE \<equiv> (64::nat)"

definition is_final :: "('ctx, 'md) Hash \<Rightarrow> bool" where
  "is_final h \<longleftrightarrow> iFlags h AND HASH_FLAG_FINAL \<noteq> 0"

section \<open>Hashes\<close>

text \<open>\<open>same\<close> is the test whether the two pointers are equal.\<close>
fun Hash_IsEqual ::
  "bool \<Rightarrow> ('ctx, 'md) Hash option \<Rightarrow> ('ctx, 'md) Hash option \<Rightarrow> bool option" where
  "Hash_IsEqual same None b = Some False"
| "Hash_IsEqual same (Some a) None = Some False"
| "Hash_IsEqual same (Some a) (Some b) =
     (case (pData a, pData b) of
        (Some x, Some y) \<Rightarrow>
          if \<not> is_final a then Some False
          else if \<not> is_final b then Some False
          else if same then Some True
          else if iSize a \<noteq> iSize b then Some False
          else if length x < unat (iSize a) \<or> length y < unat (iSize a) then None
          else Some (bytes_cmp (take (unat (iSize a)) x) (take (unat (iSize a)) y) = 0)
      | _ \<Rightarrow> Some False)"

text \<open>
  The buffer has \<open>iSize * 2 + 1\<close> characters, computed with 32 bits; the loop writes two digits and a
  terminator per byte.
\<close>
definition Hash_ToText :: "bool \<Rightarrow> ('ctx, 'md) Hash option \<Rightarrow> string option option" where
  "Hash_ToText calloc_ok p_pHash =
     (case p_pHash of
        None \<Rightarrow> Some None
      | Some h \<Rightarrow>
          if \<not> is_final h then Some None
          else if \<not> calloc_ok then Some None
          else if iSize h = 0 then Some (Some [])
          else if unat (iSize h * 2 + 1) < 2 * unat (iSize h) + 1 then None
          else (case pData h of
             None \<Rightarrow> None
           | Some d \<Rightarrow>
               if length d < unat (iSize h) then None
               else Some (Some (concat (map byte_hex (take (unat (iSize h)) d))))))"

definition Hash_Get_OpenSSL_Name :: "u32 \<Rightarrow> string option" where
  "Hash_Get_OpenSSL_Name t =
     (if t = HASH_TYPE_MD5 then Some ''MD5''
      else if t = HASH_TYPE_SHA1 then Some ''SHA1''
      else if t = HASH_TYPE_SHA224 then Some ''SHA224''
      else if t = HASH_TYPE_SHA256 then Some ''SHA256''
      else if t = HASH_TYPE_SHA512 then Some ''SHA512''
      else None)"

definition Hash_Get_ExpectedDigestLength :: "u32 \<Rightarrow> u32" where
  "Hash_Get_ExpectedDigestLength t =
     (if t = HASH_TYPE_MD5 then 16
      else if t = HASH_TYPE_SHA1 then 20
      else if t = HASH_TYPE_SHA224 then 28
      else if t = HASH_TYPE_SHA256 then 32
      else if t = HASH_TYPE_SHA512 then 64
      else 0)"

text \<open>The result says whether the digest is ready; the hash is the one to destroy otherwise.\<close>
definition Hash_Init_OpenSSL ::
  "('ctx, 'md) evp \<Rightarrow> bool \<Rightarrow> ('ctx, 'md) Hash \<Rightarrow> bool \<times> ('ctx, 'md) Hash" where
  "Hash_Init_OpenSSL E calloc_ok h =
     (if \<not> calloc_ok then (False, h\<lparr>pData := None\<rparr>)
      else
        let h1 = h\<lparr>pData := Some (replicate EVP_MAX_MD_SIZE 0)\<rparr>
        in case Hash_Get_OpenSSL_Name (iType h) of
             None \<Rightarrow> (False, h1)
           | Some nm \<Rightarrow>
               (case EVP_MD_fetch E nm of
                  None \<Rightarrow> (False, h1)
                | Some m \<Rightarrow>
                    (case EVP_MD_CTX_new E of
                       None \<Rightarrow> (False, h1\<lparr>md := Some m\<rparr>)
                     | Some c \<Rightarrow>
                         (case EVP_DigestInit_ex2 E c m of
                            None \<Rightarrow> (False, h1\<lparr>md := Some m, CTX := Some c\<rparr>)
                          | Some c' \<Rightarrow> (True, h1\<lparr>md := Some m, CTX := Some c'\<rparr>)))))"

definition Hash_Create_Type ::
  "('ctx, 'md) evp \<Rightarrow> bool \<Rightarrow> bool \<Rightarrow> u32 \<Rightarrow> ('ctx, 'md) Hash option" where
  "Hash_Create_Type E calloc_ok data_ok p_iType =
     (if \<not> calloc_ok then None
      else case Hash_Init_OpenSSL E data_ok
          \<lparr>iType = p_iType, iSize = 0, pData = None, CTX = None, md = None, iFlags = 0\<rparr> of
        (True, h) \<Rightarrow> Some h
      | (False, h) \<Rightarrow> None)"

text \<open>\<open>config_type\<close> is the value of \<open>Config_getHashType\<close>.\<close>
definition Hash_Create ::
  "('ctx, 'md) evp \<Rightarrow> bool \<Rightarrow> bool \<Rightarrow> u32 \<Rightarrow> ('ctx, 'md) Hash option" where
  "Hash_Create E calloc_ok data_ok config_type = Hash_Create_Type E calloc_ok data_ok config_type"

definition Hash_Create_From_String ::
  "bool \<Rightarrow> bool \<Rightarrow> u32 \<Rightarrow> string option \<Rightarrow> ('ctx, 'md) Hash option" where
  "Hash_Create_From_String calloc_ok data_ok p_iType p_sHash =
     (case p_sHash of
        None \<Rightarrow> None
      | Some s \<Rightarrow>
          let expected = Hash_Get_ExpectedDigestLength p_iType
          in if expected = 0 then None
             else if length s \<noteq> unat expected * 2 then None
             else if \<not> list_all isxdigit s then None
             else if \<not> calloc_ok then None
             else if \<not> data_ok then None
             else Some \<lparr>iType = p_iType, iSize = expected, pData = Some (scan_bytes s), CTX = None,
                        md = None, iFlags = HASH_FLAG_FINAL\<rparr>)"

text \<open>The guards \<open>Hash_Update\<close>, \<open>Hash_Update_File\<close> and \<open>Hash_Finalize\<close> share.\<close>
definition hash_open :: "('ctx, 'md) Hash \<Rightarrow> bool" where
  "hash_open h \<longleftrightarrow> pData h \<noteq> None \<and> iType h > 0 \<and> \<not> is_final h"

text \<open>A null digest context passed to OpenSSL is undefined.\<close>
definition digest_update ::
  "('ctx, 'md) evp \<Rightarrow> bytes \<Rightarrow> ('ctx, 'md) Hash \<Rightarrow> (bool \<times> ('ctx, 'md) Hash) option" where
  "digest_update E d h = do {
     c \<leftarrow> CTX h;
     Some (case EVP_DigestUpdate E c d of None \<Rightarrow> (False, h) | Some c' \<Rightarrow> (True, h\<lparr>CTX := Some c'\<rparr>)) }"

definition Hash_Update ::
  "('ctx, 'md) evp \<Rightarrow> ('ctx, 'md) Hash option \<Rightarrow> bytes \<Rightarrow> u32 \<Rightarrow> (bool \<times> ('ctx, 'md) Hash option) option" where
  "Hash_Update E p_pHash p_pData p_iLength =
     (case p_pHash of
        None \<Rightarrow> Some (False, None)
      | Some h \<Rightarrow>
          if \<not> hash_open h then Some (False, Some h)
          else if length p_pData < unat p_iLength then None
          else do {
            (ok, h') \<leftarrow> digest_update E (take (unat p_iLength) p_pData) h;
            Some (ok, Some h') })"

text \<open>
  A stream of the C library: its bytes, the position, and the place of a read error if there is one.
  \<open>fread\<close> returns what it could read, \<open>rewind\<close> sets the position to the start.
\<close>
record FILE =
  fdata :: bytes
  fpos :: nat
  ferror_at :: "nat option"

definition fbytes :: "FILE \<Rightarrow> bytes" where
  "fbytes f = (case ferror_at f of None \<Rightarrow> fdata f | Some e \<Rightarrow> take e (fdata f))"

definition freadable :: "FILE \<Rightarrow> bytes" where
  "freadable f = drop (fpos f) (fbytes f)"

definition fread :: "nat \<Rightarrow> FILE \<Rightarrow> bytes \<times> FILE" where
  "fread n f = (let d = take n (freadable f) in (d, f\<lparr>fpos := fpos f + length d\<rparr>))"

definition rewind :: "FILE \<Rightarrow> FILE" where
  "rewind f = f\<lparr>fpos := 0\<rparr>"

lemma freadable_fread:
  "freadable (snd (fread n f)) = drop n (freadable f)"
proof -
  have *: "drop (p + min (length xs - p) n) xs = drop n (drop p xs)" for p and xs :: bytes
    by (cases "length xs - p \<le> n") (simp_all add: min_def add.commute)
  have "fbytes (snd (fread n f)) = fbytes f"
    by (simp add: fbytes_def fread_def Let_def split: option.split)
  then show ?thesis by (simp add: freadable_def fread_def Let_def *)
qed

text \<open>The loop of \<open>Hash_Update_File\<close>, 4096 bytes at a time until nothing more is read.\<close>
function file_loop ::
  "('ctx, 'md) evp \<Rightarrow> FILE \<Rightarrow> ('ctx, 'md) Hash \<Rightarrow> (bool \<times> FILE \<times> ('ctx, 'md) Hash) option" where
  "file_loop E f h =
     (let (data, f1) = fread 4096 f
      in if length data = 0 then Some (True, rewind f1, h)
         else do {
           (ok, h1) \<leftarrow> digest_update E data h;
           (if ok then file_loop E f1 h1 else Some (False, rewind f1, h1)) })"
  by pat_completeness auto
termination
proof (relation "measure (\<lambda>(E, f, h). length (freadable f))", goal_cases)
  case (2 E f h x data f1)
  then have "f1 = snd (fread 4096 f)" and "freadable f \<noteq> []"
    by (auto simp: fread_def Let_def split: prod.splits)
  then show ?case by (simp add: freadable_fread)
qed simp

definition Hash_Update_File ::
  "('ctx, 'md) evp \<Rightarrow> ('ctx, 'md) Hash option \<Rightarrow> FILE option
    \<Rightarrow> (bool \<times> FILE option \<times> ('ctx, 'md) Hash option) option" where
  "Hash_Update_File E p_pHash file =
     (case p_pHash of
        None \<Rightarrow> Some (False, file, None)
      | Some h \<Rightarrow>
          if \<not> hash_open h then Some (False, file, Some h)
          else (case file of
             None \<Rightarrow> Some (False, None, Some h)
           | Some f \<Rightarrow> do { (ok, f', h') \<leftarrow> file_loop E f h; Some (ok, Some f', Some h') }))"

text \<open>The digest is written to the start of the buffer of \<open>EVP_MAX_MD_SIZE\<close> bytes.\<close>
definition Hash_Finalize ::
  "('ctx, 'md) evp \<Rightarrow> ('ctx, 'md) Hash option \<Rightarrow> (bool \<times> ('ctx, 'md) Hash option) option" where
  "Hash_Finalize E p_pHash =
     (case p_pHash of
        None \<Rightarrow> Some (False, None)
      | Some h \<Rightarrow>
          if \<not> hash_open h then Some (False, Some h)
          else do {
            c \<leftarrow> CTX h;
            (case EVP_DigestFinal_ex E c of
               None \<Rightarrow> Some (False, Some h)
             | Some dig \<Rightarrow>
                 if length (the (pData h)) < length dig then None
                 else Some (True, Some (h\<lparr>pData := Some (dig @ drop (length dig) (the (pData h))),
                        iSize := of_nat (length dig), iFlags := iFlags h OR HASH_FLAG_FINAL\<rparr>))) })"

fun Hash_BinaryLength :: "('ctx, 'md) Hash option \<Rightarrow> u32" where
  "Hash_BinaryLength None = 0"
| "Hash_BinaryLength (Some h) = iSize h + 8"

fun Hash_DigestLength :: "('ctx, 'md) Hash option \<Rightarrow> u32" where
  "Hash_DigestLength None = 0"
| "Hash_DigestLength (Some h) = iSize h"

fun Hash_StringLength :: "('ctx, 'md) Hash option \<Rightarrow> u32" where
  "Hash_StringLength None = 0"
| "Hash_StringLength (Some h) = iSize h * 2 + 1"

text \<open>What a hash owns.\<close>
datatype hash_part = HashData | HashContext | HashAlgorithm | HashStruct

fun Hash_Destroy :: "('ctx, 'md) Hash option \<Rightarrow> hash_part list" where
  "Hash_Destroy None = []"
| "Hash_Destroy (Some h) =
     (if pData h \<noteq> None then [HashData] else [])
     @ (if CTX h \<noteq> None then [HashContext] else [])
     @ (if md h \<noteq> None then [HashAlgorithm] else [])
     @ [HashStruct]"

definition Hash_Clone ::
  "bool \<Rightarrow> bool \<Rightarrow> ('ctx, 'md) Hash option \<Rightarrow> ('ctx, 'md) Hash option option" where
  "Hash_Clone calloc_ok data_ok p_pSource =
     (case p_pSource of
        None \<Rightarrow> Some None
      | Some h \<Rightarrow>
          if iFlags h AND HASH_FLAG_FINAL \<noteq> HASH_FLAG_FINAL then Some None
          else if \<not> calloc_ok then Some None
          else if \<not> data_ok then Some None
          else if iSize h \<noteq> 0 \<and> (pData h = None \<or> length (the (pData h)) < unat (iSize h)) then None
          else Some (Some \<lparr>iType = iType h, iSize = iSize h,
                 pData = Some (if iSize h = 0 then [] else take (unat (iSize h)) (the (pData h))),
                 CTX = None, md = None, iFlags = HASH_FLAG_FINAL\<rparr>))"

section \<open>Block identifiers\<close>

text \<open>\<open>same\<close> and \<open>same_hash\<close> are the tests whether the pointers to the two identifiers, and those to
  their hashes, are equal.\<close>
fun BlockId_IsEqual ::
  "(uuid \<Rightarrow> uuid \<Rightarrow> int) \<Rightarrow> bool \<Rightarrow> bool \<Rightarrow> ('ctx, 'md) BlockId option \<Rightarrow> ('ctx, 'md) BlockId option \<Rightarrow> bool option" where
  "BlockId_IsEqual uuid_compare same same_hash None b = Some False"
| "BlockId_IsEqual uuid_compare same same_hash (Some a) None = Some False"
| "BlockId_IsEqual uuid_compare same same_hash (Some a) (Some b) =
     (if same then Some True
      else do {
        let u = uuid_compare (uuidDataType a) (uuidDataType b) = 0;
        h \<leftarrow> Hash_IsEqual same_hash (pHash a) (pHash b);
        let l = iLength a = iLength b;
        Some (u \<and> h \<and> l) })"

text \<open>The format \<open>%8.8jx\<close>: at least eight hexadecimal digits, as many as the number needs.\<close>
fun hex_digits :: "nat \<Rightarrow> string" where
  "hex_digits n = (if n < 16 then [hex_digit n] else hex_digits (n div 16) @ [hex_digit (n mod 16)])"

definition hex_padded :: "nat \<Rightarrow> string" where
  "hex_padded n = replicate (8 - length (hex_digits n)) (CHR ''0'') @ hex_digits n"

definition BlockId_ToText ::
  "(uuid \<Rightarrow> string) \<Rightarrow> bool \<Rightarrow> bool \<Rightarrow> ('ctx, 'md) BlockId option \<Rightarrow> string option option" where
  "BlockId_ToText uuid_unparse calloc_ok print_ok p_pA =
     (case p_pA of
        None \<Rightarrow> Some None
      | Some b \<Rightarrow> do {
          t \<leftarrow> Hash_ToText calloc_ok (pHash b);
          Some (case t of
             None \<Rightarrow> None
           | Some hs \<Rightarrow>
               if print_ok
               then Some (uuid_unparse (uuidDataType b) @ ''-'' @ hex_padded (unat (iLength b)) @ ''-'' @ hs)
               else None) })"

definition BlockId_Create_Shallow :: "bool \<Rightarrow> ('ctx, 'md) BlockId option" where
  "BlockId_Create_Shallow calloc_ok =
     (if calloc_ok then Some \<lparr>pHash = None, uuidDataType = replicate 16 0, iLength = 0\<rparr> else None)"

definition BlockId_Create ::
  "('ctx, 'md) evp \<Rightarrow> bool \<Rightarrow> bool \<Rightarrow> bool \<Rightarrow> u32 \<Rightarrow> ('ctx, 'md) BlockId option" where
  "BlockId_Create E calloc_ok hash_ok data_ok config_type =
     (case BlockId_Create_Shallow calloc_ok of
        None \<Rightarrow> None
      | Some b \<Rightarrow>
          (case Hash_Create E hash_ok data_ok config_type of
             None \<Rightarrow> None
           | Some h \<Rightarrow> Some (b\<lparr>pHash := Some h\<rparr>)))"

fun BlockId_StringLength :: "('ctx, 'md) BlockId option \<Rightarrow> u32" where
  "BlockId_StringLength None = 0"
| "BlockId_StringLength (Some b) = 37 + Hash_StringLength (pHash b) + 9"

text \<open>The parts of the hash, then the identifier itself.\<close>
fun BlockId_Destroy :: "('ctx, 'md) BlockId option \<Rightarrow> hash_part option list" where
  "BlockId_Destroy None = []"
| "BlockId_Destroy (Some b) =
     (if pHash b \<noteq> None then map Some (Hash_Destroy (pHash b)) else []) @ [None]"

definition BlockId_Clone ::
  "bool \<Rightarrow> bool \<Rightarrow> bool \<Rightarrow> ('ctx, 'md) BlockId option \<Rightarrow> ('ctx, 'md) BlockId option option" where
  "BlockId_Clone calloc_ok hash_ok data_ok p_pSource =
     (case p_pSource of
        None \<Rightarrow> Some None
      | Some b \<Rightarrow>
          (case BlockId_Create_Shallow calloc_ok of
             None \<Rightarrow> Some None
           | Some dest \<Rightarrow> do {
               h \<leftarrow> Hash_Clone hash_ok data_ok (pHash b);
               Some (case h of
                  None \<Rightarrow> None
                | Some h' \<Rightarrow> Some (dest\<lparr>pHash := Some h', uuidDataType := uuidDataType b, iLength := iLength b\<rparr>)) }))"

end
