(* ===== verification/Event_Block.thy ===== *)
theory Event_Block
  imports Uuids Hash_Ids
begin

text \<open>
  Events, data blocks, judgments and nugget descriptors: \<open>src/event.c\<close>, \<open>src/block.c\<close>,
  \<open>src/judgment.c\<close> and \<open>src/nugget.c\<close>.

  Every allocation names its site, and \<open>alloc\<close> tells which of them succeed; the allocations of list
  nodes are those of \<open>mem\<close>, as in the list component. A block and an event own their parents, so they
  are finite trees. The destructors return the sequence of the objects they release; undefined
  behaviour is \<^term>\<open>None\<close>.
\<close>

section \<open>Data\<close>

record EventId =
  uuidNuggetId :: uuid
  iSeconds :: u64
  iNanoSecs :: u64

text \<open>\<open>struct BlockData\<close>: pointers and file handles are opaque.\<close>
record BlockData =
  fileName :: "string option"
  pointer :: "addr option"
  file_handle :: "addr option"
  tempFile :: bool

definition no_data :: BlockData where
  "no_data = \<lparr>fileName = None, pointer = None, file_handle = None, tempFile = False\<rparr>"

text \<open>\<open>struct Block\<close>: identifier, identifier of the parent, parent, metadata, data.\<close>
datatype ('ctx, 'md) Block =
  Block "('ctx, 'md) BlockId option" "('ctx, 'md) BlockId option" "('ctx, 'md) Block option"
    "ntlv_list option" BlockData

text \<open>\<open>struct Event\<close>: identifier, identifier of the parent, parent, application type, block, metadata.\<close>
datatype ('ctx, 'md) Event =
  Event "EventId option" "EventId option" "('ctx, 'md) Event option" uuid "('ctx, 'md) Block option"
    "ntlv_list option"

record ('ctx, 'md) Judgment =
  uuidNuggetId :: uuid
  iSeconds :: u64
  iNanoSecs :: u64
  pEventId :: "EventId option"
  pBlockId :: "('ctx, 'md) BlockId option"
  iPriority :: byte
  pMetaDataList :: "ntlv_list option"
  iGID :: u32
  iSID :: u32
  Set_SfFlags :: u32
  Set_EntFlags :: u32
  Unset_SfFlags :: u32
  Unset_EntFlags :: u32
  sMessage :: "string option"

record Nugget =
  uuidNuggetId :: uuid
  uuidApplicationType :: uuid
  uuidNuggetType :: uuid
  sName :: "string option"
  sLocation :: "string option"
  sContact :: "string option"
  sNotes :: "string option"

text \<open>What a destructor releases.\<close>
datatype ('ctx, 'md) released =
    REventId EventId
  | RBlockId "('ctx, 'md) BlockId"
  | RItems "NTLVItem list"
  | RText string
  | RBlock
  | REvent
  | RJudgment
  | RNugget
  | RPayload
  | RHeaders "(string \<times> string) list"
  | RMessage
  | RStrings "string list"
  | RUuids "UUIDListNode list"
  | RBuffer bytes
  | RPointer addr

text \<open>The zeroed identifier of \<open>calloc\<close>.\<close>
definition no_uuid :: uuid where
  "no_uuid = replicate 16 0"

section \<open>Event identifiers\<close>

text \<open>\<open>clock\<close> is the result of \<open>clock_gettime\<close>.\<close>
definition EventId_Create :: "(string \<Rightarrow> bool) \<Rightarrow> (u64 \<times> u64) option \<Rightarrow> EventId option" where
  "EventId_Create alloc clock =
     (case clock of
        None \<Rightarrow> None
      | Some (sec, nsec) \<Rightarrow>
          if \<not> alloc ''EventId_Create'' then None
          else Some \<lparr>EventId.uuidNuggetId = no_uuid, iSeconds = sec, iNanoSecs = nsec\<rparr>)"

definition EventId_Clone :: "(string \<Rightarrow> bool) \<Rightarrow> EventId option \<Rightarrow> EventId option" where
  "EventId_Clone alloc inp =
     (case inp of
        None \<Rightarrow> None
      | Some i \<Rightarrow>
          if \<not> alloc ''EventId_Clone'' then None
          else Some \<lparr>EventId.uuidNuggetId = EventId.uuidNuggetId i, iSeconds = EventId.iSeconds i,
                     iNanoSecs = EventId.iNanoSecs i\<rparr>)"

fun EventId_Destroy :: "EventId option \<Rightarrow> ('ctx, 'md) released list" where
  "EventId_Destroy None = []"
| "EventId_Destroy (Some i) = [REventId i]"

section \<open>Blocks\<close>

text \<open>The list of metadata as every owner creates it.\<close>
definition new_metadata :: "(uuid \<Rightarrow> uuid \<Rightarrow> int) \<Rightarrow> (string \<Rightarrow> bool) \<Rightarrow> ntlv_list option" where
  "new_metadata uuid_compare alloc =
     NTLVList_Create uuid_compare (alloc ''List_Create'') (alloc ''List_Create.lock'')
       (alloc ''NTLV_Clone'') (alloc ''NTLV_Clone.data'')"

definition Block_Create ::
  "('ctx, 'md) evp \<Rightarrow> (uuid \<Rightarrow> uuid \<Rightarrow> int) \<Rightarrow> (string \<Rightarrow> bool) \<Rightarrow> u32 \<Rightarrow> ('ctx, 'md) Block option" where
  "Block_Create E uuid_compare alloc config_type =
     (if \<not> alloc ''Block_Create'' then None
      else case BlockId_Create E (alloc ''BlockId_Create'') (alloc ''Hash_Create'')
          (alloc ''Hash_Create.data'') config_type of
        None \<Rightarrow> None
      | Some i \<Rightarrow>
          (case new_metadata uuid_compare alloc of
             None \<Rightarrow> None
           | Some m \<Rightarrow> Some (Block (Some i) None None (Some m) no_data)))"

text \<open>The items a list of metadata releases.\<close>
fun release_metadata :: "ntlv_list option \<Rightarrow> ('ctx, 'md) released list option" where
  "release_metadata None = Some []"
| "release_metadata (Some l) = do { s \<leftarrow> List_Destroy (Some l) []; Some [RItems s] }"

fun release_block_id :: "('ctx, 'md) BlockId option \<Rightarrow> ('ctx, 'md) released list" where
  "release_block_id None = []"
| "release_block_id (Some i) = [RBlockId i]"

text \<open>\<open>Block_Destroy\<close> releases neither the parent block nor the data.\<close>
fun Block_Destroy :: "('ctx, 'md) Block option \<Rightarrow> ('ctx, 'md) released list option" where
  "Block_Destroy None = Some []"
| "Block_Destroy (Some (Block i pid par meta d)) = do {
     ms \<leftarrow> release_metadata meta;
     Some (release_block_id i @ release_block_id pid @ ms @ [RBlock]) }"

text \<open>
  The result is the copy, or nothing with what the failed attempt released. The parent block and the
  data are not copied.
\<close>
definition Block_Clone ::
  "(addr \<Rightarrow> bool) \<Rightarrow> (string \<Rightarrow> bool) \<Rightarrow> ('ctx, 'md) Block option
    \<Rightarrow> (('ctx, 'md) Block option \<times> ('ctx, 'md) released list) option" where
  "Block_Clone mem alloc p_pSource =
     (case p_pSource of
        None \<Rightarrow> Some (None, [])
      | Some (Block i pid par meta d) \<Rightarrow>
          if \<not> alloc ''Block_Clone'' then Some (None, [])
          else do {
            i' \<leftarrow> BlockId_Clone (alloc ''BlockId_Clone'') (alloc ''Hash_Clone'') (alloc ''Hash_Clone.data'') i;
            (case i' of
               None \<Rightarrow> do {
                 rs \<leftarrow> Block_Destroy (Some (Block None None None None no_data));
                 Some (None, rs) }
             | Some i1 \<Rightarrow> do {
                 pid' \<leftarrow> (case pid of
                     None \<Rightarrow> Some None
                   | Some p \<Rightarrow> BlockId_Clone (alloc ''BlockId_Clone.parent'') (alloc ''Hash_Clone'')
                                 (alloc ''Hash_Clone.data'') (Some p));
                 (if pid \<noteq> None \<and> pid' = None then do {
                    rs \<leftarrow> Block_Destroy (Some (Block (Some i1) None None None no_data));
                    Some (None, rs) }
                  else do {
                    (m, _, _) \<leftarrow> List_Clone mem (alloc ''List_Create'') (alloc ''List_Create.lock'') True meta [];
                    (if m = None then do {
                       rs \<leftarrow> Block_Destroy (Some (Block (Some i1) pid' None None no_data));
                       Some (None, rs) }
                     else Some (Some (Block (Some i1) pid' None m no_data), [])) }) }) })"

definition Block_MetaData_Add ::
  "(addr \<Rightarrow> bool) \<Rightarrow> (string \<Rightarrow> bool) \<Rightarrow> ('ctx, 'md) Block option \<Rightarrow> uuid \<Rightarrow> uuid \<Rightarrow> bytes option \<Rightarrow> u32
    \<Rightarrow> (bool \<times> ('ctx, 'md) Block option) option" where
  "Block_MetaData_Add mem alloc block nm ty data sz =
     (case block of
        None \<Rightarrow> Some (False, None)
      | Some (Block i pid par meta d) \<Rightarrow>
          if data = None \<and> sz \<noteq> 0 then Some (False, block)
          else do {
            (ok, meta') \<leftarrow> NTLVList_Add mem (alloc ''NTLVList_Add'') (alloc ''NTLVList_Add.data'') meta nm ty sz data;
            Some (ok, Some (Block i pid par meta' d)) })"

text \<open>The characters of a C string as bytes; the buffer ends with a null byte.\<close>
definition chars :: "string \<Rightarrow> bytes" where
  "chars s = map of_char s"

definition cstring :: "string \<Rightarrow> bytes" where
  "cstring s = chars s @ [0]"

text \<open>The length passed is \<open>strlen\<close>, without the terminator.\<close>
definition Block_MetaData_Add_FileName ::
  "(addr \<Rightarrow> bool) \<Rightarrow> (string \<Rightarrow> bool) \<Rightarrow> uuid_registry \<Rightarrow> ('ctx, 'md) Block option \<Rightarrow> string option
    \<Rightarrow> (bool \<times> ('ctx, 'md) Block option) option" where
  "Block_MetaData_Add_FileName mem alloc G block fname =
     (case (block, fname) of
        (Some b, Some f) \<Rightarrow> do {
          nm \<leftarrow> UUID_Get_UUID G (Some ''FILENAME'') UUID_TYPE_NTLV_NAME;
          (case nm of
             None \<Rightarrow> Some (False, block)
           | Some n \<Rightarrow> do {
               ty \<leftarrow> UUID_Get_UUID G (Some ''STRING'') UUID_TYPE_NTLV_TYPE;
               (case ty of
                  None \<Rightarrow> Some (False, block)
                | Some t \<Rightarrow> Block_MetaData_Add mem alloc block n t (Some (cstring f)) (of_nat (length f))) }) }
      | _ \<Rightarrow> Some (False, block))"

section \<open>Events\<close>

fun Event_Destroy :: "('ctx, 'md) Event option \<Rightarrow> ('ctx, 'md) released list option" where
  "Event_Destroy None = Some []"
| "Event_Destroy (Some (Event i pid par app blk meta)) = do {
     bs \<leftarrow> (case blk of None \<Rightarrow> Some [] | Some b \<Rightarrow> Block_Destroy (Some b));
     ms \<leftarrow> release_metadata meta;
     ps \<leftarrow> Event_Destroy par;
     Some (EventId_Destroy i @ bs @ ms @ ps @ EventId_Destroy pid @ [REvent]) }"

text \<open>As for blocks, the second component is what a failed attempt released.\<close>
definition Event_Create ::
  "('ctx, 'md) evp \<Rightarrow> (uuid \<Rightarrow> uuid \<Rightarrow> int) \<Rightarrow> (string \<Rightarrow> bool) \<Rightarrow> (u64 \<times> u64) option \<Rightarrow> u32
    \<Rightarrow> (('ctx, 'md) Event option \<times> ('ctx, 'md) released list) option" where
  "Event_Create E uuid_compare alloc clock config_type =
     (if \<not> alloc ''Event_Create'' then Some (None, [])
      else case EventId_Create alloc clock of
        None \<Rightarrow> do {
          rs \<leftarrow> Event_Destroy (Some (Event None None None no_uuid None None));
          Some (None, rs) }
      | Some i \<Rightarrow>
          (case new_metadata uuid_compare alloc of
             None \<Rightarrow> do {
               rs \<leftarrow> Event_Destroy (Some (Event (Some i) None None no_uuid None None));
               Some (None, rs) }
           | Some m \<Rightarrow>
               (case Block_Create E uuid_compare alloc config_type of
                  None \<Rightarrow> do {
                    rs \<leftarrow> Event_Destroy (Some (Event (Some i) None None no_uuid None (Some m)));
                    Some (None, rs) }
                | Some b \<Rightarrow> Some (Some (Event (Some i) None None no_uuid (Some b) (Some m)), []))))"

section \<open>Judgments\<close>

fun Judgment_Destroy :: "('ctx, 'md) Judgment option \<Rightarrow> ('ctx, 'md) released list option" where
  "Judgment_Destroy None = Some []"
| "Judgment_Destroy (Some j) = do {
     ms \<leftarrow> release_metadata (pMetaDataList j);
     Some (EventId_Destroy (pEventId j) @ release_block_id (pBlockId j) @ ms
       @ (case sMessage j of None \<Rightarrow> [] | Some t \<Rightarrow> [RText t]) @ [RJudgment]) }"

definition no_judgment :: "('ctx, 'md) Judgment" where
  "no_judgment = \<lparr>Judgment.uuidNuggetId = no_uuid, iSeconds = 0, iNanoSecs = 0, pEventId = None,
     pBlockId = None, iPriority = 0, pMetaDataList = None, iGID = 0, iSID = 0, Set_SfFlags = 0,
     Set_EntFlags = 0, Unset_SfFlags = 0, Unset_EntFlags = 0, sMessage = None\<rparr>"

text \<open>
  \<open>context\<close> is the identifier of the nugget of the current thread's context; without a context its
  use is undefined.
\<close>
definition Judgment_Create ::
  "(uuid \<Rightarrow> uuid \<Rightarrow> int) \<Rightarrow> (string \<Rightarrow> bool) \<Rightarrow> (u64 \<times> u64) option \<Rightarrow> uuid option \<Rightarrow> EventId option
    \<Rightarrow> ('ctx, 'md) BlockId option \<Rightarrow> (('ctx, 'md) Judgment option \<times> ('ctx, 'md) released list) option" where
  "Judgment_Create uuid_compare alloc clock context eventId blockId =
     (if eventId = None then Some (None, [])
      else if blockId = None then Some (None, [])
      else case clock of
        None \<Rightarrow> Some (None, [])
      | Some (sec, nsec) \<Rightarrow>
          if \<not> alloc ''Judgment_Create'' then Some (None, [])
          else (case new_metadata uuid_compare alloc of
             None \<Rightarrow> do { rs \<leftarrow> Judgment_Destroy (Some no_judgment); Some (None, rs) }
           | Some m \<Rightarrow>
               (let j1 = no_judgment\<lparr>pMetaDataList := Some m\<rparr>
                in case EventId_Clone alloc eventId of
                     None \<Rightarrow> do { rs \<leftarrow> Judgment_Destroy (Some j1); Some (None, rs) }
                   | Some e \<Rightarrow> do {
                       let j2 = j1\<lparr>pEventId := Some e\<rparr>;
                       b \<leftarrow> BlockId_Clone (alloc ''BlockId_Clone'') (alloc ''Hash_Clone'') (alloc ''Hash_Clone.data'') blockId;
                       (case b of
                          None \<Rightarrow> do { rs \<leftarrow> Judgment_Destroy (Some j2); Some (None, rs) }
                        | Some i \<Rightarrow> do {
                            u \<leftarrow> context;
                            Some (Some (j2\<lparr>pBlockId := Some i, Judgment.iSeconds := sec,
                              Judgment.iNanoSecs := nsec, Judgment.uuidNuggetId := u\<rparr>), []) }) })))"

section \<open>Nuggets\<close>

text \<open>The argument is not tested against null.\<close>
fun Nugget_Destroy :: "Nugget option \<Rightarrow> ('ctx, 'md) released list option" where
  "Nugget_Destroy None = None"
| "Nugget_Destroy (Some n) =
     (let text = (\<lambda>t. case t of None \<Rightarrow> [] | Some s \<Rightarrow> [RText s])
      in Some (text (sName n) @ text (sLocation n) @ text (sContact n) @ text (sNotes n) @ [RNugget]))"

end
