(* ===== verification/Metadata.thy ===== *)
theory Metadata
  imports Event_Block
begin

text \<open>
  The typed accessors of metadata lists, \<open>src/metadata.c\<close>: \<open>Metadata_Add\<close> and \<open>Metadata_Get\<close> are other
  names of \<open>NTLVList_Add\<close> and \<open>NTLVList_Get\<close>, and each accessor looks up the identifiers of a
  well known name and of a type in the registry \<open>G\<close>.

  A lookup returns a pointer into the list; the model returns the bytes there.
\<close>

section \<open>Operations\<close>

text \<open>The memory of a \<open>uint16_t\<close> on a little-endian host.\<close>
definition host16 :: "16 word \<Rightarrow> bytes" where
  "host16 w = [ucast w, ucast (drop_bit 8 w)]"

definition read16 :: "bytes \<Rightarrow> 16 word option" where
  "read16 d = (case d of a # b # _ \<Rightarrow> Some (ucast a OR push_bit 8 (ucast b)) | _ \<Rightarrow> None)"

definition Metadata_Add ::
  "(addr \<Rightarrow> bool) \<Rightarrow> (string \<Rightarrow> bool) \<Rightarrow> ntlv_list option \<Rightarrow> uuid \<Rightarrow> uuid \<Rightarrow> u32 \<Rightarrow> bytes option
    \<Rightarrow> (bool \<times> ntlv_list option) option" where
  "Metadata_Add mem alloc = NTLVList_Add mem (alloc ''NTLVList_Add'') (alloc ''NTLVList_Add.data'')"

definition Metadata_Get :: "ntlv_list option \<Rightarrow> uuid \<Rightarrow> uuid \<Rightarrow> (u32 \<times> bytes) option option" where
  "Metadata_Get l nm ty = NTLVList_Get l nm ty []"

text \<open>An accessor goes on with the identifier of a name, or fails when the registry has none.\<close>
definition with_uuid ::
  "uuid_registry \<Rightarrow> string \<Rightarrow> int \<Rightarrow> 'r \<Rightarrow> (uuid \<Rightarrow> 'r option) \<Rightarrow> 'r option" where
  "with_uuid G nm t failed k = do {
     u \<leftarrow> UUID_Get_UUID G (Some nm) t;
     (case u of None \<Rightarrow> Some failed | Some i \<Rightarrow> k i) }"

text \<open>\<open>strlen\<close> of a null pointer is undefined.\<close>
definition Metadata_Add_String ::
  "(addr \<Rightarrow> bool) \<Rightarrow> (string \<Rightarrow> bool) \<Rightarrow> uuid_registry \<Rightarrow> ntlv_list option \<Rightarrow> uuid \<Rightarrow> string option
    \<Rightarrow> (bool \<times> ntlv_list option) option" where
  "Metadata_Add_String mem alloc G l nm str =
     with_uuid G ''STRING'' UUID_TYPE_NTLV_TYPE (False, l) (\<lambda>ty. do {
       s \<leftarrow> str;
       Metadata_Add mem alloc l nm ty (of_nat (length s + 1)) (Some (cstring s)) })"

definition Metadata_Get_String :: "uuid_registry \<Rightarrow> ntlv_list option \<Rightarrow> uuid \<Rightarrow> (u32 \<times> bytes) option option" where
  "Metadata_Get_String G l nm =
     with_uuid G ''STRING'' UUID_TYPE_NTLV_TYPE None (\<lambda>ty. Metadata_Get l nm ty)"

definition Metadata_Add_IPv4 ::
  "(addr \<Rightarrow> bool) \<Rightarrow> (string \<Rightarrow> bool) \<Rightarrow> uuid_registry \<Rightarrow> ntlv_list option \<Rightarrow> uuid \<Rightarrow> bytes option
    \<Rightarrow> (bool \<times> ntlv_list option) option" where
  "Metadata_Add_IPv4 mem alloc G l nm ad =
     with_uuid G ''IPv4_ADDR'' UUID_TYPE_NTLV_TYPE (False, l) (\<lambda>ty. Metadata_Add mem alloc l nm ty 4 ad)"

definition Metadata_Get_IPv4 :: "uuid_registry \<Rightarrow> ntlv_list option \<Rightarrow> uuid \<Rightarrow> bytes option option" where
  "Metadata_Get_IPv4 G l nm =
     with_uuid G ''IPv4_ADDR'' UUID_TYPE_NTLV_TYPE None (\<lambda>ty. do {
       r \<leftarrow> Metadata_Get l nm ty;
       Some (map_option snd r) })"

definition Metadata_Add_IPv6 ::
  "(addr \<Rightarrow> bool) \<Rightarrow> (string \<Rightarrow> bool) \<Rightarrow> uuid_registry \<Rightarrow> ntlv_list option \<Rightarrow> uuid \<Rightarrow> bytes option
    \<Rightarrow> (bool \<times> ntlv_list option) option" where
  "Metadata_Add_IPv6 mem alloc G l nm ad =
     with_uuid G ''IPv6_ADDR'' UUID_TYPE_NTLV_TYPE (False, l) (\<lambda>ty. Metadata_Add mem alloc l nm ty 16 ad)"

definition Metadata_Get_IPv6 :: "uuid_registry \<Rightarrow> ntlv_list option \<Rightarrow> uuid \<Rightarrow> bytes option option" where
  "Metadata_Get_IPv6 G l nm =
     with_uuid G ''IPv6_ADDR'' UUID_TYPE_NTLV_TYPE None (\<lambda>ty. do {
       r \<leftarrow> Metadata_Get l nm ty;
       Some (map_option snd r) })"

definition Metadata_Add_Port ::
  "(addr \<Rightarrow> bool) \<Rightarrow> (string \<Rightarrow> bool) \<Rightarrow> uuid_registry \<Rightarrow> ntlv_list option \<Rightarrow> uuid \<Rightarrow> 16 word
    \<Rightarrow> (bool \<times> ntlv_list option) option" where
  "Metadata_Add_Port mem alloc G l nm port =
     with_uuid G ''PORT'' UUID_TYPE_NTLV_TYPE (False, l) (\<lambda>ty. Metadata_Add mem alloc l nm ty 2 (Some (host16 port)))"

text \<open>
  The port is read through the pointer into the list, and the pointer is then freed: the second
  component is the buffer that was freed. Reading fewer than two bytes is undefined.
\<close>
definition Metadata_Get_Port ::
  "uuid_registry \<Rightarrow> ntlv_list option \<Rightarrow> uuid \<Rightarrow> (16 word option \<times> bytes list) option" where
  "Metadata_Get_Port G l nm =
     with_uuid G ''PORT'' UUID_TYPE_NTLV_TYPE (None, []) (\<lambda>ty. do {
       r \<leftarrow> Metadata_Get l nm ty;
       (case r of
          None \<Rightarrow> Some (None, [])
        | Some (sz, d) \<Rightarrow> do { p \<leftarrow> read16 d; Some (Some p, [d]) }) })"

section \<open>Accessors of the well known names\<close>

text \<open>A string under a well known name.\<close>
definition add_named_string ::
  "string \<Rightarrow> (addr \<Rightarrow> bool) \<Rightarrow> (string \<Rightarrow> bool) \<Rightarrow> uuid_registry \<Rightarrow> ntlv_list option \<Rightarrow> string option
    \<Rightarrow> (bool \<times> ntlv_list option) option" where
  "add_named_string which mem alloc G l str =
     with_uuid G which UUID_TYPE_NTLV_NAME (False, l) (\<lambda>nm. Metadata_Add_String mem alloc G l nm str)"

definition Metadata_Add_Filename where
  "Metadata_Add_Filename = add_named_string ''FILENAME''"
definition Metadata_Add_Hostname where
  "Metadata_Add_Hostname = add_named_string ''HOSTNAME''"
definition Metadata_Add_URI where
  "Metadata_Add_URI = add_named_string ''URI''"
definition Metadata_Add_HttpRequest where
  "Metadata_Add_HttpRequest = add_named_string ''HTTP_REQUEST''"
definition Metadata_Add_HttpResponse where
  "Metadata_Add_HttpResponse = add_named_string ''HTTP_RESPONSE''"
definition Metadata_Add_Report where
  "Metadata_Add_Report = add_named_string ''REPORT''"
definition Metadata_Add_CVE where
  "Metadata_Add_CVE = add_named_string ''CVE''"
definition Metadata_Add_BID where
  "Metadata_Add_BID = add_named_string ''BID''"
definition Metadata_Add_OSVDB where
  "Metadata_Add_OSVDB = add_named_string ''OSVDB''"

text \<open>\<open>asprintf\<close> with a null argument for \<open>%s\<close> is undefined.\<close>
definition Metadata_Add_MalwareName ::
  "(addr \<Rightarrow> bool) \<Rightarrow> (string \<Rightarrow> bool) \<Rightarrow> uuid_registry \<Rightarrow> ntlv_list option \<Rightarrow> string option \<Rightarrow> string option
    \<Rightarrow> (bool \<times> ntlv_list option) option" where
  "Metadata_Add_MalwareName mem alloc G l vendor malware =
     with_uuid G ''MALWARENAME'' UUID_TYPE_NTLV_NAME (False, l) (\<lambda>nm. do {
       v \<leftarrow> vendor;
       m \<leftarrow> malware;
       (if \<not> alloc ''Metadata_Add_MalwareName'' then Some (False, l)
        else Metadata_Add_String mem alloc G l nm (Some (v @ '':'' @ m))) })"

definition Metadata_Add_IPv4_Source where
  "Metadata_Add_IPv4_Source mem alloc G l ad =
     with_uuid G ''SOURCE'' UUID_TYPE_NTLV_NAME (False, l) (\<lambda>nm. Metadata_Add_IPv4 mem alloc G l nm ad)"

definition Metadata_Get_IPv4_Source where
  "Metadata_Get_IPv4_Source G l =
     with_uuid G ''SOURCE'' UUID_TYPE_NTLV_NAME None (\<lambda>nm. Metadata_Get_IPv4 G l nm)"

definition Metadata_Add_IPv4_Destination where
  "Metadata_Add_IPv4_Destination mem alloc G l ad =
     with_uuid G ''DEST'' UUID_TYPE_NTLV_NAME (False, l) (\<lambda>nm. Metadata_Add_IPv4 mem alloc G l nm ad)"

definition Metadata_Get_IPv4_Destination where
  "Metadata_Get_IPv4_Destination G l =
     with_uuid G ''DEST'' UUID_TYPE_NTLV_NAME None (\<lambda>nm. Metadata_Get_IPv4 G l nm)"

definition Metadata_Add_IPv6_Source where
  "Metadata_Add_IPv6_Source mem alloc G l ad =
     with_uuid G ''SOURCE'' UUID_TYPE_NTLV_NAME (False, l) (\<lambda>nm. Metadata_Add_IPv6 mem alloc G l nm ad)"

definition Metadata_Get_IPv6_Source where
  "Metadata_Get_IPv6_Source G l =
     with_uuid G ''SOURCE'' UUID_TYPE_NTLV_NAME None (\<lambda>nm. Metadata_Get_IPv6 G l nm)"

definition Metadata_Add_IPv6_Destination where
  "Metadata_Add_IPv6_Destination mem alloc G l ad =
     with_uuid G ''DEST'' UUID_TYPE_NTLV_NAME (False, l) (\<lambda>nm. Metadata_Add_IPv6 mem alloc G l nm ad)"

definition Metadata_Get_IPv6_Destination where
  "Metadata_Get_IPv6_Destination G l =
     with_uuid G ''DEST'' UUID_TYPE_NTLV_NAME None (\<lambda>nm. Metadata_Get_IPv6 G l nm)"

definition Metadata_Add_Port_Source where
  "Metadata_Add_Port_Source mem alloc G l port =
     with_uuid G ''SOURCE'' UUID_TYPE_NTLV_NAME (False, l) (\<lambda>nm. Metadata_Add_Port mem alloc G l nm port)"

definition Metadata_Get_Port_Source where
  "Metadata_Get_Port_Source G l =
     with_uuid G ''SOURCE'' UUID_TYPE_NTLV_NAME (None, []) (\<lambda>nm. Metadata_Get_Port G l nm)"

definition Metadata_Add_Port_Destination where
  "Metadata_Add_Port_Destination mem alloc G l port =
     with_uuid G ''DEST'' UUID_TYPE_NTLV_NAME (False, l) (\<lambda>nm. Metadata_Add_Port mem alloc G l nm port)"

definition Metadata_Get_Port_Destination where
  "Metadata_Get_Port_Destination G l =
     with_uuid G ''DEST'' UUID_TYPE_NTLV_NAME (None, []) (\<lambda>nm. Metadata_Get_Port G l nm)"

end
