(* ===== verification/C_Text.thy ===== *)
theory C_Text
  imports Rzb_Prelude
begin

text \<open>
  Text functions of the C library that the sources call: the classification of characters, comparison
  without regard to case, and the conversions \<open>strtoumax\<close>, \<open>strtol\<close>, \<open>sscanf\<close> and \<open>%u\<close> between numbers
  and text.
\<close>

section \<open>Numbers and text\<close>

definition isspace :: "char \<Rightarrow> bool" where
  "isspace c \<longleftrightarrow> (let n = of_char c :: nat in n = 32 \<or> 9 \<le> n \<and> n \<le> 13)"

definition isdigit :: "char \<Rightarrow> bool" where
  "isdigit c \<longleftrightarrow> (let n = of_char c :: nat in 48 \<le> n \<and> n \<le> 57)"

definition digit_value :: "char \<Rightarrow> nat" where
  "digit_value c = of_char c - 48"

definition dec_value :: "string \<Rightarrow> nat" where
  "dec_value s = foldl (\<lambda>a c. 10 * a + digit_value c) 0 s"

definition dec_digit :: "nat \<Rightarrow> char" where
  "dec_digit n = ''0123456789'' ! n"

text \<open>The format \<open>%u\<close>.\<close>
fun decimal :: "nat \<Rightarrow> string" where
  "decimal n = (if n < 10 then [dec_digit n] else decimal (n div 10) @ [dec_digit (n mod 10)])"

text \<open>White space and an optional sign before the digits: whether it is negative, and the rest.\<close>
definition skip_sign :: "string \<Rightarrow> bool \<times> string" where
  "skip_sign s =
     (case dropWhile isspace s of
        [] \<Rightarrow> (False, [])
      | c # cs \<Rightarrow>
          if c = CHR ''-'' then (True, cs) else if c = CHR ''+'' then (False, cs) else (False, c # cs))"

text \<open>
  \<open>strtoumax\<close> in base ten: the value, whether \<open>errno\<close> is \<open>ERANGE\<close>, and the text from the end
  pointer on. A minus sign negates the value modulo the range of the type.
\<close>
definition strtoumax :: "string \<Rightarrow> nat \<times> bool \<times> string" where
  "strtoumax s =
     (let (neg, t) = skip_sign s;
          ds = takeWhile isdigit t;
          v = dec_value ds
      in if ds = [] then (0, False, s)
         else if v \<ge> 2 ^ 64 then (2 ^ 64 - 1, True, dropWhile isdigit t)
         else ((if neg then (2 ^ 64 - v) mod 2 ^ 64 else v), False, dropWhile isdigit t))"

text \<open>
  \<open>sscanf\<close> with \<open>%hu\<close> or \<open>%hhu\<close>: nothing is converted, or a value; a value the target type cannot
  represent is undefined.
\<close>
definition scan_unsigned :: "nat \<Rightarrow> string \<Rightarrow> nat option option" where
  "scan_unsigned max_value s =
     (let (neg, t) = skip_sign s;
          ds = takeWhile isdigit t;
          v = dec_value ds
      in if ds = [] then Some None
         else if v > max_value \<or> neg \<and> v \<noteq> 0 then None
         else Some (Some v))"

text \<open>The C string that starts a buffer.\<close>
definition c_text :: "bytes \<Rightarrow> string" where
  "c_text d = map (\<lambda>b. char_of (unat b)) (takeWhile (\<lambda>b. b \<noteq> 0) d)"

text \<open>\<open>strncasecmp\<close> and \<open>strcasecmp\<close> of the C library, as tests for equality.\<close>
definition tolower :: "char \<Rightarrow> char" where
  "tolower c = (let n = of_char c :: nat in if 65 \<le> n \<and> n \<le> 90 then char_of (n + 32) else c)"

definition strncasecmp_eq :: "string \<Rightarrow> string \<Rightarrow> nat \<Rightarrow> bool" where
  "strncasecmp_eq a b n \<longleftrightarrow> map tolower (take n a) = map tolower (take n b)"

definition strcasecmp_eq :: "string \<Rightarrow> string \<Rightarrow> bool" where
  "strcasecmp_eq a b \<longleftrightarrow> map tolower a = map tolower b"

text \<open>The value of a character as a digit, 36 when it is none.\<close>
definition digit_of :: "char \<Rightarrow> nat" where
  "digit_of c = (let n = of_char (tolower c) :: nat in
     if isdigit c then n - 48 else if 97 \<le> n \<and> n \<le> 122 then n - 87 else 36)"

definition base_value :: "nat \<Rightarrow> string \<Rightarrow> nat" where
  "base_value b s = foldl (\<lambda>a c. b * a + digit_of c) 0 s"

text \<open>The base that the start of a text selects, and the text after the prefix.\<close>
definition select_base :: "string \<Rightarrow> nat \<times> string" where
  "select_base t =
     (case t of
        c # x # h # cs \<Rightarrow>
          if c = CHR ''0'' \<and> tolower x = CHR ''x'' \<and> digit_of h < 16 then (16, h # cs)
          else if c = CHR ''0'' then (8, t) else (10, t)
      | c # cs \<Rightarrow> if c = CHR ''0'' then (8, t) else (10, t)
      | [] \<Rightarrow> (10, []))"

text \<open>
  \<open>strtol\<close> with base 0 for a \<open>long\<close> of 64 bits: the value, whether \<open>errno\<close> is \<open>ERANGE\<close>, and the text
  from the end pointer on. The end pointer is the start when there are no digits.
\<close>
definition strtol0 :: "string \<Rightarrow> int \<times> bool \<times> string" where
  "strtol0 s =
     (let (neg, t) = skip_sign s;
          (b, u) = select_base t;
          ds = takeWhile (\<lambda>c. digit_of c < b) u;
          rest = dropWhile (\<lambda>c. digit_of c < b) u;
          v = (if neg then - int (base_value b ds) else int (base_value b ds))
      in if ds = [] then (0, False, s)
         else if v > 2 ^ 63 - 1 then (2 ^ 63 - 1, True, rest)
         else if v < - (2 ^ 63) then (- (2 ^ 63), True, rest)
         else (v, False, rest))"

declare decimal.simps [simp del]

section \<open>Numbers as text\<close>

lemma below_10: "n < 10 \<longleftrightarrow> n \<in> {0, 1, 2, 3, 4, 5, 6, 7, 8, 9 :: nat}"
  unfolding insert_iff empty_iff by presburger

lemma dec_digit_laws [simp]:
  assumes "n < 10"
  shows "isdigit (dec_digit n)" and "digit_value (dec_digit n) = n" and "\<not> isspace (dec_digit n)"
    and "dec_digit n \<noteq> CHR ''-''" and "dec_digit n \<noteq> CHR ''+''"
  using assms unfolding below_10
  by (auto simp: isdigit_def digit_value_def dec_digit_def isspace_def)

lemma decimal_digits: "list_all isdigit (decimal n)"
proof (induction n rule: decimal.induct)
  case (1 n)
  then show ?case by (simp add: decimal.simps [of n])
qed

lemma dec_value_snoc [simp]: "dec_value (s @ [c]) = 10 * dec_value s + digit_value c"
  by (simp add: dec_value_def)

lemma dec_value_decimal [simp]: "dec_value (decimal n) = n"
proof (induction n rule: decimal.induct)
  case (1 n)
  have "n < 10 \<Longrightarrow> dec_value [dec_digit n] = n" by (simp add: dec_value_def)
  then show ?case using 1 by (simp add: decimal.simps [of n])
qed

lemma decimal_first:
  obtains d ds where "decimal n = dec_digit d # ds" and "d < 10"
proof (induction n arbitrary: thesis rule: decimal.induct)
  case (1 n)
  show ?case
  proof (cases "n < 10")
    case True
    then show ?thesis using 1(2) by (simp add: decimal.simps [of n])
  next
    case False
    obtain d ds where "decimal (n div 10) = dec_digit d # ds" "d < 10" using 1(1) [OF False] by blast
    then show ?thesis using 1(2) False by (simp add: decimal.simps [of n])
  qed
qed

lemma skip_sign_decimal [simp]: "skip_sign (decimal n) = (False, decimal n)"
  by (rule decimal_first [of n]) (simp add: skip_sign_def)

lemma takeWhile_decimal [simp]: "takeWhile isdigit (decimal n) = decimal n"
  using decimal_digits [of n] by (simp add: takeWhile_eq_all_conv list_all_iff)

lemma dropWhile_decimal [simp]: "dropWhile isdigit (decimal n) = []"
  using decimal_digits [of n] by (simp add: list_all_iff)

lemma decimal_not_Nil [simp]: "decimal n \<noteq> []"
  by (rule decimal_first [of n]) simp

lemma strtoumax_decimal:
  "strtoumax (decimal n) = (if n < 2 ^ 64 then (n, False, []) else (2 ^ 64 - 1, True, []))"
  by (simp add: strtoumax_def)

lemma scan_unsigned_decimal: "n \<le> m \<Longrightarrow> scan_unsigned m (decimal n) = Some (Some n)"
  by (simp add: scan_unsigned_def)

end
