(* ===== verification/Json_Env.thy ===== *)
theory Json_Env
  imports Metadata C_Text
begin

text \<open>
  What the JSON serialisation of \<open>src/json_buffer.c\<close> is built on: the functions of json-c, of libuuid,
  of OpenSSL's base64 filter and of the address conversion of the C library, which are parameters.

  A JSON object is a value: a function of json-c that changes an object returns the changed object.
  The code adds a container to its parent first and fills it afterwards; as the tree owns its parts,
  the model fills the container and adds it then.
\<close>

section \<open>Parameters\<close>

datatype json_type =
    json_type_null
  | json_type_boolean
  | json_type_double
  | json_type_int
  | json_type_object
  | json_type_array
  | json_type_string

text \<open>
  The functions of json-c the code calls. A constructor returns nothing when it fails. The lookup
  \<open>json_object_object_get\<close> returns nothing for a missing member and for a member that is null, which
  \<open>json_object_object_get_ex\<close> distinguishes. The tokener returns the object, whether it reports success,
  and the offset where it stopped.
\<close>
record 'j jsonc =
  json_object_get_type :: "'j \<Rightarrow> json_type"
  json_object_new_object :: "'j option"
  json_object_new_array :: "'j option"
  json_object_new_boolean :: "bool \<Rightarrow> 'j option"
  json_object_new_uint64 :: "u64 \<Rightarrow> 'j option"
  json_object_new_int :: "int \<Rightarrow> 'j option"
  json_object_new_string :: "string \<Rightarrow> 'j option"
  json_object_object_add :: "'j \<Rightarrow> string \<Rightarrow> 'j \<Rightarrow> 'j"
  json_object_object_get :: "'j \<Rightarrow> string \<Rightarrow> 'j option"
  json_object_object_get_ex :: "'j \<Rightarrow> string \<Rightarrow> bool"
  json_object_get_boolean :: "'j \<Rightarrow> bool"
  json_object_get_string :: "'j \<Rightarrow> string option"
  json_object_get_int :: "'j \<Rightarrow> int"
  json_object_array_add :: "'j \<Rightarrow> 'j \<Rightarrow> 'j"
  json_object_array_length :: "'j \<Rightarrow> nat"
  json_object_array_get_idx :: "'j \<Rightarrow> nat \<Rightarrow> 'j option"
  json_tokener_parse_ex :: "string \<Rightarrow> 'j option \<times> bool \<times> nat"
  json_object_to_json_string_ext :: "'j \<Rightarrow> string"
  json_tokener_parse :: "string \<Rightarrow> 'j option"
  json_object_to_json_string :: "'j \<Rightarrow> string"

text \<open>
  The surroundings of a call: the libraries, the registry of identifiers, and the outcomes of the
  allocations of the code itself, by the function that makes them, and of list nodes.
  \<open>e_BIO_write\<close> is the value \<open>BIO_write\<close> returns for a buffer and a length, \<open>e_b64_text\<close> what the
  memory filter holds after a flush, or nothing when the flush fails; \<open>e_BIO_read\<close> is what the filter
  decodes, or nothing for a negative result.
\<close>
record 'j json_env =
  e_js :: "'j jsonc"
  e_uuid_compare :: "uuid \<Rightarrow> uuid \<Rightarrow> int"
  e_uuid_parse :: "string \<Rightarrow> uuid option"
  e_uuid_unparse :: "uuid \<Rightarrow> string"
  e_BIO_write :: "bytes \<Rightarrow> int \<Rightarrow> int"
  e_b64_text :: "bytes \<Rightarrow> string option"
  e_BIO_read :: "string \<Rightarrow> bytes option"
  e_inet_ntop4 :: "bytes \<Rightarrow> string"
  e_inet_pton4 :: "string \<Rightarrow> bytes option"
  e_inet_ntop6 :: "bytes \<Rightarrow> string"
  e_inet_pton6 :: "string \<Rightarrow> bytes option"
  e_registry :: uuid_registry
  e_alloc :: "string \<Rightarrow> bool"
  e_mem :: "addr \<Rightarrow> bool"

end
