(* ===== verification/Json_Buffer.thy ===== *)
theory Json_Buffer
  imports Json_Env
begin

text \<open>
  The JSON serialisation of the library's data, \<open>src/json_buffer.c\<close>.

  A put operation returns whether it succeeded and the parent object as it is then: what was added
  before a failure stays. A get operation returns the value, or \<^term>\<open>None\<close> where the code returns
  false; the operations that can meet undefined behaviour return an \<open>option\<close> of that. What a failed get
  operation had built is released and leaves no trace in the model. The text of the log messages is
  not modelled.
\<close>

section \<open>Building blocks\<close>

text \<open>The type of a put operation on a parent that may be null.\<close>
type_synonym 'j put = "'j option \<Rightarrow> (bool \<times> 'j option) option"

text \<open>The tests for a null parent and a null name, then the addition of a new value.\<close>
definition put_value :: "'j json_env \<Rightarrow> string option \<Rightarrow> 'j option \<Rightarrow> 'j put" where
  "put_value E nm v parent =
     (case (parent, nm) of
        (Some p, Some n) \<Rightarrow>
          (case v of
             None \<Rightarrow> Some (False, parent)
           | Some j \<Rightarrow> Some (True, Some (json_object_object_add (e_js E) p n j)))
      | _ \<Rightarrow> Some (False, parent))"

text \<open>The same tests, then a new container that \<open>body\<close> fills.\<close>
definition put_container :: "'j json_env \<Rightarrow> string option \<Rightarrow> 'j option \<Rightarrow> 'j put \<Rightarrow> 'j put" where
  "put_container E nm new body parent =
     (case (parent, nm) of
        (Some p, Some n) \<Rightarrow>
          (case new of
             None \<Rightarrow> Some (False, parent)
           | Some c \<Rightarrow> do {
               (ok, c') \<leftarrow> body (Some c);
               (case c' of
                  None \<Rightarrow> None
                | Some d \<Rightarrow> Some (ok, Some (json_object_object_add (e_js E) p n d))) })
      | _ \<Rightarrow> Some (False, parent))"

text \<open>Puts in sequence; the first failure ends the sequence (\<open>JSONBUFFER_RETURN_PUT\<close>).\<close>
fun put_steps :: "'j put list \<Rightarrow> 'j put" where
  "put_steps [] c = Some (True, c)"
| "put_steps (f # fs) c = do {
     (ok, c') \<leftarrow> f c;
     (if ok then put_steps fs c' else Some (False, c')) }"

text \<open>A put that is made only for a pointer that is not null.\<close>
definition put_if :: "bool \<Rightarrow> 'j put \<Rightarrow> 'j put" where
  "put_if c f = (if c then f else (\<lambda>p. Some (True, p)))"

text \<open>The tests for a null parent and a null name, then the lookup of the member.\<close>
definition get_member :: "'j json_env \<Rightarrow> 'j option \<Rightarrow> string option \<Rightarrow> 'j option" where
  "get_member E parent nm =
     (case (parent, nm) of
        (Some p, Some n) \<Rightarrow> json_object_object_get (e_js E) p n
      | _ \<Rightarrow> None)"

text \<open>A member that must have the given type.\<close>
definition get_typed :: "'j json_env \<Rightarrow> json_type \<Rightarrow> 'j option \<Rightarrow> string option \<Rightarrow> 'j option" where
  "get_typed E t parent nm = do {
     ob \<leftarrow> get_member E parent nm;
     (if json_object_get_type (e_js E) ob = t then Some ob else None) }"

text \<open>Go on with the value of a get operation, or fail.\<close>
definition get_then :: "'a option option \<Rightarrow> ('a \<Rightarrow> 'b option option) \<Rightarrow> 'b option option" where
  "get_then r k = do {
     v \<leftarrow> r;
     (case v of None \<Rightarrow> Some None | Some x \<Rightarrow> k x) }"

section \<open>Names of the entries\<close>

definition JsonBuffer_NamedNTLVTypeMatches :: "'j json_env \<Rightarrow> string \<Rightarrow> uuid \<Rightarrow> bool option" where
  "JsonBuffer_NamedNTLVTypeMatches E nm ty = do {
     m \<leftarrow> UUID_Is_Named_UUID (e_uuid_compare E) (e_registry E) (Some nm) UUID_TYPE_NTLV_TYPE ty;
     Some (case m of None \<Rightarrow> False | Some b \<Rightarrow> b) }"

text \<open>A disjunction that stops at the first true operand.\<close>
definition or_else :: "bool option \<Rightarrow> bool option \<Rightarrow> bool option" where
  "or_else a b = do { x \<leftarrow> a; (if x then Some True else b) }"

definition JsonBuffer_NTLVTypeUsesStringValue :: "'j json_env \<Rightarrow> uuid \<Rightarrow> bool option" where
  "JsonBuffer_NTLVTypeUsesStringValue E ty =
     or_else (JsonBuffer_NamedNTLVTypeMatches E ''STRING'' ty)
      (or_else (JsonBuffer_NamedNTLVTypeMatches E ''PORT'' ty)
       (or_else (JsonBuffer_NamedNTLVTypeMatches E ''IPPROTO'' ty)
        (or_else (JsonBuffer_NamedNTLVTypeMatches E ''IPv4_ADDR'' ty)
          (JsonBuffer_NamedNTLVTypeMatches E ''IPv6_ADDR'' ty))))"

definition JsonBuffer_NTLVTypeUsesJsonValue :: "'j json_env \<Rightarrow> uuid \<Rightarrow> bool option" where
  "JsonBuffer_NTLVTypeUsesJsonValue E ty = JsonBuffer_NamedNTLVTypeMatches E ''JSON'' ty"

section \<open>Scalars\<close>

definition JsonBuffer_Put_bool :: "'j json_env \<Rightarrow> string option \<Rightarrow> bool \<Rightarrow> 'j put" where
  "JsonBuffer_Put_bool E nm v = put_value E nm (json_object_new_boolean (e_js E) v)"

definition JsonBuffer_Put_uint64_t :: "'j json_env \<Rightarrow> string option \<Rightarrow> u64 \<Rightarrow> 'j put" where
  "JsonBuffer_Put_uint64_t E nm v = put_value E nm (json_object_new_uint64 (e_js E) v)"

definition JsonBuffer_Put_uint8_t :: "'j json_env \<Rightarrow> string option \<Rightarrow> byte \<Rightarrow> 'j put" where
  "JsonBuffer_Put_uint8_t E nm v = JsonBuffer_Put_uint64_t E nm (ucast v)"

definition JsonBuffer_Put_uint16_t :: "'j json_env \<Rightarrow> string option \<Rightarrow> 16 word \<Rightarrow> 'j put" where
  "JsonBuffer_Put_uint16_t E nm v = JsonBuffer_Put_uint64_t E nm (ucast v)"

definition JsonBuffer_Put_uint32_t :: "'j json_env \<Rightarrow> string option \<Rightarrow> u32 \<Rightarrow> 'j put" where
  "JsonBuffer_Put_uint32_t E nm v = JsonBuffer_Put_uint64_t E nm (ucast v)"

text \<open>\<open>json_object_new_string\<close> takes the length of its argument, so a null argument is undefined.\<close>
definition JsonBuffer_Put_String :: "'j json_env \<Rightarrow> string option \<Rightarrow> string option \<Rightarrow> 'j put" where
  "JsonBuffer_Put_String E nm str parent =
     (if parent = None \<or> nm = None then Some (False, parent)
      else case str of
        None \<Rightarrow> None
      | Some s \<Rightarrow> put_value E nm (json_object_new_string (e_js E) s) parent)"

definition JsonBuffer_Put_OptionalString :: "'j json_env \<Rightarrow> string option \<Rightarrow> string option \<Rightarrow> 'j put" where
  "JsonBuffer_Put_OptionalString E nm str parent =
     (if parent = None \<or> nm = None then Some (False, parent)
      else if str = None then Some (True, parent)
      else JsonBuffer_Put_String E nm str parent)"

text \<open>The length is passed to \<open>BIO_write\<close> as an \<open>int\<close>.\<close>
definition JsonBuffer_Put_ByteArray :: "'j json_env \<Rightarrow> string option \<Rightarrow> u32 \<Rightarrow> bytes option \<Rightarrow> 'j put" where
  "JsonBuffer_Put_ByteArray E nm p_iSize arr parent =
     (if parent = None \<or> nm = None then Some (False, parent)
      else if arr = None \<and> p_iSize \<noteq> 0 then Some (False, parent)
      else if \<not> e_alloc E ''BIO_new.base64'' then Some (False, parent)
      else if \<not> e_alloc E ''BIO_new.mem'' then Some (False, parent)
      else if p_iSize > 0 \<and> length (the arr) < unat p_iSize then None
      else
        let d = (if p_iSize > 0 then take (unat p_iSize) (the arr) else [])
        in if p_iSize > 0 \<and> e_BIO_write E d (sint p_iSize) \<noteq> sint p_iSize then Some (False, parent)
           else case e_b64_text E d of
             None \<Rightarrow> Some (False, parent)
           | Some t \<Rightarrow>
               if \<not> e_alloc E ''JsonBuffer_Put_ByteArray'' then Some (False, parent)
               else JsonBuffer_Put_String E nm (Some t) parent)"

definition JsonBuffer_Put_JsonString :: "'j json_env \<Rightarrow> string option \<Rightarrow> string option \<Rightarrow> 'j put" where
  "JsonBuffer_Put_JsonString E nm str parent =
     (case (parent, nm, str) of
        (Some p, Some n, Some s) \<Rightarrow>
          if length s > 2 ^ 31 - 1 then Some (False, parent)
          else if \<not> e_alloc E ''json_tokener_new'' then Some (False, parent)
          else (case json_tokener_parse_ex (e_js E) s of
             (parsed, success, parse_end) \<Rightarrow>
               (case parsed of
                  None \<Rightarrow> Some (False, parent)
                | Some j \<Rightarrow>
                    if \<not> success then Some (False, parent)
                    else if \<not> list_all isspace (drop parse_end s) then Some (False, parent)
                    else if json_object_get_type (e_js E) j \<noteq> json_type_object
                        \<and> json_object_get_type (e_js E) j \<noteq> json_type_array then Some (False, parent)
                    else Some (True, Some (json_object_object_add (e_js E) p n j))))
      | _ \<Rightarrow> Some (False, parent))"

text \<open>\<open>JsonBuffer_ParseUnsignedText\<close>\<close>
definition JsonBuffer_ParseUnsignedText :: "string option \<Rightarrow> nat \<Rightarrow> nat option" where
  "JsonBuffer_ParseUnsignedText text maxValue =
     (case text of
        None \<Rightarrow> None
      | Some [] \<Rightarrow> None
      | Some (c # cs) \<Rightarrow>
          if c = CHR ''-'' then None
          else (case strtoumax (c # cs) of
             (parsed, erange, rest) \<Rightarrow>
               if erange \<or> rest = c # cs \<or> rest \<noteq> [] then None
               else if parsed > maxValue then None
               else Some parsed))"

text \<open>
  \<open>json_object_get_string\<close> of a string member gives its text; were it null, the code would pass null to
  \<open>strcmp\<close>, where the model fails.
\<close>
definition JsonBuffer_Get_bool :: "'j json_env \<Rightarrow> 'j option \<Rightarrow> string option \<Rightarrow> bool option" where
  "JsonBuffer_Get_bool E parent nm = do {
     ob \<leftarrow> get_member E parent nm;
     (if json_object_get_type (e_js E) ob = json_type_boolean
      then Some (json_object_get_boolean (e_js E) ob)
      else if json_object_get_type (e_js E) ob = json_type_string then do {
        t \<leftarrow> json_object_get_string (e_js E) ob;
        (if strcmp t ''true'' = 0 then Some True
         else if strcmp t ''false'' = 0 then Some False
         else None) }
      else None) }"

definition JsonBuffer_Get_uint8_t :: "'j json_env \<Rightarrow> 'j option \<Rightarrow> string option \<Rightarrow> byte option" where
  "JsonBuffer_Get_uint8_t E parent nm = do {
     ob \<leftarrow> get_typed E json_type_int parent nm;
     v \<leftarrow> JsonBuffer_ParseUnsignedText (json_object_get_string (e_js E) ob) (2 ^ 8 - 1);
     Some (of_nat v) }"

definition JsonBuffer_Get_uint16_t :: "'j json_env \<Rightarrow> 'j option \<Rightarrow> string option \<Rightarrow> 16 word option" where
  "JsonBuffer_Get_uint16_t E parent nm = do {
     ob \<leftarrow> get_typed E json_type_int parent nm;
     v \<leftarrow> JsonBuffer_ParseUnsignedText (json_object_get_string (e_js E) ob) (2 ^ 16 - 1);
     Some (of_nat v) }"

definition JsonBuffer_Get_uint64_t :: "'j json_env \<Rightarrow> 'j option \<Rightarrow> string option \<Rightarrow> u64 option" where
  "JsonBuffer_Get_uint64_t E parent nm = do {
     ob \<leftarrow> get_member E parent nm;
     (if json_object_get_type (e_js E) ob = json_type_string
         \<or> json_object_get_type (e_js E) ob = json_type_int then do {
        v \<leftarrow> JsonBuffer_ParseUnsignedText (json_object_get_string (e_js E) ob) (2 ^ 64 - 1);
        Some (of_nat v) }
      else None) }"

definition JsonBuffer_Get_uint32_t :: "'j json_env \<Rightarrow> 'j option \<Rightarrow> string option \<Rightarrow> u32 option" where
  "JsonBuffer_Get_uint32_t E parent nm = do {
     v \<leftarrow> JsonBuffer_Get_uint64_t E parent nm;
     (if unat v > 2 ^ 32 - 1 then None else Some (ucast v)) }"

definition JsonBuffer_Get_String :: "'j json_env \<Rightarrow> 'j option \<Rightarrow> string option \<Rightarrow> string option" where
  "JsonBuffer_Get_String E parent nm = do {
     ob \<leftarrow> get_typed E json_type_string parent nm;
     t \<leftarrow> json_object_get_string (e_js E) ob;
     (if e_alloc E ''JsonBuffer_Get_String'' then Some t else None) }"

text \<open>The outer result is the return value, the inner one the value of the string.\<close>
definition JsonBuffer_Get_OptionalString ::
  "'j json_env \<Rightarrow> 'j option \<Rightarrow> string option \<Rightarrow> string option option" where
  "JsonBuffer_Get_OptionalString E parent nm =
     (if parent = None \<or> nm = None then None
      else if get_member E parent nm = None then Some None
      else (case JsonBuffer_Get_String E parent nm of None \<Rightarrow> None | Some t \<Rightarrow> Some (Some t)))"

definition JsonBuffer_Get_JsonString :: "'j json_env \<Rightarrow> 'j option \<Rightarrow> string option \<Rightarrow> string option" where
  "JsonBuffer_Get_JsonString E parent nm = do {
     ob \<leftarrow> get_member E parent nm;
     (if json_object_get_type (e_js E) ob \<noteq> json_type_object
         \<and> json_object_get_type (e_js E) ob \<noteq> json_type_array then None
      else if e_alloc E ''JsonBuffer_Get_JsonString''
      then Some (json_object_to_json_string_ext (e_js E) ob) else None) }"

definition JsonBuffer_Get_ByteArray ::
  "'j json_env \<Rightarrow> 'j option \<Rightarrow> string option \<Rightarrow> (u32 \<times> bytes) option" where
  "JsonBuffer_Get_ByteArray E parent nm = do {
     ob \<leftarrow> get_typed E json_type_string parent nm;
     inp \<leftarrow> json_object_get_string (e_js E) ob;
     (if \<not> e_alloc E ''JsonBuffer_Get_ByteArray'' then None
      else if \<not> e_alloc E ''BIO_new.base64'' then None
      else if \<not> e_alloc E ''BIO_new_mem_buf'' then None
      else do {
        d \<leftarrow> e_BIO_read E inp;
        Some (of_nat (length d), d) }) }"

definition JsonBuffer_Put_UUID :: "'j json_env \<Rightarrow> string option \<Rightarrow> uuid \<Rightarrow> 'j put" where
  "JsonBuffer_Put_UUID E nm u =
     put_container E nm (json_object_new_object (e_js E))
       (JsonBuffer_Put_String E (Some ''id'') (Some (e_uuid_unparse E u)))"

definition JsonBuffer_Get_UUID :: "'j json_env \<Rightarrow> 'j option \<Rightarrow> string option \<Rightarrow> uuid option" where
  "JsonBuffer_Get_UUID E parent nm = do {
     ob \<leftarrow> get_typed E json_type_object parent nm;
     t \<leftarrow> JsonBuffer_Get_String E (Some ob) (Some ''id'');
     e_uuid_parse E t }"

section \<open>Lists of name, type, length and value\<close>

text \<open>The last part of \<open>JsonBuffer_Put_NTLVItem\<close>, from the label \<open>type_processed\<close> on.\<close>
definition type_processed :: "'j json_env \<Rightarrow> NTLVItem \<Rightarrow> string option \<Rightarrow> bool \<Rightarrow> 'j put" where
  "type_processed E item str useJsonValue =
     (case str of
        None \<Rightarrow> JsonBuffer_Put_ByteArray E (Some ''Bin_Value'') (NTLVItem.iLength item) (Some (NTLVItem.pData item))
      | Some t \<Rightarrow>
          if useJsonValue then JsonBuffer_Put_JsonString E (Some ''Json_Value'') (Some t)
          else JsonBuffer_Put_String E (Some ''String_Value'') (Some t))"

text \<open>
  Whether the value ends with a null byte; the read of the last byte must be within the buffer. The test
  for a null pointer \<open>pData\<close> has no counterpart: the data of an item is a list of bytes, which
  \<open>NTLVList_Add\<close> always allocates for an item of a length above zero.
\<close>
definition terminated :: "NTLVItem \<Rightarrow> bool option" where
  "terminated item =
     (if NTLVItem.iLength item = 0 then Some False
      else if length (NTLVItem.pData item) < unat (NTLVItem.iLength item) then None
      else Some (NTLVItem.pData item ! (unat (NTLVItem.iLength item) - 1) = 0))"

text \<open>The text of an address of \<open>n\<close> bytes.\<close>
definition address_text ::
  "'j json_env \<Rightarrow> NTLVItem \<Rightarrow> nat \<Rightarrow> string \<Rightarrow> (bytes \<Rightarrow> string) \<Rightarrow> bool \<Rightarrow> 'j put" where
  "address_text E item n site ntop useJsonValue c =
     (if NTLVItem.iLength item \<noteq> of_nat n then Some (False, c)
      else if \<not> e_alloc E site then Some (False, c)
      else if length (NTLVItem.pData item) < n then None
      else type_processed E item (Some (ntop (take n (NTLVItem.pData item)))) useJsonValue c)"

text \<open>The members of an item after its name and type.\<close>
definition put_ntlv_value :: "'j json_env \<Rightarrow> NTLVItem \<Rightarrow> 'j put" where
  "put_ntlv_value E item c = do {
     isString \<leftarrow> JsonBuffer_NamedNTLVTypeMatches E ''STRING'' (uuidType item);
     okString \<leftarrow> (if isString then terminated item else Some True);
     (if \<not> okString then Some (False, c) else do {
     isJson \<leftarrow> JsonBuffer_NTLVTypeUsesJsonValue E (uuidType item);
     okJson \<leftarrow> (if isJson then terminated item else Some True);
     (if \<not> okJson then Some (False, c) else do {
     isPort \<leftarrow> JsonBuffer_NamedNTLVTypeMatches E ''PORT'' (uuidType item);
     (if isPort then
        (if NTLVItem.iLength item \<noteq> 2 then Some (False, c)
         else do {
           port \<leftarrow> read16 (NTLVItem.pData item);
           (if \<not> e_alloc E ''JsonBuffer_Put_NTLVItem'' then Some (False, c)
            else type_processed E item (Some (decimal (unat port))) isJson c) })
      else do {
     isProto \<leftarrow> JsonBuffer_NamedNTLVTypeMatches E ''IPPROTO'' (uuidType item);
     (if isProto then
        (if NTLVItem.iLength item \<noteq> 1 then Some (False, c)
         else (case NTLVItem.pData item of
             [] \<Rightarrow> None
           | proto # _ \<Rightarrow>
               if \<not> e_alloc E ''JsonBuffer_Put_NTLVItem'' then Some (False, c)
               else type_processed E item (Some (decimal (unat proto))) isJson c))
      else do {
     isV4 \<leftarrow> JsonBuffer_NamedNTLVTypeMatches E ''IPv4_ADDR'' (uuidType item);
     (if isV4 then address_text E item 4 ''JsonBuffer_Put_NTLVItem'' (e_inet_ntop4 E) isJson c
      else do {
     isV6 \<leftarrow> JsonBuffer_NamedNTLVTypeMatches E ''IPv6_ADDR'' (uuidType item);
     (if isV6 then address_text E item 16 ''JsonBuffer_Put_NTLVItem'' (e_inet_ntop6 E) isJson c
      else type_processed E item
        (if isString \<or> isJson then Some (c_text (NTLVItem.pData item)) else None) isJson c) }) }) }) }) }) }"

text \<open>
  The callback of the iteration; the user data is the array. When the object of the item cannot be
  allocated the code returns \<open>false\<close>, which is \<open>LIST_EACH_OK\<close>.
\<close>
definition JsonBuffer_Put_NTLVItem :: "'j json_env \<Rightarrow> (NTLVItem, 'j, NTLVItem list) each_op" where
  "JsonBuffer_Put_NTLVItem E item arr s =
     (case json_object_new_object (e_js E) of
        None \<Rightarrow> Some (0, arr, s)
      | Some c \<Rightarrow> do {
          (ok, c') \<leftarrow> put_steps
             [JsonBuffer_Put_UUID E (Some ''Name'') (uuidName item),
              JsonBuffer_Put_UUID E (Some ''Type'') (uuidType item),
              put_ntlv_value E item] (Some c);
          (case c' of
             None \<Rightarrow> None
           | Some d \<Rightarrow> Some (if ok then LIST_EACH_OK else LIST_EACH_ERROR,
                            json_object_array_add (e_js E) arr d, s)) })"

definition JsonBuffer_Put_NTLVList :: "'j json_env \<Rightarrow> string option \<Rightarrow> ntlv_list option \<Rightarrow> 'j put" where
  "JsonBuffer_Put_NTLVList E nm l =
     put_container E nm (json_object_new_array (e_js E)) (\<lambda>c. do {
       arr \<leftarrow> c;
       (ok, _, arr', _) \<leftarrow> List_ForEach l (JsonBuffer_Put_NTLVItem E) arr [];
       Some (ok, Some arr') })"

text \<open>\<open>NTLVList_Add\<close> with the allocations of the surroundings.\<close>
definition append_item ::
  "'j json_env \<Rightarrow> ntlv_list option \<Rightarrow> uuid \<Rightarrow> uuid \<Rightarrow> u32 \<Rightarrow> bytes \<Rightarrow> (bool \<times> ntlv_list option) option" where
  "append_item E l nm ty sz d =
     NTLVList_Add (e_mem E) (e_alloc E ''NTLVList_Add'') (e_alloc E ''NTLVList_Add.data'') l nm ty sz (Some d)"

text \<open>The branch of \<open>JsonBuffer_Get_NTLVItem\<close> for a value given as a string.\<close>
definition get_string_value ::
  "'j json_env \<Rightarrow> ntlv_list option \<Rightarrow> uuid \<Rightarrow> uuid \<Rightarrow> string \<Rightarrow> (bool \<times> ntlv_list option) option" where
  "get_string_value E l nm ty str = do {
     isString \<leftarrow> JsonBuffer_NamedNTLVTypeMatches E ''STRING'' ty;
     (if isString then append_item E l nm ty (of_nat (length str + 1)) (cstring str) else do {
     isJson \<leftarrow> JsonBuffer_NTLVTypeUsesJsonValue E ty;
     (if isJson then Some (False, l) else do {
     isPort \<leftarrow> JsonBuffer_NamedNTLVTypeMatches E ''PORT'' ty;
     (if isPort then do {
        v \<leftarrow> scan_unsigned (2 ^ 16 - 1) str;
        (case v of None \<Rightarrow> Some (False, l) | Some p \<Rightarrow> append_item E l nm ty 2 (host16 (of_nat p))) }
      else do {
     isProto \<leftarrow> JsonBuffer_NamedNTLVTypeMatches E ''IPPROTO'' ty;
     (if isProto then do {
        v \<leftarrow> scan_unsigned (2 ^ 8 - 1) str;
        (case v of None \<Rightarrow> Some (False, l) | Some p \<Rightarrow> append_item E l nm ty 1 [of_nat p]) }
      else do {
     isV4 \<leftarrow> JsonBuffer_NamedNTLVTypeMatches E ''IPv4_ADDR'' ty;
     (if isV4 then
        (case e_inet_pton4 E str of None \<Rightarrow> Some (False, l) | Some a \<Rightarrow> append_item E l nm ty 4 a)
      else do {
     isV6 \<leftarrow> JsonBuffer_NamedNTLVTypeMatches E ''IPv6_ADDR'' ty;
     (if isV6 then
        (case e_inet_pton6 E str of None \<Rightarrow> Some (False, l) | Some a \<Rightarrow> append_item E l nm ty 16 a)
      else Some (False, l)) }) }) }) }) }) }"

text \<open>The result is whether the item was appended, and the list.\<close>
definition JsonBuffer_Get_NTLVItem ::
  "'j json_env \<Rightarrow> ntlv_list option \<Rightarrow> 'j \<Rightarrow> (bool \<times> ntlv_list option) option" where
  "JsonBuffer_Get_NTLVItem E l parent =
     (case JsonBuffer_Get_UUID E (Some parent) (Some ''Name'') of
        None \<Rightarrow> Some (False, l)
      | Some nm \<Rightarrow>
     (case JsonBuffer_Get_UUID E (Some parent) (Some ''Type'') of
        None \<Rightarrow> Some (False, l)
      | Some ty \<Rightarrow>
          (let hasStringValue = json_object_object_get_ex (e_js E) parent ''String_Value'';
               hasBinValue = json_object_object_get_ex (e_js E) parent ''Bin_Value'';
               hasJsonValue = json_object_object_get_ex (e_js E) parent ''Json_Value'';
               valueFieldCount = (if hasStringValue then 1 else 0) + (if hasBinValue then 1 else 0)
                 + (if hasJsonValue then 1 else 0 :: nat)
           in if valueFieldCount \<noteq> 1 then Some (False, l)
              else if hasStringValue then
                (case JsonBuffer_Get_String E (Some parent) (Some ''String_Value'') of
                   None \<Rightarrow> Some (False, l)
                 | Some str \<Rightarrow> get_string_value E l nm ty str)
              else if hasJsonValue then
                (case JsonBuffer_Get_JsonString E (Some parent) (Some ''Json_Value'') of
                   None \<Rightarrow> Some (False, l)
                 | Some str \<Rightarrow> do {
                     isJson \<leftarrow> JsonBuffer_NTLVTypeUsesJsonValue E ty;
                     (if \<not> isJson then Some (False, l)
                      else append_item E l nm ty (of_nat (length str + 1)) (cstring str)) })
              else
                (case JsonBuffer_Get_ByteArray E (Some parent) (Some ''Bin_Value'') of
                   None \<Rightarrow> Some (False, l)
                 | Some (sz, d) \<Rightarrow> do {
                     other \<leftarrow> or_else (JsonBuffer_NTLVTypeUsesStringValue E ty) (JsonBuffer_NTLVTypeUsesJsonValue E ty);
                     (if other then Some (False, l) else append_item E l nm ty sz d) }))))"

text \<open>The loop of \<open>JsonBuffer_Get_NTLVList\<close> over the indices that are left.\<close>
fun get_ntlv_loop ::
  "'j json_env \<Rightarrow> 'j \<Rightarrow> nat list \<Rightarrow> ntlv_list option \<Rightarrow> ntlv_list option option" where
  "get_ntlv_loop E arr [] l = Some l"
| "get_ntlv_loop E arr (i # is) l =
     (case json_object_array_get_idx (e_js E) arr i of
        None \<Rightarrow> Some None
      | Some ob \<Rightarrow>
          if json_object_get_type (e_js E) ob \<noteq> json_type_object then Some None
          else do {
            (ok, l') \<leftarrow> JsonBuffer_Get_NTLVItem E l ob;
            (if ok then get_ntlv_loop E arr is l' else Some None) })"

definition JsonBuffer_Get_NTLVList ::
  "'j json_env \<Rightarrow> 'j option \<Rightarrow> string option \<Rightarrow> ntlv_list option option" where
  "JsonBuffer_Get_NTLVList E parent nm =
     (case get_typed E json_type_array parent nm of
        None \<Rightarrow> Some None
      | Some arr \<Rightarrow>
          (case new_metadata (e_uuid_compare E) (e_alloc E) of
             None \<Rightarrow> Some None
           | Some l \<Rightarrow> get_ntlv_loop E arr [0..<json_object_array_length (e_js E) arr] (Some l)))"

section \<open>Hashes and identifiers\<close>

text \<open>\<open>JsonBuffer_Put_Hash\<close> reads the type of the hash without a test for null.\<close>
definition JsonBuffer_Put_Hash :: "'j json_env \<Rightarrow> string option \<Rightarrow> ('ctx, 'md) Hash option \<Rightarrow> 'j put" where
  "JsonBuffer_Put_Hash E nm p_pHash =
     put_container E nm (json_object_new_object (e_js E)) (\<lambda>c. do {
       h \<leftarrow> p_pHash;
       (case Hash_Get_OpenSSL_Name (Hash.iType h) of
          None \<Rightarrow> Some (False, c)
        | Some typeName \<Rightarrow> put_steps
            [JsonBuffer_Put_String E (Some ''Type'') (Some typeName),
             (\<lambda>c. do {
                t \<leftarrow> Hash_ToText (e_alloc E ''Hash_ToText'') (Some h);
                (case t of
                   None \<Rightarrow> Some (False, c)
                 | Some hashText \<Rightarrow> JsonBuffer_Put_String E (Some ''Value'') (Some hashText) c) })] c) })"

definition JsonBuffer_Get_Hash ::
  "'j json_env \<Rightarrow> 'j option \<Rightarrow> string option \<Rightarrow> ('ctx, 'md) Hash option" where
  "JsonBuffer_Get_Hash E parent nm = do {
     ob \<leftarrow> get_typed E json_type_object parent nm;
     o1 \<leftarrow> get_typed E json_type_string (Some ob) (Some ''Type'');
     ty \<leftarrow> json_object_get_string (e_js E) o1;
     o2 \<leftarrow> get_typed E json_type_string (Some ob) (Some ''Value'');
     data \<leftarrow> json_object_get_string (e_js E) o2;
     (let mk = (\<lambda>t. Hash_Create_From_String (e_alloc E ''Hash_Create_From_String'')
                    (e_alloc E ''Hash_Create_From_String.data'') t (Some data))
      in if strcmp ty ''MD5'' = 0 then mk HASH_TYPE_MD5
         else if strcmp ty ''SHA1'' = 0 then mk HASH_TYPE_SHA1
         else if strcmp ty ''SHA224'' = 0 then mk HASH_TYPE_SHA224
         else if strcmp ty ''SHA256'' = 0 then mk HASH_TYPE_SHA256
         else if strcmp ty ''SHA512'' = 0 then mk HASH_TYPE_SHA512
         else None) }"

definition JsonBuffer_Put_BlockId :: "'j json_env \<Rightarrow> string option \<Rightarrow> ('ctx, 'md) BlockId option \<Rightarrow> 'j put" where
  "JsonBuffer_Put_BlockId E nm p_pId =
     put_container E nm (json_object_new_object (e_js E)) (\<lambda>c. do {
       b \<leftarrow> p_pId;
       put_steps
         [JsonBuffer_Put_Hash E (Some ''Hash'') (pHash b),
          JsonBuffer_Put_uint64_t E (Some ''Size'') (BlockId.iLength b),
          JsonBuffer_Put_UUID E (Some ''Data_Type'') (uuidDataType b)] c })"

definition JsonBuffer_Get_BlockId ::
  "'j json_env \<Rightarrow> 'j option \<Rightarrow> string option \<Rightarrow> ('ctx, 'md) BlockId option" where
  "JsonBuffer_Get_BlockId E parent nm = do {
     ob \<leftarrow> get_typed E json_type_object parent nm;
     (if \<not> e_alloc E ''JsonBuffer_Get_BlockId'' then None else do {
        h \<leftarrow> JsonBuffer_Get_Hash E (Some ob) (Some ''Hash'');
        n \<leftarrow> JsonBuffer_Get_uint64_t E (Some ob) (Some ''Size'');
        u \<leftarrow> JsonBuffer_Get_UUID E (Some ob) (Some ''Data_Type'');
        Some \<lparr>pHash = Some h, uuidDataType = u, BlockId.iLength = n\<rparr> }) }"

definition JsonBuffer_Put_EventId :: "'j json_env \<Rightarrow> string option \<Rightarrow> EventId option \<Rightarrow> 'j put" where
  "JsonBuffer_Put_EventId E nm p_pEventId =
     put_container E nm (json_object_new_object (e_js E)) (put_steps
       [put_container E (Some ''Nugget'') (json_object_new_object (e_js E)) (\<lambda>c. do {
          i \<leftarrow> p_pEventId;
          JsonBuffer_Put_UUID E (Some ''Id'') (EventId.uuidNuggetId i) c }),
        (\<lambda>c. do {
          i \<leftarrow> p_pEventId;
          JsonBuffer_Put_uint64_t E (Some ''Seconds'') (EventId.iSeconds i) c }),
        (\<lambda>c. do {
          i \<leftarrow> p_pEventId;
          JsonBuffer_Put_uint64_t E (Some ''Nano_Seconds'') (EventId.iNanoSecs i) c })])"

definition JsonBuffer_Get_EventId :: "'j json_env \<Rightarrow> 'j option \<Rightarrow> string option \<Rightarrow> EventId option" where
  "JsonBuffer_Get_EventId E parent nm = do {
     ob \<leftarrow> get_typed E json_type_object parent nm;
     ng \<leftarrow> get_typed E json_type_object (Some ob) (Some ''Nugget'');
     (if \<not> e_alloc E ''JsonBuffer_Get_EventId'' then None else do {
        u \<leftarrow> JsonBuffer_Get_UUID E (Some ng) (Some ''Id'');
        sec \<leftarrow> JsonBuffer_Get_uint64_t E (Some ob) (Some ''Seconds'');
        nsec \<leftarrow> JsonBuffer_Get_uint64_t E (Some ob) (Some ''Nano_Seconds'');
        Some \<lparr>EventId.uuidNuggetId = u, EventId.iSeconds = sec, EventId.iNanoSecs = nsec\<rparr> }) }"

section \<open>Blocks and events\<close>

text \<open>A get operation without undefined behaviour for an optional member.\<close>
definition get_optional :: "'j json_env \<Rightarrow> 'j \<Rightarrow> string \<Rightarrow> 'a option \<Rightarrow> 'a option option" where
  "get_optional E ob nm r =
     (if json_object_object_get (e_js E) ob nm = None then Some None
      else case r of None \<Rightarrow> None | Some v \<Rightarrow> Some (Some v))"

fun JsonBuffer_Put_Block :: "'j json_env \<Rightarrow> string option \<Rightarrow> ('ctx, 'md) Block option \<Rightarrow> 'j put" where
  "JsonBuffer_Put_Block E nm None =
     put_container E nm (json_object_new_object (e_js E)) (\<lambda>c. None)"
| "JsonBuffer_Put_Block E nm (Some (Block i pid par meta d)) =
     put_container E nm (json_object_new_object (e_js E)) (put_steps
       [JsonBuffer_Put_BlockId E (Some ''Id'') i,
        put_if (pid \<noteq> None) (JsonBuffer_Put_BlockId E (Some ''Parent_Id'') pid),
        put_if (par \<noteq> None) (JsonBuffer_Put_Block E (Some ''Parent'') par),
        put_if (meta \<noteq> None) (JsonBuffer_Put_NTLVList E (Some ''Metadata'') meta)])"

text \<open>A missing member \<open>Metadata\<close> is logged, and the block gets no list.\<close>
partial_function (option) JsonBuffer_Get_Block ::
  "'j json_env \<Rightarrow> 'j option \<Rightarrow> string option \<Rightarrow> ('ctx, 'md) Block option option" where
  "JsonBuffer_Get_Block E parent nm =
     (case get_typed E json_type_object parent nm of
        None \<Rightarrow> Some None
      | Some ob \<Rightarrow>
          if \<not> e_alloc E ''JsonBuffer_Get_Block'' then Some None
          else case JsonBuffer_Get_BlockId E (Some ob) (Some ''Id'') of
            None \<Rightarrow> Some None
          | Some i \<Rightarrow>
              (case get_optional E ob ''Parent_Id'' (JsonBuffer_Get_BlockId E (Some ob) (Some ''Parent_Id'')) of
                 None \<Rightarrow> Some None
               | Some pid \<Rightarrow>
                   Option.bind
                     (if json_object_object_get (e_js E) ob ''Parent'' = None then Some (Some None)
                      else Option.bind (JsonBuffer_Get_Block E (Some ob) (Some ''Parent''))
                        (\<lambda>r. Some (map_option Some r)))
                     (\<lambda>par. case par of
                         None \<Rightarrow> Some None
                       | Some parb \<Rightarrow>
                           Option.bind
                             (if json_object_object_get (e_js E) ob ''Metadata'' = None then Some (Some None)
                              else Option.bind (JsonBuffer_Get_NTLVList E (Some ob) (Some ''Metadata''))
                                (\<lambda>r. Some (map_option Some r)))
                             (\<lambda>meta. case meta of
                                 None \<Rightarrow> Some None
                               | Some m \<Rightarrow> Some (Some (Block (Some i) pid parb m no_data))))))"

fun JsonBuffer_Put_Event :: "'j json_env \<Rightarrow> string option \<Rightarrow> ('ctx, 'md) Event option \<Rightarrow> 'j put" where
  "JsonBuffer_Put_Event E nm None =
     put_container E nm (json_object_new_object (e_js E)) (\<lambda>c. None)"
| "JsonBuffer_Put_Event E nm (Some (Event i pid par app blk meta)) =
     put_container E nm (json_object_new_object (e_js E)) (put_steps
       [JsonBuffer_Put_EventId E (Some ''Id'') i,
        put_if (pid \<noteq> None) (JsonBuffer_Put_EventId E (Some ''Parent_Id'') pid),
        put_if (par \<noteq> None) (JsonBuffer_Put_Event E (Some ''Parent'') par),
        put_if (meta \<noteq> None) (JsonBuffer_Put_NTLVList E (Some ''Metadata'') meta),
        put_if (blk \<noteq> None) (JsonBuffer_Put_Block E (Some ''Block'') blk)])"

text \<open>The application type of the event is left zero.\<close>
partial_function (option) JsonBuffer_Get_Event ::
  "'j json_env \<Rightarrow> 'j option \<Rightarrow> string option \<Rightarrow> ('ctx, 'md) Event option option" where
  "JsonBuffer_Get_Event E parent nm =
     (case get_typed E json_type_object parent nm of
        None \<Rightarrow> Some None
      | Some ob \<Rightarrow>
          if \<not> e_alloc E ''JsonBuffer_Get_Event'' then Some None
          else case JsonBuffer_Get_EventId E (Some ob) (Some ''Id'') of
            None \<Rightarrow> Some None
          | Some i \<Rightarrow>
              (case get_optional E ob ''Parent_Id'' (JsonBuffer_Get_EventId E (Some ob) (Some ''Parent_Id'')) of
                 None \<Rightarrow> Some None
               | Some pid \<Rightarrow>
                   Option.bind
                     (if json_object_object_get (e_js E) ob ''Parent'' = None then Some (Some None)
                      else Option.bind (JsonBuffer_Get_Event E (Some ob) (Some ''Parent''))
                        (\<lambda>r. Some (map_option Some r)))
                     (\<lambda>par. case par of
                         None \<Rightarrow> Some None
                       | Some pare \<Rightarrow>
                           Option.bind
                             (if json_object_object_get (e_js E) ob ''Metadata'' \<noteq> None
                              then JsonBuffer_Get_NTLVList E (Some ob) (Some ''Metadata'')
                              else Some (new_metadata (e_uuid_compare E) (e_alloc E)))
                             (\<lambda>meta. case meta of
                                 None \<Rightarrow> Some None
                               | Some m \<Rightarrow>
                                   Option.bind
                                     (if json_object_object_get (e_js E) ob ''Block'' = None then Some (Some None)
                                      else Option.bind (JsonBuffer_Get_Block E (Some ob) (Some ''Block''))
                                        (\<lambda>r. Some (map_option Some r)))
                                     (\<lambda>blk. case blk of
                                         None \<Rightarrow> Some None
                                       | Some b \<Rightarrow> Some (Some (Event (Some i) pid pare no_uuid b (Some m))))))))"

section \<open>Judgments and nuggets\<close>

definition JsonBuffer_Put_JudgmentFields :: "'j json_env \<Rightarrow> ('ctx, 'md) Judgment option \<Rightarrow> 'j put" where
  "JsonBuffer_Put_JudgmentFields E judgment parent =
     (case (parent, judgment) of
        (Some p, Some j) \<Rightarrow> put_steps
          [JsonBuffer_Put_UUID E (Some ''Nugget_ID'') (Judgment.uuidNuggetId j),
           JsonBuffer_Put_uint64_t E (Some ''Seconds'') (Judgment.iSeconds j),
           JsonBuffer_Put_uint64_t E (Some ''Nano_Seconds'') (Judgment.iNanoSecs j),
           JsonBuffer_Put_EventId E (Some ''Event_ID'') (pEventId j),
           JsonBuffer_Put_BlockId E (Some ''Block_ID'') (pBlockId j),
           JsonBuffer_Put_uint8_t E (Some ''Priority'') (iPriority j),
           JsonBuffer_Put_NTLVList E (Some ''Metadata'') (pMetaDataList j),
           JsonBuffer_Put_uint32_t E (Some ''GID'') (iGID j),
           JsonBuffer_Put_uint32_t E (Some ''SID'') (iSID j),
           JsonBuffer_Put_uint32_t E (Some ''Set_SF_Flags'') (Set_SfFlags j),
           JsonBuffer_Put_uint32_t E (Some ''Set_Ent_Flags'') (Set_EntFlags j),
           JsonBuffer_Put_uint32_t E (Some ''Unset_SF_Flags'') (Unset_SfFlags j),
           JsonBuffer_Put_uint32_t E (Some ''Unset_Ent_Flags'') (Unset_EntFlags j),
           JsonBuffer_Put_OptionalString E (Some ''Message'') (sMessage j)] parent
      | _ \<Rightarrow> Some (False, parent))"

definition JsonBuffer_Put_Judgment :: "'j json_env \<Rightarrow> string option \<Rightarrow> ('ctx, 'md) Judgment option \<Rightarrow> 'j put" where
  "JsonBuffer_Put_Judgment E nm judgment =
     put_container E nm (json_object_new_object (e_js E)) (JsonBuffer_Put_JudgmentFields E judgment)"

definition JsonBuffer_Get_Judgment ::
  "'j json_env \<Rightarrow> 'j option \<Rightarrow> string option \<Rightarrow> ('ctx, 'md) Judgment option option" where
  "JsonBuffer_Get_Judgment E parent nm =
     get_then (Some (get_typed E json_type_object parent nm)) (\<lambda>ob.
     if \<not> e_alloc E ''JsonBuffer_Get_Judgment'' then Some None else
     get_then (Some (JsonBuffer_Get_UUID E (Some ob) (Some ''Nugget_ID''))) (\<lambda>u.
     get_then (Some (JsonBuffer_Get_uint64_t E (Some ob) (Some ''Seconds''))) (\<lambda>sec.
     get_then (Some (JsonBuffer_Get_uint64_t E (Some ob) (Some ''Nano_Seconds''))) (\<lambda>nsec.
     get_then (Some (JsonBuffer_Get_EventId E (Some ob) (Some ''Event_ID''))) (\<lambda>eid.
     get_then (Some (JsonBuffer_Get_BlockId E (Some ob) (Some ''Block_ID''))) (\<lambda>bid.
     get_then (Some (JsonBuffer_Get_uint8_t E (Some ob) (Some ''Priority''))) (\<lambda>prio.
     get_then (JsonBuffer_Get_NTLVList E (Some ob) (Some ''Metadata'')) (\<lambda>meta.
     get_then (Some (JsonBuffer_Get_uint32_t E (Some ob) (Some ''GID''))) (\<lambda>gid.
     get_then (Some (JsonBuffer_Get_uint32_t E (Some ob) (Some ''SID''))) (\<lambda>sid.
     get_then (Some (JsonBuffer_Get_uint32_t E (Some ob) (Some ''Set_SF_Flags''))) (\<lambda>ssf.
     get_then (Some (JsonBuffer_Get_uint32_t E (Some ob) (Some ''Set_Ent_Flags''))) (\<lambda>sent.
     get_then (Some (JsonBuffer_Get_uint32_t E (Some ob) (Some ''Unset_SF_Flags''))) (\<lambda>usf.
     get_then (Some (JsonBuffer_Get_uint32_t E (Some ob) (Some ''Unset_Ent_Flags''))) (\<lambda>uent.
     get_then (Some (JsonBuffer_Get_OptionalString E (Some ob) (Some ''Message''))) (\<lambda>msg.
       Some (Some \<lparr>Judgment.uuidNuggetId = u, Judgment.iSeconds = sec, Judgment.iNanoSecs = nsec,
         pEventId = Some eid, pBlockId = Some bid, iPriority = prio, pMetaDataList = Some meta,
         iGID = gid, iSID = sid, Set_SfFlags = ssf, Set_EntFlags = sent, Unset_SfFlags = usf,
         Unset_EntFlags = uent, sMessage = msg\<rparr>))))))))))))))))"

definition JsonBuffer_Put_Nugget :: "'j json_env \<Rightarrow> string option \<Rightarrow> Nugget option \<Rightarrow> 'j put" where
  "JsonBuffer_Put_Nugget E nm nugget =
     put_container E nm (json_object_new_object (e_js E)) (\<lambda>c. do {
       n \<leftarrow> nugget;
       put_steps
         [JsonBuffer_Put_UUID E (Some ''Nugget_ID'') (Nugget.uuidNuggetId n),
          JsonBuffer_Put_UUID E (Some ''App_Type'') (uuidApplicationType n),
          JsonBuffer_Put_UUID E (Some ''Nugget_Type'') (uuidNuggetType n),
          JsonBuffer_Put_OptionalString E (Some ''Name'') (Nugget.sName n),
          JsonBuffer_Put_OptionalString E (Some ''Location'') (sLocation n),
          JsonBuffer_Put_OptionalString E (Some ''Contact'') (sContact n)] c })"

definition JsonBuffer_Get_Nugget :: "'j json_env \<Rightarrow> 'j option \<Rightarrow> string option \<Rightarrow> Nugget option" where
  "JsonBuffer_Get_Nugget E parent nm = do {
     ob \<leftarrow> get_typed E json_type_object parent nm;
     (if \<not> e_alloc E ''JsonBuffer_Get_Nugget'' then None else do {
        u \<leftarrow> JsonBuffer_Get_UUID E (Some ob) (Some ''Nugget_ID'');
        app \<leftarrow> JsonBuffer_Get_UUID E (Some ob) (Some ''App_Type'');
        ty \<leftarrow> JsonBuffer_Get_UUID E (Some ob) (Some ''Nugget_Type'');
        nn \<leftarrow> JsonBuffer_Get_OptionalString E (Some ob) (Some ''Name'');
        loc \<leftarrow> JsonBuffer_Get_OptionalString E (Some ob) (Some ''Location'');
        con \<leftarrow> JsonBuffer_Get_OptionalString E (Some ob) (Some ''Contact'');
        Some \<lparr>Nugget.uuidNuggetId = u, uuidApplicationType = app, uuidNuggetType = ty, Nugget.sName = nn,
          sLocation = loc, sContact = con, sNotes = None\<rparr> }) }"

section \<open>Lists of identifiers, strings and bytes\<close>

text \<open>The entry is added to the array only when it is complete.\<close>
definition JsonBuffer_Put_UUIDList_Add :: "'j json_env \<Rightarrow> (UUIDListNode, 'j, UUIDListNode list) each_op" where
  "JsonBuffer_Put_UUIDList_Add E node arr s =
     (case json_object_new_object (e_js E) of
        None \<Rightarrow> Some (LIST_EACH_ERROR, arr, s)
      | Some c \<Rightarrow> do {
          (ok, c') \<leftarrow> put_steps
             [JsonBuffer_Put_String E (Some ''id'') (Some (e_uuid_unparse E (un_uuid node))),
              (\<lambda>c. if UUIDListNode.sName node = [] then Some (False, c)
                   else JsonBuffer_Put_String E (Some ''name'') (Some (UUIDListNode.sName node)) c),
              put_if (sDescription node \<noteq> None)
                (JsonBuffer_Put_String E (Some ''description'') (sDescription node))] (Some c);
          (case c' of
             None \<Rightarrow> None
           | Some d \<Rightarrow> if ok then Some (LIST_EACH_OK, json_object_array_add (e_js E) arr d, s)
                      else Some (LIST_EACH_ERROR, arr, s)) })"

definition JsonBuffer_Put_UUIDList :: "'j json_env \<Rightarrow> string option \<Rightarrow> uuid_list option \<Rightarrow> 'j put" where
  "JsonBuffer_Put_UUIDList E nm l =
     put_container E nm (json_object_new_array (e_js E)) (\<lambda>c. do {
       arr \<leftarrow> c;
       (ok, _, arr', _) \<leftarrow> List_ForEach l (JsonBuffer_Put_UUIDList_Add E) arr [];
       Some (ok, Some arr') })"

text \<open>One turn of the loop of \<open>JsonBuffer_Get_UUIDList\<close>: the entry the object describes.\<close>
definition get_uuid_entry :: "'j json_env \<Rightarrow> 'j \<Rightarrow> (uuid \<times> string \<times> string option) option" where
  "get_uuid_entry E ob = do {
     uuidS \<leftarrow> JsonBuffer_Get_String E (Some ob) (Some ''id'');
     nameS \<leftarrow> JsonBuffer_Get_String E (Some ob) (Some ''name'');
     (if nameS = [] then None else do {
        desc \<leftarrow> JsonBuffer_Get_OptionalString E (Some ob) (Some ''description'');
        u \<leftarrow> e_uuid_parse E uuidS;
        Some (u, nameS, desc) }) }"

fun get_uuid_loop :: "'j json_env \<Rightarrow> 'j \<Rightarrow> nat list \<Rightarrow> uuid_list option \<Rightarrow> uuid_list option option" where
  "get_uuid_loop E arr [] l = Some l"
| "get_uuid_loop E arr (i # is) l =
     (case json_object_array_get_idx (e_js E) arr i of
        None \<Rightarrow> Some None
      | Some ob \<Rightarrow>
          if json_object_get_type (e_js E) ob \<noteq> json_type_object then Some None
          else (case get_uuid_entry E ob of
             None \<Rightarrow> Some None
           | Some (u, nn, desc) \<Rightarrow> do {
               (ok, l') \<leftarrow> UUID_Add_List_Entry (e_mem E) (e_alloc E ''UUID_Add_List_Entry'')
                  (e_alloc E ''UUID_Add_List_Entry.name'') (e_alloc E ''UUID_Add_List_Entry.description'')
                  l u (Some nn) desc;
               (if ok then get_uuid_loop E arr is l' else Some None) }))"

definition JsonBuffer_Get_UUIDList ::
  "'j json_env \<Rightarrow> 'j option \<Rightarrow> string option \<Rightarrow> uuid_list option option" where
  "JsonBuffer_Get_UUIDList E parent nm =
     (case get_typed E json_type_array parent nm of
        None \<Rightarrow> Some None
      | Some arr \<Rightarrow>
          (case UUID_Create_List (e_uuid_compare E) (e_alloc E ''List_Create'') (e_alloc E ''UUID_Clone'') of
             None \<Rightarrow> Some None
           | Some l \<Rightarrow> get_uuid_loop E arr [0..<json_object_array_length (e_js E) arr] (Some l)))"

definition JsonBuffer_Put_StringList_Add :: "'j json_env \<Rightarrow> (string, 'j, string list) each_op" where
  "JsonBuffer_Put_StringList_Add E node arr s =
     (case json_object_new_string (e_js E) node of
        None \<Rightarrow> Some (LIST_EACH_ERROR, arr, s)
      | Some ob \<Rightarrow> Some (LIST_EACH_OK, json_object_array_add (e_js E) arr ob, s))"

text \<open>The result of the iteration is ignored.\<close>
definition JsonBuffer_Put_StringList :: "'j json_env \<Rightarrow> string option \<Rightarrow> string_list option \<Rightarrow> 'j put" where
  "JsonBuffer_Put_StringList E nm l =
     put_container E nm (json_object_new_array (e_js E)) (\<lambda>c. do {
       arr \<leftarrow> c;
       (_, _, arr', _) \<leftarrow> List_ForEach l (JsonBuffer_Put_StringList_Add E) arr [];
       Some (True, Some arr') })"

fun get_string_loop :: "'j json_env \<Rightarrow> 'j \<Rightarrow> nat list \<Rightarrow> string_list option \<Rightarrow> string_list option option" where
  "get_string_loop E arr [] l = Some l"
| "get_string_loop E arr (i # is) l =
     (case json_object_array_get_idx (e_js E) arr i of
        None \<Rightarrow> Some None
      | Some ob \<Rightarrow>
          if json_object_get_type (e_js E) ob \<noteq> json_type_string then Some None
          else (case json_object_get_string (e_js E) ob of
             None \<Rightarrow> Some None
           | Some str \<Rightarrow> do {
               (ok, l') \<leftarrow> StringList_Add (e_mem E) (e_alloc E ''StringList_Add'') l (Some str);
               (if ok then get_string_loop E arr is l' else Some None) }))"

definition JsonBuffer_Get_StringList ::
  "'j json_env \<Rightarrow> 'j option \<Rightarrow> string option \<Rightarrow> string_list option option" where
  "JsonBuffer_Get_StringList E parent nm =
     (case get_typed E json_type_array parent nm of
        None \<Rightarrow> Some None
      | Some arr \<Rightarrow>
          (case StringList_Create (e_alloc E ''List_Create'') (e_alloc E ''List_Create.lock'') (e_alloc E ''String_Clone'') of
             None \<Rightarrow> Some None
           | Some l \<Rightarrow> get_string_loop E arr [0..<json_object_array_length (e_js E) arr] (Some l)))"

fun put_uint8_loop :: "'j json_env \<Rightarrow> byte list \<Rightarrow> 'j \<Rightarrow> bool \<times> 'j" where
  "put_uint8_loop E [] arr = (True, arr)"
| "put_uint8_loop E (b # bs) arr =
     (case json_object_new_int (e_js E) (uint b) of
        None \<Rightarrow> (False, arr)
      | Some ob \<Rightarrow> put_uint8_loop E bs (json_object_array_add (e_js E) arr ob))"

definition JsonBuffer_Put_uint8List :: "'j json_env \<Rightarrow> string option \<Rightarrow> byte list \<Rightarrow> u32 \<Rightarrow> 'j put" where
  "JsonBuffer_Put_uint8List E nm bs count =
     put_container E nm (json_object_new_array (e_js E)) (\<lambda>c. do {
       arr \<leftarrow> c;
       (if length bs < unat count then None
        else case put_uint8_loop E (take (unat count) bs) arr of (ok, arr') \<Rightarrow> Some (ok, Some arr')) })"

text \<open>The value of an entry is stored in a byte without a test of its range.\<close>
fun get_uint8_loop :: "'j json_env \<Rightarrow> 'j \<Rightarrow> nat list \<Rightarrow> byte list option" where
  "get_uint8_loop E arr [] = Some []"
| "get_uint8_loop E arr (i # is) = do {
     ob \<leftarrow> json_object_array_get_idx (e_js E) arr i;
     (if json_object_get_type (e_js E) ob \<noteq> json_type_int then None
      else do {
        bs \<leftarrow> get_uint8_loop E arr is;
        Some (of_int (json_object_get_int (e_js E) ob) # bs) }) }"

definition JsonBuffer_Get_uint8List ::
  "'j json_env \<Rightarrow> 'j option \<Rightarrow> string option \<Rightarrow> (byte list \<times> u32) option" where
  "JsonBuffer_Get_uint8List E parent nm = do {
     arr \<leftarrow> get_typed E json_type_array parent nm;
     (let c = of_nat (json_object_array_length (e_js E) arr) :: u32
      in if c > 0 \<and> \<not> e_alloc E ''JsonBuffer_Get_uint8List'' then None
         else do {
           bs \<leftarrow> get_uint8_loop E arr [0..<unat c];
           Some (bs, c) }) }"

end
