(* ===== verification/Message_Core.thy ===== *)
theory Message_Core
  imports Json_Buffer
begin

text \<open>
  The message container, its headers and the table of handlers: \<open>src/messages/core.c\<close>.

  The body of a message is a parameter of the container. The three function pointers of a message name
  the file whose functions they point to; a file that uses the functions for empty messages of this one
  sets \<open>C_Empty\<close>. The back pointer of a header to its message is not modelled. The settlement and the
  telemetry context of a message are opaque.
\<close>

section \<open>Data\<close>

record MessageHeader =
  sName :: string
  sValue :: string

type_synonym header_list = "(MessageHeader, string, MessageHeader list) List_t"

text \<open>The files that define handlers.\<close>
datatype codec =
    C_Block | C_CacheReq | C_CacheResp | C_Inspection | C_Judgment
  | C_AlertPrimary | C_AlertChild | C_OutputEvent | C_OutputInspection
  | C_ConfigAck | C_ConfigUpdate | C_Error | C_Hello | C_RegReq | C_Term
  | C_Empty

record 'p Message =
  m_type :: u32
  m_length :: nat
  version :: u32
  brokerSettlement :: "addr option"
  telemetryContext :: "addr option"
  headers :: "header_list option"
  message :: "'p option"
  serialized :: "string option"
  m_serialize :: "codec option"
  m_deserialize :: "codec option"
  m_destroy :: "codec option"

record MessageHandler =
  h_type :: u32
  h_serialize :: codec
  h_deserialize :: codec
  h_destroy :: codec

type_synonym handler_list = "(MessageHandler, u32, unit) List_t"

abbreviation (input) "MESSAGE_TYPE_HELLO \<equiv> (0x10000001 :: u32)"
abbreviation (input) "MESSAGE_TYPE_REG_REQ \<equiv> (0x10000002 :: u32)"
abbreviation (input) "MESSAGE_TYPE_REG_RESP \<equiv> (0x10000003 :: u32)"
abbreviation (input) "MESSAGE_TYPE_REG_ERR \<equiv> (0x10000004 :: u32)"
abbreviation (input) "MESSAGE_TYPE_CONFIG_UPDATE \<equiv> (0x10000005 :: u32)"
abbreviation (input) "MESSAGE_TYPE_CONFIG_ACK \<equiv> (0x10000006 :: u32)"
abbreviation (input) "MESSAGE_TYPE_CONFIG_ERR \<equiv> (0x10000007 :: u32)"
abbreviation (input) "MESSAGE_TYPE_PAUSE \<equiv> (0x1000000B :: u32)"
abbreviation (input) "MESSAGE_TYPE_PAUSED \<equiv> (0x1000000C :: u32)"
abbreviation (input) "MESSAGE_TYPE_GO \<equiv> (0x1000000D :: u32)"
abbreviation (input) "MESSAGE_TYPE_RUNNING \<equiv> (0x1000000E :: u32)"
abbreviation (input) "MESSAGE_TYPE_TERM \<equiv> (0x1000000F :: u32)"
abbreviation (input) "MESSAGE_TYPE_BYE \<equiv> (0x10000010 :: u32)"
abbreviation (input) "MESSAGE_TYPE_CLEAR \<equiv> (0x10000011 :: u32)"
abbreviation (input) "MESSAGE_TYPE_REREG \<equiv> (0x10000012 :: u32)"
abbreviation (input) "MESSAGE_TYPE_REQ \<equiv> (0x20000001 :: u32)"
abbreviation (input) "MESSAGE_TYPE_RESP \<equiv> (0x20000002 :: u32)"
abbreviation (input) "MESSAGE_TYPE_BLOCK \<equiv> (0x40000001 :: u32)"
abbreviation (input) "MESSAGE_TYPE_JUDGMENT \<equiv> (0x40000002 :: u32)"
abbreviation (input) "MESSAGE_TYPE_INSPECTION \<equiv> (0x40000003 :: u32)"
abbreviation (input) "MESSAGE_TYPE_ALERT_PRIMARY \<equiv> (0x80000001 :: u32)"
abbreviation (input) "MESSAGE_TYPE_ALERT_CHILD \<equiv> (0x80000002 :: u32)"
abbreviation (input) "MESSAGE_TYPE_OUTPUT_EVENT \<equiv> (0x80000003 :: u32)"
abbreviation (input) "MESSAGE_TYPE_OUTPUT_INSPECTION \<equiv> (0x80000005 :: u32)"
abbreviation (input) "MESSAGE_VERSION_1 \<equiv> (1 :: u32)"

section \<open>Headers\<close>

definition MessageHeader_KeyCmp :: "MessageHeader list \<Rightarrow> MessageHeader \<Rightarrow> string \<Rightarrow> int" where
  "MessageHeader_KeyCmp s item key = strcmp (MessageHeader.sName item) key"

text \<open>The first comparison is of the name of \<open>a\<close> with itself.\<close>
definition MessageHeader_Cmp :: "MessageHeader list \<Rightarrow> MessageHeader \<Rightarrow> MessageHeader \<Rightarrow> int" where
  "MessageHeader_Cmp s a b =
     (if strcmp (MessageHeader.sName a) (MessageHeader.sName a) = 0 \<or> strcmp (sValue a) (sValue b) = 0 then 0 else - 1)"

definition MessageHeader_Delete :: "MessageHeader \<Rightarrow> MessageHeader list \<Rightarrow> MessageHeader list" where
  "MessageHeader_Delete a s = s @ [a]"

definition MessageHeader_Clone :: "(string \<Rightarrow> bool) \<Rightarrow> MessageHeader \<Rightarrow> MessageHeader option" where
  "MessageHeader_Clone alloc orig =
     (if \<not> alloc ''MessageHeader_Clone'' then None
      else if \<not> alloc ''MessageHeader_Clone.name'' then None
      else if \<not> alloc ''MessageHeader_Clone.value'' then None
      else Some orig)"

definition Message_Header_List_Create :: "(string \<Rightarrow> bool) \<Rightarrow> header_list option" where
  "Message_Header_List_Create alloc =
     List_Create (alloc ''List_Create'') (alloc ''List_Create.lock'') True LIST_MODE_GENERIC
       (Some MessageHeader_Cmp) (Some MessageHeader_KeyCmp) (Some MessageHeader_Delete)
       (Some (\<lambda>x s. (MessageHeader_Clone alloc x, s))) None None"

text \<open>The result of the push is ignored.\<close>
definition Message_HeaderList_Add ::
  "'j json_env \<Rightarrow> header_list option \<Rightarrow> string option \<Rightarrow> string option
    \<Rightarrow> (MessageHeader option \<times> header_list option) option" where
  "Message_HeaderList_Add E hs nm v =
     (case (hs, nm, v) of
        (Some l, Some n, Some w) \<Rightarrow>
          if \<not> e_alloc E ''Message_HeaderList_Add'' then Some (None, hs)
          else if \<not> e_alloc E ''Message_HeaderList_Add.name'' then Some (None, hs)
          else if \<not> e_alloc E ''Message_HeaderList_Add.value'' then Some (None, hs)
          else do {
            (_, hs') \<leftarrow> List_Push (e_mem E) hs \<lparr>sName = n, sValue = w\<rparr>;
            Some (Some \<lparr>sName = n, sValue = w\<rparr>, hs') }
      | _ \<Rightarrow> Some (None, hs))"

text \<open>Null arguments fail; the result is whether it succeeded, and the message.\<close>
definition Message_Add_Header ::
  "'j json_env \<Rightarrow> 'p Message \<Rightarrow> string option \<Rightarrow> string option \<Rightarrow> (bool \<times> 'p Message) option" where
  "Message_Add_Header E msg nm v =
     (if nm = None \<or> v = None then Some (False, msg)
      else do {
        (h, hs) \<leftarrow> Message_HeaderList_Add E (headers msg) nm v;
        Some (h \<noteq> None, msg \<lparr>headers := hs\<rparr>) })"

section \<open>Messages\<close>

text \<open>\<open>body\<close> is the zeroed structure of the given size, or nothing for size zero.\<close>
definition Message_Create :: "'j json_env \<Rightarrow> u32 \<Rightarrow> u32 \<Rightarrow> 'p option \<Rightarrow> 'p Message option" where
  "Message_Create E ty ver body =
     (if \<not> e_alloc E ''Message_Create'' then None
      else if body \<noteq> None \<and> \<not> e_alloc E ''Message_Create.data'' then None
      else Some \<lparr>m_type = ty, m_length = 0, version = ver, brokerSettlement = None, telemetryContext = None,
             headers = Message_Header_List_Create (e_alloc E), message = body, serialized = None,
             m_serialize = None, m_deserialize = None, m_destroy = None\<rparr>)"

definition Message_SetSerializedJson :: "'j json_env \<Rightarrow> 'p Message \<Rightarrow> string option \<Rightarrow> bool \<times> 'p Message" where
  "Message_SetSerializedJson E msg wire =
     (case wire of
        None \<Rightarrow> (False, msg)
      | Some t \<Rightarrow>
          if serialized msg \<noteq> None then (False, msg)
          else if \<not> e_alloc E ''Message_SetSerializedJson'' then (False, msg)
          else (True, msg \<lparr>serialized := Some t, m_length := length t\<rparr>))"

definition released_if :: "'a option \<Rightarrow> ('a \<Rightarrow> ('ctx, 'md) released) \<Rightarrow> ('ctx, 'md) released list" where
  "released_if p r = (case p of None \<Rightarrow> [] | Some x \<Rightarrow> [r x])"

text \<open>What the destruction of the headers releases.\<close>
definition release_headers :: "header_list option \<Rightarrow> ('ctx, 'md) released list option" where
  "release_headers hs =
     (case hs of
        None \<Rightarrow> Some []
      | Some l \<Rightarrow> do {
          s \<leftarrow> List_Destroy hs [];
          Some [RHeaders (map (\<lambda>h. (MessageHeader.sName h, sValue h)) s)] })"

definition Message_Destroy :: "'p Message option \<Rightarrow> ('ctx, 'md) released list option" where
  "Message_Destroy m =
     (case m of
        None \<Rightarrow> Some []
      | Some msg \<Rightarrow> do {
          hs \<leftarrow> release_headers (headers msg);
          Some (released_if (message msg) (\<lambda>b. RPayload) @ released_if (serialized msg) RText @ hs
            @ released_if (brokerSettlement msg) RPointer @ released_if (telemetryContext msg) RPointer @ [RMessage]) })"

text \<open>The results of the two additions are ignored.\<close>
definition Message_Add_Directed_Headers ::
  "'j json_env \<Rightarrow> 'p Message \<Rightarrow> uuid \<Rightarrow> uuid \<Rightarrow> (bool \<times> 'p Message) option" where
  "Message_Add_Directed_Headers E msg source dest = do {
     (_, m1) \<leftarrow> Message_Add_Header E msg (Some ''Source_Nugget'') (Some (e_uuid_unparse E source));
     (_, m2) \<leftarrow> Message_Add_Header E m1 (Some ''Dest_Nugget'') (Some (e_uuid_unparse E dest));
     Some (True, m2) }"

text \<open>The result is the message, or nothing.\<close>
definition Message_Create_Directed ::
  "'j json_env \<Rightarrow> u32 \<Rightarrow> u32 \<Rightarrow> 'p option \<Rightarrow> uuid \<Rightarrow> uuid \<Rightarrow> 'p Message option option" where
  "Message_Create_Directed E ty ver body source dest =
     (case Message_Create E ty ver body of
        None \<Rightarrow> Some None
      | Some msg \<Rightarrow> do {
          (ok, m') \<leftarrow> Message_Add_Directed_Headers E msg source dest;
          Some (if ok then Some m' else None) })"

definition Message_Create_Broadcast ::
  "'j json_env \<Rightarrow> u32 \<Rightarrow> u32 \<Rightarrow> 'p option \<Rightarrow> uuid \<Rightarrow> 'p Message option option" where
  "Message_Create_Broadcast E ty ver body source =
     (case Message_Create E ty ver body of
        None \<Rightarrow> Some None
      | Some msg \<Rightarrow> do {
          (ok, m') \<leftarrow> Message_Add_Directed_Headers E msg source no_uuid;
          Some (if ok then Some m' else None) })"

text \<open>A text that was there before is not released.\<close>
definition Message_Serialize_Empty :: "'j json_env \<Rightarrow> 'p Message \<Rightarrow> bool \<times> 'p Message" where
  "Message_Serialize_Empty E msg =
     (if \<not> e_alloc E ''Message_Serialize_Empty'' then (False, msg \<lparr>serialized := None\<rparr>)
      else (True, msg \<lparr>serialized := Some ''{}'', m_length := 2\<rparr>))"

definition Message_Deserialize_Empty :: "'p Message \<Rightarrow> bool \<times> 'p Message" where
  "Message_Deserialize_Empty msg = (True, msg)"

text \<open>
  The two identifiers of the headers, written to \<open>source\<close> and \<open>dest\<close>: the destination is read first
  and stays written when the source is missing.
\<close>
definition Message_Get_Nuggets :: "'j json_env \<Rightarrow> 'p Message \<Rightarrow> uuid \<Rightarrow> uuid \<Rightarrow> (bool \<times> uuid \<times> uuid) option" where
  "Message_Get_Nuggets E msg source dest = do {
     (h, _, _) \<leftarrow> List_Find (headers msg) ''Dest_Nugget'' [];
     (case h of
        None \<Rightarrow> Some (False, source, dest)
      | Some hdr \<Rightarrow>
          (case e_uuid_parse E (sValue hdr) of
             None \<Rightarrow> Some (False, source, dest)
           | Some d \<Rightarrow> do {
               (h2, _, _) \<leftarrow> List_Find (headers msg) ''Source_Nugget'' [];
               (case h2 of
                  None \<Rightarrow> Some (False, source, d)
                | Some hs \<Rightarrow>
                    (case e_uuid_parse E (sValue hs) of
                       None \<Rightarrow> Some (False, source, d)
                     | Some s \<Rightarrow> Some (True, s, d))) })) }"

section \<open>Handlers\<close>

text \<open>The difference of the two types, as an \<open>int\<close>.\<close>
definition MessageHandler_KeyCmp :: "unit \<Rightarrow> MessageHandler \<Rightarrow> u32 \<Rightarrow> int" where
  "MessageHandler_KeyCmp s item key = sint (h_type item - key)"

definition MessageHandler_Cmp :: "unit \<Rightarrow> MessageHandler \<Rightarrow> MessageHandler \<Rightarrow> int" where
  "MessageHandler_Cmp s a b = (if a = b then 0 else sint (h_type a - h_type b))"

definition MessageHandler_Delete :: "MessageHandler \<Rightarrow> unit \<Rightarrow> unit" where
  "MessageHandler_Delete a s = s"

definition Message_Register_Handler ::
  "'j json_env \<Rightarrow> handler_list option \<Rightarrow> MessageHandler \<Rightarrow> (bool \<times> handler_list option) option" where
  "Message_Register_Handler E handlerList handler = List_Push (e_mem E) handlerList handler"

text \<open>The handler whose three functions are those of one file.\<close>
definition handler_of :: "u32 \<Rightarrow> codec \<Rightarrow> MessageHandler" where
  "handler_of t c = \<lparr>h_type = t, h_serialize = c, h_deserialize = c, h_destroy = c\<rparr>"

text \<open>The handlers of the files that \<open>Message_Init\<close> initialises, in the order of the calls.\<close>
definition handlers :: "MessageHandler list" where
  "handlers =
     [handler_of MESSAGE_TYPE_BLOCK C_Block,
      handler_of MESSAGE_TYPE_REQ C_CacheReq,
      handler_of MESSAGE_TYPE_RESP C_CacheResp,
      handler_of MESSAGE_TYPE_INSPECTION C_Inspection,
      handler_of MESSAGE_TYPE_JUDGMENT C_Judgment,
      handler_of MESSAGE_TYPE_ALERT_PRIMARY C_AlertPrimary,
      handler_of MESSAGE_TYPE_ALERT_CHILD C_AlertChild,
      handler_of MESSAGE_TYPE_OUTPUT_EVENT C_OutputEvent,
      handler_of MESSAGE_TYPE_BYE C_Empty,
      handler_of MESSAGE_TYPE_CLEAR C_Empty,
      \<lparr>h_type = MESSAGE_TYPE_CONFIG_ACK, h_serialize = C_ConfigAck, h_deserialize = C_ConfigAck, h_destroy = C_Empty\<rparr>,
      handler_of MESSAGE_TYPE_CONFIG_UPDATE C_ConfigUpdate,
      handler_of MESSAGE_TYPE_REG_ERR C_Error,
      handler_of MESSAGE_TYPE_CONFIG_ERR C_Error,
      handler_of MESSAGE_TYPE_GO C_Empty,
      handler_of MESSAGE_TYPE_HELLO C_Hello,
      handler_of MESSAGE_TYPE_PAUSE C_Empty,
      handler_of MESSAGE_TYPE_PAUSED C_Empty,
      handler_of MESSAGE_TYPE_REG_REQ C_RegReq,
      handler_of MESSAGE_TYPE_REG_RESP C_Empty,
      handler_of MESSAGE_TYPE_RUNNING C_Empty,
      handler_of MESSAGE_TYPE_TERM C_Term,
      handler_of MESSAGE_TYPE_REREG C_Empty]"

text \<open>The registrations; their results are ignored.\<close>
fun register_all :: "'j json_env \<Rightarrow> MessageHandler list \<Rightarrow> handler_list option \<Rightarrow> handler_list option option" where
  "register_all E [] l = Some l"
| "register_all E (h # hs) l = do {
     (_, l') \<leftarrow> Message_Register_Handler E l h;
     register_all E hs l' }"

text \<open>The result is whether it succeeded, and the static list of handlers.\<close>
definition Message_Init :: "'j json_env \<Rightarrow> (bool \<times> handler_list option) option" where
  "Message_Init E =
     (case List_Create (e_alloc E ''List_Create'') (e_alloc E ''List_Create.lock'') True LIST_MODE_GENERIC
         (Some MessageHandler_Cmp) (Some MessageHandler_KeyCmp) (Some MessageHandler_Delete) None None None of
        None \<Rightarrow> Some (False, None)
      | Some l \<Rightarrow> do {
          l' \<leftarrow> register_all E handlers (Some l);
          Some (True, l') })"

definition Message_Setup :: "handler_list option \<Rightarrow> 'p Message \<Rightarrow> (bool \<times> 'p Message) option" where
  "Message_Setup handlerList msg = do {
     (h, _, _) \<leftarrow> List_Find handlerList (m_type msg) ();
     Some (case h of
        None \<Rightarrow> (False, msg)
      | Some hdr \<Rightarrow> (True, msg \<lparr>m_serialize := Some (h_serialize hdr), m_deserialize := Some (h_deserialize hdr),
                      m_destroy := Some (h_destroy hdr)\<rparr>)) }"

end
