(* ===== verification/Messages.thy ===== *)
theory Messages
  imports Message_Core
begin

text \<open>
  The messages: the files of \<open>src/messages\<close> and \<open>src/messages/cnc\<close>. Every file defines the body of a
  message, its creation, its destruction, and its two conversions to and from JSON.

  A conversion returns whether it succeeded and the message as it is then: what was read before a
  failure stays in the body. A body of another kind than the file's own is undefined behaviour, as is
  the use of memory that was released. What a failed creation had built leaves no trace in the model.
  The message itself is never null: the functions are called through its own pointers.
  Messages without a body use the functions for empty messages of \<open>src/messages/core.c\<close>.
\<close>

section \<open>Bodies\<close>

record ('ctx, 'md) MessageBlockSubmission =
  iReason :: u32
  pEvent :: "('ctx, 'md) Event option"
  storedLocality :: byte

record ('ctx, 'md) MessageCacheReq =
  uuidRequestor :: uuid
  pId :: "('ctx, 'md) BlockId option"

record ('ctx, 'md) MessageCacheResp =
  pId :: "('ctx, 'md) BlockId option"
  iSfFlags :: u32
  iEntFlags :: u32

record ('ctx, 'md) MessageJudgmentSubmission =
  iReason :: byte
  pJudgment :: "('ctx, 'md) Judgment option"

record ('ctx, 'md) MessageInspectionSubmission =
  iReason :: u32
  pBlock :: "('ctx, 'md) Block option"
  eventId :: "EventId option"
  pEventMetadata :: "ntlv_list option"
  localityCount :: u32
  localityList :: "byte list option"

record ('ctx, 'md) MessageAlertPrimary =
  nugget :: "Nugget option"
  block :: "('ctx, 'md) Block option"
  event :: "('ctx, 'md) Event option"
  gid :: u32
  sid :: u32
  metadata :: "ntlv_list option"
  priority :: byte
  a_message :: "string option"
  seconds :: u64
  nanosecs :: u64
  SF_Flags :: u32
  Ent_Flags :: u32
  Old_SF_Flags :: u32
  Old_Ent_Flags :: u32

record ('ctx, 'md) MessageAlertChild =
  nugget :: "Nugget option"
  block :: "('ctx, 'md) Block option"
  child :: "('ctx, 'md) Block option"
  eventCount :: u64
  parentCount :: u64
  SF_Flags :: u32
  Ent_Flags :: u32
  Old_SF_Flags :: u32
  Old_Ent_Flags :: u32

record ('ctx, 'md) MessageOutputEvent =
  nugget :: "Nugget option"
  event :: "('ctx, 'md) Event option"

record ('ctx, 'md) MessageOutputInspection =
  nugget :: "Nugget option"
  seconds :: u64
  nanosecs :: u64
  blockId :: "('ctx, 'md) BlockId option"
  status :: byte
  final :: bool

record MessageConfigurationAck =
  uuidNuggetType :: uuid
  uuidApplicationType :: uuid

record MessageConfigurationUpdate =
  ntlvTypes :: "uuid_list option"
  ntlvNames :: "uuid_list option"
  dataTypes :: "uuid_list option"

record MessageError =
  e_sMessage :: "string option"

record MessageHello =
  uuidNuggetType :: uuid
  uuidApplicationType :: uuid
  locality :: byte
  priority :: byte
  flags :: u32
  addressList :: "string_list option"
  protocol :: byte
  port :: "16 word"

text \<open>A pointer to memory that was released stays in its field.\<close>
datatype 'a buffer = Live 'a | Freed

record MessageRegistrationRequest =
  uuidNuggetType :: uuid
  uuidApplicationType :: uuid
  iDataTypeCount :: u32
  pDataTypeList :: "uuid list buffer option"

record MessageTerminate =
  sTerminateReason :: "string option"

datatype ('ctx, 'md) payload =
    P_Block "('ctx, 'md) MessageBlockSubmission"
  | P_CacheReq "('ctx, 'md) MessageCacheReq"
  | P_CacheResp "('ctx, 'md) MessageCacheResp"
  | P_Inspection "('ctx, 'md) MessageInspectionSubmission"
  | P_Judgment "('ctx, 'md) MessageJudgmentSubmission"
  | P_AlertPrimary "('ctx, 'md) MessageAlertPrimary"
  | P_AlertChild "('ctx, 'md) MessageAlertChild"
  | P_OutputEvent "('ctx, 'md) MessageOutputEvent"
  | P_OutputInspection "('ctx, 'md) MessageOutputInspection"
  | P_ConfigAck MessageConfigurationAck
  | P_ConfigUpdate MessageConfigurationUpdate
  | P_Error MessageError
  | P_Hello MessageHello
  | P_RegReq MessageRegistrationRequest
  | P_Term MessageTerminate

type_synonym ('ctx, 'md) msg = "('ctx, 'md) payload Message"

section \<open>Conversions\<close>

text \<open>A new object, filled by \<open>body\<close>, becomes the text of the message.\<close>
definition serialize_json :: "'j json_env \<Rightarrow> 'p Message \<Rightarrow> 'j put \<Rightarrow> (bool \<times> 'p Message) option" where
  "serialize_json E msg body =
     (case json_object_new_object (e_js E) of
        None \<Rightarrow> Some (False, msg)
      | Some c \<Rightarrow> do {
          (ok, c') \<leftarrow> body (Some c);
          (case c' of
             None \<Rightarrow> None
           | Some d \<Rightarrow>
               if ok then Some (Message_SetSerializedJson E msg (Some (json_object_to_json_string (e_js E) d)))
               else Some (False, msg)) })"

text \<open>Gets in sequence; the first failure ends the sequence.\<close>
fun get_steps :: "('p \<Rightarrow> (bool \<times> 'p) option) list \<Rightarrow> 'p \<Rightarrow> (bool \<times> 'p) option" where
  "get_steps [] p = Some (True, p)"
| "get_steps (f # fs) p = do {
     (ok, p') \<leftarrow> f p;
     (if ok then get_steps fs p' else Some (False, p')) }"

text \<open>A get whose result is stored when there is one.\<close>
definition into :: "'a option \<Rightarrow> ('a \<Rightarrow> 'p \<Rightarrow> 'p) \<Rightarrow> 'p \<Rightarrow> (bool \<times> 'p) option" where
  "into r upd p = Some (case r of None \<Rightarrow> (False, p) | Some v \<Rightarrow> (True, upd v p))"

text \<open>The same for a get that can meet undefined behaviour.\<close>
definition into_opt :: "'a option option \<Rightarrow> ('a \<Rightarrow> 'p \<Rightarrow> 'p) \<Rightarrow> 'p \<Rightarrow> (bool \<times> 'p) option" where
  "into_opt r upd p = do { x \<leftarrow> r; into x upd p }"

text \<open>
  A zeroed body is allocated at the given site, the text is parsed, and \<open>read\<close> fills the body. The text
  of a message that has none is a null pointer.
\<close>
definition deserialize_json ::
  "'j json_env \<Rightarrow> string \<Rightarrow> 'p Message \<Rightarrow> 'b \<Rightarrow> ('b \<Rightarrow> 'p) \<Rightarrow> ('j \<Rightarrow> 'b \<Rightarrow> (bool \<times> 'b) option)
    \<Rightarrow> (bool \<times> 'p Message) option" where
  "deserialize_json E site msg zero wrap rd =
     (if \<not> e_alloc E site then Some (False, msg \<lparr>message := None\<rparr>)
      else do {
        t \<leftarrow> serialized msg;
        (case json_tokener_parse (e_js E) t of
           None \<Rightarrow> Some (False, msg \<lparr>message := Some (wrap zero)\<rparr>)
         | Some ob \<Rightarrow> do {
             (ok, b) \<leftarrow> rd ob zero;
             Some (ok, msg \<lparr>message := Some (wrap b)\<rparr>) }) })"

text \<open>The destruction of a descriptor that is tested against null.\<close>
definition release_nugget :: "Nugget option \<Rightarrow> ('ctx, 'md) released list option" where
  "release_nugget n = (if n = None then Some [] else Nugget_Destroy n)"

text \<open>The three function pointers set to the functions of one file.\<close>
definition with_codec :: "codec \<Rightarrow> 'p Message \<Rightarrow> 'p Message" where
  "with_codec c msg = msg \<lparr>m_serialize := Some c, m_deserialize := Some c, m_destroy := Some c\<rparr>"

section \<open>Block submission\<close>

definition no_block_submission :: "('ctx, 'md) MessageBlockSubmission" where
  "no_block_submission = \<lparr>MessageBlockSubmission.iReason = 0, pEvent = None, storedLocality = 0\<rparr>"

definition MessageBlockSubmission_Initialize ::
  "'j json_env \<Rightarrow> ('ctx, 'md) Event option \<Rightarrow> u32 \<Rightarrow> byte \<Rightarrow> ('ctx, 'md) msg option" where
  "MessageBlockSubmission_Initialize E p_pEvent p_iReason loc =
     (if p_pEvent = None then None
      else map_option (\<lambda>m. with_codec C_Block (m \<lparr>message :=
             Some (P_Block \<lparr>MessageBlockSubmission.iReason = p_iReason, pEvent = p_pEvent, storedLocality = loc\<rparr>)\<rparr>))
        (Message_Create E MESSAGE_TYPE_BLOCK MESSAGE_VERSION_1 (Some (P_Block no_block_submission))))"

definition BlockSubmission_Destroy :: "('ctx, 'md) msg \<Rightarrow> ('ctx, 'md) released list option" where
  "BlockSubmission_Destroy m =
     (case message m of
        None \<Rightarrow> Message_Destroy (Some m)
      | Some (P_Block b) \<Rightarrow> do {
          es \<leftarrow> Event_Destroy (pEvent b);
          rs \<leftarrow> Message_Destroy (Some m);
          Some (es @ rs) }
      | _ \<Rightarrow> None)"

definition BlockSubmission_Deserialize :: "'j json_env \<Rightarrow> ('ctx, 'md) msg \<Rightarrow> (bool \<times> ('ctx, 'md) msg) option" where
  "BlockSubmission_Deserialize E m =
     deserialize_json E ''BlockSubmission_Deserialize'' m no_block_submission P_Block (\<lambda>ob. get_steps
       [into (JsonBuffer_Get_uint32_t E (Some ob) (Some ''Reason'')) (\<lambda>v b. b \<lparr>MessageBlockSubmission.iReason := v\<rparr>),
        into_opt (JsonBuffer_Get_Event E (Some ob) (Some ''Event'')) (\<lambda>v b. b \<lparr>pEvent := Some v\<rparr>),
        into (JsonBuffer_Get_uint8_t E (Some ob) (Some ''Stored_Locality'')) (\<lambda>v b. b \<lparr>storedLocality := v\<rparr>)])"

definition BlockSubmission_Serialize :: "'j json_env \<Rightarrow> ('ctx, 'md) msg \<Rightarrow> (bool \<times> ('ctx, 'md) msg) option" where
  "BlockSubmission_Serialize E m =
     (case message m of
        Some (P_Block b) \<Rightarrow> serialize_json E m (put_steps
          [JsonBuffer_Put_uint32_t E (Some ''Reason'') (MessageBlockSubmission.iReason b),
           JsonBuffer_Put_Event E (Some ''Event'') (pEvent b),
           JsonBuffer_Put_uint8_t E (Some ''Stored_Locality'') (storedLocality b)])
      | _ \<Rightarrow> None)"

section \<open>Cache request\<close>

definition no_cache_req :: "('ctx, 'md) MessageCacheReq" where
  "no_cache_req = \<lparr>uuidRequestor = no_uuid, pId = None\<rparr>"

text \<open>The copy of an identifier with the allocations of the surroundings.\<close>
definition clone_block_id :: "'j json_env \<Rightarrow> ('ctx, 'md) BlockId option \<Rightarrow> ('ctx, 'md) BlockId option option" where
  "clone_block_id E i = BlockId_Clone (e_alloc E ''BlockId_Clone'') (e_alloc E ''Hash_Clone'') (e_alloc E ''Hash_Clone.data'') i"

definition MessageCacheReq_Initialize ::
  "'j json_env \<Rightarrow> uuid \<Rightarrow> ('ctx, 'md) BlockId option \<Rightarrow> ('ctx, 'md) msg option option" where
  "MessageCacheReq_Initialize E p_uuidRequestor p_pBlockId =
     (if p_pBlockId = None then Some None
      else case Message_Create E MESSAGE_TYPE_REQ MESSAGE_VERSION_1 (Some (P_CacheReq no_cache_req)) of
        None \<Rightarrow> Some None
      | Some m \<Rightarrow> do {
          i \<leftarrow> clone_block_id E p_pBlockId;
          Some (case i of
             None \<Rightarrow> None
           | Some j \<Rightarrow> Some (with_codec C_CacheReq (m \<lparr>message :=
               Some (P_CacheReq \<lparr>uuidRequestor = p_uuidRequestor, pId = Some j\<rparr>)\<rparr>))) })"

definition CacheReq_Destroy :: "('ctx, 'md) msg \<Rightarrow> ('ctx, 'md) released list option" where
  "CacheReq_Destroy m =
     (case message m of
        None \<Rightarrow> Message_Destroy (Some m)
      | Some (P_CacheReq b) \<Rightarrow> do {
          rs \<leftarrow> Message_Destroy (Some m);
          Some (release_block_id (MessageCacheReq.pId b) @ rs) }
      | _ \<Rightarrow> None)"

definition CacheReq_Deserialize :: "'j json_env \<Rightarrow> ('ctx, 'md) msg \<Rightarrow> (bool \<times> ('ctx, 'md) msg) option" where
  "CacheReq_Deserialize E m =
     deserialize_json E ''CacheReq_Deserialize'' m no_cache_req P_CacheReq (\<lambda>ob. get_steps
       [into (JsonBuffer_Get_UUID E (Some ob) (Some ''Requestor'')) (\<lambda>v b. b \<lparr>uuidRequestor := v\<rparr>),
        into (JsonBuffer_Get_BlockId E (Some ob) (Some ''Block_ID'')) (\<lambda>v b. b \<lparr>MessageCacheReq.pId := Some v\<rparr>)])"

definition CacheReq_Serialize :: "'j json_env \<Rightarrow> ('ctx, 'md) msg \<Rightarrow> (bool \<times> ('ctx, 'md) msg) option" where
  "CacheReq_Serialize E m =
     (case message m of
        Some (P_CacheReq b) \<Rightarrow> serialize_json E m (put_steps
          [JsonBuffer_Put_UUID E (Some ''Requestor'') (uuidRequestor b),
           JsonBuffer_Put_BlockId E (Some ''Block_ID'') (MessageCacheReq.pId b)])
      | _ \<Rightarrow> None)"

section \<open>Cache response\<close>

definition no_cache_resp :: "('ctx, 'md) MessageCacheResp" where
  "no_cache_resp = \<lparr>pId = None, iSfFlags = 0, iEntFlags = 0\<rparr>"

definition MessageCacheResp_Initialize ::
  "'j json_env \<Rightarrow> ('ctx, 'md) BlockId option \<Rightarrow> u32 \<Rightarrow> u32 \<Rightarrow> ('ctx, 'md) msg option option" where
  "MessageCacheResp_Initialize E p_pBlockId p_iSfFlags p_iEntFlags =
     (if p_pBlockId = None then Some None
      else case Message_Create E MESSAGE_TYPE_RESP MESSAGE_VERSION_1 (Some (P_CacheResp no_cache_resp)) of
        None \<Rightarrow> Some None
      | Some m \<Rightarrow> do {
          i \<leftarrow> clone_block_id E p_pBlockId;
          Some (case i of
             None \<Rightarrow> None
           | Some j \<Rightarrow> Some (with_codec C_CacheResp (m \<lparr>message :=
               Some (P_CacheResp \<lparr>pId = Some j, iSfFlags = p_iSfFlags, iEntFlags = p_iEntFlags\<rparr>)\<rparr>))) })"

definition CacheResp_Destroy :: "('ctx, 'md) msg \<Rightarrow> ('ctx, 'md) released list option" where
  "CacheResp_Destroy m =
     (case message m of
        None \<Rightarrow> Message_Destroy (Some m)
      | Some (P_CacheResp b) \<Rightarrow> do {
          rs \<leftarrow> Message_Destroy (Some m);
          Some (release_block_id (MessageCacheResp.pId b) @ rs) }
      | _ \<Rightarrow> None)"

definition CacheResp_Deserialize :: "'j json_env \<Rightarrow> ('ctx, 'md) msg \<Rightarrow> (bool \<times> ('ctx, 'md) msg) option" where
  "CacheResp_Deserialize E m =
     deserialize_json E ''CacheResp_Deserialize'' m no_cache_resp P_CacheResp (\<lambda>ob. get_steps
       [into (JsonBuffer_Get_BlockId E (Some ob) (Some ''Block_ID'')) (\<lambda>v b. b \<lparr>MessageCacheResp.pId := Some v\<rparr>),
        into (JsonBuffer_Get_uint32_t E (Some ob) (Some ''SF_Flags'')) (\<lambda>v b. b \<lparr>iSfFlags := v\<rparr>),
        into (JsonBuffer_Get_uint32_t E (Some ob) (Some ''Ent_Flags'')) (\<lambda>v b. b \<lparr>iEntFlags := v\<rparr>)])"

definition CacheResp_Serialize :: "'j json_env \<Rightarrow> ('ctx, 'md) msg \<Rightarrow> (bool \<times> ('ctx, 'md) msg) option" where
  "CacheResp_Serialize E m =
     (case message m of
        Some (P_CacheResp b) \<Rightarrow> serialize_json E m (put_steps
          [JsonBuffer_Put_BlockId E (Some ''Block_ID'') (MessageCacheResp.pId b),
           JsonBuffer_Put_uint32_t E (Some ''SF_Flags'') (iSfFlags b),
           JsonBuffer_Put_uint32_t E (Some ''Ent_Flags'') (iEntFlags b)])
      | _ \<Rightarrow> None)"

section \<open>Judgment submission\<close>

definition no_judgment_submission :: "('ctx, 'md) MessageJudgmentSubmission" where
  "no_judgment_submission = \<lparr>MessageJudgmentSubmission.iReason = 0, pJudgment = None\<rparr>"

definition MessageJudgmentSubmission_Initialize ::
  "'j json_env \<Rightarrow> byte \<Rightarrow> ('ctx, 'md) Judgment option \<Rightarrow> ('ctx, 'md) msg option" where
  "MessageJudgmentSubmission_Initialize E p_iReason p_pJudgment =
     (if p_pJudgment = None then None
      else map_option (\<lambda>m. with_codec C_Judgment (m \<lparr>message :=
             Some (P_Judgment \<lparr>MessageJudgmentSubmission.iReason = p_iReason, pJudgment = p_pJudgment\<rparr>)\<rparr>))
        (Message_Create E MESSAGE_TYPE_JUDGMENT MESSAGE_VERSION_1 (Some (P_Judgment no_judgment_submission))))"

definition JudgmentSubmission_Destroy :: "('ctx, 'md) msg \<Rightarrow> ('ctx, 'md) released list option" where
  "JudgmentSubmission_Destroy m =
     (case message m of
        None \<Rightarrow> Message_Destroy (Some m)
      | Some (P_Judgment b) \<Rightarrow> do {
          js \<leftarrow> Judgment_Destroy (pJudgment b);
          rs \<leftarrow> Message_Destroy (Some m);
          Some (js @ rs) }
      | _ \<Rightarrow> None)"

definition JudgmentSubmission_Deserialize :: "'j json_env \<Rightarrow> ('ctx, 'md) msg \<Rightarrow> (bool \<times> ('ctx, 'md) msg) option" where
  "JudgmentSubmission_Deserialize E m =
     deserialize_json E ''JudgmentSubmission_Deserialize'' m no_judgment_submission P_Judgment (\<lambda>ob. get_steps
       [into (JsonBuffer_Get_uint8_t E (Some ob) (Some ''Reason'')) (\<lambda>v b. b \<lparr>MessageJudgmentSubmission.iReason := v\<rparr>),
        into_opt (JsonBuffer_Get_Judgment E (Some ob) (Some ''Judgment'')) (\<lambda>v b. b \<lparr>pJudgment := Some v\<rparr>)])"

definition JudgmentSubmission_Serialize :: "'j json_env \<Rightarrow> ('ctx, 'md) msg \<Rightarrow> (bool \<times> ('ctx, 'md) msg) option" where
  "JudgmentSubmission_Serialize E m =
     (case message m of
        Some (P_Judgment b) \<Rightarrow> serialize_json E m (put_steps
          [JsonBuffer_Put_uint8_t E (Some ''Reason'') (MessageJudgmentSubmission.iReason b),
           JsonBuffer_Put_Judgment E (Some ''Judgment'') (pJudgment b)])
      | _ \<Rightarrow> None)"

section \<open>Inspection submission\<close>

definition no_inspection :: "('ctx, 'md) MessageInspectionSubmission" where
  "no_inspection = \<lparr>MessageInspectionSubmission.iReason = 0, pBlock = None, eventId = None, pEventMetadata = None,
     localityCount = 0, localityList = None\<rparr>"

text \<open>The event is not null; its block, identifier and metadata are copied.\<close>
definition MessageInspectionSubmission_Initialize ::
  "'j json_env \<Rightarrow> ('ctx, 'md) Event option \<Rightarrow> u32 \<Rightarrow> u32 \<Rightarrow> byte list option \<Rightarrow> ('ctx, 'md) msg option option" where
  "MessageInspectionSubmission_Initialize E p_pEvent p_iReason count localities =
     (case p_pEvent of
        None \<Rightarrow> Some None
      | Some (Event i pid par app blk meta) \<Rightarrow>
          (case Message_Create E MESSAGE_TYPE_INSPECTION MESSAGE_VERSION_1 (Some (P_Inspection no_inspection)) of
             None \<Rightarrow> Some None
           | Some m \<Rightarrow> do {
               (b, _) \<leftarrow> Block_Clone (e_mem E) (e_alloc E) blk;
               (if b = None then Some None
                else case EventId_Clone (e_alloc E) i of
                  None \<Rightarrow> Some None
                | Some e \<Rightarrow> do {
                    (md, _, _) \<leftarrow> List_Clone (e_mem E) (e_alloc E ''List_Create'') (e_alloc E ''List_Create.lock'') True meta [];
                    (if md = None then Some None
                     else if count > 0 \<and> \<not> e_alloc E ''MessageInspectionSubmission_Initialize'' then Some None
                     else do {
                       ls \<leftarrow> (if count > 0 then do {
                           bs \<leftarrow> localities;
                           (if length bs < unat count then None else Some (Some (take (unat count) bs))) }
                         else Some None);
                       Some (Some (with_codec C_Inspection (m \<lparr>message := Some (P_Inspection
                         \<lparr>MessageInspectionSubmission.iReason = p_iReason, pBlock = b, eventId = Some e, pEventMetadata = md,
                          localityCount = count, localityList = ls\<rparr>)\<rparr>))) }) }) }))"

definition InspectionSubmission_Destroy :: "('ctx, 'md) msg \<Rightarrow> ('ctx, 'md) released list option" where
  "InspectionSubmission_Destroy m =
     (case message m of
        None \<Rightarrow> Message_Destroy (Some m)
      | Some (P_Inspection b) \<Rightarrow> do {
          bs \<leftarrow> Block_Destroy (pBlock b);
          ms \<leftarrow> release_metadata (pEventMetadata b);
          rs \<leftarrow> Message_Destroy (Some m);
          Some (bs @ EventId_Destroy (eventId b) @ ms @ released_if (localityList b) RBuffer @ rs) }
      | _ \<Rightarrow> None)"

definition InspectionSubmission_Deserialize :: "'j json_env \<Rightarrow> ('ctx, 'md) msg \<Rightarrow> (bool \<times> ('ctx, 'md) msg) option" where
  "InspectionSubmission_Deserialize E m =
     deserialize_json E ''InspectionSubmission_Deserialize'' m no_inspection P_Inspection (\<lambda>ob. get_steps
       [into (JsonBuffer_Get_uint32_t E (Some ob) (Some ''Reason'')) (\<lambda>v b. b \<lparr>MessageInspectionSubmission.iReason := v\<rparr>),
        into (JsonBuffer_Get_EventId E (Some ob) (Some ''Event_ID'')) (\<lambda>v b. b \<lparr>eventId := Some v\<rparr>),
        into_opt (JsonBuffer_Get_NTLVList E (Some ob) (Some ''Event_Metadata'')) (\<lambda>v b. b \<lparr>pEventMetadata := Some v\<rparr>),
        into_opt (JsonBuffer_Get_Block E (Some ob) (Some ''Block'')) (\<lambda>v b. b \<lparr>pBlock := Some v\<rparr>),
        into (JsonBuffer_Get_uint8List E (Some ob) (Some ''Avaliable_Localities''))
          (\<lambda>(ls, c) b. b \<lparr>localityList := (if c = 0 then None else Some ls), localityCount := c\<rparr>)])"

definition InspectionSubmission_Serialize :: "'j json_env \<Rightarrow> ('ctx, 'md) msg \<Rightarrow> (bool \<times> ('ctx, 'md) msg) option" where
  "InspectionSubmission_Serialize E m =
     (case message m of
        Some (P_Inspection b) \<Rightarrow> serialize_json E m (put_steps
          [JsonBuffer_Put_uint32_t E (Some ''Reason'') (MessageInspectionSubmission.iReason b),
           JsonBuffer_Put_EventId E (Some ''Event_ID'') (eventId b),
           JsonBuffer_Put_NTLVList E (Some ''Event_Metadata'') (pEventMetadata b),
           JsonBuffer_Put_Block E (Some ''Block'') (pBlock b),
           JsonBuffer_Put_uint8List E (Some ''Avaliable_Localities'')
             (case localityList b of None \<Rightarrow> [] | Some ls \<Rightarrow> ls) (localityCount b)])
      | _ \<Rightarrow> None)"

section \<open>Primary alert\<close>

definition no_alert_primary :: "('ctx, 'md) MessageAlertPrimary" where
  "no_alert_primary = \<lparr>MessageAlertPrimary.nugget = None, block = None, event = None, gid = 0, sid = 0, metadata = None,
     priority = 0, a_message = None, seconds = 0, nanosecs = 0, SF_Flags = 0, Ent_Flags = 0, Old_SF_Flags = 0, Old_Ent_Flags = 0\<rparr>"

text \<open>The message of the judgment is shared with the alert.\<close>
definition MessageAlertPrimary_Initialize ::
  "'j json_env \<Rightarrow> ('ctx, 'md) Event option \<Rightarrow> ('ctx, 'md) Block option \<Rightarrow> ntlv_list option \<Rightarrow> Nugget option
    \<Rightarrow> ('ctx, 'md) Judgment option \<Rightarrow> u32 \<Rightarrow> u32 \<Rightarrow> u32 \<Rightarrow> u32 \<Rightarrow> ('ctx, 'md) msg option" where
  "MessageAlertPrimary_Initialize E ev blk meta ng judgment new_SF_Flags new_Ent_Flags old_SF_Flags old_Ent_Flags =
     (case judgment of
        None \<Rightarrow> None
      | Some j \<Rightarrow>
          if ev = None \<or> blk = None \<or> meta = None \<or> ng = None then None
          else map_option (\<lambda>m. with_codec C_AlertPrimary (m \<lparr>message := Some (P_AlertPrimary
                 \<lparr>MessageAlertPrimary.nugget = ng, block = blk, event = ev, gid = iGID j, sid = iSID j, metadata = meta,
                  priority = iPriority j, a_message = sMessage j, seconds = Judgment.iSeconds j, nanosecs = Judgment.iNanoSecs j,
                  SF_Flags = new_SF_Flags, Ent_Flags = new_Ent_Flags, Old_SF_Flags = old_SF_Flags,
                  Old_Ent_Flags = old_Ent_Flags\<rparr>)\<rparr>))
            (Message_Create E MESSAGE_TYPE_ALERT_PRIMARY MESSAGE_VERSION_1 (Some (P_AlertPrimary no_alert_primary))))"

definition AlertPrimary_Destroy :: "('ctx, 'md) msg \<Rightarrow> ('ctx, 'md) released list option" where
  "AlertPrimary_Destroy m =
     (case message m of
        None \<Rightarrow> Message_Destroy (Some m)
      | Some (P_AlertPrimary b) \<Rightarrow> do {
          es \<leftarrow> Event_Destroy (MessageAlertPrimary.event b);
          bs \<leftarrow> Block_Destroy (MessageAlertPrimary.block b);
          ms \<leftarrow> release_metadata (metadata b);
          ns \<leftarrow> release_nugget (MessageAlertPrimary.nugget b);
          rs \<leftarrow> Message_Destroy (Some m);
          Some (es @ bs @ ms @ released_if (a_message b) RText @ ns @ rs) }
      | _ \<Rightarrow> None)"

text \<open>A missing message is not an error.\<close>
definition AlertPrimary_Deserialize :: "'j json_env \<Rightarrow> ('ctx, 'md) msg \<Rightarrow> (bool \<times> ('ctx, 'md) msg) option" where
  "AlertPrimary_Deserialize E m =
     deserialize_json E ''AlertPrimary_Deserialize'' m no_alert_primary P_AlertPrimary (\<lambda>ob. get_steps
       [into (JsonBuffer_Get_Nugget E (Some ob) (Some ''Nugget'')) (\<lambda>v b. b \<lparr>MessageAlertPrimary.nugget := Some v\<rparr>),
        into_opt (JsonBuffer_Get_Block E (Some ob) (Some ''Block'')) (\<lambda>v b. b \<lparr>MessageAlertPrimary.block := Some v\<rparr>),
        into_opt (JsonBuffer_Get_Event E (Some ob) (Some ''Event'')) (\<lambda>v b. b \<lparr>MessageAlertPrimary.event := Some v\<rparr>),
        (\<lambda>b. Some (True, b \<lparr>a_message := JsonBuffer_Get_String E (Some ob) (Some ''Message'')\<rparr>)),
        into (JsonBuffer_Get_uint8_t E (Some ob) (Some ''Priority'')) (\<lambda>v b. b \<lparr>MessageAlertPrimary.priority := v\<rparr>),
        into (JsonBuffer_Get_uint64_t E (Some ob) (Some ''Seconds'')) (\<lambda>v b. b \<lparr>MessageAlertPrimary.seconds := v\<rparr>),
        into (JsonBuffer_Get_uint64_t E (Some ob) (Some ''Nano_Seconds'')) (\<lambda>v b. b \<lparr>MessageAlertPrimary.nanosecs := v\<rparr>),
        into (JsonBuffer_Get_uint32_t E (Some ob) (Some ''GID'')) (\<lambda>v b. b \<lparr>gid := v\<rparr>),
        into (JsonBuffer_Get_uint32_t E (Some ob) (Some ''SID'')) (\<lambda>v b. b \<lparr>sid := v\<rparr>),
        into (JsonBuffer_Get_uint32_t E (Some ob) (Some ''SF_Flags'')) (\<lambda>v b. b \<lparr>MessageAlertPrimary.SF_Flags := v\<rparr>),
        into (JsonBuffer_Get_uint32_t E (Some ob) (Some ''Ent_Flags'')) (\<lambda>v b. b \<lparr>MessageAlertPrimary.Ent_Flags := v\<rparr>),
        into (JsonBuffer_Get_uint32_t E (Some ob) (Some ''Old_SF_Flags'')) (\<lambda>v b. b \<lparr>MessageAlertPrimary.Old_SF_Flags := v\<rparr>),
        into (JsonBuffer_Get_uint32_t E (Some ob) (Some ''Old_Ent_Flags'')) (\<lambda>v b. b \<lparr>MessageAlertPrimary.Old_Ent_Flags := v\<rparr>),
        into_opt (JsonBuffer_Get_NTLVList E (Some ob) (Some ''Metadata'')) (\<lambda>v b. b \<lparr>metadata := Some v\<rparr>)])"

definition AlertPrimary_Serialize :: "'j json_env \<Rightarrow> ('ctx, 'md) msg \<Rightarrow> (bool \<times> ('ctx, 'md) msg) option" where
  "AlertPrimary_Serialize E m =
     (case message m of
        Some (P_AlertPrimary b) \<Rightarrow> serialize_json E m (put_steps
          [JsonBuffer_Put_Nugget E (Some ''Nugget'') (MessageAlertPrimary.nugget b),
           JsonBuffer_Put_Block E (Some ''Block'') (MessageAlertPrimary.block b),
           JsonBuffer_Put_Event E (Some ''Event'') (MessageAlertPrimary.event b),
           put_if (a_message b \<noteq> None) (JsonBuffer_Put_String E (Some ''Message'') (a_message b)),
           JsonBuffer_Put_uint8_t E (Some ''Priority'') (MessageAlertPrimary.priority b),
           JsonBuffer_Put_uint64_t E (Some ''Seconds'') (MessageAlertPrimary.seconds b),
           JsonBuffer_Put_uint64_t E (Some ''Nano_Seconds'') (MessageAlertPrimary.nanosecs b),
           JsonBuffer_Put_uint32_t E (Some ''GID'') (gid b),
           JsonBuffer_Put_uint32_t E (Some ''SID'') (sid b),
           JsonBuffer_Put_uint32_t E (Some ''SF_Flags'') (MessageAlertPrimary.SF_Flags b),
           JsonBuffer_Put_uint32_t E (Some ''Ent_Flags'') (MessageAlertPrimary.Ent_Flags b),
           JsonBuffer_Put_uint32_t E (Some ''Old_SF_Flags'') (MessageAlertPrimary.Old_SF_Flags b),
           JsonBuffer_Put_uint32_t E (Some ''Old_Ent_Flags'') (MessageAlertPrimary.Old_Ent_Flags b),
           JsonBuffer_Put_NTLVList E (Some ''Metadata'') (metadata b)])
      | _ \<Rightarrow> None)"

section \<open>Child alert\<close>

definition no_alert_child :: "('ctx, 'md) MessageAlertChild" where
  "no_alert_child = \<lparr>MessageAlertChild.nugget = None, block = None, child = None, eventCount = 0, parentCount = 0,
     SF_Flags = 0, Ent_Flags = 0, Old_SF_Flags = 0, Old_Ent_Flags = 0\<rparr>"

definition MessageAlertChild_Initialize ::
  "'j json_env \<Rightarrow> ('ctx, 'md) Block option \<Rightarrow> ('ctx, 'md) Block option \<Rightarrow> Nugget option \<Rightarrow> u64 \<Rightarrow> u64
    \<Rightarrow> u32 \<Rightarrow> u32 \<Rightarrow> u32 \<Rightarrow> u32 \<Rightarrow> ('ctx, 'md) msg option" where
  "MessageAlertChild_Initialize E blk ch ng parents events new_SF_Flags new_Ent_Flags old_SF_Flags old_Ent_Flags =
     (if ch = None \<or> blk = None \<or> ng = None then None
      else map_option (\<lambda>m. with_codec C_AlertChild (m \<lparr>message := Some (P_AlertChild
             \<lparr>MessageAlertChild.nugget = ng, block = blk, child = ch, eventCount = events, parentCount = parents,
              SF_Flags = new_SF_Flags, Ent_Flags = new_Ent_Flags, Old_SF_Flags = old_SF_Flags,
              Old_Ent_Flags = old_Ent_Flags\<rparr>)\<rparr>))
        (Message_Create E MESSAGE_TYPE_ALERT_CHILD MESSAGE_VERSION_1 (Some (P_AlertChild no_alert_child))))"

definition AlertChild_Destroy :: "('ctx, 'md) msg \<Rightarrow> ('ctx, 'md) released list option" where
  "AlertChild_Destroy m =
     (case message m of
        None \<Rightarrow> Message_Destroy (Some m)
      | Some (P_AlertChild b) \<Rightarrow> do {
          cs \<leftarrow> Block_Destroy (child b);
          bs \<leftarrow> Block_Destroy (MessageAlertChild.block b);
          ns \<leftarrow> release_nugget (MessageAlertChild.nugget b);
          rs \<leftarrow> Message_Destroy (Some m);
          Some (cs @ bs @ ns @ rs) }
      | _ \<Rightarrow> None)"

definition AlertChild_Deserialize :: "'j json_env \<Rightarrow> ('ctx, 'md) msg \<Rightarrow> (bool \<times> ('ctx, 'md) msg) option" where
  "AlertChild_Deserialize E m =
     deserialize_json E ''AlertChild_Deserialize'' m no_alert_child P_AlertChild (\<lambda>ob. get_steps
       [into (JsonBuffer_Get_Nugget E (Some ob) (Some ''Nugget'')) (\<lambda>v b. b \<lparr>MessageAlertChild.nugget := Some v\<rparr>),
        into_opt (JsonBuffer_Get_Block E (Some ob) (Some ''Block'')) (\<lambda>v b. b \<lparr>MessageAlertChild.block := Some v\<rparr>),
        into_opt (JsonBuffer_Get_Block E (Some ob) (Some ''Child_Block'')) (\<lambda>v b. b \<lparr>child := Some v\<rparr>),
        into (JsonBuffer_Get_uint32_t E (Some ob) (Some ''SF_Flags'')) (\<lambda>v b. b \<lparr>MessageAlertChild.SF_Flags := v\<rparr>),
        into (JsonBuffer_Get_uint32_t E (Some ob) (Some ''Ent_Flags'')) (\<lambda>v b. b \<lparr>MessageAlertChild.Ent_Flags := v\<rparr>),
        into (JsonBuffer_Get_uint32_t E (Some ob) (Some ''Old_SF_Flags'')) (\<lambda>v b. b \<lparr>MessageAlertChild.Old_SF_Flags := v\<rparr>),
        into (JsonBuffer_Get_uint32_t E (Some ob) (Some ''Old_Ent_Flags'')) (\<lambda>v b. b \<lparr>MessageAlertChild.Old_Ent_Flags := v\<rparr>),
        into (JsonBuffer_Get_uint64_t E (Some ob) (Some ''Event_Count'')) (\<lambda>v b. b \<lparr>eventCount := v\<rparr>),
        into (JsonBuffer_Get_uint64_t E (Some ob) (Some ''Parent_Count'')) (\<lambda>v b. b \<lparr>parentCount := v\<rparr>)])"

text \<open>A missing body is tested for, and fails.\<close>
definition AlertChild_Serialize :: "'j json_env \<Rightarrow> ('ctx, 'md) msg \<Rightarrow> (bool \<times> ('ctx, 'md) msg) option" where
  "AlertChild_Serialize E m =
     (case message m of
        None \<Rightarrow> Some (False, m)
      | Some (P_AlertChild b) \<Rightarrow> serialize_json E m (put_steps
          [JsonBuffer_Put_Nugget E (Some ''Nugget'') (MessageAlertChild.nugget b),
           JsonBuffer_Put_Block E (Some ''Block'') (MessageAlertChild.block b),
           JsonBuffer_Put_Block E (Some ''Child_Block'') (child b),
           JsonBuffer_Put_uint32_t E (Some ''SF_Flags'') (MessageAlertChild.SF_Flags b),
           JsonBuffer_Put_uint32_t E (Some ''Ent_Flags'') (MessageAlertChild.Ent_Flags b),
           JsonBuffer_Put_uint32_t E (Some ''Old_SF_Flags'') (MessageAlertChild.Old_SF_Flags b),
           JsonBuffer_Put_uint32_t E (Some ''Old_Ent_Flags'') (MessageAlertChild.Old_Ent_Flags b),
           JsonBuffer_Put_uint64_t E (Some ''Event_Count'') (eventCount b),
           JsonBuffer_Put_uint64_t E (Some ''Parent_Count'') (parentCount b)])
      | _ \<Rightarrow> None)"

section \<open>Event output\<close>

definition no_output_event :: "('ctx, 'md) MessageOutputEvent" where
  "no_output_event = \<lparr>MessageOutputEvent.nugget = None, event = None\<rparr>"

definition MessageOutputEvent_Initialize ::
  "'j json_env \<Rightarrow> ('ctx, 'md) Event option \<Rightarrow> Nugget option \<Rightarrow> ('ctx, 'md) msg option" where
  "MessageOutputEvent_Initialize E ev ng =
     (if ev = None \<or> ng = None then None
      else map_option (\<lambda>m. with_codec C_OutputEvent (m \<lparr>message := Some (P_OutputEvent
             \<lparr>MessageOutputEvent.nugget = ng, event = ev\<rparr>)\<rparr>))
        (Message_Create E MESSAGE_TYPE_OUTPUT_EVENT MESSAGE_VERSION_1 (Some (P_OutputEvent no_output_event))))"

definition OutputEvent_Destroy :: "('ctx, 'md) msg \<Rightarrow> ('ctx, 'md) released list option" where
  "OutputEvent_Destroy m =
     (case message m of
        None \<Rightarrow> Message_Destroy (Some m)
      | Some (P_OutputEvent b) \<Rightarrow> do {
          es \<leftarrow> Event_Destroy (MessageOutputEvent.event b);
          ns \<leftarrow> release_nugget (MessageOutputEvent.nugget b);
          rs \<leftarrow> Message_Destroy (Some m);
          Some (es @ ns @ rs) }
      | _ \<Rightarrow> None)"

definition OutputEvent_Deserialize :: "'j json_env \<Rightarrow> ('ctx, 'md) msg \<Rightarrow> (bool \<times> ('ctx, 'md) msg) option" where
  "OutputEvent_Deserialize E m =
     deserialize_json E ''OutputEvent_Deserialize'' m no_output_event P_OutputEvent (\<lambda>ob. get_steps
       [into (JsonBuffer_Get_Nugget E (Some ob) (Some ''Nugget'')) (\<lambda>v b. b \<lparr>MessageOutputEvent.nugget := Some v\<rparr>),
        into_opt (JsonBuffer_Get_Event E (Some ob) (Some ''Event'')) (\<lambda>v b. b \<lparr>MessageOutputEvent.event := Some v\<rparr>)])"

definition OutputEvent_Serialize :: "'j json_env \<Rightarrow> ('ctx, 'md) msg \<Rightarrow> (bool \<times> ('ctx, 'md) msg) option" where
  "OutputEvent_Serialize E m =
     (case message m of
        Some (P_OutputEvent b) \<Rightarrow> serialize_json E m (put_steps
          [JsonBuffer_Put_Nugget E (Some ''Nugget'') (MessageOutputEvent.nugget b),
           JsonBuffer_Put_Event E (Some ''Event'') (MessageOutputEvent.event b)])
      | _ \<Rightarrow> None)"

section \<open>Inspection output\<close>

definition no_output_inspection :: "('ctx, 'md) MessageOutputInspection" where
  "no_output_inspection = \<lparr>MessageOutputInspection.nugget = None, seconds = 0, nanosecs = 0, blockId = None, status = 0, final = False\<rparr>"

text \<open>\<open>clock\<close> is the result of \<open>clock_gettime\<close>; the result of the copy of the identifier is not tested.\<close>
definition MessageOutputInspection_Initialize ::
  "'j json_env \<Rightarrow> (u64 \<times> u64) option \<Rightarrow> Nugget option \<Rightarrow> ('ctx, 'md) BlockId option \<Rightarrow> byte \<Rightarrow> bool
    \<Rightarrow> ('ctx, 'md) msg option option" where
  "MessageOutputInspection_Initialize E clock ng bid reason fin =
     (if bid = None \<or> ng = None then Some None
      else case Message_Create E MESSAGE_TYPE_OUTPUT_INSPECTION MESSAGE_VERSION_1 (Some (P_OutputInspection no_output_inspection)) of
        None \<Rightarrow> Some None
      | Some m \<Rightarrow> do {
          i \<leftarrow> clone_block_id E bid;
          Some (case clock of
             None \<Rightarrow> None
           | Some (sec, nsec) \<Rightarrow> Some (with_codec C_OutputInspection (m \<lparr>message := Some (P_OutputInspection
               \<lparr>MessageOutputInspection.nugget = ng, seconds = sec, nanosecs = nsec, blockId = i, status = reason,
                final = fin\<rparr>)\<rparr>))) })"

definition OutputInspection_Destroy :: "('ctx, 'md) msg \<Rightarrow> ('ctx, 'md) released list option" where
  "OutputInspection_Destroy m =
     (case message m of
        None \<Rightarrow> Message_Destroy (Some m)
      | Some (P_OutputInspection b) \<Rightarrow> do {
          ns \<leftarrow> release_nugget (MessageOutputInspection.nugget b);
          rs \<leftarrow> Message_Destroy (Some m);
          Some (release_block_id (blockId b) @ ns @ rs) }
      | _ \<Rightarrow> None)"

definition OutputInspection_Deserialize :: "'j json_env \<Rightarrow> ('ctx, 'md) msg \<Rightarrow> (bool \<times> ('ctx, 'md) msg) option" where
  "OutputInspection_Deserialize E m =
     deserialize_json E ''OutputInspection_Deserialize'' m no_output_inspection P_OutputInspection (\<lambda>ob. get_steps
       [into (JsonBuffer_Get_Nugget E (Some ob) (Some ''Nugget'')) (\<lambda>v b. b \<lparr>MessageOutputInspection.nugget := Some v\<rparr>),
        into (JsonBuffer_Get_BlockId E (Some ob) (Some ''BlockId'')) (\<lambda>v b. b \<lparr>blockId := Some v\<rparr>),
        into (JsonBuffer_Get_uint8_t E (Some ob) (Some ''Status'')) (\<lambda>v b. b \<lparr>status := v\<rparr>),
        into (JsonBuffer_Get_uint64_t E (Some ob) (Some ''Seconds'')) (\<lambda>v b. b \<lparr>MessageOutputInspection.seconds := v\<rparr>),
        into (JsonBuffer_Get_uint64_t E (Some ob) (Some ''NanoSecs'')) (\<lambda>v b. b \<lparr>MessageOutputInspection.nanosecs := v\<rparr>),
        into (JsonBuffer_Get_uint8_t E (Some ob) (Some ''Final'')) (\<lambda>v b. b \<lparr>final := (v \<noteq> 0)\<rparr>)])"

definition OutputInspection_Serialize :: "'j json_env \<Rightarrow> ('ctx, 'md) msg \<Rightarrow> (bool \<times> ('ctx, 'md) msg) option" where
  "OutputInspection_Serialize E m =
     (case message m of
        Some (P_OutputInspection b) \<Rightarrow> serialize_json E m (put_steps
          [JsonBuffer_Put_Nugget E (Some ''Nugget'') (MessageOutputInspection.nugget b),
           JsonBuffer_Put_BlockId E (Some ''BlockId'') (blockId b),
           JsonBuffer_Put_uint8_t E (Some ''Status'') (status b),
           JsonBuffer_Put_uint64_t E (Some ''Seconds'') (MessageOutputInspection.seconds b),
           JsonBuffer_Put_uint64_t E (Some ''NanoSecs'') (MessageOutputInspection.nanosecs b),
           JsonBuffer_Put_uint8_t E (Some ''Final'') (if final b then 1 else 0)])
      | _ \<Rightarrow> None)"

end
