(* ===== verification/Messages_CnC.thy ===== *)
theory Messages_CnC
  imports Messages
begin

text \<open>
  The command and control messages, \<open>src/messages/cnc\<close>, and the calls through the function pointers of a
  message. Of the context of a nugget only the fields that the messages read are modelled.
\<close>

section \<open>Messages without a body\<close>

text \<open>A directed message with the functions for empty messages.\<close>
definition empty_directed :: "'j json_env \<Rightarrow> u32 \<Rightarrow> uuid \<Rightarrow> uuid \<Rightarrow> ('ctx, 'md) msg option option" where
  "empty_directed E ty source dest = do {
     m \<leftarrow> Message_Create_Directed E ty MESSAGE_VERSION_1 None source dest;
     Some (map_option (with_codec C_Empty) m) }"

definition empty_broadcast :: "'j json_env \<Rightarrow> u32 \<Rightarrow> uuid \<Rightarrow> ('ctx, 'md) msg option option" where
  "empty_broadcast E ty source = do {
     m \<leftarrow> Message_Create_Broadcast E ty MESSAGE_VERSION_1 None source;
     Some (map_option (with_codec C_Empty) m) }"

definition MessageBye_Initialize :: "'j json_env \<Rightarrow> uuid \<Rightarrow> ('ctx, 'md) msg option option" where
  "MessageBye_Initialize E source = empty_broadcast E MESSAGE_TYPE_BYE source"

definition MessageCacheClear_Initialize :: "'j json_env \<Rightarrow> uuid \<Rightarrow> ('ctx, 'md) msg option option" where
  "MessageCacheClear_Initialize E source = empty_broadcast E MESSAGE_TYPE_CLEAR source"

definition MessageGo_Initialize :: "'j json_env \<Rightarrow> uuid \<Rightarrow> uuid \<Rightarrow> ('ctx, 'md) msg option option" where
  "MessageGo_Initialize E source dest = empty_directed E MESSAGE_TYPE_GO source dest"

definition MessagePause_Initialize :: "'j json_env \<Rightarrow> uuid \<Rightarrow> uuid \<Rightarrow> ('ctx, 'md) msg option option" where
  "MessagePause_Initialize E source dest = empty_directed E MESSAGE_TYPE_PAUSE source dest"

definition MessagePaused_Initialize :: "'j json_env \<Rightarrow> uuid \<Rightarrow> uuid \<Rightarrow> ('ctx, 'md) msg option option" where
  "MessagePaused_Initialize E source dest = empty_directed E MESSAGE_TYPE_PAUSED source dest"

definition MessageRegistrationResponse_Initialize :: "'j json_env \<Rightarrow> uuid \<Rightarrow> uuid \<Rightarrow> ('ctx, 'md) msg option option" where
  "MessageRegistrationResponse_Initialize E source dest = empty_directed E MESSAGE_TYPE_REG_RESP source dest"

definition MessageReReg_Initialize :: "'j json_env \<Rightarrow> uuid \<Rightarrow> uuid \<Rightarrow> ('ctx, 'md) msg option option" where
  "MessageReReg_Initialize E source dest = empty_directed E MESSAGE_TYPE_REREG source dest"

definition MessageRunning_Initialize :: "'j json_env \<Rightarrow> uuid \<Rightarrow> uuid \<Rightarrow> ('ctx, 'md) msg option option" where
  "MessageRunning_Initialize E source dest = empty_directed E MESSAGE_TYPE_RUNNING source dest"

section \<open>Configuration acknowledgement\<close>

definition no_config_ack :: MessageConfigurationAck where
  "no_config_ack = \<lparr>MessageConfigurationAck.uuidNuggetType = no_uuid, uuidApplicationType = no_uuid\<rparr>"

text \<open>The destructor is the one for messages without owned parts.\<close>
definition MessageConfigurationAck_Initialize ::
  "'j json_env \<Rightarrow> uuid \<Rightarrow> uuid \<Rightarrow> uuid \<Rightarrow> uuid \<Rightarrow> ('ctx, 'md) msg option option" where
  "MessageConfigurationAck_Initialize E source dest ngtype apptype = do {
     m \<leftarrow> Message_Create_Directed E MESSAGE_TYPE_CONFIG_ACK MESSAGE_VERSION_1 (Some (P_ConfigAck no_config_ack)) source dest;
     Some (map_option (\<lambda>m. (with_codec C_ConfigAck m) \<lparr>message := Some (P_ConfigAck
       \<lparr>MessageConfigurationAck.uuidNuggetType = ngtype, uuidApplicationType = apptype\<rparr>), m_destroy := Some C_Empty\<rparr>) m) }"

definition ConfigAck_Deserialize :: "'j json_env \<Rightarrow> ('ctx, 'md) msg \<Rightarrow> (bool \<times> ('ctx, 'md) msg) option" where
  "ConfigAck_Deserialize E m =
     deserialize_json E ''ConfigAck_Deserialize'' m no_config_ack P_ConfigAck (\<lambda>ob. get_steps
       [into (JsonBuffer_Get_UUID E (Some ob) (Some ''Nugget_Type'')) (\<lambda>v b. b \<lparr>MessageConfigurationAck.uuidNuggetType := v\<rparr>),
        into (JsonBuffer_Get_UUID E (Some ob) (Some ''App_Type'')) (\<lambda>v b. b \<lparr>MessageConfigurationAck.uuidApplicationType := v\<rparr>)])"

definition ConfigAck_Serialize :: "'j json_env \<Rightarrow> ('ctx, 'md) msg \<Rightarrow> (bool \<times> ('ctx, 'md) msg) option" where
  "ConfigAck_Serialize E m =
     (case message m of
        Some (P_ConfigAck b) \<Rightarrow> serialize_json E m (put_steps
          [JsonBuffer_Put_UUID E (Some ''Nugget_Type'') (MessageConfigurationAck.uuidNuggetType b),
           JsonBuffer_Put_UUID E (Some ''App_Type'') (MessageConfigurationAck.uuidApplicationType b)])
      | _ \<Rightarrow> None)"

section \<open>Configuration update\<close>

definition no_config_update :: MessageConfigurationUpdate where
  "no_config_update = \<lparr>ntlvTypes = None, ntlvNames = None, dataTypes = None\<rparr>"

text \<open>A copy of a list of the registry; nothing when there is no list or it cannot be copied.\<close>
definition clone_registry :: "'j json_env \<Rightarrow> int \<Rightarrow> uuid_list option option" where
  "clone_registry E t =
     (case UUID_Get_List (e_registry E) t of
        None \<Rightarrow> Some None
      | Some l \<Rightarrow> do {
          (c, _, _) \<leftarrow> List_Clone (e_mem E) (e_alloc E ''List_Create'') (e_alloc E ''List_Create.lock'') True (Some l) [];
          Some c })"

text \<open>A failure leaves the message behind without releasing it.\<close>
definition MessageConfigurationUpdate_Initialize ::
  "'j json_env \<Rightarrow> uuid \<Rightarrow> uuid \<Rightarrow> ('ctx, 'md) msg option option" where
  "MessageConfigurationUpdate_Initialize E source dest =
     get_then (Message_Create_Directed E MESSAGE_TYPE_CONFIG_UPDATE MESSAGE_VERSION_1
       (Some (P_ConfigUpdate no_config_update)) source dest) (\<lambda>m.
     get_then (clone_registry E UUID_TYPE_NTLV_TYPE) (\<lambda>ts.
     get_then (clone_registry E UUID_TYPE_NTLV_NAME) (\<lambda>ns.
     get_then (clone_registry E UUID_TYPE_DATA_TYPE) (\<lambda>ds.
       Some (Some (with_codec C_ConfigUpdate (m \<lparr>message := Some (P_ConfigUpdate
         \<lparr>ntlvTypes = Some ts, ntlvNames = Some ns, dataTypes = Some ds\<rparr>)\<rparr>)))))))"

definition release_uuids :: "uuid_list option \<Rightarrow> ('ctx, 'md) released list option" where
  "release_uuids l = (case l of None \<Rightarrow> Some [] | Some u \<Rightarrow> do { s \<leftarrow> List_Destroy l []; Some [RUuids s] })"

text \<open>The body is used without a test against null.\<close>
definition ConfigUpdate_Destroy :: "('ctx, 'md) msg \<Rightarrow> ('ctx, 'md) released list option" where
  "ConfigUpdate_Destroy m =
     (case message m of
        Some (P_ConfigUpdate b) \<Rightarrow> do {
          ts \<leftarrow> release_uuids (ntlvTypes b);
          ns \<leftarrow> release_uuids (ntlvNames b);
          ds \<leftarrow> release_uuids (dataTypes b);
          rs \<leftarrow> Message_Destroy (Some m);
          Some (ts @ ns @ ds @ rs) }
      | _ \<Rightarrow> None)"

definition ConfigUpdate_Deserialize :: "'j json_env \<Rightarrow> ('ctx, 'md) msg \<Rightarrow> (bool \<times> ('ctx, 'md) msg) option" where
  "ConfigUpdate_Deserialize E m =
     deserialize_json E ''ConfigUpdate_Deserialize'' m no_config_update P_ConfigUpdate (\<lambda>ob. get_steps
       [into_opt (JsonBuffer_Get_UUIDList E (Some ob) (Some ''NTLV_Types'')) (\<lambda>v b. b \<lparr>ntlvTypes := Some v\<rparr>),
        into_opt (JsonBuffer_Get_UUIDList E (Some ob) (Some ''NTLV_Names'')) (\<lambda>v b. b \<lparr>ntlvNames := Some v\<rparr>),
        into_opt (JsonBuffer_Get_UUIDList E (Some ob) (Some ''Data_Types'')) (\<lambda>v b. b \<lparr>dataTypes := Some v\<rparr>)])"

definition ConfigUpdate_Serialize :: "'j json_env \<Rightarrow> ('ctx, 'md) msg \<Rightarrow> (bool \<times> ('ctx, 'md) msg) option" where
  "ConfigUpdate_Serialize E m =
     (case message m of
        Some (P_ConfigUpdate b) \<Rightarrow> serialize_json E m (put_steps
          [JsonBuffer_Put_UUIDList E (Some ''NTLV_Types'') (ntlvTypes b),
           JsonBuffer_Put_UUIDList E (Some ''NTLV_Names'') (ntlvNames b),
           JsonBuffer_Put_UUIDList E (Some ''Data_Types'') (dataTypes b)])
      | _ \<Rightarrow> None)"

section \<open>Error\<close>

definition no_error :: MessageError where
  "no_error = \<lparr>e_sMessage = None\<rparr>"

definition MessageError_Initialize ::
  "'j json_env \<Rightarrow> u32 \<Rightarrow> string option \<Rightarrow> uuid \<Rightarrow> uuid \<Rightarrow> ('ctx, 'md) msg option option" where
  "MessageError_Initialize E p_iCode p_sMessage source dest =
     (if p_sMessage = None then Some None
      else get_then (Message_Create_Directed E p_iCode MESSAGE_VERSION_1 (Some (P_Error no_error)) source dest) (\<lambda>m.
        if \<not> e_alloc E ''MessageError_Initialize'' then Some None
        else Some (Some (with_codec C_Error (m \<lparr>message := Some (P_Error \<lparr>e_sMessage = p_sMessage\<rparr>)\<rparr>)))))"

text \<open>Only the body is released: the message itself, its text and its headers are not.\<close>
definition Error_Destroy :: "('ctx, 'md) msg \<Rightarrow> ('ctx, 'md) released list option" where
  "Error_Destroy m =
     (case message m of
        None \<Rightarrow> Some []
      | Some (P_Error b) \<Rightarrow> Some (released_if (e_sMessage b) RText @ [RPayload])
      | _ \<Rightarrow> None)"

definition Error_Deserialize :: "'j json_env \<Rightarrow> ('ctx, 'md) msg \<Rightarrow> (bool \<times> ('ctx, 'md) msg) option" where
  "Error_Deserialize E m =
     deserialize_json E ''Error_Deserialize'' m no_error P_Error (\<lambda>ob. get_steps
       [into (JsonBuffer_Get_String E (Some ob) (Some ''Message'')) (\<lambda>v b. b \<lparr>e_sMessage := Some v\<rparr>)])"

definition Error_Serialize :: "'j json_env \<Rightarrow> ('ctx, 'md) msg \<Rightarrow> (bool \<times> ('ctx, 'md) msg) option" where
  "Error_Serialize E m =
     (case message m of
        Some (P_Error b) \<Rightarrow> serialize_json E m (put_steps
          [JsonBuffer_Put_String E (Some ''Message'') (e_sMessage b)])
      | _ \<Rightarrow> None)"

section \<open>Hello\<close>

record Dispatcher =
  flags :: u32
  priority :: byte
  port :: "16 word"
  protocol :: byte
  addressList :: "string_list option"

record RazorbackContext =
  uuidNuggetId :: uuid
  uuidNuggetType :: uuid
  uuidApplicationType :: uuid
  locality :: byte
  dispatcher :: Dispatcher

definition no_hello :: MessageHello where
  "no_hello = \<lparr>MessageHello.uuidNuggetType = no_uuid, uuidApplicationType = no_uuid, locality = 0, priority = 0,
     flags = 0, addressList = None, protocol = 0, port = 0\<rparr>"

text \<open>Whether a nugget type is that of a dispatcher; nothing when the registry cannot tell.\<close>
definition is_dispatcher :: "'j json_env \<Rightarrow> uuid \<Rightarrow> bool option option" where
  "is_dispatcher E t = UUID_Is_Named_UUID (e_uuid_compare E) (e_registry E) (Some ''DISPATCHER'') UUID_TYPE_NUGGET_TYPE t"

definition MessageHello_Initialize :: "'j json_env \<Rightarrow> RazorbackContext \<Rightarrow> ('ctx, 'md) msg option option" where
  "MessageHello_Initialize E ctx =
     get_then (Message_Create_Broadcast E MESSAGE_TYPE_HELLO MESSAGE_VERSION_1 (Some (P_Hello no_hello))
       (RazorbackContext.uuidNuggetId ctx)) (\<lambda>m.
     let h = no_hello \<lparr>MessageHello.uuidNuggetType := RazorbackContext.uuidNuggetType ctx,
               MessageHello.uuidApplicationType := RazorbackContext.uuidApplicationType ctx,
               MessageHello.locality := RazorbackContext.locality ctx\<rparr>;
         done = (\<lambda>h. Some (Some (with_codec C_Hello (m \<lparr>message := Some (P_Hello h)\<rparr>))));
         d = dispatcher ctx
     in get_then (is_dispatcher E (RazorbackContext.uuidNuggetType ctx)) (\<lambda>isDispatcher.
       if \<not> isDispatcher then done h
       else do {
         (l, _, _) \<leftarrow> List_Clone (e_mem E) (e_alloc E ''List_Create'') (e_alloc E ''List_Create.lock'') True
            (Dispatcher.addressList d) [];
         (if l = None then Some None
          else done (h \<lparr>MessageHello.flags := Dispatcher.flags d, MessageHello.priority := Dispatcher.priority d,
                  MessageHello.port := Dispatcher.port d, MessageHello.protocol := Dispatcher.protocol d,
                  MessageHello.addressList := l\<rparr>)) }))"

definition Hello_Destroy :: "('ctx, 'md) msg \<Rightarrow> ('ctx, 'md) released list option" where
  "Hello_Destroy m =
     (case message m of
        None \<Rightarrow> Message_Destroy (Some m)
      | Some (P_Hello b) \<Rightarrow> do {
          as \<leftarrow> (case MessageHello.addressList b of
              None \<Rightarrow> Some []
            | Some l \<Rightarrow> do { s \<leftarrow> List_Destroy (Some l) []; Some [RStrings s] });
          rs \<leftarrow> Message_Destroy (Some m);
          Some (as @ rs) }
      | _ \<Rightarrow> None)"

definition Hello_Deserialize :: "'j json_env \<Rightarrow> ('ctx, 'md) msg \<Rightarrow> (bool \<times> ('ctx, 'md) msg) option" where
  "Hello_Deserialize E m =
     deserialize_json E ''Hello_Deserialize'' m no_hello P_Hello (\<lambda>ob. get_steps
       [into (JsonBuffer_Get_UUID E (Some ob) (Some ''Nugget_Type'')) (\<lambda>v b. b \<lparr>MessageHello.uuidNuggetType := v\<rparr>),
        into (JsonBuffer_Get_UUID E (Some ob) (Some ''App_Type'')) (\<lambda>v b. b \<lparr>MessageHello.uuidApplicationType := v\<rparr>),
        into (JsonBuffer_Get_uint8_t E (Some ob) (Some ''Locality'')) (\<lambda>v b. b \<lparr>MessageHello.locality := v\<rparr>),
        (\<lambda>b. do {
          r \<leftarrow> is_dispatcher E (MessageHello.uuidNuggetType b);
          (case r of
             None \<Rightarrow> Some (False, b)
           | Some isDispatcher \<Rightarrow>
               if \<not> isDispatcher then Some (True, b)
               else get_steps
                 [into (JsonBuffer_Get_uint8_t E (Some ob) (Some ''Priority'')) (\<lambda>v b. b \<lparr>MessageHello.priority := v\<rparr>),
                  into (JsonBuffer_Get_uint8_t E (Some ob) (Some ''Protocol'')) (\<lambda>v b. b \<lparr>MessageHello.protocol := v\<rparr>),
                  into (JsonBuffer_Get_uint16_t E (Some ob) (Some ''Port'')) (\<lambda>v b. b \<lparr>MessageHello.port := v\<rparr>),
                  into (JsonBuffer_Get_uint32_t E (Some ob) (Some ''Flags'')) (\<lambda>v b. b \<lparr>MessageHello.flags := v\<rparr>),
                  into_opt (JsonBuffer_Get_StringList E (Some ob) (Some ''Address_List''))
                    (\<lambda>v b. b \<lparr>MessageHello.addressList := Some v\<rparr>)] b) })])"

definition Hello_Serialize :: "'j json_env \<Rightarrow> ('ctx, 'md) msg \<Rightarrow> (bool \<times> ('ctx, 'md) msg) option" where
  "Hello_Serialize E m =
     (case message m of
        Some (P_Hello b) \<Rightarrow> serialize_json E m (put_steps
          [JsonBuffer_Put_UUID E (Some ''Nugget_Type'') (MessageHello.uuidNuggetType b),
           JsonBuffer_Put_UUID E (Some ''App_Type'') (MessageHello.uuidApplicationType b),
           JsonBuffer_Put_uint8_t E (Some ''Locality'') (MessageHello.locality b),
           (\<lambda>c. do {
             r \<leftarrow> is_dispatcher E (MessageHello.uuidNuggetType b);
             (case r of
                None \<Rightarrow> Some (False, c)
              | Some isDispatcher \<Rightarrow>
                  put_if isDispatcher (put_steps
                    [JsonBuffer_Put_uint8_t E (Some ''Priority'') (MessageHello.priority b),
                     JsonBuffer_Put_uint8_t E (Some ''Protocol'') (MessageHello.protocol b),
                     JsonBuffer_Put_uint16_t E (Some ''Port'') (MessageHello.port b),
                     JsonBuffer_Put_uint32_t E (Some ''Flags'') (MessageHello.flags b),
                     JsonBuffer_Put_StringList E (Some ''Address_List'') (MessageHello.addressList b)]) c) })])
      | _ \<Rightarrow> None)"

section \<open>Registration request\<close>

definition no_reg_req :: MessageRegistrationRequest where
  "no_reg_req = \<lparr>MessageRegistrationRequest.uuidNuggetType = no_uuid, uuidApplicationType = no_uuid, iDataTypeCount = 0, pDataTypeList = None\<rparr>"

definition MessageRegistrationRequest_Initialize ::
  "'j json_env \<Rightarrow> uuid \<Rightarrow> uuid \<Rightarrow> uuid \<Rightarrow> uuid \<Rightarrow> u32 \<Rightarrow> uuid list option \<Rightarrow> ('ctx, 'md) msg option option" where
  "MessageRegistrationRequest_Initialize E dispatcherId source ngtype apptype count types =
     get_then (Message_Create_Directed E MESSAGE_TYPE_REG_REQ MESSAGE_VERSION_1 (Some (P_RegReq no_reg_req)) source dispatcherId) (\<lambda>m.
     if count > 0 \<and> \<not> e_alloc E ''MessageRegistrationRequest_Initialize'' then Some None
     else do {
       ts \<leftarrow> (if count > 0 then do {
           us \<leftarrow> types;
           (if length us < unat count then None else Some (Some (Live (take (unat count) us)))) }
         else Some None);
       Some (Some (with_codec C_RegReq (m \<lparr>message := Some (P_RegReq
         \<lparr>MessageRegistrationRequest.uuidNuggetType = ngtype, uuidApplicationType = apptype, iDataTypeCount = count,
          pDataTypeList = ts\<rparr>)\<rparr>))) })"

definition Message_CnC_RegReq_Setup :: "('ctx, 'md) msg \<Rightarrow> ('ctx, 'md) msg" where
  "Message_CnC_RegReq_Setup m = with_codec C_RegReq m"

text \<open>Releasing memory that was released before is undefined.\<close>
definition RegistrationRequest_Destroy :: "('ctx, 'md) msg \<Rightarrow> ('ctx, 'md) released list option" where
  "RegistrationRequest_Destroy m =
     (case message m of
        None \<Rightarrow> Message_Destroy (Some m)
      | Some (P_RegReq b) \<Rightarrow> do {
          ts \<leftarrow> (case pDataTypeList b of
              None \<Rightarrow> Some []
            | Some (Live us) \<Rightarrow> Some [RBuffer (concat us)]
            | Some Freed \<Rightarrow> None);
          rs \<leftarrow> Message_Destroy (Some m);
          Some (ts @ rs) }
      | _ \<Rightarrow> None)"

text \<open>The loop over the entries of the array: the identifiers, or nothing when one is not an identifier.\<close>
fun get_types_loop :: "'j json_env \<Rightarrow> 'j \<Rightarrow> nat list \<Rightarrow> uuid list option" where
  "get_types_loop E arr [] = Some []"
| "get_types_loop E arr (i # is) = do {
     item \<leftarrow> json_object_array_get_idx (e_js E) arr i;
     str \<leftarrow> json_object_get_string (e_js E) item;
     u \<leftarrow> e_uuid_parse E str;
     us \<leftarrow> get_types_loop E arr is;
     Some (u # us) }"

text \<open>The length of a member that is not an array is undefined. A failure in the loop leaves the released list in the body.\<close>
definition get_types :: "'j json_env \<Rightarrow> 'j \<Rightarrow> MessageRegistrationRequest \<Rightarrow> (bool \<times> MessageRegistrationRequest) option" where
  "get_types E ob b =
     (case json_object_object_get (e_js E) ob ''Data_Types'' of
        None \<Rightarrow> Some (True, b \<lparr>pDataTypeList := None\<rparr>)
      | Some arr \<Rightarrow>
          if json_object_get_type (e_js E) arr \<noteq> json_type_array then None
          else
            (let n = of_nat (json_object_array_length (e_js E) arr) :: u32;
                 b1 = b \<lparr>iDataTypeCount := n\<rparr>
             in if \<not> e_alloc E ''RegistrationRequest_Deserialize.list'' then Some (False, b1 \<lparr>pDataTypeList := None\<rparr>)
                else case get_types_loop E arr [0..<unat n] of
                  None \<Rightarrow> Some (False, b1 \<lparr>pDataTypeList := Some Freed\<rparr>)
                | Some us \<Rightarrow> Some (True, b1 \<lparr>pDataTypeList := Some (Live us)\<rparr>)))"

definition RegistrationRequest_Deserialize :: "'j json_env \<Rightarrow> ('ctx, 'md) msg \<Rightarrow> (bool \<times> ('ctx, 'md) msg) option" where
  "RegistrationRequest_Deserialize E m =
     deserialize_json E ''RegistrationRequest_Deserialize'' m no_reg_req P_RegReq (\<lambda>ob. get_steps
       [into (JsonBuffer_Get_UUID E (Some ob) (Some ''Nugget_Type'')) (\<lambda>v b. b \<lparr>MessageRegistrationRequest.uuidNuggetType := v\<rparr>),
        into (JsonBuffer_Get_UUID E (Some ob) (Some ''App_Type'')) (\<lambda>v b. b \<lparr>MessageRegistrationRequest.uuidApplicationType := v\<rparr>),
        get_types E ob])"

fun put_types_loop :: "'j json_env \<Rightarrow> uuid list \<Rightarrow> 'j \<Rightarrow> 'j option" where
  "put_types_loop E [] arr = Some arr"
| "put_types_loop E (u # us) arr =
     (case json_object_new_string (e_js E) (e_uuid_unparse E u) of
        None \<Rightarrow> None
      | Some item \<Rightarrow> put_types_loop E us (json_object_array_add (e_js E) arr item))"

text \<open>The array is added to the object when it is complete.\<close>
definition put_types :: "'j json_env \<Rightarrow> MessageRegistrationRequest \<Rightarrow> 'j put" where
  "put_types E b c =
     (case (c, json_object_new_array (e_js E)) of
        (None, _) \<Rightarrow> None
      | (Some p, None) \<Rightarrow> Some (False, c)
      | (Some p, Some arr) \<Rightarrow> do {
          us \<leftarrow> (if iDataTypeCount b = 0 then Some []
                else case pDataTypeList b of
                  Some (Live us) \<Rightarrow> if length us < unat (iDataTypeCount b) then None else Some (take (unat (iDataTypeCount b)) us)
                | _ \<Rightarrow> None);
          Some (case put_types_loop E us arr of
             None \<Rightarrow> (False, c)
           | Some arr' \<Rightarrow> (True, Some (json_object_object_add (e_js E) p ''Data_Types'' arr'))) })"

definition RegistrationRequest_Serialize :: "'j json_env \<Rightarrow> ('ctx, 'md) msg \<Rightarrow> (bool \<times> ('ctx, 'md) msg) option" where
  "RegistrationRequest_Serialize E m =
     (case message m of
        Some (P_RegReq b) \<Rightarrow> serialize_json E m (put_steps
          [JsonBuffer_Put_UUID E (Some ''Nugget_Type'') (MessageRegistrationRequest.uuidNuggetType b),
           JsonBuffer_Put_UUID E (Some ''App_Type'') (MessageRegistrationRequest.uuidApplicationType b),
           put_types E b])
      | _ \<Rightarrow> None)"

section \<open>Terminate\<close>

definition no_terminate :: MessageTerminate where
  "no_terminate = \<lparr>sTerminateReason = None\<rparr>"

definition MessageTerminate_Initialize ::
  "'j json_env \<Rightarrow> uuid \<Rightarrow> uuid \<Rightarrow> string option \<Rightarrow> ('ctx, 'md) msg option option" where
  "MessageTerminate_Initialize E source dest reason =
     (if reason = None then Some None
      else get_then (Message_Create_Directed E MESSAGE_TYPE_TERM MESSAGE_VERSION_1 (Some (P_Term no_terminate)) source dest) (\<lambda>m.
        if \<not> e_alloc E ''MessageTerminate_Initialize'' then Some None
        else Some (Some (with_codec C_Term (m \<lparr>message := Some (P_Term \<lparr>sTerminateReason = reason\<rparr>)\<rparr>)))))"

definition Message_CnC_Term_Setup :: "('ctx, 'md) msg \<Rightarrow> ('ctx, 'md) msg" where
  "Message_CnC_Term_Setup m = with_codec C_Term m"

definition Terminate_Destroy :: "('ctx, 'md) msg \<Rightarrow> ('ctx, 'md) released list option" where
  "Terminate_Destroy m =
     (case message m of
        None \<Rightarrow> Message_Destroy (Some m)
      | Some (P_Term b) \<Rightarrow> do {
          rs \<leftarrow> Message_Destroy (Some m);
          Some (released_if (sTerminateReason b) RText @ rs) }
      | _ \<Rightarrow> None)"

definition Terminate_Deserialize :: "'j json_env \<Rightarrow> ('ctx, 'md) msg \<Rightarrow> (bool \<times> ('ctx, 'md) msg) option" where
  "Terminate_Deserialize E m =
     deserialize_json E ''Terminate_Deserialize'' m no_terminate P_Term (\<lambda>ob. get_steps
       [into (JsonBuffer_Get_String E (Some ob) (Some ''Reason'')) (\<lambda>v b. b \<lparr>sTerminateReason := Some v\<rparr>)])"

definition Terminate_Serialize :: "'j json_env \<Rightarrow> ('ctx, 'md) msg \<Rightarrow> (bool \<times> ('ctx, 'md) msg) option" where
  "Terminate_Serialize E m =
     (case message m of
        Some (P_Term b) \<Rightarrow> serialize_json E m (put_steps
          [JsonBuffer_Put_String E (Some ''Reason'') (sTerminateReason b)])
      | _ \<Rightarrow> None)"

section \<open>Calls through the function pointers\<close>

definition call_serialize :: "'j json_env \<Rightarrow> codec \<Rightarrow> ('ctx, 'md) msg \<Rightarrow> (bool \<times> ('ctx, 'md) msg) option" where
  "call_serialize E c m =
     (case c of
        C_Block \<Rightarrow> BlockSubmission_Serialize E m | C_CacheReq \<Rightarrow> CacheReq_Serialize E m
      | C_CacheResp \<Rightarrow> CacheResp_Serialize E m | C_Inspection \<Rightarrow> InspectionSubmission_Serialize E m
      | C_Judgment \<Rightarrow> JudgmentSubmission_Serialize E m | C_AlertPrimary \<Rightarrow> AlertPrimary_Serialize E m
      | C_AlertChild \<Rightarrow> AlertChild_Serialize E m | C_OutputEvent \<Rightarrow> OutputEvent_Serialize E m
      | C_OutputInspection \<Rightarrow> OutputInspection_Serialize E m | C_ConfigAck \<Rightarrow> ConfigAck_Serialize E m
      | C_ConfigUpdate \<Rightarrow> ConfigUpdate_Serialize E m | C_Error \<Rightarrow> Error_Serialize E m
      | C_Hello \<Rightarrow> Hello_Serialize E m | C_RegReq \<Rightarrow> RegistrationRequest_Serialize E m
      | C_Term \<Rightarrow> Terminate_Serialize E m | C_Empty \<Rightarrow> Some (Message_Serialize_Empty E m))"

definition call_deserialize :: "'j json_env \<Rightarrow> codec \<Rightarrow> ('ctx, 'md) msg \<Rightarrow> (bool \<times> ('ctx, 'md) msg) option" where
  "call_deserialize E c m =
     (case c of
        C_Block \<Rightarrow> BlockSubmission_Deserialize E m | C_CacheReq \<Rightarrow> CacheReq_Deserialize E m
      | C_CacheResp \<Rightarrow> CacheResp_Deserialize E m | C_Inspection \<Rightarrow> InspectionSubmission_Deserialize E m
      | C_Judgment \<Rightarrow> JudgmentSubmission_Deserialize E m | C_AlertPrimary \<Rightarrow> AlertPrimary_Deserialize E m
      | C_AlertChild \<Rightarrow> AlertChild_Deserialize E m | C_OutputEvent \<Rightarrow> OutputEvent_Deserialize E m
      | C_OutputInspection \<Rightarrow> OutputInspection_Deserialize E m | C_ConfigAck \<Rightarrow> ConfigAck_Deserialize E m
      | C_ConfigUpdate \<Rightarrow> ConfigUpdate_Deserialize E m | C_Error \<Rightarrow> Error_Deserialize E m
      | C_Hello \<Rightarrow> Hello_Deserialize E m | C_RegReq \<Rightarrow> RegistrationRequest_Deserialize E m
      | C_Term \<Rightarrow> Terminate_Deserialize E m | C_Empty \<Rightarrow> Some (Message_Deserialize_Empty m))"

definition call_destroy :: "codec \<Rightarrow> ('ctx, 'md) msg \<Rightarrow> ('ctx, 'md) released list option" where
  "call_destroy c m =
     (case c of
        C_Block \<Rightarrow> BlockSubmission_Destroy m | C_CacheReq \<Rightarrow> CacheReq_Destroy m
      | C_CacheResp \<Rightarrow> CacheResp_Destroy m | C_Inspection \<Rightarrow> InspectionSubmission_Destroy m
      | C_Judgment \<Rightarrow> JudgmentSubmission_Destroy m | C_AlertPrimary \<Rightarrow> AlertPrimary_Destroy m
      | C_AlertChild \<Rightarrow> AlertChild_Destroy m | C_OutputEvent \<Rightarrow> OutputEvent_Destroy m
      | C_OutputInspection \<Rightarrow> OutputInspection_Destroy m | C_ConfigAck \<Rightarrow> Message_Destroy (Some m)
      | C_ConfigUpdate \<Rightarrow> ConfigUpdate_Destroy m | C_Error \<Rightarrow> Error_Destroy m
      | C_Hello \<Rightarrow> Hello_Destroy m | C_RegReq \<Rightarrow> RegistrationRequest_Destroy m
      | C_Term \<Rightarrow> Terminate_Destroy m | C_Empty \<Rightarrow> Message_Destroy (Some m))"

end
