(* ===== verification/Hash_Ids_Properties.thy ===== *)
theory Hash_Ids_Properties
  imports Hash_Ids
begin

text \<open>
  Correctness of hashes and block identifiers: what OpenSSL promises as the hypothesis \<open>evp_ok\<close>, the
  life of a hash, the texts of hashes and of block identifiers, equality and copies.
\<close>

section \<open>Definitions of the statements\<close>

text \<open>
  What the code relies on of OpenSSL (EVP\_DigestInit(3)): a fetched algorithm is the one asked for; a
  context that was initialised holds the empty message, each update appends to the message it holds,
  and the final call delivers the digest of that message, whose length the algorithm determines.
\<close>
definition evp_ok ::
  "('ctx, 'md) evp \<Rightarrow> ('ctx \<Rightarrow> string \<times> bytes) \<Rightarrow> ('md \<Rightarrow> string) \<Rightarrow> (string \<Rightarrow> bytes \<Rightarrow> bytes) \<Rightarrow> bool" where
  "evp_ok E held alg digest \<longleftrightarrow>
     (\<forall>nm m. EVP_MD_fetch E nm = Some m \<longrightarrow> alg m = nm)
     \<and> (\<forall>c m c'. EVP_DigestInit_ex2 E c m = Some c' \<longrightarrow> held c' = (alg m, []))
     \<and> (\<forall>c d c'. EVP_DigestUpdate E c d = Some c' \<longrightarrow> held c' = (fst (held c), snd (held c) @ d))
     \<and> (\<forall>c d. EVP_DigestFinal_ex E c = Some d \<longrightarrow> d = digest (fst (held c)) (snd (held c)))
     \<and> (\<forall>t nm msg. Hash_Get_OpenSSL_Name t = Some nm \<longrightarrow>
          length (digest nm msg) = unat (Hash_Get_ExpectedDigestLength t))"

text \<open>An engine whose calls succeed.\<close>
definition evp_works :: "('ctx, 'md) evp \<Rightarrow> bool" where
  "evp_works E \<longleftrightarrow> (\<forall>t nm. Hash_Get_OpenSSL_Name t = Some nm \<longrightarrow> EVP_MD_fetch E nm \<noteq> None)
     \<and> EVP_MD_CTX_new E \<noteq> None \<and> (\<forall>c m. EVP_DigestInit_ex2 E c m \<noteq> None)
     \<and> (\<forall>c d. EVP_DigestUpdate E c d \<noteq> None) \<and> (\<forall>c. EVP_DigestFinal_ex E c \<noteq> None)"

text \<open>What is fed to a hash: a buffer with its length, or a file.\<close>
datatype hash_input = Buffer bytes | File FILE

fun input_bytes :: "hash_input \<Rightarrow> bytes" where
  "input_bytes (Buffer d) = d"
| "input_bytes (File f) = freadable f"

text \<open>A buffer is passed with a 32 bit length.\<close>
fun input_fits :: "hash_input \<Rightarrow> bool" where
  "input_fits (Buffer d) \<longleftrightarrow> length d < 2 ^ 32"
| "input_fits (File f) \<longleftrightarrow> True"

fun feed ::
  "('ctx, 'md) evp \<Rightarrow> hash_input \<Rightarrow> ('ctx, 'md) Hash option \<Rightarrow> (bool \<times> ('ctx, 'md) Hash option) option" where
  "feed E (Buffer d) h = Hash_Update E h d (of_nat (length d))"
| "feed E (File f) h = do { (ok, f', h') \<leftarrow> Hash_Update_File E h (Some f); Some (ok, h') }"

text \<open>A caller that feeds all inputs and stops at the first failure.\<close>
fun feed_all ::
  "('ctx, 'md) evp \<Rightarrow> hash_input list \<Rightarrow> ('ctx, 'md) Hash option \<Rightarrow> (bool \<times> ('ctx, 'md) Hash option) option" where
  "feed_all E [] h = Some (True, h)"
| "feed_all E (x # xs) h = do {
     (ok, h') \<leftarrow> feed E x h;
     (if ok then feed_all E xs h' else Some (False, h')) }"

definition hex_text :: "bytes \<Rightarrow> string" where
  "hex_text d = concat (map byte_hex d)"

text \<open>
  The states of a hash the code works with: the buffer holds the digest; while the hash is open it has
  a context and room for the longest digest.
\<close>
definition hash_wf :: "('ctx, 'md) Hash \<Rightarrow> bool" where
  "hash_wf h \<longleftrightarrow> (\<exists>d. pData h = Some d \<and> unat (iSize h) \<le> length d \<and> length d \<le> 64
     \<and> iType h > 0 \<and> (\<not> is_final h \<longrightarrow> CTX h \<noteq> None \<and> length d = 64))"

text \<open>The digest a hash holds.\<close>
definition hash_digest :: "('ctx, 'md) Hash \<Rightarrow> bytes" where
  "hash_digest h = take (unat (iSize h)) (the (pData h))"

text \<open>Every way the interface makes a hash.\<close>
inductive hash_made :: "('ctx, 'md) evp \<Rightarrow> ('ctx, 'md) Hash \<Rightarrow> bool" for E where
  create: "Hash_Create_Type E ok1 ok2 t = Some h \<Longrightarrow> hash_made E h"
| parse: "Hash_Create_From_String ok1 ok2 t s = Some h \<Longrightarrow> hash_made E h"
| clone: "hash_made E h \<Longrightarrow> Hash_Clone ok1 ok2 (Some h) = Some (Some h') \<Longrightarrow> hash_made E h'"
| feed: "hash_made E h \<Longrightarrow> input_fits x \<Longrightarrow> feed E x (Some h) = Some (ok, Some h') \<Longrightarrow> hash_made E h'"
| finalize: "hash_made E h \<Longrightarrow> Hash_Finalize E (Some h) = Some (ok, Some h') \<Longrightarrow> hash_made E h'"

text \<open>A finished hash of a supported type.\<close>
definition hash_proper :: "('ctx, 'md) Hash \<Rightarrow> bool" where
  "hash_proper h \<longleftrightarrow> hash_wf h \<and> is_final h \<and> iSize h \<noteq> 0 \<and> iSize h = Hash_Get_ExpectedDigestLength (iType h)"

text \<open>A block identifier with a finished hash.\<close>
definition block_id_proper :: "('ctx, 'md) BlockId \<Rightarrow> bool" where
  "block_id_proper b \<longleftrightarrow> length (uuidDataType b) = 16 \<and> (\<exists>h. pHash b = Some h \<and> hash_wf h \<and> is_final h)"

text \<open>\<open>uuid_unparse\<close> writes 36 characters that determine the identifier (uuid\_unparse(3)).\<close>
definition uuid_unparse_ok :: "(uuid \<Rightarrow> string) \<Rightarrow> bool" where
  "uuid_unparse_ok up \<longleftrightarrow> (\<forall>u. length u = 16 \<longrightarrow> length (up u) = 36)
     \<and> (\<forall>u v. length u = 16 \<longrightarrow> length v = 16 \<longrightarrow> up u = up v \<longrightarrow> u = v)"

text \<open>A function of that kind for examples.\<close>
definition uuid_unparse_ref :: "uuid \<Rightarrow> string" where
  "uuid_unparse_ref u = hex_text u @ ''----''"

text \<open>The number a sequence of hexadecimal digits stands for.\<close>
definition hex_number :: "string \<Rightarrow> nat" where
  "hex_number s = foldl (\<lambda>a c. 16 * a + hex_value c) 0 s"

text \<open>An identifier for examples: the MD5 hash of zeros.\<close>
definition ex_hash :: "u32 \<Rightarrow> (string \<times> bytes, string) Hash" where
  "ex_hash flags = \<lparr>iType = 1, iSize = 16, pData = Some (replicate 16 0), CTX = None, md = None, iFlags = flags\<rparr>"

definition ex_block_id :: "u64 \<Rightarrow> (string \<times> bytes, string) BlockId" where
  "ex_block_id n = \<lparr>pHash = Some (ex_hash 1), uuidDataType = replicate 16 0, iLength = n\<rparr>"

text \<open>An engine of the documented kind for examples: its digest is the message, cut or padded.\<close>
definition toy_length :: "string \<Rightarrow> nat" where
  "toy_length nm = (if nm = ''MD5'' then 16 else if nm = ''SHA1'' then 20 else if nm = ''SHA224'' then 28
     else if nm = ''SHA256'' then 32 else 64)"

definition toy_digest :: "string \<Rightarrow> bytes \<Rightarrow> bytes" where
  "toy_digest nm m = take (toy_length nm) (m @ replicate (toy_length nm) 0)"

definition toy_evp :: "(string \<times> bytes, string) evp" where
  "toy_evp = \<lparr>EVP_MD_fetch = Some, EVP_MD_CTX_new = Some ([], []),
     EVP_DigestInit_ex2 = (\<lambda>c m. Some (m, [])),
     EVP_DigestUpdate = (\<lambda>c d. Some (fst c, snd c @ d)),
     EVP_DigestFinal_ex = (\<lambda>c. Some (toy_digest (fst c) (snd c)))\<rparr>"

section \<open>Hexadecimal text\<close>

lemma below_16: "n < 16 \<longleftrightarrow> n \<in> {0, 1, 2, 3, 4, 5, 6, 7, 8, 9, 10, 11, 12, 13, 14, 15 :: nat}"
  unfolding insert_iff empty_iff by presburger

lemma hex_value_digit [simp]: "n < 16 \<Longrightarrow> hex_value (hex_digit n) = n"
  unfolding below_16 by (auto simp: hex_value_def hex_digit_def)

lemma isxdigit_digit [simp]: "n < 16 \<Longrightarrow> isxdigit (hex_digit n)"
  unfolding below_16 by (auto simp: isxdigit_def hex_digit_def)

lemma hex_value_less [simp]: "isxdigit c \<Longrightarrow> hex_value c < 16"
  by (auto simp: isxdigit_def hex_value_def)

lemma byte_div_16 [simp]: "unat (b :: byte) div 16 < 16"
proof -
  have "unat b < 2 ^ LENGTH(8)" by (rule unsigned_less)
  then show ?thesis by simp
qed

lemma scan_byte_hex [simp]: "scan_bytes (byte_hex b @ cs) = b # scan_bytes cs"
  by (simp add: byte_hex_def)

lemma scan_hex_text [simp]: "scan_bytes (hex_text d) = d"
  by (induction d) (simp_all add: hex_text_def)

lemma length_hex_text [simp]: "length (hex_text d) = 2 * length d"
  by (induction d) (simp_all add: hex_text_def byte_hex_def)

lemma isxdigit_hex_text [simp]: "list_all isxdigit (hex_text d)"
  by (induction d) (simp_all add: hex_text_def byte_hex_def)

lemma byte_hex_scan:
  assumes "isxdigit a" and "isxdigit b"
  shows "byte_hex (of_nat (16 * hex_value a + hex_value b)) = [hex_lower a, hex_lower b]"
proof -
  have "hex_value a < 16" "hex_value b < 16" using assms by simp_all
  then have "unat (of_nat (16 * hex_value a + hex_value b) :: byte) = 16 * hex_value a + hex_value b"
    by (simp only: unsigned_of_nat) (simp add: take_bit_nat_eq_self)
  then show ?thesis using assms unfolding byte_hex_def by (simp only: hex_lower_def) simp
qed

lemma hex_text_scan:
  "even (length s) \<Longrightarrow> list_all isxdigit s \<Longrightarrow> hex_text (scan_bytes s) = map hex_lower s"
proof (induction s rule: scan_bytes.induct)
  case (1 a b cs)
  then have "hex_text (scan_bytes cs) = map hex_lower cs" by simp
  then show ?case using 1(3) byte_hex_scan [of a b] by (simp add: hex_text_def)
qed (auto simp: hex_text_def)

lemma length_scan_bytes: "even (length s) \<Longrightarrow> length (scan_bytes s) = length s div 2"
  by (induction s rule: scan_bytes.induct) auto

lemma hex_text_inject: "hex_text d = hex_text e \<longleftrightarrow> d = e"
  by (metis scan_hex_text)

section \<open>The life of a hash\<close>

declare file_loop.simps [simp del] hex_digits.simps [simp del]

lemma digest_length_bound: "unat (Hash_Get_ExpectedDigestLength t) \<le> 64"
  by (simp add: Hash_Get_ExpectedDigestLength_def)

lemma name_expected:
  "Hash_Get_OpenSSL_Name t = Some nm \<Longrightarrow> Hash_Get_ExpectedDigestLength t \<noteq> 0 \<and> t > 0"
  by (auto simp: Hash_Get_ExpectedDigestLength_def Hash_Get_OpenSSL_Name_def split: if_splits)

text \<open>An open hash whose context holds the message \<open>m\<close> for the algorithm \<open>n\<close>.\<close>
definition holding ::
  "('ctx \<Rightarrow> string \<times> bytes) \<Rightarrow> string \<Rightarrow> u32 \<Rightarrow> bytes \<Rightarrow> ('ctx, 'md) Hash \<Rightarrow> bool" where
  "holding held n t m h \<longleftrightarrow> hash_open h \<and> iType h = t \<and> length (the (pData h)) = 64
     \<and> (\<exists>c. CTX h = Some c \<and> held c = (n, m))"

lemma create_holding:
  assumes ok: "evp_ok E held alg digest" and w: "evp_works E"
    and nm: "Hash_Get_OpenSSL_Name t = Some nm"
  obtains h where "Hash_Create_Type E True True t = Some h" and "holding held nm t [] h"
proof -
  from w nm obtain m c c' where m: "EVP_MD_fetch E nm = Some m" "EVP_MD_CTX_new E = Some c"
    "EVP_DigestInit_ex2 E c m = Some c'"
    unfolding evp_works_def by blast
  moreover have "held c' = (nm, [])" using ok m unfolding evp_ok_def by blast
  ultimately show thesis
    using that nm name_expected [OF nm]
    by (simp add: Hash_Create_Type_def Hash_Init_OpenSSL_def Let_def holding_def hash_open_def is_final_def)
qed

lemma digest_update_holding:
  assumes ok: "evp_ok E held alg digest" and w: "evp_works E" and h: "holding held n t m h"
  obtains h' where "digest_update E d h = Some (True, h')" and "holding held n t (m @ d) h'"
proof -
  from h obtain c where c: "CTX h = Some c" "held c = (n, m)" by (auto simp: holding_def)
  from w obtain c' where c': "EVP_DigestUpdate E c d = Some c'" unfolding evp_works_def by blast
  then have "held c' = (n, m @ d)" using ok c unfolding evp_ok_def by fastforce
  then show thesis
    using that c c' h by (auto simp: digest_update_def holding_def hash_open_def is_final_def)
qed

lemma file_loop_holding:
  assumes ok: "evp_ok E held alg digest" and w: "evp_works E"
  shows "holding held n t m h \<Longrightarrow>
    \<exists>f' h'. file_loop E f h = Some (True, f', h') \<and> fpos f' = 0 \<and> holding held n t (m @ freadable f) h'"
proof (induction "length (freadable f)" arbitrary: f h m rule: less_induct)
  case less
  let ?d = "take 4096 (freadable f)"
  obtain f1 where fr: "fread 4096 f = (?d, f1)" by (simp add: fread_def Let_def)
  then have f1: "freadable f1 = drop 4096 (freadable f)" using freadable_fread [of 4096 f] by simp
  show ?case
  proof (cases "freadable f = []")
    case True
    then show ?thesis using less.prems fr by (simp add: file_loop.simps [of E f h] rewind_def)
  next
    case False
    obtain h1 where h1: "digest_update E ?d h = Some (True, h1)" "holding held n t (m @ ?d) h1"
      using digest_update_holding [OF ok w less.prems] .
    have "length (freadable f1) < length (freadable f)" using False f1 by simp
    from less.hyps [OF this h1(2)] obtain f' h' where "file_loop E f1 h1 = Some (True, f', h')"
      "fpos f' = 0" "holding held n t ((m @ ?d) @ freadable f1) h'" by blast
    then show ?thesis
      using fr h1(1) False f1 by (simp add: file_loop.simps [of E f h])
  qed
qed

lemma feed_holding:
  assumes ok: "evp_ok E held alg digest" and w: "evp_works E" and h: "holding held n t m h"
    and fits: "input_fits x"
  obtains h' where "feed E x (Some h) = Some (True, Some h')"
    and "holding held n t (m @ input_bytes x) h'"
proof (cases x)
  case (Buffer d)
  then have "unat (of_nat (length d) :: u32) = length d"
    using fits by (simp add: unsigned_of_nat take_bit_nat_eq_self)
  moreover obtain h' where "digest_update E d h = Some (True, h')" "holding held n t (m @ d) h'"
    using digest_update_holding [OF ok w h] .
  ultimately show thesis using that h Buffer by (simp add: Hash_Update_def holding_def)
next
  case (File f)
  obtain f' h' where "file_loop E f h = Some (True, f', h')" "holding held n t (m @ freadable f) h'"
    using file_loop_holding [OF ok w h] by blast
  then show thesis using that h File by (simp add: Hash_Update_File_def holding_def)
qed

lemma feed_all_holding:
  assumes ok: "evp_ok E held alg digest" and w: "evp_works E"
  shows "holding held n t m h \<Longrightarrow> list_all input_fits xs \<Longrightarrow>
    \<exists>h'. feed_all E xs (Some h) = Some (True, Some h')
      \<and> holding held n t (m @ concat (map input_bytes xs)) h'"
proof (induction xs arbitrary: h m)
  case (Cons x xs)
  then obtain h1 where "feed E x (Some h) = Some (True, Some h1)" "holding held n t (m @ input_bytes x) h1"
    using feed_holding [OF ok w, of n t m h x] by auto
  then show ?case using Cons.IH [of "m @ input_bytes x" h1] Cons.prems(2) by simp
qed simp

lemma finalize_holding:
  assumes ok: "evp_ok E held alg digest" and w: "evp_works E" and h: "holding held n t m h"
    and nm: "Hash_Get_OpenSSL_Name t = Some n"
  obtains h' where "Hash_Finalize E (Some h) = Some (True, Some h')" and "is_final h'"
    and "hash_digest h' = digest n m" and "iSize h' = Hash_Get_ExpectedDigestLength t"
    and "hash_wf h'"
proof -
  from h obtain c where c: "CTX h = Some c" "held c = (n, m)" by (auto simp: holding_def)
  from w obtain dg where dg: "EVP_DigestFinal_ex E c = Some dg" unfolding evp_works_def by blast
  then have d: "dg = digest n m" using ok c unfolding evp_ok_def by fastforce
  then have len: "length dg = unat (Hash_Get_ExpectedDigestLength t)"
    using ok nm unfolding evp_ok_def by blast
  have fin: "(iFlags h OR 1) AND 1 \<noteq> (0 :: u32)" by (simp add: bit.conj_disj_distrib2)
  from c dg d len h show thesis
    using that digest_length_bound [of t] fin
    by (auto simp: Hash_Finalize_def holding_def hash_open_def hash_digest_def is_final_def hash_wf_def)
qed

lemma final_closed:
  assumes "is_final h"
  shows "feed E x (Some h) = Some (False, Some h)" and "Hash_Finalize E (Some h) = Some (False, Some h)"
  using assms by (cases x; simp add: Hash_Update_def Hash_Update_File_def Hash_Finalize_def hash_open_def)+

lemma size_text:
  fixes n :: u32
  assumes "unat n \<le> 64"
  shows "unat (n * 2 + 1) = 2 * unat n + 1"
  using assms by (simp add: unat_word_ariths)

lemma Hash_ToText_wf:
  assumes "hash_wf h" and "is_final h"
  shows "Hash_ToText True (Some h) = Some (Some (hex_text (hash_digest h)))"
proof -
  from assms(1) have "unat (iSize h) \<le> 64" by (auto simp: hash_wf_def)
  note size_text [OF this]
  then show ?thesis
    using assms by (auto simp: Hash_ToText_def hash_wf_def hash_digest_def hex_text_def)
qed

section \<open>Safety\<close>

text \<open>The invariant of every hash: an open one holds a message for the algorithm of its type.\<close>
definition hash_inv :: "('ctx \<Rightarrow> string \<times> bytes) \<Rightarrow> ('ctx, 'md) Hash \<Rightarrow> bool" where
  "hash_inv held h \<longleftrightarrow> hash_wf h
     \<and> (\<not> is_final h \<longrightarrow> (\<exists>n m. Hash_Get_OpenSSL_Name (iType h) = Some n \<and> holding held n (iType h) m h))"

lemma holding_inv:
  assumes "holding held n (iType h) m h" and "Hash_Get_OpenSSL_Name (iType h) = Some n" and "unat (iSize h) \<le> 64"
  shows "hash_inv held h"
  using assms by (auto simp: hash_inv_def hash_wf_def holding_def hash_open_def)

lemma hash_inv_openD:
  assumes "hash_inv held h" and "hash_open h"
  obtains n m where "Hash_Get_OpenSSL_Name (iType h) = Some n" and "holding held n (iType h) m h"
  using assms by (auto simp: hash_inv_def hash_open_def)

lemma digest_update_inv:
  assumes ok: "evp_ok E held alg digest" and inv: "hash_inv held h" and op: "hash_open h"
  shows "\<exists>b h'. digest_update E d h = Some (b, h') \<and> hash_inv held h' \<and> hash_open h'"
proof -
  obtain n m where n: "Hash_Get_OpenSSL_Name (iType h) = Some n" and hold: "holding held n (iType h) m h"
    using hash_inv_openD [OF inv op] .
  have sz: "unat (iSize h) \<le> 64" using inv by (auto simp: hash_inv_def hash_wf_def)
  from hold obtain c where c: "CTX h = Some c" "held c = (n, m)" by (auto simp: holding_def)
  show ?thesis
  proof (cases "EVP_DigestUpdate E c d")
    case None
    then show ?thesis using inv op c by (auto simp: digest_update_def)
  next
    case (Some c')
    then have "held c' = (n, m @ d)" using ok c unfolding evp_ok_def by fastforce
    then have h': "holding held n (iType h) (m @ d) (h\<lparr>CTX := Some c'\<rparr>)"
      using hold by (auto simp: holding_def hash_open_def is_final_def)
    then have "hash_inv held (h\<lparr>CTX := Some c'\<rparr>)" by (intro holding_inv) (use n sz in simp_all)
    then show ?thesis using Some c h' by (auto simp: digest_update_def holding_def)
  qed
qed

lemma file_loop_inv:
  "evp_ok E held alg digest \<Longrightarrow> hash_inv held h \<Longrightarrow> hash_open h \<Longrightarrow> \<exists>b f' h'. file_loop E f h = Some (b, f', h') \<and> hash_inv held h'"
proof (induction E f h rule: file_loop.induct)
  case (1 E f h)
  obtain d f1 where fr: "fread 4096 f = (d, f1)" by fastforce
  from digest_update_inv [OF 1(2-4), of d]
  obtain b h1 where h1: "digest_update E d h = Some (b, h1)" "hash_inv held h1" "hash_open h1" by blast
  show ?case
    using fr h1 1(1) [OF fr [symmetric] refl, of "(b, h1)"] 1(2,3) by (auto simp: file_loop.simps [of E f h])
qed

lemma feed_inv:
  assumes ok: "evp_ok E held alg digest" and inv: "hash_inv held h" and fits: "input_fits x"
  shows "\<exists>b h'. feed E x (Some h) = Some (b, Some h') \<and> hash_inv held h'"
proof (cases "hash_open h")
  case False
  then show ?thesis using inv by (cases x) (auto simp: Hash_Update_def Hash_Update_File_def)
next
  case True
  show ?thesis
  proof (cases x)
    case (Buffer d)
    then have "unat (of_nat (length d) :: u32) = length d"
      using fits by (simp add: unsigned_of_nat take_bit_nat_eq_self)
    then show ?thesis
      using digest_update_inv [OF ok inv True, of d] True Buffer by (auto simp: Hash_Update_def)
  next
    case (File f)
    then show ?thesis
      using file_loop_inv [OF ok inv True, of f] True by (auto simp: Hash_Update_File_def)
  qed
qed

lemma or_final: "(w OR 1) AND 1 \<noteq> (0 :: u32)"
  by (simp add: bit.conj_disj_distrib2)

lemma finalize_inv:
  assumes ok: "evp_ok E held alg digest" and inv: "hash_inv held h"
  shows "\<exists>b h'. Hash_Finalize E (Some h) = Some (b, Some h') \<and> hash_inv held h'"
proof (cases "hash_open h")
  case False
  then show ?thesis using inv by (auto simp: Hash_Finalize_def)
next
  case True
  obtain n m where n: "Hash_Get_OpenSSL_Name (iType h) = Some n" and hold: "holding held n (iType h) m h"
    using hash_inv_openD [OF inv True] .
  from hold obtain c where c: "CTX h = Some c" "held c = (n, m)" by (auto simp: holding_def)
  show ?thesis
  proof (cases "EVP_DigestFinal_ex E c")
    case None
    then show ?thesis using inv True c by (auto simp: Hash_Finalize_def)
  next
    case (Some dg)
    then have "dg = digest n m" using ok c unfolding evp_ok_def by fastforce
    then have "length dg = unat (Hash_Get_ExpectedDigestLength (iType h))"
      using ok n unfolding evp_ok_def by blast
    then show ?thesis
      using Some c True hold digest_length_bound [of "iType h"] or_final [of "iFlags h"]
      by (auto simp: Hash_Finalize_def holding_def hash_open_def is_final_def hash_wf_def hash_inv_def)
  qed
qed

lemma create_inv:
  assumes ok: "evp_ok E held alg digest" and h: "Hash_Create_Type E ok1 ok2 t = Some h"
  shows "hash_inv held h"
proof -
  from h obtain n m c c' where *: "Hash_Get_OpenSSL_Name t = Some n" "EVP_MD_fetch E n = Some m"
      "EVP_DigestInit_ex2 E c m = Some c'"
    and h': "h = \<lparr>iType = t, iSize = 0, pData = Some (replicate 64 0), CTX = Some c', md = Some m, iFlags = 0\<rparr>"
    by (auto simp: Hash_Create_Type_def Hash_Init_OpenSSL_def Let_def split: if_splits option.splits)
  have "held c' = (n, [])" using ok * unfolding evp_ok_def by blast
  then have "holding held n (iType h) [] h"
    using h' name_expected [OF *(1)] by (simp add: holding_def hash_open_def is_final_def)
  then show ?thesis by (rule holding_inv) (use h' * in simp_all)
qed

lemma parse_wf:
  assumes "Hash_Create_From_String ok1 ok2 t s = Some h"
  shows "hash_wf h" and "is_final h"
proof -
  from assms obtain str where "length str = unat (Hash_Get_ExpectedDigestLength t) * 2"
    and nz: "Hash_Get_ExpectedDigestLength t \<noteq> 0"
    and h: "h = \<lparr>iType = t, iSize = Hash_Get_ExpectedDigestLength t, pData = Some (scan_bytes str),
         CTX = None, md = None, iFlags = 1\<rparr>"
    by (auto simp: Hash_Create_From_String_def Let_def split: option.splits if_splits)
  then have "length (scan_bytes str) = unat (Hash_Get_ExpectedDigestLength t)"
    by (simp add: length_scan_bytes)
  moreover have "t > 0"
    using nz by (auto simp: Hash_Get_ExpectedDigestLength_def word_greater_zero_iff split: if_splits)
  ultimately show "hash_wf h" and "is_final h"
    using h digest_length_bound [of t] by (simp_all add: hash_wf_def is_final_def)
qed

lemma Hash_Clone_wf:
  assumes "hash_wf h" and "is_final h"
  shows "Hash_Clone True True (Some h) = Some (Some \<lparr>iType = iType h, iSize = iSize h,
    pData = Some (hash_digest h), CTX = None, md = None, iFlags = 1\<rparr>)"
proof -
  have "iFlags h AND 1 = 1" using assms(2) by (simp add: is_final_def and_one_eq)
  then show ?thesis using assms by (auto simp: Hash_Clone_def hash_wf_def hash_digest_def)
qed

lemma Hash_Clone_total:
  assumes "hash_wf h"
  shows "Hash_Clone ok1 ok2 (Some h) \<noteq> None"
    and "Hash_Clone ok1 ok2 (Some h) = Some (Some g) \<Longrightarrow> hash_wf g \<and> is_final g"
proof -
  have "is_final h \<longleftrightarrow> iFlags h AND 1 = 1" by (simp add: is_final_def and_one_eq)
  then have *: "Hash_Clone ok1 ok2 (Some h) = (if is_final h \<and> ok1 \<and> ok2 then Hash_Clone True True (Some h) else Some None)"
    by (simp add: Hash_Clone_def)
  show "Hash_Clone ok1 ok2 (Some h) \<noteq> None" using * Hash_Clone_wf [OF assms] by auto
  assume "Hash_Clone ok1 ok2 (Some h) = Some (Some g)"
  then have "g = \<lparr>iType = iType h, iSize = iSize h, pData = Some (hash_digest h), CTX = None, md = None, iFlags = 1\<rparr>"
    using * Hash_Clone_wf [OF assms] by (auto split: if_splits)
  then show "hash_wf g \<and> is_final g" using assms by (auto simp: hash_wf_def is_final_def hash_digest_def)
qed

lemma hash_made_inv:
  assumes "evp_ok E held alg digest"
  shows "hash_made E h \<Longrightarrow> hash_inv held h"
proof (induction rule: hash_made.induct)
  case (create ok1 ok2 t h)
  then show ?case using create_inv [OF assms] by blast
next
  case (parse ok1 ok2 t s h)
  then show ?case using parse_wf [OF parse] by (simp add: hash_inv_def)
next
  case (clone h ok1 ok2 h')
  then show ?case using Hash_Clone_total(2) by (auto simp: hash_inv_def)
next
  case (feed h x ok h')
  then show ?case using feed_inv [OF assms feed(4,2)] by auto
next
  case (finalize h ok h')
  then show ?case using finalize_inv [OF assms finalize(3)] by auto
qed

lemma Hash_IsEqual_wf:
  assumes "hash_wf a" and "hash_wf b" and "is_final a" and "is_final b"
  shows "Hash_IsEqual False (Some a) (Some b) = Some (hash_digest a = hash_digest b)"
proof -
  from assms obtain x y where x: "pData a = Some x" "unat (iSize a) \<le> length x"
    and y: "pData b = Some y" "unat (iSize b) \<le> length y" by (auto simp: hash_wf_def)
  show ?thesis
  proof (cases "iSize a = iSize b")
    case True
    then show ?thesis using assms x y by (simp add: hash_digest_def bytes_cmp_eq_0)
  next
    case False
    then have "unat (iSize a) \<noteq> unat (iSize b)" by (simp add: unsigned_word_eqI word_unat_eq_iff)
    moreover have "length (hash_digest a) = unat (iSize a)" "length (hash_digest b) = unat (iSize b)"
      using x y by (simp_all add: hash_digest_def)
    ultimately have "hash_digest a \<noteq> hash_digest b" by auto
    then show ?thesis using False assms x y by simp
  qed
qed

lemma Hash_IsEqual_total:
  assumes "hash_wf a" and "hash_wf b"
  shows "Hash_IsEqual s (Some a) (Some b) \<noteq> None"
proof (cases "is_final a \<and> is_final b \<and> \<not> s")
  case True
  then show ?thesis using Hash_IsEqual_wf [OF assms] by simp
next
  case False
  then show ?thesis using assms by (auto simp: hash_wf_def)
qed

declare Hash_IsEqual.simps(3) [simp del]

lemma Hash_ToText_total:
  assumes "hash_wf h"
  shows "Hash_ToText ok (Some h) \<noteq> None"
proof (cases "is_final h \<and> ok")
  case True
  then show ?thesis using Hash_ToText_wf [OF assms] by simp
next
  case False
  then show ?thesis by (auto simp: Hash_ToText_def)
qed

text \<open>The text of a finished hash parses to a hash with the same digest and type.\<close>
lemma parse_text_proper:
  assumes "hash_proper h"
  obtains g where "Hash_Create_From_String True True (iType h) (Some (hex_text (hash_digest h))) = Some g"
    and "hash_digest g = hash_digest h" and "iType g = iType h" and "hash_proper g"
proof -
  let ?d = "hash_digest h" and ?e = "Hash_Get_ExpectedDigestLength (iType h)"
  from assms have h: "hash_wf h" "is_final h" "iSize h \<noteq> 0" "iSize h = ?e"
    unfolding hash_proper_def by blast+
  have len: "length ?d = unat ?e" using h(1,4) by (auto simp: hash_wf_def hash_digest_def)
  define g :: "('c, 'd) Hash" where
    "g = \<lparr>iType = iType h, iSize = ?e, pData = Some ?d, CTX = None, md = None, iFlags = 1\<rparr>"
  have g: "Hash_Create_From_String True True (iType h) (Some (hex_text ?d)) = Some g"
    using h len by (simp add: Hash_Create_From_String_def Let_def g_def)
  have "hash_digest g = take (unat ?e) ?d" by (simp add: g_def hash_digest_def)
  then have "hash_digest g = ?d" using len by simp
  moreover have "iType g = iType h" "iSize g = ?e" by (simp_all add: g_def)
  then have "hash_proper g" using parse_wf [OF g] h(3,4) unfolding hash_proper_def by auto
  ultimately show thesis using that g \<open>iType g = iType h\<close> by blast
qed

lemma toy_evp_ok: "evp_ok toy_evp id id toy_digest"
  by (auto simp: evp_ok_def toy_evp_def toy_digest_def toy_length_def Hash_Get_OpenSSL_Name_def
      Hash_Get_ExpectedDigestLength_def split: if_splits)

lemma toy_evp_works: "evp_works toy_evp"
  by (simp add: evp_works_def toy_evp_def)

section \<open>Properties of hashes\<close>

text \<open>C17: A hash computes the digest of what it is fed. With an OpenSSL that behaves as documented and
  does not fail, a hash of a supported type that is fed any sequence of buffers and files and then
  finalised holds the digest of the concatenated bytes; files are read in pieces of 4096 bytes. Its text
  is the digest in hexadecimal, its length the expected one, and it refuses further input.\<close>
theorem Hash_digest_of_inputs:
  assumes "evp_ok E held alg digest" and "evp_works E"
    and "Hash_Get_OpenSSL_Name t = Some nm" and "list_all input_fits xs"
  shows "\<exists>h h1 h2. Hash_Create_Type E True True t = Some h
    \<and> feed_all E xs (Some h) = Some (True, Some h1)
    \<and> Hash_Finalize E (Some h1) = Some (True, Some h2)
    \<and> hash_digest h2 = digest nm (concat (map input_bytes xs))
    \<and> Hash_ToText True (Some h2) = Some (Some (hex_text (digest nm (concat (map input_bytes xs)))))
    \<and> Hash_DigestLength (Some h2) = Hash_Get_ExpectedDigestLength t
    \<and> (\<forall>x. feed E x (Some h2) = Some (False, Some h2))
    \<and> Hash_Finalize E (Some h2) = Some (False, Some h2)"
proof -
  obtain h where h: "Hash_Create_Type E True True t = Some h" "holding held nm t [] h"
    using create_holding [OF assms(1-3)] .
  from feed_all_holding [OF assms(1,2) h(2) assms(4)]
  obtain h1 where h1: "feed_all E xs (Some h) = Some (True, Some h1)"
    "holding held nm t (concat (map input_bytes xs)) h1" by auto
  obtain h2 where h2: "Hash_Finalize E (Some h1) = Some (True, Some h2)" "is_final h2"
      "hash_digest h2 = digest nm (concat (map input_bytes xs))"
      "iSize h2 = Hash_Get_ExpectedDigestLength t" "hash_wf h2"
    using finalize_holding [OF assms(1,2) h1(2) assms(3)] .
  show ?thesis
    using h(1) h1(1) h2 Hash_ToText_wf [OF h2(5,2)] final_closed [OF h2(2)] by simp
qed

theorem Hash_digest_of_inputs_witness:
  "\<exists>h h1 h2. Hash_Create_Type toy_evp True True 1 = Some h
    \<and> feed_all toy_evp [Buffer [1, 2], File \<lparr>fdata = [7, 255], fpos = 1, ferror_at = None\<rparr>] (Some h)
        = Some (True, Some h1)
    \<and> Hash_Finalize toy_evp (Some h1) = Some (True, Some h2)
    \<and> hash_digest h2 = [1, 2, 255] @ replicate 13 0"
proof -
  have "Hash_Get_OpenSSL_Name 1 = Some ''MD5''" by (simp add: Hash_Get_OpenSSL_Name_def)
  note Hash_digest_of_inputs [OF toy_evp_ok toy_evp_works this,
      of "[Buffer [1, 2], File \<lparr>fdata = [7, 255], fpos = 1, ferror_at = None\<rparr>]"]
  moreover have "toy_digest ''MD5'' [1, 2, 255] = [1, 2, 255] @ replicate 13 0"
    by (simp add: toy_digest_def toy_length_def)
  ultimately show ?thesis by (force simp: freadable_def fbytes_def)
qed

text \<open>C11: Safety of every hash the interface can make. After any sequence of creations, parses, copies,
  updates and finalisations, failures included, a hash has a buffer of at most 64 bytes that holds its
  digest, and no operation on it reads or writes outside a buffer or uses a missing context.\<close>
theorem Hash_reachable_safe:
  assumes "evp_ok E held alg digest" and "hash_made E h" and "hash_made E g" and "input_fits x"
  shows "hash_wf h \<and> feed E x (Some h) \<noteq> None \<and> Hash_Finalize E (Some h) \<noteq> None
    \<and> Hash_ToText ok (Some h) \<noteq> None \<and> Hash_Clone ok1 ok2 (Some h) \<noteq> None
    \<and> Hash_IsEqual same (Some h) (Some g) \<noteq> None"
proof -
  have inv: "hash_inv held h" "hash_wf h" "hash_wf g"
    using hash_made_inv [OF assms(1)] assms(2,3) by (auto simp: hash_inv_def)
  show ?thesis
    using inv feed_inv [OF assms(1) inv(1) assms(4)] finalize_inv [OF assms(1) inv(1)]
      Hash_ToText_total [OF inv(2)] Hash_Clone_total(1) [OF inv(2)] Hash_IsEqual_total [OF inv(2,3)]
    by (metis option.distinct(1))
qed

theorem Hash_reachable_safe_witness:
  "\<exists>h. Hash_Create_Type toy_evp True True 2 = Some h
    \<and> hash_wf (h :: (string \<times> bytes, string) Hash) \<and> Hash_Finalize toy_evp (Some h) \<noteq> None"
proof -
  have "Hash_Get_OpenSSL_Name 2 = Some ''SHA1''" by (simp add: Hash_Get_OpenSSL_Name_def)
  then obtain h where h: "Hash_Create_Type toy_evp True True 2 = Some h"
    using create_holding [OF toy_evp_ok toy_evp_works] by blast
  then have "hash_made toy_evp h" by (rule hash_made.create)
  from Hash_reachable_safe [OF toy_evp_ok this this, of "Buffer []"] h show ?thesis by simp
qed

text \<open>C18: Parsing and printing a hash are inverse. \<open>Hash_Create_From_String\<close> accepts exactly the strings
  of hexadecimal digits of twice the digest length of a supported type, and the hash it makes prints as
  that string in lower case. The text of a finished hash parses to an equal hash of the same type.\<close>
theorem Hash_text_roundtrip:
  fixes h :: "('ctx, 'md) Hash"
  assumes "hash_proper h"
  shows "(Hash_Create_From_String True True t (Some s) = (None :: ('ctx, 'md) Hash option) \<longleftrightarrow>
      \<not> (Hash_Get_ExpectedDigestLength t \<noteq> 0 \<and> length s = 2 * unat (Hash_Get_ExpectedDigestLength t)
        \<and> list_all isxdigit s))
    \<and> (case Hash_Create_From_String True True t (Some s) :: ('ctx, 'md) Hash option of
         None \<Rightarrow> True
       | Some g \<Rightarrow> Hash_ToText True (Some g) = Some (Some (map hex_lower s)) \<and> iType g = t)
    \<and> (\<exists>text g. Hash_ToText True (Some h) = Some (Some text)
         \<and> Hash_Create_From_String True True (iType h) (Some text) = Some g
         \<and> Hash_IsEqual False (Some h) (Some g) = Some True \<and> iType g = iType h)"
proof (intro conjI)
  show "Hash_Create_From_String True True t (Some s) = (None :: ('ctx, 'md) Hash option) \<longleftrightarrow>
      \<not> (Hash_Get_ExpectedDigestLength t \<noteq> 0 \<and> length s = 2 * unat (Hash_Get_ExpectedDigestLength t)
        \<and> list_all isxdigit s)"
    by (auto simp: Hash_Create_From_String_def Let_def)
  show "case Hash_Create_From_String True True t (Some s) :: ('ctx, 'md) Hash option of
         None \<Rightarrow> True
       | Some g \<Rightarrow> Hash_ToText True (Some g) = Some (Some (map hex_lower s)) \<and> iType g = t"
  proof (cases "Hash_Create_From_String True True t (Some s) :: ('ctx, 'md) Hash option")
    case (Some g)
    then have s: "length s = 2 * unat (Hash_Get_ExpectedDigestLength t)" "list_all isxdigit s"
      and g: "hash_digest g = scan_bytes s" "iType g = t"
      by (auto simp: Hash_Create_From_String_def Let_def hash_digest_def length_scan_bytes split: if_splits)
    show ?thesis
      using Some g s Hash_ToText_wf [OF parse_wf [OF Some]] hex_text_scan [of s] by simp
  qed simp
  have h: "hash_wf h" "is_final h" using assms by (simp_all add: hash_proper_def)
  obtain g :: "('ctx, 'md) Hash" where
    g: "Hash_Create_From_String True True (iType h) (Some (hex_text (hash_digest h))) = Some g"
      "hash_digest g = hash_digest h" "iType g = iType h" "hash_proper g"
    using parse_text_proper [OF assms] .
  then have "Hash_IsEqual False (Some h) (Some g) = Some True"
    using Hash_IsEqual_wf [OF h(1) _ h(2)] by (simp add: hash_proper_def)
  then show "\<exists>text g. Hash_ToText True (Some h) = Some (Some text)
         \<and> Hash_Create_From_String True True (iType h) (Some text) = Some g
         \<and> Hash_IsEqual False (Some h) (Some g) = Some True \<and> iType g = iType h"
    using g Hash_ToText_wf [OF h] by blast
qed

lemma ex_hash_proper: "hash_proper (ex_hash 1)"
  by (simp add: hash_proper_def hash_wf_def is_final_def ex_hash_def Hash_Get_ExpectedDigestLength_def)

theorem Hash_text_roundtrip_witness:
  "Hash_Create_From_String True True 1 (Some ''00'') = (None :: (string \<times> bytes, string) Hash option)
   \<and> (\<exists>text g. Hash_ToText True (Some (ex_hash 1)) = Some (Some text)
         \<and> Hash_Create_From_String True True 1 (Some text) = Some g
         \<and> Hash_IsEqual False (Some (ex_hash 1)) (Some g) = Some True)"
proof -
  have "Hash_Get_ExpectedDigestLength 1 = 16" and ty: "iType (ex_hash 1) = 1"
    by (simp_all add: ex_hash_def Hash_Get_ExpectedDigestLength_def)
  moreover note * = Hash_text_roundtrip [OF ex_hash_proper, of 1 "''00''", unfolded ty]
  ultimately show ?thesis by (intro conjI) (use * [THEN conjunct1] in simp, use * in blast)
qed

section \<open>Block identifiers\<close>

lemma length_hex_digits: "length (hex_digits n) \<le> Suc k \<longleftrightarrow> n < 16 ^ Suc k"
proof (induction k arbitrary: n)
  case 0
  then show ?case by (simp add: hex_digits.simps [of n] hex_digits.simps [of "n div 16"])
next
  case (Suc k)
  have "n div 16 < 16 ^ Suc k \<longleftrightarrow> n < 16 ^ Suc (Suc k)" by (simp add: div_less_iff_less_mult mult.commute)
  moreover have "(16 :: nat) ^ 1 \<le> 16 ^ Suc (Suc k)" by (rule power_increasing) simp_all
  then have "n < 16 \<Longrightarrow> n < 16 ^ Suc (Suc k)" by (metis less_le_trans power_one_right)
  ultimately show ?case using Suc.IH [of "n div 16"] by (simp add: hex_digits.simps [of n])
qed

lemma length_hex_padded: "length (hex_padded n) \<le> 8 \<longleftrightarrow> n < 2 ^ 32"
  using length_hex_digits [of n 7] by (auto simp: hex_padded_def)

lemma length_hex_padded_ge: "8 \<le> length (hex_padded n)"
  by (simp add: hex_padded_def)

lemma hex_number_snoc [simp]: "hex_number (s @ [c]) = 16 * hex_number s + hex_value c"
  by (simp add: hex_number_def)

lemma hex_number_digits [simp]: "hex_number (hex_digits n) = n"
proof (induction n rule: hex_digits.induct)
  case (1 n)
  have "hex_number [hex_digit n] = hex_value (hex_digit n)" by (simp add: hex_number_def)
  then show ?case using 1 by (simp add: hex_digits.simps [of n])
qed

lemma hex_number_pad: "hex_number (replicate k (CHR ''0'') @ s) = hex_number s"
proof (induction k)
  case (Suc k)
  have "hex_number (CHR ''0'' # xs) = hex_number xs" for xs
    by (simp add: hex_number_def hex_value_def)
  then show ?case using Suc by simp
qed simp

lemma hex_number_padded [simp]: "hex_number (hex_padded n) = n"
  by (simp add: hex_padded_def hex_number_pad)

lemma hex_digits_xdigit: "list_all isxdigit (hex_digits n)"
proof (induction n rule: hex_digits.induct)
  case (1 n)
  then show ?case by (simp add: hex_digits.simps [of n])
qed

lemma xdigit_no_dash:
  assumes "list_all isxdigit s"
  shows "CHR ''-'' \<notin> set s"
proof -
  have "\<not> isxdigit (CHR ''-'')" by (simp add: isxdigit_def)
  then show ?thesis using assms by (auto simp: list_all_iff)
qed

lemma hex_padded_no_dash: "CHR ''-'' \<notin> set (hex_padded n)"
  using xdigit_no_dash [OF hex_digits_xdigit, of n] by (auto simp: hex_padded_def)

lemma split_at_first:
  assumes "c \<notin> set xs" and "c \<notin> set ys"
  shows "xs @ c # us = ys @ c # vs \<longleftrightarrow> xs = ys \<and> us = vs"
proof -
  have *: "c \<notin> set zs \<Longrightarrow> takeWhile (\<lambda>x. x \<noteq> c) (zs @ c # ws) = zs" for zs ws
    by (induction zs) auto
  show ?thesis
  proof
    assume eq: "xs @ c # us = ys @ c # vs"
    then have "xs = ys" using * [OF assms(1), of us] * [OF assms(2), of vs] by (metis (full_types))
    then show "xs = ys \<and> us = vs" using eq by simp
  qed simp
qed

definition id_text :: "(uuid \<Rightarrow> string) \<Rightarrow> ('ctx, 'md) BlockId \<Rightarrow> string" where
  "id_text up b = up (uuidDataType b) @ ''-'' @ hex_padded (unat (iLength b)) @ ''-'' @ hex_text (hash_digest (the (pHash b)))"

lemma BlockId_ToText_proper:
  "block_id_proper b \<Longrightarrow> BlockId_ToText up True True (Some b) = Some (Some (id_text up b))"
  using Hash_ToText_wf by (fastforce simp: BlockId_ToText_def block_id_proper_def id_text_def)

lemma uuid_unparse_ok_length:
  assumes "uuid_unparse_ok up" and "length u = 16"
  shows "length (up u) = 36"
proof -
  from assms(1) have "\<forall>u. length u = 16 \<longrightarrow> length (up u) = 36"
    unfolding uuid_unparse_ok_def by (rule conjunct1)
  from this [rule_format, OF assms(2)] show ?thesis .
qed

lemma id_text_length:
  assumes "uuid_unparse_ok up" and "block_id_proper b"
  shows "length (id_text up b) = 38 + length (hex_padded (unat (iLength b))) + 2 * unat (iSize (the (pHash b)))"
proof -
  have "length (up (uuidDataType b)) = 36" 
    using uuid_unparse_ok_length [OF assms(1)] assms(2) by (simp add: block_id_proper_def)
  then show ?thesis using assms(2) by (auto simp: id_text_def block_id_proper_def hash_digest_def hash_wf_def)
qed

lemma uuid_unparse_ok_inj:
  assumes "uuid_unparse_ok up" and "length u = 16" and "length v = 16"
  shows "up u = up v \<longleftrightarrow> u = v"
proof -
  from assms(1) have "\<forall>u v. length u = 16 \<longrightarrow> length v = 16 \<longrightarrow> up u = up v \<longrightarrow> u = v"
    unfolding uuid_unparse_ok_def by (rule conjunct2)
  from this [rule_format, OF assms(2,3)] show ?thesis by auto
qed

lemma id_text_eq:
  assumes up: "uuid_unparse_ok up" and a: "block_id_proper a" and b: "block_id_proper b"
  shows "id_text up a = id_text up b \<longleftrightarrow> uuidDataType a = uuidDataType b \<and> iLength a = iLength b
    \<and> hash_digest (the (pHash a)) = hash_digest (the (pHash b))"
proof -
  have ua: "length (uuidDataType a) = 16" "length (uuidDataType b) = 16"
    using a b by (simp_all add: block_id_proper_def)
  note uuid_unparse_ok_length [OF up ua(1)] uuid_unparse_ok_length [OF up ua(2)]
    uuid_unparse_ok_inj [OF up ua]
  moreover have "hex_padded (unat (iLength a)) = hex_padded (unat (iLength b)) \<longleftrightarrow> iLength a = iLength b"
    by (metis hex_number_padded word_unat_eq_iff)
  ultimately show ?thesis
    by (simp add: id_text_def split_at_first [OF hex_padded_no_dash hex_padded_no_dash] hex_text_inject)
qed

lemma BlockId_IsEqual_proper:
  assumes uc: "uuid_compare_ok uc" and a: "block_id_proper a" and b: "block_id_proper b"
  shows "BlockId_IsEqual uc False False (Some a) (Some b) =
    Some (uuidDataType a = uuidDataType b \<and> hash_digest (the (pHash a)) = hash_digest (the (pHash b))
      \<and> iLength a = iLength b)"
proof -
  from a b obtain g h where g: "pHash a = Some g" "hash_wf g" "is_final g"
    and h: "pHash b = Some h" "hash_wf h" "is_final h" by (auto simp: block_id_proper_def)
  show ?thesis using uc g h Hash_IsEqual_wf [OF g(2) h(2) g(3) h(3)] by (simp del: Hash_IsEqual.simps)
qed

lemma uuid_unparse_ref_ok: "uuid_unparse_ok uuid_unparse_ref"
  by (simp add: uuid_unparse_ok_def uuid_unparse_ref_def hex_text_inject)

lemma ex_block_id_proper: "block_id_proper (ex_block_id n)"
  using ex_hash_proper by (simp add: block_id_proper_def ex_block_id_def hash_proper_def)

text \<open>C27: The text of a block identifier identifies the block. Two block identifiers with finished hashes
  print as the same text exactly when \<open>BlockId_IsEqual\<close> holds of them, whatever their lengths and hash
  types, although the parts of the text vary in length.\<close>
theorem BlockId_text_identifies:
  assumes "uuid_unparse_ok up" and "uuid_compare_ok uc" and "block_id_proper a" and "block_id_proper b"
  shows "\<exists>s t. BlockId_ToText up True True (Some a) = Some (Some s)
    \<and> BlockId_ToText up True True (Some b) = Some (Some t)
    \<and> BlockId_IsEqual uc False False (Some a) (Some b) = Some (s = t)"
proof (intro exI conjI)
  show "BlockId_ToText up True True (Some a) = Some (Some (id_text up a))"
    "BlockId_ToText up True True (Some b) = Some (Some (id_text up b))"
    using BlockId_ToText_proper assms(3,4) by blast+
  show "BlockId_IsEqual uc False False (Some a) (Some b) = Some (id_text up a = id_text up b)"
    unfolding BlockId_IsEqual_proper [OF assms(2-4)] id_text_eq [OF assms(1,3,4)] by blast
qed

theorem BlockId_text_identifies_witness:
  "\<exists>s t. BlockId_ToText uuid_unparse_ref True True (Some (ex_block_id 7)) = Some (Some s)
    \<and> BlockId_ToText uuid_unparse_ref True True (Some (ex_block_id (2 ^ 40))) = Some (Some t)
    \<and> BlockId_IsEqual uuid_compare_ref False False (Some (ex_block_id 7)) (Some (ex_block_id (2 ^ 40))) = Some (s = t)"
  by (rule BlockId_text_identifies [OF uuid_unparse_ref_ok uuid_compare_ref_ok ex_block_id_proper ex_block_id_proper])

text \<open>\<open>BlockId_StringLength\<close> is the size of a buffer for the text, terminator included, exactly for
  blocks shorter than 2^32 bytes. The length of a block has 64 bits and is printed in full, so for a
  longer block the text does not fit.\<close>
theorem BlockId_text_length:
  assumes "uuid_unparse_ok up" and "block_id_proper b"
  shows "\<exists>t. BlockId_ToText up True True (Some b) = Some (Some t)
    \<and> unat (BlockId_StringLength (Some b)) \<le> length t + 1
    \<and> (length t + 1 = unat (BlockId_StringLength (Some b)) \<longleftrightarrow> unat (iLength b) < 2 ^ 32)"
proof (intro exI conjI)
  from assms(2) obtain h where h: "pHash b = Some h" "unat (iSize h) \<le> 64"
    by (auto simp: block_id_proper_def hash_wf_def)
  have len: "length (id_text up b) = 38 + length (hex_padded (unat (iLength b))) + 2 * unat (iSize h)"
    using id_text_length [OF assms] h(1) by simp
  have size: "unat (BlockId_StringLength (Some b)) = 47 + 2 * unat (iSize h)"
    using h by (simp add: unat_word_ariths)
  show "BlockId_ToText up True True (Some b) = Some (Some (id_text up b))"
    using BlockId_ToText_proper [OF assms(2)] .
  show "unat (BlockId_StringLength (Some b)) \<le> length (id_text up b) + 1"
    unfolding len size using length_hex_padded_ge [of "unat (iLength b)"] by simp
  show "length (id_text up b) + 1 = unat (BlockId_StringLength (Some b)) \<longleftrightarrow> unat (iLength b) < 2 ^ 32"
    unfolding len size length_hex_padded [symmetric] using length_hex_padded_ge [of "unat (iLength b)"]
    by linarith
qed

theorem BlockId_text_length_witness:
  "\<exists>t. BlockId_ToText uuid_unparse_ref True True (Some (ex_block_id (2 ^ 40))) = Some (Some t)
    \<and> length t + 1 > unat (BlockId_StringLength (Some (ex_block_id (2 ^ 40))))"
proof -
  have "\<not> unat (iLength (ex_block_id (2 ^ 40))) < 2 ^ 32" by (simp add: ex_block_id_def)
  then show ?thesis
    using BlockId_text_length [OF uuid_unparse_ref_ok ex_block_id_proper, of "2 ^ 40"] by fastforce
qed

text \<open>\<open>BlockId_Clone\<close> makes an identifier equal to its argument that prints the same, and makes none
  when the hash of the argument is not finished or an allocation fails.\<close>
theorem BlockId_Clone_correct:
  assumes "uuid_compare_ok uc" and "block_id_proper b" and "pHash e = Some g" and "\<not> is_final g"
  shows "(\<exists>c. BlockId_Clone True True True (Some b) = Some (Some c) \<and> block_id_proper c
      \<and> BlockId_IsEqual uc False False (Some b) (Some c) = Some True
      \<and> BlockId_ToText up True True (Some c) = BlockId_ToText up True True (Some b))
    \<and> BlockId_Clone ok1 ok2 ok3 (Some e) = Some None
    \<and> (\<not> (ok1 \<and> ok2 \<and> ok3) \<longrightarrow> BlockId_Clone ok1 ok2 ok3 (Some b) = Some None)"
proof (intro conjI impI)
  from assms(2) obtain h where h: "pHash b = Some h" "hash_wf h" "is_final h"
    by (auto simp: block_id_proper_def)
  define k :: "('a, 'b) Hash" where "k = \<lparr>iType = iType h, iSize = iSize h, pData = Some (hash_digest h), CTX = None, md = None, iFlags = 1\<rparr>"
  define c where "c = \<lparr>pHash = Some k, uuidDataType = uuidDataType b, iLength = iLength b\<rparr>"
  have cl: "Hash_Clone True True (Some h) = Some (Some k)" using Hash_Clone_wf [OF h(2,3)] by (simp add: k_def)
  then have c: "BlockId_Clone True True True (Some b) = Some (Some c)"
    using h(1) by (simp add: BlockId_Clone_def BlockId_Create_Shallow_def c_def)
  have pc: "block_id_proper c"
    using Hash_Clone_total(2) [OF h(2) cl] assms(2) by (simp add: block_id_proper_def c_def)
  have dig: "hash_digest k = hash_digest h" by (simp add: k_def hash_digest_def)
  have "id_text up c = id_text up b" using dig h(1) by (simp add: id_text_def c_def)
  moreover have "BlockId_IsEqual uc False False (Some b) (Some c) = Some True"
    unfolding BlockId_IsEqual_proper [OF assms(1,2) pc] using dig h(1) by (simp add: c_def)
  ultimately show "\<exists>c. BlockId_Clone True True True (Some b) = Some (Some c) \<and> block_id_proper c
      \<and> BlockId_IsEqual uc False False (Some b) (Some c) = Some True
      \<and> BlockId_ToText up True True (Some c) = BlockId_ToText up True True (Some b)"
    using c pc BlockId_ToText_proper [OF pc, of up] BlockId_ToText_proper [OF assms(2), of up] by auto
  have "iFlags g AND 1 \<noteq> 1" using assms(4) by (simp add: is_final_def)
  then show "BlockId_Clone ok1 ok2 ok3 (Some e) = Some None"
    using assms(3) by (simp add: BlockId_Clone_def BlockId_Create_Shallow_def Hash_Clone_def)
  assume "\<not> (ok1 \<and> ok2 \<and> ok3)"
  then show "BlockId_Clone ok1 ok2 ok3 (Some b) = Some None"
    using h(1) by (cases ok1; cases ok2; cases ok3)
      (simp_all add: BlockId_Clone_def BlockId_Create_Shallow_def Hash_Clone_def)
qed

theorem BlockId_Clone_correct_witness:
  "\<exists>c. BlockId_Clone True True True (Some (ex_block_id 3)) = Some (Some c)
    \<and> BlockId_IsEqual uuid_compare_ref False False (Some (ex_block_id 3)) (Some c) = Some True"
proof -
  have "pHash ((ex_block_id 3)\<lparr>pHash := Some (ex_hash 0)\<rparr>) = Some (ex_hash 0)" "\<not> is_final (ex_hash 0)"
    by (simp_all add: ex_hash_def is_final_def)
  from BlockId_Clone_correct [OF uuid_compare_ref_ok ex_block_id_proper this, of 3 uuid_unparse_ref True True True]
  show ?thesis by blast
qed

end
