(* ===== verification/Json_Codec.thy ===== *)
theory Json_Codec
  imports Json_Buffer Hash_Ids_Properties
begin

text \<open>
  The contract of a pair of put and get operations, as a locale, and its interpretations for scalars,
  identifiers and hashes. What is used of the libraries is the predicate \<open>env_ok\<close>; \<open>env_works\<close> says that
  no allocation fails.
\<close>

declare hex_digits.simps [simp del]

section \<open>What the libraries promise\<close>

text \<open>
  How deep the brackets of a JSON text nest, those inside strings left out; the second argument is
  whether the text starts inside a string, the third how many brackets are open.
\<close>
fun nesting :: "string \<Rightarrow> bool \<Rightarrow> nat \<Rightarrow> nat" where
  "nesting [] q d = d"
| "nesting (c # t) q d =
     (if q then (if c = CHR 0x5C then nesting (drop 1 t) True d else nesting t (c \<noteq> CHR 0x22) d)
      else if c = CHR 0x22 then nesting t True d
      else if c = CHR ''{'' \<or> c = CHR ''['' then max d (nesting t False (d + 1))
      else if c = CHR ''}'' \<or> c = CHR '']'' then max d (nesting t False (d - 1))
      else nesting t False d)"

text \<open>
  The default limit of the tokener of json-c is 32 levels, the innermost of which is that of the
  values in the innermost brackets.
\<close>
abbreviation (input) "JSON_TOKENER_DEFAULT_DEPTH \<equiv> (32 :: nat)"

definition shallow :: "string \<Rightarrow> bool" where
  "shallow t \<longleftrightarrow> nesting t False 0 < JSON_TOKENER_DEFAULT_DEPTH"

text \<open>
  json-c: a new value has the type of its constructor and reads back as what it was made from; an
  integer reads as its decimal text; adding a member changes that member only; adding to an array
  appends; the text of an object parses to the object, unless it nests deeper than the tokener allows.
\<close>
definition jsonc_ok :: "'j jsonc \<Rightarrow> bool" where
  "jsonc_ok J \<longleftrightarrow>
     (\<forall>c. json_object_new_object J = Some c \<longrightarrow> json_object_get_type J c = json_type_object
        \<and> (\<forall>n. json_object_object_get J c n = None \<and> \<not> json_object_object_get_ex J c n))
     \<and> (\<forall>p n c. json_object_get_type J p = json_type_object \<longrightarrow>
          json_object_get_type J (json_object_object_add J p n c) = json_type_object
          \<and> (\<forall>m. json_object_object_get J (json_object_object_add J p n c) m =
                 (if m = n then Some c else json_object_object_get J p m)
               \<and> json_object_object_get_ex J (json_object_object_add J p n c) m =
                 (m = n \<or> json_object_object_get_ex J p m)))
     \<and> (\<forall>s c. json_object_new_string J s = Some c \<longrightarrow>
          json_object_get_type J c = json_type_string \<and> json_object_get_string J c = Some s)
     \<and> (\<forall>v c. json_object_new_uint64 J v = Some c \<longrightarrow>
          json_object_get_type J c = json_type_int \<and> json_object_get_string J c = Some (decimal (unat v)))
     \<and> (\<forall>v c. json_object_new_boolean J v = Some c \<longrightarrow>
          json_object_get_type J c = json_type_boolean \<and> json_object_get_boolean J c = v)
     \<and> (\<forall>v c. json_object_new_int J v = Some c \<longrightarrow>
          json_object_get_type J c = json_type_int \<and> json_object_get_int J c = v)
     \<and> (\<forall>c. json_object_new_array J = Some c \<longrightarrow> json_object_get_type J c = json_type_array
          \<and> json_object_array_length J c = 0)
     \<and> (\<forall>a c. json_object_get_type J a = json_type_array \<longrightarrow>
          json_object_get_type J (json_object_array_add J a c) = json_type_array
          \<and> json_object_array_length J (json_object_array_add J a c) = Suc (json_object_array_length J a)
          \<and> (\<forall>i. json_object_array_get_idx J (json_object_array_add J a c) i =
               (if i = json_object_array_length J a then Some c else json_object_array_get_idx J a i)))
     \<and> (\<forall>j. json_object_get_type J j = json_type_object \<and> shallow (json_object_to_json_string J j) \<longrightarrow>
          json_tokener_parse J (json_object_to_json_string J j) = Some j)"

text \<open>
  The other libraries: the text of an identifier parses to it, the base64 text of a buffer decodes to
  the buffer, the text of an address parses to it. The registry has a list of the types of metadata,
  with distinct names and identifiers.
\<close>
definition env_ok :: "'j json_env \<Rightarrow> bool" where
  "env_ok E \<longleftrightarrow> jsonc_ok (e_js E) \<and> uuid_compare_ok (e_uuid_compare E)
     \<and> (\<forall>u. length u = 16 \<longrightarrow> e_uuid_parse E (e_uuid_unparse E u) = Some u)
     \<and> (\<forall>d. length d < 2 ^ 31 \<longrightarrow> e_BIO_write E d (int (length d)) = int (length d))
     \<and> (\<forall>d t. e_b64_text E d = Some t \<longrightarrow> e_BIO_read E t = Some d)
     \<and> (\<forall>a. length a = 4 \<longrightarrow> e_inet_pton4 E (e_inet_ntop4 E a) = Some a)
     \<and> (\<forall>a. length a = 16 \<longrightarrow> e_inet_pton6 E (e_inet_ntop6 E a) = Some a)
     \<and> (\<exists>l ns. UUID_Get_List (e_registry E) UUID_TYPE_NTLV_TYPE = Some l \<and> uuids (e_uuid_compare E) l ns
          \<and> distinct (map UUIDListNode.sName ns) \<and> distinct (map un_uuid ns))"

definition env_works :: "'j json_env \<Rightarrow> bool" where
  "env_works E \<longleftrightarrow> (\<forall>site. e_alloc E site) \<and> (\<forall>a. e_mem E a)
     \<and> json_object_new_object (e_js E) \<noteq> None \<and> json_object_new_array (e_js E) \<noteq> None
     \<and> (\<forall>s. json_object_new_string (e_js E) s \<noteq> None) \<and> (\<forall>v. json_object_new_uint64 (e_js E) v \<noteq> None)
     \<and> (\<forall>v. json_object_new_boolean (e_js E) v \<noteq> None) \<and> (\<forall>v. json_object_new_int (e_js E) v \<noteq> None)
     \<and> (\<forall>d. e_b64_text E d \<noteq> None)"

definition env_good :: "'j json_env \<Rightarrow> bool" where
  "env_good E \<longleftrightarrow> env_ok E \<and> env_works E"

abbreviation "jtype E \<equiv> json_object_get_type (e_js E)"
abbreviation "jget E \<equiv> json_object_object_get (e_js E)"
abbreviation "jadd E \<equiv> json_object_object_add (e_js E)"

lemma env_good_alloc [simp]: "env_good E \<Longrightarrow> e_alloc E site" "env_good E \<Longrightarrow> e_mem E a"
  by (simp_all add: env_good_def env_works_def)

lemma env_good_jsonc: "env_good E \<Longrightarrow> jsonc_ok (e_js E)"
  by (simp add: env_good_def env_ok_def)

lemma env_good_uuid: "env_good E \<Longrightarrow> length u = 16 \<Longrightarrow> e_uuid_parse E (e_uuid_unparse E u) = Some u"
  by (simp add: env_good_def env_ok_def)

lemma jadd_laws:
  assumes "env_good E" and "jtype E p = json_type_object"
  shows "jtype E (jadd E p n c) = json_type_object"
    and "jget E (jadd E p n c) m = (if m = n then Some c else jget E p m)"
    and "json_object_object_get_ex (e_js E) (jadd E p n c) m = (m = n \<or> json_object_object_get_ex (e_js E) p m)"
  using env_good_jsonc [OF assms(1)] assms(2) by (simp_all add: jsonc_ok_def)

lemma new_object:
  assumes "env_good E"
  obtains c where "json_object_new_object (e_js E) = Some c" and "jtype E c = json_type_object"
    and "\<forall>n. jget E c n = None \<and> \<not> json_object_object_get_ex (e_js E) c n"
proof -
  have "json_object_new_object (e_js E) \<noteq> None"
    using assms unfolding env_good_def env_works_def by blast
  then obtain c where c: "json_object_new_object (e_js E) = Some c" by blast
  then have "jtype E c = json_type_object" "\<forall>n. jget E c n = None \<and> \<not> json_object_object_get_ex (e_js E) c n"
    using env_good_jsonc [OF assms] by (simp_all add: jsonc_ok_def)
  with c show thesis by (rule that)
qed

lemma new_string:
  assumes "env_good E"
  obtains c where "json_object_new_string (e_js E) s = Some c" and "jtype E c = json_type_string"
    and "json_object_get_string (e_js E) c = Some s"
proof -
  have "json_object_new_string (e_js E) s \<noteq> None"
    using assms unfolding env_good_def env_works_def by blast
  then obtain c where c: "json_object_new_string (e_js E) s = Some c" by blast
  then have "jtype E c = json_type_string" "json_object_get_string (e_js E) c = Some s"
    using env_good_jsonc [OF assms] by (simp_all add: jsonc_ok_def)
  with c show thesis by (rule that)
qed

lemma new_uint64:
  assumes "env_good E"
  obtains c where "json_object_new_uint64 (e_js E) v = Some c" and "jtype E c = json_type_int"
    and "json_object_get_string (e_js E) c = Some (decimal (unat v))"
proof -
  have "json_object_new_uint64 (e_js E) v \<noteq> None"
    using assms unfolding env_good_def env_works_def by blast
  then obtain c where c: "json_object_new_uint64 (e_js E) v = Some c" by blast
  then have "jtype E c = json_type_int" "json_object_get_string (e_js E) c = Some (decimal (unat v))"
    using env_good_jsonc [OF assms] by (simp_all add: jsonc_ok_def)
  with c show thesis by (rule that)
qed

section \<open>Numbers as text\<close>

lemma ParseUnsignedText_decimal:
  assumes "m < 2 ^ 64"
  shows "JsonBuffer_ParseUnsignedText (Some (decimal n)) m = (if n \<le> m then Some n else None)"
proof -
  obtain d ds where d: "decimal n = dec_digit d # ds" "d < 10" by (rule decimal_first)
  show ?thesis
    using strtoumax_decimal [of n] assms d by (simp add: JsonBuffer_ParseUnsignedText_def)
qed

section \<open>Puts and gets\<close>

text \<open>Adding members in sequence.\<close>
definition adds :: "'j json_env \<Rightarrow> (string \<times> 'j) list \<Rightarrow> 'j \<Rightarrow> 'j" where
  "adds E ms p = fold (\<lambda>(n, c) p. jadd E p n c) ms p"

lemma adds_simps [simp]: "adds E [] p = p" "adds E ((n, c) # ms) p = adds E ms (jadd E p n c)"
  by (simp_all add: adds_def)

lemma adds_append: "adds E (xs @ ys) p = adds E ys (adds E xs p)"
  by (simp add: adds_def)

lemma adds_laws:
  assumes "env_good E" and "jtype E p = json_type_object"
  shows "jtype E (adds E ms p) = json_type_object"
    and "jget E (adds E ms p) m = (case map_of (rev ms) m of None \<Rightarrow> jget E p m | Some c \<Rightarrow> Some c)"
    and "json_object_object_get_ex (e_js E) (adds E ms p) m =
      (m \<in> fst ` set ms \<or> json_object_object_get_ex (e_js E) p m)"
  using assms(2)
proof (induction ms arbitrary: p)
  case (Cons x ms)
  obtain n c where x: "x = (n, c)" by (cases x)
  note laws = jadd_laws [OF assms(1)]
  case 1 show ?case using Cons 1 x by (simp add: laws)
  case 2 show ?case using Cons 2 x by (auto simp: laws map_add_def split: option.split)
  case 3 show ?case using Cons 3 x by (auto simp: laws)
qed auto

text \<open>A put operation that succeeds on every object and adds the given members.\<close>
definition puts :: "'j json_env \<Rightarrow> 'j put \<Rightarrow> (string \<times> 'j) list \<Rightarrow> bool" where
  "puts E f ms \<longleftrightarrow> (\<forall>p. f (Some p) = Some (True, Some (adds E ms p)))"

lemma putsD: "puts E f ms \<Longrightarrow> f (Some p) = Some (True, Some (adds E ms p))"
  by (simp add: puts_def)

lemma puts_value: "puts E (put_value E (Some n) (Some c)) [(n, c)]"
  by (simp add: puts_def put_value_def)

lemma puts_Nil: "puts E (put_steps []) []"
  by (simp add: puts_def)

lemma puts_Cons: "puts E f xs \<Longrightarrow> puts E (put_steps fs) ys \<Longrightarrow> puts E (put_steps (f # fs)) (xs @ ys)"
  by (simp add: puts_def adds_append)

lemma steps_one: "put_steps [f] = f"
proof
  fix c
  show "put_steps [f] c = f c" by (cases "f c") (auto split: prod.split)
qed

lemma puts_if: "(b \<Longrightarrow> puts E f xs) \<Longrightarrow> puts E (put_if b f) (if b then xs else [])"
  by (simp add: puts_def put_if_def)

lemma puts_container:
  assumes "body (Some c) = Some (True, Some d)"
  shows "puts E (put_container E (Some n) (Some c) body) [(n, d)]"
  using assms by (simp add: puts_def put_container_def)

lemma puts_object: "puts E body ms \<Longrightarrow> puts E (put_container E (Some n) (Some c) body) [(n, adds E ms c)]"
  by (intro puts_container) (simp add: puts_def)

lemma puts_string:
  assumes "env_good E"
  obtains c where "puts E (JsonBuffer_Put_String E (Some n) (Some s)) [(n, c)]"
    and "jtype E c = json_type_string" and "json_object_get_string (e_js E) c = Some s"
proof -
  obtain c where c: "json_object_new_string (e_js E) s = Some c" "jtype E c = json_type_string"
    "json_object_get_string (e_js E) c = Some s" using new_string [OF assms] .
  then have "puts E (JsonBuffer_Put_String E (Some n) (Some s)) [(n, c)]"
    by (simp add: puts_def JsonBuffer_Put_String_def put_value_def)
  then show thesis using c(2,3) by (rule that)
qed

lemma puts_uint64:
  assumes "env_good E"
  obtains c where "puts E (JsonBuffer_Put_uint64_t E (Some n) v) [(n, c)]"
    and "jtype E c = json_type_int" and "json_object_get_string (e_js E) c = Some (decimal (unat v))"
proof -
  obtain c where c: "json_object_new_uint64 (e_js E) v = Some c" "jtype E c = json_type_int"
    "json_object_get_string (e_js E) c = Some (decimal (unat v))" using new_uint64 [OF assms] .
  then have "puts E (JsonBuffer_Put_uint64_t E (Some n) v) [(n, c)]"
    by (simp add: JsonBuffer_Put_uint64_t_def puts_value)
  then show thesis using c(2,3) by (rule that)
qed

text \<open>A value from which a get operation reads \<open>r\<close>, under whatever name it is a member.\<close>
definition reads :: "'j json_env \<Rightarrow> ('j option \<Rightarrow> string option \<Rightarrow> 'r) \<Rightarrow> 'j \<Rightarrow> 'r \<Rightarrow> bool" where
  "reads E g c r \<longleftrightarrow> (\<forall>q n. jget E q n = Some c \<longrightarrow> g (Some q) (Some n) = r)"

lemma readsD: "reads E g c r \<Longrightarrow> jget E q n = Some c \<Longrightarrow> g (Some q) (Some n) = r"
  by (simp add: reads_def)

lemma get_member_Some [simp]: "get_member E (Some q) (Some n) = jget E q n"
  by (simp add: get_member_def)

text \<open>The object a container makes from its members, and what is read from it.\<close>
lemma object_members:
  assumes "env_good E"
  obtains c where "json_object_new_object (e_js E) = Some c"
    and "\<forall>ms. jtype E (adds E ms c) = json_type_object"
    and "\<forall>ms m. jget E (adds E ms c) m = map_of (rev ms) m"
    and "\<forall>ms m. json_object_object_get_ex (e_js E) (adds E ms c) m \<longleftrightarrow> m \<in> fst ` set ms"
proof -
  obtain c where c: "json_object_new_object (e_js E) = Some c" "jtype E c = json_type_object"
    "\<forall>n. jget E c n = None \<and> \<not> json_object_object_get_ex (e_js E) c n" using new_object [OF assms] .
  show thesis
    by (rule that [OF c(1)]) (simp_all add: adds_laws [OF assms c(2)] c(3) split: option.split)
qed

text \<open>
  A put operation that adds at most the member \<open>n\<close>, such that \<open>P\<close> holds of every object with the member
  as it then is.
\<close>
definition field :: "'j json_env \<Rightarrow> 'j put \<Rightarrow> string \<Rightarrow> ('j \<Rightarrow> bool) \<Rightarrow> bool" where
  "field E f n P \<longleftrightarrow>
     (\<exists>m. puts E f (case m of None \<Rightarrow> [] | Some c \<Rightarrow> [(n, c)]) \<and> (\<forall>q. jget E q n = m \<longrightarrow> P q))"

lemma field_if:
  assumes "b \<Longrightarrow> field E f n P" and "\<And>q. \<not> b \<Longrightarrow> jget E q n = None \<Longrightarrow> P q"
  shows "field E (put_if b f) n P"
proof (cases b)
  case True
  then show ?thesis using assms(1) by (simp add: put_if_def)
next
  case False
  then show ?thesis using assms(2) by (auto simp: field_def put_if_def puts_def intro!: exI [of _ None])
qed

lemma field_mono: "field E f n P \<Longrightarrow> (\<And>q. P q \<Longrightarrow> Q q) \<Longrightarrow> field E f n Q"
  unfolding field_def by blast

text \<open>A put operation that adds at most the members \<open>ns\<close>, such that \<open>P\<close> holds of every object with them.\<close>
definition fields :: "'j json_env \<Rightarrow> 'j put \<Rightarrow> string list \<Rightarrow> ('j \<Rightarrow> bool) \<Rightarrow> bool" where
  "fields E f ns P \<longleftrightarrow> (distinct ns \<longrightarrow>
     (\<exists>ms. puts E f ms \<and> fst ` set ms \<subseteq> set ns
        \<and> (\<forall>q. (\<forall>n \<in> set ns. jget E q n = map_of (rev ms) n) \<longrightarrow> P q)))"

lemma fields_Nil: "fields E (put_steps []) [] (\<lambda>q. True)"
  using puts_Nil unfolding fields_def by fastforce

lemma fields_Cons:
  assumes "field E f n P" and "fields E (put_steps fs) ns Q"
  shows "fields E (put_steps (f # fs)) (n # ns) (\<lambda>q. P q \<and> Q q)"
  unfolding fields_def
proof
  assume d: "distinct (n # ns)"
  obtain m where m: "puts E f (case m of None \<Rightarrow> [] | Some c \<Rightarrow> [(n, c)])" "\<forall>q. jget E q n = m \<longrightarrow> P q"
    using assms(1) by (auto simp: field_def)
  obtain ms where ms: "puts E (put_steps fs) ms" "fst ` set ms \<subseteq> set ns"
    "\<forall>q. (\<forall>n \<in> set ns. jget E q n = map_of (rev ms) n) \<longrightarrow> Q q"
    using assms(2) d by (auto simp: fields_def)
  let ?mm = "case m of None \<Rightarrow> [] | Some c \<Rightarrow> [(n, c)]"
  have "n \<notin> fst ` set ms" using ms(2) d by auto
  then have "map_of (rev ms) n = None" by (simp add: map_of_eq_None_iff)
  then have v: "map_of (rev (?mm @ ms)) k = (if k = n then m else map_of (rev ms) k)" for k
    by (auto simp: map_add_def split: option.split)
  have "P q \<and> Q q" if q: "\<forall>k \<in> set (n # ns). jget E q k = map_of (rev (?mm @ ms)) k" for q
  proof
    show "P q" using q m(2) unfolding v by simp
    have "\<forall>k \<in> set ns. jget E q k = map_of (rev ms) k" using q d unfolding v by auto
    then show "Q q" using ms(3) by blast
  qed
  moreover have "puts E (put_steps (f # fs)) (?mm @ ms)" using puts_Cons [OF m(1) ms(1)] .
  moreover have "fst ` set (?mm @ ms) \<subseteq> set (n # ns)" using ms(2) by (auto split: option.splits)
  ultimately show "\<exists>ms. puts E (put_steps (f # fs)) ms \<and> fst ` set ms \<subseteq> set (n # ns)
      \<and> (\<forall>q. (\<forall>k \<in> set (n # ns). jget E q k = map_of (rev ms) k) \<longrightarrow> P q \<and> Q q)" by blast
qed

text \<open>The new object that a put operation fills, and the member of a container with that body.\<close>
lemma fields_body:
  assumes "fields E f ns P" and E: "env_good E" and "distinct ns"
  shows "\<exists>c ob. json_object_new_object (e_js E) = Some c \<and> f (Some c) = Some (True, Some ob)
    \<and> jtype E ob = json_type_object \<and> P ob"
proof -
  obtain ms where ms: "puts E f ms" "\<forall>q. (\<forall>n \<in> set ns. jget E q n = map_of (rev ms) n) \<longrightarrow> P q"
    using assms(1,3) unfolding fields_def by blast
  obtain c where c: "json_object_new_object (e_js E) = Some c"
    "\<forall>ms. jtype E (adds E ms c) = json_type_object" "\<forall>ms m. jget E (adds E ms c) m = map_of (rev ms) m"
    "\<forall>ms m. json_object_object_get_ex (e_js E) (adds E ms c) m \<longleftrightarrow> m \<in> fst ` set ms"
    using object_members [OF E] .
  show ?thesis
    using putsD [OF ms(1), of c] c(1,2,3) ms(2) by simp
qed

lemma fields_object:
  assumes "fields E f ns P" and "env_good E" and "distinct ns"
  shows "\<exists>ob. (\<forall>nm. puts E (put_container E (Some nm) (json_object_new_object (e_js E)) f) [(nm, ob)])
    \<and> jtype E ob = json_type_object \<and> P ob"
  using fields_body [OF assms] puts_container [of f _ _ E] by metis

section \<open>The contract of a pair of operations\<close>

text \<open>
  A value that is fit for the surroundings is put as one member, and the get operation reads from that
  member a result that agrees with the value.
\<close>
locale json_codec =
  fixes put :: "'j json_env \<Rightarrow> string option \<Rightarrow> 'a \<Rightarrow> 'j put"
    and get :: "'j json_env \<Rightarrow> 'j option \<Rightarrow> string option \<Rightarrow> 'r"
    and fit :: "'j json_env \<Rightarrow> 'a \<Rightarrow> bool"
    and agree :: "'j json_env \<Rightarrow> 'a \<Rightarrow> 'r \<Rightarrow> bool"
  assumes codec: "env_good E \<Longrightarrow> fit E v \<Longrightarrow> \<exists>c r. puts E (put E (Some n) v) [(n, c)] \<and> reads E (get E) c r \<and> agree E v r"
begin

lemma member:
  assumes "env_good E" and "fit E v"
  obtains c r where "puts E (put E (Some n) v) [(n, c)]" and "reads E (get E) c r" and "agree E v r"
  using codec [OF assms] by blast

text \<open>The pair as one member of an object.\<close>
lemma member_field:
  assumes "env_good E" and "fit E v"
  shows "field E (put E (Some n) v) n (\<lambda>q. agree E v (get E (Some q) (Some n)))"
  using codec [OF assms, of n] by (auto simp: field_def reads_def intro: exI [of _ "Some c" for c])

text \<open>Reading after writing returns what was written, and no other member changes.\<close>
lemma put_get:
  assumes "env_good E" and "fit E v" and "jtype E p = json_type_object"
  shows "\<exists>p' r. put E (Some n) v (Some p) = Some (True, Some p') \<and> get E (Some p') (Some n) = r \<and> agree E v r
    \<and> jtype E p' = json_type_object \<and> (\<forall>m. m \<noteq> n \<longrightarrow> jget E p' m = jget E p m)"
proof -
  obtain c r where c: "puts E (put E (Some n) v) [(n, c)]" "reads E (get E) c r" "agree E v r"
    using member [OF assms(1,2)] .
  note laws = adds_laws [OF assms(1,3), of "[(n, c)]"]
  have "jget E (adds E [(n, c)] p) n = Some c" using laws(2) [of n] by simp
  then have "get E (Some (adds E [(n, c)] p)) (Some n) = r" by (rule readsD [OF c(2)])
  then show ?thesis using putsD [OF c(1), of p] c(3) laws(1) laws(2) by (intro exI conjI) auto
qed

end

text \<open>Agreement of an operation that returns the value itself.\<close>
definition agree_eq :: "'j json_env \<Rightarrow> 'a \<Rightarrow> 'a option \<Rightarrow> bool" where
  "agree_eq E v r \<longleftrightarrow> r = Some v"

definition fit_any :: "'j json_env \<Rightarrow> 'a \<Rightarrow> bool" where
  "fit_any E v \<longleftrightarrow> True"

lemma fit_anyI: "fit_any E v"
  by (simp add: fit_any_def)

lemma codec_eqI:
  assumes "\<And>E v n. env_good E \<Longrightarrow> fit E v \<Longrightarrow> \<exists>c. puts E (put E (Some n) v) [(n, c)] \<and> reads E (get E) c (Some v)"
  shows "json_codec put get fit agree_eq"
  using assms by unfold_locales (simp add: agree_eq_def)

lemma read_uint64:
  assumes "jtype E c = json_type_int" and "json_object_get_string (e_js E) c = Some (decimal n)" and "n < 2 ^ 64"
  shows "reads E (JsonBuffer_Get_uint64_t E) c (Some (of_nat n))"
  using assms ParseUnsignedText_decimal [of "2 ^ 64 - 1" n]
  by (simp add: reads_def JsonBuffer_Get_uint64_t_def)

interpretation json_uint64: json_codec JsonBuffer_Put_uint64_t JsonBuffer_Get_uint64_t fit_any agree_eq
proof (rule codec_eqI)
  fix E :: "'j json_env" and v :: u64 and n
  assume E: "env_good E"
  obtain c where c: "puts E (JsonBuffer_Put_uint64_t E (Some n) v) [(n, c)]" "jtype E c = json_type_int"
    "json_object_get_string (e_js E) c = Some (decimal (unat v))" using puts_uint64 [OF E] .
  then show "\<exists>c. puts E (JsonBuffer_Put_uint64_t E (Some n) v) [(n, c)] \<and> reads E (JsonBuffer_Get_uint64_t E) c (Some v)"
    using read_uint64 [OF c(2,3) unat_less_64] by auto
qed

lemma read_uint32:
  assumes "jtype E c = json_type_int" and "json_object_get_string (e_js E) c = Some (decimal (unat v))"
  shows "reads E (JsonBuffer_Get_uint32_t E) c (Some (v :: u32))"
proof -
  have v: "unat v < 2 ^ 32" by (rule unat_less_32)
  have "of_nat (unat v) = (ucast v :: u64)" by (simp add: unat_ucast_up word_unat_eq_iff)
  then have "reads E (JsonBuffer_Get_uint64_t E) c (Some (ucast v))"
    using read_uint64 [OF assms] v by simp
  moreover have "ucast (ucast v :: u64) = v" by (rule bit_word_eqI) (simp add: bit_simps)
  ultimately show ?thesis using v by (simp add: reads_def JsonBuffer_Get_uint32_t_def)
qed

interpretation json_uint32: json_codec JsonBuffer_Put_uint32_t JsonBuffer_Get_uint32_t fit_any agree_eq
proof (rule codec_eqI)
  fix E :: "'j json_env" and v :: u32 and n
  assume E: "env_good E"
  obtain c where c: "puts E (JsonBuffer_Put_uint64_t E (Some n) (ucast v)) [(n, c)]" "jtype E c = json_type_int"
    "json_object_get_string (e_js E) c = Some (decimal (unat (ucast v :: u64)))" using puts_uint64 [OF E] .
  then show "\<exists>c. puts E (JsonBuffer_Put_uint32_t E (Some n) v) [(n, c)] \<and> reads E (JsonBuffer_Get_uint32_t E) c (Some v)"
    using read_uint32 [of E c v] by (auto simp: JsonBuffer_Put_uint32_t_def)
qed

interpretation json_uint16: json_codec JsonBuffer_Put_uint16_t JsonBuffer_Get_uint16_t fit_any agree_eq
proof (rule codec_eqI)
  fix E :: "'j json_env" and v :: "16 word" and n
  assume E: "env_good E"
  obtain c where c: "puts E (JsonBuffer_Put_uint64_t E (Some n) (ucast v)) [(n, c)]" "jtype E c = json_type_int"
    "json_object_get_string (e_js E) c = Some (decimal (unat (ucast v :: u64)))" using puts_uint64 [OF E] .
  moreover have "unat v \<le> 2 ^ 16 - 1" using unat_less_16 [of v] by simp
  ultimately show "\<exists>c. puts E (JsonBuffer_Put_uint16_t E (Some n) v) [(n, c)] \<and> reads E (JsonBuffer_Get_uint16_t E) c (Some v)"
    using ParseUnsignedText_decimal [of "2 ^ 16 - 1" "unat v"]
    by (auto simp: JsonBuffer_Put_uint16_t_def reads_def JsonBuffer_Get_uint16_t_def get_typed_def)
qed

interpretation json_uint8: json_codec JsonBuffer_Put_uint8_t JsonBuffer_Get_uint8_t fit_any agree_eq
proof (rule codec_eqI)
  fix E :: "'j json_env" and v :: byte and n
  assume E: "env_good E"
  obtain c where c: "puts E (JsonBuffer_Put_uint64_t E (Some n) (ucast v)) [(n, c)]" "jtype E c = json_type_int"
    "json_object_get_string (e_js E) c = Some (decimal (unat (ucast v :: u64)))" using puts_uint64 [OF E] .
  moreover have "unat v \<le> 2 ^ 8 - 1" using unat_less_8 [of v] by simp
  ultimately show "\<exists>c. puts E (JsonBuffer_Put_uint8_t E (Some n) v) [(n, c)] \<and> reads E (JsonBuffer_Get_uint8_t E) c (Some v)"
    using ParseUnsignedText_decimal [of "2 ^ 8 - 1" "unat v"]
    by (auto simp: JsonBuffer_Put_uint8_t_def reads_def JsonBuffer_Get_uint8_t_def get_typed_def)
qed

text \<open>A string that is not null, and one that may be.\<close>
definition put_text :: "'j json_env \<Rightarrow> string option \<Rightarrow> string \<Rightarrow> 'j put" where
  "put_text E nm s = JsonBuffer_Put_String E nm (Some s)"

interpretation json_string: json_codec put_text JsonBuffer_Get_String fit_any agree_eq
proof (rule codec_eqI)
  fix E :: "'j json_env" and v n
  assume E: "env_good E"
  obtain c where "puts E (JsonBuffer_Put_String E (Some n) (Some v)) [(n, c)]" "jtype E c = json_type_string"
    "json_object_get_string (e_js E) c = Some v" using puts_string [OF E] .
  then show "\<exists>c. puts E (put_text E (Some n) v) [(n, c)] \<and> reads E (JsonBuffer_Get_String E) c (Some v)"
    using E by (auto simp: put_text_def reads_def JsonBuffer_Get_String_def get_typed_def)
qed

definition fit_uuid :: "'j json_env \<Rightarrow> uuid \<Rightarrow> bool" where
  "fit_uuid E u \<longleftrightarrow> length u = 16"

lemma jget_one:
  assumes "env_good E" and "jtype E c = json_type_object"
  shows "jget E (adds E [(n, d)] c) n = Some d" and "jtype E (adds E [(n, d)] c) = json_type_object"
  using adds_laws [OF assms, of "[(n, d)]"] by simp_all

interpretation json_uuid: json_codec JsonBuffer_Put_UUID JsonBuffer_Get_UUID fit_uuid agree_eq
proof (rule codec_eqI)
  fix E :: "'j json_env" and v n
  assume E: "env_good E" and v: "fit_uuid E v"
  obtain c where c: "json_object_new_object (e_js E) = Some c" "jtype E c = json_type_object"
    using new_object [OF E] by blast
  obtain d r where d: "puts E (put_text E (Some ''id'') (e_uuid_unparse E v)) [(''id'', d)]"
      "reads E (JsonBuffer_Get_String E) d r" "agree_eq E (e_uuid_unparse E v) r"
    using json_string.member [OF E fit_anyI] .
  let ?o = "adds E [(''id'', d)] c"
  have "puts E (JsonBuffer_Put_UUID E (Some n) v) [(n, ?o)]"
    using puts_object [OF d(1) [unfolded put_text_def]] c(1) by (simp add: JsonBuffer_Put_UUID_def)
  moreover have "JsonBuffer_Get_String E (Some ?o) (Some ''id'') = Some (e_uuid_unparse E v)"
    using readsD [OF d(2) jget_one(1) [OF E c(2)]] d(3) by (simp add: agree_eq_def)
  then have "reads E (JsonBuffer_Get_UUID E) ?o (Some v)"
    using jget_one(2) [OF E c(2)] env_good_uuid [OF E, of v] v
    by (simp add: reads_def JsonBuffer_Get_UUID_def get_typed_def fit_uuid_def del: adds_simps)
  ultimately show "\<exists>c. puts E (JsonBuffer_Put_UUID E (Some n) v) [(n, c)] \<and> reads E (JsonBuffer_Get_UUID E) c (Some v)"
    by blast
qed

section \<open>Hashes and identifiers\<close>

text \<open>The two hashes have the same type and digest, so that \<open>Hash_IsEqual\<close> holds of them.\<close>
definition hash_same :: "('ctx, 'md) Hash \<Rightarrow> ('ctx, 'md) Hash \<Rightarrow> bool" where
  "hash_same h g \<longleftrightarrow> Hash.iType g = Hash.iType h \<and> hash_digest g = hash_digest h \<and> hash_proper g"

definition block_id_same :: "('ctx, 'md) BlockId \<Rightarrow> ('ctx, 'md) BlockId \<Rightarrow> bool" where
  "block_id_same a b \<longleftrightarrow> uuidDataType b = uuidDataType a \<and> BlockId.iLength b = BlockId.iLength a
     \<and> rel_option hash_same (pHash a) (pHash b)"

definition agree_hash where "agree_hash E h r \<longleftrightarrow> (\<exists>g. r = Some g \<and> hash_same h g)"
definition agree_block_id where "agree_block_id E b r \<longleftrightarrow> (\<exists>c. r = Some c \<and> block_id_same b c)"
definition fit_hash where "fit_hash E h \<longleftrightarrow> hash_proper h"
definition fit_block_id where
  "fit_block_id E b \<longleftrightarrow> length (uuidDataType b) = 16 \<and> (\<exists>h. pHash b = Some h \<and> hash_proper h)"
definition fit_event_id where "fit_event_id E i \<longleftrightarrow> length (EventId.uuidNuggetId i) = 16"

definition put_hash where
  "put_hash E nm h = JsonBuffer_Put_Hash E nm (Some h)"
definition put_block_id where
  "put_block_id E nm b = JsonBuffer_Put_BlockId E nm (Some b)"
definition put_event_id where
  "put_event_id E nm i = JsonBuffer_Put_EventId E nm (Some i)"

lemma hash_name:
  assumes "hash_proper h"
  obtains nm where "Hash_Get_OpenSSL_Name (Hash.iType h) = Some nm"
proof -
  have "Hash_Get_ExpectedDigestLength (Hash.iType h) \<noteq> 0" using assms by (auto simp: hash_proper_def)
  then have "Hash_Get_OpenSSL_Name (Hash.iType h) \<noteq> None"
    by (auto simp: Hash_Get_ExpectedDigestLength_def Hash_Get_OpenSSL_Name_def split: if_splits)
  then show thesis using that by blast
qed

interpretation json_hash: json_codec put_hash JsonBuffer_Get_Hash fit_hash agree_hash
proof
  fix E :: "'j json_env" and h :: "('ctx, 'md) Hash" and n
  assume E: "env_good E" and "fit_hash E h"
  then have h: "hash_proper h" "hash_wf h" "is_final h" unfolding fit_hash_def hash_proper_def by blast+
  obtain nm where nm: "Hash_Get_OpenSSL_Name (Hash.iType h) = Some nm" using hash_name [OF h(1)] .
  obtain g :: "('ctx, 'md) Hash" where
    g: "Hash_Create_From_String True True (Hash.iType h) (Some (hex_text (hash_digest h))) = Some g"
      "hash_digest g = hash_digest h" "Hash.iType g = Hash.iType h" "hash_proper g"
    using parse_text_proper [OF h(1)] .
  obtain c where c: "json_object_new_object (e_js E) = Some c"
    "\<forall>ms. jtype E (adds E ms c) = json_type_object" "\<forall>ms m. jget E (adds E ms c) m = map_of (rev ms) m"
    "\<forall>ms m. json_object_object_get_ex (e_js E) (adds E ms c) m \<longleftrightarrow> m \<in> fst ` set ms"
    using object_members [OF E] .
  obtain t where t: "puts E (JsonBuffer_Put_String E (Some ''Type'') (Some nm)) [(''Type'', t)]"
    "jtype E t = json_type_string" "json_object_get_string (e_js E) t = Some nm" using puts_string [OF E] .
  obtain v where v: "puts E (JsonBuffer_Put_String E (Some ''Value'') (Some (hex_text (hash_digest h)))) [(''Value'', v)]"
    "jtype E v = json_type_string" "json_object_get_string (e_js E) v = Some (hex_text (hash_digest h))"
    using puts_string [OF E] .
  let ?ms = "[(''Type'', t), (''Value'', v)]"
  have "puts E (put_hash E (Some n) h) [(n, adds E ?ms c)]"
    unfolding put_hash_def JsonBuffer_Put_Hash_def c(1)
    using putsD [OF t(1)] putsD [OF v(1)] E nm Hash_ToText_wf [OF h(2,3)] by (intro puts_object) (simp add: puts_def)
  moreover have "reads E (JsonBuffer_Get_Hash E) (adds E ?ms c) (Some g)"
    unfolding reads_def JsonBuffer_Get_Hash_def get_typed_def
    using c(2) [rule_format, of ?ms] c(3) [rule_format, of ?ms] t(2,3) v(2,3) g(1) E nm
    by (auto simp: Hash_Get_OpenSSL_Name_def strcmp_eq_0 simp del: adds_simps split: if_splits)
  ultimately show "\<exists>c r. puts E (put_hash E (Some n) h) [(n, c)] \<and> reads E (JsonBuffer_Get_Hash E) c r \<and> agree_hash E h r"
    using g unfolding agree_hash_def hash_same_def by blast
qed

interpretation json_block_id: json_codec put_block_id JsonBuffer_Get_BlockId fit_block_id agree_block_id
proof
  fix E :: "'j json_env" and b :: "('ctx, 'md) BlockId" and n
  assume E: "env_good E" and "fit_block_id E b"
  then obtain h where u: "fit_uuid E (uuidDataType b)" and h: "pHash b = Some h" "fit_hash E h"
    by (auto simp: fit_block_id_def fit_uuid_def fit_hash_def)
  note F = fields_Cons [OF json_hash.member_field [OF E h(2), of "''Hash''"]
      fields_Cons [OF json_uint64.member_field [OF E fit_anyI, of "''Size''" "BlockId.iLength b"]
      fields_Cons [OF json_uuid.member_field [OF E u, of "''Data_Type''"] fields_Nil]]]
  obtain ob where ob: "\<forall>nm. puts E (put_block_id E (Some nm) b) [(nm, ob)]" "jtype E ob = json_type_object"
    "agree_hash E h (JsonBuffer_Get_Hash E (Some ob) (Some ''Hash'') :: ('ctx, 'md) Hash option)"
    "JsonBuffer_Get_uint64_t E (Some ob) (Some ''Size'') = Some (BlockId.iLength b)"
    "JsonBuffer_Get_UUID E (Some ob) (Some ''Data_Type'') = Some (uuidDataType b)"
    using fields_object [OF F E] h(1)
    by (auto simp: agree_eq_def put_block_id_def JsonBuffer_Put_BlockId_def put_hash_def simp del: put_steps.simps)
  then obtain g where g: "JsonBuffer_Get_Hash E (Some ob) (Some ''Hash'') = Some g" "hash_same h g"
    by (auto simp: agree_hash_def)
  have "reads E (JsonBuffer_Get_BlockId E) ob
      (Some \<lparr>pHash = Some g, uuidDataType = uuidDataType b, BlockId.iLength = BlockId.iLength b\<rparr>)"
    using E ob(2,4,5) g(1) by (simp add: reads_def JsonBuffer_Get_BlockId_def get_typed_def)
  then show "\<exists>c r. puts E (put_block_id E (Some n) b) [(n, c)] \<and> reads E (JsonBuffer_Get_BlockId E) c r
      \<and> agree_block_id E b r"
    using ob(1) g(2) h(1) by (fastforce simp: agree_block_id_def block_id_same_def)
qed

interpretation json_event_id: json_codec put_event_id JsonBuffer_Get_EventId fit_event_id agree_eq
proof (rule codec_eqI)
  fix E :: "'j json_env" and i :: EventId and n
  assume E: "env_good E" and "fit_event_id E i"
  then have u: "fit_uuid E (EventId.uuidNuggetId i)" by (simp add: fit_event_id_def fit_uuid_def)
  obtain ng where ng: "\<forall>nm. puts E (put_container E (Some nm) (json_object_new_object (e_js E))
        (put_steps [JsonBuffer_Put_UUID E (Some ''Id'') (EventId.uuidNuggetId i)])) [(nm, ng)]"
      "jtype E ng = json_type_object" "JsonBuffer_Get_UUID E (Some ng) (Some ''Id'') = Some (EventId.uuidNuggetId i)"
    using fields_object [OF fields_Cons [OF json_uuid.member_field [OF E u, of "''Id''"] fields_Nil] E]
    by (auto simp: agree_eq_def simp del: put_steps.simps)
  let ?ng = "put_container E (Some ''Nugget'') (json_object_new_object (e_js E))
        (put_steps [JsonBuffer_Put_UUID E (Some ''Id'') (EventId.uuidNuggetId i)])"
  have nf: "field E ?ng ''Nugget'' (\<lambda>q. jget E q ''Nugget'' = Some ng)"
    using ng(1) by (auto simp: field_def intro!: exI [of _ "Some ng"])
  note F = fields_Cons [OF nf
      fields_Cons [OF json_uint64.member_field [OF E fit_anyI, of "''Seconds''" "EventId.iSeconds i"]
      fields_Cons [OF json_uint64.member_field [OF E fit_anyI, of "''Nano_Seconds''" "EventId.iNanoSecs i"] fields_Nil]]]
  obtain ob where ob: "\<forall>nm. puts E (put_event_id E (Some nm) i) [(nm, ob)]" "jtype E ob = json_type_object"
      "jget E ob ''Nugget'' = Some ng"
      "JsonBuffer_Get_uint64_t E (Some ob) (Some ''Seconds'') = Some (EventId.iSeconds i)"
      "JsonBuffer_Get_uint64_t E (Some ob) (Some ''Nano_Seconds'') = Some (EventId.iNanoSecs i)"
    using fields_object [OF F E]
    by (auto simp: agree_eq_def put_event_id_def JsonBuffer_Put_EventId_def steps_one simp del: put_steps.simps)
  then show "\<exists>c. puts E (put_event_id E (Some n) i) [(n, c)] \<and> reads E (JsonBuffer_Get_EventId E) c (Some i)"
    using E ng(2,3) by (intro exI [of _ ob]) (simp add: reads_def JsonBuffer_Get_EventId_def get_typed_def)
qed

end
