(* ===== verification/Json_Codec_Lists.thy ===== *)
theory Json_Codec_Lists
  imports Json_Codec
begin

text \<open>
  The contracts of the list operations of \<open>src/json_buffer.c\<close>: metadata with its value
  representations, identifiers, strings and bytes.
\<close>

section \<open>Kinds of metadata\<close>

definition kind :: "'j json_env \<Rightarrow> string \<Rightarrow> uuid \<Rightarrow> bool" where
  "kind E nm ty \<longleftrightarrow> JsonBuffer_NamedNTLVTypeMatches E nm ty = Some True"

lemma env_good_registry:
  assumes "env_good E"
  obtains l ns where "UUID_Get_List (e_registry E) UUID_TYPE_NTLV_TYPE = Some l"
    and "uuids (e_uuid_compare E) l ns" and "distinct (map UUIDListNode.sName ns)" and "distinct (map un_uuid ns)"
  using assms unfolding env_good_def env_ok_def by blast

lemma env_good_compare: "env_good E \<Longrightarrow> uuid_compare_ok (e_uuid_compare E)"
  by (simp add: env_good_def env_ok_def)

lemma matches_find:
  assumes "env_good E"
  obtains ns :: "UUIDListNode list" where "distinct (map un_uuid ns)"
    and "\<forall>nm ty. JsonBuffer_NamedNTLVTypeMatches E nm ty =
      Some (case find (\<lambda>n. UUIDListNode.sName n = nm) ns of None \<Rightarrow> False | Some n \<Rightarrow> un_uuid n = ty)"
proof -
  obtain l ns where l: "UUID_Get_List (e_registry E) UUID_TYPE_NTLV_TYPE = Some l"
    "uuids (e_uuid_compare E) l ns" "distinct (map UUIDListNode.sName ns)" "distinct (map un_uuid ns)"
    using env_good_registry [OF assms] .
  note lk = UUID_getNodeByName_uuids [OF l(2,1)]
  have "JsonBuffer_NamedNTLVTypeMatches E nm ty =
      Some (case find (\<lambda>n. UUIDListNode.sName n = nm) ns of None \<Rightarrow> False | Some n \<Rightarrow> un_uuid n = ty)" for nm ty
    using l(1) env_good_compare [OF assms]
    by (simp add: JsonBuffer_NamedNTLVTypeMatches_def UUID_Is_Named_UUID_def UUID_Get_UUID_def lk split: option.split)
  then show thesis by (intro that [OF l(4)] allI)
qed

lemma matches_kind:
  assumes "env_good E"
  shows "JsonBuffer_NamedNTLVTypeMatches E nm ty = Some (kind E nm ty)"
proof -
  obtain b where "JsonBuffer_NamedNTLVTypeMatches E nm ty = Some b" by (rule matches_find [OF assms]) blast
  then show ?thesis by (simp add: kind_def)
qed

lemma find_name:
  "find (\<lambda>n. UUIDListNode.sName n = nm) ns = Some x \<Longrightarrow> x \<in> set ns \<and> UUIDListNode.sName x = nm"
  by (rule find_conj_first)

lemma kind_unique:
  assumes "env_good E" and "kind E a ty" and "kind E b ty"
  shows "a = b"
proof -
  obtain ns :: "UUIDListNode list" where ns: "distinct (map un_uuid ns)"
    "\<forall>nm ty. JsonBuffer_NamedNTLVTypeMatches E nm ty =
      Some (case find (\<lambda>n. UUIDListNode.sName n = nm) ns of None \<Rightarrow> False | Some n \<Rightarrow> un_uuid n = ty)"
    using matches_find [OF assms(1)] .
  obtain x where x: "find (\<lambda>n. UUIDListNode.sName n = a) ns = Some x" "un_uuid x = ty"
    using assms(2) ns(2) by (auto simp: kind_def split: option.splits)
  obtain y where y: "find (\<lambda>n. UUIDListNode.sName n = b) ns = Some y" "un_uuid y = ty"
    using assms(3) ns(2) by (auto simp: kind_def split: option.splits)
  have "x = y"
    using ns(1) find_name [OF x(1)] find_name [OF y(1)] x(2) y(2) by (auto simp: distinct_map inj_on_def)
  then show ?thesis using find_name [OF x(1)] find_name [OF y(1)] by simp
qed

section \<open>Bytes and text\<close>

lemma unat_of_char [simp]: "unat (of_char c :: byte) = of_char c"
proof -
  have "(of_char c :: nat) < 256" by simp
  moreover have "(of_char c :: byte) = of_nat (of_char c)" by (rule of_nat_of_char [symmetric])
  ultimately show ?thesis by (simp only: unsigned_of_nat) (simp add: take_bit_nat_eq_self)
qed

lemma of_char_eq_0: "(of_char c :: byte) = 0 \<longleftrightarrow> c = CHR 0x00"
proof
  assume "(of_char c :: byte) = 0"
  then have "(of_char c :: nat) = 0" using unat_of_char [of c] by simp
  then have "c = char_of (0 :: nat)" by (metis char_of_char)
  then show "c = CHR 0x00" by (simp add: char_of_def)
qed simp

lemma c_text_cstring:
  assumes "CHR 0x00 \<notin> set s"
  shows "c_text (cstring s) = s"
proof -
  have "takeWhile (\<lambda>b. b \<noteq> 0) (chars s @ [0]) = chars s"
    using assms by (auto simp: chars_def of_char_eq_0 takeWhile_append)
  then show ?thesis by (simp add: c_text_def cstring_def chars_def map_idI)
qed

lemma length_cstring [simp]: "length (cstring s) = Suc (length s)"
  by (simp add: cstring_def chars_def)

lemma host16_read16:
  "read16 [a, b] = Some p \<Longrightarrow> host16 p = [a, b]"
proof -
  assume "read16 [a, b] = Some p"
  then have p: "p = ucast a OR push_bit 8 (ucast b)" by (simp add: read16_def)
  have "ucast p = a" unfolding p by (rule bit_word_eqI) (auto simp: bit_simps)
  moreover have "ucast (drop_bit 8 p) = b"
    unfolding p by (rule bit_word_eqI) (auto simp: bit_simps dest: bit_imp_le_length)
  ultimately show ?thesis by (simp add: host16_def)
qed

section \<open>One item of metadata\<close>

text \<open>A text of a JSON object or array that json-c itself prints, so that parsing and printing it agree.\<close>
definition json_text :: "'j json_env \<Rightarrow> string \<Rightarrow> bool" where
  "json_text E s \<longleftrightarrow> CHR 0x00 \<notin> set s \<and> length s < 2 ^ 31 \<and>
     (\<exists>j. json_tokener_parse_ex (e_js E) s = (Some j, True, length s)
        \<and> json_object_to_json_string_ext (e_js E) j = s
        \<and> (jtype E j = json_type_object \<or> jtype E j = json_type_array))"

text \<open>The value of an item has the form its type asks for.\<close>
definition fit_value :: "'j json_env \<Rightarrow> uuid \<Rightarrow> bytes \<Rightarrow> bool" where
  "fit_value E ty d \<longleftrightarrow>
     (if kind E ''STRING'' ty then \<exists>s. CHR 0x00 \<notin> set s \<and> d = cstring s
      else if kind E ''JSON'' ty then \<exists>s. json_text E s \<and> d = cstring s
      else if kind E ''PORT'' ty then length d = 2
      else if kind E ''IPPROTO'' ty then length d = 1
      else if kind E ''IPv4_ADDR'' ty then length d = 4
      else if kind E ''IPv6_ADDR'' ty then length d = 16
      else length d < 2 ^ 31)"

definition fit_item :: "'j json_env \<Rightarrow> NTLVItem \<Rightarrow> bool" where
  "fit_item E i \<longleftrightarrow> length (uuidName i) = 16 \<and> length (uuidType i) = 16 \<and> NTLVItem.iLength i \<noteq> 0
     \<and> unat (NTLVItem.iLength i) = length (NTLVItem.pData i) \<and> fit_value E (uuidType i) (NTLVItem.pData i)"

text \<open>Appending the parts of an item appends the item.\<close>
definition appends :: "'j json_env \<Rightarrow> (ntlv_list option \<Rightarrow> (bool \<times> ntlv_list option) option) \<Rightarrow> NTLVItem \<Rightarrow> bool" where
  "appends E f i \<longleftrightarrow> (\<forall>l xs. ntlvs (e_uuid_compare E) l xs \<longrightarrow>
     (\<exists>l'. f (Some l) = Some (True, Some l') \<and> ntlvs (e_uuid_compare E) l' (xs @ [i])))"

lemma of_nat_unat_eq: "unat w = n \<Longrightarrow> of_nat n = w"
  by auto

lemma append_item_appends:
  assumes "env_good E" and "NTLVItem.iLength i \<noteq> 0" and "unat (NTLVItem.iLength i) = length (NTLVItem.pData i)"
  shows "appends E (\<lambda>l. append_item E l (uuidName i) (uuidType i) (NTLVItem.iLength i) (NTLVItem.pData i)) i"
proof -
  obtain nm ty sz d where i: "i = \<lparr>uuidName = nm, uuidType = ty, NTLVItem.iLength = sz, NTLVItem.pData = d\<rparr>"
    by (cases i)
  show ?thesis
    using NTLVList_Add_ntlvs [where mem = "e_mem E" and sz = sz and d = d and nm = nm and ty = ty
        and uc = "e_uuid_compare E"] assms
    unfolding appends_def append_item_def i by simp
qed

lemma fit_itemD:
  assumes "env_good E" and "fit_item E i"
  shows "fit_value E (uuidType i) (NTLVItem.pData i)"
    and "NTLVItem.iLength i = of_nat (length (NTLVItem.pData i))"
    and "appends E (\<lambda>l. append_item E l (uuidName i) (uuidType i) (NTLVItem.iLength i) (NTLVItem.pData i)) i"
proof -
  have "unat (NTLVItem.iLength i) = length (NTLVItem.pData i)" using assms(2) by (simp add: fit_item_def)
  then show "NTLVItem.iLength i = of_nat (length (NTLVItem.pData i))" by (rule of_nat_unat_eq [symmetric])
qed (use assms append_item_appends in \<open>auto simp: fit_item_def\<close>)

text \<open>The value is put as the string \<open>t\<close>, and reading the string appends the item.\<close>
definition as_string :: "'j json_env \<Rightarrow> NTLVItem \<Rightarrow> string \<Rightarrow> bool" where
  "as_string E i t \<longleftrightarrow>
     (\<forall>c. put_ntlv_value E i c = JsonBuffer_Put_String E (Some ''String_Value'') (Some t) c)
     \<and> (\<forall>l. get_string_value E l (uuidName i) (uuidType i) t =
          append_item E l (uuidName i) (uuidType i) (NTLVItem.iLength i) (NTLVItem.pData i))"

lemma terminated_cstring:
  assumes "NTLVItem.iLength i \<noteq> 0" and "unat (NTLVItem.iLength i) = length (NTLVItem.pData i)"
    and "NTLVItem.pData i = cstring t"
  shows "terminated i = Some True"
  using assms by (simp add: terminated_def cstring_def chars_def nth_append)

lemmas kind_simps = matches_kind JsonBuffer_NTLVTypeUsesJsonValue_def put_ntlv_value_def get_string_value_def
  type_processed_def address_text_def as_string_def

lemma as_string_STRING:
  assumes E: "env_good E" and i: "fit_item E i" and k: "kind E ''STRING'' (uuidType i)"
  shows "\<exists>t. as_string E i t"
proof -
  note D = fit_itemD [OF E i]
  obtain t where t: "CHR 0x00 \<notin> set t" "NTLVItem.pData i = cstring t"
    using D(1) k by (auto simp: fit_value_def)
  have no: "\<not> kind E m (uuidType i)" if "m \<noteq> ''STRING''" for m using kind_unique [OF E k] that by blast
  have "terminated i = Some True" using terminated_cstring i t(2) by (simp add: fit_item_def)
  then have "as_string E i t" using E k no t D(2) by (simp add: kind_simps c_text_cstring)
  then show ?thesis ..
qed

lemma as_string_PORT:
  assumes E: "env_good E" and i: "fit_item E i" and k: "kind E ''PORT'' (uuidType i)"
  shows "\<exists>t. as_string E i t"
proof -
  note D = fit_itemD [OF E i]
  have no: "\<not> kind E m (uuidType i)" if "m \<noteq> ''PORT''" for m using kind_unique [OF E k] that by blast
  then have "length (NTLVItem.pData i) = 2" using D(1) k by (simp add: fit_value_def)
  then obtain a b where ab: "NTLVItem.pData i = [a, b]" by (auto simp: length_Suc_conv numeral_2_eq_2)
  define p where "p = (ucast a OR push_bit 8 (ucast b) :: 16 word)"
  have p: "read16 [a, b] = Some p" by (simp add: p_def read16_def)
  have "scan_unsigned (2 ^ 16 - 1) (decimal (unat p)) = Some (Some (unat p))"
    using unat_less_16 [of p] by (intro scan_unsigned_decimal) simp
  then have "as_string E i (decimal (unat p))"
    using E k no p ab D(2) host16_read16 [OF p] by (simp add: kind_simps)
  then show ?thesis ..
qed

lemma as_string_IPPROTO:
  assumes E: "env_good E" and i: "fit_item E i" and k: "kind E ''IPPROTO'' (uuidType i)"
  shows "\<exists>t. as_string E i t"
proof -
  note D = fit_itemD [OF E i]
  have no: "\<not> kind E m (uuidType i)" if "m \<noteq> ''IPPROTO''" for m using kind_unique [OF E k] that by blast
  then have "length (NTLVItem.pData i) = 1" using D(1) k by (simp add: fit_value_def)
  then obtain a where a: "NTLVItem.pData i = [a]" by (auto simp: length_Suc_conv)
  have "scan_unsigned (2 ^ 8 - 1) (decimal (unat a)) = Some (Some (unat a))"
    using unat_less_8 [of a] by (intro scan_unsigned_decimal) simp
  then have "as_string E i (decimal (unat a))" using E k no a D(2) by (simp add: kind_simps)
  then show ?thesis ..
qed

lemma as_string_IPv4:
  assumes E: "env_good E" and i: "fit_item E i" and k: "kind E ''IPv4_ADDR'' (uuidType i)"
  shows "\<exists>t. as_string E i t"
proof -
  note D = fit_itemD [OF E i]
  have no: "\<not> kind E m (uuidType i)" if "m \<noteq> ''IPv4_ADDR''" for m using kind_unique [OF E k] that by blast
  then have l: "length (NTLVItem.pData i) = 4" using D(1) k by (simp add: fit_value_def)
  then have "e_inet_pton4 E (e_inet_ntop4 E (NTLVItem.pData i)) = Some (NTLVItem.pData i)"
    using E by (simp add: env_good_def env_ok_def)
  then have "as_string E i (e_inet_ntop4 E (NTLVItem.pData i))" using E k no l D(2) by (simp add: kind_simps)
  then show ?thesis ..
qed

lemma as_string_IPv6:
  assumes E: "env_good E" and i: "fit_item E i" and k: "kind E ''IPv6_ADDR'' (uuidType i)"
  shows "\<exists>t. as_string E i t"
proof -
  note D = fit_itemD [OF E i]
  have no: "\<not> kind E m (uuidType i)" if "m \<noteq> ''IPv6_ADDR''" for m using kind_unique [OF E k] that by blast
  then have l: "length (NTLVItem.pData i) = 16" using D(1) k by (simp add: fit_value_def)
  then have "e_inet_pton6 E (e_inet_ntop6 E (NTLVItem.pData i)) = Some (NTLVItem.pData i)"
    using E by (simp add: env_good_def env_ok_def)
  then have "as_string E i (e_inet_ntop6 E (NTLVItem.pData i))" using E k no l D(2) by (simp add: kind_simps)
  then show ?thesis ..
qed

text \<open>The member that holds the value, and what reading an item with that member does.\<close>
lemma get_item_string:
  assumes E: "env_good E" and n: "jget E ob ''Name'' = Some c1" "reads E (JsonBuffer_Get_UUID E) c1 (Some nm)"
    and t: "jget E ob ''Type'' = Some c2" "reads E (JsonBuffer_Get_UUID E) c2 (Some ty)"
    and ex: "\<forall>m. json_object_object_get_ex (e_js E) ob m \<longleftrightarrow> m \<in> {''Name'', ''Type'', f}"
  shows "f = ''String_Value'' \<Longrightarrow> JsonBuffer_Get_String E (Some ob) (Some ''String_Value'') = Some str \<Longrightarrow>
      JsonBuffer_Get_NTLVItem E l ob = get_string_value E l nm ty str"
    and "f = ''Json_Value'' \<Longrightarrow> JsonBuffer_Get_JsonString E (Some ob) (Some ''Json_Value'') = Some str \<Longrightarrow>
      kind E ''JSON'' ty \<Longrightarrow>
      JsonBuffer_Get_NTLVItem E l ob = append_item E l nm ty (of_nat (length str + 1)) (cstring str)"
    and "f = ''Bin_Value'' \<Longrightarrow> JsonBuffer_Get_ByteArray E (Some ob) (Some ''Bin_Value'') = Some (sz, d) \<Longrightarrow>
      \<forall>m \<in> {''STRING'', ''PORT'', ''IPPROTO'', ''IPv4_ADDR'', ''IPv6_ADDR'', ''JSON''}. \<not> kind E m ty \<Longrightarrow>
      JsonBuffer_Get_NTLVItem E l ob = append_item E l nm ty sz d"
  using readsD [OF n(2,1)] readsD [OF t(2,1)] ex
  by (simp_all add: JsonBuffer_Get_NTLVItem_def Let_def matches_kind [OF E] JsonBuffer_NTLVTypeUsesJsonValue_def
      JsonBuffer_NTLVTypeUsesStringValue_def or_else_def)

lemma sint_small:
  fixes w :: u32
  assumes "unat w < 2 ^ 31"
  shows "sint w = int (unat w)"
proof -
  have "int (unat w) < int (2 ^ 31)" using assms by (simp only: of_nat_less_iff)
  then have "uint w < 2 ^ 31" by simp
  moreover have "- (2 ^ 31) \<le> uint w" by (rule order_trans [of _ 0]) simp_all
  ultimately have "signed_take_bit 31 (uint w) = uint w" by (intro signed_take_bit_int_eq_self)
  moreover have "sint w = signed_take_bit 31 (uint w)" using sint_uint [of w] by simp
  ultimately show ?thesis by simp
qed

lemma put_bytes:
  assumes E: "env_good E" and d: "unat sz = length d" "length d < 2 ^ 31" "sz \<noteq> 0"
  obtains c where "puts E (JsonBuffer_Put_ByteArray E (Some n) sz (Some d)) [(n, c)]"
    and "reads E (JsonBuffer_Get_ByteArray E) c (Some (sz, d))"
proof -
  have "e_b64_text E d \<noteq> None" using E unfolding env_good_def env_works_def by blast
  then obtain t where t: "e_b64_text E d = Some t" by blast
  have w: "e_BIO_write E d (sint sz) = sint sz" "e_BIO_read E t = Some d"
    using E d t sint_small [of sz] by (auto simp: env_good_def env_ok_def)
  obtain c where c: "puts E (JsonBuffer_Put_String E (Some n) (Some t)) [(n, c)]" "jtype E c = json_type_string"
    "json_object_get_string (e_js E) c = Some t" using puts_string [OF E] .
  have "sz > 0" using d(3) by (simp add: word_neq_0_conv)
  then have "puts E (JsonBuffer_Put_ByteArray E (Some n) sz (Some d)) [(n, c)]"
    using c(1) w(1) t E d by (simp add: puts_def JsonBuffer_Put_ByteArray_def)
  moreover have "of_nat (length d) = sz" using d(1) by (rule of_nat_unat_eq)
  then have "reads E (JsonBuffer_Get_ByteArray E) c (Some (sz, d))"
    using c(2,3) w(2) E by (simp add: reads_def JsonBuffer_Get_ByteArray_def get_typed_def)
  ultimately show thesis by (rule that)
qed

lemma put_json_text:
  assumes E: "env_good E" and s: "json_text E s"
  obtains c where "puts E (JsonBuffer_Put_JsonString E (Some n) (Some s)) [(n, c)]"
    and "reads E (JsonBuffer_Get_JsonString E) c (Some s)"
proof -
  obtain j where j: "json_tokener_parse_ex (e_js E) s = (Some j, True, length s)"
      "json_object_to_json_string_ext (e_js E) j = s" "jtype E j = json_type_object \<or> jtype E j = json_type_array"
    and l: "length s < 2 ^ 31" using s by (auto simp: json_text_def)
  have "puts E (JsonBuffer_Put_JsonString E (Some n) (Some s)) [(n, j)]"
    using j l E by (auto simp: puts_def JsonBuffer_Put_JsonString_def)
  moreover have "reads E (JsonBuffer_Get_JsonString E) j (Some s)"
    using j E by (auto simp: reads_def JsonBuffer_Get_JsonString_def)
  ultimately show thesis by (rule that)
qed

text \<open>Every fit item is put as one member, from which it is read again.\<close>
lemma item_value:
  assumes E: "env_good E" and i: "fit_item E i"
  obtains f v where "puts E (put_ntlv_value E i) [(f, v)]" and "f \<notin> {''Name'', ''Type''}"
    and "\<And>ob c1 c2 l. jget E ob ''Name'' = Some c1 \<Longrightarrow> reads E (JsonBuffer_Get_UUID E) c1 (Some (uuidName i)) \<Longrightarrow>
      jget E ob ''Type'' = Some c2 \<Longrightarrow> reads E (JsonBuffer_Get_UUID E) c2 (Some (uuidType i)) \<Longrightarrow>
      \<forall>m. json_object_object_get_ex (e_js E) ob m \<longleftrightarrow> m \<in> {''Name'', ''Type'', f} \<Longrightarrow> jget E ob f = Some v \<Longrightarrow>
      JsonBuffer_Get_NTLVItem E l ob = append_item E l (uuidName i) (uuidType i) (NTLVItem.iLength i) (NTLVItem.pData i)"
proof -
  note D = fit_itemD [OF E i]
  consider (str) t where "as_string E i t" | (json) "kind E ''JSON'' (uuidType i)"
    | (bin) "\<forall>m \<in> {''STRING'', ''PORT'', ''IPPROTO'', ''IPv4_ADDR'', ''IPv6_ADDR'', ''JSON''}. \<not> kind E m (uuidType i)"
    using as_string_STRING [OF E i] as_string_PORT [OF E i] as_string_IPPROTO [OF E i] as_string_IPv4 [OF E i]
      as_string_IPv6 [OF E i] by blast
  then show thesis
  proof cases
    case str
    obtain c where c: "puts E (put_text E (Some ''String_Value'') t) [(''String_Value'', c)]"
      "reads E (JsonBuffer_Get_String E) c (Some t)"
      using json_string.member [OF E fit_anyI] by (metis agree_eq_def)
    have "puts E (put_ntlv_value E i) [(''String_Value'', c)]"
      using c(1) str by (simp add: puts_def as_string_def put_text_def)
    then show thesis
      by (rule that) (use get_item_string(1) [OF E _ _ _ _ _ refl] readsD [OF c(2)] str in \<open>auto simp: as_string_def\<close>)
  next
    case json
    then have no: "\<not> kind E m (uuidType i)" if "m \<noteq> ''JSON''" for m using kind_unique [OF E] that by blast
    then obtain s where s: "json_text E s" "NTLVItem.pData i = cstring s"
      using D(1) json by (auto simp: fit_value_def)
    obtain c where c: "puts E (JsonBuffer_Put_JsonString E (Some ''Json_Value'') (Some s)) [(''Json_Value'', c)]"
      "reads E (JsonBuffer_Get_JsonString E) c (Some s)" using put_json_text [OF E s(1)] .
    have "terminated i = Some True" using terminated_cstring i s(2) by (simp add: fit_item_def)
    moreover have "c_text (cstring s) = s" using s(1) by (intro c_text_cstring) (simp add: json_text_def)
    ultimately have "puts E (put_ntlv_value E i) [(''Json_Value'', c)]"
      using c(1) json no E s(2) by (simp add: puts_def kind_simps)
    then show thesis
      by (rule that) (use get_item_string(2) [OF E _ _ _ _ _ refl] readsD [OF c(2)] json s(2) D(2) in auto)
  next
    case bin
    then have l: "length (NTLVItem.pData i) < 2 ^ 31" using D(1) by (simp add: fit_value_def)
    obtain c where c: "puts E (JsonBuffer_Put_ByteArray E (Some ''Bin_Value'') (NTLVItem.iLength i) (Some (NTLVItem.pData i))) [(''Bin_Value'', c)]"
      "reads E (JsonBuffer_Get_ByteArray E) c (Some (NTLVItem.iLength i, NTLVItem.pData i))"
      using put_bytes [OF E _ l] i unfolding fit_item_def by blast
    have "puts E (put_ntlv_value E i) [(''Bin_Value'', c)]"
      using c(1) bin E by (simp add: puts_def kind_simps)
    then show thesis
      by (rule that) (use get_item_string(3) [OF E _ _ _ _ _ refl] readsD [OF c(2)] bin in auto)
  qed
qed

text \<open>Reading an item whose value is the member \<open>f\<close> passes its name, type and bytes to the list.\<close>
definition item_reads :: "'j json_env \<Rightarrow> NTLVItem \<Rightarrow> string \<Rightarrow> 'j \<Rightarrow> bool" where
  "item_reads E i f v \<longleftrightarrow> (\<forall>ob c1 c2 l. jget E ob ''Name'' = Some c1 \<longrightarrow> reads E (JsonBuffer_Get_UUID E) c1 (Some (uuidName i)) \<longrightarrow>
      jget E ob ''Type'' = Some c2 \<longrightarrow> reads E (JsonBuffer_Get_UUID E) c2 (Some (uuidType i)) \<longrightarrow>
      (\<forall>m. json_object_object_get_ex (e_js E) ob m \<longleftrightarrow> m \<in> {''Name'', ''Type'', f}) \<longrightarrow> jget E ob f = Some v \<longrightarrow>
      JsonBuffer_Get_NTLVItem E l ob = append_item E l (uuidName i) (uuidType i) (NTLVItem.iLength i) (NTLVItem.pData i))"

lemma item_member:
  assumes "env_good E" and "fit_item E i"
  obtains f v where "puts E (put_ntlv_value E i) [(f, v)]" and "f \<notin> {''Name'', ''Type''}" and "item_reads E i f v"
  apply (rule item_value [OF assms])
  apply (rule that)
    apply assumption
   apply assumption
  apply (simp only: item_reads_def)
  apply (intro allI impI)
  apply assumption
  done

section \<open>Arrays\<close>

text \<open>The elements of an array.\<close>
definition elems :: "'j json_env \<Rightarrow> 'j \<Rightarrow> 'j list \<Rightarrow> bool" where
  "elems E arr cs \<longleftrightarrow> jtype E arr = json_type_array \<and> json_object_array_length (e_js E) arr = length cs
     \<and> (\<forall>k < length cs. json_object_array_get_idx (e_js E) arr k = Some (cs ! k))"

lemma new_array:
  assumes "env_good E"
  obtains a where "json_object_new_array (e_js E) = Some a" and "elems E a []"
proof -
  have "json_object_new_array (e_js E) \<noteq> None" using assms unfolding env_good_def env_works_def by blast
  then obtain a where a: "json_object_new_array (e_js E) = Some a" by blast
  then have "elems E a []" using env_good_jsonc [OF assms] by (simp add: jsonc_ok_def elems_def)
  with a show thesis by (rule that)
qed

lemma elems_add:
  assumes "env_good E" and "elems E arr cs"
  shows "elems E (json_object_array_add (e_js E) arr c) (cs @ [c])"
proof -
  have "jtype E arr = json_type_array" using assms(2) by (simp add: elems_def)
  then have "jtype E (json_object_array_add (e_js E) arr c) = json_type_array
      \<and> json_object_array_length (e_js E) (json_object_array_add (e_js E) arr c) = Suc (json_object_array_length (e_js E) arr)
      \<and> (\<forall>i. json_object_array_get_idx (e_js E) (json_object_array_add (e_js E) arr c) i =
           (if i = json_object_array_length (e_js E) arr then Some c else json_object_array_get_idx (e_js E) arr i))"
    using env_good_jsonc [OF assms(1)] by (simp add: jsonc_ok_def)
  then show ?thesis using assms(2) by (auto simp: elems_def nth_append less_Suc_eq)
qed

text \<open>The walk of a put operation that adds one element for every item.\<close>
lemma put_walk:
  assumes E: "env_good E" and op: "\<And>x. x \<in> set xs \<Longrightarrow>
      \<exists>c. (\<forall>arr s. op x arr s = Some (LIST_EACH_OK, json_object_array_add (e_js E) arr c, s)) \<and> R c x"
    and "elems E arr cs0"
  shows "\<exists>arr' cs. each_walk None None op xs arr s = Some (True, replicate (length xs) False, arr', s)
      \<and> elems E arr' (cs0 @ cs) \<and> list_all2 R cs xs"
  using op assms(3)
proof (induction xs arbitrary: arr cs0)
  case (Cons x xs)
  obtain c where c: "\<forall>arr s. op x arr s = Some (LIST_EACH_OK, json_object_array_add (e_js E) arr c, s)" "R c x"
    using Cons.prems(1) [of x] by auto
  let ?arr = "json_object_array_add (e_js E) arr c"
  from Cons.IH [of ?arr "cs0 @ [c]"] elems_add [OF E Cons.prems(2)] Cons.prems(1)
  obtain arr' cs where r: "each_walk None None op xs ?arr s = Some (True, replicate (length xs) False, arr', s)"
    "elems E arr' ((cs0 @ [c]) @ cs)" "list_all2 R cs xs" by auto
  then show ?case using c by (intro exI [of _ arr'] exI [of _ "c # cs"]) simp
qed (auto intro: exI [of _ "[]"])

text \<open>The loop of a get operation over the elements of an array, with one step per element.\<close>
locale array_reader =
  fixes loop :: "'j json_env \<Rightarrow> 'j \<Rightarrow> nat list \<Rightarrow> 'l option \<Rightarrow> 'l option option"
    and step :: "'j json_env \<Rightarrow> 'j \<Rightarrow> 'l option \<Rightarrow> (bool \<times> 'l option) option"
  assumes loop_Nil: "loop E arr [] l = Some l"
    and loop_Cons: "loop E arr (i # is) l =
      (case json_object_array_get_idx (e_js E) arr i of
         None \<Rightarrow> Some None
       | Some ob \<Rightarrow> do { (ok, l') \<leftarrow> step E ob l; (if ok then loop E arr is l' else Some None) })"
begin

lemma loop_appends:
  assumes "elems E arr (cs0 @ cs)" and "rep l ys"
    and "list_all2 (\<lambda>c x. \<forall>l ys. rep l ys \<longrightarrow> (\<exists>l'. step E c (Some l) = Some (True, Some l') \<and> rep l' (ys @ [x]))) cs xs"
  shows "\<exists>l'. loop E arr [length cs0..<length (cs0 @ cs)] (Some l) = Some (Some l') \<and> rep l' (ys @ xs)"
  using assms
proof (induction cs arbitrary: cs0 xs l ys)
  case Nil
  then show ?case by (simp add: loop_Nil)
next
  case (Cons c cs)
  then obtain x xs' where xs: "xs = x # xs'" by (cases xs) auto
  obtain l1 where l1: "step E c (Some l) = Some (True, Some l1)" "rep l1 (ys @ [x])"
    using Cons.prems(2,3) xs by auto
  have i: "json_object_array_get_idx (e_js E) arr (length cs0) = Some c"
    using Cons.prems(1) by (auto simp: elems_def)
  have up: "[length cs0..<length (cs0 @ c # cs)] = length cs0 # [length (cs0 @ [c])..<length ((cs0 @ [c]) @ cs)]"
    by (simp add: upt_rec)
  from Cons.IH [of "cs0 @ [c]" l1 "ys @ [x]" xs'] l1(2) Cons.prems xs
  show ?case unfolding up by (simp add: loop_Cons i l1(1))
qed

text \<open>Reading a whole array into an empty list.\<close>
lemma loop_all:
  assumes "elems E arr cs" and "rep l []"
    and "list_all2 (\<lambda>c x. \<forall>l ys. rep l ys \<longrightarrow> (\<exists>l'. step E c (Some l) = Some (True, Some l') \<and> rep l' (ys @ [x]))) cs xs"
  shows "\<exists>l'. loop E arr [0..<json_object_array_length (e_js E) arr] (Some l) = Some (Some l') \<and> rep l' xs"
  using loop_appends [of E arr "[]" cs rep l "[]" xs] assms by (simp add: elems_def)

end

definition ntlv_step :: "'j json_env \<Rightarrow> 'j \<Rightarrow> ntlv_list option \<Rightarrow> (bool \<times> ntlv_list option) option" where
  "ntlv_step E ob l =
     (if json_object_get_type (e_js E) ob \<noteq> json_type_object then Some (False, l) else JsonBuffer_Get_NTLVItem E l ob)"

interpretation ntlv_reader: array_reader get_ntlv_loop ntlv_step
  by unfold_locales (auto simp: ntlv_step_def split: option.split)

section \<open>Lists of metadata\<close>

definition fit_list :: "'j json_env \<Rightarrow> ntlv_list \<Rightarrow> bool" where
  "fit_list E l \<longleftrightarrow> (\<exists>xs. ntlvs (e_uuid_compare E) l xs \<and> list_all (fit_item E) xs)"

definition list_same :: "'j json_env \<Rightarrow> ntlv_list \<Rightarrow> ntlv_list \<Rightarrow> bool" where
  "list_same E l l' \<longleftrightarrow> (\<exists>xs. ntlvs (e_uuid_compare E) l xs \<and> ntlvs (e_uuid_compare E) l' xs)"

definition agree_list where "agree_list E l r \<longleftrightarrow> (\<exists>l'. r = Some (Some l') \<and> list_same E l l')"
definition put_list where
  "put_list E nm l = JsonBuffer_Put_NTLVList E nm (Some l)"

lemma new_metadata_good:
  assumes "env_good E"
  obtains l where "new_metadata (e_uuid_compare E) (e_alloc E) = Some l" and "ntlvs (e_uuid_compare E) l []"
proof -
  obtain l where l: "new_metadata (e_uuid_compare E) (e_alloc E) = Some l"
    using assms by (auto simp: new_metadata_def NTLVList_Create_def List_Create_def)
  then have "NTLVList_Create (e_uuid_compare E) True True True True = Some l"
    using assms by (simp add: new_metadata_def)
  from NTLVList_Create_ntlvs [OF this] show thesis by (rule that [OF l])
qed

lemma put_item:
  assumes E: "env_good E" and i: "fit_item E i"
  shows "\<exists>c. (\<forall>arr s. JsonBuffer_Put_NTLVItem E i arr s = Some (LIST_EACH_OK, json_object_array_add (e_js E) arr c, s))
    \<and> appends E (\<lambda>l. ntlv_step E c l) i"
proof -
  obtain f v where v: "puts E (put_ntlv_value E i) [(f, v)]" "f \<notin> {''Name'', ''Type''}" "item_reads E i f v"
    using item_member [OF E i] .
  have u: "fit_uuid E (uuidName i)" "fit_uuid E (uuidType i)" using i by (simp_all add: fit_item_def fit_uuid_def)
  obtain c1 r1 where c1: "puts E (JsonBuffer_Put_UUID E (Some ''Name'') (uuidName i)) [(''Name'', c1)]"
    "reads E (JsonBuffer_Get_UUID E) c1 r1" "agree_eq E (uuidName i) r1" using json_uuid.member [OF E u(1)] .
  obtain c2 r2 where c2: "puts E (JsonBuffer_Put_UUID E (Some ''Type'') (uuidType i)) [(''Type'', c2)]"
    "reads E (JsonBuffer_Get_UUID E) c2 r2" "agree_eq E (uuidType i) r2" using json_uuid.member [OF E u(2)] .
  obtain c where c: "json_object_new_object (e_js E) = Some c"
    "\<forall>ms. jtype E (adds E ms c) = json_type_object" "\<forall>ms m. jget E (adds E ms c) m = map_of (rev ms) m"
    "\<forall>ms m. json_object_object_get_ex (e_js E) (adds E ms c) m \<longleftrightarrow> m \<in> fst ` set ms"
    using object_members [OF E] .
  let ?ob = "adds E [(''Name'', c1), (''Type'', c2), (f, v)] c"
  have "JsonBuffer_Put_NTLVItem E i arr s = Some (LIST_EACH_OK, json_object_array_add (e_js E) arr ?ob, s)" for arr s
    using c(1) c1(1) c2(1) v(1) by (simp add: JsonBuffer_Put_NTLVItem_def puts_def)
  moreover have "JsonBuffer_Get_NTLVItem E l ?ob =
      append_item E l (uuidName i) (uuidType i) (NTLVItem.iLength i) (NTLVItem.pData i)" for l
    by (rule v(3) [unfolded item_reads_def, rule_format, of _ c1 c2])
      (use c(3,4) v(2) c1(2,3) c2(2,3) in \<open>auto simp: agree_eq_def simp del: adds_simps\<close>)
  then have "appends E (\<lambda>l. ntlv_step E ?ob l) i"
    using fit_itemD(3) [OF E i] c(2) by (simp add: ntlv_step_def del: adds_simps)
  ultimately show ?thesis by blast
qed

interpretation json_ntlv_list: json_codec put_list JsonBuffer_Get_NTLVList fit_list agree_list
proof
  fix E :: "'j json_env" and l n
  assume E: "env_good E" and "fit_list E l"
  then obtain xs where xs: "ntlvs (e_uuid_compare E) l xs" "list_all (fit_item E) xs" by (auto simp: fit_list_def)
  obtain a where a: "json_object_new_array (e_js E) = Some a" "elems E a []" using new_array [OF E] .
  obtain arr cs where w: "each_walk None None (JsonBuffer_Put_NTLVItem E) xs a [] =
      Some (True, replicate (length xs) False, arr, [])" "elems E arr cs"
      "list_all2 (\<lambda>c x. appends E (\<lambda>l. ntlv_step E c l) x) cs xs"
    using put_walk [OF E _ a(2), of xs "JsonBuffer_Put_NTLVItem E" "\<lambda>c x. appends E (\<lambda>l. ntlv_step E c l) x" "[]"]
      put_item [OF E] xs(2) by (auto simp: list_all_iff)
  have "List_ForEach (Some l) (JsonBuffer_Put_NTLVItem E) a [] = Some (True, Some l, arr, [])"
    using xs(1) w(1) by (intro List_ForEach_readonly) (auto simp: ntlvs_def)
  then have "puts E (put_list E (Some n) l) [(n, arr)]"
    unfolding put_list_def JsonBuffer_Put_NTLVList_def a(1) by (intro puts_container) (simp del: List_ForEach.simps)
  moreover obtain l0 where l0: "new_metadata (e_uuid_compare E) (e_alloc E) = Some l0" "ntlvs (e_uuid_compare E) l0 []"
    using new_metadata_good [OF E] .
  obtain l' where l': "get_ntlv_loop E arr [0..<json_object_array_length (e_js E) arr] (Some l0) = Some (Some l')"
      "ntlvs (e_uuid_compare E) l' xs"
    using ntlv_reader.loop_all [OF w(2) l0(2) w(3) [unfolded appends_def]] by blast
  have "reads E (JsonBuffer_Get_NTLVList E) arr (Some (Some l'))"
    using w(2) l0(1) l'(1) by (simp add: reads_def JsonBuffer_Get_NTLVList_def get_typed_def elems_def)
  ultimately show "\<exists>c r. puts E (put_list E (Some n) l) [(n, c)] \<and> reads E (JsonBuffer_Get_NTLVList E) c r
      \<and> agree_list E l r"
    using xs(1) l'(2) unfolding agree_list_def list_same_def by blast
qed

section \<open>Lists of identifiers and of strings\<close>

lemma optional_string_field:
  assumes E: "env_good E"
  shows "field E (JsonBuffer_Put_OptionalString E (Some n) s) n
    (\<lambda>q. JsonBuffer_Get_OptionalString E (Some q) (Some n) = Some s)"
proof (cases s)
  case None
  then show ?thesis
    by (auto simp: field_def puts_def JsonBuffer_Put_OptionalString_def JsonBuffer_Get_OptionalString_def intro!: exI [of _ None])
next
  case (Some t)
  obtain c where c: "puts E (JsonBuffer_Put_String E (Some n) (Some t)) [(n, c)]" "jtype E c = json_type_string"
    "json_object_get_string (e_js E) c = Some t" using puts_string [OF E] .
  then show ?thesis
    using Some E by (auto simp: field_def puts_def JsonBuffer_Put_OptionalString_def JsonBuffer_Get_OptionalString_def
        JsonBuffer_Get_String_def get_typed_def intro!: exI [of _ "Some c"])
qed

definition uuid_step :: "'j json_env \<Rightarrow> 'j \<Rightarrow> uuid_list option \<Rightarrow> (bool \<times> uuid_list option) option" where
  "uuid_step E ob l =
     (if json_object_get_type (e_js E) ob \<noteq> json_type_object then Some (False, l)
      else case get_uuid_entry E ob of
        None \<Rightarrow> Some (False, l)
      | Some (u, nn, desc) \<Rightarrow> UUID_Add_List_Entry (e_mem E) (e_alloc E ''UUID_Add_List_Entry'')
          (e_alloc E ''UUID_Add_List_Entry.name'') (e_alloc E ''UUID_Add_List_Entry.description'') l u (Some nn) desc)"

interpretation uuid_reader: array_reader get_uuid_loop uuid_step
  by unfold_locales (auto simp: uuid_step_def split: option.split)

definition string_step :: "'j json_env \<Rightarrow> 'j \<Rightarrow> string_list option \<Rightarrow> (bool \<times> string_list option) option" where
  "string_step E ob l =
     (if json_object_get_type (e_js E) ob \<noteq> json_type_string then Some (False, l)
      else case json_object_get_string (e_js E) ob of
        None \<Rightarrow> Some (False, l)
      | Some str \<Rightarrow> StringList_Add (e_mem E) (e_alloc E ''StringList_Add'') l (Some str))"

interpretation string_reader: array_reader get_string_loop string_step
  by unfold_locales (auto simp: string_step_def split: option.split)

text \<open>An entry has an identifier of sixteen bytes and a name that is not empty.\<close>
definition fit_entry :: "UUIDListNode \<Rightarrow> bool" where
  "fit_entry e \<longleftrightarrow> length (un_uuid e) = 16 \<and> UUIDListNode.sName e \<noteq> []"

definition fit_uuid_list :: "'j json_env \<Rightarrow> uuid_list \<Rightarrow> bool" where
  "fit_uuid_list E l \<longleftrightarrow> (\<exists>es. uuids (e_uuid_compare E) l es \<and> list_all fit_entry es)"

definition agree_uuid_list :: "'j json_env \<Rightarrow> uuid_list \<Rightarrow> uuid_list option option \<Rightarrow> bool" where
  "agree_uuid_list E l r \<longleftrightarrow>
     (\<exists>l' es. r = Some (Some l') \<and> uuids (e_uuid_compare E) l es \<and> uuids (e_uuid_compare E) l' es)"

definition put_uuid_list where
  "put_uuid_list E nm l = JsonBuffer_Put_UUIDList E nm (Some l)"

lemma put_entry:
  assumes E: "env_good E" and e: "fit_entry e"
  shows "\<exists>c. (\<forall>arr s. JsonBuffer_Put_UUIDList_Add E e arr s = Some (LIST_EACH_OK, json_object_array_add (e_js E) arr c, s))
    \<and> (\<forall>l es. uuids (e_uuid_compare E) l es \<longrightarrow>
         (\<exists>l'. uuid_step E c (Some l) = Some (True, Some l') \<and> uuids (e_uuid_compare E) l' (es @ [e])))"
proof -
  obtain u nm d where i: "e = \<lparr>un_uuid = u, UUIDListNode.sName = nm, sDescription = d\<rparr>" by (cases e)
  have D: "field E (put_if (d \<noteq> None) (JsonBuffer_Put_String E (Some ''description'') d)) ''description''
      (\<lambda>q. JsonBuffer_Get_OptionalString E (Some q) (Some ''description'') = Some d)"
    using optional_string_field [OF E, of "''description''" d]
    by (intro field_if) (auto simp: field_def puts_def JsonBuffer_Put_OptionalString_def JsonBuffer_Get_OptionalString_def)
  note F = fields_Cons [OF json_string.member_field [OF E fit_anyI, of "''id''" "e_uuid_unparse E u"]
      fields_Cons [OF json_string.member_field [OF E fit_anyI, of "''name''" nm] fields_Cons [OF D fields_Nil]]]
  obtain c0 c where c0: "json_object_new_object (e_js E) = Some c0"
      "put_steps [put_text E (Some ''id'') (e_uuid_unparse E u), put_text E (Some ''name'') nm,
         put_if (d \<noteq> None) (JsonBuffer_Put_String E (Some ''description'') d)] (Some c0) = Some (True, Some c)"
    and c:
      "jtype E c = json_type_object" "JsonBuffer_Get_String E (Some c) (Some ''id'') = Some (e_uuid_unparse E u)"
      "JsonBuffer_Get_String E (Some c) (Some ''name'') = Some nm"
      "JsonBuffer_Get_OptionalString E (Some c) (Some ''description'') = Some d"
    using fields_body [OF F E] by (auto simp: agree_eq_def simp del: put_steps.simps)
  then have "get_uuid_entry E c = Some (u, nm, d)"
    using e env_good_uuid [OF E, of u] by (simp add: get_uuid_entry_def i fit_entry_def)
  then have "\<forall>l es. uuids (e_uuid_compare E) l es \<longrightarrow>
      (\<exists>l'. uuid_step E c (Some l) = Some (True, Some l') \<and> uuids (e_uuid_compare E) l' (es @ [e]))"
    using c(1) UUID_Add_List_Entry_uuids [where mem = "e_mem E" and nm = nm and u = u and d = d] E e
    by (simp add: uuid_step_def i fit_entry_def)
  moreover have "JsonBuffer_Put_UUIDList_Add E e arr s = Some (LIST_EACH_OK, json_object_array_add (e_js E) arr c, s)" for arr s
    using c0 e by (simp add: JsonBuffer_Put_UUIDList_Add_def i fit_entry_def put_text_def)
  ultimately show ?thesis by blast
qed

interpretation json_uuid_list: json_codec put_uuid_list JsonBuffer_Get_UUIDList fit_uuid_list agree_uuid_list
proof
  fix E :: "'j json_env" and l n
  assume E: "env_good E" and "fit_uuid_list E l"
  then obtain es where es: "uuids (e_uuid_compare E) l es" "list_all fit_entry es" by (auto simp: fit_uuid_list_def)
  obtain a where a: "json_object_new_array (e_js E) = Some a" "elems E a []" using new_array [OF E] .
  let ?R = "\<lambda>c e. \<forall>l es. uuids (e_uuid_compare E) l es \<longrightarrow>
      (\<exists>l'. uuid_step E c (Some l) = Some (True, Some l') \<and> uuids (e_uuid_compare E) l' (es @ [e]))"
  obtain arr cs where w: "each_walk None None (JsonBuffer_Put_UUIDList_Add E) es a [] =
      Some (True, replicate (length es) False, arr, [])" "elems E arr cs" "list_all2 ?R cs es"
    using put_walk [OF E _ a(2), of es "JsonBuffer_Put_UUIDList_Add E" ?R "[]"] put_entry [OF E] es(2)
    by (auto simp: list_all_iff)
  have "List_ForEach (Some l) (JsonBuffer_Put_UUIDList_Add E) a [] = Some (True, Some l, arr, [])"
    using es(1) w(1) by (intro List_ForEach_readonly) (auto simp: uuids_def)
  then have "puts E (put_uuid_list E (Some n) l) [(n, arr)]"
    unfolding put_uuid_list_def JsonBuffer_Put_UUIDList_def a(1) by (intro puts_container) (simp del: List_ForEach.simps)
  moreover obtain l0 where l0: "UUID_Create_List (e_uuid_compare E) True True = Some l0" "uuids (e_uuid_compare E) l0 []"
    using UUID_Create_List_uuids by blast
  obtain l' where l': "get_uuid_loop E arr [0..<json_object_array_length (e_js E) arr] (Some l0) = Some (Some l')"
      "uuids (e_uuid_compare E) l' es"
    using uuid_reader.loop_all [OF w(2) l0(2) w(3)] by blast
  have "reads E (JsonBuffer_Get_UUIDList E) arr (Some (Some l'))"
    using w(2) l0(1) l'(1) E by (simp add: reads_def JsonBuffer_Get_UUIDList_def get_typed_def elems_def)
  ultimately show "\<exists>c r. puts E (put_uuid_list E (Some n) l) [(n, c)] \<and> reads E (JsonBuffer_Get_UUIDList E) c r
      \<and> agree_uuid_list E l r"
    using es(1) l'(2) unfolding agree_uuid_list_def by blast
qed

definition fit_string_list :: "'j json_env \<Rightarrow> string_list \<Rightarrow> bool" where
  "fit_string_list E l \<longleftrightarrow> (\<exists>ts. strings l ts)"

definition agree_string_list :: "'j json_env \<Rightarrow> string_list \<Rightarrow> string_list option option \<Rightarrow> bool" where
  "agree_string_list E l r \<longleftrightarrow> (\<exists>l' ts. r = Some (Some l') \<and> strings l ts \<and> strings l' ts)"

definition put_string_list where
  "put_string_list E nm l = JsonBuffer_Put_StringList E nm (Some l)"

lemma put_string_entry:
  assumes E: "env_good E"
  shows "\<exists>c. (\<forall>arr s. JsonBuffer_Put_StringList_Add E t arr s = Some (LIST_EACH_OK, json_object_array_add (e_js E) arr c, s))
    \<and> (\<forall>l ts. strings l ts \<longrightarrow> (\<exists>l'. string_step E c (Some l) = Some (True, Some l') \<and> strings l' (ts @ [t])))"
proof -
  obtain c where c: "json_object_new_string (e_js E) t = Some c" "jtype E c = json_type_string"
    "json_object_get_string (e_js E) c = Some t" using new_string [OF E] .
  then show ?thesis
    using E StringList_Add_strings [where mem = "e_mem E" and t = t]
    by (intro exI [of _ c]) (simp add: JsonBuffer_Put_StringList_Add_def string_step_def)
qed

interpretation json_string_list: json_codec put_string_list JsonBuffer_Get_StringList fit_string_list agree_string_list
proof
  fix E :: "'j json_env" and l n
  assume E: "env_good E" and "fit_string_list E l"
  then obtain ts where ts: "strings l ts" by (auto simp: fit_string_list_def)
  obtain a where a: "json_object_new_array (e_js E) = Some a" "elems E a []" using new_array [OF E] .
  let ?R = "\<lambda>c t. \<forall>l ts. strings l ts \<longrightarrow> (\<exists>l'. string_step E c (Some l) = Some (True, Some l') \<and> strings l' (ts @ [t]))"
  obtain arr cs where w: "each_walk None None (JsonBuffer_Put_StringList_Add E) ts a [] =
      Some (True, replicate (length ts) False, arr, [])" "elems E arr cs" "list_all2 ?R cs ts"
    using put_walk [OF E _ a(2), of ts "JsonBuffer_Put_StringList_Add E" ?R "[]"] put_string_entry [OF E] by auto
  have "List_ForEach (Some l) (JsonBuffer_Put_StringList_Add E) a [] = Some (True, Some l, arr, [])"
    using ts w(1) by (intro List_ForEach_readonly) (auto simp: strings_def)
  then have "puts E (put_string_list E (Some n) l) [(n, arr)]"
    unfolding put_string_list_def JsonBuffer_Put_StringList_def a(1) by (intro puts_container) (simp del: List_ForEach.simps)
  moreover obtain l0 where l0: "StringList_Create True True True = Some l0" "strings l0 []"
    using StringList_Create_strings by (auto simp: StringList_Create_def List_Create_def)
  obtain l' where l': "get_string_loop E arr [0..<json_object_array_length (e_js E) arr] (Some l0) = Some (Some l')"
      "strings l' ts"
    using string_reader.loop_all [OF w(2) l0(2) w(3)] by blast
  have "reads E (JsonBuffer_Get_StringList E) arr (Some (Some l'))"
    using w(2) l0(1) l'(1) E by (simp add: reads_def JsonBuffer_Get_StringList_def get_typed_def elems_def)
  ultimately show "\<exists>c r. puts E (put_string_list E (Some n) l) [(n, c)] \<and> reads E (JsonBuffer_Get_StringList E) c r
      \<and> agree_string_list E l r"
    using ts l'(2) unfolding agree_string_list_def by blast
qed

end
