(* ===== verification/Json_Codec_Objects.thy ===== *)
theory Json_Codec_Objects
  imports Json_Codec_Lists
begin

text \<open>
  The contract \<open>json_codec\<close> for the objects of \<open>src/json_buffer.c\<close>: blocks, events, judgments and
  nuggets. What does not travel is left out of the agreement: the data of a block, the application
  type of an event and the notes of a nugget.
\<close>

section \<open>Optional members\<close>

text \<open>A member that is put when the pointer is not null, as both sides of the code treat it.\<close>
definition opt_agree :: "('a \<Rightarrow> 'b \<Rightarrow> bool) \<Rightarrow> 'a option \<Rightarrow> 'j json_env \<Rightarrow> 'j \<Rightarrow> string \<Rightarrow> 'b option \<Rightarrow> bool" where
  "opt_agree R v E q n r \<longleftrightarrow>
     (case v of None \<Rightarrow> jget E q n = None | Some x \<Rightarrow> jget E q n \<noteq> None \<and> (\<exists>y. r = Some y \<and> R x y))"

lemma opt_agree_None [simp]: "opt_agree R None E q n r \<longleftrightarrow> jget E q n = None"
  by (simp add: opt_agree_def)

lemma opt_agree_Some [simp]: "opt_agree R (Some x) E q n r \<longleftrightarrow> jget E q n \<noteq> None \<and> (\<exists>y. r = Some y \<and> R x y)"
  by (simp add: opt_agree_def)

lemma opt_field:
  assumes "\<And>x. v = Some x \<Longrightarrow>
      \<exists>c r. puts E f [(n, c)] \<and> reads E (g E) c r \<and> (\<exists>y. r = Some y \<and> R x y)"
  shows "field E (put_if (v \<noteq> None) f) n (\<lambda>q. opt_agree R v E q n (g E (Some q) (Some n)))"
proof (cases v)
  case None
  then show ?thesis by (intro field_if) auto
next
  case (Some x)
  with assms obtain c y where "puts E f [(n, c)]" "reads E (g E) c (Some y)" "R x y" by blast
  then show ?thesis using Some
    by (auto simp: field_def put_if_def reads_def intro!: exI [of _ "Some c"])
qed

lemma opt_optional: "opt_agree R v E q n r \<Longrightarrow> \<exists>y. get_optional E q n r = Some y \<and> rel_option R v y"
  by (cases v) (auto simp: get_optional_def)

lemma opt_nested:
  "opt_agree (\<lambda>a r. \<exists>b. r = Some b \<and> R a b) v E q n r \<Longrightarrow>
   \<exists>y. (if jget E q n = None then Some (Some None) else Option.bind r (\<lambda>r. Some (map_option Some r))) = Some (Some y)
     \<and> rel_option R v y"
  by (cases v) auto

section \<open>Blocks\<close>

definition meta_ok :: "'j json_env \<Rightarrow> ntlv_list option \<Rightarrow> bool" where
  "meta_ok E m \<longleftrightarrow> (\<forall>l. m = Some l \<longrightarrow> fit_list E l)"

definition id_ok :: "'j json_env \<Rightarrow> ('ctx, 'md) BlockId option \<Rightarrow> bool" where
  "id_ok E i \<longleftrightarrow> (\<forall>b. i = Some b \<longrightarrow> fit_block_id E b)"

text \<open>A block and its parents have identifiers, and metadata that is fit.\<close>
fun fit_block :: "'j json_env \<Rightarrow> ('ctx, 'md) Block \<Rightarrow> bool" where
  "fit_block E (Block i pid par meta d) \<longleftrightarrow> i \<noteq> None \<and> id_ok E i \<and> id_ok E pid \<and> meta_ok E meta
     \<and> (case par of None \<Rightarrow> True | Some p \<Rightarrow> fit_block E p)"

text \<open>The same block without its data.\<close>
fun block_same :: "'j json_env \<Rightarrow> ('ctx, 'md) Block \<Rightarrow> ('ctx, 'md) Block \<Rightarrow> bool" where
  "block_same E (Block i pid par meta d) (Block i' pid' par' meta' d') \<longleftrightarrow>
     rel_option block_id_same i i' \<and> rel_option block_id_same pid pid' \<and> rel_option (list_same E) meta meta'
     \<and> (case (par, par') of (None, None) \<Rightarrow> True | (Some p, Some p') \<Rightarrow> block_same E p p' | _ \<Rightarrow> False)
     \<and> d' = no_data"

definition agree_block :: "'j json_env \<Rightarrow> ('ctx, 'md) Block \<Rightarrow> ('ctx, 'md) Block option option \<Rightarrow> bool" where
  "agree_block E b r \<longleftrightarrow> (\<exists>b'. r = Some (Some b') \<and> block_same E b b')"

definition put_block where
  "put_block E nm b = JsonBuffer_Put_Block E nm (Some b)"

lemma id_field:
  assumes "env_good E" and "id_ok E pid"
  shows "field E (put_if (pid \<noteq> None) (JsonBuffer_Put_BlockId E (Some n) pid)) n
    (\<lambda>q. opt_agree block_id_same pid E q n (JsonBuffer_Get_BlockId E (Some q) (Some n)))"
proof (rule opt_field)
  fix b assume "pid = Some b"
  then show "\<exists>c r. puts E (JsonBuffer_Put_BlockId E (Some n) pid) [(n, c)] \<and> reads E (JsonBuffer_Get_BlockId E) c r
      \<and> (\<exists>y. r = Some y \<and> block_id_same b y)"
    using json_block_id.codec [OF assms(1), of b n] assms(2)
    by (auto simp: id_ok_def put_block_id_def agree_block_id_def)
qed

lemma meta_field:
  assumes "env_good E" and "meta_ok E meta"
  shows "field E (put_if (meta \<noteq> None) (JsonBuffer_Put_NTLVList E (Some n) meta)) n
    (\<lambda>q. opt_agree (\<lambda>l r. \<exists>l'. r = Some l' \<and> list_same E l l') meta E q n (JsonBuffer_Get_NTLVList E (Some q) (Some n)))"
proof (rule opt_field)
  fix l assume "meta = Some l"
  then show "\<exists>c r. puts E (JsonBuffer_Put_NTLVList E (Some n) meta) [(n, c)] \<and> reads E (JsonBuffer_Get_NTLVList E) c r
      \<and> (\<exists>y. r = Some y \<and> (\<exists>l'. y = Some l' \<and> list_same E l l'))"
    using json_ntlv_list.codec [OF assms(1), of l n] assms(2)
    by (auto simp: meta_ok_def put_list_def agree_list_def)
qed

lemma block_codec:
  fixes b :: "('ctx, 'md) Block"
  assumes E: "env_good E"
  shows "fit_block E b \<Longrightarrow> \<exists>c r. puts E (put_block E (Some n) b) [(n, c)] \<and> reads E (JsonBuffer_Get_Block E) c r \<and> agree_block E b r"
proof (induction b arbitrary: n)
  case (Block i pid par meta d)
  then obtain i0 where i0: "i = Some i0" "fit_block_id E i0" by (auto simp: id_ok_def)
  have ok: "id_ok E pid" "meta_ok E meta" using Block.prems by auto
  have par: "field E (put_if (par \<noteq> None) (JsonBuffer_Put_Block E (Some ''Parent'') par)) ''Parent''
      (\<lambda>q. opt_agree (\<lambda>b r. \<exists>b'. r = Some b' \<and> block_same E b b') par E q ''Parent''
        (JsonBuffer_Get_Block E (Some q) (Some ''Parent'')))"
  proof (rule opt_field)
    fix p assume p: "par = Some p"
    then have "fit_block E p" using Block.prems by simp
    then show "\<exists>c r. puts E (JsonBuffer_Put_Block E (Some ''Parent'') par) [(''Parent'', c)]
        \<and> reads E (JsonBuffer_Get_Block E) c r \<and> (\<exists>y. r = Some y \<and> (\<exists>b'. y = Some b' \<and> block_same E p b'))"
      using Block.IH [of p "''Parent''"] p by (auto simp: agree_block_def put_block_def)
  qed
  note F = fields_Cons [OF json_block_id.member_field [OF E i0(2), of "''Id''"] fields_Cons [OF id_field [OF E ok(1)]
      fields_Cons [OF par fields_Cons [OF meta_field [OF E ok(2), of "''Metadata''"] fields_Nil]]]]
  have pb: "put_block E (Some nm) (Block i pid par meta d) = put_container E (Some nm) (json_object_new_object (e_js E))
      (put_steps [put_block_id E (Some ''Id'') i0, put_if (pid \<noteq> None) (JsonBuffer_Put_BlockId E (Some ''Parent_Id'') pid),
        put_if (par \<noteq> None) (JsonBuffer_Put_Block E (Some ''Parent'') par),
        put_if (meta \<noteq> None) (JsonBuffer_Put_NTLVList E (Some ''Metadata'') meta)])" for nm
    by (simp add: put_block_def put_block_id_def i0(1) del: put_steps.simps)
  have "distinct [''Id'', ''Parent_Id'', ''Parent'', ''Metadata'']" by simp
  from fields_object [OF F E this, folded pb]
  obtain ob where put: "\<forall>nm. puts E (put_block E (Some nm) (Block i pid par meta d)) [(nm, ob)]"
    and ob: "jtype E ob = json_type_object"
    and i: "agree_block_id E i0 (JsonBuffer_Get_BlockId E (Some ob) (Some ''Id'') :: ('ctx, 'md) BlockId option)"
    and P: "opt_agree block_id_same pid E ob ''Parent_Id'' (JsonBuffer_Get_BlockId E (Some ob) (Some ''Parent_Id''))"
      "opt_agree (\<lambda>b r. \<exists>b'. r = Some b' \<and> block_same E b b') par E ob ''Parent''
        (JsonBuffer_Get_Block E (Some ob) (Some ''Parent''))"
      "opt_agree (\<lambda>l r. \<exists>l'. r = Some l' \<and> list_same E l l') meta E ob ''Metadata''
        (JsonBuffer_Get_NTLVList E (Some ob) (Some ''Metadata''))"
    by blast
  obtain i1 where i1: "JsonBuffer_Get_BlockId E (Some ob) (Some ''Id'') = Some i1" "block_id_same i0 i1"
    using i unfolding agree_block_id_def by blast
  obtain pid1 where pid1: "rel_option block_id_same pid pid1"
    "get_optional E ob ''Parent_Id'' (JsonBuffer_Get_BlockId E (Some ob) (Some ''Parent_Id'')) = Some pid1"
    using opt_optional [OF P(1)] by blast
  obtain par1 where par1: "rel_option (block_same E) par par1" "(if jget E ob ''Parent'' = None then Some (Some None)
      else Option.bind (JsonBuffer_Get_Block E (Some ob) (Some ''Parent'')) (\<lambda>r. Some (map_option Some r))) = Some (Some par1)"
    using opt_nested [OF P(2)] by blast
  obtain meta1 where meta1: "rel_option (list_same E) meta meta1" "(if jget E ob ''Metadata'' = None then Some (Some None)
      else Option.bind (JsonBuffer_Get_NTLVList E (Some ob) (Some ''Metadata'')) (\<lambda>r. Some (map_option Some r))) = Some (Some meta1)"
    using opt_nested [OF P(3)] by blast
  have "reads E (JsonBuffer_Get_Block E) ob (Some (Some (Block (Some i1) pid1 par1 meta1 no_data)))"
    unfolding reads_def by (subst JsonBuffer_Get_Block.simps) (simp add: get_typed_def ob E i1(1) pid1(2) par1(2) meta1(2))
  moreover have "block_same E (Block i pid par meta d) (Block (Some i1) pid1 par1 meta1 no_data)"
    using pid1(1) par1(1) meta1(1) i0(1) i1(2) by (cases par; cases par1) simp_all
  ultimately show ?case using put unfolding agree_block_def by blast
qed

interpretation json_block: json_codec put_block JsonBuffer_Get_Block fit_block agree_block
  using block_codec by unfold_locales

section \<open>Events\<close>

definition eid_ok :: "'j json_env \<Rightarrow> EventId option \<Rightarrow> bool" where
  "eid_ok E i \<longleftrightarrow> (\<forall>e. i = Some e \<longrightarrow> fit_event_id E e)"

fun fit_event :: "'j json_env \<Rightarrow> ('ctx, 'md) Event \<Rightarrow> bool" where
  "fit_event E (Event i pid par app blk meta) \<longleftrightarrow> i \<noteq> None \<and> eid_ok E i \<and> eid_ok E pid \<and> meta_ok E meta
     \<and> (case blk of None \<Rightarrow> True | Some b \<Rightarrow> fit_block E b)
     \<and> (case par of None \<Rightarrow> True | Some p \<Rightarrow> fit_event E p)"

text \<open>A null list of metadata and an empty one agree.\<close>
definition meta_same :: "'j json_env \<Rightarrow> ntlv_list option \<Rightarrow> ntlv_list option \<Rightarrow> bool" where
  "meta_same E m m' \<longleftrightarrow> (\<exists>l'. m' = Some l' \<and>
     (case m of None \<Rightarrow> ntlvs (e_uuid_compare E) l' [] | Some l \<Rightarrow> list_same E l l'))"

text \<open>The same event without its application type and without the data of its blocks.\<close>
fun event_same :: "'j json_env \<Rightarrow> ('ctx, 'md) Event \<Rightarrow> ('ctx, 'md) Event \<Rightarrow> bool" where
  "event_same E (Event i pid par app blk meta) (Event i' pid' par' app' blk' meta') \<longleftrightarrow>
     i' = i \<and> pid' = pid \<and> rel_option (block_same E) blk blk' \<and> meta_same E meta meta'
     \<and> (case (par, par') of (None, None) \<Rightarrow> True | (Some p, Some p') \<Rightarrow> event_same E p p' | _ \<Rightarrow> False)
     \<and> app' = no_uuid"

definition agree_event :: "'j json_env \<Rightarrow> ('ctx, 'md) Event \<Rightarrow> ('ctx, 'md) Event option option \<Rightarrow> bool" where
  "agree_event E e r \<longleftrightarrow> (\<exists>e'. r = Some (Some e') \<and> event_same E e e')"

definition put_event where
  "put_event E nm e = JsonBuffer_Put_Event E nm (Some e)"

lemma eid_field:
  assumes "env_good E" and "eid_ok E pid"
  shows "field E (put_if (pid \<noteq> None) (JsonBuffer_Put_EventId E (Some n) pid)) n
    (\<lambda>q. opt_agree (=) pid E q n (JsonBuffer_Get_EventId E (Some q) (Some n)))"
proof (rule opt_field)
  fix b assume "pid = Some b"
  then show "\<exists>c r. puts E (JsonBuffer_Put_EventId E (Some n) pid) [(n, c)] \<and> reads E (JsonBuffer_Get_EventId E) c r
      \<and> (\<exists>y. r = Some y \<and> b = y)"
    using json_event_id.codec [OF assms(1), of b n] assms(2)
    by (auto simp: eid_ok_def put_event_id_def agree_eq_def)
qed

lemma blk_field:
  assumes "env_good E" and "case blk of None \<Rightarrow> True | Some b \<Rightarrow> fit_block E b"
  shows "field E (put_if (blk \<noteq> None) (JsonBuffer_Put_Block E (Some n) blk)) n
    (\<lambda>q. opt_agree (\<lambda>b r. \<exists>b'. r = Some b' \<and> block_same E b b') blk E q n (JsonBuffer_Get_Block E (Some q) (Some n)))"
proof (rule opt_field)
  fix b assume "blk = Some b"
  then show "\<exists>c r. puts E (JsonBuffer_Put_Block E (Some n) blk) [(n, c)] \<and> reads E (JsonBuffer_Get_Block E) c r
      \<and> (\<exists>y. r = Some y \<and> (\<exists>b'. y = Some b' \<and> block_same E b b'))"
    using json_block.codec [OF assms(1), of b n] assms(2) by (auto simp: put_block_def agree_block_def)
qed

lemma opt_meta:
  assumes E: "env_good E" and "opt_agree (\<lambda>l r. \<exists>l'. r = Some l' \<and> list_same E l l') meta E q n r"
  shows "\<exists>m. (if jget E q n \<noteq> None then r else Some (new_metadata (e_uuid_compare E) (e_alloc E))) = Some (Some m)
    \<and> meta_same E meta (Some m)"
proof (cases meta)
  case None
  obtain l where "new_metadata (e_uuid_compare E) (e_alloc E) = Some l" "ntlvs (e_uuid_compare E) l []"
    using new_metadata_good [OF E] .
  then show ?thesis using None assms(2) by (simp add: meta_same_def)
qed (use assms(2) in \<open>auto simp: meta_same_def\<close>)

text \<open>What is read from an object with the given members.\<close>
lemma read_event:
  assumes "env_good E" and "jtype E ob = json_type_object"
    and "JsonBuffer_Get_EventId E (Some ob) (Some ''Id'') = Some i"
    and "get_optional E ob ''Parent_Id'' (JsonBuffer_Get_EventId E (Some ob) (Some ''Parent_Id'')) = Some pid"
    and "(if jget E ob ''Parent'' = None then Some (Some None)
      else Option.bind (JsonBuffer_Get_Event E (Some ob) (Some ''Parent'')) (\<lambda>r. Some (map_option Some r))) = Some (Some par)"
    and "(if jget E ob ''Metadata'' \<noteq> None then JsonBuffer_Get_NTLVList E (Some ob) (Some ''Metadata'')
      else Some (new_metadata (e_uuid_compare E) (e_alloc E))) = Some (Some m)"
    and "(if jget E ob ''Block'' = None then Some (Some None)
      else Option.bind (JsonBuffer_Get_Block E (Some ob) (Some ''Block'')) (\<lambda>r. Some (map_option Some r))) = Some (Some blk)"
  shows "reads E (JsonBuffer_Get_Event E) ob (Some (Some (Event (Some i) pid par no_uuid blk (Some m))))"
  unfolding reads_def
proof (intro allI impI)
  fix q n assume "jget E q n = Some ob"
  then show "JsonBuffer_Get_Event E (Some q) (Some n) = Some (Some (Event (Some i) pid par no_uuid blk (Some m)))"
    using assms(6) by (subst JsonBuffer_Get_Event.simps, cases "jget E ob ''Metadata''")
      (simp_all add: get_typed_def assms(1-5,7))
qed

lemma event_codec:
  fixes e :: "('ctx, 'md) Event"
  assumes E: "env_good E"
  shows "fit_event E e \<Longrightarrow> \<exists>c r. puts E (put_event E (Some n) e) [(n, c)] \<and> reads E (JsonBuffer_Get_Event E) c r \<and> agree_event E e r"
proof (induction e arbitrary: n)
  case (Event i pid par app blk meta)
  then obtain i0 where i0: "i = Some i0" "fit_event_id E i0" by (auto simp: eid_ok_def)
  have ok: "eid_ok E pid" "meta_ok E meta" "case blk of None \<Rightarrow> True | Some b \<Rightarrow> fit_block E b" using Event.prems by auto
  have par: "field E (put_if (par \<noteq> None) (JsonBuffer_Put_Event E (Some ''Parent'') par)) ''Parent''
      (\<lambda>q. opt_agree (\<lambda>b r. \<exists>b'. r = Some b' \<and> event_same E b b') par E q ''Parent''
        (JsonBuffer_Get_Event E (Some q) (Some ''Parent'')))"
  proof (rule opt_field)
    fix p assume p: "par = Some p"
    then have "fit_event E p" using Event.prems by simp
    then show "\<exists>c r. puts E (JsonBuffer_Put_Event E (Some ''Parent'') par) [(''Parent'', c)]
        \<and> reads E (JsonBuffer_Get_Event E) c r \<and> (\<exists>y. r = Some y \<and> (\<exists>b'. y = Some b' \<and> event_same E p b'))"
      using Event.IH [of p "''Parent''"] p by (auto simp: agree_event_def put_event_def)
  qed
  note F = fields_Cons [OF json_event_id.member_field [OF E i0(2), of "''Id''"] fields_Cons [OF eid_field [OF E ok(1)]
      fields_Cons [OF par fields_Cons [OF meta_field [OF E ok(2)] fields_Cons [OF blk_field [OF E ok(3)] fields_Nil]]]]]
  have pe: "put_event E (Some nm) (Event i pid par app blk meta) = put_container E (Some nm) (json_object_new_object (e_js E))
      (put_steps [put_event_id E (Some ''Id'') i0, put_if (pid \<noteq> None) (JsonBuffer_Put_EventId E (Some ''Parent_Id'') pid),
        put_if (par \<noteq> None) (JsonBuffer_Put_Event E (Some ''Parent'') par),
        put_if (meta \<noteq> None) (JsonBuffer_Put_NTLVList E (Some ''Metadata'') meta),
        put_if (blk \<noteq> None) (JsonBuffer_Put_Block E (Some ''Block'') blk)])" for nm
    by (simp add: put_event_def put_event_id_def i0(1) del: put_steps.simps)
  have "distinct [''Id'', ''Parent_Id'', ''Parent'', ''Metadata'', ''Block'']" by simp
  from fields_object [OF F E this, folded pe]
  obtain ob where put: "\<forall>nm. puts E (put_event E (Some nm) (Event i pid par app blk meta)) [(nm, ob)]"
    and ob: "jtype E ob = json_type_object"
    and i: "agree_eq E i0 (JsonBuffer_Get_EventId E (Some ob) (Some ''Id''))"
    and P: "opt_agree (=) pid E ob ''Parent_Id'' (JsonBuffer_Get_EventId E (Some ob) (Some ''Parent_Id''))"
      "opt_agree (\<lambda>b r. \<exists>b'. r = Some b' \<and> event_same E b b') par E ob ''Parent''
        (JsonBuffer_Get_Event E (Some ob) (Some ''Parent''))"
      "opt_agree (\<lambda>l r. \<exists>l'. r = Some l' \<and> list_same E l l') meta E ob ''Metadata''
        (JsonBuffer_Get_NTLVList E (Some ob) (Some ''Metadata''))"
      "opt_agree (\<lambda>b r. \<exists>b'. r = Some b' \<and> block_same E b b') blk E ob ''Block''
        (JsonBuffer_Get_Block E (Some ob) (Some ''Block''))"
    by blast
  have pid1: "get_optional E ob ''Parent_Id'' (JsonBuffer_Get_EventId E (Some ob) (Some ''Parent_Id'')) = Some pid"
    using opt_optional [OF P(1)] by (simp add: option.rel_eq)
  obtain par1 where par1: "rel_option (event_same E) par par1" "(if jget E ob ''Parent'' = None then Some (Some None)
      else Option.bind (JsonBuffer_Get_Event E (Some ob) (Some ''Parent'')) (\<lambda>r. Some (map_option Some r))) = Some (Some par1)"
    using opt_nested [OF P(2)] by blast
  obtain m where m: "(if jget E ob ''Metadata'' \<noteq> None then JsonBuffer_Get_NTLVList E (Some ob) (Some ''Metadata'')
      else Some (new_metadata (e_uuid_compare E) (e_alloc E))) = Some (Some m)" "meta_same E meta (Some m)"
    using opt_meta [OF E P(3)] by blast
  obtain blk1 where blk1: "rel_option (block_same E) blk blk1" "(if jget E ob ''Block'' = None then Some (Some None)
      else Option.bind (JsonBuffer_Get_Block E (Some ob) (Some ''Block'')) (\<lambda>r. Some (map_option Some r))) = Some (Some blk1)"
    using opt_nested [OF P(4)] by blast
  have "reads E (JsonBuffer_Get_Event E) ob (Some (Some (Event (Some i0) pid par1 no_uuid blk1 (Some m))))"
    using read_event [OF E ob _ pid1 par1(2) m(1) blk1(2)] i by (simp add: agree_eq_def)
  moreover have "event_same E (Event i pid par app blk meta) (Event (Some i0) pid par1 no_uuid blk1 (Some m))"
    using par1(1) m(2) blk1(1) i0(1) by (cases par; cases par1) simp_all
  ultimately show ?case using put unfolding agree_event_def by blast
qed

interpretation json_event: json_codec put_event JsonBuffer_Get_Event fit_event agree_event
  using event_codec by unfold_locales

section \<open>Judgments\<close>

definition fit_judgment :: "'j json_env \<Rightarrow> ('ctx, 'md) Judgment \<Rightarrow> bool" where
  "fit_judgment E j \<longleftrightarrow> length (Judgment.uuidNuggetId j) = 16
     \<and> pEventId j \<noteq> None \<and> eid_ok E (pEventId j) \<and> pBlockId j \<noteq> None \<and> id_ok E (pBlockId j)
     \<and> pMetaDataList j \<noteq> None \<and> meta_ok E (pMetaDataList j)"

text \<open>Every field of a judgment travels.\<close>
definition judgment_same :: "'j json_env \<Rightarrow> ('ctx, 'md) Judgment \<Rightarrow> ('ctx, 'md) Judgment \<Rightarrow> bool" where
  "judgment_same E j j' \<longleftrightarrow>
     (\<exists>bid meta. j' = j \<lparr>pBlockId := bid, pMetaDataList := meta\<rparr>
        \<and> rel_option block_id_same (pBlockId j) bid \<and> rel_option (list_same E) (pMetaDataList j) meta)"

lemma judgment_sameI:
  "pBlockId j = Some b \<Longrightarrow> pMetaDataList j = Some l \<Longrightarrow> block_id_same b i \<Longrightarrow> list_same E l m \<Longrightarrow>
   judgment_same E j (j \<lparr>pBlockId := Some i, pMetaDataList := Some m\<rparr>)"
  unfolding judgment_same_def by (rule exI [of _ "Some i"], rule exI [of _ "Some m"]) simp

definition agree_judgment :: "'j json_env \<Rightarrow> ('ctx, 'md) Judgment \<Rightarrow> ('ctx, 'md) Judgment option option \<Rightarrow> bool" where
  "agree_judgment E j r \<longleftrightarrow> (\<exists>j'. r = Some (Some j') \<and> judgment_same E j j')"

definition put_judgment where
  "put_judgment E nm j = JsonBuffer_Put_Judgment E nm (Some j)"

lemma get_then_Some [simp]: "get_then (Some (Some v)) k = k v"
  by (simp add: get_then_def)

lemma judgment_steps:
  assumes "pEventId j = Some e" and "pBlockId j = Some b" and "pMetaDataList j = Some l"
    and "json_object_new_object (e_js E) = Some c"
  shows "put_judgment E (Some nm) j = put_container E (Some nm) (json_object_new_object (e_js E)) (put_steps
          [JsonBuffer_Put_UUID E (Some ''Nugget_ID'') (Judgment.uuidNuggetId j),
           JsonBuffer_Put_uint64_t E (Some ''Seconds'') (Judgment.iSeconds j),
           JsonBuffer_Put_uint64_t E (Some ''Nano_Seconds'') (Judgment.iNanoSecs j),
           put_event_id E (Some ''Event_ID'') e,
           put_block_id E (Some ''Block_ID'') b,
           JsonBuffer_Put_uint8_t E (Some ''Priority'') (iPriority j),
           put_list E (Some ''Metadata'') l,
           JsonBuffer_Put_uint32_t E (Some ''GID'') (iGID j),
           JsonBuffer_Put_uint32_t E (Some ''SID'') (iSID j),
           JsonBuffer_Put_uint32_t E (Some ''Set_SF_Flags'') (Set_SfFlags j),
           JsonBuffer_Put_uint32_t E (Some ''Set_Ent_Flags'') (Set_EntFlags j),
           JsonBuffer_Put_uint32_t E (Some ''Unset_SF_Flags'') (Unset_SfFlags j),
           JsonBuffer_Put_uint32_t E (Some ''Unset_Ent_Flags'') (Unset_EntFlags j),
           JsonBuffer_Put_OptionalString E (Some ''Message'') (sMessage j)])"
  using assms unfolding put_judgment_def JsonBuffer_Put_Judgment_def put_event_id_def put_block_id_def put_list_def
  by (intro ext) (simp add: put_container_def JsonBuffer_Put_JudgmentFields_def del: put_steps.simps split: option.split)

interpretation json_judgment: json_codec put_judgment JsonBuffer_Get_Judgment fit_judgment agree_judgment
proof
  fix E :: "'j json_env" and j :: "('ctx, 'md) Judgment" and n
  assume E: "env_good E" and "fit_judgment E j"
  then obtain e b l where p: "pEventId j = Some e" "pBlockId j = Some b" "pMetaDataList j = Some l"
    and u: "fit_uuid E (Judgment.uuidNuggetId j)" and e: "fit_event_id E e" and b: "fit_block_id E b" and l: "fit_list E l"
    by (auto simp: fit_judgment_def fit_uuid_def eid_ok_def id_ok_def meta_ok_def)
  obtain c where c: "json_object_new_object (e_js E) = Some c" using new_object [OF E] by blast
  note u64 = json_uint64.member_field [OF E fit_anyI] and u32 = json_uint32.member_field [OF E fit_anyI]
  note F = fields_Cons [OF json_uuid.member_field [OF E u] fields_Cons [OF u64 fields_Cons [OF u64
      fields_Cons [OF json_event_id.member_field [OF E e] fields_Cons [OF json_block_id.member_field [OF E b]
      fields_Cons [OF json_uint8.member_field [OF E fit_anyI] fields_Cons [OF json_ntlv_list.member_field [OF E l]
      fields_Cons [OF u32 fields_Cons [OF u32 fields_Cons [OF u32 fields_Cons [OF u32 fields_Cons [OF u32
      fields_Cons [OF u32 fields_Cons [OF optional_string_field [OF E] fields_Nil]]]]]]]]]]]]]]
  have "\<exists>ob. (\<forall>nm. puts E (put_judgment E (Some nm) j) [(nm, ob)]) \<and> jtype E ob = json_type_object \<and>
      agree_eq E (Judgment.uuidNuggetId j) (JsonBuffer_Get_UUID E (Some ob) (Some ''Nugget_ID'')) \<and>
      agree_eq E (Judgment.iSeconds j) (JsonBuffer_Get_uint64_t E (Some ob) (Some ''Seconds'')) \<and>
      agree_eq E (Judgment.iNanoSecs j) (JsonBuffer_Get_uint64_t E (Some ob) (Some ''Nano_Seconds'')) \<and>
      agree_eq E e (JsonBuffer_Get_EventId E (Some ob) (Some ''Event_ID'')) \<and>
      agree_block_id E b (JsonBuffer_Get_BlockId E (Some ob) (Some ''Block_ID'') :: ('ctx, 'md) BlockId option) \<and>
      agree_eq E (iPriority j) (JsonBuffer_Get_uint8_t E (Some ob) (Some ''Priority'')) \<and>
      agree_list E l (JsonBuffer_Get_NTLVList E (Some ob) (Some ''Metadata'')) \<and>
      agree_eq E (iGID j) (JsonBuffer_Get_uint32_t E (Some ob) (Some ''GID'')) \<and>
      agree_eq E (iSID j) (JsonBuffer_Get_uint32_t E (Some ob) (Some ''SID'')) \<and>
      agree_eq E (Set_SfFlags j) (JsonBuffer_Get_uint32_t E (Some ob) (Some ''Set_SF_Flags'')) \<and>
      agree_eq E (Set_EntFlags j) (JsonBuffer_Get_uint32_t E (Some ob) (Some ''Set_Ent_Flags'')) \<and>
      agree_eq E (Unset_SfFlags j) (JsonBuffer_Get_uint32_t E (Some ob) (Some ''Unset_SF_Flags'')) \<and>
      agree_eq E (Unset_EntFlags j) (JsonBuffer_Get_uint32_t E (Some ob) (Some ''Unset_Ent_Flags'')) \<and>
      JsonBuffer_Get_OptionalString E (Some ob) (Some ''Message'') = Some (sMessage j) \<and> True"
    unfolding judgment_steps [OF p c] by (rule fields_object [OF F E]) simp
  then show "\<exists>c r. puts E (put_judgment E (Some n) j) [(n, c)] \<and> reads E (JsonBuffer_Get_Judgment E) c r \<and> agree_judgment E j r"
    using E p unfolding agree_judgment_def agree_eq_def agree_block_id_def agree_list_def
    apply (elim exE conjE)
    subgoal for ob i m
      by (rule exI [of _ ob], rule exI [of _ "Some (Some (j \<lparr>pBlockId := Some i, pMetaDataList := Some m\<rparr>))"])
        (auto simp: reads_def JsonBuffer_Get_Judgment_def get_typed_def intro: judgment_sameI)
    done
qed

section \<open>Nuggets\<close>

definition fit_nugget :: "'j json_env \<Rightarrow> Nugget \<Rightarrow> bool" where
  "fit_nugget E g \<longleftrightarrow> length (Nugget.uuidNuggetId g) = 16 \<and> length (uuidApplicationType g) = 16 \<and> length (uuidNuggetType g) = 16"

text \<open>The notes do not travel.\<close>
definition agree_nugget :: "'j json_env \<Rightarrow> Nugget \<Rightarrow> Nugget option \<Rightarrow> bool" where
  "agree_nugget E g r \<longleftrightarrow> r = Some (g \<lparr>sNotes := None\<rparr>)"

definition put_nugget where
  "put_nugget E nm g = JsonBuffer_Put_Nugget E nm (Some g)"

interpretation json_nugget: json_codec put_nugget JsonBuffer_Get_Nugget fit_nugget agree_nugget
proof
  fix E :: "'j json_env" and g n
  assume E: "env_good E" and "fit_nugget E g"
  then have u: "fit_uuid E (Nugget.uuidNuggetId g)" "fit_uuid E (uuidApplicationType g)" "fit_uuid E (uuidNuggetType g)"
    by (simp_all add: fit_nugget_def fit_uuid_def)
  note uf = json_uuid.member_field [OF E] and sf = optional_string_field [OF E]
  note F = fields_Cons [OF uf [OF u(1)] fields_Cons [OF uf [OF u(2)] fields_Cons [OF uf [OF u(3)]
      fields_Cons [OF sf fields_Cons [OF sf fields_Cons [OF sf fields_Nil]]]]]]
  have "\<exists>ob. (\<forall>nm. puts E (put_nugget E (Some nm) g) [(nm, ob)]) \<and> jtype E ob = json_type_object \<and>
      agree_eq E (Nugget.uuidNuggetId g) (JsonBuffer_Get_UUID E (Some ob) (Some ''Nugget_ID'')) \<and>
      agree_eq E (uuidApplicationType g) (JsonBuffer_Get_UUID E (Some ob) (Some ''App_Type'')) \<and>
      agree_eq E (uuidNuggetType g) (JsonBuffer_Get_UUID E (Some ob) (Some ''Nugget_Type'')) \<and>
      JsonBuffer_Get_OptionalString E (Some ob) (Some ''Name'') = Some (Nugget.sName g) \<and>
      JsonBuffer_Get_OptionalString E (Some ob) (Some ''Location'') = Some (sLocation g) \<and>
      JsonBuffer_Get_OptionalString E (Some ob) (Some ''Contact'') = Some (sContact g) \<and> True"
    unfolding put_nugget_def JsonBuffer_Put_Nugget_def Option.bind.bind_lunit
    by (rule fields_object [OF F E]) simp
  then show "\<exists>c r. puts E (put_nugget E (Some n) g) [(n, c)] \<and> reads E (JsonBuffer_Get_Nugget E) c r \<and> agree_nugget E g r"
    using E unfolding agree_nugget_def agree_eq_def
    by (auto simp: reads_def JsonBuffer_Get_Nugget_def get_typed_def)
qed

end
