(* ===== verification/Message_Codec.thy ===== *)
theory Message_Codec
  imports Messages_CnC Json_Codec_Objects
begin

text \<open>
  The contract of the conversions of a message: a body that is fit is serialised, and the text is
  deserialised to a body that is the same but for what does not travel. The contract is a locale with
  an interpretation for every kind of body.
\<close>

declare put_steps.simps [simp del]

section \<open>Bytes and identifiers in arrays\<close>

text \<open>The localities of an inspection.\<close>
definition put_bytes :: "'j json_env \<Rightarrow> string option \<Rightarrow> byte list \<Rightarrow> 'j put" where
  "put_bytes E nm bs = JsonBuffer_Put_uint8List E nm bs (of_nat (length bs))"

definition fit_bytes :: "'j json_env \<Rightarrow> byte list \<Rightarrow> bool" where
  "fit_bytes E bs \<longleftrightarrow> length bs < 2 ^ 32"

definition agree_bytes :: "'j json_env \<Rightarrow> byte list \<Rightarrow> (byte list \<times> u32) option \<Rightarrow> bool" where
  "agree_bytes E bs r \<longleftrightarrow> r = Some (bs, of_nat (length bs))"

lemma unat_of_length: "n < 2 ^ 32 \<Longrightarrow> unat (of_nat n :: u32) = n"
  by (simp add: unsigned_of_nat take_bit_eq_mod)

lemma new_int:
  assumes "env_good E"
  obtains c where "json_object_new_int (e_js E) v = Some c" and "jtype E c = json_type_int"
    and "json_object_get_int (e_js E) c = v"
proof -
  have "json_object_new_int (e_js E) v \<noteq> None" using assms unfolding env_good_def env_works_def by blast
  then obtain c where c: "json_object_new_int (e_js E) v = Some c" by blast
  then show thesis using env_good_jsonc [OF assms] that by (simp add: jsonc_ok_def)
qed

lemma put_uint8_loop_elems:
  assumes E: "env_good E" and "elems E arr cs0"
  shows "\<exists>arr' cs. put_uint8_loop E bs arr = (True, arr') \<and> elems E arr' (cs0 @ cs)
    \<and> list_all2 (\<lambda>c b. jtype E c = json_type_int \<and> of_int (json_object_get_int (e_js E) c) = (b :: byte)) cs bs"
  using assms(2)
proof (induction bs arbitrary: arr cs0)
  case Nil
  then show ?case by (auto intro: exI [of _ "[]"])
next
  case (Cons b bs)
  obtain c where c: "json_object_new_int (e_js E) (uint b) = Some c" "jtype E c = json_type_int"
    "json_object_get_int (e_js E) c = uint b" using new_int [OF E] .
  from Cons.IH [OF elems_add [OF E Cons.prems, of c]]
  obtain arr' cs where r: "put_uint8_loop E bs (json_object_array_add (e_js E) arr c) = (True, arr')"
    "elems E arr' ((cs0 @ [c]) @ cs)"
    "list_all2 (\<lambda>c b. jtype E c = json_type_int \<and> of_int (json_object_get_int (e_js E) c) = b) cs bs" by blast
  then show ?case using c by (intro exI [of _ arr'] exI [of _ "c # cs"]) simp
qed

text \<open>A loop that reads one value from every element.\<close>
lemma read_elems:
  assumes "elems E arr (cs0 @ cs)" and "list_all2 R cs xs"
    and "\<And>arr. loop E arr [] = Some []"
    and "\<And>arr i is c x ys. json_object_array_get_idx (e_js E) arr i = Some c \<Longrightarrow> R c x \<Longrightarrow> loop E arr is = Some ys \<Longrightarrow>
      loop E arr (i # is) = Some (x # ys)"
  shows "loop E arr [length cs0..<length (cs0 @ cs)] = Some xs"
  using assms(2,1)
proof (induction arbitrary: cs0 rule: list_all2_induct)
  case Nil
  then show ?case using assms(3) by simp
next
  case (Cons c cs x xs)
  have "json_object_array_get_idx (e_js E) arr (length cs0) = Some c"
    using Cons.prems by (simp add: elems_def nth_append)
  moreover have "loop E arr [length (cs0 @ [c])..<length ((cs0 @ [c]) @ cs)] = Some xs"
    by (rule Cons.IH) (use Cons.prems in simp)
  moreover have "[length cs0..<length (cs0 @ c # cs)] = length cs0 # [length (cs0 @ [c])..<length ((cs0 @ [c]) @ cs)]"
    by (simp add: upt_rec)
  ultimately show ?case using assms(4) Cons.hyps(1) by simp
qed

interpretation json_bytes: json_codec put_bytes JsonBuffer_Get_uint8List fit_bytes agree_bytes
proof
  fix E :: "'j json_env" and bs n
  assume E: "env_good E" and "fit_bytes E bs"
  then have l: "unat (of_nat (length bs) :: u32) = length bs" by (simp add: fit_bytes_def unat_of_length)
  obtain a where a: "json_object_new_array (e_js E) = Some a" "elems E a []" using new_array [OF E] .
  obtain arr cs where w: "put_uint8_loop E bs a = (True, arr)" "elems E arr cs"
    "list_all2 (\<lambda>c b. jtype E c = json_type_int \<and> of_int (json_object_get_int (e_js E) c) = b) cs bs"
    using put_uint8_loop_elems [OF E a(2), of bs] by auto
  have "puts E (put_bytes E (Some n) bs) [(n, arr)]"
    unfolding put_bytes_def JsonBuffer_Put_uint8List_def a(1) by (intro puts_container) (simp add: l w(1))
  moreover have len: "length cs = length bs" using w(3) by (rule list_all2_lengthD)
  have "get_uint8_loop E arr [0..<length bs] = Some bs"
    using read_elems [where loop = get_uint8_loop and ?cs0.0 = "[]", OF _ w(3)] w(2) len by simp
  then have "reads E (JsonBuffer_Get_uint8List E) arr (Some (bs, of_nat (length bs)))"
    using w(2) l len E by (simp add: reads_def JsonBuffer_Get_uint8List_def get_typed_def elems_def)
  ultimately show "\<exists>c r. puts E (put_bytes E (Some n) bs) [(n, c)] \<and> reads E (JsonBuffer_Get_uint8List E) c r \<and> agree_bytes E bs r"
    by (auto simp: agree_bytes_def)
qed

text \<open>The data types of a registration.\<close>
lemma put_types_loop_elems:
  assumes E: "env_good E" and "elems E arr cs0" and "list_all (\<lambda>u. length u = 16) us"
  shows "\<exists>arr' cs. put_types_loop E us arr = Some arr' \<and> elems E arr' (cs0 @ cs)
    \<and> list_all2 (\<lambda>c u. json_object_get_string (e_js E) c = Some (e_uuid_unparse E u) \<and> length u = 16) cs us"
  using assms(2,3)
proof (induction us arbitrary: arr cs0)
  case Nil
  then show ?case by (auto intro: exI [of _ "[]"])
next
  case (Cons u us)
  obtain c where c: "json_object_new_string (e_js E) (e_uuid_unparse E u) = Some c" "jtype E c = json_type_string"
    "json_object_get_string (e_js E) c = Some (e_uuid_unparse E u)" using new_string [OF E] .
  from Cons.IH [OF elems_add [OF E Cons.prems(1), of c]] Cons.prems(2)
  obtain arr' cs where r: "put_types_loop E us (json_object_array_add (e_js E) arr c) = Some arr'"
    "elems E arr' ((cs0 @ [c]) @ cs)"
    "list_all2 (\<lambda>c u. json_object_get_string (e_js E) c = Some (e_uuid_unparse E u) \<and> length u = 16) cs us" by auto
  then show ?case using c Cons.prems(2) by (intro exI [of _ arr'] exI [of _ "c # cs"]) simp
qed

text \<open>The identifiers of a body: as many as it counts.\<close>
definition types_of :: "MessageRegistrationRequest \<Rightarrow> uuid list" where
  "types_of b = (case pDataTypeList b of Some (Live us) \<Rightarrow> us | _ \<Rightarrow> [])"

definition types_ok :: "MessageRegistrationRequest \<Rightarrow> bool" where
  "types_ok b \<longleftrightarrow> length (types_of b) = unat (iDataTypeCount b) \<and> list_all (\<lambda>u. length u = 16) (types_of b)"

lemma types_field:
  assumes E: "env_good E" and b: "types_ok b"
  shows "field E (put_types E b) ''Data_Types'' (\<lambda>q. \<forall>b0. get_types E q b0 =
    Some (True, b0 \<lparr>iDataTypeCount := iDataTypeCount b, pDataTypeList := Some (Live (types_of b))\<rparr>))"
proof -
  let ?us = "types_of b"
  have l: "length ?us = unat (iDataTypeCount b)" using b by (simp add: types_ok_def)
  obtain a where a: "json_object_new_array (e_js E) = Some a" "elems E a []" using new_array [OF E] .
  have us: "list_all (\<lambda>u. length u = 16) ?us" using b by (simp add: types_ok_def)
  obtain arr cs where w: "put_types_loop E ?us a = Some arr" "elems E arr cs"
    "list_all2 (\<lambda>c u. json_object_get_string (e_js E) c = Some (e_uuid_unparse E u) \<and> length u = 16) cs ?us"
    using put_types_loop_elems [OF E a(2) us] by auto
  have len: "length cs = unat (iDataTypeCount b)" using list_all2_lengthD [OF w(3)] l by simp
  have us': "(if iDataTypeCount b = 0 then Some [] else case pDataTypeList b of
      Some (Live us) \<Rightarrow> if length us < unat (iDataTypeCount b) then None else Some (take (unat (iDataTypeCount b)) us)
    | _ \<Rightarrow> None) = Some ?us"
    using l by (auto simp: types_of_def unat_eq_0 split: option.split buffer.split)
  have "puts E (put_types E b) [(''Data_Types'', arr)]"
    unfolding puts_def put_types_def a(1) prod.case option.case us' by (simp add: w(1))
  moreover have "get_types_loop E arr [0..<unat (iDataTypeCount b)] = Some ?us"
    using read_elems [where loop = get_types_loop and ?cs0.0 = "[]", OF _ w(3)] w(2) len env_good_uuid [OF E] by simp
  then have "\<forall>b0. get_types E q b0 =
      Some (True, b0 \<lparr>iDataTypeCount := iDataTypeCount b, pDataTypeList := Some (Live ?us)\<rparr>)"
    if "jget E q ''Data_Types'' = Some arr" for q
    using that w(2) len E by (simp add: get_types_def elems_def Let_def)
  ultimately show ?thesis by (auto simp: field_def intro!: exI [of _ "Some arr"])
qed

section \<open>The contract of a conversion\<close>

definition sent :: "'p Message \<Rightarrow> string \<Rightarrow> 'p Message" where
  "sent m t = m \<lparr>serialized := Some t, m_length := length t\<rparr>"

lemma json_message:
  assumes "fields E f ns P" and E: "env_good E" and "distinct ns" and m: "serialized m = None"
    and r: "\<And>ob. P ob \<Longrightarrow> \<exists>b'. rd ob zero = Some (True, b') \<and> R b'"
  shows "\<exists>t b'. serialize_json E m f = Some (True, sent m t)
    \<and> (shallow t \<longrightarrow> (\<forall>m2. serialized m2 = Some t \<longrightarrow>
         deserialize_json E site m2 zero wrap rd = Some (True, m2 \<lparr>message := Some (wrap b')\<rparr>))) \<and> R b'"
proof -
  obtain c ob where c: "json_object_new_object (e_js E) = Some c" "f (Some c) = Some (True, Some ob)"
    "jtype E ob = json_type_object" "P ob" using fields_body [OF assms(1-3)] by blast
  obtain b' where b': "rd ob zero = Some (True, b')" "R b'" using r [OF c(4)] by blast
  have "json_tokener_parse (e_js E) (json_object_to_json_string (e_js E) ob) = Some ob"
    if "shallow (json_object_to_json_string (e_js E) ob)"
    using env_good_jsonc [OF E] c(3) that by (simp add: jsonc_ok_def)
  then show ?thesis
    using c(1,2) b' E m
    by (intro exI [of _ "json_object_to_json_string (e_js E) ob"] exI [of _ b'])
      (simp add: serialize_json_def Message_SetSerializedJson_def deserialize_json_def sent_def)
qed

text \<open>The calls through the function pointers of a message; a null pointer is not called.\<close>
definition serialize_message :: "'j json_env \<Rightarrow> ('ctx, 'md) msg \<Rightarrow> (bool \<times> ('ctx, 'md) msg) option" where
  "serialize_message E m = do { c \<leftarrow> m_serialize m; call_serialize E c m }"

definition deserialize_message :: "'j json_env \<Rightarrow> ('ctx, 'md) msg \<Rightarrow> (bool \<times> ('ctx, 'md) msg) option" where
  "deserialize_message E m = do { c \<leftarrow> m_deserialize m; call_deserialize E c m }"

definition destroy_message :: "('ctx, 'md) msg \<Rightarrow> ('ctx, 'md) released list option" where
  "destroy_message m = do { c \<leftarrow> m_destroy m; call_destroy c m }"

text \<open>
  A message is serialised by the functions of a kind, and unless the text nests too deep every message with
  it is deserialised to one and the same body, of which \<open>R\<close> holds.
\<close>
definition transfers ::
  "'j json_env \<Rightarrow> codec \<Rightarrow> ('b \<Rightarrow> ('ctx, 'md) payload) \<Rightarrow> ('ctx, 'md) msg \<Rightarrow> ('b \<Rightarrow> bool) \<Rightarrow> bool" where
  "transfers E cd wrap m R \<longleftrightarrow>
     (\<exists>t b'. call_serialize E cd m = Some (True, sent m t)
        \<and> (shallow t \<longrightarrow> (\<forall>m2. serialized m2 = Some t \<longrightarrow> call_deserialize E cd m2 = Some (True, m2 \<lparr>message := Some (wrap b')\<rparr>)))
        \<and> R b')"

locale message_codec =
  fixes cd :: codec
    and wrap :: "'b \<Rightarrow> ('ctx, 'md) payload"
    and fit :: "'j json_env \<Rightarrow> 'b \<Rightarrow> bool"
    and same :: "'j json_env \<Rightarrow> 'b \<Rightarrow> 'b \<Rightarrow> bool"
  assumes transfer: "env_good E \<Longrightarrow> fit E b \<Longrightarrow> message m = Some (wrap b) \<Longrightarrow> serialized m = None \<Longrightarrow>
    transfers E cd wrap m (same E b)"
begin

text \<open>The text of one message makes the same body in every message with the functions of the kind.\<close>
lemma exchange:
  assumes "env_good E" and "fit E b" and "message m = Some (wrap b)" and "serialized m = None" and "m_serialize m = Some cd"
  shows "\<exists>t p'. serialize_message E m = Some (True, sent m t)
    \<and> (shallow t \<longrightarrow> (\<forall>m2. serialized m2 = Some t \<and> m_deserialize m2 = Some cd \<longrightarrow>
         deserialize_message E m2 = Some (True, m2 \<lparr>message := Some p'\<rparr>)))
    \<and> (\<exists>b'. p' = wrap b' \<and> same E b b')"
  using transfer [OF assms(1-4)] assms(5) by (auto simp: transfers_def serialize_message_def deserialize_message_def)

end

end
