(* ===== verification/Message_Bodies.thy ===== *)
theory Message_Bodies
  imports Message_Codec
begin

text \<open>
  The contract of the conversions for the body of every kind of message. For each kind there is what
  makes a body fit to travel and how the received body relates to the one that was sent.
\<close>

section \<open>Members that are pointers\<close>

text \<open>A pointer that is not null, to an object that is fit.\<close>
definition fit_ptr :: "('j json_env \<Rightarrow> 'a \<Rightarrow> bool) \<Rightarrow> 'j json_env \<Rightarrow> 'a option \<Rightarrow> bool" where
  "fit_ptr fit E p \<longleftrightarrow> (\<exists>x. p = Some x \<and> fit E x)"

lemma fit_ptrE: "fit_ptr fit E p \<Longrightarrow> (\<And>x. p = Some x \<Longrightarrow> fit E x \<Longrightarrow> thesis) \<Longrightarrow> thesis"
  by (auto simp: fit_ptr_def)

text \<open>What is read for a pointer: an object that is the same.\<close>
definition got :: "('a \<Rightarrow> 'a \<Rightarrow> bool) \<Rightarrow> 'a option \<Rightarrow> 'a option \<Rightarrow> bool" where
  "got R p r \<longleftrightarrow> (\<exists>y. r = Some y \<and> rel_option R p (Some y))"

definition got_opt :: "('a \<Rightarrow> 'a \<Rightarrow> bool) \<Rightarrow> 'a option \<Rightarrow> 'a option option \<Rightarrow> bool" where
  "got_opt R p r \<longleftrightarrow> (\<exists>y. r = Some (Some y) \<and> rel_option R p (Some y))"

definition uuid_list_same :: "'j json_env \<Rightarrow> uuid_list \<Rightarrow> uuid_list \<Rightarrow> bool" where
  "uuid_list_same E l l' \<longleftrightarrow> (\<exists>es. uuids (e_uuid_compare E) l es \<and> uuids (e_uuid_compare E) l' es)"

definition string_list_same :: "string_list \<Rightarrow> string_list \<Rightarrow> bool" where
  "string_list_same l l' \<longleftrightarrow> (\<exists>ts. strings l ts \<and> strings l' ts)"

text \<open>The same nugget without its notes.\<close>
definition nugget_same :: "Nugget \<Rightarrow> Nugget \<Rightarrow> bool" where
  "nugget_same g g' \<longleftrightarrow> g' = g \<lparr>sNotes := None\<rparr>"

lemma event_member:
  assumes "env_good E" and "fit_ptr fit_event E p"
  shows "field E (JsonBuffer_Put_Event E (Some n) p) n (\<lambda>q. got_opt (event_same E) p (JsonBuffer_Get_Event E (Some q) (Some n)))"
  using assms(2) by (rule fit_ptrE)
    (use json_event.member_field [OF assms(1)] in \<open>auto simp: got_opt_def put_event_def agree_event_def elim: field_mono\<close>)

lemma block_member:
  assumes "env_good E" and "fit_ptr fit_block E p"
  shows "field E (JsonBuffer_Put_Block E (Some n) p) n (\<lambda>q. got_opt (block_same E) p (JsonBuffer_Get_Block E (Some q) (Some n)))"
  using assms(2) by (rule fit_ptrE)
    (use json_block.member_field [OF assms(1)] in \<open>auto simp: got_opt_def put_block_def agree_block_def elim: field_mono\<close>)

lemma judgment_member:
  assumes "env_good E" and "fit_ptr fit_judgment E p"
  shows "field E (JsonBuffer_Put_Judgment E (Some n) p) n
    (\<lambda>q. got_opt (judgment_same E) p (JsonBuffer_Get_Judgment E (Some q) (Some n)))"
  using assms(2) by (rule fit_ptrE)
    (use json_judgment.member_field [OF assms(1)] in \<open>auto simp: got_opt_def put_judgment_def agree_judgment_def elim: field_mono\<close>)

lemma metadata_member:
  assumes "env_good E" and "fit_ptr fit_list E p"
  shows "field E (JsonBuffer_Put_NTLVList E (Some n) p) n
    (\<lambda>q. got_opt (list_same E) p (JsonBuffer_Get_NTLVList E (Some q) (Some n)))"
  using assms(2) by (rule fit_ptrE)
    (use json_ntlv_list.member_field [OF assms(1)] in \<open>auto simp: got_opt_def put_list_def agree_list_def elim: field_mono\<close>)

lemma uuids_member:
  assumes "env_good E" and "fit_ptr fit_uuid_list E p"
  shows "field E (JsonBuffer_Put_UUIDList E (Some n) p) n
    (\<lambda>q. got_opt (uuid_list_same E) p (JsonBuffer_Get_UUIDList E (Some q) (Some n)))"
  using assms(2) by (rule fit_ptrE)
    (use json_uuid_list.member_field [OF assms(1)] in
      \<open>auto simp: got_opt_def put_uuid_list_def agree_uuid_list_def uuid_list_same_def elim!: field_mono\<close>)

lemma strings_member:
  assumes "env_good E" and "fit_ptr fit_string_list E p"
  shows "field E (JsonBuffer_Put_StringList E (Some n) p) n
    (\<lambda>q. got_opt string_list_same p (JsonBuffer_Get_StringList E (Some q) (Some n)))"
  using assms(2) by (rule fit_ptrE)
    (use json_string_list.member_field [OF assms(1)] in
      \<open>auto simp: got_opt_def put_string_list_def agree_string_list_def string_list_same_def elim!: field_mono\<close>)

lemma block_id_member:
  assumes "env_good E" and "fit_ptr fit_block_id E p"
  shows "field E (JsonBuffer_Put_BlockId E (Some n) p) n (\<lambda>q. got block_id_same p (JsonBuffer_Get_BlockId E (Some q) (Some n)))"
  using assms(2) by (rule fit_ptrE)
    (use json_block_id.member_field [OF assms(1)] in \<open>auto simp: got_def put_block_id_def agree_block_id_def elim: field_mono\<close>)

lemma event_id_member:
  assumes "env_good E" and "fit_ptr fit_event_id E p"
  shows "field E (JsonBuffer_Put_EventId E (Some n) p) n (\<lambda>q. got (=) p (JsonBuffer_Get_EventId E (Some q) (Some n)))"
  using assms(2) by (rule fit_ptrE)
    (use json_event_id.member_field [OF assms(1)] in \<open>auto simp: got_def put_event_id_def agree_eq_def elim: field_mono\<close>)

lemma nugget_member:
  assumes "env_good E" and "fit_ptr fit_nugget E p"
  shows "field E (JsonBuffer_Put_Nugget E (Some n) p) n (\<lambda>q. got nugget_same p (JsonBuffer_Get_Nugget E (Some q) (Some n)))"
  using assms(2) by (rule fit_ptrE)
    (use json_nugget.member_field [OF assms(1)] in \<open>auto simp: got_def put_nugget_def agree_nugget_def nugget_same_def elim: field_mono\<close>)

lemma text_member:
  assumes "env_good E" and "p \<noteq> None"
  shows "field E (JsonBuffer_Put_String E (Some n) p) n (\<lambda>q. JsonBuffer_Get_String E (Some q) (Some n) = p)"
  using assms(2) json_string.member_field [OF assms(1) fit_anyI, of n "the p"]
  by (auto simp: put_text_def agree_eq_def elim: field_mono)

text \<open>A text that is put when there is one.\<close>
lemma text_if_member:
  assumes "env_good E"
  shows "field E (put_if (p \<noteq> None) (JsonBuffer_Put_String E (Some n) p)) n (\<lambda>q. JsonBuffer_Get_String E (Some q) (Some n) = p)"
proof (rule field_if)
  assume "p \<noteq> None"
  then show "field E (JsonBuffer_Put_String E (Some n) p) n (\<lambda>q. JsonBuffer_Get_String E (Some q) (Some n) = p)"
    by (rule text_member [OF assms])
qed (auto simp: JsonBuffer_Get_String_def get_typed_def)

text \<open>Members that are numbers and identifiers.\<close>
lemma scalar_member:
  assumes "env_good E"
  shows "field E (JsonBuffer_Put_uint64_t E (Some n) a) n (\<lambda>q. JsonBuffer_Get_uint64_t E (Some q) (Some n) = Some a)"
    and "field E (JsonBuffer_Put_uint32_t E (Some n) b) n (\<lambda>q. JsonBuffer_Get_uint32_t E (Some q) (Some n) = Some b)"
    and "field E (JsonBuffer_Put_uint16_t E (Some n) c) n (\<lambda>q. JsonBuffer_Get_uint16_t E (Some q) (Some n) = Some c)"
    and "field E (JsonBuffer_Put_uint8_t E (Some n) d) n (\<lambda>q. JsonBuffer_Get_uint8_t E (Some q) (Some n) = Some d)"
  using json_uint64.member_field [OF assms fit_anyI] json_uint32.member_field [OF assms fit_anyI]
    json_uint16.member_field [OF assms fit_anyI] json_uint8.member_field [OF assms fit_anyI]
  by (simp_all add: agree_eq_def)

lemma uuid_member:
  assumes "env_good E" and "length u = 16"
  shows "field E (JsonBuffer_Put_UUID E (Some n) u) n (\<lambda>q. JsonBuffer_Get_UUID E (Some q) (Some n) = Some u)"
  using json_uuid.member_field [OF assms(1), of u n] assms(2) by (simp add: agree_eq_def fit_uuid_def)

lemmas into_simps = into_def into_opt_def got_def got_opt_def

lemmas transfers_simps = transfers_def call_serialize_def call_deserialize_def codec.case option.case payload.case

section \<open>Blocks, requests and judgments\<close>

definition fit_block_submission :: "'j json_env \<Rightarrow> ('ctx, 'md) MessageBlockSubmission \<Rightarrow> bool" where
  "fit_block_submission E b \<longleftrightarrow> fit_ptr fit_event E (pEvent b)"

definition block_submission_same :: "'j json_env \<Rightarrow> ('ctx, 'md) MessageBlockSubmission \<Rightarrow> ('ctx, 'md) MessageBlockSubmission \<Rightarrow> bool" where
  "block_submission_same E b b' \<longleftrightarrow> b' = b \<lparr>pEvent := pEvent b'\<rparr>
     \<and> rel_option (event_same E) (pEvent b) (pEvent b')"

interpretation block_submission_message: message_codec C_Block P_Block fit_block_submission block_submission_same
proof
  fix E :: "'j json_env" and b :: "('ctx, 'md) MessageBlockSubmission" and m :: "('ctx, 'md) msg"
  assume E: "env_good E" and "fit_block_submission E b" and m: "message m = Some (P_Block b)" "serialized m = None"
  note b = this(2) [unfolded fit_block_submission_def] and sc = scalar_member [OF E]
  note F = fields_Cons [OF sc(2)
      fields_Cons [OF event_member [OF E b]
      fields_Cons [OF sc(4)
      fields_Nil]]]
  show "transfers E C_Block P_Block m (block_submission_same E b)"
    unfolding transfers_simps BlockSubmission_Serialize_def BlockSubmission_Deserialize_def m(1)
    by (rule json_message [OF F E _ m(2)])
      (auto simp: into_simps block_submission_same_def no_block_submission_def intro!: MessageBlockSubmission.equality)
qed

definition fit_cache_req :: "'j json_env \<Rightarrow> ('ctx, 'md) MessageCacheReq \<Rightarrow> bool" where
  "fit_cache_req E b \<longleftrightarrow> length (uuidRequestor b) = 16 \<and> fit_ptr fit_block_id E (MessageCacheReq.pId b)"

definition cache_req_same :: "'j json_env \<Rightarrow> ('ctx, 'md) MessageCacheReq \<Rightarrow> ('ctx, 'md) MessageCacheReq \<Rightarrow> bool" where
  "cache_req_same E b b' \<longleftrightarrow> b' = b \<lparr>MessageCacheReq.pId := MessageCacheReq.pId b'\<rparr>
     \<and> rel_option block_id_same (MessageCacheReq.pId b) (MessageCacheReq.pId b')"

interpretation cache_req_message: message_codec C_CacheReq P_CacheReq fit_cache_req cache_req_same
proof
  fix E :: "'j json_env" and b :: "('ctx, 'md) MessageCacheReq" and m :: "('ctx, 'md) msg"
  assume E: "env_good E" and "fit_cache_req E b" and m: "message m = Some (P_CacheReq b)" "serialized m = None"
  note b = this(2) [unfolded fit_cache_req_def] and sc = scalar_member [OF E]
  note F = fields_Cons [OF uuid_member [OF E conjunct1 [OF b]]
      fields_Cons [OF block_id_member [OF E conjunct2 [OF b]]
      fields_Nil]]
  show "transfers E C_CacheReq P_CacheReq m (cache_req_same E b)"
    unfolding transfers_simps CacheReq_Serialize_def CacheReq_Deserialize_def m(1)
    by (rule json_message [OF F E _ m(2)])
      (auto simp: into_simps cache_req_same_def no_cache_req_def intro!: MessageCacheReq.equality)
qed

definition fit_cache_resp :: "'j json_env \<Rightarrow> ('ctx, 'md) MessageCacheResp \<Rightarrow> bool" where
  "fit_cache_resp E b \<longleftrightarrow> fit_ptr fit_block_id E (MessageCacheResp.pId b)"

definition cache_resp_same :: "'j json_env \<Rightarrow> ('ctx, 'md) MessageCacheResp \<Rightarrow> ('ctx, 'md) MessageCacheResp \<Rightarrow> bool" where
  "cache_resp_same E b b' \<longleftrightarrow> b' = b \<lparr>MessageCacheResp.pId := MessageCacheResp.pId b'\<rparr>
     \<and> rel_option block_id_same (MessageCacheResp.pId b) (MessageCacheResp.pId b')"

interpretation cache_resp_message: message_codec C_CacheResp P_CacheResp fit_cache_resp cache_resp_same
proof
  fix E :: "'j json_env" and b :: "('ctx, 'md) MessageCacheResp" and m :: "('ctx, 'md) msg"
  assume E: "env_good E" and "fit_cache_resp E b" and m: "message m = Some (P_CacheResp b)" "serialized m = None"
  note b = this(2) [unfolded fit_cache_resp_def] and sc = scalar_member [OF E]
  note F = fields_Cons [OF block_id_member [OF E b]
      fields_Cons [OF sc(2)
      fields_Cons [OF sc(2)
      fields_Nil]]]
  show "transfers E C_CacheResp P_CacheResp m (cache_resp_same E b)"
    unfolding transfers_simps CacheResp_Serialize_def CacheResp_Deserialize_def m(1)
    by (rule json_message [OF F E _ m(2)])
      (auto simp: into_simps cache_resp_same_def no_cache_resp_def intro!: MessageCacheResp.equality)
qed

definition fit_judgment_submission :: "'j json_env \<Rightarrow> ('ctx, 'md) MessageJudgmentSubmission \<Rightarrow> bool" where
  "fit_judgment_submission E b \<longleftrightarrow> fit_ptr fit_judgment E (pJudgment b)"

definition judgment_submission_same :: "'j json_env \<Rightarrow> ('ctx, 'md) MessageJudgmentSubmission \<Rightarrow> ('ctx, 'md) MessageJudgmentSubmission \<Rightarrow> bool" where
  "judgment_submission_same E b b' \<longleftrightarrow> b' = b \<lparr>pJudgment := pJudgment b'\<rparr>
     \<and> rel_option (judgment_same E) (pJudgment b) (pJudgment b')"

interpretation judgment_submission_message: message_codec C_Judgment P_Judgment fit_judgment_submission judgment_submission_same
proof
  fix E :: "'j json_env" and b :: "('ctx, 'md) MessageJudgmentSubmission" and m :: "('ctx, 'md) msg"
  assume E: "env_good E" and "fit_judgment_submission E b" and m: "message m = Some (P_Judgment b)" "serialized m = None"
  note b = this(2) [unfolded fit_judgment_submission_def] and sc = scalar_member [OF E]
  note F = fields_Cons [OF sc(4)
      fields_Cons [OF judgment_member [OF E b]
      fields_Nil]]
  show "transfers E C_Judgment P_Judgment m (judgment_submission_same E b)"
    unfolding transfers_simps JudgmentSubmission_Serialize_def JudgmentSubmission_Deserialize_def m(1)
    by (rule json_message [OF F E _ m(2)])
      (auto simp: into_simps judgment_submission_same_def no_judgment_submission_def intro!: MessageJudgmentSubmission.equality)
qed

section \<open>Inspections\<close>

definition localities :: "('ctx, 'md) MessageInspectionSubmission \<Rightarrow> byte list" where
  "localities b = (case localityList b of None \<Rightarrow> [] | Some ls \<Rightarrow> ls)"

definition fit_inspection :: "'j json_env \<Rightarrow> ('ctx, 'md) MessageInspectionSubmission \<Rightarrow> bool" where
  "fit_inspection E b \<longleftrightarrow> fit_ptr fit_event_id E (eventId b) \<and> fit_ptr fit_list E (pEventMetadata b)
     \<and> fit_ptr fit_block E (pBlock b) \<and> length (localities b) = unat (localityCount b)"

text \<open>A list without entries is received as a null pointer.\<close>
definition inspection_same ::
  "'j json_env \<Rightarrow> ('ctx, 'md) MessageInspectionSubmission \<Rightarrow> ('ctx, 'md) MessageInspectionSubmission \<Rightarrow> bool" where
  "inspection_same E b b' \<longleftrightarrow> b' = b \<lparr>pBlock := pBlock b', pEventMetadata := pEventMetadata b',
       localityList := (if localityCount b = 0 then None else localityList b)\<rparr>
     \<and> rel_option (block_same E) (pBlock b) (pBlock b') \<and> rel_option (list_same E) (pEventMetadata b) (pEventMetadata b')"

lemma localities_member:
  assumes E: "env_good E" and "length (localities b) = unat (localityCount b)"
  shows "field E (JsonBuffer_Put_uint8List E (Some n) (case localityList b of None \<Rightarrow> [] | Some ls \<Rightarrow> ls) (localityCount b)) n
    (\<lambda>q. JsonBuffer_Get_uint8List E (Some q) (Some n) = Some (localities b, localityCount b))"
proof -
  have "fit_bytes E (localities b)" using assms(2) unat_less_32 [of "localityCount b"] by (simp add: fit_bytes_def)
  from json_bytes.member_field [OF E this, of n] assms(2) show ?thesis
    by (simp add: put_bytes_def agree_bytes_def localities_def)
qed

interpretation inspection_message: message_codec C_Inspection P_Inspection fit_inspection inspection_same
proof
  fix E :: "'j json_env" and b :: "('ctx, 'md) MessageInspectionSubmission" and m :: "('ctx, 'md) msg"
  assume E: "env_good E" and "fit_inspection E b" and m: "message m = Some (P_Inspection b)" "serialized m = None"
  then have b: "fit_ptr fit_event_id E (eventId b)" "fit_ptr fit_list E (pEventMetadata b)" "fit_ptr fit_block E (pBlock b)"
    "length (localities b) = unat (localityCount b)" by (simp_all add: fit_inspection_def)
  note F = fields_Cons [OF scalar_member(2) [OF E] fields_Cons [OF event_id_member [OF E b(1)]
      fields_Cons [OF metadata_member [OF E b(2)] fields_Cons [OF block_member [OF E b(3)]
      fields_Cons [OF localities_member [OF E b(4)] fields_Nil]]]]]
  have "localityCount b \<noteq> 0 \<Longrightarrow> Some (localities b) = localityList b"
    using b(4) by (auto simp: localities_def unat_eq_0 split: option.splits)
  then show "transfers E C_Inspection P_Inspection m (inspection_same E b)"
    unfolding transfers_simps InspectionSubmission_Serialize_def InspectionSubmission_Deserialize_def m(1)
    by (intro json_message [OF F E _ m(2)])
      (auto simp: into_simps inspection_same_def no_inspection_def option.rel_eq intro!: MessageInspectionSubmission.equality)
qed

section \<open>Output\<close>

definition fit_alert_primary :: "'j json_env \<Rightarrow> ('ctx, 'md) MessageAlertPrimary \<Rightarrow> bool" where
  "fit_alert_primary E b \<longleftrightarrow> fit_ptr fit_nugget E (MessageAlertPrimary.nugget b) \<and> fit_ptr fit_block E (MessageAlertPrimary.block b)
     \<and> fit_ptr fit_event E (MessageAlertPrimary.event b) \<and> fit_ptr fit_list E (metadata b)"

definition alert_primary_same :: "'j json_env \<Rightarrow> ('ctx, 'md) MessageAlertPrimary \<Rightarrow> ('ctx, 'md) MessageAlertPrimary \<Rightarrow> bool" where
  "alert_primary_same E b b' \<longleftrightarrow> b' = b \<lparr>MessageAlertPrimary.nugget := MessageAlertPrimary.nugget b', MessageAlertPrimary.block := MessageAlertPrimary.block b', MessageAlertPrimary.event := MessageAlertPrimary.event b', metadata := metadata b'\<rparr>
     \<and> rel_option nugget_same (MessageAlertPrimary.nugget b) (MessageAlertPrimary.nugget b')
     \<and> rel_option (block_same E) (MessageAlertPrimary.block b) (MessageAlertPrimary.block b')
     \<and> rel_option (event_same E) (MessageAlertPrimary.event b) (MessageAlertPrimary.event b')
     \<and> rel_option (list_same E) (metadata b) (metadata b')"

interpretation alert_primary_message: message_codec C_AlertPrimary P_AlertPrimary fit_alert_primary alert_primary_same
proof
  fix E :: "'j json_env" and b :: "('ctx, 'md) MessageAlertPrimary" and m :: "('ctx, 'md) msg"
  assume E: "env_good E" and "fit_alert_primary E b" and m: "message m = Some (P_AlertPrimary b)" "serialized m = None"
  note b = this(2) [unfolded fit_alert_primary_def] and sc = scalar_member [OF E]
  note F = fields_Cons [OF nugget_member [OF E conjunct1 [OF b]]
      fields_Cons [OF block_member [OF E conjunct1 [OF conjunct2 [OF b]]]
      fields_Cons [OF event_member [OF E conjunct1 [OF conjunct2 [OF conjunct2 [OF b]]]]
      fields_Cons [OF text_if_member [OF E]
      fields_Cons [OF sc(4)
      fields_Cons [OF sc(1)
      fields_Cons [OF sc(1)
      fields_Cons [OF sc(2)
      fields_Cons [OF sc(2)
      fields_Cons [OF sc(2)
      fields_Cons [OF sc(2)
      fields_Cons [OF sc(2)
      fields_Cons [OF sc(2)
      fields_Cons [OF metadata_member [OF E conjunct2 [OF conjunct2 [OF conjunct2 [OF b]]]]
      fields_Nil]]]]]]]]]]]]]]
  show "transfers E C_AlertPrimary P_AlertPrimary m (alert_primary_same E b)"
    unfolding transfers_simps AlertPrimary_Serialize_def AlertPrimary_Deserialize_def m(1)
    by (rule json_message [OF F E _ m(2)])
      (auto simp: into_simps alert_primary_same_def no_alert_primary_def intro!: MessageAlertPrimary.equality)
qed

definition fit_alert_child :: "'j json_env \<Rightarrow> ('ctx, 'md) MessageAlertChild \<Rightarrow> bool" where
  "fit_alert_child E b \<longleftrightarrow> fit_ptr fit_nugget E (MessageAlertChild.nugget b) \<and> fit_ptr fit_block E (MessageAlertChild.block b) \<and> fit_ptr fit_block E (child b)"

definition alert_child_same :: "'j json_env \<Rightarrow> ('ctx, 'md) MessageAlertChild \<Rightarrow> ('ctx, 'md) MessageAlertChild \<Rightarrow> bool" where
  "alert_child_same E b b' \<longleftrightarrow> b' = b \<lparr>MessageAlertChild.nugget := MessageAlertChild.nugget b', MessageAlertChild.block := MessageAlertChild.block b', child := child b'\<rparr>
     \<and> rel_option nugget_same (MessageAlertChild.nugget b) (MessageAlertChild.nugget b')
     \<and> rel_option (block_same E) (MessageAlertChild.block b) (MessageAlertChild.block b')
     \<and> rel_option (block_same E) (child b) (child b')"

interpretation alert_child_message: message_codec C_AlertChild P_AlertChild fit_alert_child alert_child_same
proof
  fix E :: "'j json_env" and b :: "('ctx, 'md) MessageAlertChild" and m :: "('ctx, 'md) msg"
  assume E: "env_good E" and "fit_alert_child E b" and m: "message m = Some (P_AlertChild b)" "serialized m = None"
  note b = this(2) [unfolded fit_alert_child_def] and sc = scalar_member [OF E]
  note F = fields_Cons [OF nugget_member [OF E conjunct1 [OF b]]
      fields_Cons [OF block_member [OF E conjunct1 [OF conjunct2 [OF b]]]
      fields_Cons [OF block_member [OF E conjunct2 [OF conjunct2 [OF b]]]
      fields_Cons [OF sc(2)
      fields_Cons [OF sc(2)
      fields_Cons [OF sc(2)
      fields_Cons [OF sc(2)
      fields_Cons [OF sc(1)
      fields_Cons [OF sc(1)
      fields_Nil]]]]]]]]]
  show "transfers E C_AlertChild P_AlertChild m (alert_child_same E b)"
    unfolding transfers_simps AlertChild_Serialize_def AlertChild_Deserialize_def m(1)
    by (rule json_message [OF F E _ m(2)])
      (auto simp: into_simps alert_child_same_def no_alert_child_def intro!: MessageAlertChild.equality)
qed

definition fit_output_event :: "'j json_env \<Rightarrow> ('ctx, 'md) MessageOutputEvent \<Rightarrow> bool" where
  "fit_output_event E b \<longleftrightarrow> fit_ptr fit_nugget E (MessageOutputEvent.nugget b) \<and> fit_ptr fit_event E (MessageOutputEvent.event b)"

definition output_event_same :: "'j json_env \<Rightarrow> ('ctx, 'md) MessageOutputEvent \<Rightarrow> ('ctx, 'md) MessageOutputEvent \<Rightarrow> bool" where
  "output_event_same E b b' \<longleftrightarrow> b' = b \<lparr>MessageOutputEvent.nugget := MessageOutputEvent.nugget b', MessageOutputEvent.event := MessageOutputEvent.event b'\<rparr>
     \<and> rel_option nugget_same (MessageOutputEvent.nugget b) (MessageOutputEvent.nugget b')
     \<and> rel_option (event_same E) (MessageOutputEvent.event b) (MessageOutputEvent.event b')"

interpretation output_event_message: message_codec C_OutputEvent P_OutputEvent fit_output_event output_event_same
proof
  fix E :: "'j json_env" and b :: "('ctx, 'md) MessageOutputEvent" and m :: "('ctx, 'md) msg"
  assume E: "env_good E" and "fit_output_event E b" and m: "message m = Some (P_OutputEvent b)" "serialized m = None"
  note b = this(2) [unfolded fit_output_event_def] and sc = scalar_member [OF E]
  note F = fields_Cons [OF nugget_member [OF E conjunct1 [OF b]]
      fields_Cons [OF event_member [OF E conjunct2 [OF b]]
      fields_Nil]]
  show "transfers E C_OutputEvent P_OutputEvent m (output_event_same E b)"
    unfolding transfers_simps OutputEvent_Serialize_def OutputEvent_Deserialize_def m(1)
    by (rule json_message [OF F E _ m(2)])
      (auto simp: into_simps output_event_same_def no_output_event_def intro!: MessageOutputEvent.equality)
qed

definition fit_output_inspection :: "'j json_env \<Rightarrow> ('ctx, 'md) MessageOutputInspection \<Rightarrow> bool" where
  "fit_output_inspection E b \<longleftrightarrow> fit_ptr fit_nugget E (MessageOutputInspection.nugget b) \<and> fit_ptr fit_block_id E (blockId b)"

definition output_inspection_same :: "'j json_env \<Rightarrow> ('ctx, 'md) MessageOutputInspection \<Rightarrow> ('ctx, 'md) MessageOutputInspection \<Rightarrow> bool" where
  "output_inspection_same E b b' \<longleftrightarrow> b' = b \<lparr>MessageOutputInspection.nugget := MessageOutputInspection.nugget b', blockId := blockId b'\<rparr>
     \<and> rel_option nugget_same (MessageOutputInspection.nugget b) (MessageOutputInspection.nugget b')
     \<and> rel_option block_id_same (blockId b) (blockId b')"

interpretation output_inspection_message: message_codec C_OutputInspection P_OutputInspection fit_output_inspection output_inspection_same
proof
  fix E :: "'j json_env" and b :: "('ctx, 'md) MessageOutputInspection" and m :: "('ctx, 'md) msg"
  assume E: "env_good E" and "fit_output_inspection E b" and m: "message m = Some (P_OutputInspection b)" "serialized m = None"
  note b = this(2) [unfolded fit_output_inspection_def] and sc = scalar_member [OF E]
  note F = fields_Cons [OF nugget_member [OF E conjunct1 [OF b]]
      fields_Cons [OF block_id_member [OF E conjunct2 [OF b]]
      fields_Cons [OF sc(4)
      fields_Cons [OF sc(1)
      fields_Cons [OF sc(1)
      fields_Cons [OF sc(4)
      fields_Nil]]]]]]
  show "transfers E C_OutputInspection P_OutputInspection m (output_inspection_same E b)"
    unfolding transfers_simps OutputInspection_Serialize_def OutputInspection_Deserialize_def m(1)
    by (rule json_message [OF F E _ m(2)])
      (auto simp: into_simps output_inspection_same_def no_output_inspection_def intro!: MessageOutputInspection.equality)
qed

section \<open>Command and control\<close>

definition fit_config_ack :: "'j json_env \<Rightarrow> MessageConfigurationAck \<Rightarrow> bool" where
  "fit_config_ack E b \<longleftrightarrow> length (MessageConfigurationAck.uuidNuggetType b) = 16 \<and> length (MessageConfigurationAck.uuidApplicationType b) = 16"

definition config_ack_same :: "'j json_env \<Rightarrow> MessageConfigurationAck \<Rightarrow> MessageConfigurationAck \<Rightarrow> bool" where
  "config_ack_same E b b' \<longleftrightarrow> b' = b"

interpretation config_ack_message: message_codec C_ConfigAck P_ConfigAck fit_config_ack config_ack_same
proof
  fix E :: "'j json_env" and b :: "MessageConfigurationAck" and m :: "('ctx, 'md) msg"
  assume E: "env_good E" and "fit_config_ack E b" and m: "message m = Some (P_ConfigAck b)" "serialized m = None"
  note b = this(2) [unfolded fit_config_ack_def] and sc = scalar_member [OF E]
  note F = fields_Cons [OF uuid_member [OF E conjunct1 [OF b]]
      fields_Cons [OF uuid_member [OF E conjunct2 [OF b]]
      fields_Nil]]
  show "transfers E C_ConfigAck P_ConfigAck m (config_ack_same E b)"
    unfolding transfers_simps ConfigAck_Serialize_def ConfigAck_Deserialize_def m(1)
    by (rule json_message [OF F E _ m(2)])
      (auto simp: into_simps config_ack_same_def no_config_ack_def intro!: MessageConfigurationAck.equality)
qed

definition fit_config_update :: "'j json_env \<Rightarrow> MessageConfigurationUpdate \<Rightarrow> bool" where
  "fit_config_update E b \<longleftrightarrow> fit_ptr fit_uuid_list E (ntlvTypes b) \<and> fit_ptr fit_uuid_list E (ntlvNames b) \<and> fit_ptr fit_uuid_list E (dataTypes b)"

definition config_update_same :: "'j json_env \<Rightarrow> MessageConfigurationUpdate \<Rightarrow> MessageConfigurationUpdate \<Rightarrow> bool" where
  "config_update_same E b b' \<longleftrightarrow> b' = b \<lparr>ntlvTypes := ntlvTypes b', ntlvNames := ntlvNames b', dataTypes := dataTypes b'\<rparr>
     \<and> rel_option (uuid_list_same E) (ntlvTypes b) (ntlvTypes b')
     \<and> rel_option (uuid_list_same E) (ntlvNames b) (ntlvNames b')
     \<and> rel_option (uuid_list_same E) (dataTypes b) (dataTypes b')"

interpretation config_update_message: message_codec C_ConfigUpdate P_ConfigUpdate fit_config_update config_update_same
proof
  fix E :: "'j json_env" and b :: "MessageConfigurationUpdate" and m :: "('ctx, 'md) msg"
  assume E: "env_good E" and "fit_config_update E b" and m: "message m = Some (P_ConfigUpdate b)" "serialized m = None"
  note b = this(2) [unfolded fit_config_update_def] and sc = scalar_member [OF E]
  note F = fields_Cons [OF uuids_member [OF E conjunct1 [OF b]]
      fields_Cons [OF uuids_member [OF E conjunct1 [OF conjunct2 [OF b]]]
      fields_Cons [OF uuids_member [OF E conjunct2 [OF conjunct2 [OF b]]]
      fields_Nil]]]
  show "transfers E C_ConfigUpdate P_ConfigUpdate m (config_update_same E b)"
    unfolding transfers_simps ConfigUpdate_Serialize_def ConfigUpdate_Deserialize_def m(1)
    by (rule json_message [OF F E _ m(2)])
      (auto simp: into_simps config_update_same_def no_config_update_def intro!: MessageConfigurationUpdate.equality)
qed

definition fit_error :: "'j json_env \<Rightarrow> MessageError \<Rightarrow> bool" where
  "fit_error E b \<longleftrightarrow> e_sMessage b \<noteq> None"

definition error_same :: "'j json_env \<Rightarrow> MessageError \<Rightarrow> MessageError \<Rightarrow> bool" where
  "error_same E b b' \<longleftrightarrow> b' = b"

interpretation error_message: message_codec C_Error P_Error fit_error error_same
proof
  fix E :: "'j json_env" and b :: "MessageError" and m :: "('ctx, 'md) msg"
  assume E: "env_good E" and "fit_error E b" and m: "message m = Some (P_Error b)" "serialized m = None"
  note b = this(2) [unfolded fit_error_def] and sc = scalar_member [OF E]
  note F = fields_Cons [OF text_member [OF E b]
      fields_Nil]
  show "transfers E C_Error P_Error m (error_same E b)"
    unfolding transfers_simps Error_Serialize_def Error_Deserialize_def m(1)
    by (rule json_message [OF F E _ m(2)])
      (use b in \<open>auto simp: into_simps error_same_def no_error_def\<close>)
qed

definition fit_terminate :: "'j json_env \<Rightarrow> MessageTerminate \<Rightarrow> bool" where
  "fit_terminate E b \<longleftrightarrow> sTerminateReason b \<noteq> None"

definition terminate_same :: "'j json_env \<Rightarrow> MessageTerminate \<Rightarrow> MessageTerminate \<Rightarrow> bool" where
  "terminate_same E b b' \<longleftrightarrow> b' = b"

interpretation terminate_message: message_codec C_Term P_Term fit_terminate terminate_same
proof
  fix E :: "'j json_env" and b :: "MessageTerminate" and m :: "('ctx, 'md) msg"
  assume E: "env_good E" and "fit_terminate E b" and m: "message m = Some (P_Term b)" "serialized m = None"
  note b = this(2) [unfolded fit_terminate_def] and sc = scalar_member [OF E]
  note F = fields_Cons [OF text_member [OF E b]
      fields_Nil]
  show "transfers E C_Term P_Term m (terminate_same E b)"
    unfolding transfers_simps Terminate_Serialize_def Terminate_Deserialize_def m(1)
    by (rule json_message [OF F E _ m(2)])
      (use b in \<open>auto simp: into_simps terminate_same_def no_terminate_def\<close>)
qed

definition fit_registration :: "'j json_env \<Rightarrow> MessageRegistrationRequest \<Rightarrow> bool" where
  "fit_registration E b \<longleftrightarrow> length (MessageRegistrationRequest.uuidNuggetType b) = 16 \<and> length (MessageRegistrationRequest.uuidApplicationType b) = 16 \<and> types_ok b"

text \<open>A list without entries is received as memory of size zero, never as a null pointer.\<close>
definition registration_same :: "'j json_env \<Rightarrow> MessageRegistrationRequest \<Rightarrow> MessageRegistrationRequest \<Rightarrow> bool" where
  "registration_same E b b' \<longleftrightarrow> b' = b \<lparr>pDataTypeList := Some (Live (types_of b))\<rparr>"

interpretation registration_message: message_codec C_RegReq P_RegReq fit_registration registration_same
proof
  fix E :: "'j json_env" and b :: "MessageRegistrationRequest" and m :: "('ctx, 'md) msg"
  assume E: "env_good E" and "fit_registration E b" and m: "message m = Some (P_RegReq b)" "serialized m = None"
  note b = this(2) [unfolded fit_registration_def] and sc = scalar_member [OF E]
  note F = fields_Cons [OF uuid_member [OF E conjunct1 [OF b]]
      fields_Cons [OF uuid_member [OF E conjunct1 [OF conjunct2 [OF b]]]
      fields_Cons [OF types_field [OF E conjunct2 [OF conjunct2 [OF b]]]
      fields_Nil]]]
  show "transfers E C_RegReq P_RegReq m (registration_same E b)"
    unfolding transfers_simps RegistrationRequest_Serialize_def RegistrationRequest_Deserialize_def m(1)
    by (rule json_message [OF F E _ m(2)])
      (auto simp: into_simps registration_same_def no_reg_req_def intro!: MessageRegistrationRequest.equality)
qed

section \<open>Hello\<close>

text \<open>The registry can tell whether the nugget is a dispatcher; the address list travels for a dispatcher only.\<close>
definition fit_hello :: "'j json_env \<Rightarrow> MessageHello \<Rightarrow> bool" where
  "fit_hello E b \<longleftrightarrow> length (MessageHello.uuidNuggetType b) = 16 \<and> length (MessageHello.uuidApplicationType b) = 16
     \<and> (is_dispatcher E (MessageHello.uuidNuggetType b) = Some (Some False)
        \<or> is_dispatcher E (MessageHello.uuidNuggetType b) = Some (Some True) \<and> fit_ptr fit_string_list E (MessageHello.addressList b))"

text \<open>Of a nugget that is not a dispatcher only the first three fields are received.\<close>
definition hello_same :: "'j json_env \<Rightarrow> MessageHello \<Rightarrow> MessageHello \<Rightarrow> bool" where
  "hello_same E b b' \<longleftrightarrow>
     (if is_dispatcher E (MessageHello.uuidNuggetType b) = Some (Some True)
      then b' = b \<lparr>MessageHello.addressList := MessageHello.addressList b'\<rparr>
        \<and> rel_option string_list_same (MessageHello.addressList b) (MessageHello.addressList b')
      else b' = no_hello \<lparr>MessageHello.uuidNuggetType := MessageHello.uuidNuggetType b,
          MessageHello.uuidApplicationType := MessageHello.uuidApplicationType b, MessageHello.locality := MessageHello.locality b\<rparr>)"

text \<open>Steps inside a step.\<close>
lemma steps_cong:
  assumes "\<And>c. put_steps fs c = put_steps gs c"
  shows "put_steps (f # fs) c = put_steps (f # gs) c"
  using assms by (cases "f c") (auto simp: put_steps.simps)

lemma steps_last:
  assumes "\<And>c. f c = put_steps gs c"
  shows "put_steps [a, b, d, f] = put_steps (a # b # d # gs)"
proof
  fix c
  have "put_steps [f] c = put_steps gs c" for c using assms by (simp add: steps_one)
  then show "put_steps [a, b, d, f] c = put_steps (a # b # d # gs) c" by (intro steps_cong)
qed

interpretation hello_message: message_codec C_Hello P_Hello fit_hello hello_same
proof
  fix E :: "'j json_env" and b :: MessageHello and m :: "('ctx, 'md) msg"
  assume E: "env_good E" and "fit_hello E b" and m: "message m = Some (P_Hello b)" "serialized m = None"
  then have u: "length (MessageHello.uuidNuggetType b) = 16" "length (MessageHello.uuidApplicationType b) = 16"
    and d: "is_dispatcher E (MessageHello.uuidNuggetType b) = Some (Some False)
      \<or> is_dispatcher E (MessageHello.uuidNuggetType b) = Some (Some True) \<and> fit_ptr fit_string_list E (MessageHello.addressList b)"
    by (simp_all add: fit_hello_def)
  note sc = scalar_member [OF E] and um = uuid_member [OF E u(1)] uuid_member [OF E u(2)]
  from d show "transfers E C_Hello P_Hello m (hello_same E b)"
  proof (elim disjE conjE)
    assume no: "is_dispatcher E (MessageHello.uuidNuggetType b) = Some (Some False)"
    note F = fields_Cons [OF um(1) fields_Cons [OF um(2) fields_Cons [OF sc(4) fields_Nil]]]
    show ?thesis
      unfolding transfers_simps Hello_Serialize_def Hello_Deserialize_def m(1)
      by (subst steps_last [where gs = "[]"], simp add: no put_if_def put_steps.simps, rule json_message [OF F E _ m(2)])
        (auto simp: into_simps hello_same_def no_hello_def no intro!: MessageHello.equality)
  next
    assume yes: "is_dispatcher E (MessageHello.uuidNuggetType b) = Some (Some True)"
      and l: "fit_ptr fit_string_list E (MessageHello.addressList b)"
    note F = fields_Cons [OF um(1) fields_Cons [OF um(2) fields_Cons [OF sc(4) fields_Cons [OF sc(4) fields_Cons [OF sc(4)
        fields_Cons [OF sc(3) fields_Cons [OF sc(2) fields_Cons [OF strings_member [OF E l] fields_Nil]]]]]]]]
    show ?thesis
      unfolding transfers_simps Hello_Serialize_def Hello_Deserialize_def m(1)
      by (subst steps_last, simp add: yes put_if_def, rule json_message [OF F E _ m(2)])
        (auto simp: into_simps hello_same_def no_hello_def yes intro!: MessageHello.equality)
  qed
qed

end
