(* ===== verification/Json_Text.thy ===== *)
theory Json_Text
  imports Json_Codec
begin

text \<open>
  JSON values and a text form of them: the reference for the values of json-c and for its printing and
  parsing. The text is a prefix code, so that reading needs no look-ahead: the first character tells the
  kind of the value, strings carry their length, and a comma precedes every element.
\<close>

datatype json_value =
    JBool bool
  | JInt int
  | JString string
  | JObject "(string \<times> json_value) list"
  | JArray "json_value list"

definition jv_text :: "string \<Rightarrow> string" where
  "jv_text s = decimal (length s) @ CHR '':'' # s"

fun jv_print :: "json_value \<Rightarrow> string"
  and jv_elements :: "json_value list \<Rightarrow> string"
  and jv_members :: "(string \<times> json_value) list \<Rightarrow> string" where
  "jv_print (JBool b) = (if b then ''t'' else ''f'')"
| "jv_print (JInt i) = (if i < 0 then CHR ''-'' else CHR ''+'') # decimal (nat \<bar>i\<bar>) @ '';''"
| "jv_print (JString s) = CHR ''s'' # jv_text s"
| "jv_print (JObject ms) = CHR ''{'' # jv_members ms"
| "jv_print (JArray vs) = CHR ''['' # jv_elements vs"
| "jv_elements [] = '']''"
| "jv_elements (v # vs) = CHR '','' # jv_print v @ jv_elements vs"
| "jv_members [] = ''}''"
| "jv_members ((k, v) # ms) = CHR '','' # jv_text k @ jv_print v @ jv_members ms"

text \<open>A number and the text after the character that ends it.\<close>
definition read_number :: "string \<Rightarrow> nat \<times> string" where
  "read_number t = (dec_value (takeWhile isdigit t), tl (dropWhile isdigit t))"

definition read_text :: "string \<Rightarrow> string \<times> string" where
  "read_text t = (let (n, u) = read_number t in (take n u, drop n u))"

text \<open>Reading; the first argument bounds the depth of the recursion.\<close>
fun jv_read :: "nat \<Rightarrow> string \<Rightarrow> (json_value \<times> string) option"
  and read_elements :: "nat \<Rightarrow> string \<Rightarrow> (json_value list \<times> string) option"
  and read_members :: "nat \<Rightarrow> string \<Rightarrow> ((string \<times> json_value) list \<times> string) option" where
  "jv_read (Suc n) (c # t) =
     (if c = CHR ''t'' then Some (JBool True, t)
      else if c = CHR ''f'' then Some (JBool False, t)
      else if c = CHR ''+'' then (case read_number t of (i, u) \<Rightarrow> Some (JInt (int i), u))
      else if c = CHR ''-'' then (case read_number t of (i, u) \<Rightarrow> Some (JInt (- int i), u))
      else if c = CHR ''s'' then (case read_text t of (s, u) \<Rightarrow> Some (JString s, u))
      else if c = CHR ''{'' then map_option (\<lambda>(ms, u). (JObject ms, u)) (read_members n t)
      else if c = CHR ''['' then map_option (\<lambda>(vs, u). (JArray vs, u)) (read_elements n t)
      else None)"
| "jv_read _ _ = None"
| "read_elements (Suc n) (c # t) =
     (if c = CHR '']'' then Some ([], t)
      else case jv_read n t of
        None \<Rightarrow> None
      | Some (v, u) \<Rightarrow> map_option (\<lambda>(vs, w). (v # vs, w)) (read_elements n u))"
| "read_elements _ _ = None"
| "read_members (Suc n) (c # t) =
     (if c = CHR ''}'' then Some ([], t)
      else case read_text t of (k, u) \<Rightarrow>
        (case jv_read n u of
           None \<Rightarrow> None
         | Some (v, w) \<Rightarrow> map_option (\<lambda>(ms, x). ((k, v) # ms, x)) (read_members n w)))"
| "read_members _ _ = None"

text \<open>A text is a value when reading consumes all of it.\<close>
definition jv_parse :: "string \<Rightarrow> json_value option" where
  "jv_parse t = (case jv_read (length t) t of Some (v, []) \<Rightarrow> Some v | _ \<Rightarrow> None)"

section \<open>Reading what was printed\<close>

lemma read_number_decimal: "\<not> isdigit c \<Longrightarrow> read_number (decimal n @ c # t) = (n, t)"
  using decimal_digits [of n] by (simp add: read_number_def takeWhile_append dropWhile_append list_all_iff)

lemma read_text_jv_text [simp]: "read_text (jv_text s @ t) = (s, t)"
proof -
  have "read_number (decimal (length s) @ CHR '':'' # s @ t) = (length s, s @ t)"
    by (rule read_number_decimal) (simp add: isdigit_def)
  then show ?thesis by (simp add: read_text_def jv_text_def)
qed

lemma read_int [simp]: "read_number (decimal n @ CHR '';'' # t) = (n, t)"
  by (rule read_number_decimal) (simp add: isdigit_def)

lemma jv_read_print:
  "length (jv_print v) \<le> n \<Longrightarrow> jv_read n (jv_print v @ t) = Some (v, t)"
  "length (jv_elements vs) \<le> n \<Longrightarrow> read_elements n (jv_elements vs @ t) = Some (vs, t)"
  "length (jv_members ms) \<le> n \<Longrightarrow> read_members n (jv_members ms @ t) = Some (ms, t)"
proof (induction v and vs and ms arbitrary: n t and n t and n t rule: jv_print_jv_elements_jv_members.induct)
  case (1 b)
  then show ?case by (cases n) (auto split: if_splits)
next
  case (2 i)
  then show ?case by (cases n) auto
next
  case (3 s)
  then show ?case by (cases n) simp_all
next
  case (4 ms)
  then show ?case by (cases n) simp_all
next
  case (5 vs)
  then show ?case by (cases n) simp_all
next
  case 6
  then show ?case by (cases n) simp_all
next
  case (7 v vs)
  then show ?case by (cases n) simp_all
next
  case 8
  then show ?case by (cases n) simp_all
next
  case (9 k v ms)
  then show ?case by (cases n) simp_all
qed

lemma jv_parse_print: "jv_parse (jv_print v) = Some v"
  using jv_read_print(1) [of v "length (jv_print v)" "[]"] by (simp add: jv_parse_def)

end
