(* ===== verification/Json_Reference.thy ===== *)
theory Json_Reference
  imports Json_Codec_Objects Json_Text "HOL-Library.AList"
begin

text \<open>
  Surroundings in which the hypotheses on the libraries hold: a plain implementation of the functions
  of json-c that the code calls, hexadecimal text for identifiers, buffers and addresses, and a
  registry with the types of metadata. The examples of the serialisation are evaluated in them.
\<close>

fun jv_type :: "json_value \<Rightarrow> json_type" where
  "jv_type (JBool b) = json_type_boolean"
| "jv_type (JInt i) = json_type_int"
| "jv_type (JString s) = json_type_string"
| "jv_type (JObject ms) = json_type_object"
| "jv_type (JArray vs) = json_type_array"

fun jv_add :: "json_value \<Rightarrow> string \<Rightarrow> json_value \<Rightarrow> json_value" where
  "jv_add (JObject ms) n v = JObject (AList.update n v ms)"
| "jv_add p n v = p"

fun jv_get :: "json_value \<Rightarrow> string \<Rightarrow> json_value option" where
  "jv_get (JObject ms) n = map_of ms n"
| "jv_get p n = None"

fun jv_bool :: "json_value \<Rightarrow> bool" where
  "jv_bool (JBool b) = b"
| "jv_bool p = False"

fun jv_string :: "json_value \<Rightarrow> string option" where
  "jv_string (JString s) = Some s"
| "jv_string (JInt i) = Some (if i < 0 then CHR ''-'' # decimal (nat (- i)) else decimal (nat i))"
| "jv_string p = None"

fun jv_int :: "json_value \<Rightarrow> int" where
  "jv_int (JInt i) = i"
| "jv_int p = 0"

fun jv_append :: "json_value \<Rightarrow> json_value \<Rightarrow> json_value" where
  "jv_append (JArray vs) v = JArray (vs @ [v])"
| "jv_append p v = p"

fun jv_elems :: "json_value \<Rightarrow> json_value list" where
  "jv_elems (JArray vs) = vs"
| "jv_elems p = []"

definition jv_parse_ex :: "string \<Rightarrow> json_value option \<times> bool \<times> nat" where
  "jv_parse_ex s = (case jv_parse s of None \<Rightarrow> (None, False, 0) | Some v \<Rightarrow> (Some v, True, length s))"

definition ref_js :: "json_value jsonc" where
  "ref_js = \<lparr>json_object_get_type = jv_type, json_object_new_object = Some (JObject []),
     json_object_new_array = Some (JArray []), json_object_new_boolean = (\<lambda>b. Some (JBool b)),
     json_object_new_uint64 = (\<lambda>v. Some (JInt (uint v))), json_object_new_int = (\<lambda>v. Some (JInt v)),
     json_object_new_string = (\<lambda>s. Some (JString s)), json_object_object_add = jv_add,
     json_object_object_get = jv_get, json_object_object_get_ex = (\<lambda>p n. jv_get p n \<noteq> None),
     json_object_get_boolean = jv_bool, json_object_get_string = jv_string, json_object_get_int = jv_int,
     json_object_array_add = jv_append, json_object_array_length = (\<lambda>a. length (jv_elems a)),
     json_object_array_get_idx = (\<lambda>a i. if i < length (jv_elems a) then Some (jv_elems a ! i) else None),
     json_tokener_parse_ex = jv_parse_ex, json_object_to_json_string_ext = jv_print,
     json_tokener_parse = jv_parse, json_object_to_json_string = jv_print\<rparr>"

text \<open>The types of metadata the code treats specially, with made-up identifiers.\<close>
definition ref_entries :: "UUIDListNode list" where
  "ref_entries =
     [\<lparr>un_uuid = replicate 15 0 @ [1], UUIDListNode.sName = ''STRING'', sDescription = None\<rparr>,
      \<lparr>un_uuid = replicate 15 0 @ [2], UUIDListNode.sName = ''PORT'', sDescription = None\<rparr>,
      \<lparr>un_uuid = replicate 15 0 @ [3], UUIDListNode.sName = ''IPPROTO'', sDescription = None\<rparr>,
      \<lparr>un_uuid = replicate 15 0 @ [4], UUIDListNode.sName = ''IPv4_ADDR'', sDescription = None\<rparr>,
      \<lparr>un_uuid = replicate 15 0 @ [5], UUIDListNode.sName = ''IPv6_ADDR'', sDescription = None\<rparr>,
      \<lparr>un_uuid = replicate 15 0 @ [6], UUIDListNode.sName = ''JSON'', sDescription = None\<rparr>]"

definition ref_names :: "UUIDListNode list" where
  "ref_names = [\<lparr>un_uuid = replicate 15 0 @ [7], UUIDListNode.sName = ''FILENAME'', sDescription = None\<rparr>]"

fun ref_fill :: "UUIDListNode list \<Rightarrow> uuid_list option \<Rightarrow> uuid_list option" where
  "ref_fill [] l = l"
| "ref_fill (e # es) l =
     (case UUID_Add_List_Entry (\<lambda>a. True) True True True l (un_uuid e) (Some (UUIDListNode.sName e)) (sDescription e) of
        Some (True, l') \<Rightarrow> ref_fill es l'
      | _ \<Rightarrow> None)"

definition ref_registry :: uuid_registry where
  "ref_registry = \<lparr>sg_DataTypeList = None, sg_IntelTypeList = None,
     sg_NtlvTypeList = ref_fill ref_entries (UUID_Create_List uuid_compare_ref True True),
     sg_NtlvNameList = ref_fill ref_names (UUID_Create_List uuid_compare_ref True True),
     sg_NuggetList = None, sg_NuggetTypeList = None\<rparr>"

definition ref_env :: "json_value json_env" where
  "ref_env = \<lparr>e_js = ref_js, e_uuid_compare = uuid_compare_ref,
     e_uuid_parse = (\<lambda>t. Some (scan_bytes (take 32 t))), e_uuid_unparse = uuid_unparse_ref,
     e_BIO_write = (\<lambda>d n. n), e_b64_text = (\<lambda>d. Some (hex_text d)), e_BIO_read = (\<lambda>t. Some (scan_bytes t)),
     e_inet_ntop4 = hex_text, e_inet_pton4 = (\<lambda>t. Some (scan_bytes t)),
     e_inet_ntop6 = hex_text, e_inet_pton6 = (\<lambda>t. Some (scan_bytes t)),
     e_registry = ref_registry, e_alloc = (\<lambda>s. True), e_mem = (\<lambda>a. True)\<rparr>"

section \<open>The hypotheses hold\<close>

lemma jv_object: "jv_type p = json_type_object \<longleftrightarrow> (\<exists>ms. p = JObject ms)"
  by (cases p) auto

lemma jv_array: "jv_type p = json_type_array \<longleftrightarrow> (\<exists>vs. p = JArray vs)"
  by (cases p) auto

lemma ref_js_ok: "jsonc_ok ref_js"
  unfolding jsonc_ok_def ref_js_def
  by (auto simp: jv_object jv_array update_conv' nth_append less_Suc_eq jv_parse_print)

lemma ref_fill_uuids:
  assumes "uuids uuid_compare_ref l es0" and "list_all (\<lambda>e. UUIDListNode.sName e \<noteq> []) es"
  shows "\<exists>l'. ref_fill es (Some l) = Some l' \<and> uuids uuid_compare_ref l' (es0 @ es)"
  using assms
proof (induction es arbitrary: l es0)
  case (Cons e es)
  obtain u nm d where e: "e = \<lparr>un_uuid = u, UUIDListNode.sName = nm, sDescription = d\<rparr>" by (cases e)
  have "nm \<noteq> []" using Cons.prems(2) e by simp
  then obtain l1 where "UUID_Add_List_Entry (\<lambda>a. True) True True True (Some l) u (Some nm) d = Some (True, Some l1)"
      "uuids uuid_compare_ref l1 (es0 @ [e])"
    using UUID_Add_List_Entry_uuids [OF Cons.prems(1), of "\<lambda>a. True" nm u d] e by auto
  then show ?case using Cons.IH [of l1 "es0 @ [e]"] Cons.prems(2) e by simp
qed simp

lemma ref_list:
  assumes "list_all (\<lambda>e. UUIDListNode.sName e \<noteq> []) es"
  obtains l where "ref_fill es (UUID_Create_List uuid_compare_ref True True) = Some l" and "uuids uuid_compare_ref l es"
proof -
  obtain l0 where l0: "UUID_Create_List uuid_compare_ref True True = Some l0" "uuids uuid_compare_ref l0 []"
    using UUID_Create_List_uuids by blast
  from ref_fill_uuids [OF l0(2) assms] show thesis using that l0(1) by auto
qed

lemma ref_types:
  obtains l where "sg_NtlvTypeList ref_registry = Some l" and "uuids uuid_compare_ref l ref_entries"
  by (rule ref_list [of ref_entries]) (auto simp: ref_entries_def ref_registry_def intro: that)

lemma ref_env_good: "env_good ref_env"
proof -
  obtain l where l: "sg_NtlvTypeList ref_registry = Some l" "uuids uuid_compare_ref l ref_entries" by (rule ref_types)
  have "UUID_Get_List ref_registry UUID_TYPE_NTLV_TYPE = Some l \<and> uuids uuid_compare_ref l ref_entries
      \<and> distinct (map UUIDListNode.sName ref_entries) \<and> distinct (map un_uuid ref_entries)"
    using l by (simp add: UUID_Get_List_def ref_entries_def)
  then have "\<exists>l ns. UUID_Get_List (e_registry ref_env) UUID_TYPE_NTLV_TYPE = Some l \<and> uuids (e_uuid_compare ref_env) l ns
      \<and> distinct (map UUIDListNode.sName ns) \<and> distinct (map un_uuid ns)"
    unfolding ref_env_def by auto
  moreover have "jsonc_ok (e_js ref_env)" "uuid_compare_ok (e_uuid_compare ref_env)"
    using ref_js_ok uuid_compare_ref_ok by (simp_all add: ref_env_def)
  ultimately have "env_ok ref_env"
    unfolding env_ok_def by (simp add: ref_env_def uuid_unparse_ref_def)
  moreover have "env_works ref_env" by (simp add: env_works_def ref_env_def ref_js_def)
  ultimately show ?thesis by (simp add: env_good_def)
qed

end
