(* ===== verification/Json_Properties.thy ===== *)
theory Json_Properties
  imports Json_Reference
begin

text \<open>
  Properties of the JSON serialisation (\<open>src/json_buffer.c\<close>) of the objects of \<open>src/event.c\<close>,
  \<open>src/block.c\<close>, \<open>src/judgment.c\<close> and \<open>src/metadata.c\<close>: what is written is read back, the widths of
  integers are respected, and the two ways in which metadata is lost.
\<close>

text \<open>The text of an integer.\<close>
definition integer_text :: "int \<Rightarrow> string" where
  "integer_text i = (if i < 0 then CHR ''-'' # decimal (nat (- i)) else decimal (nat i))"

section \<open>Example data\<close>

text \<open>A list of metadata built by the operations of the list.\<close>
fun ref_metadata :: "NTLVItem list \<Rightarrow> ntlv_list option \<Rightarrow> ntlv_list option" where
  "ref_metadata [] l = l"
| "ref_metadata (i # is) l =
     (case NTLVList_Add (\<lambda>a. True) True True l (uuidName i) (uuidType i) (NTLVItem.iLength i) (Some (NTLVItem.pData i)) of
        Some (True, l') \<Rightarrow> ref_metadata is l'
      | _ \<Rightarrow> None)"

text \<open>A string, a port and an item of a type the code does not know.\<close>
definition ex_items :: "NTLVItem list" where
  "ex_items =
     [\<lparr>uuidName = replicate 15 0 @ [7], uuidType = replicate 15 0 @ [1], NTLVItem.iLength = 2, NTLVItem.pData = [97, 0]\<rparr>,
      \<lparr>uuidName = replicate 15 0 @ [8], uuidType = replicate 15 0 @ [2], NTLVItem.iLength = 2, NTLVItem.pData = [80, 0]\<rparr>,
      \<lparr>uuidName = replicate 15 0 @ [9], uuidType = replicate 15 0 @ [9], NTLVItem.iLength = 3, NTLVItem.pData = [1, 0, 255]\<rparr>]"

definition ex_list :: ntlv_list where
  "ex_list = the (ref_metadata ex_items (NTLVList_Create uuid_compare_ref True True True True))"

definition ex_event_id :: EventId where
  "ex_event_id = \<lparr>EventId.uuidNuggetId = replicate 16 5, EventId.iSeconds = 1700000000, EventId.iNanoSecs = 999999999\<rparr>"

definition ex_block :: "(string \<times> bytes, string) Block" where
  "ex_block = Block (Some (ex_block_id 12)) (Some (ex_block_id 40)) None (Some ex_list) no_data"

definition ex_event :: "(string \<times> bytes, string) Event" where
  "ex_event = Event (Some ex_event_id) (Some ex_event_id)
     (Some (Event (Some ex_event_id) None None no_uuid None None)) no_uuid (Some ex_block) (Some ex_list)"

definition ex_judgment :: "(string \<times> bytes, string) Judgment" where
  "ex_judgment = \<lparr>Judgment.uuidNuggetId = replicate 16 5, Judgment.iSeconds = 5, Judgment.iNanoSecs = 7,
     pEventId = Some ex_event_id, pBlockId = Some (ex_block_id 12), iPriority = 255, pMetaDataList = Some ex_list,
     iGID = 1, iSID = 2, Set_SfFlags = 4294967295, Set_EntFlags = 0, Unset_SfFlags = 3, Unset_EntFlags = 4,
     sMessage = Some ''bad''\<rparr>"

lemma ref_metadata_ntlvs:
  assumes "ntlvs uuid_compare_ref l xs"
    and "list_all (\<lambda>i. NTLVItem.iLength i \<noteq> 0 \<and> unat (NTLVItem.iLength i) = length (NTLVItem.pData i)) is"
  shows "\<exists>l'. ref_metadata is (Some l) = Some l' \<and> ntlvs uuid_compare_ref l' (xs @ is)"
  using assms
proof (induction "is" arbitrary: l xs)
  case (Cons i "is")
  obtain nm ty sz d where i: "i = \<lparr>uuidName = nm, uuidType = ty, NTLVItem.iLength = sz, NTLVItem.pData = d\<rparr>" by (cases i)
  have "sz \<noteq> 0" "unat sz \<le> length d" "take (unat sz) d = d" using Cons.prems(2) i by simp_all
  then obtain l1 where "NTLVList_Add (\<lambda>a. True) True True (Some l) nm ty sz (Some d) = Some (True, Some l1)"
      "ntlvs uuid_compare_ref l1 (xs @ [i])"
    using NTLVList_Add_ntlvs [OF Cons.prems(1), of "\<lambda>a. True" sz d nm ty] i by auto
  then show ?case using Cons.IH [of l1 "xs @ [i]"] Cons.prems(2) i by simp
qed simp

lemma ex_list_ntlvs: "ntlvs uuid_compare_ref ex_list ex_items"
proof -
  obtain l where l: "NTLVList_Create uuid_compare_ref True True True True = Some l"
    by (auto simp: NTLVList_Create_def List_Create_def)
  have "list_all (\<lambda>i. NTLVItem.iLength i \<noteq> 0 \<and> unat (NTLVItem.iLength i) = length (NTLVItem.pData i)) ex_items"
    by (simp add: ex_items_def)
  from ref_metadata_ntlvs [OF NTLVList_Create_ntlvs [OF l] this] show ?thesis by (auto simp: ex_list_def l)
qed

lemma ref_kind:
  "kind ref_env nm ty \<longleftrightarrow>
     (case find (\<lambda>n. UUIDListNode.sName n = nm) ref_entries of None \<Rightarrow> False | Some n \<Rightarrow> un_uuid n = ty)"
proof -
  obtain l where l: "sg_NtlvTypeList ref_registry = Some l" "uuids uuid_compare_ref l ref_entries" by (rule ref_types)
  have g: "UUID_Get_List ref_registry UUID_TYPE_NTLV_TYPE = Some l" using l(1) by (simp add: UUID_Get_List_def)
  show ?thesis
    using uuid_compare_ref_ok g by (simp add: kind_def JsonBuffer_NamedNTLVTypeMatches_def UUID_Is_Named_UUID_def
        UUID_Get_UUID_def ref_env_def UUID_getNodeByName_uuids [OF l(2) g] split: option.split)
qed

lemma ex_list_fit: "fit_list ref_env ex_list"
proof -
  have "list_all (fit_item ref_env) ex_items"
    by (simp add: ex_items_def fit_item_def fit_value_def ref_kind ref_entries_def cstring_def chars_def
        exI [of _ "''a''"])
  then show ?thesis using ex_list_ntlvs by (auto simp: fit_list_def ref_env_def)
qed

lemma ex_fit: "id_ok ref_env (Some (ex_block_id n))" "eid_ok ref_env (Some ex_event_id)" "meta_ok ref_env (Some ex_list)"
  "id_ok ref_env None" "eid_ok ref_env None" "meta_ok ref_env None"
  using ex_hash_proper ex_list_fit
  by (simp_all add: id_ok_def fit_block_id_def ex_block_id_def eid_ok_def fit_event_id_def ex_event_id_def meta_ok_def)

lemma ex_event_fit: "fit_event ref_env ex_event"
  by (simp add: ex_event_def ex_block_def ex_fit)

lemma ex_judgment_fit: "fit_judgment ref_env ex_judgment"
  by (simp add: ex_judgment_def fit_judgment_def ex_fit)

lemma ref_empty: "jtype ref_env (JObject []) = json_type_object"
  by (simp add: ref_env_def ref_js_def)

section \<open>Failure\<close>

lemma put_steps_append:
  "put_steps (fs @ gs) c = Option.bind (put_steps fs c) (\<lambda>(ok, c'). if ok then put_steps gs c' else Some (False, c'))"
  by (induction fs arbitrary: c) (auto simp: Option.bind_assoc split_def intro!: arg_cong [of _ _ "Option.bind _"])

text \<open>A put operation that reports failure on every object.\<close>
definition fails :: "'j put \<Rightarrow> bool" where
  "fails f \<longleftrightarrow> (\<forall>p. \<exists>p'. f (Some p) = Some (False, Some p'))"

lemma fails_step:
  assumes "fields E (put_steps fs) ns P" and "distinct ns" and "fails f"
  shows "fails (put_steps (fs @ f # gs))"
proof -
  obtain ms where "puts E (put_steps fs) ms" using assms(1,2) unfolding fields_def by blast
  then have "\<exists>p'. put_steps (fs @ f # gs) (Some p) = Some (False, Some p')" for p
    using assms(3) [unfolded fails_def, rule_format, of "adds E ms p"] by (auto simp: put_steps_append puts_def)
  then show ?thesis by (simp add: fails_def)
qed

lemma fails_container:
  assumes "env_good E" and "fails f"
  shows "fails (put_container E (Some n) (json_object_new_object (e_js E)) f)"
proof -
  obtain c where "json_object_new_object (e_js E) = Some c" using new_object [OF assms(1)] by blast
  then show ?thesis
    using assms(2) [unfolded fails_def, rule_format, of c] by (auto simp: fails_def put_container_def)
qed

lemma put_walk_fails:
  assumes "\<And>x arr s. x \<in> set xs \<Longrightarrow> \<exists>c. op x arr s = Some (LIST_EACH_OK, json_object_array_add (e_js E) arr c, s)"
    and "\<And>arr s. \<exists>arr'. op bad arr s = Some (LIST_EACH_ERROR, arr', s)"
  shows "\<exists>arr'. each_walk None None op (xs @ [bad]) arr s = Some (False, replicate (Suc (length xs)) False, arr', s)"
  using assms(1)
proof (induction xs arbitrary: arr)
  case Nil
  then show ?case using assms(2) [of arr s] by auto
next
  case (Cons x xs)
  obtain c where "op x arr s = Some (LIST_EACH_OK, json_object_array_add (e_js E) arr c, s)" using Cons.prems by force
  then show ?case using Cons.IH [of "json_object_array_add (e_js E) arr c"] Cons.prems by auto
qed

text \<open>An item of a string without its terminator.\<close>
lemma unterminated_fails:
  assumes E: "env_good E" and k: "kind E ''STRING'' (uuidType i)" and n: "length (uuidName i) = 16" "length (uuidType i) = 16"
    and t: "terminated i = Some False"
  shows "\<exists>arr'. JsonBuffer_Put_NTLVItem E i arr s = Some (LIST_EACH_ERROR, arr', s)"
proof -
  have u: "fit_uuid E (uuidName i)" "fit_uuid E (uuidType i)" using n by (simp_all add: fit_uuid_def)
  have "fails (put_ntlv_value E i)"
    using matches_kind [OF E, of "''STRING''" "uuidType i"] k t by (simp add: fails_def put_ntlv_value_def)
  from fails_step [OF fields_Cons [OF json_uuid.member_field [OF E u(1), of "''Name''"]
      fields_Cons [OF json_uuid.member_field [OF E u(2), of "''Type''"] fields_Nil]] _ this, of "[]"]
  have "fails (put_steps [JsonBuffer_Put_UUID E (Some ''Name'') (uuidName i),
      JsonBuffer_Put_UUID E (Some ''Type'') (uuidType i), put_ntlv_value E i])" by simp
  moreover obtain c where "json_object_new_object (e_js E) = Some c" using new_object [OF E] by blast
  ultimately show ?thesis
    unfolding fails_def JsonBuffer_Put_NTLVItem_def by (auto simp del: put_steps.simps dest: spec [of _ c])
qed

lemma put_list_fails:
  assumes E: "env_good E" and "ntlvs (e_uuid_compare E) l (xs @ [bad])" and xs: "list_all (fit_item E) xs"
    and bad: "\<And>arr s. \<exists>arr'. JsonBuffer_Put_NTLVItem E bad arr s = Some (LIST_EACH_ERROR, arr', s)"
  shows "fails (JsonBuffer_Put_NTLVList E (Some n) (Some l))"
proof -
  obtain a where a: "json_object_new_array (e_js E) = Some a" using new_array [OF E] by blast
  have "\<exists>c. JsonBuffer_Put_NTLVItem E x arr s = Some (LIST_EACH_OK, json_object_array_add (e_js E) arr c, s)"
    if "x \<in> set xs" for x arr s using put_item [OF E, of x] xs that by (auto simp: list_all_iff)
  from put_walk_fails [of xs "JsonBuffer_Put_NTLVItem E" E bad, OF this bad] obtain arr where
    "each_walk None None (JsonBuffer_Put_NTLVItem E) (xs @ [bad]) a [] = Some (False, replicate (Suc (length xs)) False, arr, [])"
    by blast
  then have "List_ForEach (Some l) (JsonBuffer_Put_NTLVItem E) a [] = Some (False, Some l, arr, [])"
    using assms(2) by (intro List_ForEach_readonly) (auto simp: ntlvs_def)
  then show ?thesis
    by (simp add: fails_def JsonBuffer_Put_NTLVList_def put_container_def a del: List_ForEach.simps)
qed

lemma block_meta_fails:
  assumes E: "env_good E" and "fit_block E (Block i pid par (Some l) d)"
    and m: "fails (JsonBuffer_Put_NTLVList E (Some ''Metadata'') (Some l'))"
  shows "fails (JsonBuffer_Put_Block E (Some n) (Some (Block i pid par (Some l') d)))"
proof -
  obtain i0 where i0: "i = Some i0" "fit_block_id E i0" using assms(2) by (auto simp: id_ok_def)
  have ok: "id_ok E pid" "case par of None \<Rightarrow> True | Some b \<Rightarrow> fit_block E b" using assms(2) by auto
  note F = fields_Cons [OF json_block_id.member_field [OF E i0(2), of "''Id''"]
      fields_Cons [OF id_field [OF E ok(1), of "''Parent_Id''"] fields_Cons [OF blk_field [OF E ok(2), of "''Parent''"] fields_Nil]]]
  have "fails (put_if (Some l' \<noteq> None) (JsonBuffer_Put_NTLVList E (Some ''Metadata'') (Some l')))"
    using m by (simp add: put_if_def)
  from fails_container [OF E fails_step [OF F _ this, of "[]"]] show ?thesis
    by (simp add: i0(1) put_block_id_def del: put_steps.simps)
qed

lemma last_char_nonzero:
  assumes "f \<noteq> []" and "CHR 0x00 \<notin> set f"
  shows "last (chars f) \<noteq> 0"
proof -
  have "c \<in> set f \<Longrightarrow> c \<noteq> CHR 0x00" for c using assms(2) by blast
  from this [OF last_in_set [OF assms(1)]]
  show ?thesis using assms(1) by (simp add: chars_def last_map of_char_eq_0)
qed

lemma kind_string:
  assumes "env_good E" and "UUID_Get_UUID (e_registry E) (Some nm) UUID_TYPE_NTLV_TYPE = Some (Some ty)"
  shows "kind E nm ty"
  using assms env_good_compare [OF assms(1)] env_good_registry [OF assms(1)]
  by (auto simp: kind_def JsonBuffer_NamedNTLVTypeMatches_def UUID_Is_Named_UUID_def)

lemma get_uint_decimal:
  assumes "json_object_object_get (e_js E) q m = Some c" and "json_object_get_type (e_js E) c = json_type_int"
    and "json_object_get_string (e_js E) c = Some (decimal n)"
  shows "JsonBuffer_Get_uint8_t E (Some q) (Some m) = (if n < 2 ^ 8 then Some (of_nat n) else None)
    \<and> JsonBuffer_Get_uint16_t E (Some q) (Some m) = (if n < 2 ^ 16 then Some (of_nat n) else None)
    \<and> JsonBuffer_Get_uint32_t E (Some q) (Some m) = (if n < 2 ^ 32 then Some (of_nat n) else None)
    \<and> JsonBuffer_Get_uint64_t E (Some q) (Some m) = (if n < 2 ^ 64 then Some (of_nat n) else None)"
proof -
  have p: "JsonBuffer_ParseUnsignedText (Some (decimal n)) (2 ^ w - 1) = (if n < 2 ^ w then Some n else None)"
    if "w \<le> 64" for w
  proof -
    have "(2 :: nat) ^ w - 1 < 2 ^ 64" using power_increasing [OF that, of "2 :: nat"] by simp
    moreover have "n \<le> 2 ^ w - 1 \<longleftrightarrow> n < 2 ^ w" using zero_less_power [of "2 :: nat" w] by arith
    ultimately show ?thesis by (simp add: ParseUnsignedText_decimal)
  qed
  have "unat (of_nat n :: u64) = n" if "n < 2 ^ 64" using that by (simp add: unsigned_of_nat take_bit_eq_mod)
  moreover have "ucast (of_nat n :: u64) = (of_nat n :: u32)" by (rule bit_word_eqI) (auto simp: bit_simps)
  ultimately show ?thesis
    using assms p [of 8] p [of 16] p [of 64]
    by (auto simp: JsonBuffer_Get_uint8_t_def JsonBuffer_Get_uint16_t_def JsonBuffer_Get_uint32_t_def
        JsonBuffer_Get_uint64_t_def get_typed_def)
qed

section \<open>Properties\<close>

text \<open>C8: An event survives the serialisation. Where json-c, libuuid and OpenSSL behave as documented and no
  allocation fails, \<open>JsonBuffer_Put_Event\<close> of an event with identifiers and well formed metadata adds one
  member to the parent and changes no other, and \<open>JsonBuffer_Get_Event\<close> returns from it an event with the
  same identifiers, the same parents, the same metadata and the same block, its hashes, parents and metadata
  included. What is lost is the application type of the event and the data of the block.\<close>
theorem Event_json_roundtrip:
  assumes "env_good E" and "fit_event E e" and "json_object_get_type (e_js E) p = json_type_object"
  shows "\<exists>p' e'. JsonBuffer_Put_Event E (Some n) (Some e) (Some p) = Some (True, Some p')
    \<and> JsonBuffer_Get_Event E (Some p') (Some n) = Some (Some e') \<and> event_same E e e'
    \<and> (\<forall>m. m \<noteq> n \<longrightarrow> json_object_object_get (e_js E) p' m = json_object_object_get (e_js E) p m)"
  using json_event.put_get [OF assms, of n] unfolding put_event_def agree_event_def by blast

theorem Event_json_roundtrip_witness:
  "\<exists>p' e'. JsonBuffer_Put_Event ref_env (Some ''Event'') (Some ex_event) (Some (JObject [])) = Some (True, Some p')
    \<and> JsonBuffer_Get_Event ref_env (Some p') (Some ''Event'') = Some (Some e') \<and> event_same ref_env ex_event e'"
  using Event_json_roundtrip [OF ref_env_good ex_event_fit ref_empty, of "''Event''"] by blast

text \<open>C28: A judgment survives the serialisation completely: every field that \<open>JsonBuffer_Put_Judgment\<close> writes is
  read back by \<open>JsonBuffer_Get_Judgment\<close> at its width, the optional message included, with an equal block
  identifier and the same metadata.\<close>
theorem Judgment_json_roundtrip:
  assumes "env_good E" and "fit_judgment E j" and "json_object_get_type (e_js E) p = json_type_object"
  shows "\<exists>p' bid meta. JsonBuffer_Put_Judgment E (Some n) (Some j) (Some p) = Some (True, Some p')
    \<and> JsonBuffer_Get_Judgment E (Some p') (Some n) = Some (Some (j \<lparr>pBlockId := bid, pMetaDataList := meta\<rparr>))
    \<and> rel_option block_id_same (pBlockId j) bid \<and> rel_option (list_same E) (pMetaDataList j) meta"
  using json_judgment.put_get [OF assms, of n] unfolding put_judgment_def agree_judgment_def judgment_same_def by blast

theorem Judgment_json_roundtrip_witness:
  "\<exists>p' bid meta. JsonBuffer_Put_Judgment ref_env (Some ''J'') (Some ex_judgment) (Some (JObject [])) = Some (True, Some p')
    \<and> JsonBuffer_Get_Judgment ref_env (Some p') (Some ''J'')
        = Some (Some (ex_judgment \<lparr>pBlockId := bid, pMetaDataList := meta\<rparr>))
    \<and> rel_option block_id_same (pBlockId ex_judgment) bid"
  using Judgment_json_roundtrip [OF ref_env_good ex_judgment_fit ref_empty, of "''J''"] by blast

text \<open>C29: The get operations for integers, on an integer member. The text json-c gives for the member is the
  decimal text of its number \<open>i\<close>, with a sign before it when \<open>i\<close> is negative. Then each of the four operations
  returns \<open>i\<close> when \<open>i\<close> is not negative and below two to the width, and fails otherwise: none of them truncates,
  and none takes a negative number for the large one that \<open>strtoumax\<close> would return.\<close>
theorem Get_uint_bounds:
  assumes "json_object_object_get (e_js E) q m = Some c" and "json_object_get_type (e_js E) c = json_type_int"
    and "json_object_get_string (e_js E) c = Some (integer_text i)"
  shows "JsonBuffer_Get_uint8_t E (Some q) (Some m) = (if 0 \<le> i \<and> i < 2 ^ 8 then Some (of_int i) else None)
    \<and> JsonBuffer_Get_uint16_t E (Some q) (Some m) = (if 0 \<le> i \<and> i < 2 ^ 16 then Some (of_int i) else None)
    \<and> JsonBuffer_Get_uint32_t E (Some q) (Some m) = (if 0 \<le> i \<and> i < 2 ^ 32 then Some (of_int i) else None)
    \<and> JsonBuffer_Get_uint64_t E (Some q) (Some m) = (if 0 \<le> i \<and> i < 2 ^ 64 then Some (of_int i) else None)"
proof (cases "i < 0")
  case True
  then have "JsonBuffer_ParseUnsignedText (Some (integer_text i)) v = None" for v
    by (simp add: integer_text_def JsonBuffer_ParseUnsignedText_def)
  then show ?thesis using assms True
    by (auto simp: JsonBuffer_Get_uint8_t_def JsonBuffer_Get_uint16_t_def JsonBuffer_Get_uint32_t_def
        JsonBuffer_Get_uint64_t_def get_typed_def)
next
  case False
  then obtain n where n: "i = int n" by (metis nonneg_int_cases not_less)
  then have t: "json_object_get_string (e_js E) c = Some (decimal n)" using assms(3) by (simp add: integer_text_def)
  have lt: "int n < 2 ^ w \<longleftrightarrow> n < 2 ^ w" for w by (metis of_nat_less_iff of_nat_numeral of_nat_power)
  show ?thesis using get_uint_decimal [OF assms(1,2) t] unfolding n lt by simp
qed

theorem Get_uint_bounds_witness:
  "JsonBuffer_Get_uint8_t ref_env (Some (JObject [(''n'', JInt 256)])) (Some ''n'') = None
   \<and> JsonBuffer_Get_uint16_t ref_env (Some (JObject [(''n'', JInt 256)])) (Some ''n'') = Some 256
   \<and> JsonBuffer_Get_uint64_t ref_env (Some (JObject [(''n'', JInt (- 1))])) (Some ''n'') = None"
  using Get_uint_bounds [of ref_env "JObject [(''n'', JInt 256)]" "''n''" "JInt 256" 256]
    Get_uint_bounds [of ref_env "JObject [(''n'', JInt (- 1))]" "''n''" "JInt (- 1)" "- 1"]
  by (simp add: ref_env_def ref_js_def integer_text_def)

text \<open>C30: A block whose file name was added with \<open>Block_MetaData_Add_FileName\<close> cannot be serialised. The
  operation stores the characters of the name without the terminating null, while \<open>JsonBuffer_Put_NTLVItem\<close>
  requires the last byte of a string to be null; so on a block that is fit for serialisation before,
  adding a name succeeds and \<open>JsonBuffer_Put_Block\<close> fails afterwards on every parent.\<close>
theorem Block_FileName_not_serialisable:
  assumes "env_good E" and "fit_block E (Block i pid par (Some l) d)"
    and "f \<noteq> []" and "CHR 0x00 \<notin> set f" and "length f < 2 ^ 32"
    and "UUID_Get_UUID (e_registry E) (Some ''FILENAME'') UUID_TYPE_NTLV_NAME = Some (Some nm)" and "length nm = 16"
    and "UUID_Get_UUID (e_registry E) (Some ''STRING'') UUID_TYPE_NTLV_TYPE = Some (Some ty)" and "length ty = 16"
  shows "\<exists>b. Block_MetaData_Add_FileName (e_mem E) (e_alloc E) (e_registry E) (Some (Block i pid par (Some l) d)) (Some f)
        = Some (True, Some b)
      \<and> (\<forall>p. \<exists>p'. JsonBuffer_Put_Block E (Some n) (Some b) (Some p) = Some (False, Some p'))"
proof -
  obtain xs where xs: "ntlvs (e_uuid_compare E) l xs" "list_all (fit_item E) xs"
    using assms(2) by (auto simp: meta_ok_def fit_list_def)
  let ?sz = "of_nat (length f) :: u32"
  have sz: "unat ?sz = length f" using assms(5) by (simp add: unsigned_of_nat take_bit_eq_mod)
  then have sz0: "?sz \<noteq> 0" using assms(3) by (metis length_greater_0_conv less_irrefl unat_0)
  let ?bad = "\<lparr>uuidName = nm, uuidType = ty, NTLVItem.iLength = ?sz, NTLVItem.pData = chars f\<rparr>"
  obtain l' where l': "NTLVList_Add (e_mem E) True True (Some l) nm ty ?sz (Some (cstring f)) = Some (True, Some l')"
      "ntlvs (e_uuid_compare E) l' (xs @ [?bad])"
    using NTLVList_Add_ntlvs [OF xs(1), of "e_mem E" ?sz "cstring f" nm ty] sz sz0 assms(1)
    by (auto simp: cstring_def chars_def)
  let ?b = "Block i pid par (Some l') d"
  have add: "Block_MetaData_Add_FileName (e_mem E) (e_alloc E) (e_registry E) (Some (Block i pid par (Some l) d)) (Some f)
      = Some (True, Some ?b)"
    using assms(1,6,8) l'(1) by (simp add: Block_MetaData_Add_FileName_def Block_MetaData_Add_def)
  have "last (chars f) \<noteq> 0" using assms(3,4) by (rule last_char_nonzero)
  then have t: "terminated ?bad = Some False"
    using sz sz0 assms(3) by (simp add: terminated_def last_conv_nth chars_def)
  have k: "kind E ''STRING'' ty"
    using assms(1,8) by (simp add: kind_string)
  have "fails (JsonBuffer_Put_NTLVList E (Some ''Metadata'') (Some l'))"
    by (rule put_list_fails [OF assms(1) l'(2) xs(2) unterminated_fails [OF assms(1)]]) (use k t assms(7,9) in simp_all)
  from block_meta_fails [OF assms(1,2) this] show ?thesis using add unfolding fails_def by blast
qed

lemma ref_lookups:
  "UUID_Get_UUID ref_registry (Some ''FILENAME'') UUID_TYPE_NTLV_NAME = Some (Some (replicate 15 0 @ [7]))"
  "UUID_Get_UUID ref_registry (Some ''STRING'') UUID_TYPE_NTLV_TYPE = Some (Some (replicate 15 0 @ [1]))"
proof -
  have "list_all (\<lambda>e. UUIDListNode.sName e \<noteq> []) ref_names" by (simp add: ref_names_def)
  then obtain l where "sg_NtlvNameList ref_registry = Some l" and n: "uuids uuid_compare_ref l ref_names"
    by (rule ref_list) (simp add: ref_registry_def)
  then have g: "UUID_Get_List ref_registry UUID_TYPE_NTLV_NAME = Some l" by (simp add: UUID_Get_List_def)
  show "UUID_Get_UUID ref_registry (Some ''FILENAME'') UUID_TYPE_NTLV_NAME = Some (Some (replicate 15 0 @ [7]))"
    by (simp add: UUID_Get_UUID_def UUID_getNodeByName_uuids [OF n g] ref_names_def)
next
  obtain l where "sg_NtlvTypeList ref_registry = Some l" and t: "uuids uuid_compare_ref l ref_entries" by (rule ref_types)
  then have g: "UUID_Get_List ref_registry UUID_TYPE_NTLV_TYPE = Some l" by (simp add: UUID_Get_List_def)
  show "UUID_Get_UUID ref_registry (Some ''STRING'') UUID_TYPE_NTLV_TYPE = Some (Some (replicate 15 0 @ [1]))"
    by (simp add: UUID_Get_UUID_def UUID_getNodeByName_uuids [OF t g] ref_entries_def)
qed

theorem Block_FileName_not_serialisable_witness:
  "\<exists>b. Block_MetaData_Add_FileName (\<lambda>a. True) (\<lambda>s. True) ref_registry (Some ex_block) (Some ''a.exe'') = Some (True, Some b)
     \<and> (\<exists>p. JsonBuffer_Put_Block ref_env (Some ''Block'') (Some b) (Some (JObject [])) = Some (False, Some p))"
proof -
  have fit: "fit_block ref_env (Block (Some (ex_block_id 12)) (Some (ex_block_id 40)) None (Some ex_list) no_data)"
    by (simp add: ex_fit)
  have env: "e_mem ref_env = (\<lambda>a. True)" "e_alloc ref_env = (\<lambda>s. True)" "e_registry ref_env = ref_registry"
    by (simp_all add: ref_env_def)
  show ?thesis
    using Block_FileName_not_serialisable [OF ref_env_good fit, of "''a.exe''" "replicate 15 0 @ [7]" "replicate 15 0 @ [1]" "''Block''",
        unfolded env ref_lookups] unfolding ex_block_def by fastforce
qed

text \<open>When the object for an item cannot be allocated, \<open>JsonBuffer_Put_NTLVItem\<close> returns \<open>false\<close>, which as a
  result of a list callback means that the iteration goes on; so \<open>JsonBuffer_Put_NTLVList\<close> reports success
  and has put an array from which every item is missing.\<close>
theorem Put_NTLVList_drops_items:
  assumes "json_object_new_object (e_js E) = None" and "json_object_new_array (e_js E) = Some a"
    and "ntlvs (e_uuid_compare E) l xs"
  shows "JsonBuffer_Put_NTLVList E (Some n) (Some l) (Some p) = Some (True, Some (json_object_object_add (e_js E) p n a))"
proof -
  have "each_walk None None (JsonBuffer_Put_NTLVItem E) xs a [] = Some (True, replicate (length xs) False, a, [])"
    by (induction xs) (simp_all add: JsonBuffer_Put_NTLVItem_def assms(1))
  then have "List_ForEach (Some l) (JsonBuffer_Put_NTLVItem E) a [] = Some (True, Some l, a, [])"
    using assms(3) by (intro List_ForEach_readonly) (auto simp: ntlvs_def)
  then show ?thesis by (simp add: JsonBuffer_Put_NTLVList_def put_container_def assms(2) del: List_ForEach.simps)
qed

theorem Put_NTLVList_drops_items_witness:
  "JsonBuffer_Put_NTLVList (ref_env \<lparr>e_js := ref_js \<lparr>json_object_new_object := None\<rparr>\<rparr>) (Some ''Metadata'') (Some ex_list)
     (Some (JObject [])) = Some (True, Some (JObject [(''Metadata'', JArray [])]))"
  using Put_NTLVList_drops_items [of "ref_env \<lparr>e_js := ref_js \<lparr>json_object_new_object := None\<rparr>\<rparr>" "JArray []" ex_list
      ex_items "''Metadata''" "JObject []"] ex_list_ntlvs
  by (simp add: ref_env_def ref_js_def)

end
