(* ===== verification/List_Tables.thy ===== *)
theory List_Tables
  imports Linked_List_Refine
begin

text \<open>
  Lists as the components of the library create them: in the generic mode, without a limit, with a
  comparison by key and no locks of items. What creating, adding, finding, walking and pruning do to the
  items.
\<close>

section \<open>Tables\<close>

text \<open>A list as a component creates it to find items by key.\<close>
definition table :: "('s \<Rightarrow> 'i \<Rightarrow> 'k \<Rightarrow> int) \<Rightarrow> ('i, 'k, 's) List_t \<Rightarrow> 'i list \<Rightarrow> bool" where
  "table kc l xs \<longleftrightarrow> List_rep l xs \<and> mode l = LIST_MODE_GENERIC \<and> limit l = 0 \<and> keyCmp l = Some kc
     \<and> nodeLock l = None \<and> nodeUnlock l = None"

lemma table_create:
  "List_Create True True True LIST_MODE_GENERIC cp (Some kc) ds cl None None = Some l \<Longrightarrow> table kc l []"
  unfolding table_def by (frule List_Create_rep) (auto simp: List_Create_def)

lemma table_push:
  assumes "table kc l xs" and "mem (brk l)"
  shows "\<exists>l'. List_Push mem (Some l) x = Some (True, Some l') \<and> table kc l' (xs @ [x]) \<and> cfg l' = cfg l"
proof -
  have "List_rep l xs" "accepts mem l" using assms by (simp_all add: table_def accepts_def valid_mode_def)
  from List_Push_accepted [OF this, of x] obtain l' where
    "List_Push mem (Some l) x = Some (True, Some l')" "List_rep l' (xs @ [x])" "cfg l' = cfg l"
    using assms by (auto simp: table_def push_spec_def)
  then show ?thesis using assms(1) cfgD [of l' l] by (auto simp: table_def)
qed

lemma table_find: "table kc l xs \<Longrightarrow> List_Find (Some l) k s = Some (find (\<lambda>x. kc s x k = 0) xs, Some l, s)"
  by (rule List_Find_refines) (simp_all add: table_def)

lemma table_length: "table kc l xs \<Longrightarrow> List_Length (Some l) = length xs"
  using List_rep_len by (auto simp: table_def)

lemma table_destroy:
  "table kc l xs \<Longrightarrow> List_Destroy (Some l) s = Some (fold (call_opt (destroy l)) (rev xs) s)"
  using List_Clear_refines [of l xs s] by (auto simp: table_def List_Clear.simps pop_order_def valid_mode_def)

section \<open>Walks\<close>

lemma each_walk_fold:
  assumes "\<And>x u. x \<in> set xs \<Longrightarrow> J u \<Longrightarrow> op x u s = Some (LIST_EACH_OK, f x u, s) \<and> J (f x u)" and "J u"
  shows "each_walk None None op xs u s = Some (True, replicate (length xs) False, fold f xs u, s) \<and> J (fold f xs u)"
  using assms by (induction xs arbitrary: u) auto

text \<open>A callback that only changes its user data, which satisfies \<open>J\<close>.\<close>
lemma table_fold_inv:
  assumes t: "table kc l xs"
    and "\<And>x u. x \<in> set xs \<Longrightarrow> J u \<Longrightarrow> op x u s = Some (LIST_EACH_OK, f x u, s) \<and> J (f x u)" and "J u"
  shows "List_ForEach (Some l) op u s = Some (True, Some l, fold f xs u, s) \<and> J (fold f xs u)"
proof -
  have l: "List_rep l xs" "nodeLock l = None" "nodeUnlock l = None" using t by (simp_all add: table_def)
  have w: "each_walk (nodeLock l) (nodeUnlock l) op xs u s = Some (True, replicate (length xs) False, fold f xs u, s) \<and> J (fold f xs u)"
    unfolding l(2,3) by (rule each_walk_fold [where J = J]) (use assms(2,3) in blast)+
  then have "List_ForEach (Some l) op u s = Some (True, Some l, fold f xs u, s)"
    by (intro List_ForEach_readonly [OF l(1)]) auto
  then show ?thesis using w by simp
qed

lemma table_fold:
  assumes t: "table kc l xs" and "\<And>x u. x \<in> set xs \<Longrightarrow> op x u s = Some (LIST_EACH_OK, f x u, s)"
  shows "List_ForEach (Some l) op u s = Some (True, Some l, fold f xs u, s)"
  using table_fold_inv [OF t, where J = "\<lambda>u. True" and op = op and f = f and s = s and u = u] assms(2) by simp

lemma fold_call_None [simp]: "fold (call_opt None) xs s = s"
  by (induction xs arbitrary: s) simp_all

text \<open>A callback that only changes its state.\<close>
lemma each_walk_state:
  assumes "\<And>x t. x \<in> set xs \<Longrightarrow> I t \<Longrightarrow> op x u t = Some (if P x then LIST_EACH_REMOVE else LIST_EACH_OK, u, g x t) \<and> I (g x t)"
    and "I s"
  shows "each_walk None None op xs u s = Some (True, map P xs, u, fold g xs s)"
  using assms by (induction xs arbitrary: s) auto

lemma kept_map: "kept (map P xs) xs = filter (\<lambda>x. \<not> P x) xs" "removed (map P xs) xs = filter P xs"
  by (induction xs) auto

text \<open>A callback that selects the items to remove.\<close>
lemma table_prune:
  assumes t: "table kc l xs"
    and "\<And>x t. x \<in> set xs \<Longrightarrow> I t \<Longrightarrow> op x u t = Some (if P x then LIST_EACH_REMOVE else LIST_EACH_OK, u, g x t) \<and> I (g x t)"
    and "I s"
  shows "\<exists>l'. List_ForEach (Some l) op u s =
      Some (True, Some l', u, fold (call_opt (destroy l)) (filter P xs) (fold g xs s))
    \<and> table kc l' (filter (\<lambda>x. \<not> P x) xs) \<and> cfg l' = cfg l"
proof -
  have l: "List_rep l xs" "nodeLock l = None" "nodeUnlock l = None" using t by (simp_all add: table_def)
  have "each_walk (nodeLock l) (nodeUnlock l) op xs u s = Some (True, map P xs, u, fold g xs s)"
    unfolding l(2,3) by (rule each_walk_state [where I = I]) (use assms(2,3) in blast)+
  from List_ForEach_walk [OF l(1) this] obtain l' where
    "List_ForEach (Some l) op u s = Some (True, Some l', u, fold (call_opt (destroy l)) (filter P xs) (fold g xs s))"
    "List_rep l' (filter (\<lambda>x. \<not> P x) xs)" "cfg l' = cfg l" by (auto simp: kept_map)
  then show ?thesis using t cfgD [of l' l] by (auto simp: table_def)
qed

end
