(* ===== verification/Message_Properties.thy ===== *)
theory Message_Properties
  imports Message_Bodies Json_Properties List_Tables
begin

text \<open>
  Properties of the messages (\<open>src/messages\<close>): a message that one process serialises is set up and
  deserialised by another to the same body, the nuggets in its headers are read back, and what happens
  to a malformed registration request.
\<close>

section \<open>The table of handlers\<close>

lemma sint_diff_0: "sint (a - b :: u32) = 0 \<longleftrightarrow> a = b"
  using signed_word_eqI [of "a - b" 0] by auto

interpretation handler_keyed: keyed MessageHandler_KeyCmp "\<lambda>s. h_type"
  by unfold_locales (simp add: MessageHandler_KeyCmp_def sint_diff_0)

interpretation header_keyed: keyed MessageHeader_KeyCmp "\<lambda>s. MessageHeader.sName"
  by unfold_locales (simp add: MessageHeader_KeyCmp_def strcmp_eq_0)

section \<open>Handlers\<close>

lemma register_all_table:
  assumes "\<forall>a. e_mem E a" and "table MessageHandler_KeyCmp l xs"
  shows "\<exists>l'. register_all E hs (Some l) = Some (Some l') \<and> table MessageHandler_KeyCmp l' (xs @ hs)"
  using assms(2)
proof (induction hs arbitrary: l xs)
  case (Cons h hs)
  obtain l1 where l1: "List_Push (e_mem E) (Some l) h = Some (True, Some l1)" "table MessageHandler_KeyCmp l1 (xs @ [h])"
    using table_push [OF Cons.prems, of "e_mem E" h] assms(1) by blast
  then show ?case using Cons.IH [OF l1(2)] by (simp add: Message_Register_Handler_def)
qed simp

lemma Message_Init_table:
  assumes "env_good E"
  shows "\<exists>l. Message_Init E = Some (True, Some l) \<and> table MessageHandler_KeyCmp l handlers"
proof -
  let ?mk = "List_Create True True True LIST_MODE_GENERIC (Some MessageHandler_Cmp) (Some MessageHandler_KeyCmp)
      (Some MessageHandler_Delete) None None None :: handler_list option"
  obtain l where l: "?mk = Some l" by (simp add: List_Create_def)
  have "\<forall>a. e_mem E a" using assms by simp
  from register_all_table [OF this table_create [OF l], of handlers] l assms
  show ?thesis by (auto simp: Message_Init_def)
qed

lemma Message_Setup_table:
  assumes "table MessageHandler_KeyCmp l hs"
  shows "Message_Setup (Some l) m = Some (case map_of (map (\<lambda>h. (h_type h, h)) hs) (m_type m) of
      None \<Rightarrow> (False, m)
    | Some h \<Rightarrow> (True, m \<lparr>m_serialize := Some (h_serialize h), m_deserialize := Some (h_deserialize h),
                  m_destroy := Some (h_destroy h)\<rparr>))"
  unfolding Message_Setup_def by (simp add: table_find [OF assms] handler_keyed.find_map_of)

section \<open>Bodies\<close>

text \<open>The file whose functions a body needs, and the types of the messages with such a body.\<close>
fun codec_of :: "('ctx, 'md) payload \<Rightarrow> codec" where
  "codec_of (P_Block b) = C_Block"
| "codec_of (P_CacheReq b) = C_CacheReq"
| "codec_of (P_CacheResp b) = C_CacheResp"
| "codec_of (P_Inspection b) = C_Inspection"
| "codec_of (P_Judgment b) = C_Judgment"
| "codec_of (P_AlertPrimary b) = C_AlertPrimary"
| "codec_of (P_AlertChild b) = C_AlertChild"
| "codec_of (P_OutputEvent b) = C_OutputEvent"
| "codec_of (P_OutputInspection b) = C_OutputInspection"
| "codec_of (P_ConfigAck b) = C_ConfigAck"
| "codec_of (P_ConfigUpdate b) = C_ConfigUpdate"
| "codec_of (P_Error b) = C_Error"
| "codec_of (P_Hello b) = C_Hello"
| "codec_of (P_RegReq b) = C_RegReq"
| "codec_of (P_Term b) = C_Term"

fun body_types :: "('ctx, 'md) payload \<Rightarrow> u32 list" where
  "body_types (P_Block b) = [MESSAGE_TYPE_BLOCK]"
| "body_types (P_CacheReq b) = [MESSAGE_TYPE_REQ]"
| "body_types (P_CacheResp b) = [MESSAGE_TYPE_RESP]"
| "body_types (P_Inspection b) = [MESSAGE_TYPE_INSPECTION]"
| "body_types (P_Judgment b) = [MESSAGE_TYPE_JUDGMENT]"
| "body_types (P_AlertPrimary b) = [MESSAGE_TYPE_ALERT_PRIMARY]"
| "body_types (P_AlertChild b) = [MESSAGE_TYPE_ALERT_CHILD]"
| "body_types (P_OutputEvent b) = [MESSAGE_TYPE_OUTPUT_EVENT]"
| "body_types (P_OutputInspection b) = [MESSAGE_TYPE_OUTPUT_INSPECTION]"
| "body_types (P_ConfigAck b) = [MESSAGE_TYPE_CONFIG_ACK]"
| "body_types (P_ConfigUpdate b) = [MESSAGE_TYPE_CONFIG_UPDATE]"
| "body_types (P_Error b) = [MESSAGE_TYPE_REG_ERR, MESSAGE_TYPE_CONFIG_ERR]"
| "body_types (P_Hello b) = [MESSAGE_TYPE_HELLO]"
| "body_types (P_RegReq b) = [MESSAGE_TYPE_REG_REQ]"
| "body_types (P_Term b) = [MESSAGE_TYPE_TERM]"

text \<open>What makes a body fit to travel.\<close>
fun fit_payload :: "'j json_env \<Rightarrow> ('ctx, 'md) payload \<Rightarrow> bool" where
  "fit_payload E (P_Block b) = fit_block_submission E b"
| "fit_payload E (P_CacheReq b) = fit_cache_req E b"
| "fit_payload E (P_CacheResp b) = fit_cache_resp E b"
| "fit_payload E (P_Inspection b) = fit_inspection E b"
| "fit_payload E (P_Judgment b) = fit_judgment_submission E b"
| "fit_payload E (P_AlertPrimary b) = fit_alert_primary E b"
| "fit_payload E (P_AlertChild b) = fit_alert_child E b"
| "fit_payload E (P_OutputEvent b) = fit_output_event E b"
| "fit_payload E (P_OutputInspection b) = fit_output_inspection E b"
| "fit_payload E (P_ConfigAck b) = fit_config_ack E b"
| "fit_payload E (P_ConfigUpdate b) = fit_config_update E b"
| "fit_payload E (P_Error b) = fit_error E b"
| "fit_payload E (P_Hello b) = fit_hello E b"
| "fit_payload E (P_RegReq b) = fit_registration E b"
| "fit_payload E (P_Term b) = fit_terminate E b"

text \<open>The received body and the one that was sent.\<close>
fun payload_same :: "'j json_env \<Rightarrow> ('ctx, 'md) payload \<Rightarrow> ('ctx, 'md) payload \<Rightarrow> bool" where
  "payload_same E (P_Block b) q = (\<exists>c. q = P_Block c \<and> block_submission_same E b c)"
| "payload_same E (P_CacheReq b) q = (\<exists>c. q = P_CacheReq c \<and> cache_req_same E b c)"
| "payload_same E (P_CacheResp b) q = (\<exists>c. q = P_CacheResp c \<and> cache_resp_same E b c)"
| "payload_same E (P_Inspection b) q = (\<exists>c. q = P_Inspection c \<and> inspection_same E b c)"
| "payload_same E (P_Judgment b) q = (\<exists>c. q = P_Judgment c \<and> judgment_submission_same E b c)"
| "payload_same E (P_AlertPrimary b) q = (\<exists>c. q = P_AlertPrimary c \<and> alert_primary_same E b c)"
| "payload_same E (P_AlertChild b) q = (\<exists>c. q = P_AlertChild c \<and> alert_child_same E b c)"
| "payload_same E (P_OutputEvent b) q = (\<exists>c. q = P_OutputEvent c \<and> output_event_same E b c)"
| "payload_same E (P_OutputInspection b) q = (\<exists>c. q = P_OutputInspection c \<and> output_inspection_same E b c)"
| "payload_same E (P_ConfigAck b) q = (\<exists>c. q = P_ConfigAck c \<and> config_ack_same E b c)"
| "payload_same E (P_ConfigUpdate b) q = (\<exists>c. q = P_ConfigUpdate c \<and> config_update_same E b c)"
| "payload_same E (P_Error b) q = (\<exists>c. q = P_Error c \<and> error_same E b c)"
| "payload_same E (P_Hello b) q = (\<exists>c. q = P_Hello c \<and> hello_same E b c)"
| "payload_same E (P_RegReq b) q = (\<exists>c. q = P_RegReq c \<and> registration_same E b c)"
| "payload_same E (P_Term b) q = (\<exists>c. q = P_Term c \<and> terminate_same E b c)"

lemma payload_exchange:
  assumes "env_good E" and "fit_payload E p" and "message m = Some p" and "serialized m = None"
    and "m_serialize m = Some (codec_of p)"
  shows "\<exists>t p'. serialize_message E m = Some (True, sent m t)
    \<and> (shallow t \<longrightarrow> (\<forall>m2. serialized m2 = Some t \<and> m_deserialize m2 = Some (codec_of p) \<longrightarrow>
         deserialize_message E m2 = Some (True, m2 \<lparr>message := Some p'\<rparr>)))
    \<and> payload_same E p p'"
proof (cases p)
  case (P_Block b)
  then show ?thesis using block_submission_message.exchange [of E b m] assms by simp
next
  case (P_CacheReq b)
  then show ?thesis using cache_req_message.exchange [of E b m] assms by simp
next
  case (P_CacheResp b)
  then show ?thesis using cache_resp_message.exchange [of E b m] assms by simp
next
  case (P_Inspection b)
  then show ?thesis using inspection_message.exchange [of E b m] assms by simp
next
  case (P_Judgment b)
  then show ?thesis using judgment_submission_message.exchange [of E b m] assms by simp
next
  case (P_AlertPrimary b)
  then show ?thesis using alert_primary_message.exchange [of E b m] assms by simp
next
  case (P_AlertChild b)
  then show ?thesis using alert_child_message.exchange [of E b m] assms by simp
next
  case (P_OutputEvent b)
  then show ?thesis using output_event_message.exchange [of E b m] assms by simp
next
  case (P_OutputInspection b)
  then show ?thesis using output_inspection_message.exchange [of E b m] assms by simp
next
  case (P_ConfigAck b)
  then show ?thesis using config_ack_message.exchange [of E b m] assms by simp
next
  case (P_ConfigUpdate b)
  then show ?thesis using config_update_message.exchange [of E b m] assms by simp
next
  case (P_Error b)
  then show ?thesis using error_message.exchange [of E b m] assms by simp
next
  case (P_Hello b)
  then show ?thesis using hello_message.exchange [of E b m] assms by simp
next
  case (P_RegReq b)
  then show ?thesis using registration_message.exchange [of E b m] assms by simp
next
  case (P_Term b)
  then show ?thesis using terminate_message.exchange [of E b m] assms by simp
qed

lemma body_types_handled:
  assumes "t \<in> set (body_types p)" and "codec_of p \<noteq> C_OutputInspection"
  shows "\<exists>h. map_of (map (\<lambda>h. (h_type h, h)) handlers) t = Some h \<and> h_deserialize h = codec_of p"
  using assms by (cases p) (auto simp: handlers_def handler_of_def)

section \<open>Headers\<close>

lemma headers_created:
  assumes "env_good E"
  shows "\<exists>l. Message_Header_List_Create (e_alloc E) = Some l \<and> table MessageHeader_KeyCmp l []"
proof -
  obtain l where l: "Message_Header_List_Create (e_alloc E) = Some l"
    using assms by (auto simp: Message_Header_List_Create_def List_Create_def)
  then show ?thesis using table_create assms by (auto simp: Message_Header_List_Create_def)
qed

lemma add_header_table:
  assumes "env_good E" and "headers m = Some l" and "table MessageHeader_KeyCmp l hs"
  shows "\<exists>l'. Message_Add_Header E m (Some n) (Some v) = Some (True, m \<lparr>headers := Some l'\<rparr>)
    \<and> table MessageHeader_KeyCmp l' (hs @ [\<lparr>MessageHeader.sName = n, sValue = v\<rparr>])"
  using table_push [OF assms(3), of "e_mem E" "\<lparr>MessageHeader.sName = n, sValue = v\<rparr>"] assms(1,2)
  by (auto simp: Message_Add_Header_def Message_HeaderList_Add_def)

lemma Message_Create_Directed_headers:
  assumes E: "env_good E"
  shows "\<exists>m l. Message_Create_Directed E ty ver body source dest = Some (Some m) \<and> headers m = Some l
    \<and> table MessageHeader_KeyCmp l [\<lparr>MessageHeader.sName = ''Source_Nugget'', sValue = e_uuid_unparse E source\<rparr>,
        \<lparr>MessageHeader.sName = ''Dest_Nugget'', sValue = e_uuid_unparse E dest\<rparr>]
    \<and> m_type m = ty \<and> version m = ver \<and> message m = body \<and> serialized m = None"
proof -
  obtain l where l: "Message_Header_List_Create (e_alloc E) = Some l" "table MessageHeader_KeyCmp l []"
    using headers_created [OF E] by blast
  obtain m where m: "Message_Create E ty ver body = Some m" "headers m = Some l" "m_type m = ty" "version m = ver"
    "message m = body" "serialized m = None"
    using E l(1) by (auto simp: Message_Create_def)
  obtain l1 where l1: "Message_Add_Header E m (Some ''Source_Nugget'') (Some (e_uuid_unparse E source)) =
      Some (True, m \<lparr>headers := Some l1\<rparr>)"
      "table MessageHeader_KeyCmp l1 [\<lparr>MessageHeader.sName = ''Source_Nugget'', sValue = e_uuid_unparse E source\<rparr>]"
    using add_header_table [OF E m(2) l(2)] by auto
  from add_header_table [OF E _ l1(2), of "m \<lparr>headers := Some l1\<rparr>" "''Dest_Nugget''" "e_uuid_unparse E dest"]
  show ?thesis using m l1(1) by (auto simp: Message_Create_Directed_def Message_Add_Directed_Headers_def)
qed

section \<open>Examples\<close>

definition ex_ack :: "(string \<times> bytes, string) payload" where
  "ex_ack = P_ConfigAck \<lparr>MessageConfigurationAck.uuidNuggetType = replicate 16 7, uuidApplicationType = replicate 16 200\<rparr>"

definition ex_message :: "(string \<times> bytes, string) msg" where
  "ex_message = \<lparr>m_type = MESSAGE_TYPE_CONFIG_ACK, m_length = 0, version = 1, brokerSettlement = None, telemetryContext = None,
     headers = None, message = Some ex_ack, serialized = None, m_serialize = Some C_ConfigAck,
     m_deserialize = Some C_ConfigAck, m_destroy = Some C_ConfigAck\<rparr>"

text \<open>A message as it comes from the wire, before it is set up.\<close>
definition ex_received :: "u32 \<Rightarrow> string \<Rightarrow> (string \<times> bytes, string) msg" where
  "ex_received ty t = \<lparr>m_type = ty, m_length = length t, version = 1, brokerSettlement = None, telemetryContext = None,
     headers = None, message = None, serialized = Some t, m_serialize = None, m_deserialize = None, m_destroy = None\<rparr>"

lemma ex_ack_fit: "fit_payload ref_env ex_ack"
  by (simp add: ex_ack_def fit_config_ack_def)

section \<open>Properties\<close>

text \<open>C7: A message that one process serialises is received by another. Take a body of any kind but that of an
  inspection output, fit to travel, in a message whose function pointers are those of its kind. Then
  \<open>message->serialize\<close> gives the message a text. When this text does not nest deeper than the tokener of json-c
  allows, a process that has run \<open>Message_Init\<close> and gets a message with that text and a type of that kind sets it
  up with \<open>Message_Setup\<close>, and \<open>message->deserialize\<close> makes a body of the same kind that agrees with the one sent
  in everything that travels. Not in the text are the data of blocks, the application type of events, the notes
  of nuggets, and the dispatcher fields of a hello of a nugget that is no dispatcher. The library functions
  behave as documented and no allocation fails.\<close>
theorem Message_delivery:
  assumes "env_good E" and "fit_payload E p" and "codec_of p \<noteq> C_OutputInspection"
    and "message m = Some p" and "serialized m = None" and "m_serialize m = Some (codec_of p)"
  shows "\<exists>t p' handlerList. serialize_message E m = Some (True, m \<lparr>serialized := Some t, m_length := length t\<rparr>)
    \<and> payload_same E p p' \<and> Message_Init E = Some (True, handlerList)
    \<and> (shallow t \<longrightarrow> (\<forall>r. serialized r = Some t \<longrightarrow> m_type r \<in> set (body_types p) \<longrightarrow>
         (\<exists>r'. Message_Setup handlerList r = Some (True, r')
            \<and> deserialize_message E r' = Some (True, r' \<lparr>message := Some p'\<rparr>))))"
proof -
  obtain t p' where t: "serialize_message E m = Some (True, sent m t)" "payload_same E p p'"
    "shallow t \<longrightarrow> (\<forall>m2. serialized m2 = Some t \<and> m_deserialize m2 = Some (codec_of p) \<longrightarrow>
       deserialize_message E m2 = Some (True, m2 \<lparr>message := Some p'\<rparr>))"
    using payload_exchange [OF assms(1,2,4-6)] by blast
  obtain l where l: "Message_Init E = Some (True, Some l)" "table MessageHandler_KeyCmp l handlers"
    using Message_Init_table [OF assms(1)] by blast
  have "\<exists>r'. Message_Setup (Some l) r = Some (True, r') \<and> deserialize_message E r' = Some (True, r' \<lparr>message := Some p'\<rparr>)"
    if r: "shallow t" "serialized r = Some t" "m_type r \<in> set (body_types p)" for r
  proof -
    obtain h where "map_of (map (\<lambda>h. (h_type h, h)) handlers) (m_type r) = Some h" "h_deserialize h = codec_of p"
      using body_types_handled [OF r(3) assms(3)] by blast
    then show ?thesis using Message_Setup_table [OF l(2), of r] t(3) r(1,2) by simp
  qed
  then show ?thesis using t(1,2) l(1) unfolding sent_def by blast
qed


lemma ex_message_shallow:
  "case serialize_message ref_env ex_message of Some (True, m) \<Rightarrow> (case serialized m of Some t \<Rightarrow> shallow t | None \<Rightarrow> False) | _ \<Rightarrow> False"
  by code_simp

theorem Message_delivery_witness:
  "\<exists>t p' hl r'. serialize_message ref_env ex_message = Some (True, ex_message \<lparr>serialized := Some t, m_length := length t\<rparr>)
    \<and> Message_Init ref_env = Some (True, hl) \<and> Message_Setup hl (ex_received MESSAGE_TYPE_CONFIG_ACK t) = Some (True, r')
    \<and> deserialize_message ref_env r' = Some (True, r' \<lparr>message := Some p'\<rparr>) \<and> payload_same ref_env ex_ack p'"
proof -
  have x: "serialized (ex_received MESSAGE_TYPE_CONFIG_ACK t) = Some t" "m_type (ex_received MESSAGE_TYPE_CONFIG_ACK t) = MESSAGE_TYPE_CONFIG_ACK"
    "body_types ex_ack = [MESSAGE_TYPE_CONFIG_ACK]" for t
    by (simp_all add: ex_received_def ex_ack_def)
  from Message_delivery [OF ref_env_good ex_ack_fit, of ex_message] obtain t p' hl where
    t: "serialize_message ref_env ex_message = Some (True, ex_message \<lparr>serialized := Some t, m_length := length t\<rparr>)"
      "payload_same ref_env ex_ack p'" "Message_Init ref_env = Some (True, hl)"
    and r: "shallow t \<longrightarrow> (\<forall>r. serialized r = Some t \<longrightarrow> m_type r \<in> set (body_types ex_ack) \<longrightarrow>
         (\<exists>r'. Message_Setup hl r = Some (True, r') \<and> deserialize_message ref_env r' = Some (True, r' \<lparr>message := Some p'\<rparr>)))"
    by (fastforce simp: ex_message_def ex_ack_def)
  have "shallow t" using ex_message_shallow t(1) by simp
  then show ?thesis using t r x by (intro exI [of _ t] exI [of _ p'] exI [of _ hl]) simp
qed

text \<open>C31: The table of handlers. After \<open>Message_Init\<close>, \<open>Message_Setup\<close> of a message succeeds exactly for the
  twenty-three types the files register, and then sets the three function pointers from the handler of that
  type; a message with another type is left alone. The type of an inspection output is not among them,
  although \<open>MessageOutputInspection_Initialize\<close> creates messages with it: no receiver can set them up.\<close>
theorem Message_Setup_types:
  assumes "env_good E" and "Message_Init E = Some (True, handlerList)"
  shows "Message_Setup handlerList m = Some (case map_of (map (\<lambda>h. (h_type h, h)) handlers) (m_type m) of
      None \<Rightarrow> (False, m)
    | Some h \<Rightarrow> (True, m \<lparr>m_serialize := Some (h_serialize h), m_deserialize := Some (h_deserialize h),
                  m_destroy := Some (h_destroy h)\<rparr>))
    \<and> distinct (map h_type handlers) \<and> length handlers = 23
    \<and> (m_type m = MESSAGE_TYPE_OUTPUT_INSPECTION \<longrightarrow> Message_Setup handlerList m = Some (False, m))"
proof -
  obtain l where l: "handlerList = Some l" "table MessageHandler_KeyCmp l handlers"
    using Message_Init_table [OF assms(1)] assms(2) by auto
  show ?thesis unfolding l(1) Message_Setup_table [OF l(2)] by (simp add: handlers_def handler_of_def)
qed

theorem Message_Setup_types_witness:
  "\<exists>hl. Message_Init ref_env = Some (True, hl)
    \<and> Message_Setup hl (ex_received MESSAGE_TYPE_OUTPUT_INSPECTION ''{}'')
        = Some (False, ex_received MESSAGE_TYPE_OUTPUT_INSPECTION ''{}'')"
proof -
  obtain l where "Message_Init ref_env = Some (True, Some l)" using Message_Init_table [OF ref_env_good] by blast
  moreover have "m_type (ex_received MESSAGE_TYPE_OUTPUT_INSPECTION ''{}'') = MESSAGE_TYPE_OUTPUT_INSPECTION"
    by (simp add: ex_received_def)
  ultimately show ?thesis
    using Message_Setup_types [OF ref_env_good, of "Some l" "ex_received MESSAGE_TYPE_OUTPUT_INSPECTION ''{}''"] by blast
qed

text \<open>C32: The nuggets of a directed message. \<open>Message_Create_Directed\<close> writes the two nuggets as text into the
  headers of the new message, and \<open>Message_Get_Nuggets\<close> reads from them the same source and destination.\<close>
theorem Message_directed_nuggets:
  assumes "env_good E" and "length source = 16" and "length dest = 16"
  shows "\<exists>m. Message_Create_Directed E ty ver body source dest = Some (Some m)
    \<and> m_type m = ty \<and> version m = ver \<and> message m = body \<and> serialized m = None
    \<and> Message_Get_Nuggets E m s0 d0 = Some (True, source, dest)"
proof -
  obtain m l where m: "Message_Create_Directed E ty ver body source dest = Some (Some m)" "headers m = Some l"
      "m_type m = ty" "version m = ver" "message m = body" "serialized m = None"
    and l: "table MessageHeader_KeyCmp l [\<lparr>MessageHeader.sName = ''Source_Nugget'', sValue = e_uuid_unparse E source\<rparr>,
        \<lparr>MessageHeader.sName = ''Dest_Nugget'', sValue = e_uuid_unparse E dest\<rparr>]"
    using Message_Create_Directed_headers [OF assms(1)] by blast
  have "Message_Get_Nuggets E m s0 d0 = Some (True, source, dest)"
    using env_good_uuid [OF assms(1)] assms(2,3)
    by (simp add: Message_Get_Nuggets_def m(2) table_find [OF l] header_keyed.kc_key)
  then show ?thesis using m by blast
qed

theorem Message_directed_nuggets_witness:
  "\<exists>m :: unit Message. Message_Create_Directed ref_env MESSAGE_TYPE_GO MESSAGE_VERSION_1 None (replicate 16 1) (replicate 16 2)
      = Some (Some m)
    \<and> Message_Get_Nuggets ref_env m no_uuid no_uuid = Some (True, replicate 16 1, replicate 16 2)"
  using Message_directed_nuggets [OF ref_env_good, of "replicate 16 1" "replicate 16 2" MESSAGE_TYPE_GO MESSAGE_VERSION_1 "None :: unit option"]
  by auto

text \<open>C33: A registration request with a malformed data type brings the receiver down. When the text of the message
  has the two identifiers and an array in which some entry is not the text of an identifier, then
  \<open>RegistrationRequest_Deserialize\<close> fails and leaves in the body a pointer to memory it has released;
  \<open>message->destroy\<close>, which the caller then runs, releases that memory again, and its outcome is undefined.\<close>
theorem RegistrationRequest_malformed:
  assumes "\<forall>site. e_alloc E site" and "serialized m = Some t" and "json_tokener_parse (e_js E) t = Some ob"
    and "JsonBuffer_Get_UUID E (Some ob) (Some ''Nugget_Type'') = Some u"
    and "JsonBuffer_Get_UUID E (Some ob) (Some ''App_Type'') = Some a"
    and "json_object_object_get (e_js E) ob ''Data_Types'' = Some arr"
    and "json_object_get_type (e_js E) arr = json_type_array"
    and "i < unat (of_nat (json_object_array_length (e_js E) arr) :: u32)"
    and "json_object_array_get_idx (e_js E) arr i = Some item"
    and "json_object_get_string (e_js E) item = Some str" and "e_uuid_parse E str = None"
  shows "\<exists>m'. RegistrationRequest_Deserialize E m = Some (False, m') \<and> RegistrationRequest_Destroy m' = None"
proof -
  have "get_types_loop E arr is = None" if "i \<in> set is" for "is"
    using that assms(9-11) by (induction "is") (auto simp: bind_eq_None_conv split: option.split)
  then have "get_types_loop E arr [0..<unat (of_nat (json_object_array_length (e_js E) arr) :: u32)] = None"
    using assms(8) by simp
  then show ?thesis
    using assms(1-7)
    by (simp add: RegistrationRequest_Deserialize_def deserialize_json_def into_def get_types_def
        RegistrationRequest_Destroy_def Let_def)
qed

text \<open>Surroundings in which one text is not that of an identifier, and a request with that text.\<close>
definition ex_strict_env :: "json_value json_env" where
  "ex_strict_env = ref_env \<lparr>e_uuid_parse := (\<lambda>t. if t = ''x'' then None else Some (replicate 16 0))\<rparr>"

definition ex_request :: json_value where
  "ex_request = JObject [(''Nugget_Type'', JObject [(''id'', JString ''0'')]), (''App_Type'', JObject [(''id'', JString ''0'')]),
     (''Data_Types'', JArray [JString ''0'', JString ''x''])]"

theorem RegistrationRequest_malformed_witness:
  "\<exists>m'. RegistrationRequest_Deserialize ex_strict_env (ex_received MESSAGE_TYPE_REG_REQ (jv_print ex_request)) = Some (False, m')
    \<and> RegistrationRequest_Destroy m' = None"
proof (rule RegistrationRequest_malformed)
  show "\<forall>site. e_alloc ex_strict_env site" by (simp add: ex_strict_env_def ref_env_def)
  show "json_tokener_parse (e_js ex_strict_env) (jv_print ex_request) = Some ex_request"
    by (simp add: ex_strict_env_def ref_env_def ref_js_def jv_parse_print)
  show "JsonBuffer_Get_UUID ex_strict_env (Some ex_request) (Some ''Nugget_Type'') = Some (replicate 16 0)"
    "JsonBuffer_Get_UUID ex_strict_env (Some ex_request) (Some ''App_Type'') = Some (replicate 16 0)"
    by (simp_all add: ex_strict_env_def ref_env_def ref_js_def ex_request_def JsonBuffer_Get_UUID_def get_typed_def
        JsonBuffer_Get_String_def)
  show "json_object_object_get (e_js ex_strict_env) ex_request ''Data_Types'' = Some (JArray [JString ''0'', JString ''x''])"
    by (simp add: ex_strict_env_def ref_env_def ref_js_def ex_request_def)
  show "json_object_array_get_idx (e_js ex_strict_env) (JArray [JString ''0'', JString ''x'']) 1 = Some (JString ''x'')"
    by (simp add: ex_strict_env_def ref_env_def ref_js_def)
qed (simp_all add: ex_received_def ex_strict_env_def ref_env_def ref_js_def)

end
