(* ===== verification/Config_File.thy ===== *)
theory Config_File
  imports C_Text
begin

text \<open>
  The reader of configuration files, \<open>src/config_file.c\<close> (the part for POSIX systems): a table of keys,
  each with a type and a destination, is filled from the environment and from a file parsed by
  libconfig.

  A destination is a name of type \<open>'v\<close>, and the memory is a function from names to values. The array of
  keys, which an entry of type \<open>END\<close> terminates, is a list. The functions of libconfig on one parsed file
  are a record of parameters, as are \<open>getenv\<close>, \<open>uuid_parse\<close> and the outcomes of allocations. Undefined
  behaviour is \<^term>\<open>None\<close> of the outer option.
\<close>

section \<open>Data\<close>

text \<open>\<open>RZB_CONF_KEY_TYPE_t\<close>, without the end marker.\<close>
datatype RZB_CONF_KEY_TYPE_t =
    RZB_CONF_KEY_TYPE_STRING
  | RZB_CONF_KEY_TYPE_INT
  | RZB_CONF_KEY_TYPE_PARSED_STRING
  | RZB_CONF_KEY_TYPE_UUID
  | RZB_CONF_KEY_TYPE_BOOL
  | RZB_CONF_KEY_TYPE_ARRAY
  | RZB_CONF_KEY_TYPE_LIST

text \<open>A callback that converts a text; nothing when it fails.\<close>
type_synonym parse_string = "string \<Rightarrow> int option"

text \<open>\<open>RZBConfKey_t\<close>; the callback is one of \<open>RZBConfCallBack\<close>, \<open>struct ConfArray\<close> and \<open>struct ConfList\<close>.\<close>
datatype 'v RZBConfKey_t =
    RZBConfKey (k_key: string) (k_type: RZB_CONF_KEY_TYPE_t) (k_dest: 'v) (k_callback: "'v conf_callback")
and 'v conf_callback =
    NoCallback
  | ConfCallBack parse_string
  | ConfArray RZB_CONF_KEY_TYPE_t 'v 'v "parse_string option"
  | ConfList 'v 'v "'v RZBConfKey_t list"

text \<open>What a destination holds. A value that was never written is \<open>V_indeterminate\<close>.\<close>
datatype conf_value =
    V_int int
  | V_string "string option"
  | V_bool bool
  | V_uuid uuid
  | V_null
  | V_array "conf_value list"
  | V_list "conf_value list list"
  | V_indeterminate

type_synonym 'v conf_store = "'v \<Rightarrow> conf_value"

text \<open>
  The functions of libconfig on one file. A lookup returns nothing where libconfig returns
  \<open>CONFIG_FALSE\<close> or null.
\<close>
record 'g config_t =
  config_lookup :: "string \<Rightarrow> 'g option"
  config_lookup_int :: "string \<Rightarrow> int option"
  config_lookup_string :: "string \<Rightarrow> string option"
  config_setting_is_array :: "'g \<Rightarrow> bool"
  config_setting_is_list :: "'g \<Rightarrow> bool"
  config_setting_length :: "'g \<Rightarrow> nat"
  config_setting_get_int_elem :: "'g \<Rightarrow> nat \<Rightarrow> int"
  config_setting_get_string_elem :: "'g \<Rightarrow> nat \<Rightarrow> string option"
  config_setting_get_elem :: "'g \<Rightarrow> nat \<Rightarrow> 'g option"
  config_setting_lookup_int :: "'g \<Rightarrow> string \<Rightarrow> int option"
  config_setting_lookup_string :: "'g \<Rightarrow> string \<Rightarrow> string option"

text \<open>The surroundings: the environment, the parser of identifiers and the allocations by site.\<close>
record conf_env =
  c_getenv :: "string \<Rightarrow> string option"
  c_uuid_parse :: "string \<Rightarrow> uuid option"
  c_alloc :: "string \<Rightarrow> bool"

section \<open>The environment\<close>

text \<open>The size of the buffer for the name of a variable.\<close>
definition env_name_size :: "string \<Rightarrow> nat" where
  "env_name_size k = foldl (\<lambda>len c. if c = CHR ''.'' then len + 2 else len + 1) 5 k"

text \<open>Writing at a position of a buffer; a position outside is undefined.\<close>
definition put_char :: "string \<Rightarrow> nat \<Rightarrow> char \<Rightarrow> string option" where
  "put_char buf pos c = (if pos < length buf then Some (buf[pos := c]) else None)"

fun env_name_loop :: "string \<Rightarrow> string \<Rightarrow> nat \<Rightarrow> (string \<times> nat) option" where
  "env_name_loop [] buf pos = Some (buf, pos)"
| "env_name_loop (c # cs) buf pos =
     (if c = CHR ''.'' then do {
        buf1 \<leftarrow> put_char buf pos (CHR ''_'');
        buf2 \<leftarrow> put_char buf1 (pos + 1) (CHR ''_'');
        env_name_loop cs buf2 (pos + 2) }
      else do {
        buf1 \<leftarrow> put_char buf pos c;
        env_name_loop cs buf1 (pos + 1) })"

text \<open>The buffer after the call, with its terminating null, or nothing when it cannot be allocated.\<close>
definition configKeyToEnvName :: "conf_env \<Rightarrow> string \<Rightarrow> string option option" where
  "configKeyToEnvName C k =
     (if \<not> c_alloc C ''configKeyToEnvName'' then Some None
      else do {
        let buf0 = replicate (env_name_size k) (CHR 0x00);
        buf1 \<leftarrow> put_char buf0 0 (CHR ''R'');
        buf2 \<leftarrow> put_char buf1 1 (CHR ''Z'');
        buf3 \<leftarrow> put_char buf2 2 (CHR ''B'');
        buf4 \<leftarrow> put_char buf3 3 (CHR ''_'');
        (buf, pos) \<leftarrow> env_name_loop k buf4 4;
        buf' \<leftarrow> put_char buf pos (CHR 0x00);
        Some (Some buf') })"

text \<open>The C string in a buffer.\<close>
definition c_str :: "string \<Rightarrow> string" where
  "c_str buf = takeWhile (\<lambda>c. c \<noteq> CHR 0x00) buf"

definition getEnvOverride :: "conf_env \<Rightarrow> string \<Rightarrow> string option option" where
  "getEnvOverride C k = do {
     r \<leftarrow> configKeyToEnvName C k;
     Some (case r of None \<Rightarrow> None | Some buf \<Rightarrow> c_getenv C (c_str buf)) }"

fun hasEnvOverride :: "conf_env \<Rightarrow> 'v RZBConfKey_t list \<Rightarrow> bool option" where
  "hasEnvOverride C [] = Some False"
| "hasEnvOverride C (b # bs) = do {
     r \<leftarrow> getEnvOverride C (k_key b);
     (if r \<noteq> None then Some True else hasEnvOverride C bs) }"

text \<open>The range of \<open>conf_int_t\<close>.\<close>
definition int_range :: "int \<Rightarrow> bool" where
  "int_range v \<longleftrightarrow> - (2 ^ 31) \<le> v \<and> v < 2 ^ 31"

text \<open>
  The integer of a text, with white space at its end. The end pointer is compared with the start of
  the text after the white space is skipped.
\<close>
definition parse_env_int :: "string \<Rightarrow> int option" where
  "parse_env_int s =
     (let (v, erange, rest) = strtol0 s;
          rest' = dropWhile isspace rest
      in if erange \<or> rest' = s \<or> rest' \<noteq> [] \<or> \<not> int_range v then None else Some v)"

definition parse_bool :: "string \<Rightarrow> bool option" where
  "parse_bool s =
     (if strncasecmp_eq s ''true'' 4 then Some True else if strncasecmp_eq s ''false'' 5 then Some False else None)"

definition parseEnvValue ::
  "conf_env \<Rightarrow> string \<Rightarrow> 'v RZBConfKey_t \<Rightarrow> 'v conf_store \<Rightarrow> bool \<times> 'v conf_store" where
  "parseEnvValue C v b s =
     (case k_type b of
        RZB_CONF_KEY_TYPE_INT \<Rightarrow>
          (case parse_env_int v of None \<Rightarrow> (False, s) | Some i \<Rightarrow> (True, s(k_dest b := V_int i)))
      | RZB_CONF_KEY_TYPE_STRING \<Rightarrow> (True, s(k_dest b := V_string (Some v)))
      | RZB_CONF_KEY_TYPE_PARSED_STRING \<Rightarrow>
          (case k_callback b of
             ConfCallBack f \<Rightarrow> (case f v of None \<Rightarrow> (False, s) | Some i \<Rightarrow> (True, s(k_dest b := V_int i)))
           | _ \<Rightarrow> (False, s))
      | RZB_CONF_KEY_TYPE_UUID \<Rightarrow>
          (case c_uuid_parse C v of None \<Rightarrow> (False, s) | Some u \<Rightarrow> (True, s(k_dest b := V_uuid u)))
      | RZB_CONF_KEY_TYPE_BOOL \<Rightarrow>
          (if strcasecmp_eq v ''true'' then (True, s(k_dest b := V_bool True))
           else if strcasecmp_eq v ''false'' then (True, s(k_dest b := V_bool False))
           else (False, s))
      | RZB_CONF_KEY_TYPE_ARRAY \<Rightarrow> (False, s)
      | RZB_CONF_KEY_TYPE_LIST \<Rightarrow> (False, s))"

section \<open>Arrays and lists\<close>

text \<open>The elements of an array, read in order until one fails; a null text is not passed on.\<close>
fun read_elems :: "(nat \<Rightarrow> conf_value option option) \<Rightarrow> nat list \<Rightarrow> conf_value list option option" where
  "read_elems f [] = Some (Some [])"
| "read_elems f (i # is) = do {
     r \<leftarrow> f i;
     (case r of
        None \<Rightarrow> Some None
      | Some v \<Rightarrow> do {
          rs \<leftarrow> read_elems f is;
          Some (map_option (\<lambda>vs. v # vs) rs) }) }"

text \<open>One element of the given type; the outer option is undefined behaviour, the inner one failure.\<close>
definition array_elem ::
  "conf_env \<Rightarrow> 'g config_t \<Rightarrow> 'g \<Rightarrow> RZB_CONF_KEY_TYPE_t \<Rightarrow> parse_string option \<Rightarrow> nat \<Rightarrow> conf_value option option" where
  "array_elem C cf g ty ps i =
     (case ty of
        RZB_CONF_KEY_TYPE_INT \<Rightarrow> Some (Some (V_int (config_setting_get_int_elem cf g i)))
      | RZB_CONF_KEY_TYPE_STRING \<Rightarrow> Some (Some (V_string (config_setting_get_string_elem cf g i)))
      | RZB_CONF_KEY_TYPE_PARSED_STRING \<Rightarrow> do {
          f \<leftarrow> ps;
          t \<leftarrow> config_setting_get_string_elem cf g i;
          Some (map_option V_int (f t)) }
      | RZB_CONF_KEY_TYPE_UUID \<Rightarrow> do {
          t \<leftarrow> config_setting_get_string_elem cf g i;
          Some (map_option V_uuid (c_uuid_parse C t)) }
      | RZB_CONF_KEY_TYPE_BOOL \<Rightarrow> do {
          t \<leftarrow> config_setting_get_string_elem cf g i;
          Some (map_option V_bool (parse_bool t)) }
      | _ \<Rightarrow> Some None)"

definition parseArray ::
  "conf_env \<Rightarrow> 'g config_t \<Rightarrow> 'g \<Rightarrow> 'v RZBConfKey_t \<Rightarrow> 'v conf_store \<Rightarrow> (bool \<times> 'v conf_store) option" where
  "parseArray C cf g b s =
     (case k_callback b of
        ConfArray ty dat cnt ps \<Rightarrow>
          (let n = config_setting_length cf g
           in if n = 0 then Some (True, s(cnt := V_int 0))
              else if ty = RZB_CONF_KEY_TYPE_ARRAY \<or> ty = RZB_CONF_KEY_TYPE_LIST then Some (False, s)
              else if \<not> c_alloc C ''parseArray'' then Some (False, s)
              else do {
                r \<leftarrow> read_elems (array_elem C cf g ty ps) [0..<n];
                Some (case r of
                  None \<Rightarrow> (False, s)
                | Some vs \<Rightarrow> (True, s(cnt := V_int (int n), dat := V_array vs))) })
      | _ \<Rightarrow> None)"

text \<open>
  The members of one element of a list. The variable \<open>tmp\<close> of the code keeps the last text that was
  found, and a member that is missing uses it again; it is nothing as long as there was none. The
  result is the values, or nothing on failure, and the variable.
\<close>
fun list_members ::
  "conf_env \<Rightarrow> 'g config_t \<Rightarrow> 'g \<Rightarrow> 'v RZBConfKey_t list \<Rightarrow> string option
    \<Rightarrow> (conf_value list option \<times> string option) option" where
  "list_members C cf item [] tmp = Some (Some [], tmp)"
| "list_members C cf item (k # ks) tmp = do {
     let tmp' = (if k_type k = RZB_CONF_KEY_TYPE_INT then tmp
                 else case config_setting_lookup_string cf item (k_key k) of None \<Rightarrow> tmp | Some t \<Rightarrow> Some t);
     v \<leftarrow> (case k_type k of
         RZB_CONF_KEY_TYPE_INT \<Rightarrow>
           Some (Some (V_int (case config_setting_lookup_int cf item (k_key k) of None \<Rightarrow> 0 | Some i \<Rightarrow> i)))
       | RZB_CONF_KEY_TYPE_STRING \<Rightarrow>
           Some (Some (case tmp' of None \<Rightarrow> V_indeterminate | Some t \<Rightarrow> V_string (Some t)))
       | RZB_CONF_KEY_TYPE_PARSED_STRING \<Rightarrow>
           (case k_callback k of
              ConfCallBack f \<Rightarrow> do { t \<leftarrow> tmp'; Some (map_option V_int (f t)) }
            | _ \<Rightarrow> None)
       | RZB_CONF_KEY_TYPE_UUID \<Rightarrow> do { t \<leftarrow> tmp'; Some (map_option V_uuid (c_uuid_parse C t)) }
       | RZB_CONF_KEY_TYPE_BOOL \<Rightarrow> do { t \<leftarrow> tmp'; Some (map_option V_bool (parse_bool t)) }
       | _ \<Rightarrow> Some None);
     (case v of
        None \<Rightarrow> Some (None, tmp')
      | Some x \<Rightarrow> do {
          (r, tmp2) \<leftarrow> list_members C cf item ks tmp';
          Some (map_option (\<lambda>xs. x # xs) r, tmp2) }) }"

fun list_elems ::
  "conf_env \<Rightarrow> 'g config_t \<Rightarrow> 'g \<Rightarrow> 'v RZBConfKey_t list \<Rightarrow> nat list \<Rightarrow> string option \<Rightarrow> conf_value list list option option" where
  "list_elems C cf g ks [] tmp = Some (Some [])"
| "list_elems C cf g ks (i # is) tmp = do {
     item \<leftarrow> config_setting_get_elem cf g i;
     (r, tmp') \<leftarrow> list_members C cf item ks tmp;
     (case r of
        None \<Rightarrow> Some None
      | Some vs \<Rightarrow> do {
          rs \<leftarrow> list_elems C cf g ks is tmp';
          Some (map_option (\<lambda>vss. vs # vss) rs) }) }"

definition parseList ::
  "conf_env \<Rightarrow> 'g config_t \<Rightarrow> 'g \<Rightarrow> 'v RZBConfKey_t \<Rightarrow> 'v conf_store \<Rightarrow> (bool \<times> 'v conf_store) option" where
  "parseList C cf g b s =
     (case k_callback b of
        ConfList dat cnt ks \<Rightarrow>
          (let n = config_setting_length cf g
           in if n = 0 then Some (True, s(cnt := V_int 0))
              else if \<exists>k \<in> set ks. k_type k = RZB_CONF_KEY_TYPE_ARRAY \<or> k_type k = RZB_CONF_KEY_TYPE_LIST
                then Some (False, s)
              else if \<not> c_alloc C ''parseList'' then Some (False, s)
              else do {
                r \<leftarrow> list_elems C cf g ks [0..<n] None;
                Some (case r of
                  None \<Rightarrow> (False, s)
                | Some vss \<Rightarrow> (True, s(dat := V_list vss, cnt := V_int (int n)))) })
      | _ \<Rightarrow> None)"

section \<open>Blocks of keys\<close>

text \<open>
  One key from the file. When the setting is not an integer the code stores whatever its local
  variable holds before it fails.
\<close>
definition parse_key ::
  "conf_env \<Rightarrow> 'g config_t \<Rightarrow> 'g \<Rightarrow> 'v RZBConfKey_t \<Rightarrow> 'v conf_store \<Rightarrow> (bool \<times> 'v conf_store) option" where
  "parse_key C cf g b s =
     (case k_type b of
        RZB_CONF_KEY_TYPE_INT \<Rightarrow>
          Some (case config_lookup_int cf (k_key b) of
             None \<Rightarrow> (False, s(k_dest b := V_indeterminate))
           | Some i \<Rightarrow> (True, s(k_dest b := V_int i)))
      | RZB_CONF_KEY_TYPE_STRING \<Rightarrow>
          Some (case config_lookup_string cf (k_key b) of
             None \<Rightarrow> (False, s)
           | Some t \<Rightarrow> (True, s(k_dest b := V_string (Some t))))
      | RZB_CONF_KEY_TYPE_PARSED_STRING \<Rightarrow>
          (case config_lookup_string cf (k_key b) of
             None \<Rightarrow> Some (False, s)
           | Some t \<Rightarrow>
               (case k_callback b of
                  ConfCallBack f \<Rightarrow>
                    Some (case f t of None \<Rightarrow> (False, s) | Some i \<Rightarrow> (True, s(k_dest b := V_int i)))
                | _ \<Rightarrow> None))
      | RZB_CONF_KEY_TYPE_UUID \<Rightarrow>
          Some (case config_lookup_string cf (k_key b) of
             None \<Rightarrow> (False, s)
           | Some t \<Rightarrow> (case c_uuid_parse C t of None \<Rightarrow> (False, s) | Some u \<Rightarrow> (True, s(k_dest b := V_uuid u))))
      | RZB_CONF_KEY_TYPE_BOOL \<Rightarrow>
          Some (case config_lookup_string cf (k_key b) of
             None \<Rightarrow> (False, s)
           | Some t \<Rightarrow> (case parse_bool t of None \<Rightarrow> (False, s) | Some v \<Rightarrow> (True, s(k_dest b := V_bool v))))
      | RZB_CONF_KEY_TYPE_ARRAY \<Rightarrow> if \<not> config_setting_is_array cf g then Some (False, s) else parseArray C cf g b s
      | RZB_CONF_KEY_TYPE_LIST \<Rightarrow> if \<not> config_setting_is_list cf g then Some (False, s) else parseList C cf g b s)"

fun parseBlock ::
  "conf_env \<Rightarrow> 'g config_t \<Rightarrow> 'v RZBConfKey_t list \<Rightarrow> 'v conf_store \<Rightarrow> (bool \<times> 'v conf_store) option" where
  "parseBlock C cf [] s = Some (True, s)"
| "parseBlock C cf (b # bs) s = do {
     envValue \<leftarrow> getEnvOverride C (k_key b);
     (case envValue of
        Some v \<Rightarrow> (case parseEnvValue C v b s of (ok, s') \<Rightarrow> if ok then parseBlock C cf bs s' else Some (False, s'))
      | None \<Rightarrow>
          (case config_lookup cf (k_key b) of
             None \<Rightarrow> parseBlock C cf bs s
           | Some g \<Rightarrow> do {
               (ok, s') \<leftarrow> parse_key C cf g b s;
               (if ok then parseBlock C cf bs s' else Some (False, s')) })) }"

section \<open>Files\<close>

text \<open>The files of the system: whether one can be opened, whether \<open>fstat\<close> succeeds, what it parses to.\<close>
record 'g conf_files =
  f_open :: "string \<Rightarrow> bool"
  f_fstat :: "string \<Rightarrow> bool"
  f_config_read_file :: "string \<Rightarrow> 'g config_t option"
  f_config_init :: "'g config_t"
  f_etc_dir :: string

definition getConfigFile :: "conf_env \<Rightarrow> 'g conf_files \<Rightarrow> string option \<Rightarrow> string option \<Rightarrow> string option" where
  "getConfigFile C F configDir configFile =
     (let dir = (case configDir of None \<Rightarrow> f_etc_dir F | Some d \<Rightarrow> d)
      in case configFile of
        None \<Rightarrow> None
      | Some f \<Rightarrow> if c_alloc C ''getConfigFile'' then Some (dir @ ''/'' @ f) else None)"

definition testFile :: "'g conf_files \<Rightarrow> string option \<Rightarrow> bool" where
  "testFile F path = (case path of None \<Rightarrow> False | Some p \<Rightarrow> f_open F p \<and> f_fstat F p)"

text \<open>
  The result is whether it succeeded, the list of files that were read, and the memory. The variable
  \<open>configState\<close> never is \<open>UNINIT\<close>, so the branch for it is left out.
\<close>
definition readMyConfig ::
  "conf_env \<Rightarrow> 'g conf_files \<Rightarrow> string option \<Rightarrow> string option \<Rightarrow> 'v RZBConfKey_t list
    \<Rightarrow> 'g config_t list \<Rightarrow> 'v conf_store \<Rightarrow> (bool \<times> 'g config_t list \<times> 'v conf_store) option" where
  "readMyConfig C F configDir configFile config_fmt configList s =
     (if configFile = None then Some (False, configList, s)
      else
        (let path = getConfigFile C F configDir configFile
         in if \<not> c_alloc C ''readMyConfig'' then Some (False, configList, s)
            else do {
              allowEnvOnly \<leftarrow> hasEnvOverride C config_fmt;
              (if \<not> testFile F path \<and> \<not> allowEnvOnly then Some (False, configList, s)
               else do {
                 (case (if testFile F path then (case path of None \<Rightarrow> None | Some p \<Rightarrow> f_config_read_file F p)
                        else Some (f_config_init F)) of
                    None \<Rightarrow> Some (False, configList, s)
                  | Some cf \<Rightarrow> do {
                      (ok, s') \<leftarrow> parseBlock C cf config_fmt s;
                      Some (ok, cf # configList, s') }) }) }))"

text \<open>The configurations are destroyed in order; the entries of the list themselves are not released.\<close>
fun rzbConfCleanUp :: "'g config_t list \<Rightarrow> 'g config_t list \<times> 'g config_t list" where
  "rzbConfCleanUp [] = ([], [])"
| "rzbConfCleanUp (cf # cfs) = (case rzbConfCleanUp cfs of (destroyed, l) \<Rightarrow> (cf # destroyed, l))"

definition parseRoutingType :: "string \<Rightarrow> int option" where
  "parseRoutingType s =
     (if strncasecmp_eq s ''opaque'' 6 then Some 0
      else if strncasecmp_eq s ''transparent'' 11 then Some 1 else None)"

end
