(* ===== verification/Runtime_Config.thy ===== *)
theory Runtime_Config
  imports Config_File
begin

text \<open>
  The configuration of the library itself, \<open>src/runtime_config.c\<close>: the static variables, the table of
  keys that fills them, their validation, and the functions that return them.
\<close>

section \<open>Variables\<close>

text \<open>The static variables of the file, each named as it is in the code.\<close>
datatype conf_var =
    sg_iThreadLimit | sg_iHashType | sg_iMaxBlockSize | sg_iHelloTime | sg_iDeadTime
  | sg_sTransferPassword | sg_sTransferMode
  | sg_sMqHost | sg_iMqPort | sg_sMqUser | sg_sMqPassword | sg_sMqVhost | sg_sMqSSL | sg_iMqPrefetch
  | sg_iCacheGoodLimit | sg_iCacheBadLimit
  | log_dest | log_level | log_facility | log_file
  | sg_localityId | sg_localityBlockStore | sg_blockStoreRemote | sg_backupLocalities | sg_backupLocalityCount
  | sg_subGcReqThreadsInit | sg_subGcReqThreadsMax | sg_subGcRespThreadsInit | sg_subGcRespThreadsMax
  | sg_subTransferThreadsInit | sg_subTransferThreadsMax
  | sg_blockPoolMaxItems | sg_blockPoolMaxSize | sg_blockPoolMaxItemSize
  | sg_inspThreadsInit | sg_inspThreadsMax
  | no_dest

text \<open>Their values when the program starts.\<close>
fun initial_config :: "conf_var \<Rightarrow> conf_value" where
  "initial_config sg_sTransferPassword = V_string None"
| "initial_config sg_sTransferMode = V_string None"
| "initial_config sg_sMqHost = V_string None"
| "initial_config sg_sMqUser = V_string None"
| "initial_config sg_sMqPassword = V_string None"
| "initial_config sg_sMqVhost = V_string None"
| "initial_config sg_sMqSSL = V_bool False"
| "initial_config sg_iMqPrefetch = V_int 10"
| "initial_config log_dest = V_int 2"
| "initial_config log_level = V_int 6"
| "initial_config log_file = V_string None"
| "initial_config sg_localityBlockStore = V_string None"
| "initial_config sg_blockStoreRemote = V_bool False"
| "initial_config sg_backupLocalities = V_null"
| "initial_config sg_subGcReqThreadsInit = V_int 1"
| "initial_config sg_subGcReqThreadsMax = V_int 5"
| "initial_config sg_subGcRespThreadsInit = V_int 1"
| "initial_config sg_subGcRespThreadsMax = V_int 5"
| "initial_config sg_subTransferThreadsInit = V_int 1"
| "initial_config sg_subTransferThreadsMax = V_int 5"
| "initial_config sg_inspThreadsInit = V_int 1"
| "initial_config sg_inspThreadsMax = V_int 5"
| "initial_config no_dest = V_null"
| "initial_config v = V_int 0"

section \<open>Converted texts\<close>

text \<open>The first text of a table that starts the given one, whatever the case.\<close>
fun parse_prefix :: "(string \<times> int) list \<Rightarrow> parse_string" where
  "parse_prefix [] s = None"
| "parse_prefix ((p, v) # ps) s = (if strncasecmp_eq s p (length p) then Some v else parse_prefix ps s)"

definition parseHashType :: parse_string where
  "parseHashType = parse_prefix [(''MD5'', 1), (''SHA1'', 2), (''SHA224'', 3), (''SHA256'', 4), (''SHA512'', 5)]"

definition parseLogDest :: parse_string where
  "parseLogDest = parse_prefix [(''syslog'', 1), (''stderr'', 2), (''file'', 0)]"

definition parseLogLevel :: parse_string where
  "parseLogLevel = parse_prefix
     [(''emergency'', 0), (''alert'', 1), (''critical'', 2), (''error'', 3), (''warning'', 4), (''notice'', 5),
      (''info'', 6), (''debug'', 7)]"

definition parseLogFacility :: parse_string where
  "parseLogFacility = parse_prefix
     [(''daemon'', 24), (''user'', 8), (''local0'', 128), (''local1'', 136), (''local2'', 144), (''local3'', 152),
      (''local4'', 160), (''local5'', 168), (''local6'', 176), (''local7'', 184)]"

section \<open>The table\<close>

abbreviation (input) "int_key k v \<equiv> RZBConfKey k RZB_CONF_KEY_TYPE_INT v NoCallback"
abbreviation (input) "string_key k v \<equiv> RZBConfKey k RZB_CONF_KEY_TYPE_STRING v NoCallback"
abbreviation (input) "bool_key k v \<equiv> RZBConfKey k RZB_CONF_KEY_TYPE_BOOL v NoCallback"
abbreviation (input) "parsed_key k v f \<equiv> RZBConfKey k RZB_CONF_KEY_TYPE_PARSED_STRING v (ConfCallBack f)"

definition global_config :: "conf_var RZBConfKey_t list" where
  "global_config =
     [int_key ''Global.MaxThreads'' sg_iThreadLimit,
      int_key ''Global.MaxBlockSize'' sg_iMaxBlockSize,
      parsed_key ''Global.HashType'' sg_iHashType parseHashType,
      int_key ''Global.HelloTime'' sg_iHelloTime,
      int_key ''Global.DeadTime'' sg_iDeadTime,
      string_key ''Global.TransferPassword'' sg_sTransferPassword,
      string_key ''Global.TransferMode'' sg_sTransferMode,
      int_key ''Cache.GoodLimit'' sg_iCacheGoodLimit,
      int_key ''Cache.BadLimit'' sg_iCacheBadLimit,
      string_key ''MessageQueue.Host'' sg_sMqHost,
      int_key ''MessageQueue.Port'' sg_iMqPort,
      string_key ''MessageQueue.User'' sg_sMqUser,
      string_key ''MessageQueue.Password'' sg_sMqPassword,
      string_key ''MessageQueue.Vhost'' sg_sMqVhost,
      bool_key ''MessageQueue.SSL'' sg_sMqSSL,
      int_key ''MessageQueue.Prefetch'' sg_iMqPrefetch,
      parsed_key ''Log.Destination'' log_dest parseLogDest,
      parsed_key ''Log.Level'' log_level parseLogLevel,
      parsed_key ''Log.Syslog_Facility'' log_facility parseLogFacility,
      string_key ''Log.File'' log_file,
      int_key ''Locality.Id'' sg_localityId,
      string_key ''Locality.BlockStore'' sg_localityBlockStore,
      bool_key ''Locality.BlockStoreRemote'' sg_blockStoreRemote,
      RZBConfKey ''Locality.BackupOrder'' RZB_CONF_KEY_TYPE_ARRAY no_dest
        (ConfArray RZB_CONF_KEY_TYPE_INT sg_backupLocalities sg_backupLocalityCount None),
      int_key ''Inspection.Threads.Initial'' sg_inspThreadsInit,
      int_key ''Inspection.Threads.Max'' sg_inspThreadsMax,
      int_key ''Submission.GlobalCache.Request.Threads.Initial'' sg_subGcReqThreadsInit,
      int_key ''Submission.GlobalCache.Request.Threads.Max'' sg_subGcReqThreadsMax,
      int_key ''Submission.GlobalCache.Response.Threads.Initial'' sg_subGcRespThreadsInit,
      int_key ''Submission.GlobalCache.Response.Threads.Max'' sg_subGcRespThreadsMax,
      int_key ''Submission.Transfer.Threads.Initial'' sg_subTransferThreadsInit,
      int_key ''Submission.Transfer.Threads.Max'' sg_subTransferThreadsMax,
      int_key ''Submission.Pool.MaxItems'' sg_blockPoolMaxItems,
      int_key ''Submission.Pool.MaxSize'' sg_blockPoolMaxSize,
      int_key ''Submission.Pool.MaxItemSize'' sg_blockPoolMaxSize]"

section \<open>Access\<close>

text \<open>The value of a variable of each type; a variable always holds a value of its type.\<close>
definition int_var :: "conf_var conf_store \<Rightarrow> conf_var \<Rightarrow> int" where
  "int_var s v = (case s v of V_int i \<Rightarrow> i | _ \<Rightarrow> 0)"

definition string_var :: "conf_var conf_store \<Rightarrow> conf_var \<Rightarrow> string option" where
  "string_var s v = (case s v of V_string t \<Rightarrow> t | _ \<Rightarrow> None)"

definition bool_var :: "conf_var conf_store \<Rightarrow> conf_var \<Rightarrow> bool" where
  "bool_var s v = (case s v of V_bool b \<Rightarrow> b | _ \<Rightarrow> False)"

text \<open>The conversion of an \<open>int\<close> to \<open>uint32_t\<close>.\<close>
definition u32_var :: "conf_var conf_store \<Rightarrow> conf_var \<Rightarrow> u32" where
  "u32_var s v = word_of_int (int_var s v)"

definition Config_getHashType where "Config_getHashType s = u32_var s sg_iHashType"
definition Config_getMaxBlockSize where "Config_getMaxBlockSize s = u32_var s sg_iMaxBlockSize"
definition Config_getThreadLimit where "Config_getThreadLimit s = u32_var s sg_iThreadLimit"
definition Config_getHelloTime where "Config_getHelloTime s = u32_var s sg_iHelloTime"
definition Config_getDeadTime where "Config_getDeadTime s = u32_var s sg_iDeadTime"
definition Config_getMqHost where "Config_getMqHost s = string_var s sg_sMqHost"
definition Config_getMqPort where "Config_getMqPort s = u32_var s sg_iMqPort"
definition Config_getMqUser where "Config_getMqUser s = string_var s sg_sMqUser"
definition Config_getMqPassword where "Config_getMqPassword s = string_var s sg_sMqPassword"
definition Config_getMqVhost where "Config_getMqVhost s = string_var s sg_sMqVhost"
definition Config_getMqSSL where "Config_getMqSSL s = bool_var s sg_sMqSSL"
definition Config_getMqPrefetch where "Config_getMqPrefetch s = u32_var s sg_iMqPrefetch"
definition Config_getCacheGoodLimit where "Config_getCacheGoodLimit s = u32_var s sg_iCacheGoodLimit"
definition Config_getCacheBadLimit where "Config_getCacheBadLimit s = u32_var s sg_iCacheBadLimit"
definition Config_getLocalityId where "Config_getLocalityId s = u32_var s sg_localityId"
definition Config_getLocalityBlockStore where "Config_getLocalityBlockStore s = string_var s sg_localityBlockStore"
definition Config_isBlockStoreRemote where "Config_isBlockStoreRemote s = bool_var s sg_blockStoreRemote"
definition Config_getLocalityBackupOrder where "Config_getLocalityBackupOrder s =
  (case s sg_backupLocalities of V_array vs \<Rightarrow> Some (map (\<lambda>v. case v of V_int i \<Rightarrow> i | _ \<Rightarrow> 0) vs) | _ \<Rightarrow> None)"
definition Config_getLocalityBackupCount where "Config_getLocalityBackupCount s = int_var s sg_backupLocalityCount"
definition Config_getSubGcReqThreadsInit where "Config_getSubGcReqThreadsInit s = u32_var s sg_subGcReqThreadsInit"
definition Config_getSubGcReqThreadsMax where "Config_getSubGcReqThreadsMax s = u32_var s sg_subGcReqThreadsMax"
definition Config_getSubGcRespThreadsInit where "Config_getSubGcRespThreadsInit s = u32_var s sg_subGcRespThreadsInit"
definition Config_getSubGcRespThreadsMax where "Config_getSubGcRespThreadsMax s = u32_var s sg_subGcRespThreadsMax"
definition Config_getSubTransferThreadsInit where "Config_getSubTransferThreadsInit s = u32_var s sg_subTransferThreadsInit"
definition Config_getSubTransferThreadsMax where "Config_getSubTransferThreadsMax s = u32_var s sg_subTransferThreadsMax"
definition Config_getBlockPoolMaxItems where "Config_getBlockPoolMaxItems s = u32_var s sg_blockPoolMaxItems"
definition Config_getBlockPoolMaxSize where "Config_getBlockPoolMaxSize s = u32_var s sg_blockPoolMaxSize"
definition Config_getBlockPoolMaxItemSize where "Config_getBlockPoolMaxItemSize s = u32_var s sg_blockPoolMaxItemSize"
definition Config_getInspThreadsInit where "Config_getInspThreadsInit s = u32_var s sg_inspThreadsInit"
definition Config_getInspThreadsMax where "Config_getInspThreadsMax s = u32_var s sg_inspThreadsMax"
definition Config_getLogDest where "Config_getLogDest s = int_var s log_dest"
definition Config_getLogLevel where "Config_getLogLevel s = int_var s log_level"
definition Config_getLogFacility where "Config_getLogFacility s = int_var s log_facility"
definition Config_getLogFile where "Config_getLogFile s = string_var s log_file"
definition Config_getTransferMode where "Config_getTransferMode s = string_var s sg_sTransferMode"
definition Razorback_Get_Transfer_Password where "Razorback_Get_Transfer_Password s = string_var s sg_sTransferPassword"
definition Config_setLogDest where "Config_setLogDest s d = s(log_dest := V_int d)"
definition Config_setLogLevel where "Config_setLogLevel s l = s(log_level := V_int l)"

section \<open>Validation\<close>

definition validateHelloTime :: "int \<Rightarrow> bool" where
  "validateHelloTime v \<longleftrightarrow> v > 1"

text \<open>The product is of 64 bits and does not overflow.\<close>
definition validateDeadTime :: "int \<Rightarrow> int \<Rightarrow> bool" where
  "validateDeadTime helloValue deadValue \<longleftrightarrow> deadValue > helloValue * 3"

definition validateThreadPoolInitialCount :: "int \<Rightarrow> bool" where
  "validateThreadPoolInitialCount v \<longleftrightarrow> v > 0"

definition validateThreadPoolMaxCount :: "int \<Rightarrow> int \<Rightarrow> bool" where
  "validateThreadPoolMaxCount initialValue maxValue \<longleftrightarrow> maxValue \<ge> initialValue"

definition validateGlobalThreadLimit :: "conf_var conf_store \<Rightarrow> int \<Rightarrow> bool" where
  "validateGlobalThreadLimit s v \<longleftrightarrow>
     (let baseRequired = 4;
          requestRequired = int_var s sg_subGcReqThreadsInit * 2;
          responseRequired = int_var s sg_subGcRespThreadsInit;
          transferRequired = int_var s sg_subTransferThreadsInit * 2;
          inspectionRequired = 3 + int_var s sg_inspThreadsInit;
          minimumRequired = baseRequired + requestRequired + responseRequired + transferRequired + inspectionRequired
      in v \<ge> minimumRequired)"

text \<open>
  The conversion of megabytes overflows an \<open>int\<close> from 2048 on, which is undefined. The copy of the
  password from the environment may fail.
\<close>
definition readApiConfig ::
  "conf_env \<Rightarrow> 'g conf_files \<Rightarrow> 'g config_t list \<Rightarrow> conf_var conf_store
    \<Rightarrow> (bool \<times> 'g config_t list \<times> conf_var conf_store) option" where
  "readApiConfig C F configList s0 = do {
     (ok, l, s) \<leftarrow> readMyConfig C F None (Some ''api.conf'') global_config configList s0;
     (if \<not> ok then Some (False, l, s)
      else if \<not> int_range (int_var s sg_iMaxBlockSize * 1024 * 1024) then None
      else do {
        let s1 = s(sg_iMaxBlockSize := V_int (int_var s sg_iMaxBlockSize * 1024 * 1024));
        let s2 = (case c_getenv C ''RZB_MQ_PASSWORD'' of
            None \<Rightarrow> s1
          | Some e \<Rightarrow> s1(sg_sMqPassword := V_string (if c_alloc C ''readApiConfig'' then Some e else None)));
        (if string_var s2 sg_sMqHost = None \<or> string_var s2 sg_sMqUser = None \<or> string_var s2 sg_sMqPassword = None
         then Some (False, l, s2)
         else Some
           (validateHelloTime (int_var s2 sg_iHelloTime)
            \<and> validateDeadTime (int_var s2 sg_iHelloTime) (int_var s2 sg_iDeadTime)
            \<and> validateThreadPoolInitialCount (int_var s2 sg_inspThreadsInit)
            \<and> validateThreadPoolInitialCount (int_var s2 sg_subGcReqThreadsInit)
            \<and> validateThreadPoolInitialCount (int_var s2 sg_subGcRespThreadsInit)
            \<and> validateThreadPoolInitialCount (int_var s2 sg_subTransferThreadsInit)
            \<and> validateThreadPoolMaxCount (int_var s2 sg_inspThreadsInit) (int_var s2 sg_inspThreadsMax)
            \<and> validateThreadPoolMaxCount (int_var s2 sg_subGcReqThreadsInit) (int_var s2 sg_subGcReqThreadsMax)
            \<and> validateThreadPoolMaxCount (int_var s2 sg_subGcRespThreadsInit) (int_var s2 sg_subGcRespThreadsMax)
            \<and> validateThreadPoolMaxCount (int_var s2 sg_subTransferThreadsInit) (int_var s2 sg_subTransferThreadsMax)
            \<and> validateGlobalThreadLimit s2 (int_var s2 sg_iThreadLimit),
            l, s2)) }) }"

end
