(* ===== verification/Config_Properties.thy ===== *)
theory Config_Properties
  imports Runtime_Config
begin

text \<open>
  Properties of the configuration: the name of the environment variable of a key, where the value of a
  key comes from, that variables keep their types, and what a configuration that is accepted satisfies.
\<close>

section \<open>Names of variables\<close>

definition env_text :: "string \<Rightarrow> string" where
  "env_text k = concat (map (\<lambda>c. if c = CHR ''.'' then ''__'' else [c]) k)"

lemma env_text_simps [simp]:
  "env_text [] = []"
  "env_text (c # cs) = (if c = CHR ''.'' then ''__'' else [c]) @ env_text cs"
  by (simp_all add: env_text_def)

lemma env_name_size_text: "env_name_size k = 5 + length (env_text k)"
proof -
  have "foldl (\<lambda>len c. if c = CHR ''.'' then len + 2 else len + 1) n k = n + length (env_text k)" for n
    by (induction k arbitrary: n) auto
  then show ?thesis by (simp add: env_name_size_def)
qed

lemma put_char_at: "put_char (p @ c # q) (length p) d = Some (p @ d # q)"
  by (simp add: put_char_def)

lemma put_char_next: "put_char (p @ a # c # q) (length p + 1) d = Some (p @ a # d # q)"
  using put_char_at [of "p @ [a]" c q d] by simp

lemma env_name_loop_text:
  assumes "length (env_text k) < length q"
  shows "env_name_loop k (p @ q) (length p)
    = Some (p @ env_text k @ drop (length (env_text k)) q, length p + length (env_text k))"
  using assms
proof (induction k arbitrary: p q)
  case (Cons c cs)
  show ?case
  proof (cases "c = CHR ''.''")
    case True
    then obtain x y q' where q: "q = x # y # q'" using Cons.prems by (cases q; cases "tl q") auto
    have "length (env_text cs) < length q'" using Cons.prems True q by simp
    from Cons.IH [OF this, of "p @ ''__''"] show ?thesis
      using True put_char_at [of p x "y # q'"] put_char_next [of p _ y q'] by (simp add: q)
  next
    case False
    then obtain x q' where q: "q = x # q'" using Cons.prems by (cases q) auto
    have "length (env_text cs) < length q'" using Cons.prems False q by simp
    from Cons.IH [OF this, of "p @ [c]"] show ?thesis
      using False put_char_at [of p x q'] by (simp add: q)
  qed
qed simp

lemma configKeyToEnvName_text:
  assumes "c_alloc C ''configKeyToEnvName''"
  shows "configKeyToEnvName C k = Some (Some (''RZB_'' @ env_text k @ [CHR 0x00]))"
proof -
  have r: "replicate (env_name_size k) (CHR 0x00) =
      [CHR 0x00, CHR 0x00, CHR 0x00, CHR 0x00] @ replicate (Suc (length (env_text k))) (CHR 0x00)"
    by (simp add: env_name_size_text numeral_eq_Suc)
  have p: "put_char ([CHR 0x00, CHR 0x00, CHR 0x00, CHR 0x00] @ q) 0 a = Some ([a, CHR 0x00, CHR 0x00, CHR 0x00] @ q)"
    "put_char ([a, CHR 0x00, CHR 0x00, CHR 0x00] @ q) 1 b = Some ([a, b, CHR 0x00, CHR 0x00] @ q)"
    "put_char ([a, b, CHR 0x00, CHR 0x00] @ q) 2 c = Some ([a, b, c, CHR 0x00] @ q)"
    "put_char ([a, b, c, CHR 0x00] @ q) 3 d = Some ([a, b, c, d] @ q)" for a b c d q
    by (simp_all add: put_char_def numeral_eq_Suc)
  have d: "drop (length (env_text k)) (replicate (Suc (length (env_text k))) (CHR 0x00)) = [CHR 0x00]"
    by (simp add: Suc_diff_le del: replicate_Suc) simp
  have "env_name_loop k (''RZB_'' @ replicate (Suc (length (env_text k))) (CHR 0x00)) 4
      = Some ((''RZB_'' @ env_text k) @ [CHR 0x00], 4 + length (env_text k))"
    using env_name_loop_text [of k "replicate (Suc (length (env_text k))) (CHR 0x00)" "''RZB_''"] unfolding d
    by (simp add: numeral_eq_Suc del: replicate_Suc)
  moreover have "put_char ((''RZB_'' @ env_text k) @ [CHR 0x00]) (4 + length (env_text k)) (CHR 0x00)
      = Some ((''RZB_'' @ env_text k) @ [CHR 0x00])"
    using put_char_at [of "''RZB_'' @ env_text k" "CHR 0x00" "[]" "CHR 0x00"] by (simp add: numeral_eq_Suc)
  ultimately show ?thesis
    unfolding configKeyToEnvName_def r using assms by (simp only: Let_def p if_False simp_thms Option.bind.bind_lunit prod.case) simp
qed

lemma env_text_no_null: "CHR 0x00 \<notin> set k \<Longrightarrow> CHR 0x00 \<notin> set (env_text k)"
  by (induction k) auto

lemma getEnvOverride_text:
  assumes "c_alloc C ''configKeyToEnvName''" and "CHR 0x00 \<notin> set k"
  shows "getEnvOverride C k = Some (c_getenv C (''RZB_'' @ env_text k))"
proof -
  have "\<forall>c \<in> set (''RZB_'' @ env_text k). c \<noteq> CHR 0x00" using env_text_no_null [OF assms(2)] by auto
  then have "takeWhile (\<lambda>c. c \<noteq> CHR 0x00) ((''RZB_'' @ env_text k) @ [CHR 0x00]) = ''RZB_'' @ env_text k"
    by (subst takeWhile_append2) auto
  then show ?thesis
    by (simp add: getEnvOverride_def configKeyToEnvName_text [OF assms(1)] c_str_def)
qed

lemma getEnvOverride_defined: "getEnvOverride C k \<noteq> None"
  using configKeyToEnvName_text [of C k] by (cases "c_alloc C ''configKeyToEnvName''")
    (auto simp: getEnvOverride_def configKeyToEnvName_def)

section \<open>Where values come from\<close>

text \<open>The destinations of a key.\<close>
definition key_dests :: "'v RZBConfKey_t \<Rightarrow> 'v list" where
  "key_dests b =
     (case (k_type b, k_callback b) of
        (RZB_CONF_KEY_TYPE_ARRAY, ConfArray ty dat cnt ps) \<Rightarrow> [dat, cnt]
      | (RZB_CONF_KEY_TYPE_LIST, ConfList dat cnt ks) \<Rightarrow> [dat, cnt]
      | (RZB_CONF_KEY_TYPE_ARRAY, _) \<Rightarrow> []
      | (RZB_CONF_KEY_TYPE_LIST, _) \<Rightarrow> []
      | _ \<Rightarrow> [k_dest b])"

definition scalar :: "'v RZBConfKey_t \<Rightarrow> bool" where
  "scalar b \<longleftrightarrow> k_type b \<noteq> RZB_CONF_KEY_TYPE_ARRAY \<and> k_type b \<noteq> RZB_CONF_KEY_TYPE_LIST"

lemma parseEnvValue_scalar: "parseEnvValue C v b s = (True, s') \<Longrightarrow> scalar b"
  by (auto simp: parseEnvValue_def scalar_def)

lemma parseEnvValue_frame: "parseEnvValue C v b s = (ok, s') \<Longrightarrow> d \<notin> set (key_dests b) \<Longrightarrow> s' d = s d"
  by (auto simp: parseEnvValue_def key_dests_def split: RZB_CONF_KEY_TYPE_t.splits option.splits if_splits conf_callback.splits)

lemma parseArray_frame:
  assumes "parseArray C cf g b s = Some (ok, s')" and "k_type b = RZB_CONF_KEY_TYPE_ARRAY" and "d \<notin> set (key_dests b)"
  shows "s' d = s d"
  using assms by (auto simp: parseArray_def key_dests_def Let_def bind_Some_eq split: conf_callback.splits if_splits option.splits)

lemma parseList_frame:
  assumes "parseList C cf g b s = Some (ok, s')" and "k_type b = RZB_CONF_KEY_TYPE_LIST" and "d \<notin> set (key_dests b)"
  shows "s' d = s d"
  using assms by (auto simp: parseList_def key_dests_def Let_def bind_Some_eq split: conf_callback.splits if_splits option.splits)

lemma parse_key_frame:
  assumes "parse_key C cf g b s = Some (ok, s')" and "d \<notin> set (key_dests b)"
  shows "s' d = s d"
  using assms parseArray_frame [of C cf g b s ok s' d] parseList_frame [of C cf g b s ok s' d]
  by (auto simp: parse_key_def key_dests_def split: RZB_CONF_KEY_TYPE_t.splits option.splits if_splits conf_callback.splits)

lemma parseBlock_Cons_frame:
  assumes "parseBlock C cf (b # bs) s = Some (ok, s')"
  shows "\<exists>s1. (\<forall>d. d \<notin> set (key_dests b) \<longrightarrow> s1 d = s d) \<and> (s' = s1 \<or> parseBlock C cf bs s1 = Some (ok, s'))"
proof -
  obtain e where e: "getEnvOverride C (k_key b) = Some e" using getEnvOverride_defined by blast
  show ?thesis
  proof (cases e)
    case None
    show ?thesis
    proof (cases "config_lookup cf (k_key b)")
      case None
      then show ?thesis using assms e \<open>e = None\<close> by (intro exI [of _ s]) simp
    next
      case (Some g)
      then obtain o1 s1 where s1: "parse_key C cf g b s = Some (o1, s1)" "s' = s1 \<or> parseBlock C cf bs s1 = Some (ok, s')"
        using assms e \<open>e = None\<close> by (auto simp: bind_Some_eq split: if_splits)
      then show ?thesis using parse_key_frame [OF s1(1)] by (intro exI [of _ s1]) simp
    qed
  next
    case (Some v)
    obtain o1 s1 where s1: "parseEnvValue C v b s = (o1, s1)" by fastforce
    then have "s' = s1 \<or> parseBlock C cf bs s1 = Some (ok, s')" using assms e Some by (simp split: if_splits)
    then show ?thesis using parseEnvValue_frame [OF s1] by (intro exI [of _ s1]) simp
  qed
qed

lemma parseBlock_frame:
  "parseBlock C cf bs s = Some (ok, s') \<Longrightarrow> d \<notin> set (concat (map key_dests bs)) \<Longrightarrow> s' d = s d"
proof (induction bs arbitrary: s)
  case (Cons b bs)
  obtain s1 where "\<forall>d. d \<notin> set (key_dests b) \<longrightarrow> s1 d = s d" "s' = s1 \<or> parseBlock C cf bs s1 = Some (ok, s')"
    using parseBlock_Cons_frame [OF Cons.prems(1)] by blast
  then show ?case using Cons.IH [of s1] Cons.prems(2) by auto
qed simp

text \<open>The value that a text in the environment, or the setting in the file, has for a key.\<close>
definition env_value :: "conf_env \<Rightarrow> 'v RZBConfKey_t \<Rightarrow> string \<Rightarrow> conf_value option" where
  "env_value C b v =
     (case k_type b of
        RZB_CONF_KEY_TYPE_INT \<Rightarrow> map_option V_int (parse_env_int v)
      | RZB_CONF_KEY_TYPE_STRING \<Rightarrow> Some (V_string (Some v))
      | RZB_CONF_KEY_TYPE_PARSED_STRING \<Rightarrow> (case k_callback b of ConfCallBack f \<Rightarrow> map_option V_int (f v) | _ \<Rightarrow> None)
      | RZB_CONF_KEY_TYPE_UUID \<Rightarrow> map_option V_uuid (c_uuid_parse C v)
      | RZB_CONF_KEY_TYPE_BOOL \<Rightarrow>
          if strcasecmp_eq v ''true'' then Some (V_bool True)
          else if strcasecmp_eq v ''false'' then Some (V_bool False) else None
      | _ \<Rightarrow> None)"

definition file_value :: "conf_env \<Rightarrow> 'g config_t \<Rightarrow> 'v RZBConfKey_t \<Rightarrow> conf_value option" where
  "file_value C cf b =
     (case k_type b of
        RZB_CONF_KEY_TYPE_INT \<Rightarrow> map_option V_int (config_lookup_int cf (k_key b))
      | RZB_CONF_KEY_TYPE_STRING \<Rightarrow> map_option (\<lambda>t. V_string (Some t)) (config_lookup_string cf (k_key b))
      | RZB_CONF_KEY_TYPE_PARSED_STRING \<Rightarrow> do {
          t \<leftarrow> config_lookup_string cf (k_key b);
          (case k_callback b of ConfCallBack f \<Rightarrow> map_option V_int (f t) | _ \<Rightarrow> None) }
      | RZB_CONF_KEY_TYPE_UUID \<Rightarrow> do { t \<leftarrow> config_lookup_string cf (k_key b); map_option V_uuid (c_uuid_parse C t) }
      | RZB_CONF_KEY_TYPE_BOOL \<Rightarrow> do { t \<leftarrow> config_lookup_string cf (k_key b); map_option V_bool (parse_bool t) }
      | _ \<Rightarrow> None)"

lemma parseEnvValue_value: "parseEnvValue C v b s = (True, s') \<Longrightarrow> env_value C b v = Some (s' (k_dest b))"
  by (auto simp: parseEnvValue_def env_value_def split: RZB_CONF_KEY_TYPE_t.splits option.splits if_splits conf_callback.splits)

lemma parse_key_value: "parse_key C cf g b s = Some (True, s') \<Longrightarrow> scalar b \<Longrightarrow> file_value C cf b = Some (s' (k_dest b))"
  by (auto simp: parse_key_def file_value_def scalar_def split: RZB_CONF_KEY_TYPE_t.splits option.splits if_splits conf_callback.splits)

lemma key_dests_scalar: "scalar b \<Longrightarrow> key_dests b = [k_dest b]"
  by (auto simp: key_dests_def scalar_def split: RZB_CONF_KEY_TYPE_t.splits)

text \<open>
  The elements of an array or a list that a setting gives: the count is the length of the setting; for an empty
  setting the data stays as it is; otherwise the data is the values of all elements.
\<close>
definition file_collection ::
  "conf_env \<Rightarrow> 'g config_t \<Rightarrow> 'g \<Rightarrow> 'v RZBConfKey_t \<Rightarrow> 'v conf_store \<Rightarrow> 'v conf_store \<Rightarrow> bool" where
  "file_collection C cf g b s s' \<longleftrightarrow>
     (case k_callback b of
        ConfArray ty dat cnt ps \<Rightarrow> config_setting_is_array cf g \<and> s' cnt = V_int (int (config_setting_length cf g))
          \<and> (if config_setting_length cf g = 0 then s' dat = s dat
             else \<exists>vs. read_elems (array_elem C cf g ty ps) [0..<config_setting_length cf g] = Some (Some vs) \<and> s' dat = V_array vs)
      | ConfList dat cnt ks \<Rightarrow> config_setting_is_list cf g \<and> s' cnt = V_int (int (config_setting_length cf g))
          \<and> (if config_setting_length cf g = 0 then s' dat = s dat
             else \<exists>vss. list_elems C cf g ks [0..<config_setting_length cf g] None = Some (Some vss) \<and> s' dat = V_list vss)
      | _ \<Rightarrow> False)"

lemma parseArray_collection:
  assumes "parseArray C cf g b s = Some (True, s')" and "k_type b = RZB_CONF_KEY_TYPE_ARRAY" and "config_setting_is_array cf g"
    and "distinct (key_dests b)"
  shows "file_collection C cf g b s s' \<and> key_dests b \<noteq> []"
  using assms by (auto simp: parseArray_def file_collection_def key_dests_def Let_def bind_Some_eq
      split: conf_callback.splits if_splits option.splits)

lemma parseList_collection:
  assumes "parseList C cf g b s = Some (True, s')" and "k_type b = RZB_CONF_KEY_TYPE_LIST" and "config_setting_is_list cf g"
    and "distinct (key_dests b)"
  shows "file_collection C cf g b s s' \<and> key_dests b \<noteq> []"
  using assms by (auto simp: parseList_def file_collection_def key_dests_def Let_def bind_Some_eq
      split: conf_callback.splits if_splits option.splits)

lemma parse_key_collection:
  assumes "parse_key C cf g b s = Some (True, s')" and "\<not> scalar b" and "distinct (key_dests b)"
  shows "file_collection C cf g b s s' \<and> key_dests b \<noteq> []"
  using assms parseArray_collection [of C cf g b s s'] parseList_collection [of C cf g b s s']
  by (auto simp: parse_key_def scalar_def split: if_splits)

lemma file_collection_later:
  assumes "file_collection C cf g b s s1" and "key_dests b \<noteq> []" and "\<not> scalar b" and "\<forall>d \<in> set (key_dests b). s' d = s1 d"
  shows "file_collection C cf g b s s'"
  using assms by (auto simp: file_collection_def key_dests_def scalar_def split: conf_callback.splits)

text \<open>What a successful pass over a block does for one of its keys.\<close>
definition key_outcome :: "conf_env \<Rightarrow> 'g config_t \<Rightarrow> 'v conf_store \<Rightarrow> 'v conf_store \<Rightarrow> 'v RZBConfKey_t \<Rightarrow> bool" where
  "key_outcome C cf s s' b \<longleftrightarrow>
     (case the (getEnvOverride C (k_key b)) of
        Some v \<Rightarrow> scalar b \<and> env_value C b v = Some (s' (k_dest b))
      | None \<Rightarrow>
          (case config_lookup cf (k_key b) of
             None \<Rightarrow> \<forall>d \<in> set (key_dests b). s' d = s d
           | Some g \<Rightarrow> if scalar b then file_value C cf b = Some (s' (k_dest b))
               else file_collection C cf g b s s' \<and> key_dests b \<noteq> []))"

lemma key_outcome_later:
  assumes "key_outcome C cf s s1 b" and "\<forall>d \<in> set (key_dests b). s' d = s1 d"
  shows "key_outcome C cf s s' b"
  using assms key_dests_scalar [of b] file_collection_later [of C cf _ b s s1 s']
  by (auto simp: key_outcome_def split: option.splits if_splits)

lemma parseBlock_step:
  assumes "parseBlock C cf (b # bs) s = Some (True, s')" and "distinct (key_dests b)"
  obtains s1 where "parseBlock C cf bs s1 = Some (True, s')" and "key_outcome C cf s s1 b"
proof -
  obtain e where e: "getEnvOverride C (k_key b) = Some e" using getEnvOverride_defined by blast
  show thesis
  proof (cases e)
    case None
    show thesis
    proof (cases "config_lookup cf (k_key b)")
      case None
      then show thesis using that [of s] assms e \<open>e = None\<close> by (auto simp: key_outcome_def)
    next
      case (Some g)
      then obtain s1 where s1: "parse_key C cf g b s = Some (True, s1)" "parseBlock C cf bs s1 = Some (True, s')"
        using assms e \<open>e = None\<close> by (auto simp: bind_Some_eq split: if_splits)
      then show thesis
        using that [of s1] parse_key_value [OF s1(1)] parse_key_collection [OF s1(1) _ assms(2)] e \<open>e = None\<close> Some
        by (auto simp: key_outcome_def)
    qed
  next
    case (Some v)
    then obtain s1 where s1: "parseEnvValue C v b s = (True, s1)" "parseBlock C cf bs s1 = Some (True, s')"
      using assms e by (auto split: prod.splits if_splits)
    then show thesis
      using that [of s1] parseEnvValue_value [OF s1(1)] parseEnvValue_scalar [OF s1(1)] e Some
      by (auto simp: key_outcome_def)
  qed
qed

lemma parseBlock_append:
  "parseBlock C cf (as @ bs) s = do {
     (ok, s1) \<leftarrow> parseBlock C cf as s;
     (if ok then parseBlock C cf bs s1 else Some (False, s1)) }"
proof (induction as arbitrary: s)
  case (Cons a as)
  obtain e where e: "getEnvOverride C (k_key a) = Some e" using getEnvOverride_defined by blast
  show ?case
    by (cases e; cases "config_lookup cf (k_key a)"; cases "parse_key C cf (the (config_lookup cf (k_key a))) a s")
      (simp_all add: e Cons.IH split: prod.splits)
qed simp

lemma parseBlock_outcome:
  assumes "parseBlock C cf (xs @ b # ys) s = Some (True, s')" and "distinct (key_dests b)"
    and "set (key_dests b) \<inter> set (concat (map key_dests ys)) = {}"
  obtains s1 where "parseBlock C cf xs s = Some (True, s1)" and "key_outcome C cf s1 s' b"
proof -
  obtain s1 where s1: "parseBlock C cf xs s = Some (True, s1)" "parseBlock C cf (b # ys) s1 = Some (True, s')"
    using assms(1) unfolding parseBlock_append by (auto simp: bind_Some_eq simp del: parseBlock.simps split: if_splits)
  obtain s2 where s2: "parseBlock C cf ys s2 = Some (True, s')" "key_outcome C cf s1 s2 b"
    using parseBlock_step [OF s1(2) assms(2)] .
  have "s' d = s2 d" if "d \<in> set (key_dests b)" for d
    by (rule parseBlock_frame [OF s2(1)]) (use that assms(3) in blast)
  then have "key_outcome C cf s1 s' b" by (intro key_outcome_later [OF s2(2)]) simp
  then show thesis using that s1(1) by blast
qed

section \<open>Types of variables\<close>

datatype conf_kind = K_int | K_string | K_bool | K_uuid | K_array | K_list

fun has_kind :: "conf_kind \<Rightarrow> conf_value \<Rightarrow> bool" where
  "has_kind K_int v \<longleftrightarrow> (\<exists>i. v = V_int i)"
| "has_kind K_string v \<longleftrightarrow> (\<exists>t. v = V_string t)"
| "has_kind K_bool v \<longleftrightarrow> (\<exists>b. v = V_bool b)"
| "has_kind K_uuid v \<longleftrightarrow> (\<exists>u. v = V_uuid u)"
| "has_kind K_array v \<longleftrightarrow> v = V_null \<or> (\<exists>vs. v = V_array vs)"
| "has_kind K_list v \<longleftrightarrow> v = V_null \<or> (\<exists>vs. v = V_list vs)"

definition typed :: "('v \<Rightarrow> conf_kind) \<Rightarrow> 'v conf_store \<Rightarrow> bool" where
  "typed T s \<longleftrightarrow> (\<forall>v. has_kind (T v) (s v))"

text \<open>The destinations of a key have the types the code casts them to.\<close>
definition key_typed :: "('v \<Rightarrow> conf_kind) \<Rightarrow> 'v RZBConfKey_t \<Rightarrow> bool" where
  "key_typed T b \<longleftrightarrow>
     (case k_type b of
        RZB_CONF_KEY_TYPE_INT \<Rightarrow> T (k_dest b) = K_int
      | RZB_CONF_KEY_TYPE_STRING \<Rightarrow> T (k_dest b) = K_string
      | RZB_CONF_KEY_TYPE_PARSED_STRING \<Rightarrow> T (k_dest b) = K_int
      | RZB_CONF_KEY_TYPE_UUID \<Rightarrow> T (k_dest b) = K_uuid
      | RZB_CONF_KEY_TYPE_BOOL \<Rightarrow> T (k_dest b) = K_bool
      | RZB_CONF_KEY_TYPE_ARRAY \<Rightarrow>
          (case k_callback b of ConfArray ty dat cnt ps \<Rightarrow> T dat = K_array \<and> T cnt = K_int | _ \<Rightarrow> False)
      | RZB_CONF_KEY_TYPE_LIST \<Rightarrow>
          (case k_callback b of ConfList dat cnt ks \<Rightarrow> T dat = K_list \<and> T cnt = K_int | _ \<Rightarrow> False))"

lemma typed_upd: "typed T s \<Longrightarrow> has_kind (T d) v \<Longrightarrow> typed T (s(d := v))"
  by (simp add: typed_def)

lemma parseEnvValue_typed: "parseEnvValue C v b s = (ok, s') \<Longrightarrow> key_typed T b \<Longrightarrow> typed T s \<Longrightarrow> typed T s'"
  by (auto simp: parseEnvValue_def key_typed_def intro!: typed_upd
      split: RZB_CONF_KEY_TYPE_t.splits option.splits if_splits conf_callback.splits)

lemma parseArray_typed:
  assumes "parseArray C cf g b s = Some (ok, s')" and "key_typed T b" and "k_type b = RZB_CONF_KEY_TYPE_ARRAY" and "typed T s"
  shows "typed T s'"
  using assms by (auto simp: parseArray_def key_typed_def Let_def bind_Some_eq intro!: typed_upd
      split: conf_callback.splits if_splits option.splits)

lemma parseList_typed:
  assumes "parseList C cf g b s = Some (ok, s')" and "key_typed T b" and "k_type b = RZB_CONF_KEY_TYPE_LIST" and "typed T s"
  shows "typed T s'"
  using assms by (auto simp: parseList_def key_typed_def Let_def bind_Some_eq intro!: typed_upd
      split: conf_callback.splits if_splits option.splits)

lemma parse_key_typed:
  assumes "parse_key C cf g b s = Some (True, s')" and b: "key_typed T b" and s: "typed T s"
  shows "typed T s'"
proof (cases "scalar b")
  case True
  then show ?thesis
    using assms by (auto simp: parse_key_def key_typed_def scalar_def intro!: typed_upd
        split: RZB_CONF_KEY_TYPE_t.splits option.splits if_splits conf_callback.splits)
next
  case False
  then show ?thesis
    using assms(1) parseArray_typed [OF _ b _ s] parseList_typed [OF _ b _ s]
    by (auto simp: parse_key_def scalar_def split: if_splits)
qed

lemma parseBlock_typed:
  assumes "parseBlock C cf bs s = Some (True, s')" and "list_all (key_typed T) bs" and "typed T s"
  shows "typed T s'"
  using assms
proof (induction bs arbitrary: s)
  case (Cons b bs)
  obtain e where e: "getEnvOverride C (k_key b) = Some e" using getEnvOverride_defined by blast
  have b: "key_typed T b" using Cons.prems(2) by simp
  obtain s1 where "parseBlock C cf bs s1 = Some (True, s')" "typed T s1"
  proof (cases e)
    case e0: None
    show thesis
    proof (cases "config_lookup cf (k_key b)")
      case None
      then show thesis using that [OF _ Cons.prems(3)] Cons.prems(1) e e0 by simp
    next
      case (Some g)
      then obtain s1 where s1: "parse_key C cf g b s = Some (True, s1)" "parseBlock C cf bs s1 = Some (True, s')"
        using Cons.prems(1) e e0 by (auto simp: bind_Some_eq split: if_splits)
      show thesis by (rule that [OF s1(2) parse_key_typed [OF s1(1) b Cons.prems(3)]])
    qed
  next
    case (Some v)
    then show thesis
      using that Cons.prems(1,3) e parseEnvValue_typed [OF _ b Cons.prems(3)] by (auto split: prod.splits if_splits)
  qed
  then show ?case using Cons.IH Cons.prems(2) by simp
qed simp

text \<open>The types of the static variables.\<close>
fun var_kind :: "conf_var \<Rightarrow> conf_kind" where
  "var_kind sg_sTransferPassword = K_string"
| "var_kind sg_sTransferMode = K_string"
| "var_kind sg_sMqHost = K_string"
| "var_kind sg_sMqUser = K_string"
| "var_kind sg_sMqPassword = K_string"
| "var_kind sg_sMqVhost = K_string"
| "var_kind sg_sMqSSL = K_bool"
| "var_kind log_file = K_string"
| "var_kind sg_localityBlockStore = K_string"
| "var_kind sg_blockStoreRemote = K_bool"
| "var_kind sg_backupLocalities = K_array"
| "var_kind no_dest = K_array"
| "var_kind v = K_int"

lemma initial_typed: "typed var_kind initial_config"
  unfolding typed_def
proof
  fix v
  show "has_kind (var_kind v) (initial_config v)" by (cases v) auto
qed

lemma global_config_typed: "list_all (key_typed var_kind) global_config"
  by (simp add: global_config_def key_typed_def)

section \<open>Reading the configuration\<close>

lemma readMyConfig_parsed:
  assumes "readMyConfig C F dir file fmt l s = Some (True, l', s')"
  shows "\<exists>cf. parseBlock C cf fmt s = Some (True, s') \<and> l' = cf # l"
  using assms
  by (auto simp: readMyConfig_def Let_def bind_Some_eq split: if_splits option.splits)

lemma readMyConfig_frame:
  fixes F :: "'g conf_files"
  assumes "readMyConfig C F dir file fmt l s = Some (ok, l', s')" and "d \<notin> set (concat (map key_dests fmt))"
  shows "s' d = s d"
proof -
  have "s' = s \<or> (\<exists>(cf :: 'g config_t) ok1. parseBlock C cf fmt s = Some (ok1, s'))"
    using assms(1) by (auto simp: readMyConfig_def Let_def bind_Some_eq split: if_splits option.splits intro: exI)
  then show ?thesis using parseBlock_frame [OF _ assms(2)] by auto
qed

text \<open>What is known after \<open>readApiConfig\<close> succeeded.\<close>
lemma readApiConfig_read:
  assumes "readApiConfig C F l s0 = Some (True, l', s)"
  obtains s1 where "readMyConfig C F None (Some ''api.conf'') global_config l s0 = Some (True, l', s1)"
    and "int_range (int_var s1 sg_iMaxBlockSize * 1024 * 1024)"
    and "\<forall>v. v \<noteq> sg_iMaxBlockSize \<and> v \<noteq> sg_sMqPassword \<longrightarrow> s v = s1 v"
    and "s sg_iMaxBlockSize = V_int (int_var s1 sg_iMaxBlockSize * 1024 * 1024)"
    and "s sg_sMqPassword = s1 sg_sMqPassword \<or> (\<exists>t. s sg_sMqPassword = V_string t)"
proof -
  obtain l1 s1 where r: "readMyConfig C F None (Some ''api.conf'') global_config l s0 = Some (True, l1, s1)"
    using assms by (auto simp: readApiConfig_def bind_Some_eq split: if_splits)
  moreover have "l1 = l'" using assms r by (auto simp: readApiConfig_def Let_def split: if_splits)
  ultimately have r': "readMyConfig C F None (Some ''api.conf'') global_config l s0 = Some (True, l', s1)" by simp
  show thesis
    by (rule that [OF r']) (use assms r in \<open>auto simp: readApiConfig_def Let_def split: if_splits option.splits\<close>)
qed

lemma readApiConfig_True:
  fixes F :: "'g conf_files"
  assumes "readApiConfig C F l s0 = Some (True, l', s)"
  obtains cf :: "'g config_t" and s1 where "parseBlock C cf global_config s0 = Some (True, s1)" and "l' = cf # l"
    and "int_range (int_var s1 sg_iMaxBlockSize * 1024 * 1024)"
    and "\<forall>v. v \<noteq> sg_iMaxBlockSize \<and> v \<noteq> sg_sMqPassword \<longrightarrow> s v = s1 v"
    and "s sg_iMaxBlockSize = V_int (int_var s1 sg_iMaxBlockSize * 1024 * 1024)"
    and "s sg_sMqPassword = s1 sg_sMqPassword \<or> (\<exists>t. s sg_sMqPassword = V_string t)"
proof (rule readApiConfig_read [OF assms])
  fix s1
  assume r: "readMyConfig C F None (Some ''api.conf'') global_config l s0 = Some (True, l', s1)"
    and rest: "int_range (int_var s1 sg_iMaxBlockSize * 1024 * 1024)"
      "\<forall>v. v \<noteq> sg_iMaxBlockSize \<and> v \<noteq> sg_sMqPassword \<longrightarrow> s v = s1 v"
      "s sg_iMaxBlockSize = V_int (int_var s1 sg_iMaxBlockSize * 1024 * 1024)"
      "s sg_sMqPassword = s1 sg_sMqPassword \<or> (\<exists>t. s sg_sMqPassword = V_string t)"
  obtain cf :: "'g config_t" where cf: "parseBlock C cf global_config s0 = Some (True, s1)" "l' = cf # l"
    using readMyConfig_parsed [OF r] by blast
  show thesis by (rule that [OF cf rest])
qed

lemma readApiConfig_checked:
  assumes "readApiConfig C F l s0 = Some (True, l', s)"
  shows "string_var s sg_sMqHost \<noteq> None \<and> string_var s sg_sMqUser \<noteq> None \<and> string_var s sg_sMqPassword \<noteq> None
    \<and> validateHelloTime (int_var s sg_iHelloTime)
    \<and> validateDeadTime (int_var s sg_iHelloTime) (int_var s sg_iDeadTime)
    \<and> (\<forall>(i, m) \<in> {(sg_inspThreadsInit, sg_inspThreadsMax), (sg_subGcReqThreadsInit, sg_subGcReqThreadsMax),
           (sg_subGcRespThreadsInit, sg_subGcRespThreadsMax), (sg_subTransferThreadsInit, sg_subTransferThreadsMax)}.
         validateThreadPoolInitialCount (int_var s i) \<and> validateThreadPoolMaxCount (int_var s i) (int_var s m))
    \<and> validateGlobalThreadLimit s (int_var s sg_iThreadLimit)"
proof (rule readApiConfig_read [OF assms])
  fix s1
  assume "readMyConfig C F None (Some ''api.conf'') global_config l s0 = Some (True, l', s1)"
    and "int_range (int_var s1 sg_iMaxBlockSize * 1024 * 1024)"
  then show ?thesis using assms unfolding readApiConfig_def Let_def by (auto split: if_splits)
qed

lemma var_kind_int: "typed var_kind s \<Longrightarrow> var_kind v = K_int \<Longrightarrow> s v = V_int (int_var s v)"
  by (auto simp: typed_def int_var_def dest!: spec [of _ v])

section \<open>A configuration\<close>

text \<open>A file whose settings are texts and integers, and surroundings with the given variables.\<close>
definition settings :: "(string \<times> conf_value) list \<Rightarrow> unit config_t" where
  "settings m =
     \<lparr> config_lookup = (\<lambda>k. map_option (\<lambda>v. ()) (map_of m k)),
       config_lookup_int = (\<lambda>k. case map_of m k of Some (V_int i) \<Rightarrow> Some i | _ \<Rightarrow> None),
       config_lookup_string = (\<lambda>k. case map_of m k of Some (V_string t) \<Rightarrow> t | _ \<Rightarrow> None),
       config_setting_is_array = (\<lambda>g. False),
       config_setting_is_list = (\<lambda>g. False),
       config_setting_length = (\<lambda>g. 0),
       config_setting_get_int_elem = (\<lambda>g i. 0),
       config_setting_get_string_elem = (\<lambda>g i. None),
       config_setting_get_elem = (\<lambda>g i. None),
       config_setting_lookup_int = (\<lambda>g k. None),
       config_setting_lookup_string = (\<lambda>g k. None) \<rparr>"

definition surroundings :: "(string \<times> string) list \<Rightarrow> conf_env" where
  "surroundings vars = \<lparr> c_getenv = map_of vars, c_uuid_parse = (\<lambda>t. None), c_alloc = (\<lambda>site. True) \<rparr>"

definition one_file :: "(string \<times> conf_value) list \<Rightarrow> unit conf_files" where
  "one_file m =
     \<lparr> f_open = (\<lambda>p. True), f_fstat = (\<lambda>p. True), f_config_read_file = (\<lambda>p. Some (settings m)),
       f_config_init = settings [], f_etc_dir = ''/etc/razorback'' \<rparr>"

definition some_settings :: "(string \<times> conf_value) list" where
  "some_settings =
     [(''Global.MaxThreads'', V_int 100), (''Global.HelloTime'', V_int 10), (''Global.DeadTime'', V_int 40), (''Global.MaxBlockSize'', V_int 7),
      (''MessageQueue.Host'', V_string (Some ''mq'')), (''MessageQueue.User'', V_string (Some ''rzb'')),
      (''Submission.Pool.MaxSize'', V_int 5000), (''Submission.Pool.MaxItemSize'', V_int 300)]"

definition some_variables :: "(string \<times> string) list" where
  "some_variables = [(''RZB_MQ_PASSWORD'', ''secret''), (''RZB_Global__HelloTime'', ''12'')]"

lemma parse_12: "parse_env_int ''12'' = Some 12"
  by (simp add: parse_env_int_def strtol0_def skip_sign_def select_base_def base_value_def digit_of_def isspace_def
      int_range_def isdigit_def tolower_def Let_def)

lemma surroundings_override [simp]:
  "CHR 0x00 \<notin> set k \<Longrightarrow> getEnvOverride (surroundings vars) k = Some (map_of vars (''RZB_'' @ env_text k))"
  by (subst getEnvOverride_text) (simp_all add: surroundings_def)

definition some_store :: "conf_var conf_store" where
  "some_store = initial_config
       (sg_iThreadLimit := V_int 100, sg_iMaxBlockSize := V_int 7, sg_iHelloTime := V_int 12, sg_iDeadTime := V_int 40,
        sg_sMqHost := V_string (Some ''mq''), sg_sMqUser := V_string (Some ''rzb''), sg_blockPoolMaxSize := V_int 300)"

text \<open>One key at a time.\<close>
lemma parseBlock_next:
  "getEnvOverride C (k_key b) = Some None \<Longrightarrow> config_lookup cf (k_key b) = None
    \<Longrightarrow> parseBlock C cf (b # bs) s = parseBlock C cf bs s"
  "k_type b = RZB_CONF_KEY_TYPE_INT \<Longrightarrow> getEnvOverride C (k_key b) = Some None \<Longrightarrow> config_lookup cf (k_key b) \<noteq> None
    \<Longrightarrow> config_lookup_int cf (k_key b) \<noteq> None
    \<Longrightarrow> parseBlock C cf (b # bs) s = parseBlock C cf bs (s(k_dest b := V_int (the (config_lookup_int cf (k_key b)))))"
  "k_type b = RZB_CONF_KEY_TYPE_STRING \<Longrightarrow> getEnvOverride C (k_key b) = Some None \<Longrightarrow> config_lookup cf (k_key b) \<noteq> None
    \<Longrightarrow> config_lookup_string cf (k_key b) \<noteq> None
    \<Longrightarrow> parseBlock C cf (b # bs) s = parseBlock C cf bs (s(k_dest b := V_string (config_lookup_string cf (k_key b))))"
  "k_type b = RZB_CONF_KEY_TYPE_INT \<Longrightarrow> getEnvOverride C (k_key b) \<noteq> Some None
    \<Longrightarrow> parse_env_int (the (the (getEnvOverride C (k_key b)))) \<noteq> None
    \<Longrightarrow> parseBlock C cf (b # bs) s
      = parseBlock C cf bs (s(k_dest b := V_int (the (parse_env_int (the (the (getEnvOverride C (k_key b))))))))"
  using getEnvOverride_defined [of C "k_key b"] by (auto simp: parse_key_def parseEnvValue_def)

lemma some_parsed:
  "parseBlock (surroundings some_variables) (settings some_settings) global_config initial_config = Some (True, some_store)"
  by (simp add: global_config_def some_settings_def some_variables_def settings_def parseBlock_next
      parse_12 some_store_def del: parseBlock.simps(2))

lemma some_config:
  "readApiConfig (surroundings some_variables) (one_file some_settings) [] initial_config =
     Some (True, [settings some_settings],
       some_store(sg_iMaxBlockSize := V_int 7340032, sg_sMqPassword := V_string (Some ''secret'')))"
proof -
  have "hasEnvOverride (surroundings some_variables) global_config = Some True"
    by (simp add: global_config_def some_variables_def)
  then have "readMyConfig (surroundings some_variables) (one_file some_settings) None (Some ''api.conf'') global_config []
      initial_config = Some (True, [settings some_settings], some_store)"
    using some_parsed by (simp add: readMyConfig_def getConfigFile_def testFile_def one_file_def) (simp add: surroundings_def)
  moreover have "c_getenv (surroundings some_variables) ''RZB_MQ_PASSWORD'' = Some ''secret''"
    "c_alloc (surroundings some_variables) ''readApiConfig''"
    by (simp_all add: surroundings_def some_variables_def)
  ultimately show ?thesis
    by (simp add: readApiConfig_def some_store_def int_var_def string_var_def int_range_def validateHelloTime_def
        validateDeadTime_def validateThreadPoolInitialCount_def validateThreadPoolMaxCount_def validateGlobalThreadLimit_def)
qed

section \<open>Properties\<close>

text \<open>
  C34: The name of the environment variable of a key is written inside its buffer, which it fills to the
  last byte: the text \<open>RZB_\<close>, then the key with every dot doubled into underscores, then the
  terminating null. The counting loop that sizes the buffer and the loop that writes it agree for every
  key; the only other outcome is a failed allocation.
\<close>
theorem configKeyToEnvName_bounds:
  "configKeyToEnvName C k =
     Some (if c_alloc C ''configKeyToEnvName''
           then Some (''RZB_'' @ concat (map (\<lambda>c. if c = CHR ''.'' then ''__'' else [c]) k) @ [CHR 0x00]) else None)"
  using configKeyToEnvName_text [of C k] by (auto simp: env_text_def configKeyToEnvName_def)

text \<open>
  C16: When a block of keys is read successfully, a key whose destinations no later key of the block has gets
  its value from one place. If there is a variable of the environment for it, the key is not an array or a list and
  the destination has the value of the text. Otherwise, if the file has a setting for it, the destination has the
  value of the setting; for an array or a list the count is the number of elements and the data all their values,
  except that the data of an empty one stays as the keys before left it. Otherwise every destination stays as the
  keys before left it. No memory but the destinations of keys changes, in the whole block and in the keys before.
\<close>
theorem parseBlock_sources:
  assumes "parseBlock C cf (xs @ b # ys) s = Some (True, s')" and "distinct (key_dests b)"
    and "set (key_dests b) \<inter> set (concat (map key_dests ys)) = {}"
    and "c_alloc C ''configKeyToEnvName''" and "CHR 0x00 \<notin> set (k_key b)"
  shows "(\<exists>s1. parseBlock C cf xs s = Some (True, s1) \<and> (\<forall>d. d \<notin> set (concat (map key_dests xs)) \<longrightarrow> s1 d = s d)
       \<and> (case c_getenv C (''RZB_'' @ env_text (k_key b)) of
            Some v \<Rightarrow> scalar b \<and> env_value C b v = Some (s' (k_dest b))
          | None \<Rightarrow>
              (case config_lookup cf (k_key b) of
                 None \<Rightarrow> \<forall>d \<in> set (key_dests b). s' d = s1 d
               | Some g \<Rightarrow> if scalar b then file_value C cf b = Some (s' (k_dest b)) else file_collection C cf g b s1 s')))
     \<and> (\<forall>d. d \<notin> set (concat (map key_dests (xs @ b # ys))) \<longrightarrow> s' d = s d)"
proof (intro conjI allI impI)
  have "getEnvOverride C (k_key b) = Some (c_getenv C (''RZB_'' @ env_text (k_key b)))"
    by (rule getEnvOverride_text) (use assms(4,5) in auto)
  moreover obtain s1 where "parseBlock C cf xs s = Some (True, s1)" "key_outcome C cf s1 s' b"
    by (rule parseBlock_outcome [OF assms(1-3)])
  ultimately show "\<exists>s1. parseBlock C cf xs s = Some (True, s1) \<and> (\<forall>d. d \<notin> set (concat (map key_dests xs)) \<longrightarrow> s1 d = s d)
       \<and> (case c_getenv C (''RZB_'' @ env_text (k_key b)) of
            Some v \<Rightarrow> scalar b \<and> env_value C b v = Some (s' (k_dest b))
          | None \<Rightarrow>
              (case config_lookup cf (k_key b) of
                 None \<Rightarrow> \<forall>d \<in> set (key_dests b). s' d = s1 d
               | Some g \<Rightarrow> if scalar b then file_value C cf b = Some (s' (k_dest b)) else file_collection C cf g b s1 s'))"
    using parseBlock_frame [of C cf xs s True s1]
    by (intro exI [of _ s1]) (auto simp: key_outcome_def split: option.splits if_splits)
next
  fix d assume "d \<notin> set (concat (map key_dests (xs @ b # ys)))"
  then show "s' d = s d" by (rule parseBlock_frame [OF assms(1)])
qed

theorem parseBlock_sources_witness:
  "\<exists>s'. parseBlock (surroundings [(''RZB_Global__HelloTime'', ''12'')]) (settings [(''Global.DeadTime'', V_int 40)])
      [int_key ''Global.HelloTime'' sg_iHelloTime, int_key ''Global.DeadTime'' sg_iDeadTime] initial_config = Some (True, s')
    \<and> s' sg_iHelloTime = V_int 12 \<and> s' sg_iDeadTime = V_int 40 \<and> s' sg_iMqPort = initial_config sg_iMqPort"
proof -
  let ?C = "surroundings [(''RZB_Global__HelloTime'', ''12'')]" and ?cf = "settings [(''Global.DeadTime'', V_int 40)]"
  let ?h = "int_key ''Global.HelloTime'' sg_iHelloTime" and ?d = "int_key ''Global.DeadTime'' sg_iDeadTime"
  obtain s' where s': "parseBlock ?C ?cf [?h, ?d] initial_config = Some (True, s')"
    by (simp add: settings_def parse_key_def parseEnvValue_def parse_12)
  have "s' sg_iHelloTime = V_int 12 \<and> s' sg_iMqPort = initial_config sg_iMqPort"
    using parseBlock_sources [of ?C ?cf "[]" ?h "[?d]" initial_config s'] s' parse_12
    by (simp add: surroundings_def settings_def key_dests_def env_value_def file_value_def scalar_def)
  moreover have "s' sg_iDeadTime = V_int 40"
    using parseBlock_sources [of ?C ?cf "[?h]" ?d "[]" initial_config s'] s'
    by (auto simp: surroundings_def settings_def key_dests_def file_value_def scalar_def simp del: parseBlock.simps)
  ultimately show ?thesis using s' by (intro exI conjI) (assumption, simp_all)
qed

text \<open>
  C15: Reading the configuration is type safe: every entry of the table has a destination of the type
  that its conversion stores, so after a successful read every static variable holds a value of its
  declared type; none is indeterminate.
\<close>
theorem readApiConfig_typed:
  assumes "readApiConfig C F l s0 = Some (True, l', s)" and "typed var_kind s0"
  shows "typed var_kind s \<and> s v \<noteq> V_indeterminate"
proof -
  obtain cf :: "'a config_t" and s1 where s1: "parseBlock C cf global_config s0 = Some (True, s1)" and "l' = cf # l"
    and "int_range (int_var s1 sg_iMaxBlockSize * 1024 * 1024)"
    and same: "\<forall>v. v \<noteq> sg_iMaxBlockSize \<and> v \<noteq> sg_sMqPassword \<longrightarrow> s v = s1 v"
    and mb: "s sg_iMaxBlockSize = V_int (int_var s1 sg_iMaxBlockSize * 1024 * 1024)"
    and pw: "s sg_sMqPassword = s1 sg_sMqPassword \<or> (\<exists>t. s sg_sMqPassword = V_string t)"
    by (rule readApiConfig_True [OF assms(1)])
  have t1: "typed var_kind s1" by (rule parseBlock_typed [OF s1 global_config_typed assms(2)])
  have t: "has_kind (var_kind w) (s w)" for w
  proof (cases "w = sg_iMaxBlockSize \<or> w = sg_sMqPassword")
    case True
    then show ?thesis using mb pw spec [OF t1 [unfolded typed_def], of sg_sMqPassword] by auto
  next
    case False
    then show ?thesis using same t1 by (simp add: typed_def)
  qed
  have "\<not> has_kind (var_kind v) V_indeterminate" by (cases "var_kind v") simp_all
  then have "s v \<noteq> V_indeterminate" using t [of v] by (cases "s v = V_indeterminate") simp_all
  then show ?thesis using t by (simp add: typed_def)
qed

theorem readApiConfig_typed_witness:
  "\<exists>l s. readApiConfig (surroundings some_variables) (one_file some_settings) [] initial_config = Some (True, l, s)
     \<and> typed var_kind s \<and> s sg_sMqPassword \<noteq> V_indeterminate"
  using readApiConfig_typed [OF some_config initial_typed, of sg_sMqPassword]
  by (intro exI conjI) (rule some_config, simp_all)

text \<open>
  C10: A configuration that is accepted satisfies what the rest of the API relies on: a hello interval
  above one second, so that the timer of the connected entities, which runs at half the interval, never
  has an interval of zero; a dead time above three hello intervals; pools of at least one thread and
  with a maximum that is no less; a thread limit that admits the threads the API starts; a block size
  that is an \<open>int\<close> of whole megabytes; and a host, a user and a password of the message queue.
\<close>
theorem readApiConfig_valid:
  assumes "readApiConfig C F l s0 = Some (True, l', s)"
  shows "int_var s sg_iHelloTime div 2 \<ge> 1 \<and> int_var s sg_iDeadTime > 3 * int_var s sg_iHelloTime
    \<and> (\<forall>(i, m) \<in> {(sg_inspThreadsInit, sg_inspThreadsMax), (sg_subGcReqThreadsInit, sg_subGcReqThreadsMax),
           (sg_subGcRespThreadsInit, sg_subGcRespThreadsMax), (sg_subTransferThreadsInit, sg_subTransferThreadsMax)}.
         1 \<le> int_var s i \<and> int_var s i \<le> int_var s m)
    \<and> int_var s sg_iThreadLimit \<ge> 7 + 2 * int_var s sg_subGcReqThreadsInit + int_var s sg_subGcRespThreadsInit
           + 2 * int_var s sg_subTransferThreadsInit + int_var s sg_inspThreadsInit
    \<and> int_range (int_var s sg_iMaxBlockSize) \<and> 1024 * 1024 dvd int_var s sg_iMaxBlockSize
    \<and> Config_getMqHost s \<noteq> None \<and> Config_getMqUser s \<noteq> None \<and> Config_getMqPassword s \<noteq> None"
proof (rule readApiConfig_read [OF assms])
  fix s1
  assume "int_range (int_var s1 sg_iMaxBlockSize * 1024 * 1024)"
    and m: "s sg_iMaxBlockSize = V_int (int_var s1 sg_iMaxBlockSize * 1024 * 1024)"
  moreover have "int_var s sg_iMaxBlockSize = int_var s1 sg_iMaxBlockSize * 1024 * 1024"
    using m by (simp add: int_var_def)
  ultimately have b: "int_range (int_var s sg_iMaxBlockSize) \<and> 1024 * 1024 dvd int_var s sg_iMaxBlockSize"
    by (simp add: algebra_simps)
  note d = validateHelloTime_def validateDeadTime_def validateThreadPoolInitialCount_def validateThreadPoolMaxCount_def
    validateGlobalThreadLimit_def Let_def Config_getMqHost_def Config_getMqUser_def Config_getMqPassword_def
  show ?thesis using readApiConfig_checked [OF assms] b unfolding d by auto
qed

theorem readApiConfig_valid_witness:
  "\<exists>l s. readApiConfig (surroundings some_variables) (one_file some_settings) [] initial_config = Some (True, l, s)
     \<and> int_var s sg_iHelloTime div 2 \<ge> 1 \<and> Config_getMqPassword s \<noteq> None"
  using readApiConfig_valid [OF some_config] by (intro exI conjI) (rule some_config, simp_all)

text \<open>
  C35: The size limit of one item of the block pool can never be configured. Whatever is read, the
  variable that \<open>Config_getBlockPoolMaxItemSize\<close> returns keeps its value, and a setting
  \<open>Submission.Pool.MaxItemSize\<close> of the file replaces the limit of the whole pool instead, even one that
  was given as \<open>Submission.Pool.MaxSize\<close>.
\<close>
theorem MaxItemSize_misdirected:
  assumes "readApiConfig C F l s0 = Some (True, cf # l, s)"
    and "c_getenv C ''RZB_Submission__Pool__MaxItemSize'' = None"
    and "config_lookup cf ''Submission.Pool.MaxItemSize'' = Some g"
    and "config_lookup_int cf ''Submission.Pool.MaxItemSize'' = Some n"
  shows "Config_getBlockPoolMaxItemSize s = Config_getBlockPoolMaxItemSize s0 \<and> int_var s sg_blockPoolMaxSize = n"
proof (rule readApiConfig_True [OF assms(1)])
  fix cf' s1
  assume s1: "parseBlock C cf' global_config s0 = Some (True, s1)" and cf: "cf # l = cf' # l"
    and same: "\<forall>v. v \<noteq> sg_iMaxBlockSize \<and> v \<noteq> sg_sMqPassword \<longrightarrow> s v = s1 v"
  have "s1 sg_blockPoolMaxItemSize = s0 sg_blockPoolMaxItemSize"
    by (rule parseBlock_frame [OF s1]) (simp add: global_config_def key_dests_def)
  then have i: "s sg_blockPoolMaxItemSize = s0 sg_blockPoolMaxItemSize" using same by simp
  obtain bs where g: "global_config = bs @ [int_key ''Submission.Pool.MaxItemSize'' sg_blockPoolMaxSize]"
  proof
    show "global_config = butlast global_config @ [int_key ''Submission.Pool.MaxItemSize'' sg_blockPoolMaxSize]"
      by (simp add: global_config_def)
  qed
  obtain s2 where s2: "parseBlock C cf [int_key ''Submission.Pool.MaxItemSize'' sg_blockPoolMaxSize] s2 = Some (True, s1)"
    using s1 cf unfolding g parseBlock_append by (auto simp: bind_Some_eq split: if_splits)
  have e: "getEnvOverride C ''Submission.Pool.MaxItemSize'' = Some None"
  proof (cases "c_alloc C ''configKeyToEnvName''")
    case True
    then show ?thesis using getEnvOverride_text [OF True, of "''Submission.Pool.MaxItemSize''"] assms(2) by simp
  qed (simp add: getEnvOverride_def configKeyToEnvName_def)
  have "s1 sg_blockPoolMaxSize = V_int n"
    using s2 assms(3,4) e by (auto simp: parse_key_def)
  then show ?thesis using i same by (simp add: Config_getBlockPoolMaxItemSize_def u32_var_def int_var_def)
qed

theorem MaxItemSize_misdirected_witness:
  "\<exists>s. readApiConfig (surroundings some_variables) (one_file some_settings) [] initial_config
       = Some (True, [settings some_settings], s)
     \<and> map_of some_settings ''Submission.Pool.MaxSize'' = Some (V_int 5000)
     \<and> int_var s sg_blockPoolMaxSize = 300"
proof -
  let ?s = "some_store(sg_iMaxBlockSize := V_int 7340032, sg_sMqPassword := V_string (Some ''secret''))"
  have "int_var ?s sg_blockPoolMaxSize = 300"
    using MaxItemSize_misdirected [OF some_config, of "()" 300]
    by (simp add: surroundings_def settings_def some_settings_def some_variables_def)
  then show ?thesis by (intro exI conjI) (rule some_config, simp_all add: some_settings_def)
qed

end
