(* ===== verification/Timers.thy ===== *)
theory Timers
  imports Rzb_Prelude
begin

text \<open>
  Timers, \<open>src/timer.c\<close>: a worker thread that calls a function after every interval, and the shutdown
  protocol between the worker and the threads that destroy the timer, one of which may be the worker
  itself.

  The sections of code under the mutex of a timer are single steps. The threads are interleaved: a
  system has the worker, the thread that creates the timer, and callers of \<open>Timer_Destroy\<close>, numbered,
  with a program counter for each place where they can be interrupted; between the start of a call and
  the first use of the mutex is such a place. The memory of the timer and its mutex is an option that is
  \<^term>\<open>None\<close> once it is freed. The handle of the worker thread, \<open>src/thread.c\<close>, is its count of
  references, which is zero once it is freed. A step that uses either after that is a fault, and so is a
  second \<open>pthread_join\<close> of the same thread, which POSIX leaves undefined.
\<close>

section \<open>Data\<close>

text \<open>\<open>struct Timer\<close>; \<open>t_thread\<close> is whether the pointer is not null.\<close>
record Timer =
  t_thread :: bool
  interval :: u32
  bStopRequested :: bool
  bDestroyDeferred :: bool
  bCleanupDone :: bool
  destroyWaiters :: u32

abbreviation (input) "TIMER_POLL_INTERVAL_MS \<equiv> (100 :: u64)"

text \<open>
  The places of \<open>Timer_Main\<close>: the test of the outer loop, the inner loop with the milliseconds that
  remain, the callback, the section after the outer loop, and the release; then the end of
  \<open>Thread_MainWrapper\<close>, which drops its reference, and the end of the thread.
\<close>
datatype worker_pc = W_check | W_poll u64 | W_callback | W_final | W_release | W_exit | W_done

text \<open>
  The places of \<open>Timer_Destroy\<close> in a thread other than the worker: before the first section, before and
  in \<open>pthread_join\<close>, before the second section, and before the release, the last two with whether the
  pointer to the thread that was read is not null.
\<close>
datatype destroy_pc = D_idle | D_begun | D_join | D_joining | D_final bool | D_release bool | D_done

text \<open>
  \<open>created\<close> is whether \<open>Timer_Create\<close> has assigned the thread it launched, \<open>th_refs\<close> the references to the
  thread, \<open>joined\<close> whether \<open>pthread_join\<close> was called for it.
\<close>
record timer_sys =
  tm :: "Timer option"
  created :: bool
  th_refs :: nat
  joined :: bool
  worker :: worker_pc
  callers :: "nat \<Rightarrow> destroy_pc"
  slept :: nat
  fired :: nat

text \<open>
  The steps: of the creator, of the worker, of the callback, which may destroy the timer or return, and
  of a caller, which begins a call and goes on.
\<close>
datatype timer_event = E_created | E_worker | E_callback_destroy | E_callback_return | E_destroy nat | E_caller nat

datatype 'a outcome = Disabled | Fault | Next 'a

text \<open>A step that uses the memory of the timer.\<close>
definition with_timer :: "timer_sys \<Rightarrow> (Timer \<Rightarrow> timer_sys outcome) \<Rightarrow> timer_sys outcome" where
  "with_timer s f = (case tm s of None \<Rightarrow> Fault | Some t \<Rightarrow> f t)"

text \<open>The reference that \<open>Thread_Destroy\<close> drops; the last one frees the thread.\<close>
definition Thread_unref :: "timer_sys \<Rightarrow> timer_sys outcome" where
  "Thread_unref s = (if th_refs s = 0 then Fault else Next (s\<lparr>th_refs := th_refs s - 1\<rparr>))"

definition and_then :: "timer_sys outcome \<Rightarrow> (timer_sys \<Rightarrow> timer_sys outcome) \<Rightarrow> timer_sys outcome" where
  "and_then r f = (case r of Next s \<Rightarrow> f s | _ \<Rightarrow> r)"

section \<open>Creation\<close>

text \<open>The outcome of the allocation, of the creation of the mutex and of the start of the thread.\<close>
definition Timer_Create :: "(string \<Rightarrow> bool) \<Rightarrow> u32 \<Rightarrow> bool \<Rightarrow> Timer option" where
  "Timer_Create alloc ival handler =
     (if \<not> handler then None
      else if ival = 0 then None
      else if \<not> alloc ''Timer_Create'' then None
      else if \<not> alloc ''Mutex_Create'' then None
      else if \<not> alloc ''Thread_Launch'' then None
      else Some \<lparr>t_thread = True, interval = ival, bStopRequested = False, bDestroyDeferred = False,
                 bCleanupDone = False, destroyWaiters = 0\<rparr>)"

text \<open>
  The system when the worker starts: the pointer to the thread is not yet assigned, and there is one
  reference for the list of threads and one for the creator.
\<close>
definition timer_start :: "Timer \<Rightarrow> timer_sys" where
  "timer_start t = \<lparr>tm = Some (t\<lparr>t_thread := False\<rparr>), created = False, th_refs = 2, joined = False, worker = W_check,
     callers = (\<lambda>d. D_idle), slept = 0, fired = 0\<rparr>"

text \<open>The assignment of the launched thread, with which \<open>Timer_Create\<close> returns.\<close>
definition Timer_Create_assign :: "timer_sys \<Rightarrow> timer_sys outcome" where
  "Timer_Create_assign s =
     (if created s then Disabled
      else with_timer s (\<lambda>t. Next (s\<lparr>tm := Some (t\<lparr>t_thread := True\<rparr>), created := True\<rparr>)))"

section \<open>The worker\<close>

definition Timer_ShouldStop :: "Timer \<Rightarrow> bool" where
  "Timer_ShouldStop t = bStopRequested t"

text \<open>The milliseconds of one sleep.\<close>
definition poll_step :: "u64 \<Rightarrow> u64" where
  "poll_step remaining = (if remaining > TIMER_POLL_INTERVAL_MS then TIMER_POLL_INTERVAL_MS else remaining)"

definition Timer_Main :: "timer_sys \<Rightarrow> timer_sys outcome" where
  "Timer_Main s =
     (case worker s of
        W_check \<Rightarrow> with_timer s (\<lambda>t.
          if Timer_ShouldStop t then Next (s\<lparr>worker := W_final\<rparr>)
          else Next (s\<lparr>worker := W_poll (ucast (interval t) * 1000)\<rparr>))
      | W_poll remaining \<Rightarrow> with_timer s (\<lambda>t.
          if Timer_ShouldStop t then Next (s\<lparr>worker := W_exit\<rparr>)
          else if remaining > 0
            then Next (s\<lparr>worker := W_poll (remaining - poll_step remaining), slept := slept s + unat (poll_step remaining)\<rparr>)
          else Next (s\<lparr>worker := W_callback, fired := fired s + 1\<rparr>))
      | W_callback \<Rightarrow> Disabled
      | W_final \<Rightarrow> with_timer s (\<lambda>t.
          if bDestroyDeferred t \<and> destroyWaiters t = 0 \<and> \<not> bCleanupDone t
          then Next (s\<lparr>tm := Some (t\<lparr>bCleanupDone := True, t_thread := False\<rparr>), worker := W_release\<rparr>)
          else Next (s\<lparr>worker := W_exit\<rparr>))
      | W_release \<Rightarrow> and_then (Thread_unref s) (\<lambda>s1. with_timer s1 (\<lambda>t. Next (s1\<lparr>tm := None, worker := W_exit\<rparr>)))
      | W_exit \<Rightarrow> and_then (Thread_unref s) (\<lambda>s1. Next (s1\<lparr>worker := W_done\<rparr>))
      | W_done \<Rightarrow> Disabled)"

section \<open>Destruction\<close>

text \<open>The counter of the second section.\<close>
definition drop_waiter :: "Timer \<Rightarrow> Timer" where
  "drop_waiter t = (if destroyWaiters t > 0 then t\<lparr>destroyWaiters := destroyWaiters t - 1\<rparr> else t)"

text \<open>
  \<open>Timer_Destroy\<close> called from the callback. When the pointer to the thread is null the worker takes itself for
  another thread, does not wait and goes on to the second section and the release.
\<close>
definition Timer_Destroy_self :: "timer_sys \<Rightarrow> timer_sys outcome" where
  "Timer_Destroy_self s =
     with_timer s (\<lambda>t.
       let t1 = t\<lparr>bStopRequested := True\<rparr>
       in if t_thread t1 then Next (s\<lparr>tm := Some (t1\<lparr>bDestroyDeferred := True\<rparr>)\<rparr>)
          else let t2 = drop_waiter t1
               in if \<not> bCleanupDone t2 \<and> destroyWaiters t2 = 0 then Next (s\<lparr>tm := None\<rparr>)
                  else Next (s\<lparr>tm := Some t2\<rparr>))"

text \<open>
  The first section of \<open>Timer_Destroy\<close> in another thread. A caller that finds no thread goes on to the
  second section without waiting.
\<close>
definition Timer_Destroy_enter :: "nat \<Rightarrow> timer_sys \<Rightarrow> timer_sys outcome" where
  "Timer_Destroy_enter d s =
     with_timer s (\<lambda>t.
       let t1 = t\<lparr>bStopRequested := True\<rparr>;
           t2 = (if \<not> bCleanupDone t1 \<and> t_thread t1 then t1\<lparr>destroyWaiters := destroyWaiters t1 + 1\<rparr> else t1)
       in Next (s\<lparr>tm := Some t2, callers := (callers s)(d := if t_thread t1 then D_join else D_final False)\<rparr>))"

text \<open>\<open>Thread_Join\<close>: the call of \<open>pthread_join\<close>, and its return once the thread has ended.\<close>
definition Thread_Join_call :: "nat \<Rightarrow> timer_sys \<Rightarrow> timer_sys outcome" where
  "Thread_Join_call d s =
     (if th_refs s = 0 \<or> joined s then Fault
      else Next (s\<lparr>joined := True, callers := (callers s)(d := D_joining)\<rparr>))"

definition Thread_Join_return :: "nat \<Rightarrow> timer_sys \<Rightarrow> timer_sys outcome" where
  "Thread_Join_return d s =
     (if worker s = W_done then Next (s\<lparr>callers := (callers s)(d := D_final True)\<rparr>) else Disabled)"

text \<open>The second section and the release.\<close>
definition Timer_Destroy_finish :: "nat \<Rightarrow> bool \<Rightarrow> timer_sys \<Rightarrow> timer_sys outcome" where
  "Timer_Destroy_finish d th s =
     with_timer s (\<lambda>t.
       let t1 = drop_waiter t
       in if \<not> bCleanupDone t1 \<and> destroyWaiters t1 = 0
          then Next (s\<lparr>tm := Some (t1\<lparr>bCleanupDone := True, t_thread := False\<rparr>), callers := (callers s)(d := D_release th)\<rparr>)
          else Next (s\<lparr>tm := Some t1, callers := (callers s)(d := D_done)\<rparr>))"

definition Timer_Destroy_release :: "nat \<Rightarrow> bool \<Rightarrow> timer_sys \<Rightarrow> timer_sys outcome" where
  "Timer_Destroy_release d th s =
     and_then (if th then Thread_unref s else Next s)
       (\<lambda>s1. with_timer s1 (\<lambda>t. Next (s1\<lparr>tm := None, callers := (callers s1)(d := D_done)\<rparr>)))"

text \<open>A call of \<open>Timer_Destroy\<close> that has begun, from one place to the next.\<close>
definition Timer_Destroy :: "nat \<Rightarrow> timer_sys \<Rightarrow> timer_sys outcome" where
  "Timer_Destroy d s =
     (case callers s d of
        D_begun \<Rightarrow> Timer_Destroy_enter d s
      | D_join \<Rightarrow> Thread_Join_call d s
      | D_joining \<Rightarrow> Thread_Join_return d s
      | D_final th \<Rightarrow> Timer_Destroy_finish d th s
      | D_release th \<Rightarrow> Timer_Destroy_release d th s
      | _ \<Rightarrow> Disabled)"

section \<open>The system\<close>

definition timer_act :: "timer_event \<Rightarrow> timer_sys \<Rightarrow> timer_sys outcome" where
  "timer_act e s =
     (case e of
        E_created \<Rightarrow> Timer_Create_assign s
      | E_worker \<Rightarrow> Timer_Main s
      | E_callback_destroy \<Rightarrow> if worker s = W_callback then Timer_Destroy_self s else Disabled
      | E_callback_return \<Rightarrow> if worker s = W_callback then Next (s\<lparr>worker := W_check\<rparr>) else Disabled
      | E_destroy d \<Rightarrow> if callers s d = D_idle then Next (s\<lparr>callers := (callers s)(d := D_begun)\<rparr>) else Disabled
      | E_caller d \<Rightarrow> Timer_Destroy d s)"

text \<open>
  What the users of a timer must respect. They have its pointer once it is created. At most one thread
  other than the worker destroys it. After the callback has destroyed its own timer, a call of another
  thread may only begin while that callback still runs, and the callback does not return before that
  call has passed its first section.
\<close>
definition permitted :: "timer_event \<Rightarrow> timer_sys \<Rightarrow> bool" where
  "permitted e s =
     (case e of
        E_callback_destroy \<Rightarrow> created s
      | E_callback_return \<Rightarrow> (case tm s of None \<Rightarrow> True | Some t \<Rightarrow> bDestroyDeferred t \<longrightarrow> (\<forall>d. callers s d \<noteq> D_begun))
      | E_destroy d \<Rightarrow> created s \<and> (\<forall>e. callers s e = D_idle)
          \<and> (case tm s of None \<Rightarrow> False | Some t \<Rightarrow> bDestroyDeferred t \<longrightarrow> worker s = W_callback)
      | _ \<Rightarrow> True)"

text \<open>The states that a timer can reach.\<close>
inductive timer_reach :: "Timer \<Rightarrow> timer_sys \<Rightarrow> bool" for t0 where
  start: "timer_reach t0 (timer_start t0)"
| step: "timer_reach t0 s \<Longrightarrow> permitted e s \<Longrightarrow> timer_act e s = Next s' \<Longrightarrow> timer_reach t0 s'"

text \<open>A run of the system along a list of events.\<close>
fun timer_run :: "timer_event list \<Rightarrow> timer_sys \<Rightarrow> timer_sys outcome" where
  "timer_run [] s = Next s"
| "timer_run (e # es) s = (case timer_act e s of Next s' \<Rightarrow> timer_run es s' | Disabled \<Rightarrow> Disabled | Fault \<Rightarrow> Fault)"

end
