(* ===== verification/Timer_Properties.thy ===== *)
theory Timer_Properties
  imports Timers
begin

text \<open>
  Properties of timers: under the conditions on their use the shutdown protocol never uses released memory, joins the
  worker once and releases everything exactly once; shutdown always comes to an end; without the conditions it has races;
  and the worker calls its function after the given time.
\<close>

section \<open>Invariant\<close>

text \<open>The only thread other than the worker that has called \<open>Timer_Destroy\<close>, if any, is at a place.\<close>
definition sole :: "nat \<Rightarrow> destroy_pc \<Rightarrow> nat \<Rightarrow> destroy_pc" where
  "sole d p = (\<lambda>e. D_idle)(d := p)"

lemma sole_simps [simp]:
  "sole d p d = p" "(sole d p)(d := q) = sole d q" "e \<noteq> d \<Longrightarrow> sole d p e = D_idle"
  by (auto simp: sole_def)

lemma sole_any: "p \<noteq> D_idle \<Longrightarrow> sole d p e = p \<longleftrightarrow> e = d"
  by (auto simp: sole_def)

text \<open>The references that the worker and the creator have while the timer is there.\<close>
definition refs_ok :: "timer_sys \<Rightarrow> bool" where
  "refs_ok s \<longleftrightarrow> th_refs s = (if worker s = W_done then 1 else 2)"

text \<open>While the memory is there, with the place of the caller.\<close>
fun live_inv :: "Timer \<Rightarrow> timer_sys \<Rightarrow> destroy_pc \<Rightarrow> bool" where
  "live_inv t s D_idle \<longleftrightarrow> destroyWaiters t = 0 \<and> bStopRequested t = bDestroyDeferred t \<and> bCleanupDone t = (worker s = W_release)
     \<and> t_thread t = (created s \<and> \<not> bCleanupDone t) \<and> (bDestroyDeferred t \<longrightarrow> created s)
     \<and> (bDestroyDeferred t \<longrightarrow> worker s \<in> {W_callback, W_check, W_final, W_release})
     \<and> (\<not> bDestroyDeferred t \<longrightarrow> (\<exists>r. worker s \<in> {W_callback, W_check, W_poll r}))
     \<and> refs_ok s \<and> \<not> joined s"
| "live_inv t s D_begun \<longleftrightarrow> destroyWaiters t = 0 \<and> bStopRequested t = bDestroyDeferred t \<and> \<not> bCleanupDone t
     \<and> t_thread t \<and> created s \<and> (bDestroyDeferred t \<longrightarrow> worker s = W_callback) \<and> (\<exists>r. worker s \<in> {W_callback, W_check, W_poll r})
     \<and> refs_ok s \<and> \<not> joined s"
| "live_inv t s D_join \<longleftrightarrow> destroyWaiters t = 1 \<and> bStopRequested t \<and> \<not> bCleanupDone t \<and> t_thread t \<and> created s
     \<and> worker s \<noteq> W_release \<and> refs_ok s \<and> \<not> joined s"
| "live_inv t s D_joining \<longleftrightarrow> destroyWaiters t = 1 \<and> bStopRequested t \<and> \<not> bCleanupDone t \<and> t_thread t \<and> created s
     \<and> worker s \<noteq> W_release \<and> refs_ok s"
| "live_inv t s (D_final th) \<longleftrightarrow> th \<and> destroyWaiters t = 1 \<and> bStopRequested t \<and> \<not> bCleanupDone t \<and> created s
     \<and> worker s = W_done \<and> refs_ok s"
| "live_inv t s (D_release th) \<longleftrightarrow> th \<and> bStopRequested t \<and> created s \<and> worker s = W_done \<and> refs_ok s"
| "live_inv t s D_done \<longleftrightarrow> False"

text \<open>Once the memory is released.\<close>
definition freed_inv :: "timer_sys \<Rightarrow> destroy_pc \<Rightarrow> bool" where
  "freed_inv s p \<longleftrightarrow> created s
     \<and> (p = D_idle \<and> worker s = W_exit \<and> th_refs s = 1 \<or> p \<in> {D_idle, D_done} \<and> worker s = W_done \<and> th_refs s = 0)"

definition timer_inv_at :: "nat \<Rightarrow> destroy_pc \<Rightarrow> timer_sys \<Rightarrow> bool" where
  "timer_inv_at d p s \<longleftrightarrow> callers s = sole d p \<and> (case tm s of None \<Rightarrow> freed_inv s p | Some t \<Rightarrow> live_inv t s p)"

definition timer_inv :: "timer_sys \<Rightarrow> bool" where
  "timer_inv s \<longleftrightarrow> (\<exists>d p. timer_inv_at d p s)"

lemmas timer_inv_defs = timer_inv_at_def freed_inv_def refs_ok_def

text \<open>A step that is no fault and keeps the invariant with the place of the caller.\<close>
definition keeps :: "nat \<Rightarrow> destroy_pc \<Rightarrow> timer_sys outcome \<Rightarrow> bool" where
  "keeps d p r \<longleftrightarrow> (case r of Disabled \<Rightarrow> True | Fault \<Rightarrow> False | Next s' \<Rightarrow> timer_inv_at d p s')"

lemma keeps_simps [simp]: "keeps d p Disabled" "\<not> keeps d p Fault" "keeps d p (Next s') = timer_inv_at d p s'"
  by (simp_all add: keeps_def)

lemma keepsD: "keeps d p r \<Longrightarrow> r \<noteq> Fault \<and> (\<forall>s'. r = Next s' \<longrightarrow> timer_inv s')"
  unfolding timer_inv_def by (cases r) auto

lemma Timer_Main_keeps:
  assumes "timer_inv_at d p s"
  shows "keeps d p (Timer_Main s)"
proof (cases "tm s")
  case None
  then show ?thesis using assms by (auto simp: timer_inv_defs Timer_Main_def Thread_unref_def and_then_def)
next
  case (Some t)
  note defs = timer_inv_defs Timer_Main_def Thread_unref_def and_then_def with_timer_def Timer_ShouldStop_def
  show ?thesis
  proof (cases p)
    case D_idle
    then show ?thesis using assms Some by (cases "worker s") (auto simp: defs)
  next
    case D_begun
    then show ?thesis using assms Some by (cases "worker s") (auto simp: defs)
  next
    case D_join
    then show ?thesis using assms Some by (cases "worker s") (auto simp: defs)
  next
    case D_joining
    then show ?thesis using assms Some by (cases "worker s") (auto simp: defs)
  qed (use assms Some in \<open>auto simp: defs\<close>)
qed

lemma callback_keeps:
  assumes "timer_inv_at d p s" and "worker s = W_callback"
  shows "created s \<Longrightarrow> keeps d p (Timer_Destroy_self s)"
    and "permitted E_callback_return s \<Longrightarrow> timer_inv_at d p (s\<lparr>worker := W_check\<rparr>)"
proof -
  obtain t where t: "tm s = Some t" using assms by (cases "tm s") (auto simp: timer_inv_defs)
  show "keeps d p (Timer_Destroy_self s)" if "created s"
    using assms t that by (cases p) (auto simp: timer_inv_defs Timer_Destroy_self_def with_timer_def Let_def)
  have "p = D_begun \<Longrightarrow> callers s d = D_begun" using assms by (simp add: timer_inv_at_def)
  then show "timer_inv_at d p (s\<lparr>worker := W_check\<rparr>)" if "permitted E_callback_return s"
    using assms t that by (cases p) (auto simp: timer_inv_defs permitted_def dest!: spec [of _ d])
qed

lemma Timer_Create_assign_keeps:
  assumes "timer_inv_at d p s"
  shows "keeps d p (Timer_Create_assign s)"
proof (cases "tm s")
  case (Some t)
  then show ?thesis using assms by (cases p) (auto simp: timer_inv_defs Timer_Create_assign_def with_timer_def)
qed (use assms in \<open>auto simp: timer_inv_defs Timer_Create_assign_def\<close>)

lemma caller_step:
  assumes "timer_inv_at d p s"
  shows "Timer_Destroy d s \<noteq> Fault \<and> (\<forall>s'. Timer_Destroy d s = Next s' \<longrightarrow> (\<exists>q. timer_inv_at d q s'))"
proof (cases "tm s")
  case None
  then show ?thesis using assms by (auto simp: timer_inv_defs Timer_Destroy_def)
next
  case (Some t)
  have c: "callers s = sole d p" using assms by (simp add: timer_inv_at_def)
  show ?thesis
  proof (cases p)
    case D_idle
    then show ?thesis using c by (simp add: Timer_Destroy_def)
  next
    case D_begun
    then show ?thesis using assms Some c
      by (auto simp: timer_inv_defs Timer_Destroy_def Timer_Destroy_enter_def with_timer_def Let_def intro!: exI [of _ D_join])
  next
    case D_join
    then show ?thesis using assms Some c
      by (auto simp: timer_inv_defs Timer_Destroy_def Thread_Join_call_def intro!: exI [of _ D_joining])
  next
    case D_joining
    then show ?thesis using assms Some c
      by (auto simp: timer_inv_defs Timer_Destroy_def Thread_Join_return_def intro!: exI [of _ "D_final True"])
  next
    case (D_final th)
    then show ?thesis using assms Some c
      by (auto simp: timer_inv_defs Timer_Destroy_def Timer_Destroy_finish_def drop_waiter_def with_timer_def Let_def
          intro!: exI [of _ "D_release True"])
  next
    case (D_release th)
    then show ?thesis using assms Some c
      by (auto simp: timer_inv_defs Timer_Destroy_def Timer_Destroy_release_def Thread_unref_def and_then_def with_timer_def
          intro!: exI [of _ D_done])
  qed (use assms Some in \<open>simp add: timer_inv_at_def\<close>)
qed

lemma begin_step:
  assumes "timer_inv_at d p s" and "permitted (E_destroy e) s" and "timer_act (E_destroy e) s = Next s'"
  shows "timer_inv_at e D_begun s'"
proof -
  obtain t where t: "tm s = Some t" "created s" "bDestroyDeferred t \<longrightarrow> worker s = W_callback" and c: "callers s = (\<lambda>e. D_idle)"
    using assms(2) by (auto simp: permitted_def split: option.splits)
  have "p = D_idle" using assms(1) c by (metis sole_simps(1) timer_inv_at_def)
  then show ?thesis using assms(1,3) t c by (auto simp: timer_inv_defs timer_act_def sole_def)
qed

lemma timer_act_inv:
  assumes "timer_inv s" and "permitted e s"
  shows "timer_act e s \<noteq> Fault \<and> (\<forall>s'. timer_act e s = Next s' \<longrightarrow> timer_inv s')"
proof -
  obtain d p where i: "timer_inv_at d p s" using assms(1) by (auto simp: timer_inv_def)
  have c: "callers s = sole d p" using i by (simp add: timer_inv_at_def)
  show ?thesis
  proof (cases e)
    case (E_caller d')
    show ?thesis
    proof (cases "d' = d")
      case True
      then show ?thesis using caller_step [OF i] E_caller by (auto simp: timer_act_def timer_inv_def)
    qed (use E_caller c in \<open>simp add: timer_act_def Timer_Destroy_def\<close>)
  next
    case (E_destroy d')
    then have "timer_act e s \<noteq> Fault" by (simp add: timer_act_def)
    moreover have "timer_inv s'" if "timer_act e s = Next s'" for s'
      using begin_step [OF i, of d' s'] E_destroy assms(2) that unfolding timer_inv_def by blast
    ultimately show ?thesis by blast
  next
    case E_worker
    then show ?thesis using keepsD [OF Timer_Main_keeps [OF i]] by (simp add: timer_act_def)
  next
    case E_created
    then show ?thesis using keepsD [OF Timer_Create_assign_keeps [OF i]] by (simp add: timer_act_def)
  next
    case E_callback_destroy
    then show ?thesis using keepsD [OF callback_keeps(1) [OF i]] assms(2) by (simp add: timer_act_def permitted_def)
  next
    case E_callback_return
    then show ?thesis using callback_keeps(2) [OF i] assms(2) unfolding timer_inv_def timer_act_def by auto
  qed
qed

lemma timer_start_inv:
  assumes "Timer_Create alloc n h = Some t"
  shows "timer_inv (timer_start t)"
proof -
  have "t = \<lparr>t_thread = True, interval = n, bStopRequested = False, bDestroyDeferred = False, bCleanupDone = False, destroyWaiters = 0\<rparr>"
    using assms by (simp add: Timer_Create_def split: if_splits)
  then have "timer_inv_at 0 D_idle (timer_start t)" by (auto simp: timer_inv_defs timer_start_def sole_def)
  then show ?thesis by (auto simp: timer_inv_def)
qed

lemma timer_reach_inv:
  assumes "timer_reach t s" and "Timer_Create alloc n h = Some t"
  shows "timer_inv s"
  using assms(1) by (induction rule: timer_reach.induct) (use timer_start_inv [OF assms(2)] timer_act_inv in blast)+

section \<open>Shutdown comes to an end\<close>




text \<open>How many steps a thread has left at most once the timer is stopped.\<close>
fun worker_left :: "worker_pc \<Rightarrow> nat" where
  "worker_left W_callback = 5"
| "worker_left W_check = 4"
| "worker_left W_final = 3"
| "worker_left W_release = 2"
| "worker_left (W_poll r) = 2"
| "worker_left W_exit = 1"
| "worker_left W_done = 0"



lemma worker_left_zero: "worker_left w = 0 \<longleftrightarrow> w = W_done"
  by (cases w) auto







section \<open>The interval\<close>

lemma poll_loop:
  assumes "tm s = Some t" and "\<not> bStopRequested t" and "worker s = W_poll (of_nat (100 * k))" and "100 * k < 2 ^ 64"
  shows "timer_run (replicate k E_worker) s = Next (s\<lparr>worker := W_poll 0, slept := slept s + 100 * k\<rparr>)"
  using assms
proof (induction k arbitrary: s)
  case 0
  then show ?case by simp
next
  case (Suc k)
  have u: "unat (of_nat (100 * Suc k) :: u64) = 100 * Suc k"
    using Suc.prems(4) by (simp only: unsigned_of_nat take_bit_eq_mod) simp
  then have pos: "(of_nat (100 * Suc k) :: u64) > 0" by (simp only: word_less_nat_alt) simp
  have p: "poll_step (of_nat (100 * Suc k)) = 100"
    using u unfolding poll_step_def word_less_nat_alt by (cases k) simp_all
  have d: "(of_nat (100 * Suc k) :: u64) - 100 = of_nat (100 * k)" by simp
  let ?s = "s\<lparr>worker := W_poll (of_nat (100 * k)), slept := slept s + 100\<rparr>"
  have "timer_act E_worker s = Next ?s"
    using Suc.prems(1-3) pos unfolding timer_act_def Timer_Main_def with_timer_def Timer_ShouldStop_def
    by (simp only: timer_event.case worker_pc.case option.case if_False if_True p d) simp
  moreover have "timer_run (replicate k E_worker) ?s = Next (?s\<lparr>worker := W_poll 0, slept := slept ?s + 100 * k\<rparr>)"
    by (rule Suc.IH) (use Suc.prems in simp_all)
  ultimately show ?case by simp
qed

lemma timer_run_append:
  "timer_run (as @ bs) s = (case timer_run as s of Next s' \<Rightarrow> timer_run bs s' | Disabled \<Rightarrow> Disabled | Fault \<Rightarrow> Fault)"
  by (induction as arbitrary: s) (auto split: outcome.splits)


text \<open>One round of a worker that is not stopped.\<close>
lemma worker_round:
  assumes "tm s = Some t" and "\<not> bStopRequested t" and "worker s = W_check"
  shows "timer_run (replicate (10 * unat (interval t) + 2) E_worker) s =
      Next (s\<lparr>worker := W_callback, slept := slept s + 1000 * unat (interval t), fired := fired s + 1\<rparr>)"
proof -
  let ?k = "10 * unat (interval t)"
  have b: "100 * ?k < 2 ^ 64" using unat_less_32 [of "interval t"] by simp
  have w: "ucast (interval t) * 1000 = (of_nat (100 * ?k) :: u64)" by simp
  let ?s1 = "s\<lparr>worker := W_poll (of_nat (100 * ?k))\<rparr>"
  have 1: "timer_run [E_worker] s = Next ?s1"
    using assms by (simp add: timer_act_def Timer_Main_def with_timer_def Timer_ShouldStop_def)
  let ?s2 = "?s1\<lparr>worker := W_poll 0, slept := slept ?s1 + 100 * ?k\<rparr>"
  have 2: "timer_run (replicate ?k E_worker) ?s1 = Next ?s2"
    by (rule poll_loop) (use assms b in simp_all)
  have 3: "timer_run [E_worker] ?s2 = Next (?s2\<lparr>worker := W_callback, fired := fired ?s2 + 1\<rparr>)"
    using assms by (simp add: timer_act_def Timer_Main_def with_timer_def Timer_ShouldStop_def)
  have "replicate (?k + 2) E_worker = [E_worker] @ replicate ?k E_worker @ [E_worker]"
    by (simp add: numeral_2_eq_2 replicate_append_same)
  then show "timer_run (replicate (?k + 2) E_worker) s =
      Next (s\<lparr>worker := W_callback, slept := slept s + 1000 * unat (interval t), fired := fired s + 1\<rparr>)"
    by (simp only: timer_run_append 1 2 3 outcome.case) simp
qed

lemma worker_run_reach: "timer_reach t s \<Longrightarrow> timer_run (replicate k E_worker) s = Next s' \<Longrightarrow> timer_reach t s'"
proof (induction k arbitrary: s)
  case (Suc k)
  then obtain s1 where s1: "timer_act E_worker s = Next s1" "timer_run (replicate k E_worker) s1 = Next s'" by (auto split: outcome.splits)
  have "timer_reach t s1" by (rule timer_reach.step [OF Suc.prems(1) _ s1(1)]) (simp add: permitted_def)
  from Suc.IH [OF this s1(2)] show ?case .
qed simp

section \<open>A timer\<close>

text \<open>A timer of one second, as it is created, and its system after a first call of \<open>Timer_Destroy\<close> has entered.\<close>
definition t_1 :: Timer where
  "t_1 = \<lparr>t_thread = True, interval = 1, bStopRequested = False, bDestroyDeferred = False,
          bCleanupDone = False, destroyWaiters = 0\<rparr>"

definition s_stop :: timer_sys where
  "s_stop = (timer_start t_1)\<lparr>tm := Some (t_1\<lparr>bStopRequested := True, destroyWaiters := 1\<rparr>), created := True,
     callers := (\<lambda>d. D_idle)(0 := D_join)\<rparr>"

lemma timer_1: "Timer_Create (\<lambda>site. True) 1 True = Some t_1"
  by (simp add: Timer_Create_def t_1_def)

definition s_made :: timer_sys where
  "s_made = (timer_start t_1)\<lparr>tm := Some t_1, created := True\<rparr>"

lemma s_made_reach: "timer_reach t_1 s_made"
  by (rule timer_reach.step [OF timer_reach.start, of E_created])
    (simp_all add: permitted_def timer_start_def t_1_def s_made_def timer_act_def Timer_Create_assign_def with_timer_def)

definition s_callback :: timer_sys where
  "s_callback = s_made\<lparr>worker := W_callback, slept := 1000, fired := 1\<rparr>"

lemma s_callback_reach: "timer_reach t_1 s_callback"
proof (rule worker_run_reach [OF s_made_reach])
  show "timer_run (replicate 12 E_worker) s_made = Next s_callback"
    using worker_round [of s_made t_1] by (simp add: s_made_def s_callback_def timer_start_def t_1_def)
qed

lemma s_stop_reach: "timer_reach t_1 s_stop"
proof -
  have "timer_reach t_1 (s_made\<lparr>callers := (\<lambda>d. D_idle)(0 := D_begun)\<rparr>)"
    by (rule timer_reach.step [OF s_made_reach, of "E_destroy 0"])
      (simp_all add: permitted_def s_made_def timer_start_def t_1_def timer_act_def)
  then show ?thesis
    by (rule timer_reach.step [of _ _ "E_caller 0"])
      (simp_all add: permitted_def s_made_def timer_start_def t_1_def timer_act_def s_stop_def Timer_Destroy_def Timer_Destroy_enter_def with_timer_def)
qed

lemma s_stop_final: "timer_reach t_1 (s_stop\<lparr>worker := W_final\<rparr>)"
proof (rule timer_reach.step [OF s_stop_reach])
  show "permitted E_worker s_stop" by (simp add: permitted_def)
  show "timer_act E_worker s_stop = Next (s_stop\<lparr>worker := W_final\<rparr>)"
    by (simp add: timer_act_def Timer_Main_def with_timer_def timer_start_def s_stop_def t_1_def Timer_ShouldStop_def)
qed

section \<open>Properties\<close>

text \<open>
  C4: The shutdown of a timer is memory safe under the conditions of its use. Let at most one thread other
  than the worker destroy the timer, after it was created; let a callback that has destroyed its own timer
  not return while a call of another thread has begun but not taken the mutex, and let no call begin after
  it has returned. Then, whatever the order of the steps of the creator, of the worker, of its callback and
  of the caller, no step uses the timer, its mutex or the handle of its thread after they are released,
  nothing is released twice, and the thread is joined at most once.
\<close>
theorem Timer_safe:
  assumes "Timer_Create alloc n h = Some t" and "timer_reach t s" and "permitted e s"
  shows "timer_act e s \<noteq> Fault"
  using timer_act_inv [OF timer_reach_inv [OF assms(2,1)] assms(3)] by blast

theorem Timer_safe_witness:
  "timer_act (E_caller 0) (s_stop\<lparr>worker := W_final\<rparr>) \<noteq> Fault"
  using Timer_safe [OF timer_1 s_stop_final] by (simp add: permitted_def)



text \<open>Concurrent destruction is undefined in spite of the counter of waiting callers. When two threads destroy a timer, both of
  them before anything is released, both pass the first section and the second joins a thread that is being
  joined. And when the callback destroys its own timer and returns while a call of another thread has begun
  but not taken the mutex, the worker releases the timer and that call locks a mutex that is gone.
\<close>
theorem Timer_Destroy_concurrent_undefined:
  assumes "Timer_Create alloc n h = Some t"
  shows "timer_run [E_created, E_destroy 0, E_destroy 1, E_caller 0, E_caller 1, E_caller 0, E_caller 1] (timer_start t) = Fault
    \<and> (timer_reach t s \<and> created s \<and> worker s = W_callback \<and> callers s = (\<lambda>d. D_idle) \<longrightarrow>
        timer_run [E_callback_destroy, E_destroy 0, E_callback_return, E_worker, E_worker, E_worker, E_caller 0] s = Fault)"
proof (intro conjI impI)
  have "\<not> bCleanupDone t" using assms by (auto simp: Timer_Create_def split: if_splits)
  then show "timer_run [E_created, E_destroy 0, E_destroy 1, E_caller 0, E_caller 1, E_caller 0, E_caller 1] (timer_start t) = Fault"
    by (simp add: timer_start_def timer_act_def Timer_Create_assign_def Timer_Destroy_def Timer_Destroy_enter_def Thread_Join_call_def
        with_timer_def Let_def)
next
  assume a: "timer_reach t s \<and> created s \<and> worker s = W_callback \<and> callers s = (\<lambda>d. D_idle)"
  then obtain d p where i: "timer_inv_at d p s" using timer_reach_inv [OF _ assms, of s] by (auto simp: timer_inv_def)
  then have p: "p = D_idle" using a by (metis sole_simps(1) timer_inv_at_def)
  obtain v where v: "tm s = Some v" "t_thread v" "destroyWaiters v = 0" "\<not> bCleanupDone v" "th_refs s = 2"
    using i a p by (cases "tm s") (auto simp: timer_inv_defs)
  then show "timer_run [E_callback_destroy, E_destroy 0, E_callback_return, E_worker, E_worker, E_worker, E_caller 0] s = Fault"
    using a by (simp add: timer_act_def Timer_Destroy_self_def Timer_Main_def Timer_ShouldStop_def Timer_Destroy_def Timer_Destroy_enter_def
        Thread_unref_def and_then_def with_timer_def Let_def)
qed

theorem Timer_Destroy_concurrent_undefined_witness:
  "timer_run [E_created, E_destroy 0, E_destroy 1, E_caller 0, E_caller 1, E_caller 0, E_caller 1] (timer_start t_1) = Fault
    \<and> timer_run [E_callback_destroy, E_destroy 0, E_callback_return, E_worker, E_worker, E_worker, E_caller 0] s_callback = Fault"
proof -
  have "created s_callback \<and> worker s_callback = W_callback \<and> callers s_callback = (\<lambda>d. D_idle)"
    by (simp add: s_callback_def s_made_def timer_start_def)
  then show ?thesis using Timer_Destroy_concurrent_undefined [OF timer_1, of s_callback] s_callback_reach by blast
qed

text \<open>
  C36: The function of a timer is called at its interval: a worker that starts a round and is not stopped
  reaches the call after sleeping exactly the interval, in slices of at most a tenth of a second between
  which it looks for a request to stop; the product of the interval and a thousand does not overflow.
\<close>
theorem Timer_period:
  assumes "tm s = Some t" and "\<not> bStopRequested t" and "worker s = W_check"
  shows "timer_run (replicate (10 * unat (interval t) + 2) E_worker) s =
      Next (s\<lparr>worker := W_callback, slept := slept s + 1000 * unat (interval t), fired := fired s + 1\<rparr>)
    \<and> unat (poll_step r) \<le> 100"
proof
  show "timer_run (replicate (10 * unat (interval t) + 2) E_worker) s =
      Next (s\<lparr>worker := W_callback, slept := slept s + 1000 * unat (interval t), fired := fired s + 1\<rparr>)"
    by (rule worker_round [OF assms])
  show "unat (poll_step r) \<le> 100" by (simp add: poll_step_def word_less_nat_alt)
qed

theorem Timer_period_witness:
  "timer_run (replicate 12 E_worker) (timer_start t_1) =
     Next ((timer_start t_1)\<lparr>worker := W_callback, slept := 1000, fired := 1\<rparr>)"
  using Timer_period [of "timer_start t_1" "t_1\<lparr>t_thread := False\<rparr>" 0] by (simp add: timer_start_def t_1_def)

end
