(* ===== verification/Transports.thy ===== *)
theory Transports
  imports Linked_List Runtime_Config
begin

text \<open>
  The table of transports of \<open>src/transfer/core.c\<close> and the descriptors that \<open>file.c\<close>, \<open>ssh.c\<close> and
  \<open>http.c\<close> register in it. The two function pointers of a descriptor are the name of the file whose
  functions they point to. The initialisation of a plug-in is a parameter.
\<close>

section \<open>Data\<close>

datatype transport = File_Transport | SSH_Transport | HTTP_Transport | Plugin_Transport nat

text \<open>\<open>struct TransportDescriptor\<close>\<close>
record TransportDescriptor =
  td_id :: byte
  td_name :: string
  td_description :: string
  td_store :: transport
  td_fetch :: transport

type_synonym transport_list = "(TransportDescriptor, byte, unit) List_t"

abbreviation (input) "TRANSFER_MODE_FILE \<equiv> (0 :: byte)"
abbreviation (input) "TRANSFER_MODE_SSH \<equiv> (1 :: byte)"
abbreviation (input) "TRANSFER_MODE_HTTP \<equiv> (2 :: byte)"
abbreviation (input) "TRANSFER_MODE_HTTPS \<equiv> (3 :: byte)"

text \<open>\<open>enum TransferStatus\<close>\<close>
datatype TransferStatus = TRANSFER_OK | TRANSFER_FAIL_DISPATCHER | TRANSFER_FAIL_LOCAL

definition file_descriptor :: TransportDescriptor where
  "file_descriptor = \<lparr>td_id = TRANSFER_MODE_FILE, td_name = ''File'',
     td_description = ''Transfer file via shared file system'', td_store = File_Transport, td_fetch = File_Transport\<rparr>"

definition ssh_descriptor :: TransportDescriptor where
  "ssh_descriptor = \<lparr>td_id = TRANSFER_MODE_SSH, td_name = ''SSH'',
     td_description = ''Transfer file via SSH (sftp)'', td_store = SSH_Transport, td_fetch = SSH_Transport\<rparr>"

definition descriptorHttp :: TransportDescriptor where
  "descriptorHttp = \<lparr>td_id = TRANSFER_MODE_HTTP, td_name = ''HTTP'',
     td_description = ''Transfer file via HTTP'', td_store = HTTP_Transport, td_fetch = HTTP_Transport\<rparr>"

definition descriptorHttps :: TransportDescriptor where
  "descriptorHttps = \<lparr>td_id = TRANSFER_MODE_HTTPS, td_name = ''HTTPS'',
     td_description = ''Transfer file via HTTPS'', td_store = HTTP_Transport, td_fetch = HTTP_Transport\<rparr>"

section \<open>The table\<close>

definition Transport_Cmp :: "unit \<Rightarrow> TransportDescriptor \<Rightarrow> TransportDescriptor \<Rightarrow> int" where
  "Transport_Cmp s a b = (if a = b then 0 else uint (td_id a) - uint (td_id b))"

definition Transport_KeyCmp :: "unit \<Rightarrow> TransportDescriptor \<Rightarrow> byte \<Rightarrow> int" where
  "Transport_KeyCmp s a key = uint (td_id a) - uint key"

definition Transport_Register ::
  "(addr \<Rightarrow> bool) \<Rightarrow> transport_list option \<Rightarrow> TransportDescriptor \<Rightarrow> (bool \<times> transport_list option) option" where
  "Transport_Register mem sg_transportList desc = List_Push mem sg_transportList desc"

definition Transport_IsSupported :: "transport_list option \<Rightarrow> byte \<Rightarrow> bool option" where
  "Transport_IsSupported sg_transportList prot = do {
     (td, _, _) \<leftarrow> List_Find sg_transportList prot ();
     Some (td \<noteq> None) }"

section \<open>Initialisation\<close>

definition File_Init :: "(addr \<Rightarrow> bool) \<Rightarrow> transport_list option \<Rightarrow> (bool \<times> transport_list option) option" where
  "File_Init mem l = Transport_Register mem l file_descriptor"

text \<open>\<open>sessions\<close> is whether the list of sessions can be created.\<close>
definition SSH_Init :: "(addr \<Rightarrow> bool) \<Rightarrow> bool \<Rightarrow> transport_list option \<Rightarrow> (bool \<times> transport_list option) option" where
  "SSH_Init mem sessions l = (if \<not> sessions then Some (False, l) else Transport_Register mem l ssh_descriptor)"

text \<open>The second result is whether storing is switched off by \<open>RZB_SKIP_HTTP_STORE\<close>.\<close>
definition HTTP_Init ::
  "(addr \<Rightarrow> bool) \<Rightarrow> string option \<Rightarrow> bool \<Rightarrow> transport_list option \<Rightarrow> (bool \<times> bool \<times> transport_list option) option" where
  "HTTP_Init mem skip sg_bSkipStore l = do {
     let skipStore = (case skip of None \<Rightarrow> sg_bSkipStore
                      | Some v \<Rightarrow> if v = ''1'' \<or> strcasecmp_eq v ''true'' then True else sg_bSkipStore);
     (ok1, l1) \<leftarrow> Transport_Register mem l descriptorHttp;
     (if \<not> ok1 then Some (False, skipStore, l1)
      else do {
        (ok2, l2) \<leftarrow> Transport_Register mem l1 descriptorHttps;
        Some (ok2, skipStore, l2) }) }"

text \<open>
  The surroundings of \<open>Transfer_Init\<close>: the allocations by site, node memory, the environment, and the
  plug-in: whether it is opened, whether its function is found, and what the function does to the table.
\<close>
record transfer_env =
  x_alloc :: "string \<Rightarrow> bool"
  x_mem :: "addr \<Rightarrow> bool"
  x_skip :: "string option"
  x_dlopen :: "string \<Rightarrow> bool"
  x_dlsym :: bool
  x_plugin :: "transport_list option \<Rightarrow> bool \<times> transport_list option"
  x_so_version :: string
  x_lib_dir :: string

text \<open>The file of the plug-in of a mode.\<close>
definition plugin_path :: "transfer_env \<Rightarrow> string \<Rightarrow> string" where
  "plugin_path X md = x_lib_dir X @ ''/razorback_transfer_'' @ md @ ''.so.''
     @ map (\<lambda>c. if c = CHR '':'' then CHR ''.'' else c) (x_so_version X)"

definition load_plugin :: "transfer_env \<Rightarrow> string \<Rightarrow> transport_list option \<Rightarrow> bool \<times> transport_list option" where
  "load_plugin X md l =
     (if \<not> x_alloc X ''Transfer_Init.version'' then (False, l)
      else if \<not> x_alloc X ''Transfer_Init.path'' then (False, l)
      else if \<not> x_dlopen X (plugin_path X md) then (False, l)
      else if \<not> x_dlsym X then (False, l)
      else x_plugin X l)"

text \<open>The result is whether it succeeded, the table, whether storing over HTTP is off, and the mode.\<close>
definition Transfer_Init ::
  "transfer_env \<Rightarrow> conf_var conf_store \<Rightarrow> (bool \<times> transport_list option \<times> bool \<times> bool) option" where
  "Transfer_Init X conf =
     (case Config_getTransferMode conf of
        None \<Rightarrow> Some (False, None, False, True)
      | Some md \<Rightarrow>
          if md = '''' then Some (False, None, False, True)
          else
            (case List_Create (x_alloc X ''List_Create'') (x_alloc X ''List_Create.lock'') True LIST_MODE_GENERIC
                (Some Transport_Cmp) (Some Transport_KeyCmp) None None None None of
               None \<Rightarrow> Some (False, None, False, True)
             | Some l \<Rightarrow> do {
                 (ok1, l1) \<leftarrow> File_Init (x_mem X) (Some l);
                 (if \<not> ok1 then Some (False, l1, False, True)
                  else do {
                    (ok2, l2) \<leftarrow> SSH_Init (x_mem X) (x_alloc X ''SSH_Init'') l1;
                    (if \<not> ok2 then Some (False, l2, False, True)
                     else do {
                       (ok3, skipStore, l3) \<leftarrow> HTTP_Init (x_mem X) (x_skip X) False l2;
                       (if \<not> ok3 then Some (False, l3, skipStore, True)
                        else if md = ''traditional'' then Some (True, l3, skipStore, True)
                        else (case load_plugin X md l3 of (ok4, l4) \<Rightarrow> Some (ok4, l4, skipStore, False))) }) }) }))"

end
