(* ===== verification/Connected_Entity.thy ===== *)
theory Connected_Entity
  imports Messages_CnC Transports Timers
begin

text \<open>
  The nuggets that are known to be alive, \<open>src/connected_entity.c\<close>: a list of entities that hello
  messages create and refresh, that a timer prunes, and from which a dispatcher is selected.

  An entity is shared between the list and its users by its address, so the items of the list are
  addresses and the entities live in a store, which is the state of the list's callbacks. The store also
  records what was released and the calls of the prune listeners. The callbacks of a list that have no
  way to fail treat an address without an entity as not equal, or set the fault flag; the invariant
  shows that neither happens.
\<close>

section \<open>Data\<close>

text \<open>\<open>struct DispatcherEntity\<close>\<close>
record DispatcherEntity =
  priority :: byte
  flags :: u32
  addressList :: "string_list option"
  protocol :: byte
  port :: "16 word"
  usable :: bool

text \<open>\<open>struct ConnectedEntity\<close>\<close>
record ConnectedEntity =
  uuidNuggetId :: uuid
  uuidNuggetType :: uuid
  uuidApplicationType :: uuid
  tTimeOfLastHello :: int
  locality :: byte
  dispatcher :: "DispatcherEntity option"

text \<open>The entities by address, the next address, the entities released, the calls of listeners, the fault flag.\<close>
record entity_store =
  ents :: "addr \<Rightarrow> ConnectedEntity option"
  ents_brk :: addr
  ents_freed :: "addr list"
  hook_calls :: "(nat \<times> addr \<times> u32) list"
  ents_fault :: bool

text \<open>\<open>struct ConnectedEntityKey\<close>\<close>
record ConnectedEntityKey =
  searchKeys :: u32
  key_nuggetId :: "uuid option"
  key_appType :: "uuid option"
  key_nuggetType :: "uuid option"
  key_locality :: u32

abbreviation (input) "SEARCH_KEY_NUGGET_ID \<equiv> (1 :: u32)"
abbreviation (input) "SEARCH_KEY_APP_TYPE \<equiv> (2 :: u32)"
abbreviation (input) "SEARCH_KEY_NUGGET_TYPE \<equiv> (4 :: u32)"
abbreviation (input) "SEARCH_KEY_DD \<equiv> (8 :: u32)"
abbreviation (input) "SEARCH_KEY_LOCALITY \<equiv> (16 :: u32)"
abbreviation (input) "SEARCH_KEY_USABLE \<equiv> (32 :: u32)"

abbreviation (input) "DISP_HELLO_FLAG_LS \<equiv> (2 :: u32)"
abbreviation (input) "DISP_HELLO_FLAG_DD \<equiv> (4 :: u32)"

text \<open>\<open>struct ConnectedEntityHook\<close>; a listener is a number.\<close>
record ConnectedEntityHook =
  entityRemoved :: nat

type_synonym entity_list = "(addr, ConnectedEntityKey, entity_store) List_t"
type_synonym hook_list = "(ConnectedEntityHook, unit, entity_store) List_t"

text \<open>The static variables, and the store.\<close>
record entity_module =
  sg_pEntityList :: "entity_list option"
  sg_pHookList :: "hook_list option"
  timer :: "Timer option"
  es :: entity_store

text \<open>A key that searches for nothing.\<close>
definition no_key :: ConnectedEntityKey where
  "no_key = \<lparr>searchKeys = 0, key_nuggetId = None, key_appType = None, key_nuggetType = None, key_locality = 0\<rparr>"

section \<open>Callbacks of the lists\<close>

definition has_flag :: "u32 \<Rightarrow> u32 \<Rightarrow> bool" where
  "has_flag v f \<longleftrightarrow> v AND f \<noteq> 0"

text \<open>
  One criterion: a match makes the result 0, a mismatch makes a result 0 -1 again, so that the later
  criteria decide.
\<close>
definition refine_match :: "bool \<Rightarrow> int \<Rightarrow> int" where
  "refine_match m ret = (if m then 0 else if ret = 0 then - 1 else ret)"

definition ConnectedEntity_KeyCmp :: "(uuid \<Rightarrow> uuid \<Rightarrow> int) \<Rightarrow> entity_store \<Rightarrow> addr \<Rightarrow> ConnectedEntityKey \<Rightarrow> int" where
  "ConnectedEntity_KeyCmp uc s a key =
     (case ents s a of
        None \<Rightarrow> - 1
      | Some e \<Rightarrow>
          if has_flag (searchKeys key) SEARCH_KEY_NUGGET_ID \<and> key_nuggetId key = None then - 1
          else
            (let ret1 = (if has_flag (searchKeys key) SEARCH_KEY_NUGGET_ID
                         then (if uc (uuidNuggetId e) (the (key_nuggetId key)) = 0 then 0 else - 1) else - 1)
             in if has_flag (searchKeys key) SEARCH_KEY_APP_TYPE \<and> key_appType key = None then - 1
                else
                  (let ret2 = (if has_flag (searchKeys key) SEARCH_KEY_APP_TYPE
                               then refine_match (uc (uuidApplicationType e) (the (key_appType key)) = 0) ret1 else ret1)
                   in if has_flag (searchKeys key) SEARCH_KEY_NUGGET_TYPE \<and> key_nuggetType key = None then - 1
                      else
                        (let ret3 = (if has_flag (searchKeys key) SEARCH_KEY_NUGGET_TYPE
                                     then refine_match (uc (uuidNuggetType e) (the (key_nuggetType key)) = 0) ret2 else ret2);
                             ret4 = (if has_flag (searchKeys key) SEARCH_KEY_DD
                                     then (case dispatcher e of
                                             None \<Rightarrow> ret3
                                           | Some d \<Rightarrow> refine_match (has_flag (flags d) DISP_HELLO_FLAG_DD) ret3)
                                     else ret3);
                             ret5 = (if has_flag (searchKeys key) SEARCH_KEY_LOCALITY
                                     then refine_match (ucast (locality e) = key_locality key) ret4 else ret4)
                         in if has_flag (searchKeys key) SEARCH_KEY_USABLE
                            then (case dispatcher e of None \<Rightarrow> ret5 | Some d \<Rightarrow> refine_match (usable d) ret5)
                            else ret5))))"

definition ConnectedEntity_Cmp :: "entity_store \<Rightarrow> addr \<Rightarrow> addr \<Rightarrow> int" where
  "ConnectedEntity_Cmp s a b = (if a = b then 0 else - 1)"

definition ConnectedEntityHook_KeyCmp :: "entity_store \<Rightarrow> ConnectedEntityHook \<Rightarrow> unit \<Rightarrow> int" where
  "ConnectedEntityHook_KeyCmp s a key = - 1"

definition ConnectedEntityHook_Cmp :: "entity_store \<Rightarrow> ConnectedEntityHook \<Rightarrow> ConnectedEntityHook \<Rightarrow> int" where
  "ConnectedEntityHook_Cmp s a b = (if a = b then 0 else - 1)"

definition ConnectedEntityHook_Delete :: "ConnectedEntityHook \<Rightarrow> entity_store \<Rightarrow> entity_store" where
  "ConnectedEntityHook_Delete a s = s"

text \<open>The destruction of the addresses of a dispatcher, and of the entity.\<close>
definition ConnectedEntity_Destroy :: "addr \<Rightarrow> entity_store \<Rightarrow> entity_store" where
  "ConnectedEntity_Destroy a s =
     (case ents s a of
        None \<Rightarrow> s\<lparr>ents_fault := True\<rparr>
      | Some e \<Rightarrow>
          let ok = (case dispatcher e of
                      None \<Rightarrow> True
                    | Some d \<Rightarrow> addressList d = None \<or> List_Destroy (addressList d) [] \<noteq> None)
          in s\<lparr>ents := (ents s)(a := None), ents_freed := ents_freed s @ [a], ents_fault := ents_fault s \<or> \<not> ok\<rparr>)"

definition ConnectedEntity_Delete :: "addr \<Rightarrow> entity_store \<Rightarrow> entity_store" where
  "ConnectedEntity_Delete a s = ConnectedEntity_Destroy a s"

section \<open>Start and stop\<close>

definition ConnectedEntity_IsDispatcherType :: "'j json_env \<Rightarrow> uuid \<Rightarrow> bool option" where
  "ConnectedEntity_IsDispatcherType E t = do {
     r \<leftarrow> is_dispatcher E t;
     Some (case r of None \<Rightarrow> False | Some b \<Rightarrow> b) }"

definition entity_list :: "'j json_env \<Rightarrow> (addr \<Rightarrow> entity_store \<Rightarrow> entity_store) option \<Rightarrow> entity_list option" where
  "entity_list E ds =
     List_Create (e_alloc E ''List_Create'') (e_alloc E ''List_Create.lock'') True LIST_MODE_GENERIC
       (Some ConnectedEntity_Cmp) (Some (ConnectedEntity_KeyCmp (e_uuid_compare E))) ds None None None"

text \<open>Neither of the two lists is tested for null.\<close>
definition ConnectedEntityList_Start :: "'j json_env \<Rightarrow> conf_var conf_store \<Rightarrow> entity_module \<Rightarrow> bool \<times> entity_module" where
  "ConnectedEntityList_Start E conf M =
     (if sg_pEntityList M \<noteq> None then (False, M)
      else
        (let M1 = M\<lparr>sg_pEntityList := entity_list E (Some ConnectedEntity_Delete),
               sg_pHookList := List_Create (e_alloc E ''List_Create'') (e_alloc E ''List_Create.lock'') True LIST_MODE_GENERIC
                 (Some ConnectedEntityHook_Cmp) (Some ConnectedEntityHook_KeyCmp) (Some ConnectedEntityHook_Delete) None None None,
               timer := Timer_Create (e_alloc E) (Config_getHelloTime conf div 2) True\<rparr>
         in (timer M1 \<noteq> None, M1)))"

definition ConnectedEntityList_Stop :: "entity_module \<Rightarrow> entity_module option" where
  "ConnectedEntityList_Stop M =
     (if sg_pEntityList M = None then Some M
      else do {
        s1 \<leftarrow> List_Destroy (sg_pEntityList M) (es M);
        s2 \<leftarrow> List_Destroy (sg_pHookList M) s1;
        Some (M\<lparr>sg_pEntityList := None, sg_pHookList := None, timer := None, es := s2\<rparr>) })"

section \<open>Hello messages\<close>

text \<open>The body of a hello message.\<close>
definition hello_of :: "('ctx, 'md) msg \<Rightarrow> MessageHello option" where
  "hello_of msg = (case message msg of Some (P_Hello h) \<Rightarrow> Some h | _ \<Rightarrow> None)"

text \<open>The part of a new entity that only dispatchers have; nothing when memory is short.\<close>
definition new_dispatcher ::
  "'j json_env \<Rightarrow> transport_list option \<Rightarrow> MessageHello \<Rightarrow> DispatcherEntity option option" where
  "new_dispatcher E trl h =
     (if \<not> e_alloc E ''ConnectedEntityList_GetEntity.dispatcher'' then Some None
      else do {
        ok \<leftarrow> Transport_IsSupported trl (MessageHello.protocol h);
        (l, _, _) \<leftarrow> List_Clone (e_mem E) (e_alloc E ''List_Create'') (e_alloc E ''List_Create.lock'') True
           (MessageHello.addressList h) [];
        Some (case l of
          None \<Rightarrow> None
        | Some _ \<Rightarrow> Some \<lparr>priority = MessageHello.priority h, flags = MessageHello.flags h, addressList = l,
                         protocol = MessageHello.protocol h, port = MessageHello.port h, usable = ok\<rparr>) })"

text \<open>
  The entity of the sender, created when it is not known. \<open>junk\<close> is what the uninitialised identifiers
  of the code hold, which are used when the message does not carry its own. The result of the push is
  ignored: an entity that cannot be added is returned nevertheless.
\<close>
definition ConnectedEntityList_GetEntity ::
  "'j json_env \<Rightarrow> transport_list option \<Rightarrow> uuid \<Rightarrow> entity_module \<Rightarrow> ('ctx, 'md) msg
    \<Rightarrow> (addr option \<times> entity_module) option" where
  "ConnectedEntityList_GetEntity E trl junk M msg =
     (if sg_pEntityList M = None then Some (None, M)
      else if m_type msg \<noteq> MESSAGE_TYPE_HELLO then Some (None, M)
      else do {
        (_, source, _) \<leftarrow> Message_Get_Nuggets E msg junk junk;
        (r, l, s) \<leftarrow> List_Find (sg_pEntityList M)
           (no_key\<lparr>searchKeys := SEARCH_KEY_NUGGET_ID, key_nuggetId := Some source\<rparr>) (es M);
        (case r of
           Some a \<Rightarrow> Some (Some a, M\<lparr>sg_pEntityList := l, es := s\<rparr>)
         | None \<Rightarrow>
             if \<not> e_alloc E ''ConnectedEntityList_GetEntity'' then Some (None, M)
             else do {
               h \<leftarrow> hello_of msg;
               isD \<leftarrow> ConnectedEntity_IsDispatcherType E (MessageHello.uuidNuggetType h);
               d \<leftarrow> (if isD then new_dispatcher E trl h else Some None);
               (if isD \<and> d = None then Some (None, M)
                else do {
                  let a = ents_brk s;
                  let e = \<lparr>uuidNuggetId = source, uuidNuggetType = MessageHello.uuidNuggetType h,
                           uuidApplicationType = MessageHello.uuidApplicationType h, tTimeOfLastHello = 0,
                           locality = MessageHello.locality h, dispatcher = d\<rparr>;
                  (_, l2) \<leftarrow> List_Push (e_mem E) l a;
                  Some (Some a, M\<lparr>sg_pEntityList := l2, es := s\<lparr>ents := (ents s)(a \<mapsto> e), ents_brk := a + 1\<rparr>\<rparr>) }) }) })"

text \<open>\<open>now\<close> is what \<open>time\<close> returns.\<close>
definition ConnectedEntityList_Update ::
  "'j json_env \<Rightarrow> transport_list option \<Rightarrow> uuid \<Rightarrow> int \<Rightarrow> entity_module \<Rightarrow> ('ctx, 'md) msg
    \<Rightarrow> (bool \<times> entity_module) option" where
  "ConnectedEntityList_Update E trl junk now M msg =
     (if sg_pEntityList M = None then Some (False, M)
      else if m_type msg \<noteq> MESSAGE_TYPE_HELLO then Some (False, M)
      else do {
        (r, M1) \<leftarrow> ConnectedEntityList_GetEntity E trl junk M msg;
        (case r of
           None \<Rightarrow> Some (False, M1)
         | Some a \<Rightarrow> do {
             e \<leftarrow> ents (es M1) a;
             let e1 = e\<lparr>tTimeOfLastHello := now\<rparr>;
             isD \<leftarrow> ConnectedEntity_IsDispatcherType E (uuidNuggetType e);
             e2 \<leftarrow> (if isD then do {
                      h \<leftarrow> hello_of msg;
                      d \<leftarrow> dispatcher e1;
                      Some (e1\<lparr>dispatcher := Some (d\<lparr>flags := MessageHello.flags h, priority := MessageHello.priority h\<rparr>)\<rparr>) }
                    else Some e1);
             Some (True, M1\<lparr>es := (es M1)\<lparr>ents := (ents (es M1))(a \<mapsto> e2)\<rparr>\<rparr>) }) })"

section \<open>Counts\<close>

definition ConnectedEntityList_GetCount :: "entity_module \<Rightarrow> nat" where
  "ConnectedEntityList_GetCount M = (case sg_pEntityList M of None \<Rightarrow> 0 | Some l \<Rightarrow> List_Length (Some l))"

text \<open>The user data is the counter.\<close>
definition ConnectedEntityList_CountDispatcherItems :: "'j json_env \<Rightarrow> bool \<Rightarrow> (addr, u32, entity_store) each_op" where
  "ConnectedEntityList_CountDispatcherItems E onlyUsable a count s = do {
     e \<leftarrow> ents s a;
     isD \<leftarrow> ConnectedEntity_IsDispatcherType E (uuidNuggetType e);
     Some (LIST_EACH_OK,
       (case dispatcher e of
          None \<Rightarrow> count
        | Some d \<Rightarrow> if \<not> isD \<or> onlyUsable \<and> \<not> usable d then count else count + 1), s) }"

definition ConnectedEntityList_CountDispatchers :: "'j json_env \<Rightarrow> entity_module \<Rightarrow> u32 option" where
  "ConnectedEntityList_CountDispatchers E M =
     (if sg_pEntityList M = None then Some 0
      else do {
        (_, _, count, _) \<leftarrow> List_ForEach (sg_pEntityList M) (ConnectedEntityList_CountDispatcherItems E False) 0 (es M);
        Some count })"

definition ConnectedEntityList_CountUsableDispatchers :: "'j json_env \<Rightarrow> entity_module \<Rightarrow> u32 option" where
  "ConnectedEntityList_CountUsableDispatchers E M =
     (if sg_pEntityList M = None then Some 0
      else do {
        (_, _, count, _) \<leftarrow> List_ForEach (sg_pEntityList M) (ConnectedEntityList_CountDispatcherItems E True) 0 (es M);
        Some count })"

text \<open>The entities of the type of the given one; the user data is the counter.\<close>
definition ConnectedEntityList_CountNuggets :: "'j json_env \<Rightarrow> addr \<Rightarrow> (addr, u32, entity_store) each_op" where
  "ConnectedEntityList_CountNuggets E entity a count s = do {
     c \<leftarrow> ents s entity;
     e \<leftarrow> ents s a;
     Some (LIST_EACH_OK,
       (if e_uuid_compare E (uuidNuggetType c) (uuidNuggetType e) = 0
           \<and> e_uuid_compare E (uuidApplicationType c) (uuidApplicationType e) = 0 then count + 1 else count), s) }"

section \<open>Pruning\<close>

text \<open>The call of a listener with the entity and the count without it.\<close>
definition ConnectedEntityList_HookWrapper :: "addr \<Rightarrow> (ConnectedEntityHook, u32, entity_store) each_op" where
  "ConnectedEntityList_HookWrapper entity hook count s =
     Some (LIST_EACH_OK, count, s\<lparr>hook_calls := hook_calls s @ [(entityRemoved hook, entity, count - 1)]\<rparr>)"

text \<open>
  The two inner iterations run over the lists as they are when the outer one starts: entities that are
  already marked for removal are still in the list. \<open>time\<close> is called for each entity: \<open>now\<close> gives what it
  returns for the entity of a nugget.
\<close>
definition ConnectedEntityList_PruneEntity ::
  "'j json_env \<Rightarrow> conf_var conf_store \<Rightarrow> (uuid \<Rightarrow> int) \<Rightarrow> entity_module \<Rightarrow> (addr, unit, entity_store) each_op" where
  "ConnectedEntityList_PruneEntity E conf now M a u s = do {
     e \<leftarrow> ents s a;
     (if tTimeOfLastHello e > 0 \<and> now (uuidNuggetId e) - tTimeOfLastHello e > uint (Config_getDeadTime conf) then do {
        (_, _, count, s1) \<leftarrow> List_ForEach (sg_pEntityList M) (ConnectedEntityList_CountNuggets E a) 0 s;
        (_, _, _, s2) \<leftarrow> List_ForEach (sg_pHookList M) (ConnectedEntityList_HookWrapper a) count s1;
        Some (LIST_EACH_REMOVE, u, s2) }
      else Some (LIST_EACH_OK, u, s)) }"

definition ConnectedEntityList_Prune ::
  "'j json_env \<Rightarrow> conf_var conf_store \<Rightarrow> (uuid \<Rightarrow> int) \<Rightarrow> entity_module \<Rightarrow> entity_module option" where
  "ConnectedEntityList_Prune E conf now M =
     (if sg_pEntityList M = None then Some M
      else do {
        (_, l, _, s) \<leftarrow> List_ForEach (sg_pEntityList M) (ConnectedEntityList_PruneEntity E conf now M) () (es M);
        Some (M\<lparr>sg_pEntityList := l, es := s\<rparr>) })"

text \<open>The result of the push is ignored.\<close>
definition ConnectedEntityList_AddPruneListener ::
  "'j json_env \<Rightarrow> entity_module \<Rightarrow> nat \<Rightarrow> (bool \<times> entity_module) option" where
  "ConnectedEntityList_AddPruneListener E M listener =
     (if sg_pHookList M = None then Some (False, M)
      else if \<not> e_alloc E ''ConnectedEntityList_AddPruneListener'' then Some (False, M)
      else do {
        (_, l) \<leftarrow> List_Push (e_mem E) (sg_pHookList M) \<lparr>entityRemoved = listener\<rparr>;
        Some (True, M\<lparr>sg_pHookList := l\<rparr>) })"

definition ConnectedEntityList_ForEach_Entity ::
  "entity_module \<Rightarrow> (addr, 'u, entity_store) each_op \<Rightarrow> 'u \<Rightarrow> (bool \<times> 'u \<times> entity_module) option" where
  "ConnectedEntityList_ForEach_Entity M f u = do {
     (_, l, u', s) \<leftarrow> List_ForEach (sg_pEntityList M) f u (es M);
     Some (True, u', M\<lparr>sg_pEntityList := l, es := s\<rparr>) }"

section \<open>Selection of dispatchers\<close>

text \<open>A copy with its own dispatcher part; an entity without one is undefined.\<close>
definition ConnectedEntity_Clone :: "'j json_env \<Rightarrow> addr \<Rightarrow> entity_store \<Rightarrow> (addr option \<times> entity_store) option" where
  "ConnectedEntity_Clone E orig s = do {
     (if \<not> e_alloc E ''ConnectedEntity_Clone'' then Some (None, s)
      else do {
        e \<leftarrow> ents s orig;
        (if \<not> e_alloc E ''ConnectedEntity_Clone.dispatcher'' then Some (None, s)
         else do {
           d \<leftarrow> dispatcher e;
           (l, _, _) \<leftarrow> List_Clone (e_mem E) (e_alloc E ''List_Create'') (e_alloc E ''List_Create.lock'') True (addressList d) [];
           Some (case l of
             None \<Rightarrow> (None, s)
           | Some _ \<Rightarrow>
               (Some (ents_brk s),
                s\<lparr>ents := (ents s)(ents_brk s \<mapsto> e\<lparr>dispatcher := Some (d\<lparr>addressList := l\<rparr>)\<rparr>), ents_brk := ents_brk s + 1\<rparr>)) }) }) }"

definition ConnectedEntityList_GetDedicatedDispatcher ::
  "'j json_env \<Rightarrow> entity_module \<Rightarrow> (addr option \<times> entity_module) option" where
  "ConnectedEntityList_GetDedicatedDispatcher E M =
     (if sg_pEntityList M = None then Some (None, M)
      else do {
        (node, _, s) \<leftarrow> List_Find (sg_pEntityList M) (no_key\<lparr>searchKeys := SEARCH_KEY_DD\<rparr>) (es M);
        (case node of
           None \<Rightarrow> Some (None, M)
         | Some a \<Rightarrow> do {
             (r, s1) \<leftarrow> ConnectedEntity_Clone E a s;
             Some (r, M\<lparr>es := s1\<rparr>) }) })"

text \<open>The user data is the list that collects the dispatchers; the result of the push is ignored.\<close>
definition ConnectedEntityList_CollectDispatchers ::
  "'j json_env \<Rightarrow> (addr, entity_list option, entity_store) each_op" where
  "ConnectedEntityList_CollectDispatchers E a dispatchers s = do {
     e \<leftarrow> ents s a;
     isD \<leftarrow> ConnectedEntity_IsDispatcherType E (uuidNuggetType e);
     (if isD then do {
        (_, l) \<leftarrow> List_Push (e_mem E) dispatchers a;
        Some (LIST_EACH_OK, l, s) }
      else Some (LIST_EACH_OK, dispatchers, s)) }"

text \<open>The search in the backup localities in order.\<close>
fun find_backup ::
  "entity_list option \<Rightarrow> ConnectedEntityKey \<Rightarrow> int list \<Rightarrow> entity_store \<Rightarrow> addr option option" where
  "find_backup dispatchers key [] s = Some None"
| "find_backup dispatchers key (i # is) s = do {
     (r, _, _) \<leftarrow> List_Find dispatchers (key\<lparr>key_locality := word_of_int i\<rparr>) s;
     (case r of Some a \<Rightarrow> Some (Some a) | None \<Rightarrow> find_backup dispatchers key is s) }"

text \<open>The localities that the loop reads; reading outside the array is undefined.\<close>
definition backup_localities :: "conf_var conf_store \<Rightarrow> int list option" where
  "backup_localities conf =
     (if Config_getLocalityBackupCount conf \<le> 0 then Some []
      else do {
        vs \<leftarrow> Config_getLocalityBackupOrder conf;
        (if nat (Config_getLocalityBackupCount conf) > length vs then None
         else Some (take (nat (Config_getLocalityBackupCount conf)) vs)) })"

text \<open>The selected entity, and which of the three searches found it.\<close>
definition select_dispatcher ::
  "conf_var conf_store \<Rightarrow> entity_list option \<Rightarrow> entity_store \<Rightarrow> (addr option \<times> string) option" where
  "select_dispatcher conf dispatchers s = do {
     let key = no_key\<lparr>key_locality := ucast (ucast (Config_getLocalityId conf) :: byte),
                      searchKeys := SEARCH_KEY_LOCALITY OR SEARCH_KEY_USABLE\<rparr>;
     (r, _, _) \<leftarrow> List_Find dispatchers key s;
     (case r of
        Some a \<Rightarrow> Some (Some a, ''local'')
      | None \<Rightarrow> do {
          is \<leftarrow> backup_localities conf;
          r2 \<leftarrow> find_backup dispatchers key is s;
          (case r2 of
             Some a \<Rightarrow> Some (Some a, ''backup'')
           | None \<Rightarrow> do {
               (r3, _, _) \<leftarrow> List_Find dispatchers (key\<lparr>searchKeys := SEARCH_KEY_USABLE\<rparr>) s;
               Some (r3, if r3 = None then ''none'' else ''fallback'') }) }) }"

definition ConnectedEntityList_GetDispatcher ::
  "'j json_env \<Rightarrow> conf_var conf_store \<Rightarrow> entity_module \<Rightarrow> (addr option \<times> string \<times> entity_module) option" where
  "ConnectedEntityList_GetDispatcher E conf M =
     (case entity_list E None of
        None \<Rightarrow> Some (None, ''none'', M)
      | Some d0 \<Rightarrow> do {
          (_, _, ds, s) \<leftarrow> List_ForEach (sg_pEntityList M) (ConnectedEntityList_CollectDispatchers E) (Some d0) (es M);
          (if List_Length ds = 0 then do {
             s1 \<leftarrow> List_Destroy ds s;
             Some (None, ''none'', M\<lparr>es := s1\<rparr>) }
           else do {
             (entity, path) \<leftarrow> select_dispatcher conf ds s;
             (r, s1) \<leftarrow> (case entity of None \<Rightarrow> Some (None, s) | Some a \<Rightarrow> ConnectedEntity_Clone E a s);
             s2 \<leftarrow> List_Destroy ds s1;
             Some (r, path, M\<lparr>es := s2\<rparr>) }) })"

definition ConnectedEntityList_CollectHighDispatcher :: "'j json_env \<Rightarrow> (addr, addr option, entity_store) each_op" where
  "ConnectedEntityList_CollectHighDispatcher E a cur s = do {
     e \<leftarrow> ents s a;
     isD \<leftarrow> ConnectedEntity_IsDispatcherType E (uuidNuggetType e);
     (if \<not> isD then Some (LIST_EACH_OK, cur, s)
      else
        (case cur of
           None \<Rightarrow> Some (LIST_EACH_OK, Some a, s)
         | Some c \<Rightarrow> do {
             ce \<leftarrow> ents s c;
             cd \<leftarrow> dispatcher ce;
             d \<leftarrow> dispatcher e;
             Some (LIST_EACH_OK, (if priority cd < priority d then Some a else cur), s) })) }"

definition ConnectedEntityList_GetDispatcher_HighestPriority ::
  "'j json_env \<Rightarrow> entity_module \<Rightarrow> (addr option \<times> entity_module) option" where
  "ConnectedEntityList_GetDispatcher_HighestPriority E M =
     (if sg_pEntityList M = None then Some (None, M)
      else do {
        (_, _, cur, s) \<leftarrow> List_ForEach (sg_pEntityList M) (ConnectedEntityList_CollectHighDispatcher E) None (es M);
        (case cur of
           None \<Rightarrow> Some (None, M)
         | Some a \<Rightarrow> do {
             (r, s1) \<leftarrow> ConnectedEntity_Clone E a s;
             Some (r, M\<lparr>es := s1\<rparr>) }) })"

text \<open>The user data is whether one was found.\<close>
definition ConnectedEntityList_CollectSlaveInLocality :: "'j json_env \<Rightarrow> byte \<Rightarrow> (addr, bool, entity_store) each_op" where
  "ConnectedEntityList_CollectSlaveInLocality E loc a found s =
     (if found then Some (LIST_EACH_OK, found, s)
      else do {
        e \<leftarrow> ents s a;
        isD \<leftarrow> ConnectedEntity_IsDispatcherType E (uuidNuggetType e);
        (if isD \<and> locality e = loc then do {
           d \<leftarrow> dispatcher e;
           Some (LIST_EACH_OK, has_flag (flags d) DISP_HELLO_FLAG_LS, s) }
         else Some (LIST_EACH_OK, found, s)) })"

definition ConnectedEntityList_SlaveInLocality :: "'j json_env \<Rightarrow> entity_module \<Rightarrow> byte \<Rightarrow> bool option" where
  "ConnectedEntityList_SlaveInLocality E M loc = do {
     (_, _, found, _) \<leftarrow> List_ForEach (sg_pEntityList M) (ConnectedEntityList_CollectSlaveInLocality E loc) False (es M);
     Some found }"

definition ConnectedEntityList_MarkDispatcherUnusable :: "entity_module \<Rightarrow> uuid \<Rightarrow> (bool \<times> entity_module) option" where
  "ConnectedEntityList_MarkDispatcherUnusable M nuggetId = do {
     (r, l, s) \<leftarrow> List_Find (sg_pEntityList M) (no_key\<lparr>searchKeys := SEARCH_KEY_NUGGET_ID, key_nuggetId := Some nuggetId\<rparr>) (es M);
     (case r of
        None \<Rightarrow> Some (False, M)
      | Some a \<Rightarrow> do {
          e \<leftarrow> ents s a;
          d \<leftarrow> dispatcher e;
          Some (True, M\<lparr>es := s\<lparr>ents := (ents s)(a \<mapsto> e\<lparr>dispatcher := Some (d\<lparr>usable := False\<rparr>)\<rparr>)\<rparr>\<rparr>) }) }"

end
