(* ===== verification/Connected_Entity_Properties.thy ===== *)
theory Connected_Entity_Properties
  imports Connected_Entity Message_Properties
begin

text \<open>
  Properties of the connected entities: hello messages and pruning refine operations on a list of
  nuggets, what the listeners are told, and which dispatcher is selected.
\<close>

section \<open>Abstraction\<close>

text \<open>The texts of a string list in order.\<close>
definition texts :: "string_list option \<Rightarrow> string list" where
  "texts l = (case List_ForEach l (\<lambda>x u s. Some (LIST_EACH_OK, u @ [x], s)) [] [] of
     None \<Rightarrow> [] | Some (_, _, u, _) \<Rightarrow> u)"

text \<open>A list of addresses as \<open>StringList_Create\<close> makes it.\<close>
definition addresses :: "string_list option \<Rightarrow> string list \<Rightarrow> bool" where
  "addresses l ts \<longleftrightarrow> (\<exists>k. l = Some k \<and> table String_KeyCmp k ts \<and> destroy k = Some String_Delete
     \<and> clone k = Some (\<lambda>x s. (String_Clone True (Some x), s)))"

lemma addresses_texts: "addresses l ts \<Longrightarrow> texts l = ts"
proof -
  assume "addresses l ts"
  then obtain k where k: "l = Some k" "table String_KeyCmp k ts" by (auto simp: addresses_def)
  have "List_ForEach (Some k) (\<lambda>x u s. Some (LIST_EACH_OK, u @ [x], s)) [] []
      = Some (True, Some k, fold (\<lambda>x u. u @ [x]) ts [], [])"
    by (rule table_fold [OF k(2)]) simp
  moreover have "fold (\<lambda>x u. u @ [x]) ts us = us @ ts" for us :: "string list" by (induction ts arbitrary: us) auto
  ultimately show ?thesis by (simp add: texts_def k(1) del: List_ForEach.simps)
qed

lemma addresses_destroy: "addresses l ts \<Longrightarrow> List_Destroy l s \<noteq> None"
  using table_destroy [of String_KeyCmp _ ts s] by (auto simp: addresses_def simp del: List_Destroy.simps)

lemma addresses_clone:
  assumes "addresses l ts" and "env_good E"
  shows "\<exists>k. List_Clone (e_mem E) (e_alloc E a) (e_alloc E b) True l [] = Some (Some k, l, []) \<and> addresses (Some k) ts"
proof -
  obtain k where k: "l = Some k" "table String_KeyCmp k ts" "destroy k = Some String_Delete"
    "clone k = Some (\<lambda>x s. (String_Clone True (Some x), s))"
    using assms(1) by (auto simp: addresses_def)
  have t: "List_rep k ts" "valid_mode (mode k)" "nodeLock k = None" "nodeUnlock k = None"
    using k(2) by (simp_all add: table_def valid_mode_def)
  have "\<exists>d. List_Clone (e_mem E) True True True (Some k) [] = Some (Some d, Some k, [])
      \<and> List_rep d (map id (if mode k = LIST_MODE_STACK then rev ts else ts)) \<and> cfg d = cfg (k\<lparr>limit := 0\<rparr>)"
    by (rule List_Clone_refines [OF t(1,2) k(4)]) (use t assms(2) in \<open>simp_all add: String_Clone_def\<close>)
  then obtain d where d: "List_Clone (e_mem E) True True True (Some k) [] = Some (Some d, Some k, [])"
    "List_rep d ts" "cfg d = cfg (k\<lparr>limit := 0\<rparr>)" using k(2) by (auto simp: table_def)
  then have "addresses (Some d) ts" using cfgD [OF d(3)] k by (auto simp: addresses_def table_def)
  then show ?thesis using d(1) k(1) assms(2) by simp
qed

text \<open>What is known of a nugget; the part of a dispatcher is its priority, flags, addresses, protocol, port and whether it is usable.\<close>
type_synonym disp_view = "byte \<times> u32 \<times> string list \<times> byte \<times> 16 word \<times> bool"

record nugget =
  n_id :: uuid
  n_type :: uuid
  n_app :: uuid
  n_seen :: int
  n_locality :: byte
  n_disp :: "disp_view option"

definition view_disp :: "DispatcherEntity \<Rightarrow> disp_view" where
  "view_disp d = (priority d, flags d, texts (addressList d), protocol d, port d, usable d)"

definition view :: "ConnectedEntity \<Rightarrow> nugget" where
  "view e = \<lparr>n_id = uuidNuggetId e, n_type = uuidNuggetType e, n_app = uuidApplicationType e,
     n_seen = tTimeOfLastHello e, n_locality = locality e, n_disp = map_option view_disp (dispatcher e)\<rparr>"

text \<open>The nuggets of a list of addresses.\<close>
definition nuggets :: "entity_store \<Rightarrow> addr list \<Rightarrow> nugget list" where
  "nuggets s as = map (\<lambda>a. view (the (ents s a))) as"

section \<open>Invariant\<close>

text \<open>The registry answers whether a nugget type is that of dispatchers.\<close>
definition types_known :: "'j json_env \<Rightarrow> (uuid \<Rightarrow> bool) \<Rightarrow> bool" where
  "types_known E isD \<longleftrightarrow> (\<forall>t. ConnectedEntity_IsDispatcherType E t = Some (isD t))"

text \<open>Exactly dispatchers have the part of a dispatcher, with a list of addresses.\<close>
definition entity_ok :: "(uuid \<Rightarrow> bool) \<Rightarrow> ConnectedEntity \<Rightarrow> bool" where
  "entity_ok isD e \<longleftrightarrow>
     (case dispatcher e of
        None \<Rightarrow> \<not> isD (uuidNuggetType e)
      | Some d \<Rightarrow> isD (uuidNuggetType e) \<and> (\<exists>ts. addresses (addressList d) ts))"

definition store_ok :: "(uuid \<Rightarrow> bool) \<Rightarrow> entity_store \<Rightarrow> addr list \<Rightarrow> bool" where
  "store_ok isD s as \<longleftrightarrow> distinct as \<and> (\<forall>a \<in> set as. \<exists>e. ents s a = Some e \<and> entity_ok isD e)
     \<and> (\<forall>a. ents s a \<noteq> None \<longrightarrow> a < ents_brk s) \<and> \<not> ents_fault s"

text \<open>The module holds the given entities and listeners.\<close>
definition module_holds :: "'j json_env \<Rightarrow> (uuid \<Rightarrow> bool) \<Rightarrow> entity_module \<Rightarrow> addr list \<Rightarrow> nat list \<Rightarrow> bool" where
  "module_holds E isD M as hs \<longleftrightarrow>
     (\<exists>l. sg_pEntityList M = Some l \<and> table (ConnectedEntity_KeyCmp (e_uuid_compare E)) l as
        \<and> destroy l = Some ConnectedEntity_Delete)
   \<and> (\<exists>k. sg_pHookList M = Some k \<and> table ConnectedEntityHook_KeyCmp k (map (\<lambda>h. \<lparr>entityRemoved = h\<rparr>) hs)
        \<and> destroy k = Some ConnectedEntityHook_Delete)
   \<and> store_ok isD (es M) as \<and> distinct (map n_id (nuggets (es M) as))"

lemma module_holdsD:
  assumes "module_holds E isD M as hs"
  obtains l k where "sg_pEntityList M = Some l" and "table (ConnectedEntity_KeyCmp (e_uuid_compare E)) l as"
    and "destroy l = Some ConnectedEntity_Delete" and "sg_pHookList M = Some k"
    and "table ConnectedEntityHook_KeyCmp k (map (\<lambda>h. \<lparr>entityRemoved = h\<rparr>) hs)"
    and "destroy k = Some ConnectedEntityHook_Delete" and "store_ok isD (es M) as"
    and "distinct (map n_id (nuggets (es M) as))"
  using assms unfolding module_holds_def by blast

lemma module_holdsI:
  assumes "sg_pEntityList M = Some l" and "table (ConnectedEntity_KeyCmp (e_uuid_compare E)) l as"
    and "destroy l = Some ConnectedEntity_Delete" and "sg_pHookList M = Some k"
    and "table ConnectedEntityHook_KeyCmp k (map (\<lambda>h. \<lparr>entityRemoved = h\<rparr>) hs)"
    and "destroy k = Some ConnectedEntityHook_Delete" and "store_ok isD (es M) as"
    and "distinct (map n_id (nuggets (es M) as))"
  shows "module_holds E isD M as hs"
  using assms unfolding module_holds_def by blast

lemma store_okD:
  assumes "store_ok isD s as" and "a \<in> set as"
  obtains e where "ents s a = Some e" and "entity_ok isD e"
  using assms unfolding store_ok_def by blast

section \<open>Finding a nugget\<close>

abbreviation (input) "id_key u \<equiv> no_key\<lparr>searchKeys := SEARCH_KEY_NUGGET_ID, key_nuggetId := Some u\<rparr>"

lemma flag_bits [simp]:
  "has_flag 1 1" "\<not> has_flag 1 2" "\<not> has_flag 1 4" "\<not> has_flag 1 8" "\<not> has_flag 1 16" "\<not> has_flag 1 32"
  "\<not> has_flag 8 1" "\<not> has_flag 8 2" "\<not> has_flag 8 4" "has_flag 8 8" "\<not> has_flag 8 16" "\<not> has_flag 8 32"
  "\<not> has_flag 32 1" "\<not> has_flag 32 2" "\<not> has_flag 32 4" "\<not> has_flag 32 8" "\<not> has_flag 32 16" "has_flag 32 32"
  "\<not> has_flag 48 1" "\<not> has_flag 48 2" "\<not> has_flag 48 4" "\<not> has_flag 48 8" "has_flag 48 16" "has_flag 48 32"
  by (simp_all add: has_flag_def)

lemma KeyCmp_id:
  assumes "uuid_compare_ok uc" and "ents s a = Some e"
  shows "ConnectedEntity_KeyCmp uc s a (id_key u) = 0 \<longleftrightarrow> uuidNuggetId e = u"
  using assms by (simp add: ConnectedEntity_KeyCmp_def no_key_def Let_def)

text \<open>The later criterion decides: the locality does not matter for a dispatcher.\<close>
lemma KeyCmp_locality_usable:
  assumes "ents s a = Some e" and "dispatcher e = Some d" and "searchKeys key = SEARCH_KEY_LOCALITY OR SEARCH_KEY_USABLE"
  shows "ConnectedEntity_KeyCmp uc s a key = 0 \<longleftrightarrow> usable d"
  using assms by (simp add: ConnectedEntity_KeyCmp_def Let_def refine_match_def)

lemma KeyCmp_usable:
  assumes "ents s a = Some e" and "dispatcher e = Some d" and "searchKeys key = SEARCH_KEY_USABLE"
  shows "ConnectedEntity_KeyCmp uc s a key = 0 \<longleftrightarrow> usable d"
  using assms by (simp add: ConnectedEntity_KeyCmp_def Let_def refine_match_def)

section \<open>Hello messages\<close>

text \<open>What a hello message does to a list of nuggets.\<close>
definition refresh :: "MessageHello \<Rightarrow> int \<Rightarrow> nugget \<Rightarrow> nugget" where
  "refresh h now n = n\<lparr>n_seen := now,
     n_disp := map_option (\<lambda>(p, f, rest). (MessageHello.priority h, MessageHello.flags h, rest)) (n_disp n)\<rparr>"

definition new_nugget :: "(uuid \<Rightarrow> bool) \<Rightarrow> (byte \<Rightarrow> bool) \<Rightarrow> uuid \<Rightarrow> MessageHello \<Rightarrow> nugget" where
  "new_nugget isD supp u h = \<lparr>n_id = u, n_type = MessageHello.uuidNuggetType h, n_app = MessageHello.uuidApplicationType h,
     n_seen = 0, n_locality = MessageHello.locality h,
     n_disp = (if isD (MessageHello.uuidNuggetType h)
       then Some (MessageHello.priority h, MessageHello.flags h, texts (MessageHello.addressList h), MessageHello.protocol h,
                  MessageHello.port h, supp (MessageHello.protocol h)) else None)\<rparr>"

definition hello_nuggets ::
  "(uuid \<Rightarrow> bool) \<Rightarrow> (byte \<Rightarrow> bool) \<Rightarrow> uuid \<Rightarrow> MessageHello \<Rightarrow> int \<Rightarrow> nugget list \<Rightarrow> nugget list" where
  "hello_nuggets isD supp u h now ns =
     (if u \<in> n_id ` set ns then map (\<lambda>n. if n_id n = u then refresh h now n else n) ns
      else ns @ [refresh h now (new_nugget isD supp u h)])"

text \<open>A hello message from a nugget, with a list of addresses when it comes from a dispatcher.\<close>
definition hello_from :: "'j json_env \<Rightarrow> (uuid \<Rightarrow> bool) \<Rightarrow> uuid \<Rightarrow> ('ctx, 'md) msg \<Rightarrow> uuid \<Rightarrow> MessageHello \<Rightarrow> bool" where
  "hello_from E isD junk msg u h \<longleftrightarrow> m_type msg = MESSAGE_TYPE_HELLO \<and> message msg = Some (P_Hello h)
     \<and> (\<exists>d. Message_Get_Nuggets E msg junk junk = Some (True, u, d))
     \<and> (isD (MessageHello.uuidNuggetType h) \<longrightarrow> (\<exists>ts. addresses (MessageHello.addressList h) ts))"

lemma find_by_id:
  assumes "store_ok isD s as" and "uuid_compare_ok uc"
  shows "find (\<lambda>a. ConnectedEntity_KeyCmp uc s a (id_key u) = 0) as = find (\<lambda>a. n_id (view (the (ents s a))) = u) as"
proof (rule find_cong [OF refl])
  fix a assume "a \<in> set as"
  then obtain e where e: "ents s a = Some e" using store_okD [OF assms(1)] by blast
  then show "(ConnectedEntity_KeyCmp uc s a (id_key u) = 0) = (n_id (view (the (ents s a))) = u)"
    using KeyCmp_id [OF assms(2) e, of u] by (simp add: view_def)
qed

lemma same_module: "M\<lparr>sg_pEntityList := sg_pEntityList M, es := es M\<rparr> = M"
  by simp

lemma GetEntity_known:
  assumes "module_holds E isD M as hs" and "env_good E" and "hello_from E isD junk msg u h"
    and "find (\<lambda>a. n_id (view (the (ents (es M) a))) = u) as = Some a"
  shows "ConnectedEntityList_GetEntity E trl junk M msg = Some (Some a, M)"
proof -
  obtain l where l: "sg_pEntityList M = Some l" "table (ConnectedEntity_KeyCmp (e_uuid_compare E)) l as" "store_ok isD (es M) as"
    using module_holdsD [OF assms(1)] by metis
  have uc: "uuid_compare_ok (e_uuid_compare E)" using assms(2) by (simp add: env_good_def env_ok_def)
  have "List_Find (Some l) (id_key u) (es M) = Some (Some a, Some l, es M)"
    using table_find [OF l(2)] find_by_id [OF l(3) uc] assms(4) by simp
  moreover obtain d where "Message_Get_Nuggets E msg junk junk = Some (True, u, d)" using assms(3) by (auto simp: hello_from_def)
  ultimately show ?thesis
    using l(1) assms(3) by (simp add: ConnectedEntityList_GetEntity_def hello_from_def del: List_Find.simps)
qed

lemma new_dispatcher_view:
  assumes "env_good E" and "\<forall>p. Transport_IsSupported trl p = Some (supp p)" and "hello_from E isD junk msg u h"
  shows "\<exists>d. (if isD (MessageHello.uuidNuggetType h) then new_dispatcher E trl h else Some None) = Some d
    \<and> (d = None \<longleftrightarrow> \<not> isD (MessageHello.uuidNuggetType h))
    \<and> map_option view_disp d = n_disp (new_nugget isD supp u h) \<and> (\<forall>x. d = Some x \<longrightarrow> (\<exists>ts. addresses (addressList x) ts))"
proof (cases "isD (MessageHello.uuidNuggetType h)")
  case True
  then obtain ts where ts: "addresses (MessageHello.addressList h) ts" using assms(3) by (auto simp: hello_from_def)
  obtain c where c: "List_Clone (e_mem E) (e_alloc E ''List_Create'') (e_alloc E ''List_Create.lock'') True
      (MessageHello.addressList h) [] = Some (Some c, MessageHello.addressList h, [])" "addresses (Some c) ts"
    using addresses_clone [OF ts assms(1)] by blast
  have "new_dispatcher E trl h = Some (Some \<lparr>priority = MessageHello.priority h, flags = MessageHello.flags h,
      addressList = Some c, protocol = MessageHello.protocol h, port = MessageHello.port h, usable = supp (MessageHello.protocol h)\<rparr>)"
    using assms(1,2) c(1) by (simp add: new_dispatcher_def)
  then show ?thesis
    using True addresses_texts [OF ts] addresses_texts [OF c(2)] c(2) by (auto simp: new_nugget_def view_disp_def)
qed (simp add: new_nugget_def)

lemma GetEntity_new:
  assumes "module_holds E isD M as hs" and "env_good E" and "types_known E isD" and "hello_from E isD junk msg u h"
    and "\<forall>p. Transport_IsSupported trl p = Some (supp p)"
    and "find (\<lambda>a. n_id (view (the (ents (es M) a))) = u) as = None"
  shows "\<exists>e l. ConnectedEntityList_GetEntity E trl junk M msg =
       Some (Some (ents_brk (es M)), M\<lparr>sg_pEntityList := Some l,
         es := (es M)\<lparr>ents := (ents (es M))(ents_brk (es M) \<mapsto> e), ents_brk := ents_brk (es M) + 1\<rparr>\<rparr>)
     \<and> view e = new_nugget isD supp u h \<and> entity_ok isD e
     \<and> table (ConnectedEntity_KeyCmp (e_uuid_compare E)) l (as @ [ents_brk (es M)]) \<and> destroy l = Some ConnectedEntity_Delete"
proof -
  obtain l where l: "sg_pEntityList M = Some l" "table (ConnectedEntity_KeyCmp (e_uuid_compare E)) l as"
    "destroy l = Some ConnectedEntity_Delete" "store_ok isD (es M) as"
    using module_holdsD [OF assms(1)] by metis
  have uc: "uuid_compare_ok (e_uuid_compare E)" using assms(2) by (simp add: env_good_def env_ok_def)
  have f: "List_Find (Some l) (id_key u) (es M) = Some (None, Some l, es M)"
    using table_find [OF l(2)] find_by_id [OF l(4) uc] assms(6) by simp
  obtain k where k: "List_Push (e_mem E) (Some l) (ents_brk (es M)) = Some (True, Some k)"
    "table (ConnectedEntity_KeyCmp (e_uuid_compare E)) k (as @ [ents_brk (es M)])" "cfg k = cfg l"
    using table_push [OF l(2), of "e_mem E" "ents_brk (es M)"] assms(2) by auto
  obtain w where n: "Message_Get_Nuggets E msg junk junk = Some (True, u, w)" using assms(4) by (auto simp: hello_from_def)
  have t: "ConnectedEntity_IsDispatcherType E t = Some (isD t)" for t using assms(3) by (simp add: types_known_def)
  let ?T = "MessageHello.uuidNuggetType h"
  obtain d where d: "(if isD ?T then new_dispatcher E trl h else Some None) = Some d" "d = None \<longleftrightarrow> \<not> isD ?T"
    "map_option view_disp d = n_disp (new_nugget isD supp u h)" "\<forall>x. d = Some x \<longrightarrow> (\<exists>ts. addresses (addressList x) ts)"
    using new_dispatcher_view [OF assms(2,5) assms(4)] by blast
  let ?e = "\<lparr>uuidNuggetId = u, uuidNuggetType = ?T, uuidApplicationType = MessageHello.uuidApplicationType h,
      tTimeOfLastHello = 0, locality = MessageHello.locality h, dispatcher = d\<rparr>"
  have "view ?e = new_nugget isD supp u h" "entity_ok isD ?e"
    using d(2-4) by (auto simp: view_def new_nugget_def entity_ok_def split: option.splits)
  moreover have "ConnectedEntityList_GetEntity E trl junk M msg =
       Some (Some (ents_brk (es M)), M\<lparr>sg_pEntityList := Some k,
         es := (es M)\<lparr>ents := (ents (es M))(ents_brk (es M) \<mapsto> ?e), ents_brk := ents_brk (es M) + 1\<rparr>\<rparr>)"
    using f k(1) n l(1) assms(2,4) d(1,2) t
    by (simp add: ConnectedEntityList_GetEntity_def hello_from_def hello_of_def Let_def del: List_Find.simps List_Push.simps)
  ultimately show ?thesis using k(2) cfgD(5) [OF k(3)] l(3) by (intro exI [of _ ?e] exI [of _ k]) simp
qed

lemma Update_touch:
  assumes "ConnectedEntityList_GetEntity E trl junk M msg = Some (Some a, M1)" and "sg_pEntityList M \<noteq> None"
    and "hello_from E isD junk msg u h" and "types_known E isD" and "ents (es M1) a = Some e" and "entity_ok isD e"
  shows "\<exists>e'. ConnectedEntityList_Update E trl junk now M msg =
       Some (True, M1\<lparr>es := (es M1)\<lparr>ents := (ents (es M1))(a \<mapsto> e')\<rparr>\<rparr>)
     \<and> view e' = refresh h now (view e) \<and> entity_ok isD e'"
proof -
  have t: "ConnectedEntity_IsDispatcherType E t = Some (isD t)" for t using assms(4) by (simp add: types_known_def)
  note g = ConnectedEntityList_Update_def hello_from_def hello_of_def
  show ?thesis
  proof (cases "dispatcher e")
    case None
    then show ?thesis using assms t by (auto simp: g entity_ok_def view_def refresh_def)
  next
    case (Some d)
    then have o: "isD (uuidNuggetType e)" "\<exists>ts. addresses (addressList d) ts" using assms(6) by (auto simp: entity_ok_def)
    let ?e = "e\<lparr>tTimeOfLastHello := now, dispatcher := Some (d\<lparr>flags := MessageHello.flags h, priority := MessageHello.priority h\<rparr>)\<rparr>"
    have "view ?e = refresh h now (view e)" "entity_ok isD ?e"
      using o Some by (simp_all add: entity_ok_def view_def refresh_def view_disp_def)
    moreover have "ConnectedEntityList_Update E trl junk now M msg =
       Some (True, M1\<lparr>es := (es M1)\<lparr>ents := (ents (es M1))(a \<mapsto> ?e)\<rparr>\<rparr>)"
      using assms(1-3,5) t Some o(1) by (simp add: g)
    ultimately show ?thesis by blast
  qed
qed

lemma nuggets_upd: "a \<notin> set as \<Longrightarrow> nuggets (s\<lparr>ents := (ents s)(a \<mapsto> e)\<rparr>) as = nuggets s as"
  by (auto simp: nuggets_def)

lemma nuggets_touch:
  assumes "distinct as" and "distinct (map n_id (nuggets s as))" and "a \<in> set as" and "n_id (view (the (ents s a))) = u"
    and "view e' = refresh h now (view (the (ents s a)))"
  shows "nuggets (s\<lparr>ents := (ents s)(a \<mapsto> e')\<rparr>) as = hello_nuggets isD supp u h now (nuggets s as)"
proof -
  have "u \<in> n_id ` set (nuggets s as)" using assms(3,4) by (force simp: nuggets_def)
  moreover have "n_id (view (the (ents s b))) = u \<longleftrightarrow> b = a" if "b \<in> set as" for b
    using assms(2-4) that by (auto simp: nuggets_def distinct_map comp_def dest: inj_onD)
  ultimately show ?thesis using assms(5) by (auto simp: hello_nuggets_def nuggets_def)
qed

lemma refresh_id [simp]: "n_id (refresh h now n) = n_id n"
  by (simp add: refresh_def)

lemma hello_nuggets_distinct:
  assumes "distinct (map n_id ns)"
  shows "distinct (map n_id (hello_nuggets isD supp u h now ns))"
proof -
  have "map n_id (map (\<lambda>n. if n_id n = u then refresh h now n else n) ns) = map n_id ns" by (induction ns) auto
  then show ?thesis using assms by (auto simp: hello_nuggets_def new_nugget_def simp del: map_map)
qed

lemma store_swap: "s\<lparr>ents_brk := n, ents := f\<rparr> = s\<lparr>ents := f, ents_brk := n\<rparr>"
  by simp

lemma Update_known:
  assumes M: "module_holds E isD M as hs" and "env_good E" and "types_known E isD" and "hello_from E isD junk msg u h"
    and f: "find (\<lambda>a. n_id (view (the (ents (es M) a))) = u) as = Some a"
  shows "\<exists>M'. ConnectedEntityList_Update E trl junk now M msg = Some (True, M') \<and> module_holds E isD M' as hs
    \<and> nuggets (es M') as = hello_nuggets isD supp u h now (nuggets (es M) as)"
proof -
  obtain l k where l: "sg_pEntityList M = Some l" "table (ConnectedEntity_KeyCmp (e_uuid_compare E)) l as"
    "destroy l = Some ConnectedEntity_Delete" "sg_pHookList M = Some k"
    "table ConnectedEntityHook_KeyCmp k (map (\<lambda>h. \<lparr>entityRemoved = h\<rparr>) hs)"
    "destroy k = Some ConnectedEntityHook_Delete" "store_ok isD (es M) as" "distinct (map n_id (nuggets (es M) as))"
    by (rule module_holdsD [OF M])
  have a: "a \<in> set as" "n_id (view (the (ents (es M) a))) = u" using f by (auto simp: find_Some_iff)
  obtain e where e: "ents (es M) a = Some e" "entity_ok isD e" by (rule store_okD [OF l(7) a(1)])
  obtain e' where e': "ConnectedEntityList_Update E trl junk now M msg = Some (True, M\<lparr>es := (es M)\<lparr>ents := (ents (es M))(a \<mapsto> e')\<rparr>\<rparr>)"
    "view e' = refresh h now (view e)" "entity_ok isD e'"
    using Update_touch [OF GetEntity_known [OF M assms(2,4) f] _ assms(4,3) e] l(1) by blast
  let ?s = "(es M)\<lparr>ents := (ents (es M))(a \<mapsto> e')\<rparr>"
  have n: "nuggets ?s as = hello_nuggets isD supp u h now (nuggets (es M) as)"
    by (rule nuggets_touch) (use l(7,8) a e e'(2) in \<open>simp_all add: store_ok_def\<close>)
  have s: "store_ok isD ?s as" using l(7) e e'(3) by (auto simp: store_ok_def)
  have "module_holds E isD (M\<lparr>es := ?s\<rparr>) as hs"
    by (rule module_holdsI [of _ l _ _ k]) (use l s n hello_nuggets_distinct [OF l(8)] in simp_all)
  then show ?thesis using e'(1) n by (intro exI [of _ "M\<lparr>es := ?s\<rparr>"]) simp
qed

lemma Update_new:
  assumes M: "module_holds E isD M as hs" and "env_good E" and "types_known E isD" and "hello_from E isD junk msg u h"
    and "\<forall>p. Transport_IsSupported trl p = Some (supp p)"
    and f: "find (\<lambda>a. n_id (view (the (ents (es M) a))) = u) as = None"
  shows "\<exists>M'. ConnectedEntityList_Update E trl junk now M msg = Some (True, M')
    \<and> module_holds E isD M' (as @ [ents_brk (es M)]) hs
    \<and> nuggets (es M') (as @ [ents_brk (es M)]) = hello_nuggets isD supp u h now (nuggets (es M) as)"
proof -
  obtain l k where l: "sg_pEntityList M = Some l" "table (ConnectedEntity_KeyCmp (e_uuid_compare E)) l as"
    "destroy l = Some ConnectedEntity_Delete" "sg_pHookList M = Some k"
    "table ConnectedEntityHook_KeyCmp k (map (\<lambda>h. \<lparr>entityRemoved = h\<rparr>) hs)"
    "destroy k = Some ConnectedEntityHook_Delete" "store_ok isD (es M) as" "distinct (map n_id (nuggets (es M) as))"
    by (rule module_holdsD [OF M])
  let ?a = "ents_brk (es M)"
  obtain e l1 where g: "ConnectedEntityList_GetEntity E trl junk M msg = Some (Some ?a, M\<lparr>sg_pEntityList := Some l1,
         es := (es M)\<lparr>ents := (ents (es M))(?a \<mapsto> e), ents_brk := ?a + 1\<rparr>\<rparr>)"
     "view e = new_nugget isD supp u h" "entity_ok isD e"
     "table (ConnectedEntity_KeyCmp (e_uuid_compare E)) l1 (as @ [?a])" "destroy l1 = Some ConnectedEntity_Delete"
    using GetEntity_new [OF M assms(2-5) f] by blast
  obtain e' where e': "ConnectedEntityList_Update E trl junk now M msg = Some (True, M\<lparr>sg_pEntityList := Some l1,
         es := (es M)\<lparr>ents := (ents (es M))(?a \<mapsto> e'), ents_brk := ?a + 1\<rparr>\<rparr>)"
    "view e' = refresh h now (new_nugget isD supp u h)" "entity_ok isD e'"
    using Update_touch [OF g(1) _ assms(4,3) _ g(3), of now] l(1) g(2) by (auto simp: store_swap)
  let ?s = "(es M)\<lparr>ents := (ents (es M))(?a \<mapsto> e'), ents_brk := ?a + 1\<rparr>"
  have fresh: "?a \<notin> set as" using l(7) by (auto simp: store_ok_def)
  have "u \<notin> n_id ` set (nuggets (es M) as)" using f by (auto simp: find_None_iff nuggets_def)
  moreover have "nuggets ?s as = nuggets (es M) as" using fresh by (auto simp: nuggets_def)
  ultimately have n: "nuggets ?s (as @ [?a]) = hello_nuggets isD supp u h now (nuggets (es M) as)"
    using e'(2) by (simp add: hello_nuggets_def nuggets_def)
  have s: "store_ok isD ?s (as @ [?a])" using l(7) e'(3) fresh by (auto simp: store_ok_def less_Suc_eq)
  have "module_holds E isD (M\<lparr>sg_pEntityList := Some l1, es := ?s\<rparr>) (as @ [?a]) hs"
    by (rule module_holdsI [of _ l1 _ _ k]) (use l g(4,5) s n hello_nuggets_distinct [OF l(8)] in simp_all)
  then show ?thesis using e'(1) n by (intro exI [of _ "M\<lparr>sg_pEntityList := Some l1, es := ?s\<rparr>"]) simp
qed

section \<open>Pruning\<close>

text \<open>A nugget that has been silent for longer than the dead time.\<close>
definition dead :: "conf_var conf_store \<Rightarrow> (uuid \<Rightarrow> int) \<Rightarrow> nugget \<Rightarrow> bool" where
  "dead conf now n \<longleftrightarrow> n_seen n > 0 \<and> now (n_id n) - n_seen n > uint (Config_getDeadTime conf)"

definition same_kind :: "nugget \<Rightarrow> nugget \<Rightarrow> bool" where
  "same_kind n m \<longleftrightarrow> n_type n = n_type m \<and> n_app n = n_app m"

text \<open>What the listeners are told of one nugget.\<close>
definition told :: "nat list \<Rightarrow> nugget list \<Rightarrow> addr \<Rightarrow> nugget \<Rightarrow> (nat \<times> addr \<times> u32) list" where
  "told hs ns a n = map (\<lambda>h. (h, a, of_nat (length (filter (same_kind n) ns)) - 1)) hs"

lemma CountNuggets_fold:
  assumes "table kc l as" and "\<forall>a \<in> set as. \<exists>e. ents s a = Some e" and "ents s a = Some e" and "uuid_compare_ok (e_uuid_compare E)"
  shows "List_ForEach (Some l) (ConnectedEntityList_CountNuggets E a) 0 s =
    Some (True, Some l, of_nat (length (filter (same_kind (view e)) (nuggets s as))), s)"
proof -
  let ?f = "\<lambda>x u. if same_kind (view e) (view (the (ents s x))) then u + 1 else u"
  have "List_ForEach (Some l) (ConnectedEntityList_CountNuggets E a) 0 s = Some (True, Some l, fold ?f as 0, s)"
    by (rule table_fold [OF assms(1)])
      (use assms(2-4) in \<open>auto simp: ConnectedEntityList_CountNuggets_def same_kind_def view_def\<close>)
  moreover have "fold ?f as u = u + of_nat (length (filter (same_kind (view e)) (nuggets s as)))" for u :: u32
    by (induction as arbitrary: u) (auto simp: nuggets_def)
  ultimately show ?thesis by simp
qed

lemma HookWrapper_walk:
  assumes "table kc k (map (\<lambda>h. \<lparr>entityRemoved = h\<rparr>) hs)"
  shows "\<exists>k'. List_ForEach (Some k) (ConnectedEntityList_HookWrapper a) c s =
    Some (True, k', c, s\<lparr>hook_calls := hook_calls s @ map (\<lambda>h. (h, a, c - 1)) hs\<rparr>)"
proof -
  let ?g = "\<lambda>x t. t\<lparr>hook_calls := hook_calls t @ [(entityRemoved x, a, c - 1)]\<rparr>"
  have f: "fold ?g (map (\<lambda>h. \<lparr>entityRemoved = h\<rparr>) hs) t = t\<lparr>hook_calls := hook_calls t @ map (\<lambda>h. (h, a, c - 1)) hs\<rparr>" for t
    by (induction hs arbitrary: t) auto
  have "\<exists>l'. List_ForEach (Some k) (ConnectedEntityList_HookWrapper a) c s =
      Some (True, Some l', c, fold (call_opt (destroy k)) (filter (\<lambda>x. False) (map (\<lambda>h. \<lparr>entityRemoved = h\<rparr>) hs))
        (fold ?g (map (\<lambda>h. \<lparr>entityRemoved = h\<rparr>) hs) s))
    \<and> table kc l' (filter (\<lambda>x. \<not> False) (map (\<lambda>h. \<lparr>entityRemoved = h\<rparr>) hs)) \<and> cfg l' = cfg k"
    by (rule table_prune [OF assms, where I = "\<lambda>t. True"]) (simp_all add: ConnectedEntityList_HookWrapper_def)
  then show ?thesis unfolding f by auto
qed

lemma PruneEntity_step:
  assumes M: "module_holds E isD M as hs" and "env_good E" and "a \<in> set as" and t: "ents t = ents (es M)"
  defines "n \<equiv> view (the (ents (es M) a))"
  shows "ConnectedEntityList_PruneEntity E conf now M a u t =
     Some (if dead conf now n then LIST_EACH_REMOVE else LIST_EACH_OK, u,
       if dead conf now n then t\<lparr>hook_calls := hook_calls t @ told hs (nuggets (es M) as) a n\<rparr> else t)"
proof -
  obtain l k where l: "sg_pEntityList M = Some l" "table (ConnectedEntity_KeyCmp (e_uuid_compare E)) l as"
    "sg_pHookList M = Some k" "table ConnectedEntityHook_KeyCmp k (map (\<lambda>h. \<lparr>entityRemoved = h\<rparr>) hs)" "store_ok isD (es M) as"
    using module_holdsD [OF M] by metis
  obtain e where e: "ents t a = Some e" using store_okD [OF l(5) assms(3)] t by metis
  have n: "n = view e" using e t by (simp add: n_def)
  have uc: "uuid_compare_ok (e_uuid_compare E)" using assms(2) by (simp add: env_good_def env_ok_def)
  have "\<forall>a \<in> set as. \<exists>e. ents t a = Some e" using l(5) t by (auto simp: store_ok_def)
  note c = CountNuggets_fold [OF l(2) this e uc]
  have ns: "nuggets t as = nuggets (es M) as" using t by (simp add: nuggets_def)
  obtain k' where k': "List_ForEach (Some k) (ConnectedEntityList_HookWrapper a) (of_nat (length (filter (same_kind n) (nuggets t as)))) t
      = Some (True, k', of_nat (length (filter (same_kind n) (nuggets t as))), t\<lparr>hook_calls := hook_calls t @ told hs (nuggets t as) a n\<rparr>)"
    using HookWrapper_walk [OF l(4)] unfolding told_def by blast
  have d: "dead conf now n \<longleftrightarrow> tTimeOfLastHello e > 0 \<and> now (uuidNuggetId e) - tTimeOfLastHello e > uint (Config_getDeadTime conf)"
    by (simp add: dead_def n view_def)
  show ?thesis
  proof (cases "dead conf now n")
    case True
    then show ?thesis using e c k' l(1,3) d ns n by (simp add: ConnectedEntityList_PruneEntity_def del: List_ForEach.simps)
  next
    case False
    then show ?thesis using e d by (auto simp: ConnectedEntityList_PruneEntity_def)
  qed
qed

text \<open>Destroying entities of the store.\<close>
lemma destroy_entities:
  assumes "distinct xs" and "\<forall>a \<in> set xs. \<exists>e. ents s a = Some e \<and> entity_ok isD e" and "\<not> ents_fault s"
  shows "fold ConnectedEntity_Delete xs s =
    s\<lparr>ents := (\<lambda>a. if a \<in> set xs then None else ents s a), ents_freed := ents_freed s @ xs\<rparr>"
  using assms
proof (induction xs arbitrary: s)
  case (Cons a xs)
  obtain e where e: "ents s a = Some e" "entity_ok isD e" using Cons.prems(2) by auto
  have ok: "(case dispatcher e of None \<Rightarrow> True | Some d \<Rightarrow> addressList d = None \<or> List_Destroy (addressList d) [] \<noteq> None)"
    using e(2) addresses_destroy by (auto simp: entity_ok_def split: option.splits simp del: List_Destroy.simps)
  let ?s = "s\<lparr>ents := (ents s)(a := None), ents_freed := ents_freed s @ [a]\<rparr>"
  have "ConnectedEntity_Delete a s = ?s"
    using e(1) ok Cons.prems(3) by (simp add: ConnectedEntity_Delete_def ConnectedEntity_Destroy_def)
  moreover have "fold ConnectedEntity_Delete xs ?s =
      ?s\<lparr>ents := (\<lambda>b. if b \<in> set xs then None else ents ?s b), ents_freed := ents_freed ?s @ xs\<rparr>"
    by (rule Cons.IH) (use Cons.prems in auto)
  ultimately show ?case by (auto simp: fun_eq_iff intro!: entity_store.equality)
qed simp

lemma prune_calls:
  "fold (\<lambda>a t. if P a then t\<lparr>hook_calls := hook_calls t @ c a\<rparr> else t) as s =
     s\<lparr>hook_calls := hook_calls s @ concat (map c (filter P as))\<rparr>"
  by (induction as arbitrary: s) auto

lemma call_opt_Some: "call_opt (Some f) = f"
  by (simp add: fun_eq_iff)

lemma store_ok_prune:
  assumes "store_ok isD s as"
  shows "store_ok isD (s\<lparr>hook_calls := c, ents := (\<lambda>a. if a \<in> set as \<and> P a then None else ents s a), ents_freed := f\<rparr>)
    (filter (\<lambda>a. \<not> P a) as)"
  using assms by (auto simp: store_ok_def)

lemma nuggets_filter: "map (\<lambda>a. view (the (ents s a))) (filter (\<lambda>a. Q (view (the (ents s a)))) as) = filter Q (nuggets s as)"
  by (induction as) (auto simp: nuggets_def)

lemma Prune_refines:
  fixes conf now
  assumes M: "module_holds E isD M as hs" and "env_good E"
  defines "P \<equiv> \<lambda>a. dead conf now (view (the (ents (es M) a)))"
  shows "\<exists>M'. ConnectedEntityList_Prune E conf now M = Some M' \<and> module_holds E isD M' (filter (\<lambda>a. \<not> P a) as) hs
    \<and> nuggets (es M') (filter (\<lambda>a. \<not> P a) as) = filter (\<lambda>n. \<not> dead conf now n) (nuggets (es M) as)
    \<and> ents_freed (es M') = ents_freed (es M) @ filter P as
    \<and> hook_calls (es M') = hook_calls (es M)
        @ concat (map (\<lambda>a. told hs (nuggets (es M) as) a (view (the (ents (es M) a)))) (filter P as))"
proof -
  obtain l k where l: "sg_pEntityList M = Some l" "table (ConnectedEntity_KeyCmp (e_uuid_compare E)) l as"
    "destroy l = Some ConnectedEntity_Delete" "sg_pHookList M = Some k"
    "table ConnectedEntityHook_KeyCmp k (map (\<lambda>h. \<lparr>entityRemoved = h\<rparr>) hs)"
    "destroy k = Some ConnectedEntityHook_Delete" "store_ok isD (es M) as" "distinct (map n_id (nuggets (es M) as))"
    by (rule module_holdsD [OF M])
  let ?c = "\<lambda>a. told hs (nuggets (es M) as) a (view (the (ents (es M) a)))"
  let ?g = "\<lambda>a t. if P a then t\<lparr>hook_calls := hook_calls t @ ?c a\<rparr> else t"
  let ?s1 = "(es M)\<lparr>hook_calls := hook_calls (es M) @ concat (map ?c (filter P as))\<rparr>"
  have "\<exists>l'. List_ForEach (Some l) (ConnectedEntityList_PruneEntity E conf now M) () (es M) =
      Some (True, Some l', (), fold (call_opt (destroy l)) (filter P as) (fold ?g as (es M)))
    \<and> table (ConnectedEntity_KeyCmp (e_uuid_compare E)) l' (filter (\<lambda>a. \<not> P a) as) \<and> cfg l' = cfg l"
  proof (rule table_prune [OF l(2), where I = "\<lambda>t :: entity_store. ents t = ents (es M)"])
    fix a and t :: entity_store assume "a \<in> set as" "ents t = ents (es M)"
    from PruneEntity_step [OF M assms(2) this, of conf now "()"]
    show "ConnectedEntityList_PruneEntity E conf now M a () t = Some (if P a then LIST_EACH_REMOVE else LIST_EACH_OK, (), ?g a t)
        \<and> ents (?g a t) = ents (es M)" using \<open>ents t = ents (es M)\<close> by (simp add: P_def)
  qed simp
  then obtain l' where l': "List_ForEach (Some l) (ConnectedEntityList_PruneEntity E conf now M) () (es M) =
      Some (True, Some l', (), fold ConnectedEntity_Delete (filter P as) ?s1)"
    "table (ConnectedEntity_KeyCmp (e_uuid_compare E)) l' (filter (\<lambda>a. \<not> P a) as)" "cfg l' = cfg l"
    unfolding l(3) call_opt_Some prune_calls by blast
  let ?s2 = "?s1\<lparr>ents := (\<lambda>a. if a \<in> set as \<and> P a then None else ents (es M) a), ents_freed := ents_freed (es M) @ filter P as\<rparr>"
  have "fold ConnectedEntity_Delete (filter P as) ?s1 =
      ?s1\<lparr>ents := (\<lambda>a. if a \<in> set (filter P as) then None else ents ?s1 a), ents_freed := ents_freed ?s1 @ filter P as\<rparr>"
    by (rule destroy_entities [where isD = isD]) (use l(7) in \<open>auto simp: store_ok_def\<close>)
  then have "fold ConnectedEntity_Delete (filter P as) ?s1 = ?s2" by (simp cong: if_cong)
  then have p: "ConnectedEntityList_Prune E conf now M = Some (M\<lparr>sg_pEntityList := Some l', es := ?s2\<rparr>)"
    using l'(1) l(1) by (simp add: ConnectedEntityList_Prune_def del: List_ForEach.simps)
  have "nuggets ?s2 (filter (\<lambda>a. \<not> P a) as) = map (\<lambda>a. view (the (ents (es M) a))) (filter (\<lambda>a. \<not> P a) as)"
    by (auto simp: nuggets_def)
  also have "\<dots> = filter (\<lambda>n. \<not> dead conf now n) (nuggets (es M) as)"
    unfolding P_def by (rule nuggets_filter [of "es M" "\<lambda>n. \<not> dead conf now n"])
  finally have n: "nuggets ?s2 (filter (\<lambda>a. \<not> P a) as) = filter (\<lambda>n. \<not> dead conf now n) (nuggets (es M) as)" .
  have "distinct (map n_id (filter (\<lambda>n. \<not> dead conf now n) (nuggets (es M) as)))"
    using l(8) by (rule distinct_map_filter)
  then have "module_holds E isD (M\<lparr>sg_pEntityList := Some l', es := ?s2\<rparr>) (filter (\<lambda>a. \<not> P a) as) hs"
    using n l cfgD(5) [OF l'(3)] l'(2) store_ok_prune [OF l(7)] by (intro module_holdsI [of _ l' _ _ k]) simp_all
  then show ?thesis using p n by (intro exI [of _ "M\<lparr>sg_pEntityList := Some l', es := ?s2\<rparr>"]) simp
qed

section \<open>Selection\<close>

definition n_usable :: "nugget \<Rightarrow> bool" where
  "n_usable n = (case n_disp n of None \<Rightarrow> False | Some (_, _, _, _, _, u) \<Rightarrow> u)"

definition n_priority :: "nugget \<Rightarrow> byte" where
  "n_priority n = (case n_disp n of None \<Rightarrow> 0 | Some (p, _) \<Rightarrow> p)"

text \<open>A copy in the store, next to the entities of the list.\<close>
lemma Clone_view:
  assumes "store_ok isD s as" and "a \<in> set as" and "isD (n_type (view (the (ents s a))))" and "env_good E"
  shows "\<exists>s' e'. ConnectedEntity_Clone E a s = Some (Some (ents_brk s), s') \<and> ents s' (ents_brk s) = Some e'
    \<and> view e' = view (the (ents s a)) \<and> store_ok isD s' as \<and> nuggets s' as = nuggets s as \<and> ents_freed s' = ents_freed s"
proof -
  obtain e where e: "ents s a = Some e" "entity_ok isD e" by (rule store_okD [OF assms(1,2)])
  have "isD (uuidNuggetType e)" using assms(3) e(1) by (simp add: view_def)
  then obtain d ts where d: "dispatcher e = Some d" "addresses (addressList d) ts"
    using e(2) by (auto simp: entity_ok_def split: option.splits)
  obtain c where c: "List_Clone (e_mem E) (e_alloc E ''List_Create'') (e_alloc E ''List_Create.lock'') True (addressList d) []
      = Some (Some c, addressList d, [])" "addresses (Some c) ts"
    using addresses_clone [OF d(2) assms(4)] by blast
  let ?e = "e\<lparr>dispatcher := Some (d\<lparr>addressList := Some c\<rparr>)\<rparr>"
  let ?s = "s\<lparr>ents := (ents s)(ents_brk s \<mapsto> ?e), ents_brk := ents_brk s + 1\<rparr>"
  have "view ?e = view e" using d addresses_texts [OF d(2)] addresses_texts [OF c(2)] by (simp add: view_def view_disp_def)
  moreover have "ConnectedEntity_Clone E a s = Some (Some (ents_brk s), ?s)"
    using e(1) d(1) c(1) assms(4) by (simp add: ConnectedEntity_Clone_def)
  moreover have "ents_brk s \<notin> set as" using assms(1) by (auto simp: store_ok_def)
  then have "nuggets ?s as = nuggets s as" "store_ok isD ?s as"
    using assms(1) by (auto simp: nuggets_def store_ok_def less_Suc_eq)
  ultimately show ?thesis using e(1) by (intro exI [of _ ?s] exI [of _ ?e]) simp
qed

lemma collect_walk:
  assumes "table kc d ds" and "\<forall>a \<in> set as. \<exists>e. ents s a = Some e" and "types_known E isD" and "env_good E"
  shows "\<exists>d'. each_walk None None (ConnectedEntityList_CollectDispatchers E) as (Some d) s =
      Some (True, replicate (length as) False, Some d', s)
    \<and> table kc d' (ds @ filter (\<lambda>a. isD (n_type (view (the (ents s a))))) as) \<and> destroy d' = destroy d"
  using assms(1,2)
proof (induction as arbitrary: d ds)
  case (Cons a as)
  obtain e where e: "ents s a = Some e" using Cons.prems(2) by auto
  have t: "ConnectedEntity_IsDispatcherType E t = Some (isD t)" for t using assms(3) by (simp add: types_known_def)
  show ?case
  proof (cases "isD (uuidNuggetType e)")
    case True
    obtain d1 where d1: "List_Push (e_mem E) (Some d) a = Some (True, Some d1)" "table kc d1 (ds @ [a])" "cfg d1 = cfg d"
      using table_push [OF Cons.prems(1), of "e_mem E" a] assms(4) by auto
    then show ?thesis using Cons.IH [OF d1(2)] Cons.prems(2) True e t cfgD(5) [OF d1(3)]
      by (auto simp: ConnectedEntityList_CollectDispatchers_def view_def simp del: List_Push.simps)
  next
    case False
    then show ?thesis using Cons.IH [OF Cons.prems(1)] Cons.prems(2) e t
      by (auto simp: ConnectedEntityList_CollectDispatchers_def view_def)
  qed
qed simp

text \<open>The entities of dispatchers among addresses, and the search for one that is usable.\<close>
lemma find_usable:
  assumes "\<forall>a \<in> set ds. \<exists>e d. ents s a = Some e \<and> dispatcher e = Some d"
    and "searchKeys key = 48 \<or> searchKeys key = SEARCH_KEY_USABLE"
  shows "find (\<lambda>a. ConnectedEntity_KeyCmp uc s a key = 0) ds = find (\<lambda>a. n_usable (view (the (ents s a)))) ds"
proof (rule find_cong [OF refl])
  fix a assume "a \<in> set ds"
  then obtain e d where e: "ents s a = Some e" "dispatcher e = Some d" using assms(1) by blast
  then show "(ConnectedEntity_KeyCmp uc s a key = 0) = n_usable (view (the (ents s a)))"
    using KeyCmp_locality_usable [OF e, of key uc] KeyCmp_usable [OF e, of key uc] assms(2)
    by (auto simp: n_usable_def view_def view_disp_def)
qed

lemma find_backup_none:
  assumes "table (ConnectedEntity_KeyCmp uc) d ds" and "\<forall>a \<in> set ds. \<exists>e d. ents s a = Some e \<and> dispatcher e = Some d"
    and "searchKeys key = 48" and "find (\<lambda>a. n_usable (view (the (ents s a)))) ds = None"
  shows "find_backup (Some d) key is s = Some None"
  using assms(3,4) by (induction "is") (simp_all add: table_find [OF assms(1)] find_usable [OF assms(2)] del: List_Find.simps)

lemma select_first_usable:
  assumes "table (ConnectedEntity_KeyCmp uc) d ds" and "\<forall>a \<in> set ds. \<exists>e d. ents s a = Some e \<and> dispatcher e = Some d"
    and "backup_localities conf = Some is"
  defines "r \<equiv> find (\<lambda>a. n_usable (view (the (ents s a)))) ds"
  shows "select_dispatcher conf (Some d) s = Some (r, if r = None then ''none'' else ''local'')"
proof -
  have l: "List_Find (Some d) key s = Some (r, Some d, s)" if "searchKeys key = 48 \<or> searchKeys key = SEARCH_KEY_USABLE" for key
    using table_find [OF assms(1)] find_usable [OF assms(2) that] by (simp add: r_def del: List_Find.simps)
  show ?thesis
  proof (cases r)
    case None
    then have "find_backup (Some d) key is s = Some None" if "searchKeys key = 48" for key
      using find_backup_none [OF assms(1,2) that] by (simp add: r_def)
    then show ?thesis using l assms(3) None by (simp add: select_dispatcher_def no_key_def Let_def del: List_Find.simps)
  next
    case (Some a)
    then show ?thesis using l by (simp add: select_dispatcher_def no_key_def Let_def del: List_Find.simps)
  qed
qed

lemma find_map: "find P (map f xs) = map_option f (find (\<lambda>x. P (f x)) xs)"
  by (induction xs) auto

text \<open>The first usable dispatcher.\<close>
lemma GetDispatcher_first:
  assumes M: "module_holds E isD M as hs" and "env_good E" and "types_known E isD" and "backup_localities conf = Some is"
  shows "\<exists>M' r. ConnectedEntityList_GetDispatcher E conf M = Some (r, if r = None then ''none'' else ''local'', M')
    \<and> module_holds E isD M' as hs \<and> nuggets (es M') as = nuggets (es M) as
    \<and> map_option (\<lambda>a. view (the (ents (es M') a))) r = find n_usable (filter (\<lambda>n. isD (n_type n)) (nuggets (es M) as))"
proof -
  obtain l k where l: "sg_pEntityList M = Some l" "table (ConnectedEntity_KeyCmp (e_uuid_compare E)) l as"
    "destroy l = Some ConnectedEntity_Delete" "sg_pHookList M = Some k"
    "table ConnectedEntityHook_KeyCmp k (map (\<lambda>h. \<lparr>entityRemoved = h\<rparr>) hs)"
    "destroy k = Some ConnectedEntityHook_Delete" "store_ok isD (es M) as" "distinct (map n_id (nuggets (es M) as))"
    by (rule module_holdsD [OF M])
  let ?s = "es M" and ?v = "\<lambda>a. view (the (ents (es M) a))"
  define ds where "ds = filter (\<lambda>a. isD (n_type (?v a))) as"
  obtain d0 where d0: "entity_list E None = Some d0" "table (ConnectedEntity_KeyCmp (e_uuid_compare E)) d0 []" "destroy d0 = None"
    using assms(2) table_create [of "Some ConnectedEntity_Cmp" "ConnectedEntity_KeyCmp (e_uuid_compare E)" None None]
    by (auto simp: entity_list_def List_Create_def)
  have live: "\<forall>a \<in> set as. \<exists>e. ents ?s a = Some e" using l(7) by (auto simp: store_ok_def)
  have rl: "List_rep l as" "nodeLock l = None" "nodeUnlock l = None" using l(2) by (simp_all add: table_def)
  obtain d where d: "List_ForEach (Some l) (ConnectedEntityList_CollectDispatchers E) (Some d0) ?s = Some (True, Some l, Some d, ?s)"
    "table (ConnectedEntity_KeyCmp (e_uuid_compare E)) d ds" "destroy d = None"
    using collect_walk [OF d0(2) live assms(3,2)] List_ForEach_readonly [OF rl(1), of "ConnectedEntityList_CollectDispatchers E" "Some d0" ?s True]
      rl(2,3) d0(3) by (auto simp: ds_def simp del: List_ForEach.simps)
  have disp: "\<forall>a \<in> set ds. \<exists>e d. ents ?s a = Some e \<and> dispatcher e = Some d"
    using l(7) by (fastforce simp: ds_def store_ok_def entity_ok_def view_def split: option.splits)
  define r where "r = find (\<lambda>a. n_usable (?v a)) ds"
  have sel: "select_dispatcher conf (Some d) ?s = Some (r, if r = None then ''none'' else ''local'')"
    unfolding r_def by (rule select_first_usable [OF d(2) disp assms(4)])
  have fin: "List_Destroy (Some d) t = Some t" for t
    using table_destroy [OF d(2), of t] d(3) by (simp del: List_Destroy.simps)
  have view: "map_option ?v r = find n_usable (filter (\<lambda>n. isD (n_type n)) (nuggets ?s as))"
    by (simp add: r_def ds_def nuggets_def filter_map comp_def find_map)
  show ?thesis
  proof (cases r)
    case None
    have "ConnectedEntityList_GetDispatcher E conf M = Some (None, ''none'', M)"
      using d0(1) d(1) l(1) table_length [OF d(2)] sel fin None
      by (simp add: ConnectedEntityList_GetDispatcher_def del: List_ForEach.simps List_Destroy.simps)
    then show ?thesis using M view None by (intro exI [of _ M] exI [of _ None]) simp
  next
    case (Some a)
    then have "a \<in> set ds" unfolding r_def using find_Some_iff [of _ ds a] nth_mem by metis
    then have a: "a \<in> set as" "isD (n_type (?v a))" "ds \<noteq> []" by (simp_all add: ds_def filter_empty_conv) auto
    obtain s' e' where c: "ConnectedEntity_Clone E a ?s = Some (Some (ents_brk ?s), s')" "ents s' (ents_brk ?s) = Some e'"
      "view e' = ?v a" "store_ok isD s' as" "nuggets s' as = nuggets ?s as"
      using Clone_view [OF l(7) a(1,2) assms(2)] by blast
    have "ConnectedEntityList_GetDispatcher E conf M = Some (Some (ents_brk ?s), ''local'', M\<lparr>es := s'\<rparr>)"
      using d0(1) d(1) l(1) table_length [OF d(2)] sel fin Some c(1) a(3)
      by (simp add: ConnectedEntityList_GetDispatcher_def del: List_ForEach.simps List_Destroy.simps)
    moreover have "module_holds E isD (M\<lparr>es := s'\<rparr>) as hs"
      by (rule module_holdsI [of _ l _ _ k]) (use l c(4,5) in simp_all)
    ultimately show ?thesis using view Some c(2,3,5)
      by (intro exI [of _ "M\<lparr>es := s'\<rparr>"] exI [of _ "Some (ents_brk ?s)"]) simp
  qed
qed

text \<open>The dispatcher with the highest priority.\<close>
definition better :: "(addr \<Rightarrow> bool) \<Rightarrow> (addr \<Rightarrow> byte) \<Rightarrow> addr \<Rightarrow> addr option \<Rightarrow> addr option" where
  "better isd prio a cur =
     (if \<not> isd a then cur else case cur of None \<Rightarrow> Some a | Some c \<Rightarrow> if prio c < prio a then Some a else cur)"

lemma better_max:
  "case fold (better isd prio) as cur of
     None \<Rightarrow> cur = None \<and> (\<forall>a \<in> set as. \<not> isd a)
   | Some b \<Rightarrow> (b \<in> set as \<and> isd b \<or> cur = Some b) \<and> (\<forall>a \<in> set as. isd a \<longrightarrow> prio a \<le> prio b)
       \<and> (\<forall>c. cur = Some c \<longrightarrow> prio c \<le> prio b)"
proof (induction as arbitrary: cur)
  case Nil
  then show ?case by (auto split: option.split)
next
  case (Cons a as)
  show ?case using Cons.IH [of "better isd prio a cur"]
    by (auto simp: better_def split: option.splits if_splits)
qed

lemma HighestPriority_walk:
  assumes "table kc l as" and "store_ok isD s as" and "types_known E isD"
  shows "List_ForEach (Some l) (ConnectedEntityList_CollectHighDispatcher E) None s =
    Some (True, Some l, fold (better (\<lambda>a. isD (n_type (view (the (ents s a))))) (\<lambda>a. n_priority (view (the (ents s a))))) as None, s)"
proof -
  let ?isd = "\<lambda>a. isD (n_type (view (the (ents s a))))" and ?p = "\<lambda>a. n_priority (view (the (ents s a)))"
  have t: "ConnectedEntity_IsDispatcherType E t = Some (isD t)" for t using assms(3) by (simp add: types_known_def)
  have v: "\<exists>e d. ents s a = Some e \<and> dispatcher e = Some d \<and> isD (uuidNuggetType e) \<and> ?p a = priority d" if "a \<in> set as" "?isd a" for a
    using assms(2) that by (fastforce simp: store_ok_def entity_ok_def view_def view_disp_def n_priority_def split: option.splits)
  have w: "\<exists>e. ents s a = Some e \<and> \<not> isD (uuidNuggetType e)" if "a \<in> set as" "\<not> ?isd a" for a
    using assms(2) that by (fastforce simp: store_ok_def view_def)
  let ?J = "\<lambda>u. \<forall>c. u = Some c \<longrightarrow> c \<in> set as \<and> ?isd c"
  have step: "ConnectedEntityList_CollectHighDispatcher E a u s = Some (LIST_EACH_OK, better ?isd ?p a u, s) \<and> ?J (better ?isd ?p a u)"
    if a: "a \<in> set as" and u: "?J u" for a u
  proof (cases "?isd a")
    case True
    obtain e d where e: "ents s a = Some e" "dispatcher e = Some d" "isD (uuidNuggetType e)" "?p a = priority d" using v [OF a True] by blast
    show ?thesis
    proof (cases u)
      case None
      then show ?thesis using e t a True by (simp add: ConnectedEntityList_CollectHighDispatcher_def better_def)
    next
      case (Some c)
      then obtain e' d' where c: "ents s c = Some e'" "dispatcher e' = Some d'" "?p c = priority d'" using v [of c] u by blast
      show ?thesis using e c t a u True Some by (simp add: ConnectedEntityList_CollectHighDispatcher_def better_def)
    qed
  next
    case False
    obtain e where "ents s a = Some e" "\<not> isD (uuidNuggetType e)" using w [OF a False] by blast
    then show ?thesis using t u False by (simp add: ConnectedEntityList_CollectHighDispatcher_def better_def)
  qed
  have "List_ForEach (Some l) (ConnectedEntityList_CollectHighDispatcher E) None s =
      Some (True, Some l, fold (better ?isd ?p) as None, s) \<and> ?J (fold (better ?isd ?p) as None)"
    by (rule table_fold_inv [OF assms(1), where J = ?J]) (use step in blast, simp)
  then show ?thesis ..
qed

lemma HighestPriority_max:
  assumes M: "module_holds E isD M as hs" and "env_good E" and "types_known E isD"
  shows "\<exists>M' r. ConnectedEntityList_GetDispatcher_HighestPriority E M = Some (r, M')
    \<and> module_holds E isD M' as hs \<and> nuggets (es M') as = nuggets (es M) as
    \<and> (case r of
         None \<Rightarrow> \<forall>n \<in> set (nuggets (es M) as). \<not> isD (n_type n)
       | Some a \<Rightarrow> view (the (ents (es M') a)) \<in> set (nuggets (es M) as) \<and> isD (n_type (view (the (ents (es M') a))))
           \<and> (\<forall>n \<in> set (nuggets (es M) as). isD (n_type n) \<longrightarrow> n_priority n \<le> n_priority (view (the (ents (es M') a)))))"
proof -
  obtain l k where l: "sg_pEntityList M = Some l" "table (ConnectedEntity_KeyCmp (e_uuid_compare E)) l as"
    "destroy l = Some ConnectedEntity_Delete" "sg_pHookList M = Some k"
    "table ConnectedEntityHook_KeyCmp k (map (\<lambda>h. \<lparr>entityRemoved = h\<rparr>) hs)"
    "destroy k = Some ConnectedEntityHook_Delete" "store_ok isD (es M) as" "distinct (map n_id (nuggets (es M) as))"
    by (rule module_holdsD [OF M])
  let ?v = "\<lambda>a. view (the (ents (es M) a))"
  let ?r = "fold (better (\<lambda>a. isD (n_type (?v a))) (\<lambda>a. n_priority (?v a))) as None"
  note w = HighestPriority_walk [OF l(2,7) assms(3)]
  note b = better_max [where isd = "\<lambda>a. isD (n_type (?v a))" and prio = "\<lambda>a. n_priority (?v a)" and as = as and cur = None]
  show ?thesis
  proof (cases ?r)
    case None
    then have "ConnectedEntityList_GetDispatcher_HighestPriority E M = Some (None, M)"
      using w l(1) by (simp add: ConnectedEntityList_GetDispatcher_HighestPriority_def del: List_ForEach.simps)
    moreover have "\<forall>n \<in> set (nuggets (es M) as). \<not> isD (n_type n)" using b None by (auto simp: nuggets_def)
    ultimately show ?thesis using M by (intro exI [of _ M] exI [of _ None]) simp
  next
    case (Some a)
    then have a: "a \<in> set as" "isD (n_type (?v a))" "\<forall>c \<in> set as. isD (n_type (?v c)) \<longrightarrow> n_priority (?v c) \<le> n_priority (?v a)"
      using b by auto
    obtain s' e' where c: "ConnectedEntity_Clone E a (es M) = Some (Some (ents_brk (es M)), s')" "ents s' (ents_brk (es M)) = Some e'"
      "view e' = ?v a" "store_ok isD s' as" "nuggets s' as = nuggets (es M) as"
      using Clone_view [OF l(7) a(1,2) assms(2)] by blast
    have "ConnectedEntityList_GetDispatcher_HighestPriority E M = Some (Some (ents_brk (es M)), M\<lparr>es := s'\<rparr>)"
      using w l(1) Some c(1) by (simp add: ConnectedEntityList_GetDispatcher_HighestPriority_def del: List_ForEach.simps)
    moreover have "module_holds E isD (M\<lparr>es := s'\<rparr>) as hs"
      by (rule module_holdsI [of _ l _ _ k]) (use l c(4,5) in simp_all)
    ultimately show ?thesis using a c(2,3,5)
      by (intro exI [of _ "M\<lparr>es := s'\<rparr>"] exI [of _ "Some (ents_brk (es M))"]) (auto simp: nuggets_def)
  qed
qed

text \<open>The dedicated dispatchers, and the dispatchers that are slaves.\<close>
definition n_flag :: "u32 \<Rightarrow> nugget \<Rightarrow> bool" where
  "n_flag f n = (case n_disp n of None \<Rightarrow> False | Some (_, fl, _) \<Rightarrow> has_flag fl f)"

lemma Dedicated_first:
  assumes M: "module_holds E isD M as hs" and "env_good E"
  shows "\<exists>M' r. ConnectedEntityList_GetDedicatedDispatcher E M = Some (r, M')
    \<and> module_holds E isD M' as hs \<and> nuggets (es M') as = nuggets (es M) as
    \<and> map_option (\<lambda>a. view (the (ents (es M') a))) r = find (n_flag DISP_HELLO_FLAG_DD) (nuggets (es M) as)"
proof -
  obtain l k where l: "sg_pEntityList M = Some l" "table (ConnectedEntity_KeyCmp (e_uuid_compare E)) l as"
    "destroy l = Some ConnectedEntity_Delete" "sg_pHookList M = Some k"
    "table ConnectedEntityHook_KeyCmp k (map (\<lambda>h. \<lparr>entityRemoved = h\<rparr>) hs)"
    "destroy k = Some ConnectedEntityHook_Delete" "store_ok isD (es M) as" "distinct (map n_id (nuggets (es M) as))"
    by (rule module_holdsD [OF M])
  let ?v = "\<lambda>a. view (the (ents (es M) a))"
  let ?r = "find (\<lambda>a. n_flag DISP_HELLO_FLAG_DD (?v a)) as"
  have "find (\<lambda>a. ConnectedEntity_KeyCmp (e_uuid_compare E) (es M) a (no_key\<lparr>searchKeys := SEARCH_KEY_DD\<rparr>) = 0) as = ?r"
  proof (rule find_cong [OF refl])
    fix a assume "a \<in> set as"
    then obtain e where "ents (es M) a = Some e" by (rule store_okD [OF l(7)])
    then show "(ConnectedEntity_KeyCmp (e_uuid_compare E) (es M) a (no_key\<lparr>searchKeys := SEARCH_KEY_DD\<rparr>) = 0) = n_flag DISP_HELLO_FLAG_DD (?v a)"
      by (simp add: ConnectedEntity_KeyCmp_def no_key_def Let_def refine_match_def n_flag_def view_def view_disp_def split: option.split)
  qed
  then have f: "List_Find (Some l) (no_key\<lparr>searchKeys := SEARCH_KEY_DD\<rparr>) (es M) = Some (?r, Some l, es M)"
    using table_find [OF l(2)] by simp
  have view: "map_option ?v ?r = find (n_flag DISP_HELLO_FLAG_DD) (nuggets (es M) as)" by (simp add: nuggets_def find_map)
  show ?thesis
  proof (cases ?r)
    case None
    then show ?thesis using M f l(1) view
      by (intro exI [of _ M] exI [of _ None]) (simp add: ConnectedEntityList_GetDedicatedDispatcher_def del: List_Find.simps)
  next
    case (Some a)
    then have a: "a \<in> set as" "n_flag DISP_HELLO_FLAG_DD (?v a)" by (auto simp: find_Some_iff)
    obtain e where e: "ents (es M) a = Some e" "entity_ok isD e" by (rule store_okD [OF l(7) a(1)])
    then have "isD (n_type (?v a))" using a(2) by (auto simp: n_flag_def view_def entity_ok_def split: option.splits)
    from Clone_view [OF l(7) a(1) this assms(2)] obtain s' e' where
      c: "ConnectedEntity_Clone E a (es M) = Some (Some (ents_brk (es M)), s')" "ents s' (ents_brk (es M)) = Some e'"
      "view e' = ?v a" "store_ok isD s' as" "nuggets s' as = nuggets (es M) as" by blast
    have "module_holds E isD (M\<lparr>es := s'\<rparr>) as hs" by (rule module_holdsI [of _ l _ _ k]) (use l c(4,5) in simp_all)
    then show ?thesis using f l(1) Some c view
      by (intro exI [of _ "M\<lparr>es := s'\<rparr>"] exI [of _ "Some (ents_brk (es M))"])
        (simp add: ConnectedEntityList_GetDedicatedDispatcher_def del: List_Find.simps)
  qed
qed

section \<open>Reading the list\<close>

lemma CountDispatcherItems_fold:
  assumes "table kc l as" and "store_ok isD s as" and "types_known E isD"
  shows "List_ForEach (Some l) (ConnectedEntityList_CountDispatcherItems E b) 0 s =
    Some (True, Some l, of_nat (length (filter (\<lambda>n. isD (n_type n) \<and> (b \<longrightarrow> n_usable n)) (nuggets s as))), s)"
proof -
  let ?P = "\<lambda>n. isD (n_type n) \<and> (b \<longrightarrow> n_usable n)"
  let ?f = "\<lambda>x u. if ?P (view (the (ents s x))) then u + 1 else u"
  have "List_ForEach (Some l) (ConnectedEntityList_CountDispatcherItems E b) 0 s = Some (True, Some l, fold ?f as 0, s)"
  proof (rule table_fold [OF assms(1)])
    fix a u assume "a \<in> set as"
    then obtain e where "ents s a = Some e" "entity_ok isD e" by (rule store_okD [OF assms(2)])
    then show "ConnectedEntityList_CountDispatcherItems E b a u s = Some (LIST_EACH_OK, ?f a u, s)" using assms(3)
      by (auto simp: ConnectedEntityList_CountDispatcherItems_def types_known_def entity_ok_def n_usable_def view_def view_disp_def
          split: option.splits)
  qed
  moreover have "fold ?f as u = u + of_nat (length (filter ?P (nuggets s as)))" for u :: u32
    by (induction as arbitrary: u) (auto simp: nuggets_def)
  ultimately show ?thesis by simp
qed

lemma SlaveInLocality_fold:
  assumes "table kc l as" and "store_ok isD s as" and "types_known E isD"
  shows "List_ForEach (Some l) (ConnectedEntityList_CollectSlaveInLocality E loc) False s =
    Some (True, Some l, (\<exists>n \<in> set (nuggets s as). n_locality n = loc \<and> n_flag DISP_HELLO_FLAG_LS n), s)"
proof -
  let ?P = "\<lambda>n. n_locality n = loc \<and> n_flag DISP_HELLO_FLAG_LS n"
  let ?f = "\<lambda>x u. u \<or> ?P (view (the (ents s x)))"
  have "List_ForEach (Some l) (ConnectedEntityList_CollectSlaveInLocality E loc) False s = Some (True, Some l, fold ?f as False, s)"
  proof (rule table_fold [OF assms(1)])
    fix a u assume "a \<in> set as"
    then obtain e where "ents s a = Some e" "entity_ok isD e" by (rule store_okD [OF assms(2)])
    then show "ConnectedEntityList_CollectSlaveInLocality E loc a u s = Some (LIST_EACH_OK, ?f a u, s)" using assms(3)
      by (auto simp: ConnectedEntityList_CollectSlaveInLocality_def types_known_def entity_ok_def n_flag_def view_def view_disp_def
          split: option.splits)
  qed
  moreover have "fold ?f as u = (u \<or> (\<exists>n \<in> set (nuggets s as). ?P n))" for u
    by (induction as arbitrary: u) (auto simp: nuggets_def)
  ultimately show ?thesis by simp
qed

lemma counts_hold:
  assumes M: "module_holds E isD M as hs" and "types_known E isD"
  shows "ConnectedEntityList_GetCount M = length (nuggets (es M) as)"
    and "ConnectedEntityList_CountDispatchers E M = Some (of_nat (length (filter (\<lambda>n. isD (n_type n)) (nuggets (es M) as))))"
    and "ConnectedEntityList_CountUsableDispatchers E M =
      Some (of_nat (length (filter (\<lambda>n. isD (n_type n) \<and> n_usable n) (nuggets (es M) as))))"
    and "ConnectedEntityList_SlaveInLocality E M loc =
      Some (\<exists>n \<in> set (nuggets (es M) as). n_locality n = loc \<and> n_flag DISP_HELLO_FLAG_LS n)"
proof -
  obtain l where l: "sg_pEntityList M = Some l" "table (ConnectedEntity_KeyCmp (e_uuid_compare E)) l as" "store_ok isD (es M) as"
    using module_holdsD [OF M] by metis
  note c = CountDispatcherItems_fold [OF l(2,3) assms(2)] and f = SlaveInLocality_fold [OF l(2,3) assms(2)]
  show "ConnectedEntityList_GetCount M = length (nuggets (es M) as)"
    using l(1) table_length [OF l(2)] by (simp add: ConnectedEntityList_GetCount_def nuggets_def)
  show "ConnectedEntityList_CountDispatchers E M = Some (of_nat (length (filter (\<lambda>n. isD (n_type n)) (nuggets (es M) as))))"
    using l(1) c [of False] by (simp add: ConnectedEntityList_CountDispatchers_def del: List_ForEach.simps)
  show "ConnectedEntityList_CountUsableDispatchers E M =
      Some (of_nat (length (filter (\<lambda>n. isD (n_type n) \<and> n_usable n) (nuggets (es M) as))))"
    using l(1) c [of True] by (simp add: ConnectedEntityList_CountUsableDispatchers_def del: List_ForEach.simps)
  show "ConnectedEntityList_SlaveInLocality E M loc =
      Some (\<exists>n \<in> set (nuggets (es M) as). n_locality n = loc \<and> n_flag DISP_HELLO_FLAG_LS n)"
    using l(1) f [of loc] by (simp add: ConnectedEntityList_SlaveInLocality_def del: List_ForEach.simps)
qed

text \<open>A callback that reads the entity it is called for.\<close>
definition reads_entity :: "entity_store \<Rightarrow> (addr, 'u, entity_store) each_op \<Rightarrow> (nugget \<Rightarrow> 'u \<Rightarrow> 'u) \<Rightarrow> bool" where
  "reads_entity s f g \<longleftrightarrow> (\<forall>a e u. ents s a = Some e \<longrightarrow> f a u s = Some (LIST_EACH_OK, g (view e) u, s))"

lemma ForEach_Entity_fold:
  assumes M: "module_holds E isD M as hs" and "reads_entity (es M) f g"
  shows "ConnectedEntityList_ForEach_Entity M f u = Some (True, fold g (nuggets (es M) as) u, M)"
proof -
  obtain l where l: "sg_pEntityList M = Some l" "table (ConnectedEntity_KeyCmp (e_uuid_compare E)) l as" "store_ok isD (es M) as"
    using module_holdsD [OF M] by metis
  have "List_ForEach (Some l) f u (es M) = Some (True, Some l, fold (\<lambda>a. g (view (the (ents (es M) a)))) as u, es M)"
  proof (rule table_fold [OF l(2)])
    fix a v assume "a \<in> set as"
    then obtain e where "ents (es M) a = Some e" by (rule store_okD [OF l(3)])
    then show "f a v (es M) = Some (LIST_EACH_OK, g (view (the (ents (es M) a))) v, es M)"
      using assms(2) by (simp add: reads_entity_def)
  qed
  moreover have "fold (\<lambda>a. g (view (the (ents (es M) a)))) as u = fold g (nuggets (es M) as) u"
    by (simp add: nuggets_def fold_map comp_def)
  ultimately show ?thesis using l(1) same_module [of M] by (simp add: ConnectedEntityList_ForEach_Entity_def del: List_ForEach.simps)
qed

section \<open>Life of the module\<close>

definition no_entities :: entity_module where
  "no_entities = \<lparr>sg_pEntityList = None, sg_pHookList = None, timer = None,
     es = \<lparr>ents = (\<lambda>a. None), ents_brk = 0, ents_freed = [], hook_calls = [], ents_fault = False\<rparr>\<rparr>"

lemma Start_holds:
  assumes "env_good E" and "Config_getHelloTime conf div 2 \<noteq> 0"
  shows "\<exists>M. ConnectedEntityList_Start E conf no_entities = (True, M) \<and> module_holds E isD M [] [] \<and> timer M \<noteq> None"
proof -
  obtain l where l: "entity_list E (Some ConnectedEntity_Delete) = Some l"
    "table (ConnectedEntity_KeyCmp (e_uuid_compare E)) l []" "destroy l = Some ConnectedEntity_Delete"
    using assms(1) table_create [of "Some ConnectedEntity_Cmp" "ConnectedEntity_KeyCmp (e_uuid_compare E)" "Some ConnectedEntity_Delete" None]
    by (auto simp: entity_list_def List_Create_def)
  obtain k where k: "List_Create True True True LIST_MODE_GENERIC (Some ConnectedEntityHook_Cmp) (Some ConnectedEntityHook_KeyCmp)
      (Some ConnectedEntityHook_Delete) None None None = Some k" "table ConnectedEntityHook_KeyCmp k []" "destroy k = Some ConnectedEntityHook_Delete"
    using table_create [of "Some ConnectedEntityHook_Cmp" ConnectedEntityHook_KeyCmp "Some ConnectedEntityHook_Delete" None]
    by (auto simp: List_Create_def)
  let ?M = "snd (ConnectedEntityList_Start E conf no_entities)"
  have M: "ConnectedEntityList_Start E conf no_entities = (True, ?M)" "sg_pEntityList ?M = Some l" "sg_pHookList ?M = Some k"
    "es ?M = es no_entities" "timer ?M \<noteq> None"
    using assms l(1) k(1) by (simp_all add: ConnectedEntityList_Start_def no_entities_def Timer_Create_def Let_def)
  have "module_holds E isD ?M [] []"
    by (rule module_holdsI [of _ l _ _ k]) (use M l k in \<open>simp_all add: store_ok_def nuggets_def no_entities_def\<close>)
  then show ?thesis using M(1,5) by blast
qed

lemma AddPruneListener_holds:
  assumes M: "module_holds E isD M as hs" and "env_good E"
  shows "\<exists>M'. ConnectedEntityList_AddPruneListener E M h = Some (True, M') \<and> module_holds E isD M' as (hs @ [h]) \<and> es M' = es M"
proof -
  obtain l k where l: "sg_pEntityList M = Some l" "table (ConnectedEntity_KeyCmp (e_uuid_compare E)) l as"
    "destroy l = Some ConnectedEntity_Delete" "sg_pHookList M = Some k"
    "table ConnectedEntityHook_KeyCmp k (map (\<lambda>h. \<lparr>entityRemoved = h\<rparr>) hs)"
    "destroy k = Some ConnectedEntityHook_Delete" "store_ok isD (es M) as" "distinct (map n_id (nuggets (es M) as))"
    by (rule module_holdsD [OF M])
  obtain k' where k': "List_Push (e_mem E) (Some k) \<lparr>entityRemoved = h\<rparr> = Some (True, Some k')"
    "table ConnectedEntityHook_KeyCmp k' (map (\<lambda>h. \<lparr>entityRemoved = h\<rparr>) (hs @ [h]))" "cfg k' = cfg k"
    using table_push [OF l(5), of "e_mem E" "\<lparr>entityRemoved = h\<rparr>"] assms(2) by auto
  have "module_holds E isD (M\<lparr>sg_pHookList := Some k'\<rparr>) as (hs @ [h])"
    by (rule module_holdsI [of _ l _ _ k']) (use l k' cfgD(5) [OF k'(3)] in simp_all)
  then show ?thesis using k'(1) l(4) assms(2)
    by (intro exI [of _ "M\<lparr>sg_pHookList := Some k'\<rparr>"]) (simp add: ConnectedEntityList_AddPruneListener_def del: List_Push.simps)
qed

text \<open>Marking a dispatcher.\<close>
definition unusable :: "uuid \<Rightarrow> nugget \<Rightarrow> nugget" where
  "unusable u n = (if n_id n = u
     then n\<lparr>n_disp := map_option (\<lambda>(p, f, ts, pr, po, us). (p, f, ts, pr, po, False)) (n_disp n)\<rparr> else n)"

lemma MarkDispatcherUnusable_holds:
  assumes M: "module_holds E isD M as hs" and "env_good E" and d: "\<forall>n \<in> set (nuggets (es M) as). n_id n = u \<longrightarrow> isD (n_type n)"
  shows "\<exists>M'. ConnectedEntityList_MarkDispatcherUnusable M u = Some (u \<in> n_id ` set (nuggets (es M) as), M')
    \<and> module_holds E isD M' as hs \<and> nuggets (es M') as = map (unusable u) (nuggets (es M) as)"
proof -
  obtain l k where l: "sg_pEntityList M = Some l" "table (ConnectedEntity_KeyCmp (e_uuid_compare E)) l as"
    "destroy l = Some ConnectedEntity_Delete" "sg_pHookList M = Some k"
    "table ConnectedEntityHook_KeyCmp k (map (\<lambda>h. \<lparr>entityRemoved = h\<rparr>) hs)"
    "destroy k = Some ConnectedEntityHook_Delete" "store_ok isD (es M) as" "distinct (map n_id (nuggets (es M) as))"
    by (rule module_holdsD [OF M])
  let ?v = "\<lambda>a. view (the (ents (es M) a))"
  have uc: "uuid_compare_ok (e_uuid_compare E)" using assms(2) by (simp add: env_good_def env_ok_def)
  have f: "List_Find (Some l) (id_key u) (es M) = Some (find (\<lambda>a. n_id (?v a) = u) as, Some l, es M)"
    using table_find [OF l(2)] find_by_id [OF l(7) uc] by simp
  show ?thesis
  proof (cases "find (\<lambda>a. n_id (?v a) = u) as")
    case None
    then have n: "u \<notin> n_id ` set (nuggets (es M) as)" by (auto simp: find_None_iff nuggets_def)
    then have "map (unusable u) (nuggets (es M) as) = nuggets (es M) as" by (intro map_idI) (auto simp: unusable_def)
    then show ?thesis using M f None n l(1)
      by (intro exI [of _ M]) (simp add: ConnectedEntityList_MarkDispatcherUnusable_def del: List_Find.simps)
  next
    case (Some a)
    then have a: "a \<in> set as" "n_id (?v a) = u" by (auto simp: find_Some_iff)
    obtain e where e: "ents (es M) a = Some e" "entity_ok isD e" by (rule store_okD [OF l(7) a(1)])
    have v: "?v a \<in> set (nuggets (es M) as)" using a(1) by (simp add: nuggets_def)
    then have "isD (n_type (?v a))" using d a(2) by blast
    then have "isD (uuidNuggetType e)" using e(1) by (simp add: view_def)
    then obtain x ts where x: "dispatcher e = Some x" "addresses (addressList x) ts"
      using e(2) by (auto simp: entity_ok_def split: option.splits)
    let ?e = "e\<lparr>dispatcher := Some (x\<lparr>usable := False\<rparr>)\<rparr>"
    let ?s = "(es M)\<lparr>ents := (ents (es M))(a \<mapsto> ?e)\<rparr>"
    have "n_id (?v b) = u \<longleftrightarrow> b = a" if "b \<in> set as" for b
      using l(8) a that by (auto simp: nuggets_def distinct_map comp_def dest: inj_onD)
    moreover have "view ?e = unusable u (?v a)" using x e(1) a(2) by (simp add: unusable_def view_def view_disp_def)
    ultimately have n: "nuggets ?s as = map (unusable u) (nuggets (es M) as)"
      by (auto simp: nuggets_def unusable_def)
    have s: "store_ok isD ?s as" using l(7) e x by (auto simp: store_ok_def entity_ok_def)
    have "map n_id (map (unusable u) (nuggets (es M) as)) = map n_id (nuggets (es M) as)" by (simp add: unusable_def)
    then have "module_holds E isD (M\<lparr>es := ?s\<rparr>) as hs"
      by (intro module_holdsI [of _ l _ _ k]) (use l s n in \<open>simp_all del: map_map\<close>)
    moreover have "u \<in> n_id ` set (nuggets (es M) as)" using v a(2) by force
    ultimately show ?thesis using f Some n l(1) e(1) x(1)
      by (intro exI [of _ "M\<lparr>es := ?s\<rparr>"]) (simp add: ConnectedEntityList_MarkDispatcherUnusable_def del: List_Find.simps)
  qed
qed

text \<open>A nugget that is no dispatcher has no dispatcher part to mark.\<close>
lemma MarkDispatcherUnusable_undefined:
  assumes M: "module_holds E isD M as hs" and "env_good E" and "n \<in> set (nuggets (es M) as)" and "\<not> isD (n_type n)"
  shows "ConnectedEntityList_MarkDispatcherUnusable M (n_id n) = None"
proof -
  obtain l where l: "sg_pEntityList M = Some l" "table (ConnectedEntity_KeyCmp (e_uuid_compare E)) l as"
    "store_ok isD (es M) as" "distinct (map n_id (nuggets (es M) as))"
    using module_holdsD [OF M] by metis
  let ?v = "\<lambda>a. view (the (ents (es M) a))"
  have uc: "uuid_compare_ok (e_uuid_compare E)" using assms(2) by (simp add: env_good_def env_ok_def)
  obtain a where a: "a \<in> set as" "n = ?v a" using assms(3) by (auto simp: nuggets_def)
  obtain e where e: "ents (es M) a = Some e" "entity_ok isD e" by (rule store_okD [OF l(3) a(1)])
  have d: "dispatcher e = None" using assms(4) e a(2) by (auto simp: entity_ok_def view_def split: option.splits)
  have "n_id (?v b) = n_id n \<longleftrightarrow> b = a" if "b \<in> set as" for b
    using l(4) a that by (auto simp: nuggets_def distinct_map comp_def dest: inj_onD)
  then have "find (\<lambda>b. n_id (?v b) = n_id n) as = find (\<lambda>b. b = a) as" by (intro find_cong) auto
  also have "\<dots> = Some a" using a(1) by (induction as) auto
  finally have "List_Find (Some l) (id_key (n_id n)) (es M) = Some (Some a, Some l, es M)"
    using table_find [OF l(2)] find_by_id [OF l(3) uc] by simp
  then show ?thesis using l(1) e(1) d by (simp add: ConnectedEntityList_MarkDispatcherUnusable_def del: List_Find.simps)
qed

lemma Stop_holds:
  assumes M: "module_holds E isD M as hs"
  shows "\<exists>M'. ConnectedEntityList_Stop M = Some M' \<and> sg_pEntityList M' = None \<and> sg_pHookList M' = None
    \<and> \<not> ents_fault (es M') \<and> ents_freed (es M') = ents_freed (es M) @ rev as"
proof -
  obtain l k where l: "sg_pEntityList M = Some l" "table (ConnectedEntity_KeyCmp (e_uuid_compare E)) l as"
    "destroy l = Some ConnectedEntity_Delete" "sg_pHookList M = Some k"
    "table ConnectedEntityHook_KeyCmp k (map (\<lambda>h. \<lparr>entityRemoved = h\<rparr>) hs)"
    "destroy k = Some ConnectedEntityHook_Delete" "store_ok isD (es M) as" "distinct (map n_id (nuggets (es M) as))"
    by (rule module_holdsD [OF M])
  have d: "fold ConnectedEntity_Delete (rev as) (es M) =
      (es M)\<lparr>ents := (\<lambda>a. if a \<in> set (rev as) then None else ents (es M) a), ents_freed := ents_freed (es M) @ rev as\<rparr>"
    by (rule destroy_entities [where isD = isD]) (use l(7) in \<open>auto simp: store_ok_def\<close>)
  have h: "fold ConnectedEntityHook_Delete xs s = s" for xs s
    by (induction xs arbitrary: s) (simp_all add: ConnectedEntityHook_Delete_def)
  have "List_Destroy (Some l) (es M) = Some (fold ConnectedEntity_Delete (rev as) (es M))"
    using table_destroy [OF l(2)] l(3) by (simp add: call_opt_Some del: List_Destroy.simps)
  moreover have "List_Destroy (Some k) s = Some s" for s
    using table_destroy [OF l(5), of s] l(6) h by (simp add: call_opt_Some del: List_Destroy.simps)
  ultimately show ?thesis using l(1,4,7) d by (simp add: ConnectedEntityList_Stop_def store_ok_def del: List_Destroy.simps)
qed

section \<open>The transports that are supported\<close>

lemma Register_table:
  assumes "table Transport_KeyCmp l ds" and "\<forall>a. mem a"
  shows "\<exists>l'. Transport_Register mem (Some l) d = Some (True, Some l') \<and> table Transport_KeyCmp l' (ds @ [d])"
  using table_push [OF assms(1), of mem d] assms(2) by (auto simp: Transport_Register_def simp del: List_Push.simps)

lemma IsSupported_table:
  assumes "table Transport_KeyCmp l ds"
  shows "Transport_IsSupported (Some l) p = Some (p \<in> td_id ` set ds)"
proof -
  have "Transport_KeyCmp () d p = 0 \<longleftrightarrow> td_id d = p" for d
    by (simp add: Transport_KeyCmp_def word_uint_eq_iff)
  then have "(find (\<lambda>d. Transport_KeyCmp () d p = 0) ds \<noteq> None) = (p \<in> td_id ` set ds)"
    by (auto simp: find_None_iff image_iff)
  then show ?thesis using table_find [OF assms, of p "()"] by (simp add: Transport_IsSupported_def del: List_Find.simps)
qed

abbreviation (input) "all_transports \<equiv> [file_descriptor, ssh_descriptor, descriptorHttp, descriptorHttps]"

lemma Transfer_Init_traditional:
  assumes "\<forall>a. x_alloc X a" and "\<forall>a. x_mem X a" and "Config_getTransferMode conf = Some ''traditional''"
  shows "\<exists>l sk. Transfer_Init X conf = Some (True, Some l, sk, True) \<and> table Transport_KeyCmp l all_transports"
proof -
  note step = Register_table [OF _ assms(2)]
  obtain l0 where l0: "List_Create True True True LIST_MODE_GENERIC (Some Transport_Cmp) (Some Transport_KeyCmp) None None None None = Some l0"
    "table Transport_KeyCmp l0 []"
    using table_create [of "Some Transport_Cmp" Transport_KeyCmp None None] by (auto simp: List_Create_def)
  obtain l1 where l1: "Transport_Register (x_mem X) (Some l0) file_descriptor = Some (True, Some l1)" "table Transport_KeyCmp l1 [file_descriptor]"
    using step [OF l0(2)] by auto
  obtain l2 where l2: "Transport_Register (x_mem X) (Some l1) ssh_descriptor = Some (True, Some l2)"
    "table Transport_KeyCmp l2 [file_descriptor, ssh_descriptor]" using step [OF l1(2)] by auto
  obtain l3 where l3: "Transport_Register (x_mem X) (Some l2) descriptorHttp = Some (True, Some l3)"
    "table Transport_KeyCmp l3 [file_descriptor, ssh_descriptor, descriptorHttp]" using step [OF l2(2)] by auto
  obtain l4 where l4: "Transport_Register (x_mem X) (Some l3) descriptorHttps = Some (True, Some l4)"
    "table Transport_KeyCmp l4 all_transports" using step [OF l3(2)] by auto
  show ?thesis using assms l0 l1 l2 l3 l4
    by (simp add: Transfer_Init_def File_Init_def SSH_Init_def HTTP_Init_def)
qed

lemma all_supported:
  assumes "table Transport_KeyCmp l all_transports"
  shows "Transport_IsSupported (Some l) p = Some (p \<le> 3)"
proof -
  have "p \<in> {0, 1, 2, 3} \<longleftrightarrow> p \<le> 3"
  proof
    assume "p \<le> 3"
    then have "unat p \<le> 3" by (simp add: word_le_nat_alt)
    then have "unat p = 0 \<or> unat p = 1 \<or> unat p = 2 \<or> unat p = 3" by arith
    then show "p \<in> {0, 1, 2, 3}" by (auto simp: word_unat_eq_iff)
  qed auto
  then show ?thesis using IsSupported_table [OF assms, of p]
    by (simp add: file_descriptor_def ssh_descriptor_def descriptorHttp_def descriptorHttps_def)
qed

section \<open>Reachable states\<close>

text \<open>What the module goes through, beside the nuggets and listeners it is to hold.\<close>
inductive entity_reach ::
  "'j json_env \<Rightarrow> (uuid \<Rightarrow> bool) \<Rightarrow> transport_list option \<Rightarrow> (byte \<Rightarrow> bool) \<Rightarrow> conf_var conf_store
    \<Rightarrow> entity_module \<Rightarrow> nugget list \<Rightarrow> nat list \<Rightarrow> bool"
  for E isD trl supp conf where
  start: "ConnectedEntityList_Start E conf no_entities = (True, M) \<Longrightarrow> entity_reach E isD trl supp conf M [] []"
| hello: "entity_reach E isD trl supp conf M ns hs \<Longrightarrow> hello_from E isD junk (msg :: (unit, unit) msg) u h
    \<Longrightarrow> ConnectedEntityList_Update E trl junk now M msg = Some (r, M')
    \<Longrightarrow> entity_reach E isD trl supp conf M' (hello_nuggets isD supp u h now ns) hs"
| prune: "entity_reach E isD trl supp conf M ns hs \<Longrightarrow> ConnectedEntityList_Prune E conf now M = Some M'
    \<Longrightarrow> entity_reach E isD trl supp conf M' (filter (\<lambda>n. \<not> dead conf now n) ns) hs"
| listen: "entity_reach E isD trl supp conf M ns hs \<Longrightarrow> ConnectedEntityList_AddPruneListener E M k = Some (r, M')
    \<Longrightarrow> entity_reach E isD trl supp conf M' ns (hs @ [k])"
| mark: "entity_reach E isD trl supp conf M ns hs \<Longrightarrow> \<forall>n \<in> set ns. n_id n = u \<longrightarrow> isD (n_type n)
    \<Longrightarrow> ConnectedEntityList_MarkDispatcherUnusable M u = Some (r, M')
    \<Longrightarrow> entity_reach E isD trl supp conf M' (map (unusable u) ns) hs"
| select: "entity_reach E isD trl supp conf M ns hs \<Longrightarrow> ConnectedEntityList_GetDispatcher E conf M = Some (d, path, M')
    \<Longrightarrow> entity_reach E isD trl supp conf M' ns hs"
| highest: "entity_reach E isD trl supp conf M ns hs
    \<Longrightarrow> ConnectedEntityList_GetDispatcher_HighestPriority E M = Some (d, M') \<Longrightarrow> entity_reach E isD trl supp conf M' ns hs"
| dedicated: "entity_reach E isD trl supp conf M ns hs \<Longrightarrow> ConnectedEntityList_GetDedicatedDispatcher E M = Some (d, M')
    \<Longrightarrow> entity_reach E isD trl supp conf M' ns hs"

text \<open>The surroundings in which the module works: the allocations succeed and the registry and the transports answer.\<close>
definition entity_env ::
  "'j json_env \<Rightarrow> (uuid \<Rightarrow> bool) \<Rightarrow> transport_list option \<Rightarrow> (byte \<Rightarrow> bool) \<Rightarrow> conf_var conf_store \<Rightarrow> bool" where
  "entity_env E isD trl supp conf \<longleftrightarrow> env_good E \<and> types_known E isD \<and> (\<forall>p. Transport_IsSupported trl p = Some (supp p))
     \<and> Config_getHelloTime conf div 2 \<noteq> 0 \<and> backup_localities conf \<noteq> None"

lemma Update_refines:
  assumes M: "module_holds E isD M as hs" and e: "entity_env E isD trl supp conf" and h: "hello_from E isD junk msg u h"
  shows "\<exists>M' as'. ConnectedEntityList_Update E trl junk now M msg = Some (True, M') \<and> module_holds E isD M' as' hs
    \<and> nuggets (es M') as' = hello_nuggets isD supp u h now (nuggets (es M) as)"
proof (cases "find (\<lambda>a. n_id (view (the (ents (es M) a))) = u) as")
  case None
  show ?thesis using Update_new [OF M _ _ h _ None] e unfolding entity_env_def by blast
next
  case (Some a)
  show ?thesis using Update_known [OF M _ _ h Some] e unfolding entity_env_def by blast
qed

lemma entity_reach_holds:
  assumes "entity_env E isD trl supp conf" and "entity_reach E isD trl supp conf M ns hs"
  shows "\<exists>as. module_holds E isD M as hs \<and> nuggets (es M) as = ns"
  using assms(2)
proof induction
  case (start M)
  obtain M0 where "ConnectedEntityList_Start E conf no_entities = (True, M0)" "module_holds E isD M0 [] []"
    using Start_holds [of E conf isD] assms(1) unfolding entity_env_def by blast
  then show ?case using start by (auto simp: nuggets_def)
next
  case (hello M ns hs junk msg u h now r M')
  then show ?case using Update_refines [OF _ assms(1) hello.hyps(2), of M _ hs now] by auto
next
  case (prune M ns hs now M')
  then obtain as where as: "module_holds E isD M as hs" "nuggets (es M) as = ns" by blast
  obtain M1 bs where "ConnectedEntityList_Prune E conf now M = Some M1" "module_holds E isD M1 bs hs"
    "nuggets (es M1) bs = filter (\<lambda>n. \<not> dead conf now n) (nuggets (es M) as)"
    using Prune_refines [OF as(1), of conf now] assms(1) unfolding entity_env_def by blast
  then show ?case using prune.hyps(2) as(2) by auto
next
  case (listen M ns hs k r M')
  then obtain as where as: "module_holds E isD M as hs" "nuggets (es M) as = ns" by blast
  obtain M1 where "ConnectedEntityList_AddPruneListener E M k = Some (True, M1)" "module_holds E isD M1 as (hs @ [k])" "es M1 = es M"
    using AddPruneListener_holds [OF as(1), of k] assms(1) unfolding entity_env_def by blast
  then show ?case using listen.hyps(2) as(2) by auto
next
  case (mark M ns hs u r M')
  then obtain as where as: "module_holds E isD M as hs" "nuggets (es M) as = ns" by blast
  obtain M1 where "ConnectedEntityList_MarkDispatcherUnusable M u = Some (u \<in> n_id ` set (nuggets (es M) as), M1)"
    "module_holds E isD M1 as hs" "nuggets (es M1) as = map (unusable u) (nuggets (es M) as)"
    using MarkDispatcherUnusable_holds [OF as(1)] mark.hyps(2) as(2) assms(1) unfolding entity_env_def by blast
  then show ?case using mark.hyps(3) as(2) by auto
next
  case (select M ns hs d path M')
  then obtain as where as: "module_holds E isD M as hs" "nuggets (es M) as = ns" by blast
  obtain M1 r p where "ConnectedEntityList_GetDispatcher E conf M = Some (r, p, M1)" "module_holds E isD M1 as hs"
    "nuggets (es M1) as = nuggets (es M) as"
    using GetDispatcher_first [OF as(1), of conf] assms(1) unfolding entity_env_def by blast
  then show ?case using select.hyps(2) as(2) by auto
next
  case (highest M ns hs d M')
  then obtain as where as: "module_holds E isD M as hs" "nuggets (es M) as = ns" by blast
  obtain M1 r where "ConnectedEntityList_GetDispatcher_HighestPriority E M = Some (r, M1)" "module_holds E isD M1 as hs"
    "nuggets (es M1) as = nuggets (es M) as"
    using HighestPriority_max [OF as(1)] assms(1) unfolding entity_env_def by blast
  then show ?case using highest.hyps(2) as(2) by auto
next
  case (dedicated M ns hs d M')
  then obtain as where as: "module_holds E isD M as hs" "nuggets (es M) as = ns" by blast
  obtain M1 r where "ConnectedEntityList_GetDedicatedDispatcher E M = Some (r, M1)" "module_holds E isD M1 as hs"
    "nuggets (es M1) as = nuggets (es M) as"
    using Dedicated_first [OF as(1)] assms(1) unfolding entity_env_def by blast
  then show ?case using dedicated.hyps(2) as(2) by auto
qed

lemma dispatcher_parts:
  assumes "store_ok isD s as"
  shows "\<forall>n \<in> set (nuggets s as). (n_disp n \<noteq> None) = isD (n_type n)"
proof
  fix n assume "n \<in> set (nuggets s as)"
  then obtain a where a: "a \<in> set as" "n = view (the (ents s a))" by (auto simp: nuggets_def)
  obtain e where "ents s a = Some e" "entity_ok isD e" by (rule store_okD [OF assms a(1)])
  then show "(n_disp n \<noteq> None) = isD (n_type n)" using a(2) by (auto simp: entity_ok_def view_def split: option.splits)
qed

section \<open>Steps from a reachable state\<close>

lemma reach_hello:
  assumes "entity_env E isD trl supp conf" and "entity_reach E isD trl supp conf M ns hs"
    and h: "hello_from E isD junk (msg :: (unit, unit) msg) u h"
  shows "\<exists>M'. ConnectedEntityList_Update E trl junk now M msg = Some (True, M')
    \<and> entity_reach E isD trl supp conf M' (hello_nuggets isD supp u h now ns) hs"
proof -
  obtain as where as: "module_holds E isD M as hs" using entity_reach_holds [OF assms(1,2)] by blast
  obtain M' where "ConnectedEntityList_Update E trl junk now M msg = Some (True, M')"
    using Update_refines [OF as assms(1) h, of now] by blast
  then show ?thesis using entity_reach.hello [OF assms(2) h] by blast
qed

lemma reach_prune:
  assumes "entity_env E isD trl supp conf" and "entity_reach E isD trl supp conf M ns hs"
  shows "\<exists>M'. ConnectedEntityList_Prune E conf now M = Some M'
    \<and> entity_reach E isD trl supp conf M' (filter (\<lambda>n. \<not> dead conf now n) ns) hs"
proof -
  obtain as where as: "module_holds E isD M as hs" using entity_reach_holds [OF assms(1,2)] by blast
  then obtain M' where "ConnectedEntityList_Prune E conf now M = Some M'"
    using Prune_refines [OF as, of conf now] assms(1) unfolding entity_env_def by blast
  then show ?thesis using entity_reach.prune [OF assms(2)] by blast
qed

lemma reach_listen:
  assumes "entity_env E isD trl supp conf" and "entity_reach E isD trl supp conf M ns hs"
  shows "\<exists>M'. ConnectedEntityList_AddPruneListener E M k = Some (True, M') \<and> entity_reach E isD trl supp conf M' ns (hs @ [k])"
proof -
  obtain as where as: "module_holds E isD M as hs" using entity_reach_holds [OF assms(1,2)] by blast
  then obtain M' where "ConnectedEntityList_AddPruneListener E M k = Some (True, M')"
    using AddPruneListener_holds [OF as, of k] assms(1) unfolding entity_env_def by blast
  then show ?thesis using entity_reach.listen [OF assms(2)] by blast
qed

lemma reach_mark:
  assumes "entity_env E isD trl supp conf" and "entity_reach E isD trl supp conf M ns hs"
  shows "if \<exists>n \<in> set ns. n_id n = u \<and> \<not> isD (n_type n) then ConnectedEntityList_MarkDispatcherUnusable M u = None
    else \<exists>M'. ConnectedEntityList_MarkDispatcherUnusable M u = Some (u \<in> n_id ` set ns, M')
      \<and> entity_reach E isD trl supp conf M' (map (unusable u) ns) hs"
proof (cases "\<exists>n \<in> set ns. n_id n = u \<and> \<not> isD (n_type n)")
  case True
  obtain as where as: "module_holds E isD M as hs" "nuggets (es M) as = ns" using entity_reach_holds [OF assms(1,2)] by blast
  have "env_good E" using assms(1) by (simp add: entity_env_def)
  then show ?thesis using MarkDispatcherUnusable_undefined [OF as(1)] True as(2) by auto
next
  case False
  obtain as where as: "module_holds E isD M as hs" "nuggets (es M) as = ns" using entity_reach_holds [OF assms(1,2)] by blast
  have d: "\<forall>n \<in> set ns. n_id n = u \<longrightarrow> isD (n_type n)" using False by blast
  then obtain M' where "ConnectedEntityList_MarkDispatcherUnusable M u = Some (u \<in> n_id ` set ns, M')"
    using MarkDispatcherUnusable_holds [OF as(1)] assms(1) unfolding entity_env_def as(2) by blast
  then show ?thesis using entity_reach.mark [OF assms(2) d] False by auto
qed

lemma reach_select:
  assumes "entity_env E isD trl supp conf" and "entity_reach E isD trl supp conf M ns hs"
  shows "\<exists>r path M'. ConnectedEntityList_GetDispatcher E conf M = Some (r, path, M') \<and> entity_reach E isD trl supp conf M' ns hs"
    and "\<exists>r M'. ConnectedEntityList_GetDispatcher_HighestPriority E M = Some (r, M') \<and> entity_reach E isD trl supp conf M' ns hs"
proof -
  obtain as where as: "module_holds E isD M as hs" using entity_reach_holds [OF assms(1,2)] by blast
  have "\<exists>r path M'. ConnectedEntityList_GetDispatcher E conf M = Some (r, path, M')"
    "\<exists>r M'. ConnectedEntityList_GetDispatcher_HighestPriority E M = Some (r, M')"
    using GetDispatcher_first [OF as, of conf] HighestPriority_max [OF as] assms(1) unfolding entity_env_def by blast+
  then show "\<exists>r path M'. ConnectedEntityList_GetDispatcher E conf M = Some (r, path, M') \<and> entity_reach E isD trl supp conf M' ns hs"
    "\<exists>r M'. ConnectedEntityList_GetDispatcher_HighestPriority E M = Some (r, M') \<and> entity_reach E isD trl supp conf M' ns hs"
    using entity_reach.select [OF assms(2)] entity_reach.highest [OF assms(2)] by blast+
qed

section \<open>An example\<close>

text \<open>A registry that knows the type of dispatchers, and two dispatchers in different localities that say hello.\<close>
definition ex_dispatcher_type :: uuid where
  "ex_dispatcher_type = replicate 15 0 @ [9]"

definition ex_types :: "UUIDListNode list" where
  "ex_types = [\<lparr>un_uuid = ex_dispatcher_type, UUIDListNode.sName = ''DISPATCHER'', sDescription = None\<rparr>]"

definition ex_env :: "json_value json_env" where
  "ex_env = ref_env\<lparr>e_registry := ref_registry\<lparr>sg_NuggetTypeList := ref_fill ex_types (UUID_Create_List uuid_compare_ref True True)\<rparr>\<rparr>"

definition ex_conf :: "conf_var conf_store" where
  "ex_conf = initial_config(sg_iHelloTime := V_int 10, sg_iDeadTime := V_int 60, sg_localityId := V_int 2,
     sg_sTransferMode := V_string (Some ''traditional''))"

definition ex_hello :: "byte \<Rightarrow> byte \<Rightarrow> MessageHello" where
  "ex_hello loc prio = no_hello\<lparr>MessageHello.uuidNuggetType := ex_dispatcher_type, MessageHello.locality := loc,
     MessageHello.priority := prio, MessageHello.addressList := StringList_Create True True True\<rparr>"

abbreviation (input) "ex_is \<equiv> (\<lambda>t. t = ex_dispatcher_type)"
abbreviation (input) "ex_supp \<equiv> (\<lambda>p :: byte. p \<le> 3)"

text \<open>The dispatcher that such a message describes.\<close>
definition ex_nugget :: "byte \<Rightarrow> byte \<Rightarrow> byte \<Rightarrow> int \<Rightarrow> nugget" where
  "ex_nugget i loc prio seen = \<lparr>n_id = replicate 16 i, n_type = ex_dispatcher_type, n_app = MessageHello.uuidApplicationType no_hello,
     n_seen = seen, n_locality = loc, n_disp = Some (prio, 0, [], 0, 0, True)\<rparr>"

lemma ex_env_good: "env_good ex_env"
  using ref_env_good by (simp add: env_good_def env_ok_def env_works_def ex_env_def UUID_Get_List_def ref_env_def)

lemma ex_types_known: "types_known ex_env ex_is"
proof -
  obtain l where l: "ref_fill ex_types (UUID_Create_List uuid_compare_ref True True) = Some l" "uuids uuid_compare_ref l ex_types"
    by (rule ref_list [of ex_types]) (simp add: ex_types_def)
  have g: "UUID_Get_List (e_registry ex_env) UUID_TYPE_NUGGET_TYPE = Some l"
    using l(1) by (simp add: ex_env_def UUID_Get_List_def)
  have c: "uuid_compare_ref u t = 0 \<longleftrightarrow> u = t" for u t using uuid_compare_ref_ok by (simp add: uuid_compare_ok_def)
  have u: "e_uuid_compare ex_env = uuid_compare_ref" by (simp add: ex_env_def ref_env_def)
  show ?thesis
    using UUID_getNodeByName_uuids [OF l(2) g, of "''DISPATCHER''"] g
    by (auto simp: types_known_def ConnectedEntity_IsDispatcherType_def is_dispatcher_def UUID_Is_Named_UUID_def
        UUID_Get_UUID_def u c ex_types_def)
qed

lemma no_addresses: "addresses (StringList_Create True True True) []"
  using table_create [of "Some String_Cmp" String_KeyCmp "Some String_Delete" "Some (\<lambda>x s. (String_Clone True (Some x), s))"]
  by (auto simp: addresses_def StringList_Create_def List_Create_def)

lemma ex_message_from:
  obtains m :: "(unit, unit) msg" where "hello_from ex_env ex_is junk m (replicate 16 i) (ex_hello loc prio)"
proof -
  obtain m :: "(unit, unit) msg" and l where m: "headers m = Some l" "m_type m = MESSAGE_TYPE_HELLO" "message m = Some (P_Hello (ex_hello loc prio))"
    "table MessageHeader_KeyCmp l [\<lparr>MessageHeader.sName = ''Source_Nugget'', sValue = e_uuid_unparse ex_env (replicate 16 i)\<rparr>,
        \<lparr>MessageHeader.sName = ''Dest_Nugget'', sValue = e_uuid_unparse ex_env (replicate 16 0)\<rparr>]"
    using Message_Create_Directed_headers [OF ex_env_good, of MESSAGE_TYPE_HELLO MESSAGE_VERSION_1
        "Some (P_Hello (ex_hello loc prio)) :: (unit, unit) payload option" "replicate 16 i" "replicate 16 0"] by blast
  have "Message_Get_Nuggets ex_env m junk junk = Some (True, replicate 16 i, replicate 16 0)"
    using env_good_uuid [OF ex_env_good] by (simp add: Message_Get_Nuggets_def m(1) table_find [OF m(4)] header_keyed.kc_key del: List_Find.simps)
  then show thesis using m no_addresses by (intro that) (auto simp: hello_from_def ex_hello_def)
qed

lemma ex_hello_step:
  assumes e: "entity_env ex_env ex_is trl ex_supp ex_conf" and r: "entity_reach ex_env ex_is trl ex_supp ex_conf M ns hs"
    and "replicate 16 i \<notin> n_id ` set ns"
  obtains M' where "entity_reach ex_env ex_is trl ex_supp ex_conf M' (ns @ [ex_nugget i loc prio now]) hs"
proof -
  obtain m :: "(unit, unit) msg" where m: "hello_from ex_env ex_is [] m (replicate 16 i) (ex_hello loc prio)" by (rule ex_message_from)
  obtain as where as: "module_holds ex_env ex_is M as hs" "nuggets (es M) as = ns" using entity_reach_holds [OF e r] by blast
  obtain M' where "ConnectedEntityList_Update ex_env trl [] now M m = Some (True, M')" using Update_refines [OF as(1) e m, of now] by blast
  moreover have "hello_nuggets ex_is ex_supp (replicate 16 i) (ex_hello loc prio) now ns = ns @ [ex_nugget i loc prio now]"
    using assms(3) addresses_texts [OF no_addresses]
    by (simp add: hello_nuggets_def refresh_def new_nugget_def ex_nugget_def ex_hello_def no_hello_def)
  ultimately show thesis using that entity_reach.hello [OF r m, of now True M'] by simp
qed

lemma ex_entity_env:
  obtains trl where "entity_env ex_env ex_is trl ex_supp ex_conf"
proof -
  let ?X = "\<lparr>x_alloc = (\<lambda>a. True), x_mem = (\<lambda>a. True), x_skip = None, x_dlopen = (\<lambda>p. False), x_dlsym = False,
     x_plugin = (\<lambda>l. (False, l)), x_so_version = [], x_lib_dir = []\<rparr>"
  obtain l where "table Transport_KeyCmp l all_transports"
    using Transfer_Init_traditional [of ?X ex_conf] by (auto simp: ex_conf_def Config_getTransferMode_def string_var_def)
  then have "entity_env ex_env ex_is (Some l) ex_supp ex_conf"
    using ex_env_good ex_types_known all_supported
    by (simp add: entity_env_def ex_conf_def Config_getHelloTime_def u32_var_def int_var_def backup_localities_def Config_getLocalityBackupCount_def)
  then show thesis by (rule that)
qed

text \<open>Two dispatchers, the first one elsewhere and the second one in the own locality, and a listener.\<close>
lemma ex_reach:
  obtains trl M where "entity_env ex_env ex_is trl ex_supp ex_conf"
    and "entity_reach ex_env ex_is trl ex_supp ex_conf M [ex_nugget 1 7 3 100, ex_nugget 2 2 5 110] [4]"
proof -
  obtain trl where e: "entity_env ex_env ex_is trl ex_supp ex_conf" by (rule ex_entity_env)
  obtain M0 where "ConnectedEntityList_Start ex_env ex_conf no_entities = (True, M0)" "module_holds ex_env ex_is M0 [] []"
    using Start_holds [of ex_env ex_conf ex_is] e unfolding entity_env_def by blast
  moreover from this obtain M1 where "ConnectedEntityList_AddPruneListener ex_env M0 4 = Some (True, M1)"
    using AddPruneListener_holds [of ex_env ex_is M0 "[]" "[]" 4] ex_env_good by blast
  ultimately have r: "entity_reach ex_env ex_is trl ex_supp ex_conf M1 [] [4]"
    using entity_reach.listen [OF entity_reach.start] by force
  obtain M2 where r2: "entity_reach ex_env ex_is trl ex_supp ex_conf M2 [ex_nugget 1 7 3 100] [4]"
    by (rule ex_hello_step [OF e r, of 1 7 3 100]) auto
  obtain M3 where "entity_reach ex_env ex_is trl ex_supp ex_conf M3 [ex_nugget 1 7 3 100, ex_nugget 2 2 5 110] [4]"
    by (rule ex_hello_step [OF e r2, of 2 2 5 110]) (auto simp: ex_nugget_def)
  with e show thesis by (rule that)
qed

section \<open>Properties\<close>

text \<open>C5: Where the allocations succeed and the registry and the transports answer, take any sequence of hello
  messages from well-formed senders, prunings, new listeners, marks of nuggets that are no other than
  dispatchers, and the three selections, after the start. Then the module holds exactly the nuggets that the
  sequence gives on plain lists, never two with one identifier; exactly dispatchers have a dispatcher part; and the
  stop is defined and releases every entity once. Each next operation is defined and leads to such a state again:
  a hello message refreshes the nugget with its identifier or adds it at the end, pruning drops the ones silent for
  too long, a mark makes the dispatcher unusable and reports whether there is one, and the selections change
  nothing; the dedicated dispatcher is the first with that flag. The counts, the search for a slave and the
  traversal with a reading callback give what they give on the plain list. Marking a nugget that is no dispatcher is
  undefined. The release by the caller of the copies that selections return is not among the steps.\<close>
theorem entities_reachable:
  assumes "entity_env E isD trl supp conf" and "entity_reach E isD trl supp conf M ns hs"
  shows "distinct (map n_id ns) \<and> (\<forall>n \<in> set ns. (n_disp n \<noteq> None) = isD (n_type n))
    \<and> (\<exists>as. module_holds E isD M as hs \<and> nuggets (es M) as = ns
        \<and> (\<exists>M'. ConnectedEntityList_Stop M = Some M' \<and> \<not> ents_fault (es M')
             \<and> ents_freed (es M') = ents_freed (es M) @ rev as))
    \<and> (\<forall>junk (msg :: (unit, unit) msg) u h now. hello_from E isD junk msg u h \<longrightarrow>
        (\<exists>M'. ConnectedEntityList_Update E trl junk now M msg = Some (True, M')
           \<and> entity_reach E isD trl supp conf M' (hello_nuggets isD supp u h now ns) hs))
    \<and> (\<forall>now. \<exists>M'. ConnectedEntityList_Prune E conf now M = Some M'
        \<and> entity_reach E isD trl supp conf M' (filter (\<lambda>n. \<not> dead conf now n) ns) hs)
    \<and> (\<forall>k. \<exists>M'. ConnectedEntityList_AddPruneListener E M k = Some (True, M') \<and> entity_reach E isD trl supp conf M' ns (hs @ [k]))
    \<and> (\<forall>u. if \<exists>n \<in> set ns. n_id n = u \<and> \<not> isD (n_type n) then ConnectedEntityList_MarkDispatcherUnusable M u = None
        else \<exists>M'. ConnectedEntityList_MarkDispatcherUnusable M u = Some (u \<in> n_id ` set ns, M')
          \<and> entity_reach E isD trl supp conf M' (map (unusable u) ns) hs)
    \<and> (\<exists>r path M'. ConnectedEntityList_GetDispatcher E conf M = Some (r, path, M') \<and> entity_reach E isD trl supp conf M' ns hs)
    \<and> (\<exists>r M'. ConnectedEntityList_GetDispatcher_HighestPriority E M = Some (r, M') \<and> entity_reach E isD trl supp conf M' ns hs)
    \<and> (\<exists>r M'. ConnectedEntityList_GetDedicatedDispatcher E M = Some (r, M') \<and> entity_reach E isD trl supp conf M' ns hs
        \<and> map_option (\<lambda>a. view (the (ents (es M') a))) r = find (n_flag DISP_HELLO_FLAG_DD) ns)
    \<and> ConnectedEntityList_GetCount M = length ns
    \<and> ConnectedEntityList_CountDispatchers E M = Some (of_nat (length (filter (\<lambda>n. isD (n_type n)) ns)))
    \<and> ConnectedEntityList_CountUsableDispatchers E M = Some (of_nat (length (filter (\<lambda>n. isD (n_type n) \<and> n_usable n) ns)))
    \<and> (\<forall>loc. ConnectedEntityList_SlaveInLocality E M loc = Some (\<exists>n \<in> set ns. n_locality n = loc \<and> n_flag DISP_HELLO_FLAG_LS n))
    \<and> (\<forall>f g (v :: 'u). reads_entity (es M) f g \<longrightarrow> ConnectedEntityList_ForEach_Entity M f v = Some (True, fold g ns v, M))"
proof -
  obtain as where as: "module_holds E isD M as hs" "nuggets (es M) as = ns" using entity_reach_holds [OF assms] by blast
  have s: "store_ok isD (es M) as" "distinct (map n_id ns)"
    by (rule module_holdsD [OF as(1)], use as(2) in simp)+
  have e: "env_good E" "types_known E isD" using assms(1) by (simp_all add: entity_env_def)
  note c = counts_hold [OF as(1) e(2), unfolded as(2)] and d = Dedicated_first [OF as(1) e(1), unfolded as(2)]
  have parts: "\<forall>n \<in> set ns. (n_disp n \<noteq> None) = isD (n_type n)" using dispatcher_parts [OF s(1)] as(2) by simp
  have stop: "\<exists>as. module_holds E isD M as hs \<and> nuggets (es M) as = ns
        \<and> (\<exists>M'. ConnectedEntityList_Stop M = Some M' \<and> \<not> ents_fault (es M') \<and> ents_freed (es M') = ents_freed (es M) @ rev as)"
    using as Stop_holds [OF as(1)] by (intro exI [of _ as]) blast
  have ded: "\<exists>r M'. ConnectedEntityList_GetDedicatedDispatcher E M = Some (r, M') \<and> entity_reach E isD trl supp conf M' ns hs
        \<and> map_option (\<lambda>a. view (the (ents (es M') a))) r = find (n_flag DISP_HELLO_FLAG_DD) ns"
    using d entity_reach.dedicated [OF assms(2)] by blast
  have each: "ConnectedEntityList_ForEach_Entity M f v = Some (True, fold g ns v, M)" if "reads_entity (es M) f g" for f g and v :: 'u
    using ForEach_Entity_fold [OF as(1) that] as(2) by simp
  show ?thesis
    by (intro conjI allI impI)
      (rule s(2), rule parts, rule stop, erule reach_hello [OF assms], rule reach_prune [OF assms],
        rule reach_listen [OF assms], rule reach_mark [OF assms], rule reach_select(1) [OF assms], rule reach_select(2) [OF assms],
        rule ded, rule c(1), rule c(2), rule c(3), rule c(4), erule each)
qed

theorem entities_reachable_witness:
  "\<exists>trl M as M'. entity_reach ex_env ex_is trl ex_supp ex_conf M [ex_nugget 1 7 3 100, ex_nugget 2 2 5 110] [4]
    \<and> nuggets (es M) as = [ex_nugget 1 7 3 100, ex_nugget 2 2 5 110]
    \<and> ConnectedEntityList_CountDispatchers ex_env M = Some 2
    \<and> ConnectedEntityList_Stop M = Some M' \<and> \<not> ents_fault (es M')"
proof -
  obtain trl M where r: "entity_env ex_env ex_is trl ex_supp ex_conf"
    "entity_reach ex_env ex_is trl ex_supp ex_conf M [ex_nugget 1 7 3 100, ex_nugget 2 2 5 110] [4]" by (rule ex_reach)
  let ?ns = "[ex_nugget 1 7 3 100, ex_nugget 2 2 5 110]"
  have "ConnectedEntityList_CountDispatchers ex_env M = Some (of_nat (length (filter (\<lambda>n. ex_is (n_type n)) ?ns)))"
    using entities_reachable [OF r, where 'u = unit] by (elim conjE)
  then have c: "ConnectedEntityList_CountDispatchers ex_env M = Some 2" by (simp add: ex_nugget_def)
  have "\<exists>as. module_holds ex_env ex_is M as [4] \<and> nuggets (es M) as = ?ns
        \<and> (\<exists>M'. ConnectedEntityList_Stop M = Some M' \<and> \<not> ents_fault (es M') \<and> ents_freed (es M') = ents_freed (es M) @ rev as)"
    using entities_reachable [OF r, where 'u = unit] by (elim conjE)
  then show ?thesis using r(2) c by blast
qed

text \<open>C37: Pruning removes exactly the nuggets whose last hello message is older than the dead time, releases each
  of them once, and tells every listener, in the order of the list, with the number of nuggets of the same type and
  application that the list holds besides it. The ones that the same pass removes are still counted: when the last
  two of a kind are removed together, the listeners are told twice that one is left.\<close>
theorem Prune_tells_listeners:
  assumes "entity_env E isD trl supp conf" and "entity_reach E isD trl supp conf M ns hs"
  shows "\<exists>M' as gone. ConnectedEntityList_Prune E conf now M = Some M'
    \<and> module_holds E isD M as hs \<and> nuggets (es M) as = ns
    \<and> gone = filter (\<lambda>a. dead conf now (view (the (ents (es M) a)))) as
    \<and> entity_reach E isD trl supp conf M' (filter (\<lambda>n. \<not> dead conf now n) ns) hs
    \<and> ents_freed (es M') = ents_freed (es M) @ gone
    \<and> hook_calls (es M') = hook_calls (es M) @ concat (map (\<lambda>a. map (\<lambda>k.
        (k, a, of_nat (length (filter (same_kind (view (the (ents (es M) a)))) ns)) - 1)) hs) gone)"
proof -
  obtain as where as: "module_holds E isD M as hs" "nuggets (es M) as = ns" using entity_reach_holds [OF assms] by blast
  obtain M' where M': "ConnectedEntityList_Prune E conf now M = Some M'"
    "ents_freed (es M') = ents_freed (es M) @ filter (\<lambda>a. dead conf now (view (the (ents (es M) a)))) as"
    "hook_calls (es M') = hook_calls (es M) @ concat (map (\<lambda>a. told hs (nuggets (es M) as) a (view (the (ents (es M) a))))
       (filter (\<lambda>a. dead conf now (view (the (ents (es M) a)))) as))"
    using Prune_refines [OF as(1), of conf now] assms(1) unfolding entity_env_def by blast
  show ?thesis using as M' entity_reach.prune [OF assms(2) M'(1)]
    by (intro exI [of _ M'] exI [of _ as] exI) (simp add: told_def)
qed

theorem Prune_tells_listeners_witness:
  "\<exists>trl M M' a b calls. entity_reach ex_env ex_is trl ex_supp ex_conf M [ex_nugget 1 7 3 100, ex_nugget 2 2 5 110] [4]
    \<and> ConnectedEntityList_Prune ex_env ex_conf (\<lambda>_. 500) M = Some M' \<and> entity_reach ex_env ex_is trl ex_supp ex_conf M' [] [4]
    \<and> hook_calls (es M') = calls @ [(4, a, 1), (4, b, 1)]"
proof -
  obtain trl M where r: "entity_env ex_env ex_is trl ex_supp ex_conf"
    "entity_reach ex_env ex_is trl ex_supp ex_conf M [ex_nugget 1 7 3 100, ex_nugget 2 2 5 110] [4]" by (rule ex_reach)
  let ?ns = "[ex_nugget 1 7 3 100, ex_nugget 2 2 5 110]"
  obtain M' as where p: "ConnectedEntityList_Prune ex_env ex_conf (\<lambda>_. 500) M = Some M'" "nuggets (es M) as = ?ns"
    "entity_reach ex_env ex_is trl ex_supp ex_conf M' (filter (\<lambda>n. \<not> dead ex_conf (\<lambda>_. 500) n) ?ns) [4]"
    "hook_calls (es M') = hook_calls (es M) @ concat (map (\<lambda>a. map (\<lambda>k.
        (k, a, of_nat (length (filter (same_kind (view (the (ents (es M) a)))) ?ns)) - 1)) [4])
        (filter (\<lambda>a. dead ex_conf (\<lambda>_. 500) (view (the (ents (es M) a)))) as))"
    using Prune_tells_listeners [OF r, of "\<lambda>_. 500"] by blast
  obtain a b where as: "as = [a, b]" "view (the (ents (es M) a)) = ex_nugget 1 7 3 100" "view (the (ents (es M) b)) = ex_nugget 2 2 5 110"
    using p(2) by (auto simp: nuggets_def)
  have "dead ex_conf (\<lambda>_. 500) (ex_nugget 1 7 3 100)" "dead ex_conf (\<lambda>_. 500) (ex_nugget 2 2 5 110)"
    by (simp_all add: dead_def ex_nugget_def ex_conf_def Config_getDeadTime_def u32_var_def int_var_def)
  then show ?thesis using r(2) p(1,3,4) as by (simp add: same_kind_def ex_nugget_def) blast
qed

text \<open>C38: The dispatcher that is selected for a submission is the first usable one of the list, whatever its
  locality, the own locality and the order of backup localities are; it is reported as local. The comparison of
  keys lets the last criterion decide, so that the search by locality and usability matches every usable
  dispatcher.\<close>
theorem GetDispatcher_ignores_locality:
  assumes "entity_env E isD trl supp conf" and "entity_reach E isD trl supp conf M ns hs"
  shows "\<exists>M' r. ConnectedEntityList_GetDispatcher E conf M = Some (r, if r = None then ''none'' else ''local'', M')
    \<and> entity_reach E isD trl supp conf M' ns hs
    \<and> map_option (\<lambda>a. view (the (ents (es M') a))) r = find n_usable (filter (\<lambda>n. isD (n_type n)) ns)"
proof -
  obtain as where as: "module_holds E isD M as hs" "nuggets (es M) as = ns" using entity_reach_holds [OF assms] by blast
  obtain M' r where r: "ConnectedEntityList_GetDispatcher E conf M = Some (r, if r = None then ''none'' else ''local'', M')"
    "map_option (\<lambda>a. view (the (ents (es M') a))) r = find n_usable (filter (\<lambda>n. isD (n_type n)) (nuggets (es M) as))"
    using GetDispatcher_first [OF as(1), of conf] assms(1) unfolding entity_env_def by blast
  show ?thesis using r entity_reach.select [OF assms(2) r(1)] as(2) by (intro exI [of _ M'] exI [of _ r]) simp
qed

theorem GetDispatcher_ignores_locality_witness:
  "\<exists>trl M M' a. entity_reach ex_env ex_is trl ex_supp ex_conf M [ex_nugget 1 7 3 100, ex_nugget 2 2 5 110] [4]
    \<and> Config_getLocalityId ex_conf = 2
    \<and> ConnectedEntityList_GetDispatcher ex_env ex_conf M = Some (Some a, ''local'', M')
    \<and> view (the (ents (es M') a)) = ex_nugget 1 7 3 100"
proof -
  obtain trl M where r: "entity_env ex_env ex_is trl ex_supp ex_conf"
    "entity_reach ex_env ex_is trl ex_supp ex_conf M [ex_nugget 1 7 3 100, ex_nugget 2 2 5 110] [4]" by (rule ex_reach)
  have "Config_getLocalityId ex_conf = 2" by (simp add: ex_conf_def Config_getLocalityId_def u32_var_def int_var_def)
  moreover have "find n_usable (filter (\<lambda>n. ex_is (n_type n)) [ex_nugget 1 7 3 100, ex_nugget 2 2 5 110]) = Some (ex_nugget 1 7 3 100)"
    by (simp add: ex_nugget_def n_usable_def)
  moreover obtain M' d where d: "ConnectedEntityList_GetDispatcher ex_env ex_conf M = Some (d, if d = None then ''none'' else ''local'', M')"
    "map_option (\<lambda>a. view (the (ents (es M') a))) d =
       find n_usable (filter (\<lambda>n. ex_is (n_type n)) [ex_nugget 1 7 3 100, ex_nugget 2 2 5 110])"
    using GetDispatcher_ignores_locality [OF r] by blast
  ultimately obtain a where "d = Some a" "view (the (ents (es M') a)) = ex_nugget 1 7 3 100" by auto
  then show ?thesis using r(2) d(1) \<open>Config_getLocalityId ex_conf = 2\<close>
    by (intro exI [of _ trl] exI [of _ M] exI [of _ M'] exI [of _ a]) simp
qed

text \<open>C39: The dispatcher with the highest priority is found: the copy that is returned is one of the dispatchers,
  none of them has a higher priority, and nothing is returned only if there is no dispatcher.\<close>
theorem GetDispatcher_HighestPriority_correct:
  assumes "entity_env E isD trl supp conf" and "entity_reach E isD trl supp conf M ns hs"
  shows "\<exists>M' r. ConnectedEntityList_GetDispatcher_HighestPriority E M = Some (r, M')
    \<and> entity_reach E isD trl supp conf M' ns hs
    \<and> (case r of
         None \<Rightarrow> \<forall>n \<in> set ns. \<not> isD (n_type n)
       | Some a \<Rightarrow> view (the (ents (es M') a)) \<in> set ns \<and> isD (n_type (view (the (ents (es M') a))))
           \<and> (\<forall>n \<in> set ns. isD (n_type n) \<longrightarrow> n_priority n \<le> n_priority (view (the (ents (es M') a)))))"
proof -
  obtain as where as: "module_holds E isD M as hs" "nuggets (es M) as = ns" using entity_reach_holds [OF assms] by blast
  have e: "env_good E" "types_known E isD" using assms(1) by (simp_all add: entity_env_def)
  show ?thesis using HighestPriority_max [OF as(1) e] entity_reach.highest [OF assms(2)] unfolding as(2) by blast
qed

theorem GetDispatcher_HighestPriority_correct_witness:
  "\<exists>trl M M' a. entity_reach ex_env ex_is trl ex_supp ex_conf M [ex_nugget 1 7 3 100, ex_nugget 2 2 5 110] [4]
    \<and> ConnectedEntityList_GetDispatcher_HighestPriority ex_env M = Some (Some a, M')
    \<and> view (the (ents (es M') a)) = ex_nugget 2 2 5 110"
proof -
  obtain trl M where r: "entity_env ex_env ex_is trl ex_supp ex_conf"
    "entity_reach ex_env ex_is trl ex_supp ex_conf M [ex_nugget 1 7 3 100, ex_nugget 2 2 5 110] [4]" by (rule ex_reach)
  let ?ns = "[ex_nugget 1 7 3 100, ex_nugget 2 2 5 110]"
  obtain M' d where d: "ConnectedEntityList_GetDispatcher_HighestPriority ex_env M = Some (d, M')"
    "case d of
         None \<Rightarrow> \<forall>n \<in> set ?ns. \<not> ex_is (n_type n)
       | Some a \<Rightarrow> view (the (ents (es M') a)) \<in> set ?ns \<and> ex_is (n_type (view (the (ents (es M') a))))
           \<and> (\<forall>n \<in> set ?ns. ex_is (n_type n) \<longrightarrow> n_priority n \<le> n_priority (view (the (ents (es M') a))))"
    using GetDispatcher_HighestPriority_correct [OF r] by blast
  have "n_priority (ex_nugget 1 7 3 100) = 3" "n_priority (ex_nugget 2 2 5 110) = 5" "\<forall>n \<in> set ?ns. ex_is (n_type n)"
    by (simp_all add: ex_nugget_def n_priority_def)
  then obtain a where "d = Some a" "view (the (ents (es M') a)) = ex_nugget 2 2 5 110" using d(2) by (auto split: option.splits)
  then show ?thesis using r(2) d(1) by (intro exI [of _ trl] exI [of _ M] exI [of _ M'] exI [of _ a]) simp
qed

end
