(* ===== verification/Block_Pool.thy ===== *)
theory Block_Pool
  imports Messages_CnC Runtime_Config
begin

text \<open>
  The pool of data blocks that wait for submission, \<open>src/block_pool.c\<close>, and the recognition of their data
  type, \<open>src/fantasia.c\<close>.

  An item is shared between the pool, the queues of the submission and the collectors by its address, so the
  list of the pool holds addresses and the items live in a store, which is the state of the callbacks of the
  list. The mutex of an item is a flag: to take it when it is taken, or to destroy it then, sets the fault
  flag, as does the use of an item that was released. The mutex of the size is not recursive; an operation that
  takes it twice has no outcome. The functions of libmagic and of the file system are parameters; traces are
  not modelled.
\<close>

section \<open>Data\<close>

text \<open>\<open>struct BlockPoolData\<close>; what the pointer and the stream of its \<open>struct BlockData\<close> refer to.\<close>
record BlockPoolData =
  iLength :: u32
  iFlags :: int
  pointer :: "bytes option"
  fstream :: "FILE option"
  fileName :: "string option"
  tempFile :: bool

abbreviation (input) "BLOCK_POOL_DATA_FLAG_FILE \<equiv> (1 :: int)"
abbreviation (input) "BLOCK_POOL_DATA_FLAG_MALLOCD \<equiv> (2 :: int)"
abbreviation (input) "BLOCK_POOL_DATA_FLAG_MANAGED \<equiv> (4 :: int)"

text \<open>
  \<open>struct BlockPoolItem\<close>. The chain from \<open>pDataHead\<close> to \<open>pDataTail\<close> is a list; a context is identified by
  its address, a callback by a number.
\<close>
record ('ctx, 'md) BlockPoolItem =
  locked :: bool
  iStatus :: u32
  pData :: "BlockPoolData list"
  submittedCallback :: "nat option"
  pContext :: addr
  pEvent :: "('ctx, 'md) Event option"

abbreviation (input) "BLOCK_POOL_STATUS_MASK \<equiv> (0x000000FF :: u32)"
abbreviation (input) "BLOCK_POOL_STATUS_COLLECTING \<equiv> (0x01 :: u32)"
abbreviation (input) "BLOCK_POOL_STATUS_FINALIZED \<equiv> (0x02 :: u32)"
abbreviation (input) "BLOCK_POOL_STATUS_CHECK_GLOBAL_CACHE \<equiv> (0x04 :: u32)"
abbreviation (input) "BLOCK_POOL_STATUS_CHECKING_GLOBAL_CACHE \<equiv> (0x08 :: u32)"
abbreviation (input) "BLOCK_POOL_STATUS_SUBMIT_DATA \<equiv> (0x10 :: u32)"
abbreviation (input) "BLOCK_POOL_STATUS_ERROR \<equiv> (0x20 :: u32)"
abbreviation (input) "BLOCK_POOL_STATUS_NO_TYPE \<equiv> (0x21 :: u32)"
abbreviation (input) "BLOCK_POOL_FLAG_MASK \<equiv> (0xFF000000 :: u32)"
abbreviation (input) "BLOCK_POOL_FLAG_MAY_REUSE \<equiv> (0x01000000 :: u32)"
abbreviation (input) "BLOCK_POOL_FLAG_UPDATE \<equiv> (0x02000000 :: u32)"
abbreviation (input) "BLOCK_POOL_FLAG_EVENT_ONLY \<equiv> (0x04000000 :: u32)"

text \<open>What happens outside the pool: items and data released, files removed, callbacks with the status at the time.\<close>
datatype pool_event =
    Item_Freed addr
  | Data_Freed bytes
  | Unlinked string
  | Submitted nat addr u32

text \<open>The items by address, the next address, the size of the data, what happened, and the fault flag.\<close>
record ('ctx, 'md) pool_store =
  items :: "addr \<Rightarrow> ('ctx, 'md) BlockPoolItem option"
  items_brk :: addr
  sg_size :: u64
  pool_log :: "pool_event list"
  pool_fault :: bool

type_synonym ('ctx, 'md) pool_list = "(addr, unit, ('ctx, 'md) pool_store) List_t"

text \<open>The static variables.\<close>
record ('ctx, 'md) block_pool =
  sg_bpList :: "('ctx, 'md) pool_list option"
  ps :: "('ctx, 'md) pool_store"

text \<open>
  The surroundings: allocations by site, node memory, OpenSSL, libuuid, the registry, the configuration, the
  clock, opening a file with its size, and libmagic.
\<close>
record ('ctx, 'md) pool_env =
  p_alloc :: "string \<Rightarrow> bool"
  p_mem :: "addr \<Rightarrow> bool"
  p_evp :: "('ctx, 'md) evp"
  p_uuid_compare :: "uuid \<Rightarrow> uuid \<Rightarrow> int"
  p_uuid_is_null :: "uuid \<Rightarrow> bool"
  p_registry :: uuid_registry
  p_conf :: "conf_var conf_store"
  p_clock :: "(u64 \<times> u64) option"
  p_fopen :: "string \<Rightarrow> FILE option"
  p_fstat :: "string \<Rightarrow> u64 option"
  p_magic_open :: bool
  p_magic_descriptor :: "FILE \<Rightarrow> string option"
  p_magic_buffer :: "bytes \<Rightarrow> string option"
  p_magic_error :: bool

section \<open>Access to items\<close>

text \<open>An assignment through a pointer to an item.\<close>
definition upd_item ::
  "addr \<Rightarrow> (('ctx, 'md) BlockPoolItem \<Rightarrow> ('ctx, 'md) BlockPoolItem) \<Rightarrow> ('ctx, 'md) pool_store \<Rightarrow> ('ctx, 'md) pool_store" where
  "upd_item a f s =
     (case items s a of None \<Rightarrow> s\<lparr>pool_fault := True\<rparr> | Some it \<Rightarrow> s\<lparr>items := (items s)(a \<mapsto> f it)\<rparr>)"

text \<open>The pointers \<open>pEvent->pBlock->pId\<close>; a null pointer on the way is undefined.\<close>
definition block_id :: "('ctx, 'md) BlockPoolItem \<Rightarrow> ('ctx, 'md) BlockId option" where
  "block_id it = (case BlockPoolItem.pEvent it of Some (Event _ _ _ _ (Some (Block i _ _ _ _)) _) \<Rightarrow> i | _ \<Rightarrow> None)"

definition set_block_id :: "('ctx, 'md) BlockId \<Rightarrow> ('ctx, 'md) BlockPoolItem \<Rightarrow> ('ctx, 'md) BlockPoolItem" where
  "set_block_id i it =
     (case BlockPoolItem.pEvent it of
        Some (Event e pe par app (Some (Block _ pid pb m d)) ms) \<Rightarrow>
          it\<lparr>pEvent := Some (Event e pe par app (Some (Block (Some i) pid pb m d)) ms)\<rparr>
      | _ \<Rightarrow> it)"

definition BlockPool_Item_Lock :: "addr \<Rightarrow> ('ctx, 'md) pool_store \<Rightarrow> ('ctx, 'md) pool_store" where
  "BlockPool_Item_Lock a s =
     (case items s a of
        None \<Rightarrow> s\<lparr>pool_fault := True\<rparr>
      | Some it \<Rightarrow> if locked it then s\<lparr>pool_fault := True\<rparr> else upd_item a (\<lambda>it. it\<lparr>locked := True\<rparr>) s)"

definition BlockPool_Item_Unlock :: "addr \<Rightarrow> ('ctx, 'md) pool_store \<Rightarrow> ('ctx, 'md) pool_store" where
  "BlockPool_Item_Unlock a s = upd_item a (\<lambda>it. it\<lparr>locked := False\<rparr>) s"

definition BlockPool_SetStatus :: "u32 \<Rightarrow> ('ctx, 'md) BlockPoolItem \<Rightarrow> ('ctx, 'md) BlockPoolItem" where
  "BlockPool_SetStatus p_iStatus it =
     it\<lparr>iStatus := (p_iStatus AND BLOCK_POOL_STATUS_MASK) OR (iStatus it AND BLOCK_POOL_FLAG_MASK)\<rparr>"

definition BlockPool_GetStatus :: "('ctx, 'md) BlockPoolItem \<Rightarrow> u32" where
  "BlockPool_GetStatus it = iStatus it AND BLOCK_POOL_STATUS_MASK"

definition BlockPool_SetFlags :: "u32 \<Rightarrow> ('ctx, 'md) BlockPoolItem \<Rightarrow> ('ctx, 'md) BlockPoolItem" where
  "BlockPool_SetFlags p_iFlags it =
     it\<lparr>iStatus := (p_iFlags AND BLOCK_POOL_FLAG_MASK) OR (iStatus it AND BLOCK_POOL_STATUS_MASK)\<rparr>"

section \<open>Destruction\<close>

definition log_event :: "pool_event \<Rightarrow> ('ctx, 'md) pool_store \<Rightarrow> ('ctx, 'md) pool_store" where
  "log_event e s = s\<lparr>pool_log := pool_log s @ [e]\<rparr>"

text \<open>The switch over the flags of one piece of data.\<close>
definition release_data :: "BlockPoolData \<Rightarrow> ('ctx, 'md) pool_store \<Rightarrow> ('ctx, 'md) pool_store" where
  "release_data d s =
     (if BlockPoolData.iFlags d = BLOCK_POOL_DATA_FLAG_FILE
      then (case fileName d of
              None \<Rightarrow> s
            | Some n \<Rightarrow> if tempFile d then log_event (Unlinked n) s else s)
      else if BlockPoolData.iFlags d = BLOCK_POOL_DATA_FLAG_MALLOCD
      then (case pointer d of None \<Rightarrow> s | Some b \<Rightarrow> log_event (Data_Freed b) s)
      else s)"

fun BlockPool_DestroyItemDataList :: "BlockPoolData list \<Rightarrow> ('ctx, 'md) pool_store \<Rightarrow> ('ctx, 'md) pool_store" where
  "BlockPool_DestroyItemDataList [] s = s"
| "BlockPool_DestroyItemDataList (d # ds) s =
     (let s1 = release_data d s
      in BlockPool_DestroyItemDataList ds (s1\<lparr>sg_size := sg_size s1 - ucast (BlockPoolData.iLength d)\<rparr>))"

definition BlockPool_DestroyItemData :: "addr \<Rightarrow> ('ctx, 'md) pool_store \<Rightarrow> ('ctx, 'md) pool_store" where
  "BlockPool_DestroyItemData a s =
     (case items s a of
        None \<Rightarrow> s\<lparr>pool_fault := True\<rparr>
      | Some it \<Rightarrow>
          let ok = (BlockPoolItem.pEvent it = None \<or> Event_Destroy (BlockPoolItem.pEvent it) \<noteq> None) \<and> \<not> locked it;
              s1 = BlockPool_DestroyItemDataList (BlockPoolItem.pData it) s
          in log_event (Item_Freed a) (s1\<lparr>items := (items s1)(a := None), pool_fault := pool_fault s1 \<or> \<not> ok\<rparr>))"

definition BlockPool_Delete :: "addr \<Rightarrow> ('ctx, 'md) pool_store \<Rightarrow> ('ctx, 'md) pool_store" where
  "BlockPool_Delete a s = BlockPool_DestroyItemData a s"

definition BlockPool_DestroyItem :: "addr \<Rightarrow> ('ctx, 'md) block_pool \<Rightarrow> (bool \<times> ('ctx, 'md) block_pool) option" where
  "BlockPool_DestroyItem a P = do {
     (_, l, s) \<leftarrow> List_Remove (sg_bpList P) a (ps P);
     Some (True, P\<lparr>sg_bpList := l, ps := s\<rparr>) }"

section \<open>Creation\<close>

definition BlockPool_Init :: "('ctx, 'md) pool_env \<Rightarrow> ('ctx, 'md) block_pool \<Rightarrow> bool \<times> ('ctx, 'md) block_pool" where
  "BlockPool_Init E P =
     (let l = List_Create (p_alloc E ''List_Create'') (p_alloc E ''List_Create.lock'') True LIST_MODE_GENERIC
                None None (Some BlockPool_Delete) None (Some BlockPool_Item_Lock) (Some BlockPool_Item_Unlock)
      in (l \<noteq> None \<and> p_alloc E ''BlockPool_Init'', P\<lparr>sg_bpList := l\<rparr>))"

text \<open>The identifier of the nugget and the type of the application of a new event.\<close>
definition event_of_context :: "RazorbackContext \<Rightarrow> ('ctx, 'md) Event \<Rightarrow> ('ctx, 'md) Event" where
  "event_of_context ctx ev =
     (case ev of Event i pe par app b m \<Rightarrow>
        Event (map_option (EventId.uuidNuggetId_update (\<lambda>_. RazorbackContext.uuidNuggetId ctx)) i) pe par
          (RazorbackContext.uuidApplicationType ctx) b m)"

text \<open>The argument is the address of a context and the context; the result of the push is ignored.\<close>
definition BlockPool_CreateItem ::
  "('ctx, 'md) pool_env \<Rightarrow> (addr \<times> RazorbackContext) option \<Rightarrow> ('ctx, 'md) block_pool
    \<Rightarrow> (addr option \<times> ('ctx, 'md) block_pool) option" where
  "BlockPool_CreateItem E ctx P =
     (case ctx of
        None \<Rightarrow> Some (None, P)
      | Some (c, cx) \<Rightarrow>
          if Config_getBlockPoolMaxItems (p_conf E) > 0
             \<and> List_Length (sg_bpList P) \<ge> unat (Config_getBlockPoolMaxItems (p_conf E)) then Some (None, P)
          else if \<not> p_alloc E ''BlockPool_CreateItem'' then Some (None, P)
          else do {
            (ev, _) \<leftarrow> Event_Create (p_evp E) (p_uuid_compare E) (p_alloc E) (p_clock E) (Config_getHashType (p_conf E));
            (case ev of
               None \<Rightarrow> Some (None, P)
             | Some e \<Rightarrow>
                 if \<not> p_alloc E ''BlockPool_CreateItem.mutex''
                 then do { _ \<leftarrow> Event_Destroy ev; Some (None, P) }
                 else do {
                   let a = items_brk (ps P);
                   let it = \<lparr>locked = False, iStatus = BLOCK_POOL_STATUS_COLLECTING, pData = [], submittedCallback = None,
                             pContext = c, pEvent = Some (event_of_context cx e)\<rparr>;
                   (_, l) \<leftarrow> List_Push (p_mem E) (sg_bpList P) a;
                   Some (Some a, P\<lparr>sg_bpList := l, ps := (ps P)\<lparr>items := (items (ps P))(a \<mapsto> it), items_brk := a + 1\<rparr>\<rparr>) }) })"

definition BlockPool_GetSize :: "('ctx, 'md) block_pool \<Rightarrow> u64" where
  "BlockPool_GetSize P = sg_size (ps P)"

definition BlockPool_GetItemCount :: "('ctx, 'md) block_pool \<Rightarrow> nat" where
  "BlockPool_GetItemCount P = (case sg_bpList P of None \<Rightarrow> 0 | Some l \<Rightarrow> List_Length (Some l))"

text \<open>The type is written only when the name is found.\<close>
definition BlockPool_SetItemDataType ::
  "('ctx, 'md) pool_env \<Rightarrow> addr \<Rightarrow> string \<Rightarrow> ('ctx, 'md) block_pool \<Rightarrow> (bool \<times> ('ctx, 'md) block_pool) option" where
  "BlockPool_SetItemDataType E a nm P = do {
     it \<leftarrow> items (ps P) a;
     i \<leftarrow> block_id it;
     r \<leftarrow> UUID_Get_UUID (p_registry E) (Some nm) UUID_TYPE_DATA_TYPE;
     Some (case r of
       None \<Rightarrow> (False, P)
     | Some u \<Rightarrow> (True, P\<lparr>ps := upd_item a (set_block_id (i\<lparr>uuidDataType := u\<rparr>)) (ps P)\<rparr>)) }"

section \<open>Adding data\<close>

text \<open>The two limits. A sum of \<open>size_t\<close> wraps.\<close>
definition pool_full :: "('ctx, 'md) pool_env \<Rightarrow> u64 \<Rightarrow> ('ctx, 'md) pool_store \<Rightarrow> bool" where
  "pool_full E n s \<longleftrightarrow> Config_getBlockPoolMaxSize (p_conf E) > 0 \<and> sg_size s + n \<ge> ucast (Config_getBlockPoolMaxSize (p_conf E))"

definition item_full :: "('ctx, 'md) pool_env \<Rightarrow> u64 \<Rightarrow> ('ctx, 'md) BlockId \<Rightarrow> bool" where
  "item_full E n i \<longleftrightarrow> Config_getBlockPoolMaxItemSize (p_conf E) > 0
     \<and> BlockId.iLength i + n \<ge> ucast (Config_getBlockPoolMaxItemSize (p_conf E))"

text \<open>
  A file whose size exceeds the limit of the pool is released while the mutex of the size is held, and the release
  takes that mutex again.
\<close>
definition BlockPool_AddData_FromFile ::
  "('ctx, 'md) pool_env \<Rightarrow> addr option \<Rightarrow> string option \<Rightarrow> bool \<Rightarrow> ('ctx, 'md) block_pool
    \<Rightarrow> (bool \<times> ('ctx, 'md) block_pool) option" where
  "BlockPool_AddData_FromFile E item fname temp P =
     (case (item, fname) of
        (Some a, Some nm) \<Rightarrow>
          if \<not> p_alloc E ''BlockPool_AddData_FromFile'' then Some (False, P)
          else do {
            let d = \<lparr>iLength = 0, iFlags = BLOCK_POOL_DATA_FLAG_FILE, pointer = None, fstream = None,
                     fileName = (if p_alloc E ''BlockPool_AddData_FromFile.fileName'' then Some nm else None), tempFile = temp\<rparr>;
            (case p_fopen E nm of
               None \<Rightarrow> Some (False, P\<lparr>ps := BlockPool_DestroyItemDataList [d] (ps P)\<rparr>)
             | Some f \<Rightarrow>
                 (case p_fstat E nm of
                    None \<Rightarrow> Some (False, P\<lparr>ps := BlockPool_DestroyItemDataList [d] (ps P)\<rparr>)
                  | Some n \<Rightarrow>
                      if pool_full E n (ps P) then None
                      else do {
                        let s1 = (ps P)\<lparr>sg_size := sg_size (ps P) + n\<rparr>;
                        it \<leftarrow> items s1 a;
                        (if locked it then None
                         else if iStatus it \<noteq> BLOCK_POOL_STATUS_COLLECTING
                         then Some (False, P\<lparr>ps := BlockPool_DestroyItemDataList [d] (s1\<lparr>sg_size := sg_size s1 - n\<rparr>)\<rparr>)
                         else do {
                           i \<leftarrow> block_id it;
                           (if item_full E n i
                            then Some (False, P\<lparr>ps := BlockPool_DestroyItemDataList [d] (s1\<lparr>sg_size := sg_size s1 - n\<rparr>)\<rparr>)
                            else do {
                              (_, f1, h1) \<leftarrow> Hash_Update_File (p_evp E) (pHash i) (Some f);
                              let i1 = i\<lparr>BlockId.iLength := BlockId.iLength i + n, pHash := h1\<rparr>;
                              let d1 = d\<lparr>iLength := ucast n, fstream := f1\<rparr>;
                              Some (True, P\<lparr>ps := upd_item a (\<lambda>it. set_block_id i1 it\<lparr>pData := BlockPoolItem.pData it @ [d1]\<rparr>) s1\<rparr>) }) }) })) }
      | _ \<Rightarrow> Some (False, P))"

definition BlockPool_AddData ::
  "('ctx, 'md) pool_env \<Rightarrow> addr option \<Rightarrow> bytes option \<Rightarrow> u32 \<Rightarrow> int \<Rightarrow> ('ctx, 'md) block_pool
    \<Rightarrow> (bool \<times> ('ctx, 'md) block_pool) option" where
  "BlockPool_AddData E item data nbytes fl P =
     (case (item, data) of
        (Some a, Some b) \<Rightarrow>
          if nbytes = 0 then Some (False, P)
          else if pool_full E (ucast nbytes) (ps P) then Some (False, P)
          else do {
            let s1 = (ps P)\<lparr>sg_size := sg_size (ps P) + ucast nbytes\<rparr>;
            let back = P\<lparr>ps := s1\<lparr>sg_size := sg_size s1 - ucast nbytes\<rparr>\<rparr>;
            it \<leftarrow> items s1 a;
            (if locked it then None
             else if iStatus it \<noteq> BLOCK_POOL_STATUS_COLLECTING then Some (False, back)
             else do {
               i \<leftarrow> block_id it;
               (if item_full E (ucast nbytes) i then Some (False, back)
                else if \<not> p_alloc E ''BlockPool_AddData'' then Some (False, back)
                else do {
                  (_, h1) \<leftarrow> Hash_Update (p_evp E) (pHash i) b nbytes;
                  let i1 = i\<lparr>BlockId.iLength := BlockId.iLength i + ucast nbytes, pHash := h1\<rparr>;
                  let d1 = \<lparr>iLength = nbytes, iFlags = fl, pointer = Some b, fstream = None, fileName = None, tempFile = False\<rparr>;
                  Some (True, P\<lparr>ps := upd_item a (\<lambda>it. set_block_id i1 it\<lparr>pData := BlockPoolItem.pData it @ [d1]\<rparr>) s1\<rparr>) }) }) }
      | _ \<Rightarrow> Some (False, P))"

section \<open>The data type\<close>

text \<open>The loop that copies the first bytes of the pieces into the buffer; a piece without memory is undefined.\<close>
fun magic_collect :: "BlockPoolData list \<Rightarrow> bytes \<Rightarrow> bytes option" where
  "magic_collect [] buf = Some buf"
| "magic_collect (d # ds) buf =
     (if length buf < 4096 then do {
        let n = (if length buf + unat (BlockPoolData.iLength d) > 4096 then 4096 - length buf else unat (BlockPoolData.iLength d));
        p \<leftarrow> pointer d;
        (if length p < n then None else magic_collect ds (buf @ take n p)) }
      else Some buf)"

text \<open>The result is whether it succeeded and the item, whose data type is written when libmagic recognises the data.\<close>
definition Magic_process ::
  "('ctx, 'md) pool_env \<Rightarrow> ('ctx, 'md) BlockPoolItem \<Rightarrow> (bool \<times> ('ctx, 'md) BlockPoolItem) option" where
  "Magic_process E it =
     (if \<not> p_magic_open E then Some (False, it)
      else do {
        (mime, ds) \<leftarrow>
          (case BlockPoolItem.pData it of
             [] \<Rightarrow> None
           | d # ds \<Rightarrow>
               if BlockPoolData.iFlags d = BLOCK_POOL_DATA_FLAG_FILE then do {
                 f \<leftarrow> fstream d;
                 Some (p_magic_descriptor E f, d\<lparr>fstream := Some (rewind f)\<rparr> # ds) }
               else do {
                 buf \<leftarrow> magic_collect (d # ds) [];
                 Some (p_magic_buffer E (buf @ [0]), d # ds) });
        let it1 = it\<lparr>pData := ds\<rparr>;
        (case mime of
           None \<Rightarrow> Some (\<not> p_magic_error E, it1)
         | Some m \<Rightarrow> do {
             i \<leftarrow> block_id it1;
             r \<leftarrow> UUID_Get_UUID (p_registry E) (Some m) UUID_TYPE_DATA_TYPE;
             Some (case r of None \<Rightarrow> (False, it1) | Some u \<Rightarrow> (True, set_block_id (i\<lparr>uuidDataType := u\<rparr>) it1)) }) })"

text \<open>The result of the recognition is ignored.\<close>
definition BlockPool_FinalizeItem ::
  "('ctx, 'md) pool_env \<Rightarrow> addr option \<Rightarrow> ('ctx, 'md) block_pool \<Rightarrow> (bool \<times> ('ctx, 'md) block_pool) option" where
  "BlockPool_FinalizeItem E item P =
     (case item of
        None \<Rightarrow> Some (False, P)
      | Some a \<Rightarrow> do {
          it \<leftarrow> items (ps P) a;
          (if iStatus it \<noteq> BLOCK_POOL_STATUS_COLLECTING then Some (False, P)
           else do {
             i \<leftarrow> block_id it;
             (ok, h) \<leftarrow> Hash_Finalize (p_evp E) (pHash i);
             let it1 = set_block_id (i\<lparr>pHash := h\<rparr>) it;
             (if \<not> ok then Some (False, P\<lparr>ps := upd_item a (\<lambda>_. it1) (ps P)\<rparr>)
              else do {
                (_, it2) \<leftarrow> (if p_uuid_is_null E (uuidDataType i) \<and> BlockPoolItem.pData it1 \<noteq> []
                             then Magic_process E it1 else Some (True, it1));
                Some (True, P\<lparr>ps := upd_item a (\<lambda>_. it2\<lparr>iStatus := BLOCK_POOL_STATUS_FINALIZED\<rparr>) (ps P)\<rparr>) }) }) })"

definition BlockPool_GetHash :: "addr \<Rightarrow> ('ctx, 'md) block_pool \<Rightarrow> ('ctx, 'md) Hash option option" where
  "BlockPool_GetHash a P = do { it \<leftarrow> items (ps P) a; i \<leftarrow> block_id it; Some (pHash i) }"

section \<open>Iteration\<close>

definition BlockPool_ForEachItem ::
  "(addr, 'u, ('ctx, 'md) pool_store) each_op \<Rightarrow> 'u \<Rightarrow> ('ctx, 'md) block_pool \<Rightarrow> ('u \<times> ('ctx, 'md) block_pool) option" where
  "BlockPool_ForEachItem f u P = do {
     (_, l, u', s) \<leftarrow> List_ForEach (sg_bpList P) f u (ps P);
     Some (u', P\<lparr>sg_bpList := l, ps := s\<rparr>) }"

text \<open>The user data is the counter.\<close>
definition BlockPool_CountContextItem :: "addr \<Rightarrow> (addr, nat, ('ctx, 'md) pool_store) each_op" where
  "BlockPool_CountContextItem c a n s = do {
     it \<leftarrow> items s a;
     Some (LIST_EACH_OK, (if pContext it = c then n + 1 else n), s) }"

definition BlockPool_GetContextItemCount :: "addr option \<Rightarrow> ('ctx, 'md) block_pool \<Rightarrow> (nat \<times> ('ctx, 'md) block_pool) option" where
  "BlockPool_GetContextItemCount ctx P =
     (case ctx of
        Some c \<Rightarrow> if sg_bpList P = None then Some (0, P) else BlockPool_ForEachItem (BlockPool_CountContextItem c) 0 P
      | None \<Rightarrow> Some (0, P))"

end
