(* ===== verification/Transfers.thy ===== *)
theory Transfers
  imports Block_Pool Connected_Entity
begin

text \<open>
  Storing and fetching of blocks, \<open>src/transfer/core.c\<close>, and the transport over a shared file system,
  \<open>src/transfer/file.c\<close>. The other transports are parameters.

  The file system is a state: the directories, the contents of the files, and the number of writes done. What it
  permits, and how many bytes each write takes, are parameters. A path is a text; its parent ends before the last
  slash. The streams and the mappings of the process are kept by address, as the fields of a block refer to them.
\<close>

section \<open>The file system\<close>

record filesystem =
  fs_dirs :: "string \<Rightarrow> bool"
  fs_files :: "string \<Rightarrow> bytes option"
  fs_writes :: nat

text \<open>The streams and mappings of the process and the next address.\<close>
record handles =
  streams :: "addr \<Rightarrow> FILE option"
  maps :: "addr \<Rightarrow> bytes option"
  handles_brk :: addr

text \<open>
  The surroundings: allocations by site; the permission to make a directory, to read and to write a file; the bytes
  the n-th write takes, nothing when it fails; whether \<open>fstat\<close> and \<open>mmap\<close> work; the other transports.
\<close>
record ('ctx, 'md) file_env =
  y_alloc :: "string \<Rightarrow> bool"
  y_mkdir :: "string \<Rightarrow> bool"
  y_read :: "string \<Rightarrow> bool"
  y_create :: "string \<Rightarrow> bool"
  y_write :: "nat \<Rightarrow> nat option"
  y_remove :: "string \<Rightarrow> bool"
  y_fstat :: bool
  y_mmap :: bool
  y_store :: "transport \<Rightarrow> ('ctx, 'md) BlockPoolItem \<Rightarrow> ConnectedEntity \<Rightarrow> TransferStatus"
  y_fetch :: "transport \<Rightarrow> ('ctx, 'md) Block \<Rightarrow> ConnectedEntity \<Rightarrow> handles \<Rightarrow> TransferStatus \<times> ('ctx, 'md) Block \<times> handles"

text \<open>The directory a path is in.\<close>
definition parent_dir :: "string \<Rightarrow> string" where
  "parent_dir p = rev (drop 1 (dropWhile (\<lambda>c. c \<noteq> CHR ''/'') (rev p)))"

definition path_exists :: "filesystem \<Rightarrow> string \<Rightarrow> bool" where
  "path_exists fs p \<longleftrightarrow> fs_dirs fs p \<or> fs_files fs p \<noteq> None"

text \<open>\<open>mkdir\<close>; \<open>open\<close> for reading; \<open>open\<close> with \<open>O_CREAT | O_TRUNC\<close>.\<close>
definition sys_mkdir :: "('ctx, 'md) file_env \<Rightarrow> string \<Rightarrow> filesystem \<Rightarrow> bool \<times> filesystem" where
  "sys_mkdir Y p fs =
     (if \<not> path_exists fs p \<and> fs_dirs fs (parent_dir p) \<and> y_mkdir Y p
      then (True, fs\<lparr>fs_dirs := (fs_dirs fs)(p := True)\<rparr>) else (False, fs))"

definition can_read :: "('ctx, 'md) file_env \<Rightarrow> string \<Rightarrow> filesystem \<Rightarrow> bool" where
  "can_read Y p fs \<longleftrightarrow> path_exists fs p \<and> y_read Y p"

definition sys_create :: "('ctx, 'md) file_env \<Rightarrow> string \<Rightarrow> filesystem \<Rightarrow> bool \<times> filesystem" where
  "sys_create Y p fs =
     (if fs_dirs fs (parent_dir p) \<and> \<not> fs_dirs fs p \<and> y_create Y p
      then (True, fs\<lparr>fs_files := (fs_files fs)(p \<mapsto> [])\<rparr>) else (False, fs))"

text \<open>\<open>write\<close> at the end of a file: the number of bytes taken, nothing when it fails.\<close>
definition sys_write :: "('ctx, 'md) file_env \<Rightarrow> string \<Rightarrow> bytes \<Rightarrow> filesystem \<Rightarrow> nat option \<times> filesystem" where
  "sys_write Y p b fs =
     (case y_write Y (fs_writes fs) of
        None \<Rightarrow> (None, fs\<lparr>fs_writes := fs_writes fs + 1\<rparr>)
      | Some k \<Rightarrow>
          (Some (min k (length b)),
           fs\<lparr>fs_writes := fs_writes fs + 1, fs_files := (fs_files fs)(p := map_option (\<lambda>c. c @ take k b) (fs_files fs p))\<rparr>))"

section \<open>Names\<close>

definition Transfer_generateFilename :: "(string \<Rightarrow> bool) \<Rightarrow> ('ctx, 'md) BlockId option \<Rightarrow> string option option" where
  "Transfer_generateFilename alloc bid = do {
     i \<leftarrow> bid;
     hash \<leftarrow> Hash_ToText (alloc ''Hash_ToText'') (pHash i);
     Some (case hash of
       None \<Rightarrow> None
     | Some h \<Rightarrow> if \<not> alloc ''Transfer_generateFilename'' then None else Some (h @ ''.'' @ decimal (unat (BlockId.iLength i)))) }"

text \<open>A character of a name; past the end of the text is undefined.\<close>
definition char_at :: "string \<Rightarrow> nat \<Rightarrow> char option" where
  "char_at s k = (if k < length s then Some (s ! k) else None)"

text \<open>\<open>%s\<close> of a null pointer prints as glibc does.\<close>
definition store_base :: "conf_var conf_store \<Rightarrow> string" where
  "store_base conf = (case Config_getLocalityBlockStore conf of None \<Rightarrow> ''(null)'' | Some d \<Rightarrow> d)"

section \<open>Storing over the file system\<close>

definition File_mkdir :: "('ctx, 'md) file_env \<Rightarrow> string \<Rightarrow> filesystem \<Rightarrow> string option \<times> filesystem" where
  "File_mkdir Y dir fs =
     (if \<not> y_alloc Y ''File_mkdir'' then (None, fs)
      else if path_exists fs dir then (Some dir, fs)
      else (case sys_mkdir Y dir fs of (ok, fs1) \<Rightarrow> (if ok then Some dir else None, fs1)))"

text \<open>The four nested directories, one after the other; the name is not tested for null.\<close>
fun make_dirs :: "('ctx, 'md) file_env \<Rightarrow> string \<Rightarrow> char list \<Rightarrow> filesystem \<Rightarrow> string option \<times> filesystem" where
  "make_dirs Y base [] fs = (Some base, fs)"
| "make_dirs Y base (c # cs) fs =
     (case File_mkdir Y (base @ ''/'' @ [c]) fs of
        (None, fs1) \<Rightarrow> (None, fs1)
      | (Some d, fs1) \<Rightarrow> make_dirs Y d cs fs1)"

definition createDirectory ::
  "('ctx, 'md) file_env \<Rightarrow> ('ctx, 'md) BlockId option \<Rightarrow> string \<Rightarrow> filesystem \<Rightarrow> (string option \<times> filesystem) option" where
  "createDirectory Y bid basepath fs = do {
     r \<leftarrow> Transfer_generateFilename (y_alloc Y) bid;
     hash \<leftarrow> r;
     c0 \<leftarrow> char_at hash 0;
     c1 \<leftarrow> char_at hash 1;
     c2 \<leftarrow> char_at hash 2;
     c3 \<leftarrow> char_at hash 3;
     Some (make_dirs Y basepath [c0, c1, c2, c3] fs) }"

text \<open>The loop of \<open>writeWrap\<close>; it does not end when writes keep taking nothing.\<close>
partial_function (option) write_loop ::
  "('ctx, 'md) file_env \<Rightarrow> string \<Rightarrow> bytes \<Rightarrow> int \<Rightarrow> int \<Rightarrow> filesystem \<Rightarrow> (bool \<times> filesystem) option" where
  "write_loop Y path data SizeDword totalbytes fs =
     (if totalbytes < SizeDword
      then (if length data < nat SizeDword then None
            else (case sys_write Y path (take (nat (SizeDword - totalbytes)) (drop (nat totalbytes) data)) fs of
                    (None, fs1) \<Rightarrow> Some (False, fs1)
                  | (Some n, fs1) \<Rightarrow> write_loop Y path data SizeDword (totalbytes + int n) fs1))
      else Some (True, fs))"

text \<open>The length is cast to \<open>int\<close>.\<close>
definition writeWrap :: "('ctx, 'md) file_env \<Rightarrow> string \<Rightarrow> bytes \<Rightarrow> u64 \<Rightarrow> filesystem \<Rightarrow> (bool \<times> filesystem) option" where
  "writeWrap Y path data n fs = write_loop Y path data (sint (ucast n :: u32)) 0 fs"

text \<open>The loop that copies a stream, 4096 bytes at a time; the stream is left where a failed write found it.\<close>
function copy_file ::
  "('ctx, 'md) file_env \<Rightarrow> string \<Rightarrow> FILE \<Rightarrow> filesystem \<Rightarrow> (bool \<times> FILE \<times> filesystem) option" where
  "copy_file Y path f fs =
     (let (data, f1) = fread 4096 f
      in if length data = 0 then Some (True, rewind f1, fs)
         else do {
           (ok, fs1) \<leftarrow> writeWrap Y path data (of_nat (length data)) fs;
           (if ok then copy_file Y path f1 fs1 else Some (False, f1, fs1)) })"
  by pat_completeness auto
termination
proof (relation "measure (\<lambda>(Y, path, f, fs). length (freadable f))", goal_cases)
  case (2 Y path f fs x data f1)
  then have "f1 = snd (fread 4096 f)" and "freadable f \<noteq> []"
    by (auto simp: fread_def Let_def split: prod.splits)
  then show ?case by (simp add: freadable_fread)
qed simp

text \<open>The loop over the pieces of data.\<close>
fun store_data ::
  "('ctx, 'md) file_env \<Rightarrow> string \<Rightarrow> BlockPoolData list \<Rightarrow> filesystem \<Rightarrow> (bool \<times> BlockPoolData list \<times> filesystem) option" where
  "store_data Y path [] fs = Some (True, [], fs)"
| "store_data Y path (d # ds) fs = do {
     (ok, d1, fs1) \<leftarrow>
       (if BlockPoolData.iFlags d = BLOCK_POOL_DATA_FLAG_FILE then do {
          f \<leftarrow> fstream d;
          (ok, f1, fs1) \<leftarrow> copy_file Y path f fs;
          Some (ok, d\<lparr>fstream := Some f1\<rparr>, fs1) }
        else do {
          p \<leftarrow> BlockPoolData.pointer d;
          (ok, fs1) \<leftarrow> writeWrap Y path p (ucast (BlockPoolData.iLength d)) fs;
          Some (ok, d, fs1) });
     (if \<not> ok then Some (False, d1 # ds, fs1)
      else do {
        (ok2, ds1, fs2) \<leftarrow> store_data Y path ds fs1;
        Some (ok2, d1 # ds1, fs2) }) }"

text \<open>A file that is there already counts as stored.\<close>
definition Transfer_File_Store ::
  "('ctx, 'md) file_env \<Rightarrow> conf_var conf_store \<Rightarrow> ('ctx, 'md) BlockPoolItem option \<Rightarrow> filesystem
    \<Rightarrow> (TransferStatus \<times> ('ctx, 'md) BlockPoolItem option \<times> filesystem) option" where
  "Transfer_File_Store Y conf item fs =
     (case item of
        None \<Rightarrow> Some (TRANSFER_FAIL_LOCAL, None, fs)
      | Some it \<Rightarrow> do {
          r \<leftarrow> Transfer_generateFilename (y_alloc Y) (block_id it);
          (case r of
             None \<Rightarrow> Some (TRANSFER_FAIL_LOCAL, item, fs)
           | Some filename \<Rightarrow> do {
               (dir, fs1) \<leftarrow> createDirectory Y (block_id it) (store_base conf) fs;
               (case dir of
                  None \<Rightarrow> Some (TRANSFER_FAIL_LOCAL, item, fs1)
                | Some d \<Rightarrow>
                    if \<not> y_alloc Y ''Transfer_File_Store'' then Some (TRANSFER_FAIL_LOCAL, item, fs1)
                    else do {
                      let path = d @ ''/'' @ filename;
                      (if can_read Y path fs1 then Some (TRANSFER_OK, item, fs1)
                       else (case sys_create Y path fs1 of
                          (False, fs2) \<Rightarrow> Some (TRANSFER_FAIL_LOCAL, item, fs2)
                        | (True, fs2) \<Rightarrow> do {
                            (ok, ds, fs3) \<leftarrow> store_data Y path (BlockPoolItem.pData it) fs2;
                            Some (if ok then TRANSFER_OK else TRANSFER_FAIL_LOCAL, Some (it\<lparr>pData := ds\<rparr>), fs3) })) }) }) })"

section \<open>Fetching over the file system\<close>

text \<open>The data of a block.\<close>
fun set_data :: "BlockData \<Rightarrow> ('ctx, 'md) Block \<Rightarrow> ('ctx, 'md) Block" where
  "set_data d (Block i pid par m _) = Block i pid par m d"

fun get_data :: "('ctx, 'md) Block \<Rightarrow> BlockData" where
  "get_data (Block i pid par m d) = d"

fun get_id :: "('ctx, 'md) Block \<Rightarrow> ('ctx, 'md) BlockId option" where
  "get_id (Block i pid par m d) = i"

text \<open>
  A mapping of no bytes fails. After a failure the stream is closed, but the block still refers to it.
\<close>
definition Transfer_Prepare_File ::
  "('ctx, 'md) file_env \<Rightarrow> filesystem \<Rightarrow> ('ctx, 'md) Block \<Rightarrow> string option \<Rightarrow> bool \<Rightarrow> handles
    \<Rightarrow> (bool \<times> ('ctx, 'md) Block \<times> handles) option" where
  "Transfer_Prepare_File Y fs blk fname temp H =
     (case fname of
        None \<Rightarrow> Some (False, blk, H)
      | Some nm \<Rightarrow>
          if \<not> can_read Y nm fs
          then Some (False, set_data ((get_data blk)\<lparr>file_handle := None\<rparr>) blk, H)
          else do {
            i \<leftarrow> get_id blk;
            let c = (case fs_files fs nm of None \<Rightarrow> [] | Some c \<Rightarrow> c);
            let a = handles_brk H;
            let H1 = H\<lparr>streams := (streams H)(a \<mapsto> \<lparr>fdata = c, fpos = 0, ferror_at = None\<rparr>), handles_brk := a + 1\<rparr>;
            let d = (get_data blk)\<lparr>file_handle := Some a, BlockData.fileName := Some nm, BlockData.tempFile := temp\<rparr>;
            (if BlockId.iLength i = 0 \<or> \<not> y_mmap Y
             then Some (False, set_data (d\<lparr>BlockData.pointer := None\<rparr>) blk, H1\<lparr>streams := (streams H1)(a := None)\<rparr>)
             else
               Some (True, set_data (d\<lparr>BlockData.pointer := Some (a + 1)\<rparr>) blk,
                     H1\<lparr>maps := (maps H1)(a + 1 \<mapsto> take (unat (BlockId.iLength i)) c), handles_brk := a + 2\<rparr>)) })"

definition file_path :: "conf_var conf_store \<Rightarrow> string \<Rightarrow> string option" where
  "file_path conf filename = do {
     c0 \<leftarrow> char_at filename 0;
     c1 \<leftarrow> char_at filename 1;
     c2 \<leftarrow> char_at filename 2;
     c3 \<leftarrow> char_at filename 3;
     Some (store_base conf @ ''/'' @ [c0] @ ''/'' @ [c1] @ ''/'' @ [c2] @ ''/'' @ [c3] @ ''/'' @ filename) }"

definition Transfer_File_Fetch ::
  "('ctx, 'md) file_env \<Rightarrow> conf_var conf_store \<Rightarrow> filesystem \<Rightarrow> ('ctx, 'md) Block option \<Rightarrow> handles
    \<Rightarrow> (TransferStatus \<times> ('ctx, 'md) Block option \<times> handles) option" where
  "Transfer_File_Fetch Y conf fs blk H =
     (case blk of
        None \<Rightarrow> Some (TRANSFER_FAIL_LOCAL, None, H)
      | Some b \<Rightarrow> do {
          r \<leftarrow> Transfer_generateFilename (y_alloc Y) (get_id b);
          (case r of
             None \<Rightarrow> Some (TRANSFER_FAIL_LOCAL, blk, H)
           | Some filename \<Rightarrow> do {
               path \<leftarrow> file_path conf filename;
               (if \<not> y_alloc Y ''Transfer_File_Fetch'' then Some (TRANSFER_FAIL_LOCAL, blk, H)
                else if \<not> can_read Y path fs then Some (TRANSFER_FAIL_LOCAL, blk, H)
                else if \<not> y_fstat Y then Some (TRANSFER_FAIL_LOCAL, blk, H)
                else do {
                  (ok, b1, H1) \<leftarrow> Transfer_Prepare_File Y fs b (Some path) False H;
                  Some (if ok then TRANSFER_OK else TRANSFER_FAIL_LOCAL, Some b1, H1) }) }) })"

text \<open>A file that cannot be removed is only logged.\<close>
definition File_Delete ::
  "('ctx, 'md) file_env \<Rightarrow> conf_var conf_store \<Rightarrow> ('ctx, 'md) Block option \<Rightarrow> filesystem \<Rightarrow> (bool \<times> filesystem) option" where
  "File_Delete Y conf blk fs =
     (case blk of
        None \<Rightarrow> Some (False, fs)
      | Some b \<Rightarrow> do {
          r \<leftarrow> Transfer_generateFilename (y_alloc Y) (get_id b);
          (case r of
             None \<Rightarrow> Some (False, fs)
           | Some filename \<Rightarrow> do {
               path \<leftarrow> file_path conf filename;
               (if \<not> y_alloc Y ''File_Delete'' then Some (False, fs)
                else Some (True, if y_remove Y path then fs\<lparr>fs_files := (fs_files fs)(path := None)\<rparr> else fs)) }) })"

section \<open>The core\<close>

abbreviation (input) "RETRIES \<equiv> (5 :: nat)"

text \<open>The call of the function of a descriptor.\<close>
definition call_store ::
  "('ctx, 'md) file_env \<Rightarrow> conf_var conf_store \<Rightarrow> transport \<Rightarrow> ConnectedEntity \<Rightarrow> ('ctx, 'md) BlockPoolItem option \<Rightarrow> filesystem
    \<Rightarrow> (TransferStatus \<times> ('ctx, 'md) BlockPoolItem option \<times> filesystem) option" where
  "call_store Y conf t disp item fs =
     (if t = File_Transport then Transfer_File_Store Y conf item fs
      else do { it \<leftarrow> item; Some (y_store Y t it disp, item, fs) })"

text \<open>The loop that retries; the status is that of the last attempt.\<close>
fun retry_store ::
  "nat \<Rightarrow> ('ctx, 'md) file_env \<Rightarrow> conf_var conf_store \<Rightarrow> transport \<Rightarrow> ConnectedEntity \<Rightarrow> TransferStatus
    \<Rightarrow> ('ctx, 'md) BlockPoolItem option \<Rightarrow> filesystem \<Rightarrow> (TransferStatus \<times> ('ctx, 'md) BlockPoolItem option \<times> filesystem) option" where
  "retry_store 0 Y conf t disp st item fs = Some (st, item, fs)"
| "retry_store (Suc n) Y conf t disp st item fs = do {
     (st1, item1, fs1) \<leftarrow> call_store Y conf t disp item fs;
     (if st1 = TRANSFER_OK then Some (st1, item1, fs1) else retry_store n Y conf t disp st1 item1 fs1) }"

definition Transfer_Store ::
  "('ctx, 'md) file_env \<Rightarrow> conf_var conf_store \<Rightarrow> transport_list option \<Rightarrow> ('ctx, 'md) BlockPoolItem option
    \<Rightarrow> ConnectedEntity option \<Rightarrow> filesystem \<Rightarrow> (TransferStatus \<times> ('ctx, 'md) BlockPoolItem option \<times> filesystem) option" where
  "Transfer_Store Y conf trl item disp fs =
     (case disp of
        None \<Rightarrow> Some (TRANSFER_FAIL_LOCAL, item, fs)
      | Some e \<Rightarrow>
          (case ConnectedEntity.dispatcher e of
             None \<Rightarrow> Some (TRANSFER_FAIL_LOCAL, item, fs)
           | Some d \<Rightarrow> do {
               (td, _, _) \<leftarrow> List_Find trl (DispatcherEntity.protocol d) ();
               (case td of
                  None \<Rightarrow> Some (TRANSFER_FAIL_LOCAL, item, fs)
                | Some t \<Rightarrow> retry_store RETRIES Y conf (td_store t) e TRANSFER_FAIL_LOCAL item fs) }))"

definition call_fetch ::
  "('ctx, 'md) file_env \<Rightarrow> conf_var conf_store \<Rightarrow> filesystem \<Rightarrow> transport \<Rightarrow> ConnectedEntity \<Rightarrow> ('ctx, 'md) Block option \<Rightarrow> handles
    \<Rightarrow> (TransferStatus \<times> ('ctx, 'md) Block option \<times> handles) option" where
  "call_fetch Y conf fs t disp blk H =
     (if t = File_Transport then Transfer_File_Fetch Y conf fs blk H
      else do { b \<leftarrow> blk; (st, b1, H1) \<leftarrow> Some (y_fetch Y t b disp H); Some (st, Some b1, H1) })"

fun retry_fetch ::
  "nat \<Rightarrow> ('ctx, 'md) file_env \<Rightarrow> conf_var conf_store \<Rightarrow> filesystem \<Rightarrow> transport \<Rightarrow> ConnectedEntity \<Rightarrow> TransferStatus
    \<Rightarrow> ('ctx, 'md) Block option \<Rightarrow> handles \<Rightarrow> (TransferStatus \<times> ('ctx, 'md) Block option \<times> handles) option" where
  "retry_fetch 0 Y conf fs t disp st blk H = Some (st, blk, H)"
| "retry_fetch (Suc n) Y conf fs t disp st blk H = do {
     (st1, block1, H1) \<leftarrow> call_fetch Y conf fs t disp blk H;
     (if st1 = TRANSFER_OK then Some (st1, block1, H1) else retry_fetch n Y conf fs t disp st1 block1 H1) }"

definition Transfer_Fetch ::
  "('ctx, 'md) file_env \<Rightarrow> conf_var conf_store \<Rightarrow> transport_list option \<Rightarrow> filesystem \<Rightarrow> ('ctx, 'md) Block option
    \<Rightarrow> ConnectedEntity option \<Rightarrow> handles \<Rightarrow> (TransferStatus \<times> ('ctx, 'md) Block option \<times> handles) option" where
  "Transfer_Fetch Y conf trl fs blk disp H =
     (case disp of
        None \<Rightarrow> Some (TRANSFER_FAIL_LOCAL, blk, H)
      | Some e \<Rightarrow>
          (case ConnectedEntity.dispatcher e of
             None \<Rightarrow> Some (TRANSFER_FAIL_LOCAL, blk, H)
           | Some d \<Rightarrow> do {
               (td, _, _) \<leftarrow> List_Find trl (DispatcherEntity.protocol d) ();
               (case td of
                  None \<Rightarrow> Some (TRANSFER_FAIL_LOCAL, blk, H)
                | Some t \<Rightarrow> retry_fetch RETRIES Y conf fs (td_fetch t) e TRANSFER_FAIL_LOCAL blk H) }))"

text \<open>
  \<open>munmap\<close> and \<open>fclose\<close> of what is not mapped or not open are undefined. The fields of the block keep their values.
\<close>
definition Transfer_Free ::
  "('ctx, 'md) file_env \<Rightarrow> ('ctx, 'md) Block \<Rightarrow> handles \<Rightarrow> filesystem \<Rightarrow> (handles \<times> filesystem) option" where
  "Transfer_Free Y blk H fs = do {
     let d = get_data blk;
     H1 \<leftarrow> (case BlockData.pointer d of
               None \<Rightarrow> Some H
             | Some a \<Rightarrow> if maps H a = None then None else Some (H\<lparr>maps := (maps H)(a := None)\<rparr>));
     H2 \<leftarrow> (case file_handle d of
               None \<Rightarrow> Some H1
             | Some a \<Rightarrow> if streams H1 a = None then None else Some (H1\<lparr>streams := (streams H1)(a := None)\<rparr>));
     Some (H2,
       (case BlockData.fileName d of
          Some nm \<Rightarrow> if BlockData.tempFile d \<and> y_remove Y nm then fs\<lparr>fs_files := (fs_files fs)(nm := None)\<rparr> else fs
        | None \<Rightarrow> fs)) }"

end
