(* ===== verification/Transfer_Properties.thy ===== *)
theory Transfer_Properties
  imports Transfers Connected_Entity_Properties
begin

text \<open>
  Properties of the transfer over a shared file system: what is stored is fetched again, and what becomes of a write
  that fails.
\<close>

section \<open>Files that grow\<close>

text \<open>The file of a path has got more bytes and nothing else has changed.\<close>
definition grown :: "string \<Rightarrow> bytes \<Rightarrow> filesystem \<Rightarrow> filesystem \<Rightarrow> bool" where
  "grown path b fs fs' \<longleftrightarrow> fs_dirs fs' = fs_dirs fs
     \<and> (\<exists>c. fs_files fs path = Some c \<and> fs_files fs' = (fs_files fs)(path \<mapsto> c @ b))"

lemma grown_nil: "fs_files fs path = Some c \<Longrightarrow> grown path [] fs fs"
  by (auto simp: grown_def)

lemma grown_trans: "grown path b fs fs1 \<Longrightarrow> grown path d fs1 fs2 \<Longrightarrow> grown path (b @ d) fs fs2"
  by (auto simp: grown_def)

lemma grown_file: "grown path b fs fs' \<Longrightarrow> \<exists>c. fs_files fs' path = Some c"
  by (auto simp: grown_def)

text \<open>A write to a file takes at least one byte unless it fails (write(2)).\<close>
definition writes_progress :: "('ctx, 'md) file_env \<Rightarrow> bool" where
  "writes_progress Y \<longleftrightarrow> (\<forall>n. y_write Y n \<noteq> Some 0)"

definition writes_work :: "('ctx, 'md) file_env \<Rightarrow> bool" where
  "writes_work Y \<longleftrightarrow> (\<forall>n. \<exists>k. y_write Y n = Some k)"

section \<open>Writing\<close>

lemma write_loop_grows:
  assumes "writes_progress Y" and "fs_files fs path = Some c" and "0 \<le> tot" and "tot \<le> sz" and "nat sz \<le> length data"
  shows "\<exists>ok fs' k. write_loop Y path data sz tot fs = Some (ok, fs')
    \<and> grown path (take k (take (nat (sz - tot)) (drop (nat tot) data))) fs fs'
    \<and> (ok \<longrightarrow> k \<ge> nat (sz - tot)) \<and> (writes_work Y \<longrightarrow> ok)"
  using assms(2-4)
proof (induction "nat (sz - tot)" arbitrary: tot fs c rule: less_induct)
  case less
  let ?rest = "take (nat (sz - tot)) (drop (nat tot) data)"
  note loop = write_loop.simps [of Y path data sz tot fs]
  show ?case
  proof (cases "tot < sz")
    case False
    then show ?thesis using less.prems grown_nil [of fs path c] loop by (intro exI [of _ True] exI [of _ fs] exI [of _ 0]) auto
  next
    case True
    show ?thesis
    proof (cases "y_write Y (fs_writes fs)")
      case None
      let ?fs = "fs\<lparr>fs_writes := fs_writes fs + 1\<rparr>"
      have "write_loop Y path data sz tot fs = Some (False, ?fs)"
        using True assms(5) None loop by (simp add: sys_write_def)
      moreover have "grown path (take 0 ?rest) fs ?fs" using less.prems(1) by (auto simp: grown_def)
      moreover have "\<not> writes_work Y" using None by (auto simp: writes_work_def)
      ultimately show ?thesis by blast
    next
      case (Some n)
      then have n: "0 < n" using assms(1) by (cases n) (auto simp: writes_progress_def)
      define m where "m = min n (length ?rest)"
      have rest: "length ?rest = nat (sz - tot)" using True less.prems(2) assms(5) by auto
      then have m: "0 < m" "m \<le> nat (sz - tot)" using n True by (simp_all add: m_def)
      let ?fs = "fs\<lparr>fs_writes := fs_writes fs + 1, fs_files := (fs_files fs)(path \<mapsto> c @ take n ?rest)\<rparr>"
      have g1: "grown path (take m ?rest) fs ?fs" using less.prems(1) rest by (auto simp: grown_def m_def min_def)
      have "nat (sz - (tot + int m)) < nat (sz - tot)" using m True by simp
      moreover have "fs_files ?fs path = Some (c @ take n ?rest)" "0 \<le> tot + int m" "tot + int m \<le> sz"
        using less.prems(2) m True by simp_all
      ultimately obtain ok fs' k where
        ih: "write_loop Y path data sz (tot + int m) ?fs = Some (ok, fs')"
        "grown path (take k (take (nat (sz - (tot + int m))) (drop (nat (tot + int m)) data))) ?fs fs'"
        "ok \<longrightarrow> k \<ge> nat (sz - (tot + int m))" "writes_work Y \<longrightarrow> ok"
        using less.hyps [of "tot + int m" ?fs "c @ take n ?rest"] by blast
      have w: "write_loop Y path data sz tot fs = Some (ok, fs')"
        using True assms(5) Some loop ih(1) less.prems(1) rest by (simp add: sys_write_def m_def)
      have "drop m ?rest = take (nat (sz - (tot + int m))) (drop (nat (tot + int m)) data)"
        using less.prems(2) m by (simp add: drop_take nat_add_distrib add.commute nat_diff_distrib')
      then have "take m ?rest @ take k (take (nat (sz - (tot + int m))) (drop (nat (tot + int m)) data)) = take (m + k) ?rest"
        by (simp only: take_add)
      then have "grown path (take (m + k) ?rest) fs fs'" using grown_trans [OF g1 ih(2)] by simp
      then show ?thesis using w ih(3,4) m by (intro exI [of _ ok] exI [of _ fs'] exI [of _ "m + k"]) auto
    qed
  qed
qed

lemma writeWrap_int:
  assumes "unat n < 2 ^ 31"
  shows "writeWrap Y path data n fs = write_loop Y path data (int (unat n)) 0 fs"
proof -
  let ?w = "ucast n :: u32"
  have u: "unat ?w = unat n" using assms by (simp add: unsigned_ucast_eq take_bit_nat_eq_self)
  have "signed_take_bit 31 (int m) = int m" if "m < 2 ^ 31" for m
    using that by (intro signed_take_bit_int_eq_self) simp_all
  from this [OF assms] have "sint ?w = int (unat n)" unfolding sint_uint uint_nat u by simp
  then show ?thesis by (simp only: writeWrap_def)
qed

lemma write_loop_first_fails:
  assumes "y_write Y (fs_writes fs) = None" and "m \<le> length data"
  shows "write_loop Y path data (int m) 0 fs = (if m = 0 then Some (True, fs) else Some (False, fs\<lparr>fs_writes := fs_writes fs + 1\<rparr>))"
  using assms by (subst write_loop.simps) (simp add: sys_write_def)

lemma writeWrap_grows:
  assumes "writes_progress Y" and "fs_files fs path = Some c" and "unat n \<le> length data" and "unat n < 2 ^ 31"
  shows "\<exists>ok fs' k. writeWrap Y path data n fs = Some (ok, fs') \<and> grown path (take k (take (unat n) data)) fs fs'
    \<and> (ok \<longrightarrow> take k (take (unat n) data) = take (unat n) data) \<and> (writes_work Y \<longrightarrow> ok)"
proof -
  note w = writeWrap_int [OF assms(4)]
  have len: "nat (int (unat n)) \<le> length data" "(0 :: int) \<le> 0" "0 \<le> int (unat n)" using assms(3) by (simp_all only: nat_int order_refl of_nat_0_le_iff)
  obtain ok fs' k where l: "write_loop Y path data (int (unat n)) 0 fs = Some (ok, fs')" "grown path (take k (take (unat n) data)) fs fs'"
    "ok \<longrightarrow> k \<ge> unat n" "writes_work Y \<longrightarrow> ok"
    using write_loop_grows [OF assms(1,2) len(2,3,1)] by (simp only: diff_zero nat_int nat_0 drop_0) blast
  have "ok \<longrightarrow> take k (take (unat n) data) = take (unat n) data" using l(3) take_all [of "take (unat n) data" k] by auto
  then show ?thesis using l unfolding w by blast
qed

declare copy_file.simps [simp del]

lemma copy_file_grows:
  assumes "writes_progress Y"
  shows "fs_files fs path = Some c \<Longrightarrow> \<exists>ok f' fs' k. copy_file Y path f fs = Some (ok, f', fs')
    \<and> grown path (take k (freadable f)) fs fs' \<and> (ok \<longrightarrow> take k (freadable f) = freadable f) \<and> (writes_work Y \<longrightarrow> ok)"
proof (induction "length (freadable f)" arbitrary: f fs c rule: less_induct)
  case less
  let ?d = "take 4096 (freadable f)"
  obtain f1 where fr: "fread 4096 f = (?d, f1)" by (simp add: fread_def Let_def)
  then have f1: "freadable f1 = drop 4096 (freadable f)" using freadable_fread [of 4096 f] by simp
  show ?case
  proof (cases "freadable f = []")
    case True
    then show ?thesis using fr grown_nil [OF less.prems]
      by (intro exI [of _ True] exI [of _ "rewind f1"] exI [of _ fs] exI [of _ 0]) (simp add: copy_file.simps [of Y path f fs])
  next
    case False
    define d where "d = ?d"
    have d: "length d \<le> 4096" by (simp add: d_def)
    then have u: "unat (of_nat (length d) :: u64) = length d" by (simp add: unsigned_of_nat take_bit_nat_eq_self)
    then have b: "unat (of_nat (length d) :: u64) \<le> length d" "unat (of_nat (length d) :: u64) < 2 ^ 31" using d by (simp_all only: u order_refl) simp
    have "\<exists>ok fs1 k. writeWrap Y path d (of_nat (length d)) fs = Some (ok, fs1) \<and> grown path (take k d) fs fs1
        \<and> (ok \<longrightarrow> take k d = d) \<and> (writes_work Y \<longrightarrow> ok)"
      using writeWrap_grows [OF assms less.prems b] by (simp only: u take_all [OF order_refl])
    then obtain ok fs1 k where w: "writeWrap Y path ?d (of_nat (length ?d)) fs = Some (ok, fs1)" "grown path (take k ?d) fs fs1"
      "ok \<longrightarrow> take k ?d = ?d" "writes_work Y \<longrightarrow> ok"
      unfolding d_def by blast
    show ?thesis
    proof (cases ok)
      case False
      then have "copy_file Y path f fs = Some (False, f1, fs1)"
        using fr w(1) \<open>freadable f \<noteq> []\<close> by (simp add: copy_file.simps [of Y path f fs])
      moreover have "take k ?d = take (min k 4096) (freadable f)" by simp
      then have "grown path (take (min k 4096) (freadable f)) fs fs1" using w(2) by simp
      ultimately show ?thesis using w(4) False by blast
    next
      case True
      obtain c1 where c1: "fs_files fs1 path = Some c1" using grown_file [OF w(2)] by blast
      have "length (freadable f1) < length (freadable f)" using \<open>freadable f \<noteq> []\<close> f1 by simp
      from less.hyps [OF this c1] obtain ok2 f2 fs2 k2 where
        ih: "copy_file Y path f1 fs1 = Some (ok2, f2, fs2)" "grown path (take k2 (freadable f1)) fs1 fs2"
        "ok2 \<longrightarrow> take k2 (freadable f1) = freadable f1" "writes_work Y \<longrightarrow> ok2" by blast
      have c: "copy_file Y path f fs = Some (ok2, f2, fs2)"
        using fr w(1) True ih(1) \<open>freadable f \<noteq> []\<close> by (simp add: copy_file.simps [of Y path f fs])
      have e: "?d @ take k2 (freadable f1) = take (4096 + k2) (freadable f)" by (simp only: f1 take_add)
      have "grown path (?d @ take k2 (freadable f1)) fs fs2" using grown_trans [OF w(2) ih(2)] w(3) True by simp
      moreover have "?d @ take k2 (freadable f1) = freadable f" if ok2
        using ih(3) that unfolding f1 by simp
      ultimately show ?thesis using c ih(4) unfolding e by blast
    qed
  qed
qed

section \<open>Pieces of data\<close>

definition piece_bytes :: "BlockPoolData \<Rightarrow> bytes" where
  "piece_bytes d = (if BlockPoolData.iFlags d = BLOCK_POOL_DATA_FLAG_FILE then freadable (the (fstream d))
     else take (unat (BlockPoolData.iLength d)) (the (BlockPoolData.pointer d)))"

text \<open>A stream, or memory of at least the given length, which fits an \<open>int\<close>.\<close>
definition piece_ok :: "BlockPoolData \<Rightarrow> bool" where
  "piece_ok d \<longleftrightarrow> (if BlockPoolData.iFlags d = BLOCK_POOL_DATA_FLAG_FILE then fstream d \<noteq> None
     else (\<exists>p. BlockPoolData.pointer d = Some p \<and> unat (BlockPoolData.iLength d) \<le> length p) \<and> unat (BlockPoolData.iLength d) < 2 ^ 31)"

lemma store_piece_grows:
  assumes "writes_progress Y" and "fs_files fs path = Some c" and "piece_ok d"
  shows "\<exists>ok d' fs' k. (if BlockPoolData.iFlags d = BLOCK_POOL_DATA_FLAG_FILE then do {
          f \<leftarrow> fstream d;
          (ok, f1, fs1) \<leftarrow> copy_file Y path f fs;
          Some (ok, d\<lparr>fstream := Some f1\<rparr>, fs1) }
        else do {
          p \<leftarrow> BlockPoolData.pointer d;
          (ok, fs1) \<leftarrow> writeWrap Y path p (ucast (BlockPoolData.iLength d)) fs;
          Some (ok, d, fs1) }) = Some (ok, d', fs')
    \<and> grown path (take k (piece_bytes d)) fs fs' \<and> (ok \<longrightarrow> take k (piece_bytes d) = piece_bytes d) \<and> (writes_work Y \<longrightarrow> ok)"
proof (cases "BlockPoolData.iFlags d = BLOCK_POOL_DATA_FLAG_FILE")
  case True
  then obtain f where f: "fstream d = Some f" using assms(3) by (auto simp: piece_ok_def)
  obtain ok f' fs' k where "copy_file Y path f fs = Some (ok, f', fs')" "grown path (take k (freadable f)) fs fs'"
    "ok \<longrightarrow> take k (freadable f) = freadable f" "writes_work Y \<longrightarrow> ok"
    using copy_file_grows [OF assms(1,2)] by blast
  then show ?thesis using True f by (auto simp: piece_bytes_def)
next
  case False
  let ?n = "ucast (BlockPoolData.iLength d) :: u64"
  obtain p where p: "BlockPoolData.pointer d = Some p" "unat (BlockPoolData.iLength d) \<le> length p" "unat (BlockPoolData.iLength d) < 2 ^ 31"
    using assms(3) False by (auto simp: piece_ok_def)
  have "unat ?n = unat (BlockPoolData.iLength d)" by (simp add: unsigned_ucast_eq take_bit_nat_eq_self)
  then obtain ok fs' k where "writeWrap Y path p ?n fs = Some (ok, fs')" "grown path (take k (piece_bytes d)) fs fs'"
    "ok \<longrightarrow> take k (piece_bytes d) = piece_bytes d" "writes_work Y \<longrightarrow> ok"
    using writeWrap_grows [OF assms(1,2), of ?n p] p False by (auto simp: piece_bytes_def)
  then show ?thesis using False p(1) by auto
qed

lemma store_data_grows:
  assumes "writes_progress Y"
  shows "fs_files fs path = Some c \<Longrightarrow> \<forall>d \<in> set ds. piece_ok d \<Longrightarrow>
    \<exists>ok ds' fs' k. store_data Y path ds fs = Some (ok, ds', fs') \<and> grown path (take k (concat (map piece_bytes ds))) fs fs'
    \<and> (ok \<longrightarrow> take k (concat (map piece_bytes ds)) = concat (map piece_bytes ds)) \<and> (writes_work Y \<longrightarrow> ok)"
proof (induction ds arbitrary: fs c)
  case Nil
  then show ?case using grown_nil by (intro exI [of _ True] exI [of _ "[]"] exI [of _ fs]) auto
next
  case (Cons d ds)
  obtain ok d' fs1 k where p: "(if BlockPoolData.iFlags d = BLOCK_POOL_DATA_FLAG_FILE then do {
          f \<leftarrow> fstream d;
          (ok, f1, fs1) \<leftarrow> copy_file Y path f fs;
          Some (ok, d\<lparr>fstream := Some f1\<rparr>, fs1) }
        else do {
          p \<leftarrow> BlockPoolData.pointer d;
          (ok, fs1) \<leftarrow> writeWrap Y path p (ucast (BlockPoolData.iLength d)) fs;
          Some (ok, d, fs1) }) = Some (ok, d', fs1)"
    "grown path (take k (piece_bytes d)) fs fs1" "ok \<longrightarrow> take k (piece_bytes d) = piece_bytes d" "writes_work Y \<longrightarrow> ok"
    using store_piece_grows [OF assms Cons.prems(1)] Cons.prems(2) by (metis list.set_intros(1))
  show ?case
  proof (cases ok)
    case False
    have t: "take k (piece_bytes d) = take (min k (length (piece_bytes d))) (concat (map piece_bytes (d # ds)))"
      by (simp add: min_def)
    have "store_data Y path (d # ds) fs = Some (False, d' # ds, fs1)"
      unfolding store_data.simps p(1) using False by simp
    moreover have "grown path (take (min k (length (piece_bytes d))) (concat (map piece_bytes (d # ds)))) fs fs1"
      using p(2) unfolding t .
    ultimately show ?thesis using p(4) False by blast
  next
    case True
    obtain c1 where c1: "fs_files fs1 path = Some c1" using grown_file [OF p(2)] by blast
    obtain ok2 ds2 fs2 k2 where ih: "store_data Y path ds fs1 = Some (ok2, ds2, fs2)"
      "grown path (take k2 (concat (map piece_bytes ds))) fs1 fs2"
      "ok2 \<longrightarrow> take k2 (concat (map piece_bytes ds)) = concat (map piece_bytes ds)" "writes_work Y \<longrightarrow> ok2"
      using Cons.IH [OF c1] Cons.prems(2) by auto
    have s: "store_data Y path (d # ds) fs = Some (ok2, d' # ds2, fs2)"
      unfolding store_data.simps p(1) using True ih(1) by simp
    have e: "piece_bytes d @ take k2 (concat (map piece_bytes ds)) = take (length (piece_bytes d) + k2) (concat (map piece_bytes (d # ds)))"
      by simp
    have "grown path (piece_bytes d @ take k2 (concat (map piece_bytes ds))) fs fs2" using grown_trans [OF p(2) ih(2)] p(3) True by simp
    then have "grown path (take (length (piece_bytes d) + k2) (concat (map piece_bytes (d # ds)))) fs fs2" unfolding e .
    moreover have "take (length (piece_bytes d) + k2) (concat (map piece_bytes (d # ds))) = concat (map piece_bytes (d # ds))" if ok2
      using ih(3) that by simp
    ultimately show ?thesis using s ih(4) by blast
  qed
qed

section \<open>Directories\<close>

lemma parent_dir_child: "CHR ''/'' \<notin> set n \<Longrightarrow> parent_dir (p @ ''/'' @ n) = p"
proof -
  assume "CHR ''/'' \<notin> set n"
  then have "dropWhile (\<lambda>c. c \<noteq> CHR ''/'') (rev n @ CHR ''/'' # rev p) = CHR ''/'' # rev p"
    by (subst dropWhile_append2) auto
  then show ?thesis by (simp add: parent_dir_def)
qed

text \<open>The directory of a name below a base, and the ones on the way to it.\<close>
fun nested :: "string \<Rightarrow> char list \<Rightarrow> string" where
  "nested base [] = base"
| "nested base (c # cs) = nested (base @ ''/'' @ [c]) cs"

fun on_way :: "string \<Rightarrow> char list \<Rightarrow> string list" where
  "on_way base [] = []"
| "on_way base (c # cs) = (base @ ''/'' @ [c]) # on_way (base @ ''/'' @ [c]) cs"

text \<open>The file system permits everything: allocations succeed, directories and files may be made and read.\<close>
definition permits :: "('ctx, 'md) file_env \<Rightarrow> bool" where
  "permits Y \<longleftrightarrow> (\<forall>n. y_alloc Y n) \<and> (\<forall>p. y_mkdir Y p) \<and> (\<forall>p. y_read Y p) \<and> (\<forall>p. y_create Y p) \<and> y_fstat Y \<and> y_mmap Y"

lemma make_dirs_makes:
  assumes "permits Y"
  shows "fs_dirs fs base \<Longrightarrow> CHR ''/'' \<notin> set cs \<Longrightarrow> \<forall>p \<in> set (on_way base cs). fs_files fs p = None \<Longrightarrow>
    \<exists>fs'. make_dirs Y base cs fs = (Some (nested base cs), fs') \<and> fs_dirs fs' (nested base cs) \<and> fs_files fs' = fs_files fs
      \<and> fs_writes fs' = fs_writes fs \<and> (\<forall>p. fs_dirs fs' p \<longleftrightarrow> fs_dirs fs p \<or> p \<in> set (on_way base cs))"
proof (induction cs arbitrary: base fs)
  case (Cons c cs)
  let ?d = "base @ ''/'' @ [c]"
  let ?fs = "fs\<lparr>fs_dirs := (fs_dirs fs)(?d := True)\<rparr>"
  have "parent_dir ?d = base" using Cons.prems(2) by (intro parent_dir_child) auto
  then have "\<exists>fs1. File_mkdir Y ?d fs = (Some ?d, fs1) \<and> fs_dirs fs1 = (fs_dirs fs)(?d := True) \<and> fs_files fs1 = fs_files fs
      \<and> fs_writes fs1 = fs_writes fs"
    using Cons.prems assms by (cases "fs_dirs fs ?d") (auto simp: File_mkdir_def path_exists_def sys_mkdir_def permits_def fun_upd_idem)
  then obtain fs1 where f: "File_mkdir Y ?d fs = (Some ?d, fs1)" "fs_dirs fs1 = (fs_dirs fs)(?d := True)" "fs_files fs1 = fs_files fs"
    "fs_writes fs1 = fs_writes fs" by blast
  obtain fs' where "make_dirs Y ?d cs fs1 = (Some (nested ?d cs), fs')" "fs_dirs fs' (nested ?d cs)" "fs_files fs' = fs_files fs1"
    "fs_writes fs' = fs_writes fs1" "\<forall>p. fs_dirs fs' p \<longleftrightarrow> fs_dirs fs1 p \<or> p \<in> set (on_way ?d cs)"
    using Cons.IH [of fs1 ?d] Cons.prems f by auto
  then show ?case using f by auto
qed simp

section \<open>Storing\<close>

text \<open>A finished hash and the name of its file.\<close>
definition stored_name :: "('ctx, 'md) BlockId \<Rightarrow> string" where
  "stored_name i = hex_text (hash_digest (the (pHash i))) @ ''.'' @ decimal (unat (BlockId.iLength i))"

definition stored_dir :: "conf_var conf_store \<Rightarrow> ('ctx, 'md) BlockId \<Rightarrow> string" where
  "stored_dir conf i = nested (store_base conf) (take 4 (stored_name i))"

definition stored_path :: "conf_var conf_store \<Rightarrow> ('ctx, 'md) BlockId \<Rightarrow> string" where
  "stored_path conf i = stored_dir conf i @ ''/'' @ stored_name i"

lemma stored_path_split: "stored_dir conf i @ CHR ''/'' # stored_name i = stored_path conf i"
  by (simp add: stored_path_def)

text \<open>The place for a block: its base directory is there, and no file is in the way of the directories.\<close>
definition place_for :: "conf_var conf_store \<Rightarrow> ('ctx, 'md) BlockId \<Rightarrow> filesystem \<Rightarrow> bool" where
  "place_for conf i fs \<longleftrightarrow> fs_dirs fs (store_base conf)
     \<and> (\<forall>p \<in> set (on_way (store_base conf) (take 4 (stored_name i))). fs_files fs p = None) \<and> \<not> fs_dirs fs (stored_path conf i)"

lemma expected_length_ge: "unat (Hash_Get_ExpectedDigestLength t) \<noteq> 0 \<Longrightarrow> 16 \<le> unat (Hash_Get_ExpectedDigestLength t)"
  by (auto simp: Hash_Get_ExpectedDigestLength_def split: if_splits)

lemma stored_name_generated:
  assumes "pHash i = Some h" and "hash_proper h" and "permits Y"
  shows "Transfer_generateFilename (y_alloc Y) (Some i) = Some (Some (stored_name i))"
    and "4 \<le> length (stored_name i)" and "CHR ''/'' \<notin> set (take 4 (stored_name i))"
proof -
  have h: "hash_wf h" "is_final h" using assms(2) by (simp_all add: hash_proper_def)
  then show "Transfer_generateFilename (y_alloc Y) (Some i) = Some (Some (stored_name i))"
    using assms(1,3) Hash_ToText_wf [OF h] by (simp add: Transfer_generateFilename_def stored_name_def permits_def)
  have "iSize h \<noteq> 0" "iSize h = Hash_Get_ExpectedDigestLength (iType h)" using assms(2) unfolding hash_proper_def by blast+
  then have "16 \<le> unat (iSize h)" using expected_length_ge [of "iType h"] by (metis unat_eq_zero)
  then have l: "16 \<le> length (hash_digest h)" using h(1) by (auto simp: hash_wf_def hash_digest_def)
  then show "4 \<le> length (stored_name i)" using assms(1) by (simp add: stored_name_def)
  have "take 4 (stored_name i) = take 4 (hex_text (hash_digest h))" using l assms(1) by (simp add: stored_name_def)
  moreover have "CHR ''/'' \<notin> set (hex_text (hash_digest h))"
    using isxdigit_hex_text [of "hash_digest h"] by (auto simp: list_all_iff isxdigit_def)
  ultimately show "CHR ''/'' \<notin> set (take 4 (stored_name i))" by (metis in_set_takeD)
qed

lemma nested_length: "length base \<le> length (nested base cs)"
  by (induction base cs rule: nested.induct) auto

lemma on_way_length: "p \<in> set (on_way base cs) \<Longrightarrow> length p \<le> length (nested base cs)"
proof (induction base cs rule: on_way.induct)
  case (2 base c cs)
  then show ?case using nested_length [of "base @ ''/'' @ [c]" cs] by auto
qed simp

lemma path_not_on_way: "stored_path conf i \<notin> set (on_way (store_base conf) (take 4 (stored_name i)))"
  using on_way_length [of "stored_path conf i" "store_base conf" "take 4 (stored_name i)"]
  by (auto simp: stored_path_def stored_dir_def)

lemma slash_free_name:
  assumes "pHash i = Some h" and "hash_proper h"
  shows "CHR ''/'' \<notin> set (stored_name i)"
proof -
  have "CHR ''/'' \<notin> set (hex_text (hash_digest h))"
    using isxdigit_hex_text [of "hash_digest h"] by (auto simp: list_all_iff isxdigit_def)
  moreover have "CHR ''/'' \<notin> set (decimal n)" for n
    using decimal_digits [of n] by (auto simp: list_all_iff isdigit_def)
  ultimately show ?thesis using assms(1) by (simp add: stored_name_def)
qed

lemma createDirectory_makes:
  assumes "permits Y" and "pHash i = Some h" and "hash_proper h" and "place_for conf i fs"
  shows "\<exists>fs'. createDirectory Y (Some i) (store_base conf) fs = Some (Some (stored_dir conf i), fs') \<and> fs_dirs fs' (stored_dir conf i)
    \<and> fs_files fs' = fs_files fs \<and> fs_writes fs' = fs_writes fs \<and> place_for conf i fs'"
proof -
  note nm = stored_name_generated [OF assms(2,3,1)]
  obtain c0 c1 c2 c3 rest where c: "stored_name i = c0 # c1 # c2 # c3 # rest"
    using nm(2) by (auto simp: numeral_eq_Suc Suc_le_length_iff)
  obtain fs' where fs': "make_dirs Y (store_base conf) (take 4 (stored_name i)) fs = (Some (stored_dir conf i), fs')"
    "fs_dirs fs' (stored_dir conf i)" "fs_files fs' = fs_files fs" "fs_writes fs' = fs_writes fs"
    "\<forall>p. fs_dirs fs' p \<longleftrightarrow> fs_dirs fs p \<or> p \<in> set (on_way (store_base conf) (take 4 (stored_name i)))"
    using make_dirs_makes [OF assms(1), of fs "store_base conf" "take 4 (stored_name i)"] nm(3) assms(4)
    unfolding place_for_def stored_dir_def by blast
  then have "place_for conf i fs'" using assms(4) path_not_on_way unfolding place_for_def by auto
  then show ?thesis using fs' nm(1) by (simp add: createDirectory_def c char_at_def)
qed

lemma File_Store_done:
  assumes "permits Y" and "pHash i = Some h" and "hash_proper h" and "place_for conf i fs" and "block_id it = Some i"
    and "fs_files fs (stored_path conf i) = Some c"
  shows "\<exists>fs'. Transfer_File_Store Y conf (Some it) fs = Some (TRANSFER_OK, Some it, fs') \<and> fs_files fs' = fs_files fs"
proof -
  obtain fs1 where "createDirectory Y (Some i) (store_base conf) fs = Some (Some (stored_dir conf i), fs1)" "fs_files fs1 = fs_files fs"
    using createDirectory_makes [OF assms(1-4)] by blast
  then show ?thesis using assms stored_name_generated(1) [OF assms(2,3,1)]
    by (simp add: Transfer_File_Store_def can_read_def path_exists_def stored_path_def permits_def)
qed

lemma File_Store_new:
  assumes "permits Y" and "writes_progress Y" and "pHash i = Some h" and "hash_proper h" and "place_for conf i fs"
    and "block_id it = Some i" and "fs_files fs (stored_path conf i) = None" and "\<forall>d \<in> set (BlockPoolItem.pData it). piece_ok d"
  defines "content \<equiv> concat (map piece_bytes (BlockPoolItem.pData it))"
  shows "\<exists>ok ds fs' fs2 k. Transfer_File_Store Y conf (Some it) fs =
       Some (if ok then TRANSFER_OK else TRANSFER_FAIL_LOCAL, Some (it\<lparr>pData := ds\<rparr>), fs')
    \<and> store_data Y (stored_path conf i) (BlockPoolItem.pData it) fs2 = Some (ok, ds, fs')
    \<and> fs_writes fs2 = fs_writes fs \<and> fs_files fs2 = (fs_files fs)(stored_path conf i \<mapsto> [])
    \<and> fs_files fs' = (fs_files fs)(stored_path conf i \<mapsto> take k content) \<and> (ok \<longrightarrow> take k content = content)
    \<and> (writes_work Y \<longrightarrow> ok) \<and> place_for conf i fs'"
proof -
  let ?p = "stored_path conf i"
  obtain fs1 where fs1: "createDirectory Y (Some i) (store_base conf) fs = Some (Some (stored_dir conf i), fs1)"
    "fs_dirs fs1 (stored_dir conf i)" "fs_files fs1 = fs_files fs" "fs_writes fs1 = fs_writes fs" "place_for conf i fs1"
    using createDirectory_makes [OF assms(1,3-5)] by blast
  let ?fs2 = "fs1\<lparr>fs_files := (fs_files fs1)(?p \<mapsto> [])\<rparr>"
  have nd: "\<not> fs_dirs fs1 ?p" using fs1(5) by (simp add: place_for_def)
  then have r: "\<not> can_read Y ?p fs1" using fs1(3) assms(7) by (simp add: can_read_def path_exists_def)
  have "parent_dir ?p = stored_dir conf i"
    unfolding stored_path_def by (rule parent_dir_child) (rule slash_free_name [OF assms(3,4)])
  then have c: "sys_create Y ?p fs1 = (True, ?fs2)" using fs1(2) nd assms(1) by (simp add: sys_create_def permits_def)
  have "fs_files ?fs2 ?p = Some []" by simp
  then obtain ok ds fs' k where d: "store_data Y ?p (BlockPoolItem.pData it) ?fs2 = Some (ok, ds, fs')"
    "grown ?p (take k content) ?fs2 fs'" "ok \<longrightarrow> take k content = content" "writes_work Y \<longrightarrow> ok"
    using store_data_grows [OF assms(2) _ assms(8)] unfolding content_def by blast
  have f: "fs_files fs' = (fs_files fs)(?p \<mapsto> take k content)" "fs_dirs fs' = fs_dirs fs1"
    using d(2) fs1(3) by (auto simp: grown_def)
  have "place_for conf i fs'"
    using fs1(3,5) f path_not_on_way [of conf i] unfolding place_for_def by auto
  moreover have "Transfer_File_Store Y conf (Some it) fs = Some (if ok then TRANSFER_OK else TRANSFER_FAIL_LOCAL, Some (it\<lparr>pData := ds\<rparr>), fs')"
    using stored_name_generated(1) [OF assms(3,4,1)] fs1(1) r c d(1) assms(1,6)
    by (simp add: Transfer_File_Store_def permits_def Let_def stored_path_split)
  moreover have "fs_writes ?fs2 = fs_writes fs" "fs_files ?fs2 = (fs_files fs)(?p \<mapsto> [])" using fs1(3,4) by simp_all
  ultimately show ?thesis using d(1,3,4) f(1) by blast
qed

text \<open>A first write that fails leaves the new file empty.\<close>
lemma store_data_first_fails:
  assumes "y_write Y (fs_writes fs) = None"
  shows "\<forall>d \<in> set ds. piece_ok d \<Longrightarrow> concat (map piece_bytes ds) \<noteq> [] \<Longrightarrow>
    \<exists>ds' fs'. store_data Y path ds fs = Some (False, ds', fs') \<and> fs_files fs' = fs_files fs"
proof (induction ds)
  case (Cons d ds)
  let ?fs = "fs\<lparr>fs_writes := fs_writes fs + 1\<rparr>"
  have w: "writeWrap Y path p n fs = (if unat n = 0 then Some (True, fs) else Some (False, ?fs))"
    if "unat n \<le> length p" "unat n < 2 ^ 31" for p and n :: u64
    unfolding writeWrap_int [OF that(2)] by (rule write_loop_first_fails [OF assms that(1)])
  show ?case
  proof (cases "BlockPoolData.iFlags d = BLOCK_POOL_DATA_FLAG_FILE")
    case True
    then obtain f where f: "fstream d = Some f" "piece_bytes d = freadable f" using Cons.prems(1) by (auto simp: piece_ok_def piece_bytes_def)
    define b where "b = take 4096 (freadable f)"
    obtain f1 where fr: "fread 4096 f = (b, f1)" by (simp add: fread_def Let_def b_def)
    show ?thesis
    proof (cases "b = []")
      case b: True
      then have "piece_bytes d = []" "copy_file Y path f fs = Some (True, rewind f1, fs)"
        using f(2) fr by (simp_all add: b_def copy_file.simps [of Y path f])
      then show ?thesis using Cons True f(1) by auto
    next
      case False
      have l: "length b \<le> 4096" by (simp add: b_def)
      then have u: "unat (of_nat (length b) :: u64) = length b" by (simp add: unsigned_of_nat take_bit_nat_eq_self)
      have "writeWrap Y path b (of_nat (length b)) fs = Some (False, ?fs)"
        using w [of "of_nat (length b)" b] l False unfolding u by simp
      then have "copy_file Y path f fs = Some (False, f1, ?fs)" using fr False by (simp add: copy_file.simps [of Y path f])
      then show ?thesis using True f(1) by simp
    qed
  next
    case False
    let ?n = "ucast (BlockPoolData.iLength d) :: u64"
    obtain p where p: "BlockPoolData.pointer d = Some p" "unat (BlockPoolData.iLength d) \<le> length p" "unat (BlockPoolData.iLength d) < 2 ^ 31"
      using Cons.prems(1) False by (auto simp: piece_ok_def)
    have u: "unat ?n = unat (BlockPoolData.iLength d)" by (simp add: unsigned_ucast_eq take_bit_nat_eq_self)
    have w1: "writeWrap Y path p ?n fs = (if unat ?n = 0 then Some (True, fs) else Some (False, ?fs))"
      by (rule w) (use p u in simp_all)
    show ?thesis
    proof (cases "unat (BlockPoolData.iLength d) = 0")
      case True
      then have "piece_bytes d = []" using False by (simp add: piece_bytes_def)
      then show ?thesis using Cons False p(1) w1 u True by auto
    next
      case n: False
      then show ?thesis using False p(1) w1 u by simp
    qed
  qed
qed simp

section \<open>Through the core\<close>

text \<open>The dispatcher uses the transport over the file system.\<close>
definition over_files :: "transport_list option \<Rightarrow> ConnectedEntity \<Rightarrow> bool" where
  "over_files trl e \<longleftrightarrow> (\<exists>d l s. ConnectedEntity.dispatcher e = Some d \<and> List_Find trl (DispatcherEntity.protocol d) () = Some (Some file_descriptor, l, s))"

lemma Store_over_files:
  "over_files trl e \<Longrightarrow> Transfer_Store Y conf trl item (Some e) fs = retry_store RETRIES Y conf File_Transport e TRANSFER_FAIL_LOCAL item fs"
  by (auto simp: over_files_def Transfer_Store_def file_descriptor_def)

lemma Fetch_over_files:
  "over_files trl e \<Longrightarrow> Transfer_Fetch Y conf trl fs b (Some e) H = retry_fetch RETRIES Y conf fs File_Transport e TRANSFER_FAIL_LOCAL b H"
  by (auto simp: over_files_def Transfer_Fetch_def file_descriptor_def)

text \<open>A store attempt, and another one when the first fails.\<close>
lemma Store_twice:
  assumes "permits Y" and "writes_progress Y" and "pHash i = Some h" and "hash_proper h" and "place_for conf i fs"
    and "block_id it = Some i" and "fs_files fs (stored_path conf i) = None" and "\<forall>d \<in> set (BlockPoolItem.pData it). piece_ok d"
    and "over_files trl e"
  defines "content \<equiv> concat (map piece_bytes (BlockPoolItem.pData it))"
  shows "\<exists>ds fs' k. Transfer_Store Y conf trl (Some it) (Some e) fs = Some (TRANSFER_OK, Some (it\<lparr>pData := ds\<rparr>), fs')
    \<and> fs_files fs' = (fs_files fs)(stored_path conf i \<mapsto> take k content) \<and> (writes_work Y \<longrightarrow> take k content = content)
    \<and> (y_write Y (fs_writes fs) = None \<longrightarrow> content \<noteq> [] \<longrightarrow> take k content = [])"
proof -
  let ?p = "stored_path conf i"
  obtain ok ds fs1 fs2 k where f: "Transfer_File_Store Y conf (Some it) fs =
       Some (if ok then TRANSFER_OK else TRANSFER_FAIL_LOCAL, Some (it\<lparr>pData := ds\<rparr>), fs1)"
    "store_data Y ?p (BlockPoolItem.pData it) fs2 = Some (ok, ds, fs1)" "fs_writes fs2 = fs_writes fs"
    "fs_files fs2 = (fs_files fs)(?p \<mapsto> [])" "fs_files fs1 = (fs_files fs)(?p \<mapsto> take k content)"
    "ok \<longrightarrow> take k content = content" "writes_work Y \<longrightarrow> ok" "place_for conf i fs1"
    using File_Store_new [OF assms(1-8)] unfolding content_def by blast
  have empty: "take k content = []" if y: "y_write Y (fs_writes fs) = None" and n: "content \<noteq> []"
  proof -
    have "y_write Y (fs_writes fs2) = None" using y f(3) by simp
    then obtain ds' fs' where "store_data Y ?p (BlockPoolItem.pData it) fs2 = Some (False, ds', fs')" "fs_files fs' = fs_files fs2"
      using store_data_first_fails [OF _ assms(8) n [unfolded content_def]] by blast
    then have "fs_files fs1 ?p = Some []" using f(2,4) by simp
    then show ?thesis using f(5) by simp
  qed
  note t = Store_over_files [OF assms(9), of Y conf "Some it" fs]
  show ?thesis
  proof (cases ok)
    case True
    then have "Transfer_Store Y conf trl (Some it) (Some e) fs = Some (TRANSFER_OK, Some (it\<lparr>pData := ds\<rparr>), fs1)"
      using f(1) by (simp add: t numeral_eq_Suc call_store_def)
    then show ?thesis using f(5,6) True empty by (intro exI [of _ ds] exI [of _ fs1] exI [of _ k] conjI) auto
  next
    case False
    have "block_id (it\<lparr>pData := ds\<rparr>) = Some i" using assms(6) by (simp add: block_id_def)
    moreover have "fs_files fs1 ?p = Some (take k content)" using f(5) by simp
    ultimately obtain fs3 where g: "Transfer_File_Store Y conf (Some (it\<lparr>pData := ds\<rparr>)) fs1 = Some (TRANSFER_OK, Some (it\<lparr>pData := ds\<rparr>), fs3)"
      "fs_files fs3 = fs_files fs1"
      using File_Store_done [OF assms(1,3,4) f(8)] by blast
    have "Transfer_Store Y conf trl (Some it) (Some e) fs = Some (TRANSFER_OK, Some (it\<lparr>pData := ds\<rparr>), fs3)"
      using f(1) g(1) False by (simp add: t numeral_eq_Suc call_store_def)
    then show ?thesis using f(5,7) g(2) False empty by (intro exI [of _ ds] exI [of _ fs3] exI [of _ k]) simp
  qed
qed

text \<open>Addresses from the next one on are free.\<close>
definition handles_ok :: "handles \<Rightarrow> bool" where
  "handles_ok H \<longleftrightarrow> (\<forall>a \<ge> handles_brk H. streams H a = None \<and> maps H a = None)"

lemma Fetch_maps:
  assumes "permits Y" and "pHash i = Some h" and "hash_proper h" and "over_files trl e" and "get_id b = Some i"
    and "fs_files fs (stored_path conf i) = Some content" and "unat (BlockId.iLength i) = length content" and "content \<noteq> []"
    and "handles_ok H"
  shows "\<exists>b' H' a. Transfer_Fetch Y conf trl fs (Some b) (Some e) H = Some (TRANSFER_OK, Some b', H')
    \<and> BlockData.pointer (get_data b') = Some a \<and> maps H' a = Some content
    \<and> (\<exists>H2. Transfer_Free Y b' H' fs = Some (H2, fs) \<and> maps H2 = maps H \<and> streams H2 = streams H)"
proof -
  let ?p = "stored_path conf i" and ?a = "handles_brk H"
  note nm = stored_name_generated [OF assms(2,3,1)]
  obtain c0 c1 c2 c3 rest where c: "stored_name i = c0 # c1 # c2 # c3 # rest"
    using nm(2) by (auto simp: numeral_eq_Suc Suc_le_length_iff)
  then have path: "file_path conf (stored_name i) = Some ?p"
    by (simp add: file_path_def char_at_def stored_path_def stored_dir_def)
  let ?d = "(get_data b)\<lparr>file_handle := Some ?a, BlockData.fileName := Some ?p, BlockData.tempFile := False, BlockData.pointer := Some (?a + 1)\<rparr>"
  let ?H = "H\<lparr>streams := (streams H)(?a \<mapsto> \<lparr>fdata = content, fpos = 0, ferror_at = None\<rparr>), maps := (maps H)(?a + 1 \<mapsto> content),
      handles_brk := ?a + 2\<rparr>"
  have r: "can_read Y ?p fs" using assms(1,6) by (simp add: can_read_def path_exists_def permits_def)
  have "BlockId.iLength i \<noteq> 0" using assms(7,8) by auto
  then have "Transfer_Prepare_File Y fs b (Some ?p) False H = Some (True, set_data ?d b, ?H)"
    using r assms(1,5-7) by (simp add: Transfer_Prepare_File_def Let_def permits_def)
  then have "Transfer_File_Fetch Y conf fs (Some b) H = Some (TRANSFER_OK, Some (set_data ?d b), ?H)"
    using nm(1) path r assms(1,5) by (simp add: Transfer_File_Fetch_def permits_def)
  then have f: "Transfer_Fetch Y conf trl fs (Some b) (Some e) H = Some (TRANSFER_OK, Some (set_data ?d b), ?H)"
    using Fetch_over_files [OF assms(4), of Y conf fs "Some b" H] by (simp add: numeral_eq_Suc call_fetch_def)
  have "get_data (set_data ?d b) = ?d" by (cases b) simp
  moreover have "maps H (?a + 1) = None" "streams H ?a = None" using assms(9) by (simp_all add: handles_ok_def)
  ultimately have "\<exists>H2. Transfer_Free Y (set_data ?d b) ?H fs = Some (H2, fs) \<and> maps H2 = maps H \<and> streams H2 = streams H"
    by (auto simp: Transfer_Free_def Let_def fun_upd_idem)
  then show ?thesis using f \<open>get_data (set_data ?d b) = ?d\<close> by (intro exI [of _ "set_data ?d b"] exI [of _ ?H] exI [of _ "?a + 1"]) simp
qed

section \<open>An example\<close>

text \<open>A block of two pieces, one in memory and one in a file, and an empty block store.\<close>
definition ex_pool_item :: "(string \<times> bytes, string) BlockPoolItem" where
  "ex_pool_item = \<lparr>locked = False, iStatus = BLOCK_POOL_STATUS_FINALIZED,
     pData = [\<lparr>iLength = 3, iFlags = BLOCK_POOL_DATA_FLAG_MANAGED, pointer = Some [1, 2, 3], fstream = None, fileName = None, tempFile = False\<rparr>,
              \<lparr>iLength = 2, iFlags = BLOCK_POOL_DATA_FLAG_FILE, pointer = None, fstream = Some \<lparr>fdata = [8, 9], fpos = 0, ferror_at = None\<rparr>,
                fileName = Some ''/tmp/f'', tempFile = False\<rparr>],
     submittedCallback = None, pContext = 0, pEvent = Some (Event None None None no_uuid (Some (Block (Some (ex_block_id 5)) None None None no_data)) None)\<rparr>"

definition ex_file_env :: "(nat \<Rightarrow> nat option) \<Rightarrow> (string \<times> bytes, string) file_env" where
  "ex_file_env w = \<lparr>y_alloc = (\<lambda>n. True), y_mkdir = (\<lambda>p. True), y_read = (\<lambda>p. True), y_create = (\<lambda>p. True), y_write = w,
     y_remove = (\<lambda>p. True), y_fstat = True, y_mmap = True, y_store = (\<lambda>t it e. TRANSFER_FAIL_LOCAL),
     y_fetch = (\<lambda>t b e H. (TRANSFER_FAIL_LOCAL, b, H))\<rparr>"

definition ex_file_conf :: "conf_var conf_store" where
  "ex_file_conf = initial_config(sg_localityBlockStore := V_string (Some ''/store''), sg_sTransferMode := V_string (Some ''traditional''))"

definition ex_fs :: filesystem where
  "ex_fs = \<lparr>fs_dirs = (\<lambda>p. p = ''/store''), fs_files = (\<lambda>p. None), fs_writes = 0\<rparr>"

definition ex_file_dispatcher :: ConnectedEntity where
  "ex_file_dispatcher = \<lparr>uuidNuggetId = no_uuid, uuidNuggetType = no_uuid, uuidApplicationType = no_uuid, tTimeOfLastHello = 0, locality = 0,
     dispatcher = Some \<lparr>priority = 0, flags = 0, addressList = None, protocol = 0, port = 0, usable = True\<rparr>\<rparr>"

lemma ex_over_files:
  obtains trl where "over_files trl ex_file_dispatcher"
proof -
  let ?X = "\<lparr>x_alloc = (\<lambda>a. True), x_mem = (\<lambda>a. True), x_skip = None, x_dlopen = (\<lambda>p. False), x_dlsym = False,
     x_plugin = (\<lambda>l. (False, l)), x_so_version = [], x_lib_dir = []\<rparr>"
  obtain l where l: "table Transport_KeyCmp l all_transports"
    using Transfer_Init_traditional [of ?X ex_file_conf] by (auto simp: ex_file_conf_def Config_getTransferMode_def string_var_def)
  have "over_files (Some l) ex_file_dispatcher"
    using table_find [OF l, of 0 "()"]
    by (simp add: over_files_def ex_file_dispatcher_def Transport_KeyCmp_def file_descriptor_def del: List_Find.simps)
  then show thesis by (rule that)
qed

lemma ex_store_facts:
  "permits (ex_file_env w)" "block_id ex_pool_item = Some (ex_block_id 5)" "pHash (ex_block_id 5) = Some (ex_hash 1)"
  "\<forall>d \<in> set (BlockPoolItem.pData ex_pool_item). piece_ok d" "concat (map piece_bytes (BlockPoolItem.pData ex_pool_item)) = [1, 2, 3, 8, 9]"
  "fs_files ex_fs p = None"
  by (simp_all add: permits_def ex_file_env_def ex_pool_item_def block_id_def ex_block_id_def piece_ok_def piece_bytes_def
      freadable_def fbytes_def ex_fs_def)

lemma ex_place: "place_for ex_file_conf (ex_block_id 5) ex_fs"
proof -
  have "store_base ex_file_conf = ''/store''"
    by (simp add: store_base_def ex_file_conf_def Config_getLocalityBlockStore_def string_var_def)
  moreover have "stored_path ex_file_conf (ex_block_id 5) \<noteq> ''/store''"
    using nested_length [of "store_base ex_file_conf" "take 4 (stored_name (ex_block_id 5))"] calculation
    by (auto simp: stored_path_def stored_dir_def dest: arg_cong [where f = length])
  ultimately show ?thesis by (simp add: place_for_def ex_fs_def)
qed

section \<open>Properties\<close>

text \<open>C6: What is stored over the shared file system is fetched again. Take a block that is not empty, with a finished
  hash and the length of its data, whose pieces are in files or in memory, the latter below two gibibytes. Let every
  allocation, directory, opening, \<open>fstat\<close> and \<open>mmap\<close> succeed, let every write succeed and take any number of bytes
  but zero, let the base directory be there, no file be in the way of the nested directories, and no file be under the
  name of the block yet. Then the block is stored under its hash, fetching a block with the same identifier maps
  exactly the concatenated pieces, and freeing it closes and unmaps everything that the fetch opened.\<close>
theorem Transfer_store_fetch:
  assumes "permits Y" and "writes_progress Y" and "writes_work Y" and "over_files trl e"
    and "block_id it = Some i" and "pHash i = Some h" and "hash_proper h" and "\<forall>d \<in> set (BlockPoolItem.pData it). piece_ok d"
    and "unat (BlockId.iLength i) = length (concat (map piece_bytes (BlockPoolItem.pData it)))" and "BlockId.iLength i \<noteq> 0"
    and "place_for conf i fs" and "fs_files fs (stored_path conf i) = None" and "get_id b = Some i" and "handles_ok H"
  shows "\<exists>it' fs' b' H' H2 a. Transfer_Store Y conf trl (Some it) (Some e) fs = Some (TRANSFER_OK, Some it', fs')
    \<and> Transfer_Fetch Y conf trl fs' (Some b) (Some e) H = Some (TRANSFER_OK, Some b', H')
    \<and> BlockData.pointer (get_data b') = Some a \<and> maps H' a = Some (concat (map piece_bytes (BlockPoolItem.pData it)))
    \<and> Transfer_Free Y b' H' fs' = Some (H2, fs') \<and> maps H2 = maps H \<and> streams H2 = streams H"
proof -
  let ?c = "concat (map piece_bytes (BlockPoolItem.pData it))"
  obtain ds fs' k where s: "Transfer_Store Y conf trl (Some it) (Some e) fs = Some (TRANSFER_OK, Some (it\<lparr>pData := ds\<rparr>), fs')"
    "fs_files fs' = (fs_files fs)(stored_path conf i \<mapsto> take k ?c)" "writes_work Y \<longrightarrow> take k ?c = ?c"
    using Store_twice [OF assms(1,2,6,7,11,5,12,8,4)] by blast
  then have "fs_files fs' (stored_path conf i) = Some ?c" using assms(3) by simp
  moreover have "?c \<noteq> []" using assms(9,10) by (metis list.size(3) unat_eq_zero)
  ultimately obtain b' H' a H2 where "Transfer_Fetch Y conf trl fs' (Some b) (Some e) H = Some (TRANSFER_OK, Some b', H')"
    "BlockData.pointer (get_data b') = Some a" "maps H' a = Some ?c"
    "Transfer_Free Y b' H' fs' = Some (H2, fs')" "maps H2 = maps H" "streams H2 = streams H"
    using Fetch_maps [OF assms(1,6,7,4,13) _ assms(9) _ assms(14)] by blast
  then show ?thesis using s(1) by blast
qed

theorem Transfer_store_fetch_witness:
  "\<exists>trl it' fs' b' H' a. Transfer_Store (ex_file_env (\<lambda>n. Some 2)) ex_file_conf trl (Some ex_pool_item) (Some ex_file_dispatcher) ex_fs
      = Some (TRANSFER_OK, Some it', fs')
    \<and> Transfer_Fetch (ex_file_env (\<lambda>n. Some 2)) ex_file_conf trl fs' (Some (Block (Some (ex_block_id 5)) None None None no_data))
        (Some ex_file_dispatcher) \<lparr>streams = (\<lambda>a. None), maps = (\<lambda>a. None), handles_brk = 0\<rparr> = Some (TRANSFER_OK, Some b', H')
    \<and> BlockData.pointer (get_data b') = Some a \<and> maps H' a = Some [1, 2, 3, 8, 9]"
proof -
  obtain trl where t: "over_files trl ex_file_dispatcher" by (rule ex_over_files)
  let ?Y = "ex_file_env (\<lambda>n. Some 2)" and ?H = "\<lparr>streams = (\<lambda>a. None), maps = (\<lambda>a. None), handles_brk = 0\<rparr>"
  have Y: "writes_progress ?Y" "writes_work ?Y" by (simp_all add: writes_progress_def writes_work_def ex_file_env_def)
  have l: "unat (BlockId.iLength (ex_block_id 5)) = length (concat (map piece_bytes (BlockPoolItem.pData ex_pool_item)))"
    "BlockId.iLength (ex_block_id 5) \<noteq> 0"
    unfolding ex_store_facts(5) by (simp_all add: ex_block_id_def)
  have "handles_ok ?H" by (simp add: handles_ok_def)
  from Transfer_store_fetch [OF ex_store_facts(1) Y t ex_store_facts(2,3) ex_hash_proper ex_store_facts(4) l ex_place ex_store_facts(6) _ this,
      of "Block (Some (ex_block_id 5)) None None None no_data"]
  obtain it' fs' b' H' a where
    "Transfer_Store ?Y ex_file_conf trl (Some ex_pool_item) (Some ex_file_dispatcher) ex_fs = Some (TRANSFER_OK, Some it', fs')"
    "Transfer_Fetch ?Y ex_file_conf trl fs' (Some (Block (Some (ex_block_id 5)) None None None no_data)) (Some ex_file_dispatcher) ?H
       = Some (TRANSFER_OK, Some b', H')"
    "BlockData.pointer (get_data b') = Some a" "maps H' a = Some [1, 2, 3, 8, 9]"
    unfolding ex_store_facts(5) by auto
  then show ?thesis by (intro exI [of _ trl] exI [of _ it'] exI [of _ fs'] exI [of _ b'] exI [of _ H'] exI [of _ a]) simp
qed

text \<open>C40: A failed write is hidden. Whatever the writes do, storing a block over the shared file system ends with success
  and leaves a file that holds only a beginning of the data: after a failed attempt the partly written file remains, and
  the next attempt takes it for a stored block. If the first write fails, the file is empty and the block counts as stored.\<close>
theorem Transfer_Store_hides_failed_writes:
  assumes "permits Y" and "writes_progress Y" and "over_files trl e"
    and "block_id it = Some i" and "pHash i = Some h" and "hash_proper h" and "\<forall>d \<in> set (BlockPoolItem.pData it). piece_ok d"
    and "place_for conf i fs" and "fs_files fs (stored_path conf i) = None"
  shows "\<exists>it' fs' k. Transfer_Store Y conf trl (Some it) (Some e) fs = Some (TRANSFER_OK, Some it', fs')
    \<and> fs_files fs' (stored_path conf i) = Some (take k (concat (map piece_bytes (BlockPoolItem.pData it))))
    \<and> (y_write Y (fs_writes fs) = None \<longrightarrow> fs_files fs' (stored_path conf i) = Some [])"
proof -
  let ?c = "concat (map piece_bytes (BlockPoolItem.pData it))"
  obtain ds fs' k where "Transfer_Store Y conf trl (Some it) (Some e) fs = Some (TRANSFER_OK, Some (it\<lparr>pData := ds\<rparr>), fs')"
    "fs_files fs' = (fs_files fs)(stored_path conf i \<mapsto> take k ?c)" "y_write Y (fs_writes fs) = None \<longrightarrow> ?c \<noteq> [] \<longrightarrow> take k ?c = []"
    using Store_twice [OF assms(1,2,5,6,8,4,9,7,3)] by (elim exE conjE) (rule that)
  then show ?thesis by (intro exI [of _ "it\<lparr>pData := ds\<rparr>"] exI [of _ fs'] exI [of _ k]) auto
qed

theorem Transfer_Store_hides_failed_writes_witness:
  "\<exists>trl it' fs'. Transfer_Store (ex_file_env (\<lambda>n. None)) ex_file_conf trl (Some ex_pool_item) (Some ex_file_dispatcher) ex_fs
      = Some (TRANSFER_OK, Some it', fs')
    \<and> fs_files fs' (stored_path ex_file_conf (ex_block_id 5)) = Some []"
proof -
  obtain trl where t: "over_files trl ex_file_dispatcher" by (rule ex_over_files)
  let ?Y = "ex_file_env (\<lambda>n. None)"
  have Y: "writes_progress ?Y" "y_write ?Y (fs_writes ex_fs) = None" by (simp_all add: writes_progress_def ex_file_env_def)
  from Transfer_Store_hides_failed_writes [OF ex_store_facts(1) Y(1) t ex_store_facts(2,3) ex_hash_proper ex_store_facts(4) ex_place ex_store_facts(6)]
  show ?thesis using Y(2) by blast
qed

end
