(* ===== verification/Spec2Isabelle.thy ===== *)
theory Spec2Isabelle
  imports Linked_List_Properties Uuids Local_Cache_Properties Message_Properties Config_Properties Timer_Properties
    Connected_Entity_Properties Transfer_Properties
begin

text \<open>
  Verification of the Razorback API, the C library under \<open>src/\<close> through which the nuggets of a Razorback
  system (collectors, inspectors, dispatchers, output) submit blocks of data, exchange messages and learn
  verdicts. Paths below are relative to the repository's own \<open>src/\<close>.

  \<^bold>\<open>How the code is represented.\<close> The functions of the modelled files are definitions with the name of the C
  function; loops and parts of long functions have names of their own. Structures are records, enumerations and tagged unions are datatypes, unsigned integers are words of
  their width, so that they wrap as in C. Pointers that may be null are options. Where nodes or objects are shared
  and mutated through pointers, there is an explicit store from addresses to contents. The outer option of a
  result is undefined behaviour, endless waiting or an endless loop: \<^const>\<open>None\<close> is a null or dangling pointer
  followed, memory released twice, a read outside a buffer. The return value of the C function is inside. Whether an
  allocation succeeds is an argument, by the name of the place in the code. Log messages and telemetry are left out.
  Code of other libraries (libuuid, json-c, OpenSSL, libconfig, libmagic, the file system, the clock) is an argument
  of the definitions that use it; what is relied on is a named predicate, and examples at the end of the theories
  give functions that satisfy it.

  \<^bold>\<open>Foundations.\<close>
  \<^item> \<open>Rzb_Prelude\<close>: machine types, functions of the C library on bytes, collections of rules, general lemmas.
  \<^item> \<open>C_Text\<close>: characters, \<open>strtoumax\<close>, \<open>strtol\<close>, \<open>sscanf\<close>, printing of numbers.

  \<^bold>\<open>Lists\<close> (\<open>list.c\<close>, \<open>string_list.c\<close>, \<open>queue_list.c\<close>, \<open>ntvl.c\<close>, \<open>uuids.c\<close>).
  \<^item> \<open>Linked_List\<close> has every function of \<open>list.c\<close> on a heap of doubly linked nodes, with the callbacks, the limit, the
    three modes and the count of the semaphore of a queue.
  \<^item> \<open>Linked_List_Refine\<close> relates the heap to plain lists and proves that every operation refines one on them, with
    the locales \<open>lifo\<close> (what a stack promises) and \<open>keyed\<close> (what a search by key promises).
  \<^item> \<open>Linked_List_Properties\<close>: several lists under any sequence of public operations stay well formed, and every
    next operation is defined; what each operation does to items, order, semaphore and callbacks.
  \<^item> \<open>List_Clients\<close>, \<open>Uuids\<close>: the lists of strings, queues and metadata items, and the registry of identifiers with
    its six lists. \<open>List_Tables\<close> gives the laws that the later theories use of a list searched by key.

  \<^bold>\<open>Local verdict cache\<close> (\<open>local_cache.c\<close>), an adaptive replacement cache over an array of entries linked by
  indices into four lists.
  \<^item> \<open>Local_Cache\<close> is the code; \<open>Local_Cache_Arc\<close> the abstract cache on plain lists and the simulation;
    \<open>Local_Cache_Properties\<close> shows that check and add refine the abstract steps from every reachable state, that
    the cache remembers verdicts (locale \<open>verdict_cache\<close>), and the two ways in which clearing and removing fail.

  \<^bold>\<open>Hashes and block identifiers\<close> (\<open>hash.c\<close>, \<open>block_id.c\<close>): \<open>Hash_Ids\<close>, \<open>Hash_Ids_Properties\<close>. The states of a hash
  reachable through its interface, that the digest is that of all input, and the text forms.

  \<^bold>\<open>Data and its JSON form\<close> (\<open>event.c\<close>, \<open>block.c\<close>, \<open>judgment.c\<close>, \<open>nugget.c\<close>, \<open>metadata.c\<close>, \<open>json_buffer.c\<close>).
  \<^item> \<open>Event_Block\<close>, \<open>Metadata\<close>, \<open>Json_Env\<close>, \<open>Json_Buffer\<close>: the records, their operations, and every put and get.
  \<^item> \<open>Json_Codec\<close>, \<open>Json_Codec_Lists\<close>, \<open>Json_Codec_Objects\<close>: the locale \<open>json_codec\<close>, the contract of a pair of put and
    get, interpreted for every kind of member. \<^const>\<open>jsonc_ok\<close> says what is used of json-c; parsing what was printed
    is assumed only for texts within the nesting limit of its parser (\<^const>\<open>shallow\<close>).
  \<^item> \<open>Json_Text\<close>, \<open>Json_Reference\<close>: an implementation of the libraries that satisfies the contract.
  \<^item> \<open>Json_Properties\<close>: round trips of events and judgments, the widths of integers, and metadata that is lost.

  \<^bold>\<open>Messages\<close> (\<open>messages/\<close>): \<open>Message_Core\<close>, \<open>Messages\<close>, \<open>Messages_CnC\<close> are the container, the handlers and the
  bodies of all 23 kinds; \<open>Message_Codec\<close> has the locale \<open>message_codec\<close>, \<open>Message_Bodies\<close> its interpretations;
  \<open>Message_Properties\<close> shows delivery from one process to another, the table of handlers, and addressed messages.

  \<^bold>\<open>Configuration\<close> (\<open>config_file.c\<close>, \<open>runtime_config.c\<close>): \<open>Config_File\<close>, \<open>Runtime_Config\<close>, \<open>Config_Properties\<close>. Where
  the value of a key comes from, that variables keep their types, what an accepted configuration satisfies.

  \<^bold>\<open>Timers\<close> (\<open>timer.c\<close>, with the count of references and the join of \<open>thread.c\<close>): \<open>Timers\<close> has the steps of the
  creator, the worker, its callback and the callers of \<open>Timer_Destroy\<close>, interleaved; sections under the mutex are
  single steps. \<open>Timer_Properties\<close>: no step uses released memory and the thread is joined once where at most one
  other thread destroys the timer; shutdown ends; concurrent destruction by two threads is undefined.

  \<^bold>\<open>Connected entities and transports\<close> (\<open>connected_entity.c\<close>, \<open>transfer/core.c\<close>): \<open>Connected_Entity\<close>, \<open>Transports\<close>. The
  properties in \<open>Connected_Entity_Properties\<close> relate every reachable state to a plain list of nuggets.

  \<^bold>\<open>Block pool and transfer\<close> (\<open>block_pool.c\<close>, \<open>fantasia.c\<close>, \<open>transfer/core.c\<close>, \<open>transfer/file.c\<close>): \<open>Block_Pool\<close>,
  \<open>Transfers\<close>, \<open>Transfer_Properties\<close>. Storing and fetching over a shared file system, and what failed writes do.

  \<^bold>\<open>How the parts interact.\<close> The registry of identifiers, the handlers of messages, the transports, the entities and
  the headers of messages are lists of \<open>list.c\<close> and use its refinement. Messages carry the JSON form of the data.
  Entities are created from hello messages, pruned by a timer, configured by the runtime configuration, and selected
  as destinations of transfers; a transfer writes the pieces of a pool item under the hash of its block.

  \<^bold>\<open>Bounds and loops.\<close> No definition that models code uses fuel: loops of the code are structural or have a termination
  proof. (The reader of the reference text form in \<open>Json_Text\<close> bounds its recursion by the length of the text, and
  the proof that it reads back what was printed shows that this is enough.) The loops over linked nodes, over writes that may take nothing, and the descent into nested JSON objects are
  partial functions, whose value is \<^const>\<open>None\<close> when they do not end, and the properties state that they return.
  The number of attempts of a transfer is the constant of the code. The parser's depth is 32, the default of json-c.
  The length field of a list is a natural number: it wraps in the code only beyond the size of memory.

  \<^bold>\<open>Not modelled.\<close> Queues over AMQP (\<open>queue.c\<close>, \<open>inspector_queue.c\<close>, \<open>response_queue.c\<close>), sockets and TLS
  (\<open>socket.c\<close>), the transports over SSH and HTTP, the health endpoint, logging, daemon, telemetry and the
  initialisation are input and output or calls of other libraries. Command and control, submission, inspection and
  the contexts of \<open>api.c\<close> are threads around these queues; the data structures and messages they work on are
  modelled. Locks (\<open>lock.c\<close>) and threads (\<open>thread.c\<close>, \<open>thread_pool.c\<close>) appear through their effect where a
  component's state depends on it: semaphores of lists, the mutex and thread of timers, the locks of pool items.
  Elsewhere an operation under a lock is one step. Code for Windows only is left out.
\<close>

end
